(* ===== verification/Prelude.thy ===== *)
theory Prelude
  imports Main "HOL-Library.Word"
begin

text \<open>
  Shared vocabulary of the development: names for Rust's machine integers, little-endian
  byte strings, the value of a Rust \<^verbatim>\<open>Result\<close> as a sum, overflow-checked subtraction on
  \<^verbatim>\<open>usize\<close>, and small list facts. Components collect their rewrite rules in the
  \<open>named_theorems\<close> below so that one \<open>simp add:\<close> carries a component's proofs.
\<close>

named_theorems le_simps "little-endian encodings"
named_theorems slot_simps "slot table and client list operations"
named_theorems opt_simps "layered option maps"

type_synonym u8 = "8 word"
type_synonym u16 = "16 word"
type_synonym u32 = "32 word"
type_synonym u64 = "64 word"
type_synonym u128 = "128 word"
type_synonym i16 = "16 word"
type_synonym i32 = "32 word"
type_synonym i64 = "64 word"
type_synonym usize = "64 word"
type_synonym bytes = "8 word list"

subsection \<open>Rust results\<close>

text \<open>\<^verbatim>\<open>Result<T, E>\<close> is \<open>'e + 't\<close>; \<^verbatim>\<open>?\<close> is \<open>rbind\<close>.\<close>

definition rbind :: "'e + 'a \<Rightarrow> ('a \<Rightarrow> 'e + 'b) \<Rightarrow> 'e + 'b" where
  "rbind r f = (case r of Inl e \<Rightarrow> Inl e | Inr x \<Rightarrow> f x)"

lemma rbind_simps [simp]: "rbind (Inl e) f = Inl e" "rbind (Inr x) f = f x"
  by (simp_all add: rbind_def)

lemma rbind_Inr_iff: "rbind r f = Inr y \<longleftrightarrow> (\<exists>x. r = Inr x \<and> f x = Inr y)"
  by (cases r) auto

subsection \<open>Overflow-checked subtraction\<close>

text \<open>
  \<^verbatim>\<open>x - 1\<close> on \<^verbatim>\<open>usize\<close>: with overflow checks (a debug build) \<open>0 - 1\<close> panics, which is
  \<open>None\<close>; without them (a release build) it wraps to \<^verbatim>\<open>usize::MAX\<close>.
\<close>

definition usize_pred :: "bool \<Rightarrow> usize \<Rightarrow> usize option" where
  "usize_pred checks x = (if checks \<and> x = 0 then None else Some (x - 1))"

lemma unat_pred_zero: "unat (0 - 1 :: usize) = 2 ^ 64 - 1"
  by (simp add: unsigned_minus_1_eq_mask mask_eq_exp_minus_1)

lemma unat_pred_pos: "x \<noteq> 0 \<Longrightarrow> unat (x - 1 :: usize) = unat x - 1"
  by (simp add: unat_minus_one)

subsection \<open>Little-endian byte strings\<close>

fun nat_to_le :: "nat \<Rightarrow> nat \<Rightarrow> bytes" where
  "nat_to_le 0 k = []"
| "nat_to_le (Suc n) k = of_nat (k mod 256) # nat_to_le n (k div 256)"

fun nat_of_le :: "bytes \<Rightarrow> nat" where
  "nat_of_le [] = 0"
| "nat_of_le (b # bs) = unat b + 256 * nat_of_le bs"

definition to_le_bytes :: "'a::len word \<Rightarrow> bytes" where
  "to_le_bytes w = nat_to_le (LENGTH('a) div 8) (unat w)"

definition from_le_bytes :: "bytes \<Rightarrow> 'a::len word" where
  "from_le_bytes bs = of_nat (nat_of_le bs)"

lemma length_nat_to_le [simp, le_simps]: "length (nat_to_le n k) = n"
  by (induction n arbitrary: k) auto

lemma nat_of_le_bound: "nat_of_le bs < 256 ^ length bs"
proof (induction bs)
  case Nil
  then show ?case by simp
next
  case (Cons b bs)
  have "unat b < 256" using unsigned_less [of b] by simp
  moreover have "nat_of_le bs + 1 \<le> 256 ^ length bs" using Cons.IH by simp
  then have "256 * (nat_of_le bs + 1) \<le> 256 * 256 ^ length bs"
    by (rule mult_le_mono2)
  ultimately show ?case by simp
qed

lemma unat_byte_mod [simp]: "unat (word_of_nat (k mod 256) :: u8) = k mod 256"
  by (simp add: unat_of_nat)

lemma nat_of_le_nat_to_le [simp, le_simps]: "nat_of_le (nat_to_le n k) = k mod 256 ^ n"
proof (induction n arbitrary: k)
  case 0
  then show ?case by simp
next
  case (Suc n)
  have "k mod 256 ^ Suc n = 256 * (k div 256 mod 256 ^ n) + k mod 256"
    by (simp add: mod_mult2_eq)
  with Suc.IH show ?case by simp
qed

lemma nat_to_le_nat_of_le [simp, le_simps]:
  "nat_to_le (length bs) (nat_of_le bs) = bs"
proof (induction bs)
  case Nil
  then show ?case by simp
next
  case (Cons b bs)
  have b: "unat b < 256" using unsigned_less [of b] by simp
  then have "(unat b + 256 * nat_of_le bs) mod 256 = unat b" by simp
  moreover from b have "(unat b + 256 * nat_of_le bs) div 256 = nat_of_le bs" by simp
  ultimately show ?case using Cons.IH by simp
qed

lemma length_to_le_bytes [le_simps]: "length (to_le_bytes (w :: 'a::len word)) = LENGTH('a) div 8"
  by (simp add: to_le_bytes_def)

lemma from_to_le_bytes:
  assumes "8 dvd LENGTH('a)"
  shows "from_le_bytes (to_le_bytes w) = (w :: 'a::len word)"
proof -
  from assms obtain k where k: "LENGTH('a) = 8 * k" by (auto elim: dvdE)
  have "(256 :: nat) ^ k = 2 ^ LENGTH('a)"
    by (simp add: k power_mult)
  then have "unat w mod 256 ^ k = unat w"
    using unsigned_less [of w] by simp
  then show ?thesis
    by (simp add: from_le_bytes_def to_le_bytes_def k)
qed

lemma to_from_le_bytes:
  assumes "length bs = LENGTH('a) div 8" and "8 dvd LENGTH('a)"
  shows "to_le_bytes (from_le_bytes bs :: 'a::len word) = bs"
proof -
  from assms(2) obtain k where k: "LENGTH('a) = 8 * k" by (auto elim: dvdE)
  with assms(1) have len: "length bs = k" by simp
  have "nat_of_le bs < 2 ^ LENGTH('a)"
    using nat_of_le_bound [of bs] by (simp add: k len power_mult)
  then have "unat (from_le_bytes bs :: 'a word) = nat_of_le bs"
    by (simp add: from_le_bytes_def unat_of_nat)
  then show ?thesis
    using nat_to_le_nat_of_le [of bs] by (simp add: to_le_bytes_def k len)
qed

lemma to_from_le16 [le_simps]: "to_le_bytes (from_le_bytes [a, b] :: u16) = [a, b]"
  by (rule to_from_le_bytes) simp_all

lemma from_to_le16 [le_simps]: "from_le_bytes (to_le_bytes w) = (w :: u16)"
  by (rule from_to_le_bytes) simp

lemma from_to_le32 [le_simps]: "from_le_bytes (to_le_bytes w) = (w :: u32)"
  by (rule from_to_le_bytes) simp

lemma from_to_le64 [le_simps]: "from_le_bytes (to_le_bytes w) = (w :: u64)"
  by (rule from_to_le_bytes) simp

lemma from_to_le128 [le_simps]: "from_le_bytes (to_le_bytes w) = (w :: u128)"
  by (rule from_to_le_bytes) simp

lemma nat_of_le_append: "nat_of_le (xs @ ys) = nat_of_le xs + 256 ^ length xs * nat_of_le ys"
  by (induction xs) (simp_all add: algebra_simps)

subsection \<open>Slices\<close>

text \<open>\<^verbatim>\<open>buf[a..b]\<close>.\<close>

definition subslice :: "nat \<Rightarrow> nat \<Rightarrow> 'a list \<Rightarrow> 'a list" where
  "subslice a b xs = take (b - a) (drop a xs)"

text \<open>\<^verbatim>\<open>buf[a..a + src.len()].copy_from_slice(src)\<close>, for a range inside the buffer.\<close>

definition copy_at :: "nat \<Rightarrow> 'a list \<Rightarrow> 'a list \<Rightarrow> 'a list" where
  "copy_at a src buf = take a buf @ src @ drop (a + length src) buf"

lemma length_copy_at:
  "a + length src \<le> length buf \<Longrightarrow> length (copy_at a src buf) = length buf"
  by (simp add: copy_at_def)

lemma subslice_copy_at:
  "a + length src \<le> length buf \<Longrightarrow> subslice a (a + length src) (copy_at a src buf) = src"
  by (simp add: subslice_def copy_at_def)

lemma nth_copy_at_outside:
  assumes "a + length src \<le> length buf" and "i < length buf"
    and "i < a \<or> a + length src \<le> i"
  shows "copy_at a src buf ! i = buf ! i"
  using assms by (auto simp: copy_at_def nth_append min_def)

lemma all_slots_update:
  assumes "\<forall>j < length xs. P j (xs ! j)" and "P i x"
  shows "\<forall>j < length (xs[i := x]). P j (xs[i := x] ! j)"
proof (intro allI impI)
  fix j assume "j < length (xs[i := x])"
  then show "P j (xs[i := x] ! j)" using assms by (cases "i = j") auto
qed

end
