(* ===== verification/Net.thy ===== *)
theory Net
  imports Prelude
begin

unbundle bit_operations_syntax

text \<open>
  The parts of \<^verbatim>\<open>std::net\<close> the program uses: \<^verbatim>\<open>SocketAddr\<close> values and the text that
  \<^verbatim>\<open>Display\<close> prints for an IP address. An IPv4 address is kept as its four octets, an IPv6
  address as its eight 16-bit segments, in network order.
\<close>

datatype ip_addr = IpV4 u8 u8 u8 u8 | IpV6 "u16 list"

datatype sock_addr =
  SockV4 ip_addr u16
| SockV6 ip_addr u16 u32 u32  \<comment> \<open>address, port, flow information, scope id\<close>

fun sock_ip :: "sock_addr \<Rightarrow> ip_addr" where
  "sock_ip (SockV4 i p) = i"
| "sock_ip (SockV6 i p f s) = i"

fun sock_port :: "sock_addr \<Rightarrow> u16" where
  "sock_port (SockV4 i p) = p"
| "sock_port (SockV6 i p f s) = p"

subsection \<open>Decimal and hexadecimal text\<close>

definition digit_char :: "nat \<Rightarrow> char" where
  "digit_char d = (if d < 10 then char_of (48 + d) else char_of (87 + d))"

fun digits_base :: "nat \<Rightarrow> nat \<Rightarrow> string" where
  "digits_base b n =
     (if b < 2 then '''' else if n < b then [digit_char n]
      else digits_base b (n div b) @ [digit_char (n mod b)])"

declare digits_base.simps [simp del]

definition dec_string :: "nat \<Rightarrow> string" where
  "dec_string n = digits_base 10 n"

definition hex_string :: "nat \<Rightarrow> string" where
  "hex_string n = digits_base 16 n"

definition int_string :: "int \<Rightarrow> string" where
  "int_string i = (if i < 0 then ''-'' @ dec_string (nat (- i)) else dec_string (nat i))"

fun join_with :: "string \<Rightarrow> string list \<Rightarrow> string" where
  "join_with sep [] = ''''"
| "join_with sep [x] = x"
| "join_with sep (x # xs) = x @ sep @ join_with sep xs"

subsection \<open>Display of IP addresses\<close>

text \<open>The first longest run of zero segments, as (start, length).\<close>

fun zero_run :: "u16 list \<Rightarrow> nat" where
  "zero_run [] = 0"
| "zero_run (x # xs) = (if x = 0 then Suc (zero_run xs) else 0)"

fun longest_zero_run :: "nat \<Rightarrow> u16 list \<Rightarrow> nat \<times> nat" where
  "longest_zero_run i [] = (0, 0)"
| "longest_zero_run i (x # xs) =
     (let here = zero_run (x # xs); (s, l) = longest_zero_run (Suc i) xs
      in if l \<le> here \<and> 0 < here then (i, here) else (s, l))"

definition v4_string :: "u8 \<Rightarrow> u8 \<Rightarrow> u8 \<Rightarrow> u8 \<Rightarrow> string" where
  "v4_string a b c d = join_with ''.'' (map (\<lambda>x. dec_string (unat x)) [a, b, c, d])"

definition v6_string :: "u16 list \<Rightarrow> string" where
  "v6_string segs =
     (if take 6 segs = [0, 0, 0, 0, 0, 0xFFFF] \<and> length segs = 8
      then ''::ffff:'' @ v4_string (ucast (drop_bit 8 (segs ! 6))) (ucast (segs ! 6))
             (ucast (drop_bit 8 (segs ! 7))) (ucast (segs ! 7))
      else let (s, l) = longest_zero_run 0 segs;
               part = (\<lambda>xs. join_with '':'' (map (\<lambda>x. hex_string (unat x)) xs))
           in if 1 < l then part (take s segs) @ ''::'' @ part (drop (s + l) segs)
              else part segs)"

fun ip_string :: "ip_addr \<Rightarrow> string" where
  "ip_string (IpV4 a b c d) = v4_string a b c d"
| "ip_string (IpV6 segs) = v6_string segs"

lemma ip_string_loopback: "ip_string (IpV6 [0, 0, 0, 0, 0, 0, 0, 1]) = ''::1''"
  by code_simp

lemma ip_string_v4: "ip_string (IpV4 192 168 0 130) = ''192.168.0.130''"
  by code_simp

end
