(* ===== verification/PadTypes.thy ===== *)
theory PadTypes
  imports Net
begin

unbundle bit_operations_syntax

text \<open>
  \<^verbatim>\<open>src-tauri/src/types.rs\<close>: the constants, the IOCTL codes, the gamepad report and its
  memory layout, the client slots and the global tables of the server. The numeric values
  of the Windows constants are not part of the repository: they are the record
  \<open>win_consts\<close>.
\<close>

definition MAX_CLIENTS :: nat where "MAX_CLIENTS = 4"
definition BUFFER_SIZE :: nat where "BUFFER_SIZE = 17"
definition FEEDBACK_BUFFER_LENGTH :: nat where "FEEDBACK_BUFFER_LENGTH = 9"

subsection \<open>IOCTL codes\<close>

record win_consts =
  FILE_DEVICE_BUS_EXTENDER :: u32
  METHOD_BUFFERED :: u32
  FILE_READ_DATA :: u32
  FILE_WRITE_DATA :: u32

definition IOCTL_BUSENUM_BASE :: u32 where "IOCTL_BUSENUM_BASE = 0x801"

definition ctl_code :: "u32 \<Rightarrow> u32 \<Rightarrow> u32 \<Rightarrow> u32 \<Rightarrow> u32" where
  "ctl_code device_type fn method access =
     push_bit 16 device_type OR push_bit 14 access OR push_bit 2 fn OR method"

definition IOCTL_BUSENUM_PLUGIN_HARDWARE :: "win_consts \<Rightarrow> u32" where
  "IOCTL_BUSENUM_PLUGIN_HARDWARE c = ctl_code (FILE_DEVICE_BUS_EXTENDER c)
     (IOCTL_BUSENUM_BASE + 0x0) (METHOD_BUFFERED c) (FILE_WRITE_DATA c)"

definition IOCTL_BUSENUM_UNPLUG_HARDWARE :: "win_consts \<Rightarrow> u32" where
  "IOCTL_BUSENUM_UNPLUG_HARDWARE c = ctl_code (FILE_DEVICE_BUS_EXTENDER c)
     (IOCTL_BUSENUM_BASE + 0x1) (METHOD_BUFFERED c) (FILE_WRITE_DATA c)"

definition IOCTL_BUSENUM_REPORT_HARDWARE :: "win_consts \<Rightarrow> u32" where
  "IOCTL_BUSENUM_REPORT_HARDWARE c = ctl_code (FILE_DEVICE_BUS_EXTENDER c)
     (IOCTL_BUSENUM_BASE + 0x3) (METHOD_BUFFERED c) (FILE_WRITE_DATA c OR FILE_READ_DATA c)"

lemma ctl_code_bit:
  "bit (ctl_code d f m a) i \<longleftrightarrow> i < 32 \<and>
     (16 \<le> i \<and> bit d (i - 16) \<or> 14 \<le> i \<and> bit a (i - 14) \<or> 2 \<le> i \<and> bit f (i - 2) \<or> bit m i)"
  by (auto simp: ctl_code_def bit_simps dest: bit_imp_le_length)

text \<open>A value below a power of two has no bit at or above it.\<close>

lemma bit_small:
  assumes "unat (w :: u32) < 2 ^ n" and "bit w i"
  shows "i < n"
proof (rule ccontr)
  assume "\<not> i < n"
  from assms(1) have "take_bit n (unat w) = unat w" by (simp add: take_bit_nat_eq_self)
  moreover have "bit (unat w) i" using assms(2) by (simp add: bit_unsigned_iff)
  ultimately have "bit (take_bit n (unat w)) i" by simp
  with \<open>\<not> i < n\<close> show False by (simp add: bit_take_bit_iff)
qed

text \<open>The four fields of a control code are recovered from it when each fits its width.\<close>

lemma ctl_code_fields:
  assumes "unat d < 2 ^ 16" and "unat f < 2 ^ 12" and "unat m < 2 ^ 2" and "unat a < 2 ^ 2"
  shows "drop_bit 16 (ctl_code d f m a) = d"
    and "take_bit 2 (drop_bit 14 (ctl_code d f m a)) = a"
    and "take_bit 12 (drop_bit 2 (ctl_code d f m a)) = f"
    and "take_bit 2 (ctl_code d f m a) = m"
proof -
  note small = bit_small [OF assms(1)] bit_small [OF assms(2)] bit_small [OF assms(3)]
    bit_small [OF assms(4)]
  show "drop_bit 16 (ctl_code d f m a) = d"
    by (rule bit_eqI) (use small in \<open>fastforce simp: bit_simps ctl_code_bit\<close>)
  show "take_bit 2 (drop_bit 14 (ctl_code d f m a)) = a"
    by (rule bit_eqI) (use small in \<open>fastforce simp: bit_simps ctl_code_bit\<close>)
  show "take_bit 12 (drop_bit 2 (ctl_code d f m a)) = f"
    by (rule bit_eqI) (use small in \<open>fastforce simp: bit_simps ctl_code_bit\<close>)
  show "take_bit 2 (ctl_code d f m a) = m"
    by (rule bit_eqI) (use small in \<open>fastforce simp: bit_simps ctl_code_bit\<close>)
qed

subsection \<open>The gamepad report\<close>

record gamepad =
  w_buttons :: u16
  b_left_trigger :: u8
  b_right_trigger :: u8
  s_thumb_lx :: i16
  s_thumb_ly :: i16
  s_thumb_rx :: i16
  s_thumb_ry :: i16

text \<open>
  \<^verbatim>\<open>#[repr(C)]\<close> on a little-endian machine: twelve bytes, no padding. \<^verbatim>\<open>slice::from_raw_parts\<close>
  on the struct reads these bytes, and \<^verbatim>\<open>ptr::copy_nonoverlapping\<close> into it writes them.
\<close>

definition gamepad_bytes :: "gamepad \<Rightarrow> bytes" where
  "gamepad_bytes g = to_le_bytes (w_buttons g) @ [b_left_trigger g, b_right_trigger g]
     @ to_le_bytes (s_thumb_lx g) @ to_le_bytes (s_thumb_ly g)
     @ to_le_bytes (s_thumb_rx g) @ to_le_bytes (s_thumb_ry g)"

definition gamepad_at :: "nat \<Rightarrow> bytes \<Rightarrow> gamepad" where
  "gamepad_at k buf = \<lparr>
     w_buttons = from_le_bytes [buf ! k, buf ! (k + 1)],
     b_left_trigger = buf ! (k + 2),
     b_right_trigger = buf ! (k + 3),
     s_thumb_lx = from_le_bytes [buf ! (k + 4), buf ! (k + 5)],
     s_thumb_ly = from_le_bytes [buf ! (k + 6), buf ! (k + 7)],
     s_thumb_rx = from_le_bytes [buf ! (k + 8), buf ! (k + 9)],
     s_thumb_ry = from_le_bytes [buf ! (k + 10), buf ! (k + 11)]\<rparr>"

definition gamepad_zero :: gamepad where
  "gamepad_zero = \<lparr>w_buttons = 0, b_left_trigger = 0, b_right_trigger = 0,
     s_thumb_lx = 0, s_thumb_ly = 0, s_thumb_rx = 0, s_thumb_ry = 0\<rparr>"

lemma length_gamepad_bytes [simp]: "length (gamepad_bytes g) = 12"
  by (simp add: gamepad_bytes_def length_to_le_bytes)

lemma subslice_12:
  "k + 12 \<le> length buf \<Longrightarrow> subslice k (k + 12) buf = map (\<lambda>i. buf ! (k + i)) [0..<12]"
  by (simp add: subslice_def list_eq_iff_nth_eq)

text \<open>Reading twelve bytes as a gamepad and laying it out again gives the same bytes.\<close>

lemma gamepad_bytes_at:
  "k + 12 \<le> length buf \<Longrightarrow> gamepad_bytes (gamepad_at k buf) = subslice k (k + 12) buf"
  unfolding subslice_12
  by (simp add: gamepad_bytes_def gamepad_at_def to_from_le16 upt_rec eval_nat_numeral)

subsection \<open>Slots and the global tables\<close>

text \<open>\<^verbatim>\<open>Instant\<close> is a count of nanoseconds.\<close>

record client_slot =
  occupied :: bool
  client_number :: "usize option"
  last_sequence :: u32
  slot_addr :: "sock_addr option"
  last_packet_time :: "nat option"

record client_info =
  ci_ip :: string
  ci_slot :: usize

record server_info =
  si_ip :: string
  si_port :: string

definition empty_slot :: client_slot where
  "empty_slot = \<lparr>occupied = False, client_number = None, last_sequence = 0,
     slot_addr = None, last_packet_time = None\<rparr>"

text \<open>The initial values of \<^verbatim>\<open>CLIENT_SLOTS\<close>, \<^verbatim>\<open>CONNECTED_CLIENTS\<close> and \<^verbatim>\<open>SERVER_IP\<close>.\<close>

definition CLIENT_SLOTS_init :: "client_slot list" where
  "CLIENT_SLOTS_init = [empty_slot, empty_slot, empty_slot, empty_slot]"

definition CONNECTED_CLIENTS_init :: "client_info list" where
  "CONNECTED_CLIENTS_init = []"

definition SERVER_IP_init :: server_info where
  "SERVER_IP_init = \<lparr>si_ip = ''40405'', si_port = ''0.0.0.0''\<rparr>"

definition G_V_DEVICE_init :: "bool list" where
  "G_V_DEVICE_init = replicate MAX_CLIENTS False"

end
