(* ===== verification/VBusDriver.thy ===== *)
theory VBusDriver
  imports PadTypes
begin

unbundle bit_operations_syntax

text \<open>
  \<^verbatim>\<open>src-tauri/src/vbus/driver.rs\<close>: the \<^verbatim>\<open>ControllerDevice\<close> trait as a record of operations
  over a device state, the interface its clients rely on as the locale
  \<open>controller_device\<close>, and \<^verbatim>\<open>VBusDriver\<close>, the implementation over the Windows API. The
  Windows calls are fields of the record \<open>winapi\<close>: each takes and returns a world of any
  type \<open>'w\<close>.
\<close>

subsection \<open>The trait\<close>

record 's device =
  dev_plug_in :: "u32 \<Rightarrow> 's \<Rightarrow> i32 \<times> 's"
  dev_unplug :: "u32 \<Rightarrow> 's \<Rightarrow> i32 \<times> 's"
  dev_execute :: "gamepad \<Rightarrow> bytes \<Rightarrow> 's \<Rightarrow> bool \<times> bytes \<times> 's"
  dev_key_up :: "i32 \<Rightarrow> 's \<Rightarrow> 's"
  dev_key_down :: "i32 \<Rightarrow> 's \<Rightarrow> 's"

subsection \<open>The Windows API and the driver's state\<close>

text \<open>
  One device interface as the setup API reports it: the size it asks for, whether the
  allocation of that size succeeds, and, if the second call succeeds, the memory that
  starts at \<^verbatim>\<open>DevicePath\<close>, read as 16-bit units.
\<close>

record vx_iface =
  required_size :: u32
  alloc_ok :: bool
  device_path_mem :: "(nat \<Rightarrow> u16) option"

record keybd_input =
  w_vk :: u16
  w_scan :: u16
  dw_flags :: u32

record 'w winapi =
  wa_consts :: win_consts
  INVALID_HANDLE :: u64
  setup_class_devs :: "'w \<Rightarrow> bool"  \<comment> \<open>\<^verbatim>\<open>SetupDiGetClassDevsW\<close> is not null\<close>
  setup_enum_interfaces :: "'w \<Rightarrow> vx_iface list"
  create_file :: "u16 list \<Rightarrow> 'w \<Rightarrow> u64 \<times> 'w"
  device_io_control :: "u64 \<Rightarrow> u32 \<Rightarrow> bytes \<Rightarrow> 'w \<Rightarrow> i32 \<times> 'w"
  map_virtual_key :: "u32 \<Rightarrow> u32"
  send_input :: "keybd_input \<Rightarrow> 'w \<Rightarrow> 'w"

text \<open>
  \<^verbatim>\<open>BUS_HANDLE\<close> and \<^verbatim>\<open>G_V_DEVICE\<close> are statics of the program. \<open>path_overrun\<close> records whether
  \<^verbatim>\<open>get_vxbus_path\<close> ever wrote past the caller's \<^verbatim>\<open>MAX_PATH\<close> units.
\<close>

record 'w vbus =
  bus_handle :: u64
  g_v_device :: "bool list"
  path_overrun :: bool
  world :: 'w

definition MAX_PATH :: nat where "MAX_PATH = 260"

subsection \<open>Finding and opening the bus\<close>

text \<open>
  \<open>for i in 0..num_chars { *path.add(i) = *device_path.add(i) }\<close>: the units that fit the
  buffer, and whether the loop went past its end.
\<close>

definition copy_path :: "nat \<Rightarrow> (nat \<Rightarrow> u16) \<Rightarrow> u16 list \<Rightarrow> u16 list \<times> bool" where
  "copy_path num_chars mem path =
     (map mem [0..<min num_chars (length path)] @ drop num_chars path, length path < num_chars)"

fun scan_interfaces :: "vx_iface list \<Rightarrow> u32 \<Rightarrow> u16 list \<times> bool \<Rightarrow> i32 \<times> u16 list \<times> bool" where
  "scan_interfaces [] member_index (path, over) =
     (if member_index = 0 then -1 else member_index, path, over)"
| "scan_interfaces (x # xs) member_index (path, over) =
     (if \<not> alloc_ok x then (-1, path, over)
      else case device_path_mem x of
        None \<Rightarrow> (-1, path, over)
      | Some mem \<Rightarrow>
          let num_chars = unat (required_size x div 2); (path', over') = copy_path num_chars mem path
          in scan_interfaces xs (member_index + 1) (path', over \<or> over'))"

definition get_vxbus_path :: "'w winapi \<Rightarrow> u16 list \<Rightarrow> 'w \<Rightarrow> i32 \<times> u16 list \<times> bool" where
  "get_vxbus_path api path w =
     (if \<not> setup_class_devs api w then (-1, path, False)
      else scan_interfaces (setup_enum_interfaces api w) 0 (path, False))"

definition get_vxbus_handle :: "'w winapi \<Rightarrow> 'w vbus \<Rightarrow> u64 \<times> 'w vbus" where
  "get_vxbus_handle api b =
     (let (n, path, over) = get_vxbus_path api (replicate MAX_PATH 0) (world b);
          b' = b\<lparr>path_overrun := path_overrun b \<or> over\<rparr>
      in if sint n < 1 then (INVALID_HANDLE api, b')
         else let (handle, w') = create_file api path (world b')
              in if handle = INVALID_HANDLE api then (INVALID_HANDLE api, b'\<lparr>world := w'\<rparr>)
                 else (handle, b'\<lparr>world := w'\<rparr>))"

definition is_vbus_exists :: "'w winapi \<Rightarrow> 'w \<Rightarrow> bool" where
  "is_vbus_exists api w = (0 < sint (fst (get_vxbus_path api (replicate MAX_PATH 0) w)))"

text \<open>The common prologue of \<^verbatim>\<open>plug_in\<close> and \<^verbatim>\<open>unplug\<close>: open the bus unless it is open.\<close>

definition ensure_bus :: "'w winapi \<Rightarrow> 'w vbus \<Rightarrow> 'w vbus" where
  "ensure_bus api b =
     (if bus_handle b = INVALID_HANDLE api
      then let (h, b') = get_vxbus_handle api b in b'\<lparr>bus_handle := h\<rparr>
      else b)"

subsection \<open>Plugging, unplugging, reporting\<close>

definition plug_in_buffer :: "u32 \<Rightarrow> bytes" where
  "plug_in_buffer user_index = (replicate 16 0)
     [0 := 0x10,
      4 := ucast (drop_bit 0 user_index AND 0xFF),
      5 := ucast (drop_bit 8 user_index AND 0xFF),
      6 := ucast (drop_bit 16 user_index AND 0xFF),
      8 := ucast (drop_bit 24 user_index AND 0xFF)]"

definition plug_in :: "'w winapi \<Rightarrow> u32 \<Rightarrow> 'w vbus \<Rightarrow> i32 \<times> 'w vbus" where
  "plug_in api user_index b =
     (if user_index < 1 \<or> 4 < user_index then (0, b)
      else let b1 = ensure_bus api b
           in if bus_handle b1 = INVALID_HANDLE api then (0, b1)
              else let (out, w') = device_io_control api (bus_handle b1)
                         (IOCTL_BUSENUM_PLUGIN_HARDWARE (wa_consts api))
                         (plug_in_buffer user_index) (world b1);
                       b2 = b1\<lparr>world := w'\<rparr>
                   in if out \<noteq> 0
                      then (out, b2\<lparr>g_v_device := (g_v_device b2)[unat (user_index - 1) := True]\<rparr>)
                      else (out, b2))"

text \<open>\<^verbatim>\<open>BusenumUnplugHardware\<close>: four \<^verbatim>\<open>u32\<close> fields, sixteen bytes.\<close>

record busenum_unplug_hardware =
  bu_size :: u32
  bu_serial_no :: u32
  bu_flags :: u32
  bu_reserved :: u32

definition unplug_bytes :: "busenum_unplug_hardware \<Rightarrow> bytes" where
  "unplug_bytes u = to_le_bytes (bu_size u) @ to_le_bytes (bu_serial_no u)
     @ to_le_bytes (bu_flags u) @ to_le_bytes (bu_reserved u)"

definition unplug :: "'w winapi \<Rightarrow> u32 \<Rightarrow> 'w vbus \<Rightarrow> i32 \<times> 'w vbus" where
  "unplug api user_index b =
     (if user_index < 1 \<or> 4 < user_index then (0, b)
      else let b1 = ensure_bus api b
           in if bus_handle b1 = INVALID_HANDLE api then (0, b1)
              else let buffer = \<lparr>bu_size = 16, bu_serial_no = user_index, bu_flags = 0x0001,
                                 bu_reserved = 0\<rparr>;
                       (out, w') = device_io_control api (bus_handle b1)
                         (IOCTL_BUSENUM_UNPLUG_HARDWARE (wa_consts api))
                         (unplug_bytes buffer) (world b1);
                       b2 = b1\<lparr>world := w'\<rparr>
                   in if out \<noteq> 0
                      then (out, b2\<lparr>g_v_device := (g_v_device b2)[unat (user_index - 1) := True]\<rparr>)
                      else (out, b2))"

definition execute :: "'w winapi \<Rightarrow> gamepad \<Rightarrow> bytes \<Rightarrow> 'w vbus \<Rightarrow> bool \<times> bytes \<times> 'w vbus" where
  "execute api g buffer b =
     (let buffer' = copy_at 10 (gamepad_bytes g) buffer;
          (success, w') = device_io_control api (bus_handle b)
            (IOCTL_BUSENUM_REPORT_HARDWARE (wa_consts api)) buffer' (world b)
      in (success \<noteq> 0, buffer', b\<lparr>world := w'\<rparr>))"

definition key_down :: "'w winapi \<Rightarrow> i32 \<Rightarrow> 'w vbus \<Rightarrow> 'w vbus" where
  "key_down api vk b = b\<lparr>world := send_input api
     \<lparr>w_vk = 0, w_scan = ucast (map_virtual_key api vk), dw_flags = 0x0008\<rparr> (world b)\<rparr>"

definition key_up :: "'w winapi \<Rightarrow> i32 \<Rightarrow> 'w vbus \<Rightarrow> 'w vbus" where
  "key_up api vk b = b\<lparr>world := send_input api
     \<lparr>w_vk = 0, w_scan = ucast (map_virtual_key api vk), dw_flags = 0x0008 OR 0x0002\<rparr> (world b)\<rparr>"

definition vbus_device :: "'w winapi \<Rightarrow> ('w vbus) device" where
  "vbus_device api = \<lparr>dev_plug_in = plug_in api, dev_unplug = unplug api,
     dev_execute = execute api, dev_key_up = key_up api, dev_key_down = key_down api\<rparr>"

definition vbus_init :: "'w winapi \<Rightarrow> 'w \<Rightarrow> 'w vbus" where
  "vbus_init api w = \<lparr>bus_handle = INVALID_HANDLE api, g_v_device = G_V_DEVICE_init,
     path_overrun = False, world = w\<rparr>"

subsection \<open>What the clients of the trait rely on\<close>

locale controller_device =
  fixes dev :: "'s device"
    and dev_ok :: "'s \<Rightarrow> bool"
  assumes plug_in_range: "ui < 1 \<or> 4 < ui \<Longrightarrow> dev_plug_in dev ui d = (0, d)"
    and unplug_range: "ui < 1 \<or> 4 < ui \<Longrightarrow> dev_unplug dev ui d = (0, d)"
    and execute_buffer: "fst (snd (dev_execute dev g b d)) = copy_at 10 (gamepad_bytes g) b"
    and plug_in_ok: "dev_ok d \<Longrightarrow> dev_ok (snd (dev_plug_in dev ui d))"
    and unplug_ok: "dev_ok d \<Longrightarrow> dev_ok (snd (dev_unplug dev ui d))"
    and execute_ok: "dev_ok d \<Longrightarrow> dev_ok (snd (snd (dev_execute dev g b d)))"
    and key_up_ok: "dev_ok d \<Longrightarrow> dev_ok (dev_key_up dev vk d)"
    and key_down_ok: "dev_ok d \<Longrightarrow> dev_ok (dev_key_down dev vk d)"

text \<open>The driver keeps its table of four flags, so the write at \<open>user_index - 1\<close> is in range.\<close>

definition vbus_ok :: "'w vbus \<Rightarrow> bool" where
  "vbus_ok b \<longleftrightarrow> length (g_v_device b) = MAX_CLIENTS"

lemma vbus_ok_simps [simp]:
  "vbus_ok (b\<lparr>world := w\<rparr>) = vbus_ok b"
  "vbus_ok (b\<lparr>bus_handle := h\<rparr>) = vbus_ok b"
  "vbus_ok (b\<lparr>path_overrun := p\<rparr>) = vbus_ok b"
  "vbus_ok (b\<lparr>g_v_device := (g_v_device b)[i := x]\<rparr>) = vbus_ok b"
  by (simp_all add: vbus_ok_def)

lemma get_vxbus_handle_ok: "vbus_ok (snd (get_vxbus_handle api b)) = vbus_ok b"
  by (simp add: get_vxbus_handle_def Let_def split: prod.split)

lemma ensure_bus_ok [simp]: "vbus_ok (ensure_bus api b) = vbus_ok b"
  using get_vxbus_handle_ok [of api b]
  by (auto simp: ensure_bus_def split: prod.split)

lemma vbus_ok_set_flag:
  "vbus_ok (b\<lparr>world := w, g_v_device := (g_v_device b)[i := x]\<rparr>) = vbus_ok b"
  by (simp add: vbus_ok_def)

lemma plug_in_vbus_ok: "vbus_ok b \<Longrightarrow> vbus_ok (snd (plug_in api ui b))"
  by (simp add: plug_in_def Let_def vbus_ok_set_flag split: prod.split)

lemma unplug_vbus_ok: "vbus_ok b \<Longrightarrow> vbus_ok (snd (unplug api ui b))"
  by (simp add: unplug_def Let_def vbus_ok_set_flag split: prod.split)

lemma execute_vbus_ok: "vbus_ok b \<Longrightarrow> vbus_ok (snd (snd (execute api g buf b)))"
  by (simp add: execute_def Let_def split: prod.split)

interpretation vb: controller_device "vbus_device api" vbus_ok for api :: "'w winapi"
proof (unfold_locales, goal_cases)
  case 1 then show ?case by (simp add: vbus_device_def plug_in_def)
next
  case 2 then show ?case by (simp add: vbus_device_def unplug_def)
next
  case 3 show ?case by (simp add: vbus_device_def execute_def Let_def split: prod.split)
next
  case 4 then show ?case by (simp add: vbus_device_def plug_in_vbus_ok)
next
  case 5 then show ?case by (simp add: vbus_device_def unplug_vbus_ok)
next
  case 6 then show ?case by (simp add: vbus_device_def execute_vbus_ok)
next
  case 7 then show ?case by (simp add: vbus_device_def key_up_def)
next
  case 8 then show ?case by (simp add: vbus_device_def key_down_def)
qed

subsection \<open>Behaviour of the driver\<close>

lemma user_index_cases:
  assumes "\<not> (ui < 1 \<or> 4 < (ui :: u32))"
  shows "ui = 1 \<or> ui = 2 \<or> ui = 3 \<or> ui = 4"
  using assms by unat_arith

lemma plug_in_buffer_valid:
  assumes "\<not> (ui < 1 \<or> 4 < ui)"
  shows "plug_in_buffer ui = [0x10, 0, 0, 0, ucast ui, 0, 0, 0, 0, 0, 0, 0, 0, 0, 0, 0]"
proof -
  have "plug_in_buffer 1 = [0x10, 0, 0, 0, ucast (1 :: u32), 0, 0, 0, 0, 0, 0, 0, 0, 0, 0, 0]"
    and "plug_in_buffer 2 = [0x10, 0, 0, 0, ucast (2 :: u32), 0, 0, 0, 0, 0, 0, 0, 0, 0, 0, 0]"
    and "plug_in_buffer 3 = [0x10, 0, 0, 0, ucast (3 :: u32), 0, 0, 0, 0, 0, 0, 0, 0, 0, 0, 0]"
    and "plug_in_buffer 4 = [0x10, 0, 0, 0, ucast (4 :: u32), 0, 0, 0, 0, 0, 0, 0, 0, 0, 0, 0]"
    by code_simp+
  with user_index_cases [OF assms] show ?thesis by metis
qed

text \<open>With an open bus, a successful call is one device request and marks the flag.\<close>

lemma plug_in_open:
  assumes "\<not> (ui < 1 \<or> 4 < ui)" and "bus_handle b \<noteq> INVALID_HANDLE api"
    and "device_io_control api (bus_handle b) (IOCTL_BUSENUM_PLUGIN_HARDWARE (wa_consts api))
           (plug_in_buffer ui) (world b) = (out, w')"
  shows "plug_in api ui b = (out, if out \<noteq> 0
           then b\<lparr>world := w', g_v_device := (g_v_device b)[unat (ui - 1) := True]\<rparr>
           else b\<lparr>world := w'\<rparr>)"
  using assms by (simp add: plug_in_def ensure_bus_def)

lemma unplug_open:
  assumes "\<not> (ui < 1 \<or> 4 < ui)" and "bus_handle b \<noteq> INVALID_HANDLE api"
    and "device_io_control api (bus_handle b) (IOCTL_BUSENUM_UNPLUG_HARDWARE (wa_consts api))
           (unplug_bytes \<lparr>bu_size = 16, bu_serial_no = ui, bu_flags = 1, bu_reserved = 0\<rparr>)
           (world b) = (out, w')"
  shows "unplug api ui b = (out, if out \<noteq> 0
           then b\<lparr>world := w', g_v_device := (g_v_device b)[unat (ui - 1) := True]\<rparr>
           else b\<lparr>world := w'\<rparr>)"
  using assms by (simp add: unplug_def ensure_bus_def)

lemma execute_eq:
  assumes "device_io_control api (bus_handle b) (IOCTL_BUSENUM_REPORT_HARDWARE (wa_consts api))
             (copy_at 10 (gamepad_bytes g) buf) (world b) = (out, w')"
  shows "execute api g buf b = (out \<noteq> 0, copy_at 10 (gamepad_bytes g) buf, b\<lparr>world := w'\<rparr>)"
  using assms by (simp add: execute_def)

text \<open>Interfaces whose detail fits \<^verbatim>\<open>MAX_PATH\<close> units never overrun the caller's buffer.\<close>

lemma length_copy_path [simp]: "length (fst (copy_path n mem path)) = length path"
  by (simp add: copy_path_def)

lemma scan_interfaces_no_overrun:
  assumes "\<forall>x \<in> set xs. unat (required_size x div 2) \<le> length path"
  shows "snd (snd (scan_interfaces xs k (path, over))) = over"
  using assms
proof (induction xs arbitrary: k path over)
  case Nil
  then show ?case by simp
next
  case (Cons x xs)
  show ?case
  proof (cases "device_path_mem x")
    case None
    then show ?thesis by simp
  next
    case (Some mem)
    obtain p o' where cp: "copy_path (unat (required_size x div 2)) mem path = (p, o')"
      by (cases "copy_path (unat (required_size x div 2)) mem path")
    have "\<not> o'" using cp Cons.prems by (auto simp: copy_path_def)
    moreover have "length p = length path"
      using length_copy_path [of "unat (required_size x div 2)" mem path] cp by simp
    ultimately show ?thesis
      using Some cp Cons.prems Cons.IH [of p "k + 1" over] by simp
  qed
qed

end
