(* ===== verification/ControllerServer.thy ===== *)
theory ControllerServer
  imports VBusDriver
begin

unbundle bit_operations_syntax

text \<open>
  \<^verbatim>\<open>src-tauri/src/handler/server.rs\<close> and \<^verbatim>\<open>handler/mod.rs\<close>: the UDP controller server. Its
  state is the global tables of \<^verbatim>\<open>types.rs\<close>, the device, the two background tasks, and the
  receive and device buffers of the listener task. Each \<^verbatim>\<open>async\<close> function is a function on
  this state; a function that can panic returns an option. \<open>checks\<close> tells whether the
  build checks arithmetic overflow, and \<^verbatim>\<open>Instant::now()\<close> is an argument.
\<close>

record 's server =
  slots :: "client_slot list"
  connected :: "client_info list"
  server_ip :: server_info
  listener :: bool  \<comment> \<open>\<^verbatim>\<open>GLOBAL_LISTENER\<close> is \<^verbatim>\<open>Some\<close>\<close>
  udp_running :: bool
  tick_tasks :: nat  \<comment> \<open>auto-disconnect tasks alive\<close>
  rx_buf :: bytes
  dev_buf :: bytes
  sent :: "(bytes \<times> sock_addr) list"
  dev_state :: 's

definition server_init :: "'s \<Rightarrow> 's server" where
  "server_init d = \<lparr>slots = CLIENT_SLOTS_init, connected = CONNECTED_CLIENTS_init,
     server_ip = SERVER_IP_init, listener = False, udp_running = False, tick_tasks = 0,
     rx_buf = replicate 1024 0, dev_buf = replicate 28 0, sent = [], dev_state = d\<rparr>"

subsection \<open>Slots\<close>

fun acquire_scan :: "nat \<Rightarrow> client_slot list \<Rightarrow> (nat \<times> usize \<times> client_slot list) option" where
  "acquire_scan i [] = None"
| "acquire_scan i (s # ss) =
     (if \<not> occupied s
      then let client_id = of_nat (i + 1)
           in Some (i, client_id,
                s\<lparr>occupied := True, client_number := Some client_id, last_sequence := 0\<rparr> # ss)
      else map_option (\<lambda>(j, c, ss'). (j, c, s # ss')) (acquire_scan (i + 1) ss))"

definition acquire_client_slot :: "'s server \<Rightarrow> (nat \<times> usize) option \<times> 's server" where
  "acquire_client_slot s =
     (case acquire_scan 0 (slots s) of
        None \<Rightarrow> (None, s)
      | Some (i, c, ss) \<Rightarrow> (Some (i, c), s\<lparr>slots := ss\<rparr>))"

definition disconnect_client :: "usize \<Rightarrow> 's server \<Rightarrow> 's server" where
  "disconnect_client index s =
     (if unat index < length (connected s)
      then s\<lparr>connected := take (unat index) (connected s) @ drop (Suc (unat index)) (connected s)\<rparr>
      else s)"

definition add_connected_client :: "sock_addr \<Rightarrow> nat \<Rightarrow> 's server \<Rightarrow> 's server" where
  "add_connected_client addr slot_index s =
     (if 4 \<le> length (connected s) then s
      else s\<lparr>connected := connected s @
             [\<lparr>ci_ip = ip_string (sock_ip addr), ci_slot = of_nat (slot_index + 1)\<rparr>]\<rparr>)"

definition clear_slot :: "client_slot \<Rightarrow> client_slot" where
  "clear_slot c = c\<lparr>occupied := False, client_number := None, last_sequence := 0,
     slot_addr := None, last_packet_time := None\<rparr>"

definition release_client_slot ::
  "bool \<Rightarrow> 's device \<Rightarrow> usize \<Rightarrow> 's server \<Rightarrow> 's server option" where
  "release_client_slot checks dev client_id s =
     (case usize_pred checks client_id of
        None \<Rightarrow> None
      | Some slot_index \<Rightarrow>
          let s1 = disconnect_client slot_index s;
              (result, d) = dev_unplug dev (ucast client_id) (dev_state s1);
              s2 = s1\<lparr>dev_state := d\<rparr>
          in Some (if unat slot_index < MAX_CLIENTS
                   then s2\<lparr>slots := (slots s2)
                          [unat slot_index := clear_slot (slots s2 ! unat slot_index)]\<rparr>
                   else s2))"

fun release_all :: "bool \<Rightarrow> 's device \<Rightarrow> nat list \<Rightarrow> 's server \<Rightarrow> 's server option" where
  "release_all checks dev [] s = Some s"
| "release_all checks dev (i # is) s =
     (case release_client_slot checks dev (of_nat (i + 1)) s of
        None \<Rightarrow> None | Some s' \<Rightarrow> release_all checks dev is s')"

fun cancel_scan :: "bool \<Rightarrow> 's device \<Rightarrow> nat list \<Rightarrow> 's server \<Rightarrow> 's server option" where
  "cancel_scan checks dev [] s = Some s"
| "cancel_scan checks dev (i # is) s =
     (if occupied (slots s ! i)
      then case release_client_slot checks dev (of_nat (i + 1)) s of
             None \<Rightarrow> None | Some s' \<Rightarrow> cancel_scan checks dev is s'
      else cancel_scan checks dev is s)"

definition cancel_all_clients :: "bool \<Rightarrow> 's device \<Rightarrow> 's server \<Rightarrow> 's server option" where
  "cancel_all_clients checks dev s = cancel_scan checks dev [0..<MAX_CLIENTS] s"

subsection \<open>The receive loop\<close>

text \<open>\<^verbatim>\<open>recv_from(&mut buf)\<close>: the datagram, cut to the buffer, over the start of the old contents. On Windows,
  where the bus driver is, a datagram that is longer than the buffer is an error. The loop ignores it
  as it does an empty datagram, so the length of both is 0 here.\<close>

definition recv_into :: "bytes \<Rightarrow> bytes \<Rightarrow> bytes" where
  "recv_into buf data = (let d = take (length buf) data in d @ drop (length d) buf)"

definition recv_len :: "bytes \<Rightarrow> bytes \<Rightarrow> nat" where
  "recv_len buf data = (if length data \<le> length buf then length data else 0)"

definition on_connect :: "'s device \<Rightarrow> nat \<Rightarrow> sock_addr \<Rightarrow> 's server \<Rightarrow> 's server" where
  "on_connect dev now addr s =
     (case acquire_client_slot s of
        (None, s0) \<Rightarrow> s0
      | (Some (slot_idx, client_id), s0) \<Rightarrow>
          let s1 = s0\<lparr>slots := (slots s0)[slot_idx := (slots s0 ! slot_idx)
                       \<lparr>slot_addr := Some addr, last_packet_time := Some now\<rparr>]\<rparr>;
              s2 = add_connected_client addr slot_idx s1;
              (out, d) = dev_plug_in dev (ucast client_id) (dev_state s2);
              s3 = s2\<lparr>dev_state := d\<rparr>
          in s3\<lparr>sent := sent s3 @ [([0x00, ucast client_id], addr)]\<rparr>)"

text \<open>The first half of the data branch: under the lock, decide whether to execute.\<close>

definition data_accept ::
  "nat \<Rightarrow> sock_addr \<Rightarrow> bytes \<Rightarrow> nat \<Rightarrow> client_slot list \<Rightarrow> bool \<times> client_slot list" where
  "data_accept now addr buf slot_idx ss =
     (let c = ss ! slot_idx
      in if occupied c \<and> slot_addr c = Some addr
         then let c1 = c\<lparr>last_packet_time := Some now\<rparr>;
                  seq = from_le_bytes [buf ! 2, buf ! 3, buf ! 4, buf ! 5]
              in if last_sequence c1 < seq
                 then (True, ss[slot_idx := c1\<lparr>last_sequence := seq\<rparr>])
                 else (False, ss[slot_idx := c1])
         else (False, ss))"

definition set_client_id :: "usize \<Rightarrow> bytes \<Rightarrow> bytes" where
  "set_client_id client_id b = b
     [4 := ucast (drop_bit 0 client_id AND 0xFF),
      5 := ucast (drop_bit 8 client_id AND 0xFF),
      6 := ucast (drop_bit 16 client_id AND 0xFF),
      7 := ucast (drop_bit 24 client_id AND 0xFF)]"

definition on_data :: "'s device \<Rightarrow> nat \<Rightarrow> sock_addr \<Rightarrow> nat \<Rightarrow> 's server \<Rightarrow> 's server" where
  "on_data dev now addr slot_idx s =
     (let (should_execute, ss) = data_accept now addr (rx_buf s) slot_idx (slots s);
          s1 = s\<lparr>slots := ss\<rparr>
      in if should_execute
         then let g = gamepad_at 6 (rx_buf s1);
                  b = set_client_id (of_nat (slot_idx + 1)) (dev_buf s1);
                  (ok, b', d) = dev_execute dev g b (dev_state s1)
              in s1\<lparr>dev_buf := b', dev_state := d\<rparr>
         else s1)"

definition on_disconnect ::
  "bool \<Rightarrow> 's device \<Rightarrow> sock_addr \<Rightarrow> nat \<Rightarrow> 's server \<Rightarrow> 's server option" where
  "on_disconnect checks dev addr slot_idx s =
     (if occupied (slots s ! slot_idx) \<and> slot_addr (slots s ! slot_idx) = Some addr
      then release_client_slot checks dev (of_nat (slot_idx + 1)) s
      else Some s)"

definition on_heartbeat :: "nat \<Rightarrow> sock_addr \<Rightarrow> nat \<Rightarrow> 's server \<Rightarrow> 's server" where
  "on_heartbeat now addr slot_idx s =
     (if occupied (slots s ! slot_idx) \<and> slot_addr (slots s ! slot_idx) = Some addr
      then s\<lparr>slots := (slots s)[slot_idx := (slots s ! slot_idx)\<lparr>last_packet_time := Some now\<rparr>]\<rparr>
      else s)"

text \<open>
  One iteration of the loop on a received datagram; \<open>None\<close> is a panic of the task. The
  slot number in the packet is one-based and read from the buffer, whatever the length of
  the datagram.
\<close>

definition handle_datagram ::
  "bool \<Rightarrow> 's device \<Rightarrow> nat \<Rightarrow> bytes \<Rightarrow> sock_addr \<Rightarrow> 's server \<Rightarrow> 's server option" where
  "handle_datagram checks dev now data addr s0 =
     (let s = s0\<lparr>rx_buf := recv_into (rx_buf s0) data\<rparr>;
          len = recv_len (rx_buf s0) data;
          packet_type = rx_buf s ! 0
      in if len = 0 then Some s
         else if packet_type = 0x00 then Some (on_connect dev now addr s)
         else if packet_type = 0x01 \<and> 22 \<le> len then
           (case usize_pred checks (ucast (rx_buf s ! 1)) of
              None \<Rightarrow> None
            | Some slot_idx \<Rightarrow>
                if unat slot_idx < MAX_CLIENTS then Some (on_data dev now addr (unat slot_idx) s)
                else Some s)
         else if packet_type = 0x02 then
           (case usize_pred checks (ucast (rx_buf s ! 1)) of
              None \<Rightarrow> None
            | Some slot_idx \<Rightarrow>
                if unat slot_idx < MAX_CLIENTS
                then on_disconnect checks dev addr (unat slot_idx) s else Some s)
         else if packet_type = 0x04 then
           (case usize_pred checks (ucast (rx_buf s ! 1)) of
              None \<Rightarrow> None
            | Some slot_idx \<Rightarrow>
                if unat slot_idx < MAX_CLIENTS
                then Some (on_heartbeat now addr (unat slot_idx) s) else Some s)
         else Some s)"

subsection \<open>The auto-disconnect task\<close>

definition inactive :: "nat \<Rightarrow> client_slot \<Rightarrow> bool" where
  "inactive now c \<longleftrightarrow> occupied c \<and>
     (case last_packet_time c of
        None \<Rightarrow> False
      | Some last_time \<Rightarrow> 3000 < (now - last_time) div 1000000)"

definition to_remove :: "nat \<Rightarrow> client_slot list \<Rightarrow> nat list" where
  "to_remove now ss = filter (\<lambda>i. inactive now (ss ! i)) [0..<length ss]"

definition on_tick :: "bool \<Rightarrow> 's device \<Rightarrow> nat \<Rightarrow> 's server \<Rightarrow> 's server option" where
  "on_tick checks dev now s = release_all checks dev (to_remove now (slots s)) s"

subsection \<open>Starting and stopping\<close>

text \<open>
  \<^verbatim>\<open>local_ip()\<close> and the bind can fail; both results are unwrapped. The freshly spawned
  listener task starts with its own zeroed buffers.
\<close>

definition start :: "ip_addr option \<Rightarrow> bool \<Rightarrow> 's server \<Rightarrow> (string \<times> 's server) option" where
  "start local_ip bind_ok s =
     (case local_ip of
        None \<Rightarrow> None
      | Some ip \<Rightarrow>
          if \<not> bind_ok then None
          else Some (''Controller Server started!'',
            s\<lparr>server_ip := \<lparr>si_ip = ip_string ip, si_port = ''40405''\<rparr>,
              listener := True, udp_running := True, tick_tasks := tick_tasks s + 1,
              rx_buf := replicate 1024 0,
              dev_buf := (replicate 28 0)[0 := 0x1C, 9 := 0x14]\<rparr>))"

definition stop :: "bool \<Rightarrow> 's device \<Rightarrow> 's server \<Rightarrow> (string \<times> 's server) option" where
  "stop checks dev s =
     (case cancel_all_clients checks dev s of
        None \<Rightarrow> None
      | Some s1 \<Rightarrow>
          Some (''Controller Server stopped!'',
            if listener s1
            then s1\<lparr>listener := False, udp_running := False, tick_tasks := tick_tasks s1 - 1\<rparr>
            else s1))"

definition get_connected_clients :: "'s server \<Rightarrow> client_info list" where
  "get_connected_clients s = connected s"

definition get_server :: "'s server \<Rightarrow> server_info" where
  "get_server s = server_ip s"

definition disconnect_client_by_index ::
  "bool \<Rightarrow> 's device \<Rightarrow> usize \<Rightarrow> 's server \<Rightarrow> 's server option" where
  "disconnect_client_by_index checks dev index s = release_client_slot checks dev index s"

text \<open>\<^verbatim>\<open>run\<close> in \<^verbatim>\<open>src-tauri/src/lib.rs\<close>: the set-up unplugs the four controllers, whatever comes back.\<close>

definition app_setup :: "'s device \<Rightarrow> 's \<Rightarrow> 's" where
  "app_setup dev d = fold (\<lambda>i d. snd (dev_unplug dev i d)) [1, 2, 3, 4] d"

end
