(* ===== verification/ServerInvariants.thy ===== *)
theory ServerInvariants
  imports ControllerServer
begin

text \<open>
  Well-formedness of the server state and its preservation. The lemmas that need the
  device are proved once for any \<open>controller_device\<close>; the properties take them from the
  interpretation \<open>vb\<close> on \<^verbatim>\<open>VBusDriver\<close>.
\<close>

subsection \<open>Well-formed states\<close>

definition slot_wf :: "nat \<Rightarrow> client_slot \<Rightarrow> bool" where
  "slot_wf i c \<longleftrightarrow>
     (if occupied c
      then client_number c = Some (of_nat (i + 1)) \<and> slot_addr c \<noteq> None
         \<and> last_packet_time c \<noteq> None
      else c = empty_slot)"

definition slots_wf :: "client_slot list \<Rightarrow> bool" where
  "slots_wf ss \<longleftrightarrow> length ss = MAX_CLIENTS \<and> (\<forall>i < length ss. slot_wf i (ss ! i))"

definition server_wf :: "'s server \<Rightarrow> bool" where
  "server_wf s \<longleftrightarrow> slots_wf (slots s) \<and> length (connected s) \<le> MAX_CLIENTS
     \<and> length (rx_buf s) = 1024 \<and> length (dev_buf s) = 28
     \<and> (udp_running s \<longrightarrow> dev_buf s ! 0 = 0x1C \<and> dev_buf s ! 9 = 0x14)"

lemma server_wfD:
  assumes "server_wf s"
  shows "length (slots s) = 4" and "slots_wf (slots s)"
    and "length (connected s) \<le> 4" and "length (rx_buf s) = 1024" and "length (dev_buf s) = 28"
  using assms by (simp_all add: server_wf_def slots_wf_def MAX_CLIENTS_def)

lemma slots_wf_nth: "slots_wf ss \<Longrightarrow> i < 4 \<Longrightarrow> slot_wf i (ss ! i)"
  by (simp add: slots_wf_def MAX_CLIENTS_def)

lemma slots_wf_update: "slots_wf ss \<Longrightarrow> slot_wf i c \<Longrightarrow> slots_wf (ss[i := c])"
  using all_slots_update [of ss slot_wf i c] by (simp add: slots_wf_def)

lemma clear_slot_empty [slot_simps]: "clear_slot c = empty_slot"
  by (cases c) (simp add: clear_slot_def empty_slot_def)

lemma slot_wf_empty [slot_simps]: "slot_wf i empty_slot"
  by (simp add: slot_wf_def empty_slot_def)

lemma not_occupied_empty [slot_simps]: "\<not> occupied empty_slot"
  by (simp add: empty_slot_def)

lemma slots_wf_init: "slots_wf CLIENT_SLOTS_init"
  by (auto simp: slots_wf_def CLIENT_SLOTS_init_def MAX_CLIENTS_def less_Suc_eq eval_nat_numeral
      slot_simps)

lemma server_wf_init: "server_wf (server_init d)"
  by (simp add: server_wf_def server_init_def slots_wf_init CONNECTED_CLIENTS_init_def)

subsection \<open>Indices\<close>

lemma small_of_nat_usize: "n < 2 ^ 64 \<Longrightarrow> unat (of_nat n :: usize) = n"
  by (simp add: unat_of_nat)

lemma ucast_small_usize:
  assumes "n < 256"
  shows "ucast (of_nat n :: usize) = (of_nat n :: 'a::len word)"
  unfolding unsigned_of_nat using assms by (subst take_bit_nat_eq_self) simp_all

lemma usize_pred_of_Suc:
  assumes "i < 1000"
  shows "usize_pred checks (of_nat (i + 1)) = Some (of_nat i)"
proof -
  have "unat (of_nat (i + 1) :: usize) = i + 1"
    using assms by (intro small_of_nat_usize) simp
  then have "(of_nat (i + 1) :: usize) \<noteq> 0" by (metis add_is_0 one_neq_zero unat_0)
  then show ?thesis by (simp add: usize_pred_def)
qed

subsection \<open>Acquiring a slot\<close>

lemma acquire_scan_None_iff:
  "acquire_scan i ss = None \<longleftrightarrow> (\<forall>c \<in> set ss. occupied c)"
  by (induction ss arbitrary: i) (auto simp: Let_def)

lemma acquire_scan_Some:
  assumes "acquire_scan i ss = Some (j, c, ss')"
  shows "i \<le> j \<and> j - i < length ss \<and> \<not> occupied (ss ! (j - i))
    \<and> (\<forall>k < j - i. occupied (ss ! k)) \<and> c = of_nat (j + 1)
    \<and> ss' = ss[j - i := (ss ! (j - i))\<lparr>occupied := True, client_number := Some c,
                         last_sequence := 0\<rparr>]"
  using assms
proof (induction ss arbitrary: i ss')
  case Nil
  then show ?case by simp
next
  case (Cons s ss)
  show ?case
  proof (cases "occupied s")
    case False
    with Cons.prems show ?thesis by (auto simp: Let_def)
  next
    case True
    with Cons.prems obtain ss'' where rec: "acquire_scan (i + 1) ss = Some (j, c, ss'')"
      and ss': "ss' = s # ss''" by auto
    from Cons.IH [OF rec] have "i + 1 \<le> j" by simp
    then obtain m where m: "j = i + 1 + m" using le_Suc_ex by blast
    then have "j - i = Suc m" "j - (i + 1) = m" by simp_all
    with Cons.IH [OF rec] ss' True m show ?thesis by (auto simp: nth_Cons split: nat.splits)
  qed
qed

lemma acquire_client_slot_cases:
  assumes wf: "slots_wf (slots s)"
  obtains (full) "acquire_client_slot s = (None, s)" "\<forall>i < 4. occupied (slots s ! i)"
  | (free) j where "j < 4" "\<not> occupied (slots s ! j)" "\<forall>k < j. occupied (slots s ! k)"
      "acquire_client_slot s = (Some (j, of_nat (j + 1)), s\<lparr>slots := (slots s)[j :=
         (slots s ! j)\<lparr>occupied := True, client_number := Some (of_nat (j + 1)),
                       last_sequence := 0\<rparr>]\<rparr>)"
proof (cases "acquire_scan 0 (slots s)")
  case None
  moreover have "length (slots s) = 4" using wf by (simp add: slots_wf_def MAX_CLIENTS_def)
  moreover have "acquire_client_slot s = (None, s)" using None
    by (simp add: acquire_client_slot_def)
  ultimately show ?thesis
    by (intro full) (auto simp: acquire_scan_None_iff)
next
  case (Some r)
  then obtain j c ss' where r: "acquire_scan 0 (slots s) = Some (j, c, ss')" by (cases r) auto
  moreover have "length (slots s) = 4" using wf by (simp add: slots_wf_def MAX_CLIENTS_def)
  ultimately show ?thesis
    using acquire_scan_Some [OF r] by (intro free [of j]) (auto simp: acquire_client_slot_def)
qed

subsection \<open>The operations in normal form\<close>

definition claim_slot :: "nat \<Rightarrow> sock_addr \<Rightarrow> nat \<Rightarrow> client_slot" where
  "claim_slot i addr now = \<lparr>occupied = True, client_number = Some (of_nat (i + 1)),
     last_sequence = 0, slot_addr = Some addr, last_packet_time = Some now\<rparr>"

lemma claim_slot_eq [slot_simps]:
  "c\<lparr>occupied := True, client_number := Some (1 + of_nat i), last_sequence := 0,
      slot_addr := Some addr, last_packet_time := Some now\<rparr> = claim_slot i addr now"
  by (cases c) (simp add: claim_slot_def)

lemma slot_wf_claim [slot_simps]: "slot_wf i (claim_slot i addr now)"
  by (simp add: slot_wf_def claim_slot_def)

lemma connected_bound_add: "length (connected s) \<le> 4 \<Longrightarrow>
    length (connected (add_connected_client addr i s)) \<le> 4"
  by (simp add: add_connected_client_def)

lemma connected_bound_disconnect: "length (connected (disconnect_client i s)) \<le> length (connected s)"
  by (simp add: disconnect_client_def)

lemma frame_add_connected [slot_simps]:
  "slots (add_connected_client addr i s) = slots s"
  "rx_buf (add_connected_client addr i s) = rx_buf s"
  "dev_buf (add_connected_client addr i s) = dev_buf s"
  "udp_running (add_connected_client addr i s) = udp_running s"
  "tick_tasks (add_connected_client addr i s) = tick_tasks s"
  "listener (add_connected_client addr i s) = listener s"
  "dev_state (add_connected_client addr i s) = dev_state s"
  "sent (add_connected_client addr i s) = sent s"
  by (simp_all add: add_connected_client_def)

lemma frame_disconnect_client [slot_simps]:
  "slots (disconnect_client i s) = slots s"
  "rx_buf (disconnect_client i s) = rx_buf s"
  "dev_buf (disconnect_client i s) = dev_buf s"
  "udp_running (disconnect_client i s) = udp_running s"
  "tick_tasks (disconnect_client i s) = tick_tasks s"
  "listener (disconnect_client i s) = listener s"
  "dev_state (disconnect_client i s) = dev_state s"
  "sent (disconnect_client i s) = sent s"
  by (simp_all add: disconnect_client_def)

text \<open>Releasing the client of slot \<open>i\<close> always succeeds and empties exactly that slot.\<close>

lemma release_slot:
  assumes "i < 4" and "length (slots s) = 4"
  shows "\<exists>s'. release_client_slot checks dev (of_nat (i + 1)) s = Some s'
    \<and> slots s' = (slots s)[i := empty_slot]
    \<and> connected s' = connected (disconnect_client (of_nat i) s)
    \<and> dev_state s' = snd (dev_unplug dev (of_nat (i + 1)) (dev_state s))
    \<and> rx_buf s' = rx_buf s \<and> dev_buf s' = dev_buf s \<and> udp_running s' = udp_running s
    \<and> tick_tasks s' = tick_tasks s \<and> listener s' = listener s \<and> sent s' = sent s"
proof -
  have i: "unat (of_nat i :: usize) = i" using assms(1) by (intro small_of_nat_usize) simp
  have u: "ucast (of_nat (i + 1) :: usize) = (of_nat (i + 1) :: u32)"
    using assms(1) by (intro ucast_small_usize) simp
  show ?thesis
    using usize_pred_of_Suc [of i checks] assms i u
    by (simp add: release_client_slot_def Let_def MAX_CLIENTS_def slot_simps split: prod.split)
qed

text \<open>A well-formed state with an out-of-range client number changes no slot.\<close>

lemma release_out_of_range:
  assumes "release_client_slot checks dev cid s = Some s'" and "unat (cid - 1) \<ge> 4"
  shows "slots s' = slots s"
proof -
  have "usize_pred checks cid \<noteq> None \<Longrightarrow> usize_pred checks cid = Some (cid - 1)"
    by (simp add: usize_pred_def split: if_splits)
  with assms show ?thesis
    by (auto simp: release_client_slot_def Let_def MAX_CLIENTS_def slot_simps
        split: option.splits prod.splits)
qed

subsection \<open>Preservation\<close>

lemma length_recv_into [simp]: "length (recv_into buf data) = length buf"
  by (simp add: recv_into_def Let_def)

lemma length_set_client_id [simp]: "length (set_client_id c b) = length b"
  by (simp add: set_client_id_def)

lemma set_client_id_other:
  "i \<noteq> 4 \<Longrightarrow> i \<noteq> 5 \<Longrightarrow> i \<noteq> 6 \<Longrightarrow> i \<noteq> 7 \<Longrightarrow> set_client_id c b ! i = b ! i"
  by (simp add: set_client_id_def)

lemma release_wf:
  assumes "release_client_slot checks dev cid s = Some s'" and wf: "server_wf s"
  shows "server_wf s'"
proof -
  obtain k d r where k: "usize_pred checks cid = Some k"
    and d: "dev_unplug dev (ucast cid) (dev_state s) = (r, d)"
    using assms(1) by (cases "dev_unplug dev (ucast cid) (dev_state s)")
      (auto simp: release_client_slot_def split: option.splits)
  have "length (connected (disconnect_client k s)) \<le> 4"
    using connected_bound_disconnect [of k s] wf by (simp add: server_wf_def MAX_CLIENTS_def)
  then show ?thesis
    using assms k d
    by (cases "unat k < 4")
      (auto simp: release_client_slot_def Let_def server_wf_def slot_simps MAX_CLIENTS_def
        slots_wf_update)
qed

lemma cancel_scan_wf:
  "cancel_scan checks dev is s = Some s' \<Longrightarrow> server_wf s \<Longrightarrow> server_wf s'"
  by (induction "is" arbitrary: s) (auto split: if_splits option.splits intro: release_wf)

lemma release_all_wf:
  "release_all checks dev is s = Some s' \<Longrightarrow> server_wf s \<Longrightarrow> server_wf s'"
  by (induction "is" arbitrary: s) (auto split: option.splits intro: release_wf)

lemma on_connect_free:
  assumes "acquire_client_slot s = (Some (j, of_nat (j + 1)), s\<lparr>slots := (slots s)[j :=
         (slots s ! j)\<lparr>occupied := True, client_number := Some (of_nat (j + 1)),
                       last_sequence := 0\<rparr>]\<rparr>)"
    and "j < 4" and "length (slots s) = 4"
  shows "slots (on_connect dev now addr s) = (slots s)[j := claim_slot j addr now]"
    and "connected (on_connect dev now addr s) = connected (add_connected_client addr j s)"
    and "dev_state (on_connect dev now addr s) = snd (dev_plug_in dev (of_nat (j + 1)) (dev_state s))"
    and "sent (on_connect dev now addr s) = sent s @ [([0, of_nat (j + 1)], addr)]"
    and "rx_buf (on_connect dev now addr s) = rx_buf s"
    and "dev_buf (on_connect dev now addr s) = dev_buf s"
    and "udp_running (on_connect dev now addr s) = udp_running s"
    and "tick_tasks (on_connect dev now addr s) = tick_tasks s"
    and "listener (on_connect dev now addr s) = listener s"
proof -
  have u: "ucast (1 + of_nat j :: usize) = (1 + of_nat j :: u32)"
    and u8: "ucast (1 + of_nat j :: usize) = (1 + of_nat j :: u8)"
    using assms(2) ucast_small_usize [of "j + 1"] by simp_all
  show "slots (on_connect dev now addr s) = (slots s)[j := claim_slot j addr now]"
    and "connected (on_connect dev now addr s) = connected (add_connected_client addr j s)"
    and "dev_state (on_connect dev now addr s) = snd (dev_plug_in dev (of_nat (j + 1)) (dev_state s))"
    and "sent (on_connect dev now addr s) = sent s @ [([0, of_nat (j + 1)], addr)]"
    and "rx_buf (on_connect dev now addr s) = rx_buf s"
    and "dev_buf (on_connect dev now addr s) = dev_buf s"
    and "udp_running (on_connect dev now addr s) = udp_running s"
    and "tick_tasks (on_connect dev now addr s) = tick_tasks s"
    and "listener (on_connect dev now addr s) = listener s"
    using assms u u8
    by (simp_all add: on_connect_def Let_def slot_simps add_connected_client_def split: prod.split)
qed

lemma on_connect_wf:
  assumes wf: "server_wf s"
  shows "server_wf (on_connect dev now addr s)"
  using server_wfD(2) [OF wf]
proof (cases rule: acquire_client_slot_cases)
  case full
  then show ?thesis using wf by (simp add: on_connect_def)
next
  case (free j)
  note eqs = on_connect_free [OF free(4) free(1) server_wfD(1) [OF wf]]
  have "slots_wf ((slots s)[j := claim_slot j addr now])"
    using wf by (simp add: server_wf_def slots_wf_update slot_simps)
  moreover have "length (connected (add_connected_client addr j s)) \<le> 4"
    using wf by (intro connected_bound_add) (simp add: server_wf_def MAX_CLIENTS_def)
  ultimately show ?thesis
    using wf by (simp add: server_wf_def eqs MAX_CLIENTS_def)
qed

lemma on_heartbeat_wf: "server_wf s \<Longrightarrow> i < 4 \<Longrightarrow> server_wf (on_heartbeat now addr i s)"
  by (auto simp: on_heartbeat_def server_wf_def slot_wf_def
      intro!: slots_wf_update dest: slots_wf_nth)

lemma data_accept_wf:
  "slots_wf ss \<Longrightarrow> i < 4 \<Longrightarrow> slots_wf (snd (data_accept now addr buf i ss))"
  by (auto simp: data_accept_def Let_def slot_wf_def intro!: slots_wf_update dest: slots_wf_nth)

lemma on_disconnect_wf:
  "on_disconnect checks dev addr i s = Some s' \<Longrightarrow> server_wf s \<Longrightarrow> server_wf s'"
  by (auto simp: on_disconnect_def split: if_splits intro: release_wf)

lemma on_tick_wf: "on_tick checks dev now s = Some s' \<Longrightarrow> server_wf s \<Longrightarrow> server_wf s'"
  by (simp add: on_tick_def release_all_wf)

lemma stop_wf: "stop checks dev s = Some (m, s') \<Longrightarrow> server_wf s \<Longrightarrow> server_wf s'"
  by (auto simp: stop_def cancel_all_clients_def server_wf_def split: option.splits if_splits
      dest: cancel_scan_wf)

lemma start_wf: "start ip ok s = Some (m, s') \<Longrightarrow> server_wf s \<Longrightarrow> server_wf s'"
  by (auto simp: start_def server_wf_def split: option.splits if_splits)

lemma recv_wf: "server_wf s \<Longrightarrow> server_wf (s\<lparr>rx_buf := recv_into (rx_buf s) data\<rparr>)"
  by (simp add: server_wf_def)

context controller_device
begin

lemma on_data_wf:
  assumes wf: "server_wf s" and i: "i < 4"
  shows "server_wf (on_data dev now addr i s)"
proof -
  obtain e ss where da: "data_accept now addr (rx_buf s) i (slots s) = (e, ss)"
    by (cases "data_accept now addr (rx_buf s) i (slots s)")
  have ss: "slots_wf ss"
    using data_accept_wf [OF server_wfD(2) [OF wf] i, of now addr "rx_buf s"] da by simp
  let ?g = "gamepad_at 6 (rx_buf s)" and ?b = "set_client_id (of_nat (i + 1)) (dev_buf s)"
  obtain ok b' d where ex: "dev_execute dev ?g ?b (dev_state s) = (ok, b', d)"
    by (cases "dev_execute dev ?g ?b (dev_state s)")
  then have b': "b' = copy_at 10 (gamepad_bytes ?g) ?b"
    using execute_buffer [of ?g ?b "dev_state s"] by simp
  have len: "length ?b = 28" using wf by (simp add: server_wf_def)
  have "b' ! 0 = dev_buf s ! 0" "b' ! 9 = dev_buf s ! 9"
    using len nth_copy_at_outside [of 10 "gamepad_bytes ?g" ?b 0]
      nth_copy_at_outside [of 10 "gamepad_bytes ?g" ?b 9]
    by (simp_all add: b' set_client_id_other)
  moreover have "length b' = 28" using len by (simp add: b' length_copy_at)
  ultimately show ?thesis
    using wf da ss ex by (cases e) (simp_all add: on_data_def server_wf_def Let_def)
qed

lemma handle_datagram_wf:
  assumes wf: "server_wf s" and h: "handle_datagram checks dev now data addr s = Some s'"
  shows "server_wf s'"
proof -
  let ?s = "s\<lparr>rx_buf := recv_into (rx_buf s) data\<rparr>"
  have "server_wf ?s" using wf by (rule recv_wf)
  with h show ?thesis
    by (auto simp: handle_datagram_def Let_def MAX_CLIENTS_def on_connect_wf on_data_wf
        on_heartbeat_wf split: if_splits option.splits intro: on_disconnect_wf)
qed

end

end
