(* ===== verification/ServerSessions.thy ===== *)
theory ServerSessions
  imports ServerInvariants
begin

text \<open>
  The abstract contract of the controller server: a table of sessions from slot numbers to
  an owner address, the last sequence number and the time of the last packet. A datagram is
  a request on this table. The concrete handlers refine the abstract ones.
\<close>

type_synonym session = "sock_addr \<times> u32 \<times> nat"

definition slot_session :: "client_slot \<Rightarrow> session option" where
  "slot_session c = (if occupied c
     then Some (the (slot_addr c), last_sequence c, the (last_packet_time c)) else None)"

definition sess_of :: "client_slot list \<Rightarrow> nat \<rightharpoonup> session" where
  "sess_of ss = (\<lambda>i. if i < length ss then slot_session (ss ! i) else None)"

definition sessions :: "'s server \<Rightarrow> nat \<rightharpoonup> session" where
  "sessions s = sess_of (slots s)"

subsection \<open>Abstract operations\<close>

definition abs_connect :: "nat \<Rightarrow> sock_addr \<Rightarrow> (nat \<rightharpoonup> session) \<Rightarrow> (nat \<rightharpoonup> session)" where
  "abs_connect now addr m =
     (case find (\<lambda>i. m i = None) [0..<4] of None \<Rightarrow> m | Some i \<Rightarrow> m(i \<mapsto> (addr, 0, now)))"

definition abs_owned ::
  "sock_addr \<Rightarrow> nat \<Rightarrow> (session \<Rightarrow> session option) \<Rightarrow> (nat \<rightharpoonup> session) \<Rightarrow> (nat \<rightharpoonup> session)" where
  "abs_owned addr i f m =
     (case m i of None \<Rightarrow> m | Some c \<Rightarrow> if fst c = addr then m(i := f c) else m)"

definition abs_expire :: "nat \<Rightarrow> (nat \<rightharpoonup> session) \<Rightarrow> (nat \<rightharpoonup> session)" where
  "abs_expire now m = (\<lambda>i. case m i of None \<Rightarrow> None
     | Some (a, q, t) \<Rightarrow> if 3000 < (now - t) div 1000000 then None else Some (a, q, t))"

datatype request = Connect | Data nat u32 | Leave nat | Beat nat | Ignore | Crash

definition with_slot :: "bool \<Rightarrow> u8 \<Rightarrow> (nat \<Rightarrow> request) \<Rightarrow> request" where
  "with_slot checks b f =
     (if b = 0 then (if checks then Crash else Ignore)
      else if unat b \<le> 4 then f (unat b - 1) else Ignore)"

definition request_of :: "bool \<Rightarrow> bytes \<Rightarrow> nat \<Rightarrow> request" where
  "request_of checks buf len =
     (if len = 0 then Ignore
      else if buf ! 0 = 0 then Connect
      else if buf ! 0 = 1 \<and> 22 \<le> len
      then with_slot checks (buf ! 1)
             (\<lambda>i. Data i (from_le_bytes [buf ! 2, buf ! 3, buf ! 4, buf ! 5]))
      else if buf ! 0 = 2 then with_slot checks (buf ! 1) Leave
      else if buf ! 0 = 4 then with_slot checks (buf ! 1) Beat
      else Ignore)"

fun abs_step ::
  "nat \<Rightarrow> sock_addr \<Rightarrow> request \<Rightarrow> (nat \<rightharpoonup> session) \<Rightarrow> (nat \<rightharpoonup> session) option" where
  "abs_step now addr Connect m = Some (abs_connect now addr m)"
| "abs_step now addr (Data i seq) m =
     Some (abs_owned addr i (\<lambda>(a, q, t). Some (a, if q < seq then seq else q, now)) m)"
| "abs_step now addr (Leave i) m = Some (abs_owned addr i (\<lambda>_. None) m)"
| "abs_step now addr (Beat i) m = Some (abs_owned addr i (\<lambda>(a, q, t). Some (a, q, now)) m)"
| "abs_step now addr Ignore m = Some m"
| "abs_step now addr Crash m = None"

subsection \<open>Slots as sessions\<close>

lemma slot_session_empty [slot_simps]: "slot_session empty_slot = None"
  by (simp add: slot_session_def empty_slot_def)

lemma slot_session_claim [slot_simps]: "slot_session (claim_slot i a t) = Some (a, 0, t)"
  by (simp add: slot_session_def claim_slot_def)

lemma sess_of_update [slot_simps]:
  "i < length ss \<Longrightarrow> sess_of (ss[i := c]) = (sess_of ss)(i := slot_session c)"
  by (auto simp: sess_of_def)

lemma sess_of_None_iff:
  "i < length ss \<Longrightarrow> sess_of ss i = None \<longleftrightarrow> \<not> occupied (ss ! i)"
  by (simp add: sess_of_def slot_session_def)

lemma sess_of_nth: "i < length ss \<Longrightarrow> sess_of ss i = slot_session (ss ! i)"
  by (simp add: sess_of_def)

lemma find_first_unoccupied:
  assumes "length ss = 4" and "j < 4" and "\<not> occupied (ss ! j)" and "\<forall>k < j. occupied (ss ! k)"
  shows "find (\<lambda>i. sess_of ss i = None) [0..<4] = Some j"
  using assms by (auto simp: find_Some_iff sess_of_def slot_session_def intro!: exI [of _ j])

lemma find_none_unoccupied:
  assumes "length ss = 4" and "\<forall>k < 4. occupied (ss ! k)"
  shows "find (\<lambda>i. sess_of ss i = None) [0..<4] = None"
  using assms by (auto simp: find_None_iff sess_of_None_iff simp del: not_None_eq)

text \<open>Under well-formedness, the guard of the handlers is ownership of the session.\<close>

lemma owned_iff:
  assumes "slots_wf ss" and "i < 4"
  shows "occupied (ss ! i) \<and> slot_addr (ss ! i) = Some addr
     \<longleftrightarrow> (\<exists>q t. sess_of ss i = Some (addr, q, t))"
  using slots_wf_nth [OF assms] assms
  by (auto simp: sess_of_def slot_session_def slot_wf_def slots_wf_def MAX_CLIENTS_def)

lemma not_owned_abs:
  assumes "\<not> (\<exists>q t. m i = Some (addr, q, t))"
  shows "abs_owned addr i f m = m"
  using assms by (auto simp: abs_owned_def split: option.split)

lemma owned_abs:
  "m i = Some (addr, q, t) \<Longrightarrow> abs_owned addr i f m = m(i := f (addr, q, t))"
  by (simp add: abs_owned_def)

subsection \<open>The one-based slot number of a packet\<close>

lemma unat_ucast_byte: "unat (ucast (b :: u8) :: usize) = unat b"
proof -
  have "unat b < 256" using unsigned_less [of b] by simp
  then show ?thesis by (simp add: unsigned_ucast_eq take_bit_nat_eq_self)
qed

lemma usize_pred_byte:
  "usize_pred checks (ucast (b :: u8)) =
     (if b = 0 then (if checks then None else Some (- 1)) else Some (of_nat (unat b - 1)))"
proof (cases "b = 0")
  case True
  then show ?thesis by (simp add: usize_pred_def)
next
  case False
  then have "unat b \<noteq> 0" by (simp add: unsigned_eq_0_iff)
  then have "(ucast b :: usize) \<noteq> 0" using unat_ucast_byte [of b] by (metis unat_0)
  then have "unat (ucast b - 1 :: usize) = unat b - 1"
    by (simp add: unat_pred_pos unat_ucast_byte)
  then have "of_nat (unat (ucast b - 1 :: usize)) = (of_nat (unat b - 1) :: usize)" by simp
  then have "ucast b - 1 = (of_nat (unat b - 1) :: usize)" by simp
  with False \<open>(ucast b :: usize) \<noteq> 0\<close> show ?thesis by (simp add: usize_pred_def)
qed

text \<open>A dispatch on the packet's slot number, as the code writes it and as \<open>with_slot\<close> does.\<close>

lemma slot_dispatch:
  "(case usize_pred checks (ucast (b :: u8)) of None \<Rightarrow> None
    | Some slot_idx \<Rightarrow> if unat slot_idx < MAX_CLIENTS then g (unat slot_idx) else Some s) =
   (if b = 0 then (if checks then None else Some s)
    else if unat b \<le> 4 then g (unat b - 1) else Some s)"
proof (cases "b = 0")
  case True
  have "\<not> unat (- 1 :: usize) < 4" using unat_pred_zero by simp
  with True show ?thesis by (simp add: usize_pred_def MAX_CLIENTS_def)
next
  case False
  then have b: "0 < unat b" by (metis gr0I unsigned_eq_0_iff)
  have "unat b < 256" using unsigned_less [of b] by simp
  then have "unat (of_nat (unat b - 1) :: usize) = unat b - 1"
    by (intro small_of_nat_usize) simp
  with False b show ?thesis by (auto simp: usize_pred_byte MAX_CLIENTS_def)
qed

subsection \<open>Refinement, operation by operation\<close>

lemma sessions_connect:
  assumes wf: "server_wf s"
  shows "sessions (on_connect dev now addr s) = abs_connect now addr (sessions s)"
  using server_wfD(2) [OF wf]
proof (cases rule: acquire_client_slot_cases)
  case full
  then show ?thesis
    using find_none_unoccupied [of "slots s"] server_wfD(1) [OF wf]
    by (simp add: on_connect_def abs_connect_def sessions_def)
next
  case (free j)
  then show ?thesis
    using find_first_unoccupied [of "slots s" j] server_wfD(1) [OF wf]
      on_connect_free(1) [OF free(4) free(1) server_wfD(1) [OF wf], of dev now addr]
    by (simp add: abs_connect_def sessions_def slot_simps)
qed

lemma sessions_data_accept:
  assumes wf: "slots_wf ss" and i: "i < 4"
  shows "sess_of (snd (data_accept now addr buf i ss)) =
    abs_owned addr i (\<lambda>(a, q, t). Some (a, if q < from_le_bytes [buf ! 2, buf ! 3, buf ! 4, buf ! 5]
       then from_le_bytes [buf ! 2, buf ! 3, buf ! 4, buf ! 5] else q, now)) (sess_of ss)"
proof (cases "occupied (ss ! i) \<and> slot_addr (ss ! i) = Some addr")
  case True
  have "length ss = 4" using wf by (simp add: slots_wf_def MAX_CLIENTS_def)
  with True i have "sess_of ss i = Some (addr, last_sequence (ss ! i), the (last_packet_time (ss ! i)))"
    by (simp add: sess_of_def slot_session_def)
  with True i \<open>length ss = 4\<close> show ?thesis
    by (simp add: owned_abs data_accept_def Let_def slot_simps slot_session_def)
next
  case False
  then have "\<not> (\<exists>q t. sess_of ss i = Some (addr, q, t))" using owned_iff [OF wf i] by blast
  with False show ?thesis by (auto simp: not_owned_abs data_accept_def Let_def)
qed

lemma slots_on_data: "slots (on_data dev now addr i s) = snd (data_accept now addr (rx_buf s) i (slots s))"
  by (simp add: on_data_def Let_def split: prod.split)

lemma sessions_disconnect:
  assumes wf: "server_wf s" and i: "i < 4"
  shows "map_option sessions (on_disconnect checks dev addr i s) =
    Some (abs_owned addr i (\<lambda>_. None) (sessions s))"
proof (cases "occupied (slots s ! i) \<and> slot_addr (slots s ! i) = Some addr")
  case True
  then obtain q t where "sess_of (slots s) i = Some (addr, q, t)"
    using owned_iff [OF server_wfD(2) [OF wf] i] by blast
  with True release_slot [OF i server_wfD(1) [OF wf], of checks dev] i server_wfD(1) [OF wf]
  show ?thesis
    by (auto simp: on_disconnect_def sessions_def slot_simps owned_abs)
next
  case False
  then have "\<not> (\<exists>q t. sess_of (slots s) i = Some (addr, q, t))"
    using owned_iff [OF server_wfD(2) [OF wf] i] by blast
  with False show ?thesis by (auto simp: on_disconnect_def sessions_def not_owned_abs)
qed

lemma sessions_heartbeat:
  assumes wf: "server_wf s" and i: "i < 4"
  shows "sessions (on_heartbeat now addr i s) =
    abs_owned addr i (\<lambda>(a, q, t). Some (a, q, now)) (sessions s)"
proof (cases "occupied (slots s ! i) \<and> slot_addr (slots s ! i) = Some addr")
  case True
  have "sess_of (slots s) i =
    Some (addr, last_sequence (slots s ! i), the (last_packet_time (slots s ! i)))"
    using True i server_wfD(1) [OF wf] by (simp add: sess_of_def slot_session_def)
  with True i server_wfD(1) [OF wf] show ?thesis
    by (simp add: on_heartbeat_def sessions_def slot_simps owned_abs slot_session_def)
next
  case False
  then have "\<not> (\<exists>q t. sess_of (slots s) i = Some (addr, q, t))"
    using owned_iff [OF server_wfD(2) [OF wf] i] by blast
  with False show ?thesis by (auto simp: on_heartbeat_def sessions_def not_owned_abs)
qed

text \<open>The receive loop refines the abstract session table.\<close>

lemma sessions_datagram:
  assumes wf: "server_wf s"
  shows "map_option sessions (handle_datagram checks dev now data addr s) =
    abs_step now addr (request_of checks (recv_into (rx_buf s) data) (recv_len (rx_buf s) data))
      (sessions s)"
proof -
  define b where "b = recv_into (rx_buf s) data"
  define s1 where "s1 = s\<lparr>rx_buf := b\<rparr>"
  define n where "n = recv_len (rx_buf s) data"
  define i where "i = unat (b ! 1) - 1"
  have wf': "server_wf s1" using recv_wf [OF wf] by (simp add: s1_def b_def)
  have eq [simp]: "sessions s1 = sessions s" by (simp add: sessions_def s1_def)
  have len: "recv_len (rx_buf s) data = n" by (simp add: n_def)
  have i: "i < 4" if "unat (b ! 1) \<le> 4" using that by (simp add: i_def)
  have data: "sessions (on_data dev now addr i s1) = abs_owned addr i (\<lambda>(a, q, t). Some (a,
        if q < from_le_bytes [b ! 2, b ! 3, b ! 4, b ! 5]
        then from_le_bytes [b ! 2, b ! 3, b ! 4, b ! 5] else q, now)) (sessions s)"
    if "unat (b ! 1) \<le> 4"
    using sessions_data_accept [OF server_wfD(2) [OF wf'] i [OF that], of now addr b]
    by (simp add: sessions_def slots_on_data s1_def)
  have leave: "map_option sessions (on_disconnect checks dev addr i s1) =
        Some (abs_owned addr i (\<lambda>_. None) (sessions s))" if "unat (b ! 1) \<le> 4"
    using sessions_disconnect [OF wf' i [OF that]] by simp
  have beat: "sessions (on_heartbeat now addr i s1) =
        abs_owned addr i (\<lambda>(a, q, t). Some (a, q, now)) (sessions s)" if "unat (b ! 1) \<le> 4"
    using sessions_heartbeat [OF wf' i [OF that]] by simp
  have connect: "sessions (on_connect dev now addr s1) = abs_connect now addr (sessions s)"
    using sessions_connect [OF wf', of dev now addr] by simp
  have rb: "rx_buf s1 = b" by (simp add: s1_def)
  note d1 = slot_dispatch [where checks = checks and b = "b ! 1" and s = s1
      and g = "\<lambda>k. Some (on_data dev now addr k s1)"]
  note d2 = slot_dispatch [where checks = checks and b = "b ! 1" and s = s1
      and g = "\<lambda>k. on_disconnect checks dev addr k s1"]
  note d3 = slot_dispatch [where checks = checks and b = "b ! 1" and s = s1
      and g = "\<lambda>k. Some (on_heartbeat now addr k s1)"]
  have code: "handle_datagram checks dev now data addr s =
     (if n = 0 then Some s1
      else if b ! 0 = 0 then Some (on_connect dev now addr s1)
      else if b ! 0 = 1 \<and> 22 \<le> n then
        (if b ! 1 = 0 then (if checks then None else Some s1)
         else if unat (b ! 1) \<le> 4 then Some (on_data dev now addr i s1) else Some s1)
      else if b ! 0 = 2 then
        (if b ! 1 = 0 then (if checks then None else Some s1)
         else if unat (b ! 1) \<le> 4 then on_disconnect checks dev addr i s1 else Some s1)
      else if b ! 0 = 4 then
        (if b ! 1 = 0 then (if checks then None else Some s1)
         else if unat (b ! 1) \<le> 4 then Some (on_heartbeat now addr i s1) else Some s1)
      else Some s1)"
    unfolding handle_datagram_def Let_def len
    unfolding b_def [symmetric] s1_def [symmetric] rb d1 d2 d3 by (simp add: i_def)
  have req: "request_of checks b n =
     (if n = 0 then Ignore
      else if b ! 0 = 0 then Connect
      else if b ! 0 = 1 \<and> 22 \<le> n then
        (if b ! 1 = 0 then (if checks then Crash else Ignore)
         else if unat (b ! 1) \<le> 4
         then Data i (from_le_bytes [b ! 2, b ! 3, b ! 4, b ! 5]) else Ignore)
      else if b ! 0 = 2 then
        (if b ! 1 = 0 then (if checks then Crash else Ignore)
         else if unat (b ! 1) \<le> 4 then Leave i else Ignore)
      else if b ! 0 = 4 then
        (if b ! 1 = 0 then (if checks then Crash else Ignore)
         else if unat (b ! 1) \<le> 4 then Beat i else Ignore)
      else Ignore)"
    by (simp add: request_of_def with_slot_def i_def)
  show ?thesis
    unfolding code unfolding b_def [symmetric] n_def [symmetric] req
    by (simp add: data leave beat connect)
qed

end
