(* ===== verification/ServerRun.thy ===== *)
theory ServerRun
  imports ServerSessions
begin

text \<open>
  Runs of the controller server: the commands of the user interface, the datagrams the
  receive loop takes and the ticks of the auto-disconnect task, as the steps of an
  inductive relation whose atomic actions are the handlers. A step that panics in the
  receive loop ends that task and leaves the tables as they are. A second
  \<^verbatim>\<open>start_server\<close> while the receive loop runs finds the port taken as long as the machine keeps its
  address, so it is not a step; runs in which the address changes under a running server, so that a
  second loop begins, are outside the model.
\<close>

subsection \<open>Steps\<close>

inductive server_step :: "bool \<Rightarrow> 's device \<Rightarrow> 's server \<Rightarrow> 's server \<Rightarrow> bool"
  for checks :: bool and dev :: "'s device" where
  start_step: "\<not> udp_running s \<Longrightarrow> start ip ok s = Some (m, s') \<Longrightarrow> server_step checks dev s s'"
| stop_step: "stop checks dev s = Some (m, s') \<Longrightarrow> server_step checks dev s s'"
| recv_step: "udp_running s \<Longrightarrow> handle_datagram checks dev now data addr s = Some s' \<Longrightarrow>
    server_step checks dev s s'"
| crash_step: "udp_running s \<Longrightarrow> handle_datagram checks dev now data addr s = None \<Longrightarrow>
    server_step checks dev s (s\<lparr>rx_buf := recv_into (rx_buf s) data, udp_running := False\<rparr>)"
| tick_step: "0 < tick_tasks s \<Longrightarrow> on_tick checks dev now s = Some s' \<Longrightarrow>
    server_step checks dev s s'"
| kick_step: "disconnect_client_by_index checks dev index s = Some s' \<Longrightarrow>
    server_step checks dev s s'"

inductive server_reach :: "bool \<Rightarrow> 's device \<Rightarrow> 's \<Rightarrow> 's server \<Rightarrow> bool"
  for checks :: bool and dev :: "'s device" and d0 :: 's where
  reach_init: "server_reach checks dev d0 (server_init d0)"
| reach_step: "server_reach checks dev d0 s \<Longrightarrow> server_step checks dev s s' \<Longrightarrow>
    server_reach checks dev d0 s'"

inductive_cases server_stepE: "server_step checks dev s s'"

text \<open>Whatever every handler keeps is kept by every step and holds in every reachable state.\<close>

lemma server_step_preserves:
  assumes step: "server_step checks dev s s'" and P: "P s"
    and "\<And>ip ok m s'. start ip ok s = Some (m, s') \<Longrightarrow> P s'"
    and "\<And>m s'. stop checks dev s = Some (m, s') \<Longrightarrow> P s'"
    and "\<And>now data addr s'. udp_running s \<Longrightarrow> handle_datagram checks dev now data addr s = Some s' \<Longrightarrow> P s'"
    and "\<And>data. P (s\<lparr>rx_buf := recv_into (rx_buf s) data, udp_running := False\<rparr>)"
    and "\<And>now s'. on_tick checks dev now s = Some s' \<Longrightarrow> P s'"
    and "\<And>i s'. release_client_slot checks dev i s = Some s' \<Longrightarrow> P s'"
  shows "P s'"
  using step by (cases rule: server_step.cases)
    (use assms in \<open>auto simp: disconnect_client_by_index_def\<close>)

subsection \<open>The device invariant\<close>

context controller_device
begin

lemma release_dev_ok:
  assumes "release_client_slot checks dev cid s = Some s'" and "dev_ok (dev_state s)"
  shows "dev_ok (dev_state s')"
proof -
  have "dev_ok (snd (dev_unplug dev (ucast cid) (dev_state s)))" using assms(2) by (rule unplug_ok)
  then show ?thesis
    using assms(1) by (auto simp: release_client_slot_def Let_def slot_simps
        split: option.splits prod.splits if_splits)
qed

lemma release_all_dev_ok:
  "release_all checks dev is s = Some s' \<Longrightarrow> dev_ok (dev_state s) \<Longrightarrow> dev_ok (dev_state s')"
  by (induction "is" arbitrary: s) (auto split: option.splits intro: release_dev_ok)

lemma cancel_scan_dev_ok:
  "cancel_scan checks dev is s = Some s' \<Longrightarrow> dev_ok (dev_state s) \<Longrightarrow> dev_ok (dev_state s')"
  by (induction "is" arbitrary: s) (auto split: option.splits if_splits intro: release_dev_ok)

lemma on_connect_dev_ok:
  assumes "dev_ok (dev_state s)"
  shows "dev_ok (dev_state (on_connect dev now addr s))"
proof -
  have "dev_ok (snd (dev_plug_in dev ui (dev_state s)))" for ui using assms by (rule plug_in_ok)
  then have "dev_ok d" if "dev_plug_in dev ui (dev_state s) = (out, d)" for ui out d
    using that by (metis snd_conv)
  with assms show ?thesis
    by (auto simp: on_connect_def acquire_client_slot_def Let_def slot_simps
        split: option.splits prod.splits)
qed

lemma on_data_dev_ok:
  assumes "dev_ok (dev_state s)"
  shows "dev_ok (dev_state (on_data dev now addr i s))"
proof -
  have "dev_ok (snd (snd (dev_execute dev g b (dev_state s))))" for g b
    using assms by (rule execute_ok)
  then have "dev_ok d" if "dev_execute dev g b (dev_state s) = (ok, b', d)" for g b ok b' d
    using that by (metis snd_conv)
  with assms show ?thesis by (auto simp: on_data_def Let_def split: prod.splits)
qed

lemma handle_datagram_dev_ok:
  assumes h: "handle_datagram checks dev now data addr s = Some s'" and ok: "dev_ok (dev_state s)"
  shows "dev_ok (dev_state s')"
  using assms
  by (auto simp: handle_datagram_def Let_def on_heartbeat_def on_disconnect_def on_connect_dev_ok
      on_data_dev_ok split: if_splits option.splits intro: release_dev_ok)

lemma stop_dev_ok: "stop checks dev s = Some (m, s') \<Longrightarrow> dev_ok (dev_state s) \<Longrightarrow> dev_ok (dev_state s')"
  by (auto simp: stop_def cancel_all_clients_def split: option.splits if_splits
      dest: cancel_scan_dev_ok)

lemma start_dev_ok: "start ip ok s = Some (m, s') \<Longrightarrow> dev_ok (dev_state s) \<Longrightarrow> dev_ok (dev_state s')"
  by (auto simp: start_def split: option.splits if_splits)

lemma step_inv:
  assumes step: "server_step checks dev s s'" and inv: "server_wf s \<and> dev_ok (dev_state s)"
  shows "server_wf s' \<and> dev_ok (dev_state s')"
  using step
proof (rule server_step_preserves [where P = "\<lambda>s. server_wf s \<and> dev_ok (dev_state s)"])
  show "server_wf s \<and> dev_ok (dev_state s)" by (rule inv)
  fix data
  from inv show "server_wf (s\<lparr>rx_buf := recv_into (rx_buf s) data, udp_running := False\<rparr>) \<and>
    dev_ok (dev_state (s\<lparr>rx_buf := recv_into (rx_buf s) data, udp_running := False\<rparr>))"
    by (simp add: server_wf_def)
qed (use inv in \<open>auto simp: on_tick_def dest: start_wf start_dev_ok stop_wf stop_dev_ok handle_datagram_wf
  handle_datagram_dev_ok release_all_wf release_all_dev_ok release_wf release_dev_ok\<close>)

lemma reach_inv:
  assumes "server_reach checks dev d0 s" and "dev_ok d0"
  shows "server_wf s \<and> dev_ok (dev_state s)"
  using assms(1)
proof induction
  case reach_init
  then show ?case using assms(2) by (simp add: server_wf_init) (simp add: server_init_def)
next
  case (reach_step s s')
  then show ?case using step_inv by blast
qed

end

subsection \<open>The report frame\<close>

text \<open>
  What the listener's device buffer holds between packets: the header, a controller number,
  the fixed length byte, a gamepad state and six zero bytes.
\<close>

definition report_frame :: "bytes \<Rightarrow> bytes \<Rightarrow> bytes" where
  "report_frame ident pad = [0x1C, 0, 0, 0] @ ident @ [0, 0x14] @ pad @ replicate 6 0"

definition frame_ok :: "bytes \<Rightarrow> bool" where
  "frame_ok b \<longleftrightarrow> (\<exists>ident pad. length ident = 4 \<and> length pad = 12 \<and> b = report_frame ident pad)"

lemma frame_ok_start: "frame_ok ((replicate 28 0)[0 := 0x1C, 9 := 0x14])"
  unfolding frame_ok_def report_frame_def
  by (intro exI [of _ "replicate 4 0"] exI [of _ "replicate 12 0"]) (simp, code_simp)

lemma set_client_id_frame:
  assumes "length ident = 4" and "length pad = 12"
  shows "set_client_id c (report_frame ident pad) = report_frame
     [ucast (c AND 0xFF), ucast (drop_bit 8 c AND 0xFF),
      ucast (drop_bit 16 c AND 0xFF), ucast (drop_bit 24 c AND 0xFF)] pad"
proof -
  from assms(1) obtain a b c d where "ident = [a, b, c, d]"
    by (auto simp: numeral_eq_Suc length_Suc_conv)
  then show ?thesis
    by (simp add: set_client_id_def report_frame_def list_update_append split: nat.split)
qed

lemma copy_at_frame:
  assumes "length ident = 4" and "length pad = 12" and "length pad' = 12"
  shows "copy_at 10 pad' (report_frame ident pad) = report_frame ident pad'"
  using assms by (simp add: copy_at_def report_frame_def)


definition report_ok :: "'s server \<Rightarrow> bool" where
  "report_ok s \<longleftrightarrow> (udp_running s \<longrightarrow> frame_ok (dev_buf s))"

lemma release_keeps:
  assumes "release_client_slot checks dev cid s = Some s'"
  shows "dev_buf s' = dev_buf s" and "udp_running s' = udp_running s"
    and "rx_buf s' = rx_buf s" and "tick_tasks s' = tick_tasks s"
    and "listener s' = listener s" and "sent s' = sent s"
  using assms by (auto simp: release_client_slot_def Let_def slot_simps
      split: option.splits prod.splits if_splits)

lemma release_report_ok:
  "release_client_slot checks dev cid s = Some s' \<Longrightarrow> report_ok s \<Longrightarrow> report_ok s'"
  by (simp add: report_ok_def release_keeps)

lemma release_all_report_ok:
  "release_all checks dev is s = Some s' \<Longrightarrow> report_ok s \<Longrightarrow> report_ok s'"
  by (induction "is" arbitrary: s) (auto split: option.splits intro: release_report_ok)

lemma cancel_scan_report_ok:
  "cancel_scan checks dev is s = Some s' \<Longrightarrow> report_ok s \<Longrightarrow> report_ok s'"
  by (induction "is" arbitrary: s) (auto split: option.splits if_splits intro: release_report_ok)

lemma start_report_ok: "start ip ok s = Some (m, s') \<Longrightarrow> report_ok s'"
  using frame_ok_start by (auto simp: start_def report_ok_def split: option.splits if_splits)

lemma stop_report_ok: "stop checks dev s = Some (m, s') \<Longrightarrow> report_ok s \<Longrightarrow> report_ok s'"
  by (auto simp: stop_def cancel_all_clients_def report_ok_def split: option.splits if_splits
      dest: cancel_scan_report_ok)

lemma on_connect_report_ok: "report_ok s \<Longrightarrow> report_ok (on_connect dev now addr s)"
  by (auto simp: on_connect_def acquire_client_slot_def Let_def slot_simps report_ok_def
      split: option.splits prod.splits)

lemma client_number_bytes:
  assumes "i < 4"
  shows "ucast (of_nat (i + 1) AND 0xFF :: usize) = (of_nat (i + 1) :: u8)"
    and "ucast (drop_bit 8 (of_nat (i + 1) :: usize) AND 0xFF) = (0 :: u8)"
    and "ucast (drop_bit 16 (of_nat (i + 1) :: usize) AND 0xFF) = (0 :: u8)"
    and "ucast (drop_bit 24 (of_nat (i + 1) :: usize) AND 0xFF) = (0 :: u8)"
proof -
  have "i = 0 \<or> i = 1 \<or> i = 2 \<or> i = 3" using assms by auto
  then show "ucast (of_nat (i + 1) AND 0xFF :: usize) = (of_nat (i + 1) :: u8)"
    and "ucast (drop_bit 8 (of_nat (i + 1) :: usize) AND 0xFF) = (0 :: u8)"
    and "ucast (drop_bit 16 (of_nat (i + 1) :: usize) AND 0xFF) = (0 :: u8)"
    and "ucast (drop_bit 24 (of_nat (i + 1) :: usize) AND 0xFF) = (0 :: u8)"
    by (elim disjE; simp; code_simp)+
qed

lemma set_client_id_report:
  "i < 4 \<Longrightarrow> length ident = 4 \<Longrightarrow> length pad = 12 \<Longrightarrow>
   set_client_id (of_nat (i + 1)) (report_frame ident pad) =
     report_frame [of_nat (i + 1), 0, 0, 0] pad"
  using client_number_bytes [of i] by (simp add: set_client_id_frame del: of_nat_Suc of_nat_add)

context controller_device
begin

text \<open>What one accepted report is: the frame with the slot's number and the packet's state.\<close>

lemma execute_frame:
  assumes i: "i < 4" and ok: "frame_ok b" and len: "18 \<le> length buf"
  shows "\<exists>e d. dev_execute dev (gamepad_at 6 buf) (set_client_id (of_nat (i + 1)) b) st =
    (e, report_frame [of_nat (i + 1), 0, 0, 0] (subslice 6 18 buf), d)"
proof -
  obtain ident pad where ip: "length ident = 4" "length pad = 12" "b = report_frame ident pad"
    using ok by (auto simp: frame_ok_def)
  define b1 where "b1 = set_client_id (of_nat (i + 1)) b"
  have b1: "b1 = report_frame [of_nat (i + 1), 0, 0, 0] pad"
    using set_client_id_report [OF i ip(1) ip(2)] by (simp add: b1_def ip(3))
  have gp: "gamepad_bytes (gamepad_at 6 buf) = subslice 6 18 buf"
    using gamepad_bytes_at [of 6 buf] len by simp
  have "fst (snd (dev_execute dev (gamepad_at 6 buf) b1 st)) =
    copy_at 10 (gamepad_bytes (gamepad_at 6 buf)) b1" by (rule execute_buffer)
  also have "\<dots> = report_frame [of_nat (i + 1), 0, 0, 0] (subslice 6 18 buf)"
    unfolding b1 gp by (rule copy_at_frame) (use ip len in \<open>simp_all add: subslice_def\<close>)
  finally show ?thesis
    unfolding b1_def by (metis prod.collapse)
qed

lemma on_data_report_ok:
  assumes "report_ok s" and "i < 4" and "length (rx_buf s) = 1024"
  shows "report_ok (on_data dev now addr i s)"
proof (cases "udp_running s \<and> fst (data_accept now addr (rx_buf s) i (slots s))")
  case False
  then show ?thesis using assms(1)
    by (auto simp: on_data_def Let_def report_ok_def split: prod.split)
next
  case True
  then have "frame_ok (dev_buf s)" using assms(1) by (simp add: report_ok_def)
  then obtain e d where "dev_execute dev (gamepad_at 6 (rx_buf s))
      (set_client_id (of_nat (i + 1)) (dev_buf s)) (dev_state s) =
    (e, report_frame [of_nat (i + 1), 0, 0, 0] (subslice 6 18 (rx_buf s)), d)"
    using execute_frame [OF assms(2), of "dev_buf s" "rx_buf s" "dev_state s"] assms(3) by auto
  moreover have "frame_ok (report_frame [of_nat (i + 1), 0, 0, 0] (subslice 6 18 (rx_buf s)))"
    unfolding frame_ok_def
    by (intro exI conjI) (use assms(3) in \<open>simp_all add: subslice_def\<close>)
  ultimately show ?thesis using True
    by (auto simp: on_data_def Let_def report_ok_def split: prod.split)
qed

lemma handle_datagram_report_ok:
  assumes h: "handle_datagram checks dev now data addr s = Some s'"
    and "report_ok s" and wf: "server_wf s"
  shows "report_ok s'"
proof -
  let ?s = "s\<lparr>rx_buf := recv_into (rx_buf s) data\<rparr>"
  have "report_ok ?s" using assms(2) by (simp add: report_ok_def)
  moreover have "length (rx_buf ?s) = 1024" using server_wfD(4) [OF wf] by simp
  ultimately show ?thesis
    using h on_data_report_ok [of ?s]
    by (auto simp: handle_datagram_def Let_def MAX_CLIENTS_def on_connect_report_ok
        on_heartbeat_def on_disconnect_def split: if_splits option.splits
        intro: release_report_ok) (simp_all add: report_ok_def)
qed

lemma step_report_ok:
  assumes "server_step checks dev s s'" and "server_wf s" and "report_ok s"
  shows "report_ok s'"
  using assms(1)
proof (rule server_step_preserves [where P = report_ok])
  fix data
  show "report_ok (s\<lparr>rx_buf := recv_into (rx_buf s) data, udp_running := False\<rparr>)"
    by (simp add: report_ok_def)
qed (use assms in \<open>auto simp: on_tick_def intro: start_report_ok stop_report_ok
  handle_datagram_report_ok release_all_report_ok release_report_ok\<close>)

lemma reach_report_ok:
  assumes "server_reach checks dev d0 s" and "dev_ok d0"
  shows "report_ok s"
  using assms(1)
proof induction
  case reach_init
  show ?case by (simp add: report_ok_def server_init_def)
next
  case (reach_step s s')
  then show ?case using step_report_ok reach_inv assms(2) by blast
qed

end

end
