(* ===== verification/ServerProps.thy ===== *)
theory ServerProps
  imports ServerRun
begin

text \<open>
  The properties of the controller server: the refinement of the session table by the
  auto-disconnect task and by \<^verbatim>\<open>stop\<close>, the invariants of every run, and what reaches the
  bus driver.
\<close>

subsection \<open>Releasing several clients\<close>

lemma release_sessions:
  assumes "i < 4" and "length (slots s) = 4"
  shows "\<exists>s'. release_client_slot checks dev (of_nat (i + 1)) s = Some s' \<and>
    length (slots s') = 4 \<and> sessions s' = (sessions s)(i := None)"
  using release_slot [OF assms, of checks dev] assms
  by (auto simp: sessions_def slot_simps)

lemma release_all_sessions:
  assumes "\<forall>i \<in> set is. i < 4" and "length (slots s) = 4"
  shows "\<exists>s'. release_all checks dev is s = Some s' \<and>
    sessions s' = (\<lambda>i. if i \<in> set is then None else sessions s i)"
  using assms
proof (induction "is" arbitrary: s)
  case Nil
  then show ?case by simp
next
  case (Cons i "is")
  obtain s1 where s1: "release_client_slot checks dev (of_nat (i + 1)) s = Some s1"
    "length (slots s1) = 4" "sessions s1 = (sessions s)(i := None)"
    using release_sessions [of i s checks dev] Cons.prems by auto
  then obtain s' where "release_all checks dev is s1 = Some s'"
    "sessions s' = (\<lambda>i. if i \<in> set is then None else sessions s1 i)"
    using Cons.IH [of s1] Cons.prems by auto
  with s1 show ?case by (auto simp: fun_eq_iff)
qed

lemma cancel_scan_sessions:
  assumes "\<forall>i \<in> set is. i < 4" and "length (slots s) = 4"
  shows "\<exists>s'. cancel_scan checks dev is s = Some s' \<and>
    sessions s' = (\<lambda>i. if i \<in> set is then None else sessions s i)"
  using assms
proof (induction "is" arbitrary: s)
  case Nil
  then show ?case by simp
next
  case (Cons i "is")
  show ?case
  proof (cases "occupied (slots s ! i)")
    case True
    obtain s1 where s1: "release_client_slot checks dev (of_nat (i + 1)) s = Some s1"
      "length (slots s1) = 4" "sessions s1 = (sessions s)(i := None)"
      using release_sessions [of i s checks dev] Cons.prems by auto
    then obtain s' where "cancel_scan checks dev is s1 = Some s'"
      "sessions s' = (\<lambda>i. if i \<in> set is then None else sessions s1 i)"
      using Cons.IH [of s1] Cons.prems by auto
    with s1 True show ?thesis by (auto simp: fun_eq_iff)
  next
    case False
    then have "sessions s i = None"
      using Cons.prems by (simp add: sessions_def sess_of_None_iff del: not_None_eq)
    moreover obtain s' where "cancel_scan checks dev is s = Some s'"
      "sessions s' = (\<lambda>i. if i \<in> set is then None else sessions s i)"
      using Cons.IH [of s] Cons.prems by auto
    ultimately show ?thesis using False by (auto simp: fun_eq_iff)
  qed
qed

lemma sess_of_outside: "length ss = 4 \<Longrightarrow> \<not> i < 4 \<Longrightarrow> sess_of ss i = None"
  by (simp add: sess_of_def)

lemma expire_to_remove:
  assumes wf: "slots_wf ss"
  shows "(\<lambda>i. if i \<in> set (to_remove now ss) then None else sess_of ss i) =
    abs_expire now (sess_of ss)"
proof
  fix i
  have len: "length ss = 4" using wf by (simp add: slots_wf_def MAX_CLIENTS_def)
  show "(if i \<in> set (to_remove now ss) then None else sess_of ss i) = abs_expire now (sess_of ss) i"
  proof (cases "i < 4 \<and> occupied (ss ! i)")
    case True
    then obtain t where "last_packet_time (ss ! i) = Some t"
      using slots_wf_nth [OF wf, of i] by (auto simp: slot_wf_def)
    with True len show ?thesis
      by (simp add: to_remove_def inactive_def abs_expire_def sess_of_def slot_session_def)
  next
    case False
    then have "sess_of ss i = None" using len by (auto simp: sess_of_def slot_session_def)
    then show ?thesis by (simp add: abs_expire_def)
  qed
qed

lemma tick_sessions:
  assumes wf: "server_wf s"
  shows "map_option sessions (on_tick checks dev now s) = Some (abs_expire now (sessions s))"
proof -
  have "\<forall>i \<in> set (to_remove now (slots s)). i < 4"
    using server_wfD(1) [OF wf] by (simp add: to_remove_def)
  from release_all_sessions [OF this server_wfD(1) [OF wf], of checks dev]
  show ?thesis
    using expire_to_remove [OF server_wfD(2) [OF wf], of now, folded sessions_def]
    by (auto simp: on_tick_def)
qed

subsection \<open>A concrete device for the witnesses\<close>

text \<open>A Windows whose device calls all succeed and are logged, with one 40-byte interface.\<close>

definition demo_api :: "((u32 \<times> bytes) list) winapi" where
  "demo_api = \<lparr>wa_consts = \<lparr>FILE_DEVICE_BUS_EXTENDER = 0x2A, METHOD_BUFFERED = 0,
       FILE_READ_DATA = 1, FILE_WRITE_DATA = 2\<rparr>,
     INVALID_HANDLE = 0xFFFFFFFFFFFFFFFF,
     setup_class_devs = (\<lambda>w. True),
     setup_enum_interfaces = (\<lambda>w. [\<lparr>required_size = 40, alloc_ok = True,
        device_path_mem = Some (\<lambda>i. 0x5C)\<rparr>]),
     create_file = (\<lambda>path w. (7, w)),
     device_io_control = (\<lambda>h code buf w. (1, w @ [(code, buf)])),
     map_virtual_key = (\<lambda>k. k),
     send_input = (\<lambda>k w. w)\<rparr>"

definition demo_dev :: "((u32 \<times> bytes) list vbus) device" where
  "demo_dev = vbus_device demo_api"

definition demo_init :: "(u32 \<times> bytes) list vbus" where
  "demo_init = \<lparr>bus_handle = 7, g_v_device = G_V_DEVICE_init, path_overrun = False, world = []\<rparr>"

definition demo_addr :: "nat \<Rightarrow> sock_addr" where
  "demo_addr k = SockV4 (IpV4 192 168 0 (of_nat k)) 5000"

text \<open>A started server with one client, from address 9, in slot 0.\<close>

definition demo_started :: "((u32 \<times> bytes) list vbus) server" where
  "demo_started = snd (the (start (Some (IpV4 10 0 0 1)) True (server_init demo_init)))"

definition demo_server :: "((u32 \<times> bytes) list vbus) server" where
  "demo_server = the (handle_datagram True demo_dev 5 [0] (demo_addr 9) demo_started)"

lemma demo_vbus_ok: "vbus_ok demo_init"
  by (simp add: vbus_ok_def demo_init_def G_V_DEVICE_init_def)

lemma demo_started_eq:
  "start (Some (IpV4 10 0 0 1)) True (server_init demo_init) =
    Some (''Controller Server started!'', demo_started)"
  by (simp add: demo_started_def start_def)

lemma demo_started_wf: "server_wf demo_started"
  using start_wf [OF demo_started_eq server_wf_init] .

lemma demo_server_eq:
  "handle_datagram True demo_dev 5 [0] (demo_addr 9) demo_started = Some demo_server"
proof -
  have "rx_buf demo_started = replicate 1024 0"
    by (simp add: demo_started_def start_def)
  then have "handle_datagram True demo_dev 5 [0] (demo_addr 9) demo_started \<noteq> None"
    by (simp add: handle_datagram_def Let_def recv_into_def)
  then show ?thesis by (auto simp: demo_server_def)
qed

lemma demo_reach: "server_reach True demo_dev demo_init demo_server"
proof -
  have "udp_running demo_started" and "\<not> udp_running (server_init demo_init)"
    by (simp_all add: demo_started_def start_def server_init_def)
  then show ?thesis
    using demo_started_eq demo_server_eq
    by (meson reach_init reach_step start_step recv_step)
qed

lemma demo_server_wf: "server_wf demo_server"
  using vb.reach_inv [OF demo_reach [unfolded demo_dev_def] demo_vbus_ok] by simp

lemma demo_sessions: "sessions demo_server = [0 \<mapsto> (demo_addr 9, 0, 5)]"
proof -
  have req: "request_of True (recv_into (rx_buf demo_started) [0]) (recv_len (rx_buf demo_started) [0]) = Connect"
    by (simp add: request_of_def recv_into_def recv_len_def demo_started_def start_def)
  have "sessions demo_started = (\<lambda>i. None)"
  proof
    fix i show "sessions demo_started i = None"
      by (simp add: sessions_def demo_started_def start_def server_init_def sess_of_def
          CLIENT_SLOTS_init_def nth_Cons slot_simps split: nat.split)
  qed
  with sessions_datagram [OF demo_started_wf, of True demo_dev 5 "[0]" "demo_addr 9", unfolded req]
  show ?thesis
    by (simp add: demo_server_eq abs_connect_def upt_rec)
qed

subsection \<open>The received bytes\<close>

lemma received_length:
  assumes "length buf = 1024"
  shows "recv_len buf data = 0 \<longleftrightarrow> data = [] \<or> 1024 < length data"
    and "length data \<le> 1024 \<Longrightarrow> recv_len buf data = length data"
  using assms by (auto simp: recv_len_def)

lemma recv_into_nth: "j < length data \<Longrightarrow> j < length buf \<Longrightarrow> recv_into buf data ! j = data ! j"
  by (simp add: recv_into_def Let_def nth_append)

lemma recv_into_subslice:
  assumes "b \<le> length data" and "length data \<le> length buf \<or> b \<le> length buf"
  shows "subslice a b (recv_into buf data) = subslice a b data"
proof -
  have "take b (recv_into buf data) = take b data"
    using assms by (auto simp: recv_into_def Let_def min_def)
  then have "drop a (take b (recv_into buf data)) = drop a (take b data)" by simp
  then show ?thesis by (simp add: subslice_def drop_take)
qed

text \<open>The data branch of the receive loop, for a well-formed slot number.\<close>

lemma data_datagram:
  assumes wf: "server_wf s" and i: "i < 4" and len: "22 \<le> length data \<and> length data \<le> 1024"
    and d0: "data ! 0 = 1" and d1: "data ! 1 = of_nat (i + 1)"
  shows "handle_datagram checks dev now data addr s =
    Some (on_data dev now addr i (s\<lparr>rx_buf := recv_into (rx_buf s) data\<rparr>))"
proof -
  let ?b = "recv_into (rx_buf s) data"
  let ?s = "s\<lparr>rx_buf := ?b\<rparr>"
  have rb: "length (rx_buf s) = 1024" using server_wfD(4) [OF wf] .
  have b: "?b ! 0 = 1" "?b ! 1 = of_nat (i + 1)"
    unfolding d0 [symmetric] d1 [symmetric]
    by (rule recv_into_nth; use rb len in linarith)+
  have u: "unat (of_nat (i + 1) :: u8) = i + 1"
    unfolding unat_of_nat using i by simp
  then have nz: "(of_nat (i + 1) :: u8) \<noteq> 0" by (metis add_is_0 one_neq_zero unat_0)
  have "(case usize_pred checks (ucast (of_nat (i + 1) :: u8)) of None \<Rightarrow> None
      | Some slot_idx \<Rightarrow> if unat slot_idx < MAX_CLIENTS
          then Some (on_data dev now addr (unat slot_idx) ?s) else Some ?s) =
    Some (on_data dev now addr i ?s)"
    unfolding slot_dispatch [where g = "\<lambda>k. Some (on_data dev now addr k ?s)"]
    using u nz i by simp
  with b show ?thesis
    using len received_length(2) [OF rb, of data] by (auto simp: handle_datagram_def Let_def rb simp del: of_nat_add of_nat_Suc)
qed

text \<open>Under the session of \<open>addr\<close>, the decision of the data branch.\<close>

lemma data_accept_owned:
  assumes wf: "slots_wf ss" and i: "i < 4" and own: "sess_of ss i = Some (addr, q, t)"
  shows "fst (data_accept now addr buf i ss) \<longleftrightarrow>
    q < from_le_bytes [buf ! 2, buf ! 3, buf ! 4, buf ! 5]"
proof -
  have "length ss = 4" using wf by (simp add: slots_wf_def MAX_CLIENTS_def)
  then have "last_sequence (ss ! i) = q"
    using own i by (auto simp: sess_of_def slot_session_def split: if_splits)
  moreover have "occupied (ss ! i) \<and> slot_addr (ss ! i) = Some addr"
    using owned_iff [OF wf i] own by blast
  ultimately show ?thesis by (simp add: data_accept_def Let_def)
qed

definition packet_seq :: "bytes \<Rightarrow> u32" where
  "packet_seq data = from_le_bytes [data ! 2, data ! 3, data ! 4, data ! 5]"

lemma packet_seq_recv:
  "22 \<le> length data \<Longrightarrow> length buf = 1024 \<Longrightarrow> packet_seq (recv_into buf data) = packet_seq data"
  by (simp add: packet_seq_def recv_into_nth)

lemma data_sessions:
  assumes wf: "server_wf s" and i: "i < 4" and len: "22 \<le> length data"
    and own: "sessions s i = Some (addr, q, t)"
  shows "sessions (on_data dev now addr i (s\<lparr>rx_buf := recv_into (rx_buf s) data\<rparr>)) =
    (sessions s)(i \<mapsto> (addr, if q < packet_seq data then packet_seq data else q, now))"
  using sessions_data_accept [OF server_wfD(2) [OF wf] i, of now addr "recv_into (rx_buf s) data",
      folded packet_seq_def] own packet_seq_recv [OF len server_wfD(4) [OF wf]]
  by (simp add: sessions_def slots_on_data owned_abs)

context controller_device
begin

lemma accepted_report:
  assumes wf: "server_wf s" and ok: "frame_ok (dev_buf s)" and i: "i < 4"
    and len: "22 \<le> length data" and own: "sessions s i = Some (addr, q, t)"
    and new: "q < packet_seq data"
  shows "\<exists>e d. dev_execute dev (gamepad_at 6 (recv_into (rx_buf s) data))
      (set_client_id (of_nat (i + 1)) (dev_buf s)) (dev_state s) =
        (e, report_frame [of_nat (i + 1), 0, 0, 0] (subslice 6 18 data), d) \<and>
    dev_state (on_data dev now addr i (s\<lparr>rx_buf := recv_into (rx_buf s) data\<rparr>)) = d \<and>
    dev_buf (on_data dev now addr i (s\<lparr>rx_buf := recv_into (rx_buf s) data\<rparr>)) =
      report_frame [of_nat (i + 1), 0, 0, 0] (subslice 6 18 data)"
proof -
  let ?b = "recv_into (rx_buf s) data"
  have rb: "length (rx_buf s) = 1024" using server_wfD(4) [OF wf] .
  have sub: "subslice 6 18 ?b = subslice 6 18 data"
    using len rb by (intro recv_into_subslice) simp_all
  obtain e d where ex: "dev_execute dev (gamepad_at 6 ?b) (set_client_id (of_nat (i + 1)) (dev_buf s))
      (dev_state s) = (e, report_frame [of_nat (i + 1), 0, 0, 0] (subslice 6 18 data), d)"
    using execute_frame [OF i ok, of ?b "dev_state s"] rb sub by auto
  have "fst (data_accept now addr ?b i (slots s))"
    using data_accept_owned [OF server_wfD(2) [OF wf] i own [unfolded sessions_def], of now ?b]
      packet_seq_recv [OF len rb] new by (simp add: packet_seq_def)
  then obtain ss where "data_accept now addr ?b i (slots s) = (True, ss)"
    by (cases "data_accept now addr ?b i (slots s)") auto
  then show ?thesis using ex by (simp add: on_data_def Let_def)
qed

end

lemma stale_report:
  assumes wf: "server_wf s" and i: "i < 4" and len: "22 \<le> length data"
    and own: "sessions s i = Some (addr, q, t)" and old: "packet_seq data \<le> q"
  shows "dev_state (on_data dev now addr i (s\<lparr>rx_buf := recv_into (rx_buf s) data\<rparr>)) = dev_state s"
    and "dev_buf (on_data dev now addr i (s\<lparr>rx_buf := recv_into (rx_buf s) data\<rparr>)) = dev_buf s"
proof -
  let ?b = "recv_into (rx_buf s) data"
  have "\<not> fst (data_accept now addr ?b i (slots s))"
    using data_accept_owned [OF server_wfD(2) [OF wf] i own [unfolded sessions_def], of now ?b]
      packet_seq_recv [OF len server_wfD(4) [OF wf]] old by (simp add: packet_seq_def not_less)
  then obtain ss where "data_accept now addr ?b i (slots s) = (False, ss)"
    by (cases "data_accept now addr ?b i (slots s)") auto
  then show "dev_state (on_data dev now addr i (s\<lparr>rx_buf := ?b\<rparr>)) = dev_state s"
    and "dev_buf (on_data dev now addr i (s\<lparr>rx_buf := ?b\<rparr>)) = dev_buf s"
    by (simp_all add: on_data_def)
qed

lemma own_slot: "server_wf s \<Longrightarrow> sessions s i = Some c \<Longrightarrow> i < 4"
  by (rule ccontr) (simp add: sessions_def sess_of_outside server_wfD)

subsection \<open>What a step can do to a session\<close>

text \<open>
  \<open>kept i s s'\<close>: if slot \<open>i\<close> is in session before and after, it is the same owner's session
  and its sequence number has not gone back.
\<close>

definition kept :: "nat \<Rightarrow> (nat \<rightharpoonup> session) \<Rightarrow> (nat \<rightharpoonup> session) \<Rightarrow> bool" where
  "kept i m m' \<longleftrightarrow> (\<forall>a q t a' q' t'. m i = Some (a, q, t) \<longrightarrow> m' i = Some (a', q', t') \<longrightarrow>
     a' = a \<and> q \<le> q')"

lemma kept_refl: "kept i m m" by (simp add: kept_def)

lemma kept_sub: "m' i = None \<or> m' i = m i \<Longrightarrow> kept i m m'" by (auto simp: kept_def)

lemma kept_owned:
  assumes "\<And>a q t a' q' t'. f (a, q, t) = Some (a', q', t') \<Longrightarrow> a' = a \<and> q \<le> q'"
  shows "kept i m (abs_owned addr j f m)"
  using assms by (auto simp: kept_def abs_owned_def split: option.splits if_splits)

lemma kept_abs_step: "abs_step now addr r m = Some m' \<Longrightarrow> kept i m m'"
proof (cases r)
  case Connect
  then show "abs_step now addr r m = Some m' \<Longrightarrow> ?thesis"
    by (auto simp: abs_connect_def kept_def find_Some_iff split: option.splits if_splits)
next
  case (Data j q)
  have "kept i m (abs_owned addr j (\<lambda>(a, p, t). Some (a, if p < q then q else p, now)) m)"
    by (rule kept_owned) (auto split: if_splits)
  with Data show "abs_step now addr r m = Some m' \<Longrightarrow> ?thesis" by simp
next
  case (Leave j)
  have "kept i m (abs_owned addr j (\<lambda>_. None) m)" by (rule kept_owned) simp
  with Leave show "abs_step now addr r m = Some m' \<Longrightarrow> ?thesis" by simp
next
  case (Beat j)
  have "kept i m (abs_owned addr j (\<lambda>(a, p, t). Some (a, p, now)) m)"
    by (rule kept_owned) auto
  with Beat show "abs_step now addr r m = Some m' \<Longrightarrow> ?thesis" by simp
qed (simp_all add: kept_refl)

lemma release_any_sessions:
  assumes "release_client_slot checks dev cid s = Some s'" and len: "length (slots s) = 4"
  shows "sessions s' i = None \<or> sessions s' i = sessions s i"
proof (cases "unat (cid - 1) < 4")
  case False
  then have "slots s' = slots s" using release_out_of_range assms(1) by fastforce
  then show ?thesis by (simp add: sessions_def)
next
  case True
  have "usize_pred checks cid \<noteq> None \<Longrightarrow> usize_pred checks cid = Some (cid - 1)"
    by (simp add: usize_pred_def split: if_splits)
  then have "slots s' = (slots s)[unat (cid - 1) := empty_slot]"
    using assms True by (auto simp: release_client_slot_def Let_def MAX_CLIENTS_def slot_simps
        split: option.splits prod.splits)
  then show ?thesis using True len by (simp add: sessions_def slot_simps)
qed

lemma start_sessions: "start ip ok s = Some (m, s') \<Longrightarrow> sessions s' = sessions s"
  by (auto simp: start_def sessions_def split: option.splits if_splits)

lemma cancel_scan_listener:
  "cancel_scan checks dev is s = Some s' \<Longrightarrow> listener s' = listener s"
  by (induction "is" arbitrary: s) (auto simp: release_keeps split: option.splits if_splits)

lemma stop_sessions:
  assumes wf: "server_wf s"
  shows "\<exists>s'. stop checks dev s = Some (''Controller Server stopped!'', s') \<and>
    sessions s' = (\<lambda>i. None) \<and> \<not> listener s' \<and> (listener s \<longrightarrow> \<not> udp_running s')"
proof -
  obtain s1 where s1: "cancel_scan checks dev [0..<4] s = Some s1"
    "sessions s1 = (\<lambda>i. if i \<in> set [0..<4] then None else sessions s i)"
    using cancel_scan_sessions [of "[0..<4]" s checks dev] server_wfD(1) [OF wf] by auto
  have "sessions s1 = (\<lambda>i. None)"
  proof
    fix i
    show "sessions s1 i = None"
    proof (cases "i < 4")
      case True then show ?thesis by (simp add: s1(2))
    next
      case False
      then show ?thesis using sess_of_outside [OF server_wfD(1) [OF wf]] s1(2)
        by (simp add: sessions_def)
    qed
  qed
  moreover have "listener s1 = listener s" using s1(1) by (rule cancel_scan_listener)
  ultimately show ?thesis
    using s1(1) by (auto simp: stop_def cancel_all_clients_def MAX_CLIENTS_def sessions_def)
qed

lemma execute_world:
  "execute api g b st = (e, b', d) \<Longrightarrow>
   world d = snd (device_io_control api (bus_handle st)
     (IOCTL_BUSENUM_REPORT_HARDWARE (wa_consts api)) b' (world st))"
  by (auto simp: execute_def Let_def split: prod.splits)

subsection \<open>Properties\<close>

text \<open>C1. Every state a run can reach is well formed: four slots, each either empty or with its own
  number, an owner and a packet time; at most four listed clients; buffers of their fixed
  sizes; the driver's flag table of four; and, while the listener runs, a device buffer that is
  a report frame.\<close>

theorem server_invariant:
  assumes "server_reach checks (vbus_device api) d0 s" and "vbus_ok d0"
  shows "server_wf s \<and> vbus_ok (dev_state s) \<and> report_ok s"
  using vb.reach_inv [OF assms] vb.reach_report_ok [OF assms] by blast

theorem server_invariant_witness:
  "server_wf demo_server \<and> vbus_ok (dev_state demo_server) \<and> report_ok demo_server"
  using server_invariant [OF demo_reach [unfolded demo_dev_def] demo_vbus_ok] .

text \<open>C3. The receive loop refines the session table: whatever the datagram, its sender and the
  old contents of the receive buffer, the sessions after the iteration are those of the
  abstract request it encodes, and the loop panics exactly when the abstract step does.\<close>

theorem datagram_refines_sessions:
  assumes "server_wf s"
  shows "map_option sessions (handle_datagram checks dev now data addr s) =
    abs_step now addr (request_of checks (recv_into (rx_buf s) data) (recv_len (rx_buf s) data))
      (sessions s)"
  using assms by (rule sessions_datagram)

theorem datagram_refines_sessions_witness:
  "map_option sessions (handle_datagram True demo_dev 8 [2, 1] (demo_addr 9) demo_server) =
    abs_step 8 (demo_addr 9) (request_of True (recv_into (rx_buf demo_server) [2, 1])
      (recv_len (rx_buf demo_server) [2, 1])) (sessions demo_server)"
  using demo_server_wf by (rule datagram_refines_sessions)

text \<open>C11. A data packet of a session's owner, of 22 to 1024 bytes, with a new sequence number is
  delivered to the bus driver as one report request, whose 28 bytes are the header, the slot's number,
  the length byte and the twelve bytes of the packet's gamepad state; the session takes the sequence
  number and the time.\<close>

theorem data_packet_reaches_driver:
  assumes wf: "server_wf s" and ok: "report_ok s" and run: "udp_running s"
    and len: "22 \<le> length data \<and> length data \<le> 1024" and d0: "data ! 0 = 1" and d1: "data ! 1 = of_nat (i + 1)"
    and own: "sessions s i = Some (addr, q, t)" and new: "q < packet_seq data"
  shows "\<exists>s'. handle_datagram checks (vbus_device api) now data addr s = Some s' \<and>
    sessions s' = (sessions s)(i \<mapsto> (addr, packet_seq data, now)) \<and>
    world (dev_state s') = snd (device_io_control api (bus_handle (dev_state s))
      (IOCTL_BUSENUM_REPORT_HARDWARE (wa_consts api))
      ([0x1C, 0, 0, 0, of_nat (i + 1), 0, 0, 0, 0, 0x14] @ subslice 6 18 data @ replicate 6 0)
      (world (dev_state s)))"
proof -
  have i: "i < 4" using own_slot [OF wf own] .
  have fr: "frame_ok (dev_buf s)" using ok run by (simp add: report_ok_def)
  obtain e d where ed: "dev_execute (vbus_device api) (gamepad_at 6 (recv_into (rx_buf s) data))
      (set_client_id (of_nat (i + 1)) (dev_buf s)) (dev_state s) =
        (e, report_frame [of_nat (i + 1), 0, 0, 0] (subslice 6 18 data), d)"
    "dev_state (on_data (vbus_device api) now addr i (s\<lparr>rx_buf := recv_into (rx_buf s) data\<rparr>)) = d"
    using vb.accepted_report [OF wf fr i conjunct1 [OF len] own new, of api now] by blast
  from execute_world [OF ed(1) [unfolded vbus_device_def, simplified device.simps]]
  have "world d = snd (device_io_control api (bus_handle (dev_state s))
      (IOCTL_BUSENUM_REPORT_HARDWARE (wa_consts api))
      (report_frame [of_nat (i + 1), 0, 0, 0] (subslice 6 18 data)) (world (dev_state s)))" .
  then show ?thesis
    unfolding data_datagram [OF wf i len d0 d1]
    using data_sessions [OF wf i conjunct1 [OF len] own, of "vbus_device api" now] new ed(2)
    by (simp add: report_frame_def)
qed

definition demo_packet :: "u8 \<Rightarrow> bytes" where
  "demo_packet q = [1, 1, q, 0, 0, 0, 0x10, 0x20, 0x30, 0x40, 1, 2, 3, 4, 5, 6, 7, 8, 0, 0, 0, 0]"

lemma demo_packet_fields:
  "length (demo_packet q) = 22" "demo_packet q ! 0 = 1" "demo_packet q ! 1 = of_nat (0 + 1)"
  by (simp_all add: demo_packet_def)

lemma demo_packet_seq: "packet_seq (demo_packet 3) = 3"
  by code_simp

lemma demo_running: "report_ok demo_server" "udp_running demo_server"
proof -
  show "report_ok demo_server"
    using vb.reach_report_ok [OF demo_reach [unfolded demo_dev_def] demo_vbus_ok] .
  have "rx_buf demo_started = replicate 1024 0" "udp_running demo_started"
    by (simp_all add: demo_started_def start_def)
  then show "udp_running demo_server"
    by (auto simp: demo_server_def handle_datagram_def Let_def recv_into_def on_connect_def
        acquire_client_slot_def slot_simps split: option.split prod.split)
qed

theorem data_packet_reaches_driver_witness:
  "\<exists>s'. handle_datagram True (vbus_device demo_api) 9 (demo_packet 3) (demo_addr 9) demo_server
      = Some s' \<and>
    sessions s' = (sessions demo_server)(0 \<mapsto> (demo_addr 9, packet_seq (demo_packet 3), 9)) \<and>
    world (dev_state s') = snd (device_io_control demo_api (bus_handle (dev_state demo_server))
      (IOCTL_BUSENUM_REPORT_HARDWARE (wa_consts demo_api))
      ([0x1C, 0, 0, 0, of_nat (0 + 1), 0, 0, 0, 0, 0x14] @ subslice 6 18 (demo_packet 3)
        @ replicate 6 0)
      (world (dev_state demo_server)))"
proof (rule data_packet_reaches_driver [OF demo_server_wf demo_running])
  show "sessions demo_server 0 = Some (demo_addr 9, 0, 5)" by (simp add: demo_sessions)
  show "(0 :: u32) < packet_seq (demo_packet 3)" by (simp add: demo_packet_seq)
qed (simp_all add: demo_packet_fields [unfolded One_nat_def])

text \<open>C19. A replayed or reordered data packet, of 22 to 1024 bytes, whose sequence number is not above the last
  accepted one, only refreshes the session's time: the driver and the report buffer are
  untouched.\<close>

theorem stale_packet_is_dropped:
  assumes wf: "server_wf s" and len: "22 \<le> length data \<and> length data \<le> 1024"
    and d0: "data ! 0 = 1" and d1: "data ! 1 = of_nat (i + 1)"
    and own: "sessions s i = Some (addr, q, t)" and old: "packet_seq data \<le> q"
  shows "\<exists>s'. handle_datagram checks dev now data addr s = Some s' \<and>
    sessions s' = (sessions s)(i \<mapsto> (addr, q, now)) \<and>
    dev_state s' = dev_state s \<and> dev_buf s' = dev_buf s"
  unfolding data_datagram [OF wf own_slot [OF wf own] len d0 d1]
  using stale_report [OF wf own_slot [OF wf own] conjunct1 [OF len] own old, of dev now]
    data_sessions [OF wf own_slot [OF wf own] conjunct1 [OF len] own, of dev now] old
  by (simp add: leD)

theorem stale_packet_is_dropped_witness:
  "\<exists>s'. handle_datagram False demo_dev 9 (demo_packet 0) (demo_addr 9) demo_server = Some s' \<and>
    sessions s' = (sessions demo_server)(0 \<mapsto> (demo_addr 9, 0, 9)) \<and>
    dev_state s' = dev_state demo_server \<and> dev_buf s' = dev_buf demo_server"
proof (rule stale_packet_is_dropped [OF demo_server_wf])
  show "sessions demo_server 0 = Some (demo_addr 9, 0, 5)" by (simp add: demo_sessions)
  show "packet_seq (demo_packet 0) \<le> 0" by code_simp
qed (simp_all add: demo_packet_fields [unfolded One_nat_def])

text \<open>C33. No step of the program, be it a datagram of anyone, a tick or a command, hands a live
  session to another address or takes its sequence number back.\<close>

theorem step_keeps_sessions:
  assumes step: "server_step checks dev s s'" and wf: "server_wf s"
    and before: "sessions s i = Some (a, q, t)" and after: "sessions s' i = Some (a', q', t')"
  shows "a' = a \<and> q \<le> q'"
proof -
  have "kept i (sessions s) (sessions s')"
    using step
  proof cases
    case (start_step ip ok m)
    then show ?thesis by (simp add: start_sessions kept_refl)
  next
    case (stop_step m)
    then show ?thesis using stop_sessions [OF wf, of checks dev] by (auto simp: kept_sub)
  next
    case (recv_step now data addr)
    then show ?thesis using sessions_datagram [OF wf, of checks dev now data addr]
      by (auto intro: kept_abs_step [OF sym])
  next
    case (crash_step now data addr)
    then show ?thesis by (simp add: sessions_def kept_refl)
  next
    case (tick_step now)
    then show ?thesis using tick_sessions [OF wf, of checks dev now]
      by (intro kept_sub) (auto simp: abs_expire_def split: option.split)
  next
    case (kick_step index)
    then show ?thesis
      using release_any_sessions [OF _ server_wfD(1) [OF wf]]
      by (intro kept_sub) (auto simp: disconnect_client_by_index_def)
  qed
  then show ?thesis using before after by (simp add: kept_def)
qed

theorem step_keeps_sessions_witness:
  "\<exists>s'. server_step False demo_dev demo_server s' \<and> sessions s' 0 = Some (demo_addr 9, 3, 9) \<and>
    demo_addr 9 = demo_addr 9 \<and> (0 :: u32) \<le> 3"
proof -
  obtain s' where s': "handle_datagram False demo_dev 9 (demo_packet 3) (demo_addr 9) demo_server
      = Some s'"
    "sessions s' 0 = Some (demo_addr 9, 3, 9)"
    using data_datagram [OF demo_server_wf, of 0 "demo_packet 3" False demo_dev 9 "demo_addr 9"]
      data_sessions [OF demo_server_wf, of 0 "demo_packet 3" "demo_addr 9" 0 5 demo_dev 9]
      demo_sessions demo_packet_fields demo_packet_seq by simp
  have st: "server_step False demo_dev demo_server s'"
    using demo_running(2) s'(1) by (rule recv_step)
  show ?thesis
    using step_keeps_sessions [OF st demo_server_wf, of 0 "demo_addr 9" 0 5 "demo_addr 9" 3 9]
      st s'(2) demo_sessions by auto
qed

text \<open>C34. A tick of the auto-disconnect task never panics and ends exactly the sessions whose last
  packet is more than three seconds old.\<close>

theorem tick_expires_sessions:
  assumes "server_wf s"
  shows "map_option sessions (on_tick checks dev now s) = Some (abs_expire now (sessions s))"
  using assms by (rule tick_sessions)

theorem tick_expires_sessions_witness:
  "map_option sessions (on_tick True demo_dev 3001000005 demo_server)
    = Some (abs_expire 3001000005 (sessions demo_server)) \<and>
   abs_expire 3001000005 (sessions demo_server) 0 = None"
  using tick_expires_sessions [OF demo_server_wf, of True demo_dev 3001000005]
  by (simp add: demo_sessions abs_expire_def)



text \<open>C38. The receive loop panics on a datagram exactly in a build with overflow checks, when the
  datagram fits the buffer, the slot number read from the buffer is zero and the packet is a data
  packet of full length, a disconnect or a heartbeat.\<close>

theorem datagram_panics_iff:
  assumes wf: "server_wf s"
  shows "handle_datagram checks dev now data addr s = None \<longleftrightarrow>
    checks \<and> data \<noteq> [] \<and> length data \<le> 1024 \<and> recv_into (rx_buf s) data ! 1 = 0 \<and>
    (data ! 0 = 1 \<and> 22 \<le> length data \<or> data ! 0 = 2 \<or> data ! 0 = 4)"
proof -
  define r where "r = request_of checks (recv_into (rx_buf s) data) (recv_len (rx_buf s) data)"
  have none: "abs_step now addr r m = None \<longleftrightarrow> r = Crash" for m by (cases r) simp_all
  have "handle_datagram checks dev now data addr s = None \<longleftrightarrow> r = Crash"
    using sessions_datagram [OF wf, of checks dev now data addr, folded r_def] none
    by (metis option.map_disc_iff)
  moreover have "data \<noteq> [] \<Longrightarrow> recv_into (rx_buf s) data ! 0 = data ! 0"
    using server_wfD(4) [OF wf] by (intro recv_into_nth) auto
  ultimately show ?thesis
    using received_length [OF server_wfD(4) [OF wf], of data]
    by (cases "data = [] \<or> 1024 < length data") (auto simp: r_def request_of_def with_slot_def)
qed

theorem datagram_panics_iff_witness:
  "handle_datagram True demo_dev 9 [2, 0] (demo_addr 66) demo_server = None"
proof -
  have "recv_into (rx_buf demo_server) [2, 0] ! 1 = [2, 0 :: u8] ! 1"
    using server_wfD(4) [OF demo_server_wf] by (intro recv_into_nth) simp_all
  then show ?thesis
    using datagram_panics_iff [OF demo_server_wf, of True demo_dev 9 "[2, 0]" "demo_addr 66"]
    by simp
qed

text \<open>A connect request takes the lowest free slot, plugs in that controller and answers the
  sender with the slot's one-based number; when the four slots are taken it changes nothing
  and is not answered.\<close>

theorem connect_assigns_lowest_slot:
  assumes wf: "server_wf s" and d: "data \<noteq> []" "data ! 0 = 0" "length data \<le> 1024"
  shows "\<exists>s'. handle_datagram checks dev now data addr s = Some s' \<and>
    (case find (\<lambda>i. sessions s i = None) [0..<4] of
       None \<Rightarrow> slots s' = slots s \<and> connected s' = connected s \<and> sent s' = sent s
         \<and> dev_state s' = dev_state s
     | Some i \<Rightarrow> sessions s' = (sessions s)(i \<mapsto> (addr, 0, now))
         \<and> sent s' = sent s @ [([0, of_nat (i + 1)], addr)]
         \<and> dev_state s' = snd (dev_plug_in dev (of_nat (i + 1)) (dev_state s))
         \<and> (length (connected s) < 4 \<longrightarrow> connected s' = connected s @
              [\<lparr>ci_ip = ip_string (sock_ip addr), ci_slot = of_nat (i + 1)\<rparr>]))"
proof -
  let ?s = "s\<lparr>rx_buf := recv_into (rx_buf s) data\<rparr>"
  have "recv_into (rx_buf s) data ! 0 = 0"
    using server_wfD(4) [OF wf] d recv_into_nth [of 0 data "rx_buf s"] by simp
  then have h: "handle_datagram checks dev now data addr s = Some (on_connect dev now addr ?s)"
    using received_length(2) [OF server_wfD(4) [OF wf] d(3)] d by (simp add: handle_datagram_def Let_def)
  have "slots_wf (slots ?s)" using server_wfD(2) [OF wf] by simp
  then show ?thesis
  proof (cases rule: acquire_client_slot_cases)
    case full
    then have "find (\<lambda>i. sessions s i = None) [0..<4] = None"
      using find_none_unoccupied server_wfD(1) [OF wf] by (simp add: sessions_def)
    with full h show ?thesis by (simp add: on_connect_def)
  next
    case (free j)
    have len: "length (slots ?s) = 4" using server_wfD(1) [OF wf] by simp
    have "find (\<lambda>i. sessions s i = None) [0..<4] = Some j"
      using find_first_unoccupied [OF len free(1-3)] by (simp add: sessions_def)
    with h show ?thesis
      using on_connect_free [OF free(4) free(1) len, of dev now addr] free(1) len
      by (simp add: sessions_def slot_simps add_connected_client_def)
  qed
qed

theorem connect_assigns_lowest_slot_witness:
  "\<exists>s'. handle_datagram True demo_dev 6 [0] (demo_addr 8) demo_server = Some s' \<and>
    sessions s' = [0 \<mapsto> (demo_addr 9, 0, 5), 1 \<mapsto> (demo_addr 8, 0, 6)] \<and>
    sent s' = sent demo_server @ [([0, of_nat 2], demo_addr 8)]"
  using connect_assigns_lowest_slot [OF demo_server_wf, of "[0]" True demo_dev 6 "demo_addr 8"]
  by (auto simp: demo_sessions upt_rec)

text \<open>A datagram from one address never changes the session of another.\<close>

theorem datagram_isolation:
  assumes wf: "server_wf s" and h: "handle_datagram checks dev now data addr s = Some s'"
    and own: "sessions s i = Some (a, q, t)" and other: "a \<noteq> addr"
  shows "sessions s' i = Some (a, q, t)"
proof -
  have "abs_step now addr r m = Some m' \<Longrightarrow> m i = Some (a, q, t) \<Longrightarrow> m' i = Some (a, q, t)"
    for r m m'
    using other by (cases r) (auto simp: abs_connect_def abs_owned_def find_Some_iff
        split: option.splits if_splits)
  then show ?thesis
    using sessions_datagram [OF wf, of checks dev now data addr] h own by (metis option.map(2))
qed

theorem datagram_isolation_witness:
  "\<exists>s'. handle_datagram True demo_dev 6 [2, 1] (demo_addr 8) demo_server = Some s' \<and>
    sessions s' 0 = Some (demo_addr 9, 0, 5)"
proof -
  have "recv_into (rx_buf demo_server) [2, 1] ! 1 = [2, 1 :: u8] ! 1"
    using server_wfD(4) [OF demo_server_wf] by (intro recv_into_nth) simp_all
  then have "handle_datagram True demo_dev 6 [2, 1] (demo_addr 8) demo_server \<noteq> None"
    using server_wfD(4) [OF demo_server_wf]
    by (simp add: handle_datagram_def Let_def recv_len_def usize_pred_def MAX_CLIENTS_def
        on_disconnect_def release_client_slot_def split: option.split prod.split)
  then obtain s' where s': "handle_datagram True demo_dev 6 [2, 1] (demo_addr 8) demo_server = Some s'"
    by blast
  moreover have "demo_addr 9 \<noteq> demo_addr 8" by (simp add: demo_addr_def)
  ultimately show ?thesis
    using datagram_isolation [OF demo_server_wf s', of 0 "demo_addr 9" 0 5] demo_sessions by simp
qed

lemma connect_two:
  fixes d :: 's
  assumes "s2 = on_connect dev now b (on_connect dev now a (server_init d))"
  shows "slots s2 = [claim_slot 0 a now, claim_slot 1 b now, empty_slot, empty_slot]"
    and "connected s2 = [\<lparr>ci_ip = ip_string (sock_ip a), ci_slot = 1\<rparr>,
           \<lparr>ci_ip = ip_string (sock_ip b), ci_slot = 2\<rparr>]"
proof -
  define s1 where "s1 = on_connect dev now a (server_init d)"
  have s1: "slots s1 = [claim_slot 0 a now, empty_slot, empty_slot, empty_slot]"
    "connected s1 = [\<lparr>ci_ip = ip_string (sock_ip a), ci_slot = 1\<rparr>]"
    by (simp_all add: s1_def on_connect_def acquire_client_slot_def server_init_def
        CLIENT_SLOTS_init_def CONNECTED_CLIENTS_init_def slot_simps add_connected_client_def Let_def
        claim_slot_def empty_slot_def split: prod.split)
  have "occupied (claim_slot 0 a now)" by (simp add: claim_slot_def)
  with s1 show "slots s2 = [claim_slot 0 a now, claim_slot 1 b now, empty_slot, empty_slot]"
    and "connected s2 = [\<lparr>ci_ip = ip_string (sock_ip a), ci_slot = 1\<rparr>,
           \<lparr>ci_ip = ip_string (sock_ip b), ci_slot = 2\<rparr>]"
    unfolding assms s1_def [symmetric]
    by (simp_all add: on_connect_def acquire_client_slot_def slot_simps add_connected_client_def
        Let_def empty_slot_def claim_slot_def split: prod.split)
qed

text \<open>The list of connected clients that the user interface shows is not the session table:
  after two clients connect and leave in the order they came, no session is left but the
  second client is still listed, since entries are removed by position, with the index of the
  slot.\<close>

theorem connected_list_goes_stale:
  "map_option (\<lambda>s. (sessions s, connected s))
     (Option.bind
        (release_client_slot checks dev (of_nat (0 + 1))
           (on_connect dev now b (on_connect dev now a (server_init d))))
        (release_client_slot checks dev (of_nat (1 + 1)))) =
   Some ((\<lambda>i. None), [\<lparr>ci_ip = ip_string (sock_ip b), ci_slot = 2\<rparr>])"
proof -
  define s2 where "s2 = on_connect dev now b (on_connect dev now a (server_init d))"
  note s2 = connect_two [OF s2_def]
  obtain s3 where s3: "release_client_slot checks dev (of_nat (0 + 1)) s2 = Some s3"
    "slots s3 = [empty_slot, claim_slot 1 b now, empty_slot, empty_slot]"
    "connected s3 = [\<lparr>ci_ip = ip_string (sock_ip b), ci_slot = 2\<rparr>]"
    using release_slot [of 0 s2 checks dev] s2 by (auto simp: disconnect_client_def)
  obtain s4 where s4: "release_client_slot checks dev (of_nat (1 + 1)) s3 = Some s4"
    "slots s4 = [empty_slot, empty_slot, empty_slot, empty_slot]"
    "connected s4 = [\<lparr>ci_ip = ip_string (sock_ip b), ci_slot = 2\<rparr>]"
    using release_slot [of 1 s3 checks dev] s3 by (auto simp: disconnect_client_def)
  have "sessions s4 = (\<lambda>i. None)"
    by (auto simp: sessions_def s4 sess_of_def nth_Cons slot_simps fun_eq_iff split: nat.split)
  then show ?thesis
    unfolding s2_def [symmetric] using s3(1) s4 by simp
qed

text \<open>With the bus open, plugging in controller 1 to 4 is one plug-in request of sixteen bytes,
  the length and the controller number, to the open handle, and success marks the flag of
  that controller.\<close>

theorem plug_in_request:
  assumes "1 \<le> ui" and "ui \<le> 4" and "bus_handle b \<noteq> INVALID_HANDLE api"
  shows "let (out, w') = device_io_control api (bus_handle b)
        (IOCTL_BUSENUM_PLUGIN_HARDWARE (wa_consts api))
        [0x10, 0, 0, 0, ucast ui, 0, 0, 0, 0, 0, 0, 0, 0, 0, 0, 0] (world b);
      (r, b') = plug_in api ui b
    in r = out \<and> world b' = w' \<and> bus_handle b' = bus_handle b \<and>
       g_v_device b' = (if out \<noteq> 0 then (g_v_device b)[unat (ui - 1) := True] else g_v_device b)"
proof -
  have v: "\<not> (ui < 1 \<or> 4 < ui)" using assms by auto
  obtain out w' where dic: "device_io_control api (bus_handle b)
      (IOCTL_BUSENUM_PLUGIN_HARDWARE (wa_consts api)) (plug_in_buffer ui) (world b) = (out, w')"
    by (metis surj_pair)
  show ?thesis
    unfolding plug_in_open [OF v assms(3) dic] using dic [unfolded plug_in_buffer_valid [OF v]]
    by simp
qed

theorem plug_in_request_witness:
  "world (snd (plug_in demo_api 2 demo_init)) =
     [(0x2AA004, [0x10, 0, 0, 0, 2, 0, 0, 0, 0, 0, 0, 0, 0, 0, 0, 0])] \<and>
   g_v_device (snd (plug_in demo_api 2 demo_init)) = [False, True, False, False]"
proof -
  have open': "bus_handle demo_init \<noteq> INVALID_HANDLE demo_api"
    by (simp add: demo_init_def demo_api_def)
  have c: "IOCTL_BUSENUM_PLUGIN_HARDWARE (wa_consts demo_api) = 0x2AA004" by code_simp
  have f: "(replicate MAX_CLIENTS False)[unat (2 - 1 :: u32) := True] = [False, True, False, False]"
    by code_simp
  show ?thesis
    using plug_in_request [OF _ _ open', of 2] c f
    by (simp add: demo_api_def demo_init_def G_V_DEVICE_init_def split: prod.splits)
qed

text \<open>Looking up the bus never writes past the path buffer when each device interface asks for
  at most 520 bytes; an interface that asks for more overruns it.\<close>

theorem path_fits_buffer:
  assumes "\<forall>x \<in> set (setup_enum_interfaces api (world b)). unat (required_size x div 2) \<le> MAX_PATH"
  shows "path_overrun (snd (get_vxbus_handle api b)) = path_overrun b"
proof -
  have "snd (snd (get_vxbus_path api (replicate MAX_PATH 0) (world b))) = False"
    using scan_interfaces_no_overrun [of "setup_enum_interfaces api (world b)" "replicate MAX_PATH 0"]
      assms by (simp add: get_vxbus_path_def)
  then show ?thesis by (auto simp: get_vxbus_handle_def Let_def split: prod.splits)
qed

theorem path_fits_buffer_witness:
  "path_overrun (snd (get_vxbus_handle demo_api demo_init)) = path_overrun demo_init \<and>
   path_overrun (snd (get_vxbus_handle (demo_api\<lparr>setup_enum_interfaces := (\<lambda>w.
     [\<lparr>required_size = 600, alloc_ok = True, device_path_mem = Some (\<lambda>i. 0x5C)\<rparr>])\<rparr>) demo_init))"
proof
  have "unat (40 div 2 :: u32) \<le> 260" by code_simp
  then show "path_overrun (snd (get_vxbus_handle demo_api demo_init)) = path_overrun demo_init"
    by (intro path_fits_buffer) (simp add: demo_api_def MAX_PATH_def)
  show "path_overrun (snd (get_vxbus_handle (demo_api\<lparr>setup_enum_interfaces := (\<lambda>w.
     [\<lparr>required_size = 600, alloc_ok = True, device_path_mem = Some (\<lambda>i. 0x5C)\<rparr>])\<rparr>) demo_init))"
    by code_simp
qed

text \<open>The three control codes are the Windows encoding of the bus enumerator's functions
  0x801, 0x802 and 0x804: device type, access, function and method sit in their bit fields.\<close>

theorem ioctl_code_fields:
  assumes "unat (FILE_DEVICE_BUS_EXTENDER c) < 2 ^ 16" and "unat (METHOD_BUFFERED c) < 4"
    and "unat (FILE_WRITE_DATA c) < 4" and "unat (FILE_WRITE_DATA c OR FILE_READ_DATA c) < 4"
  shows "map (\<lambda>w. (drop_bit 16 w, take_bit 2 (drop_bit 14 w), take_bit 12 (drop_bit 2 w), take_bit 2 w))
      [IOCTL_BUSENUM_PLUGIN_HARDWARE c, IOCTL_BUSENUM_UNPLUG_HARDWARE c,
       IOCTL_BUSENUM_REPORT_HARDWARE c] =
    [(FILE_DEVICE_BUS_EXTENDER c, FILE_WRITE_DATA c, 0x801, METHOD_BUFFERED c),
     (FILE_DEVICE_BUS_EXTENDER c, FILE_WRITE_DATA c, 0x802, METHOD_BUFFERED c),
     (FILE_DEVICE_BUS_EXTENDER c, FILE_WRITE_DATA c OR FILE_READ_DATA c, 0x804, METHOD_BUFFERED c)]"
  using assms
    ctl_code_fields [of "FILE_DEVICE_BUS_EXTENDER c" "0x801" "METHOD_BUFFERED c" "FILE_WRITE_DATA c"]
    ctl_code_fields [of "FILE_DEVICE_BUS_EXTENDER c" "0x802" "METHOD_BUFFERED c" "FILE_WRITE_DATA c"]
    ctl_code_fields [of "FILE_DEVICE_BUS_EXTENDER c" "0x804" "METHOD_BUFFERED c"
      "FILE_WRITE_DATA c OR FILE_READ_DATA c"]
  by (simp add: IOCTL_BUSENUM_PLUGIN_HARDWARE_def IOCTL_BUSENUM_UNPLUG_HARDWARE_def
      IOCTL_BUSENUM_REPORT_HARDWARE_def IOCTL_BUSENUM_BASE_def)

theorem ioctl_code_fields_witness:
  "map (\<lambda>w. (drop_bit 16 w, take_bit 2 (drop_bit 14 w), take_bit 12 (drop_bit 2 w), take_bit 2 w))
      [IOCTL_BUSENUM_PLUGIN_HARDWARE (wa_consts demo_api),
       IOCTL_BUSENUM_UNPLUG_HARDWARE (wa_consts demo_api),
       IOCTL_BUSENUM_REPORT_HARDWARE (wa_consts demo_api)] =
    [(0x2A, 2, 0x801, 0), (0x2A, 2, 0x802, 0), (0x2A, 3, 0x804, 0)]"
  using ioctl_code_fields [of "wa_consts demo_api"]
  by (simp add: demo_api_def)

end
