(* ===== verification/BytesCodec.thy ===== *)
theory BytesCodec
  imports Prelude
begin

unbundle bit_operations_syntax

text \<open>
  \<^verbatim>\<open>libs/hbb_common/src/bytes_codec.rs\<close>: the length-prefixed framing of TCP streams. The
  decoder works on the bytes received so far and keeps the length of a frame whose header
  it has consumed. The locale \<open>frame_codec\<close> is what a framed stream relies on; in it,
  reading a stream does not depend on how the bytes are cut into chunks.
\<close>

subsection \<open>The codec\<close>

datatype decode_state = Head | DataOf usize

record codec =
  state :: decode_state
  raw :: bool
  max_packet_length :: usize

datatype codec_error = Too_big_packet | Codec_overflow

definition codec_new :: codec where
  "codec_new = \<lparr>state = Head, raw = False, max_packet_length = - 1\<rparr>"

definition codec_set_raw :: "codec \<Rightarrow> codec" where
  "codec_set_raw c = c\<lparr>raw := True\<rparr>"

definition codec_set_max_packet_length :: "usize \<Rightarrow> codec \<Rightarrow> codec" where
  "codec_set_max_packet_length n c = c\<lparr>max_packet_length := n\<rparr>"

definition decode_head :: "codec \<Rightarrow> bytes \<Rightarrow> codec_error + usize option \<times> bytes" where
  "decode_head c src =
     (if src = [] then Inr (None, src)
      else let head_len = unat ((src ! 0 AND 0x3) + 1)
        in if length src < head_len then Inr (None, src)
        else let n0 = ucast (src ! 0) :: usize;
                 n1 = (if head_len > 1 then n0 OR push_bit 8 (ucast (src ! 1)) else n0);
                 n2 = (if head_len > 2 then n1 OR push_bit 16 (ucast (src ! 2)) else n1);
                 n3 = (if head_len > 3 then n2 OR push_bit 24 (ucast (src ! 3)) else n2);
                 n = drop_bit 2 n3
          in if max_packet_length c < n then Inl Too_big_packet
             else Inr (Some n, drop head_len src))"

definition decode_data :: "usize \<Rightarrow> bytes \<Rightarrow> bytes option \<times> bytes" where
  "decode_data n src =
     (if length src < unat n then (None, src) else (Some (take (unat n) src), drop (unat n) src))"

definition decode_body :: "codec \<Rightarrow> usize \<Rightarrow> bytes \<Rightarrow> codec_error + bytes option \<times> codec \<times> bytes" where
  "decode_body c n src =
     (case decode_data n src of
        (Some data, rest) \<Rightarrow> Inr (Some data, c\<lparr>state := Head\<rparr>, rest)
      | (None, rest) \<Rightarrow> Inr (None, c, rest))"

definition decode :: "codec \<Rightarrow> bytes \<Rightarrow> codec_error + bytes option \<times> codec \<times> bytes" where
  "decode c src =
     (if raw c then (if src \<noteq> [] then Inr (Some src, c, []) else Inr (None, c, src))
      else case state c of
        Head \<Rightarrow> rbind (decode_head c src) (\<lambda>(r, rest). case r of
             Some n \<Rightarrow> decode_body (c\<lparr>state := DataOf n\<rparr>) n rest
           | None \<Rightarrow> Inr (None, c, rest))
      | DataOf n \<Rightarrow> decode_body c n src)"

definition encode_head :: "nat \<Rightarrow> codec_error + bytes" where
  "encode_head len =
     (if len \<le> 0x3F then Inr [ucast (push_bit 2 (of_nat len :: usize))]
      else if len \<le> 0x3FFF then
        Inr (to_le_bytes ((ucast (push_bit 2 (of_nat len :: usize)) :: u16) OR 0x1))
      else if len \<le> 0x3FFFFF then
        (let h = (ucast (push_bit 2 (of_nat len :: usize)) :: u32) OR 0x2
         in Inr (to_le_bytes (ucast (h AND 0xFFFF) :: u16) @ [ucast (drop_bit 16 h)]))
      else if len \<le> 0x3FFFFFFF then
        Inr (to_le_bytes ((ucast (push_bit 2 (of_nat len :: usize)) :: u32) OR 0x3))
      else Inl Codec_overflow)"

definition encode :: "codec \<Rightarrow> bytes \<Rightarrow> bytes \<Rightarrow> codec_error + bytes" where
  "encode c data buf =
     (if raw c then Inr (buf @ data)
      else rbind (encode_head (length data)) (\<lambda>h. Inr (buf @ h @ data)))"

subsection \<open>Headers as numbers\<close>

lemma or_disjoint_nat: "a < 2 ^ k \<Longrightarrow> a OR push_bit k b = a + 2 ^ k * (b :: nat)"
proof -
  assume a: "a < 2 ^ k"
  then have "take_bit k a = a" by (simp add: take_bit_nat_eq_self)
  then have "a AND push_bit k b = 0"
    by (intro bit_eqI) (metis bit_and_iff bit_push_bit_iff bit_take_bit_iff bit_0_eq bot_fun_def bot_bool_def leD)
  then show ?thesis by (simp add: disjunctive_add_eq_or [symmetric] push_bit_eq_mult mult.commute)
qed

lemma unat_byte_bound: "unat (b :: u8) < 256"
  using unsigned_less [of b] by simp

lemma unat_ucast_byte_word:
  assumes "8 \<le> LENGTH('a)"
  shows "unat (ucast (b :: u8) :: 'a::len word) = unat b"
proof -
  have "(2 :: nat) ^ 8 \<le> 2 ^ LENGTH('a)" using assms by (intro power_increasing) simp_all
  then have "unat b < 2 ^ LENGTH('a)" using unat_byte_bound [of b] by simp
  then show ?thesis by (simp add: unsigned_ucast_eq take_bit_nat_eq_self)
qed

lemma unat_or_shifted_byte:
  assumes "unat (w :: usize) < 2 ^ k" and "k \<le> 24"
  shows "unat (w OR push_bit k (ucast (b :: u8))) = unat w + 2 ^ k * unat b"
proof -
  have "(2 :: nat) ^ k \<le> 2 ^ 24" using assms(2) by (intro power_increasing) simp_all
  then have "2 ^ k * unat b < 2 ^ 24 * 256"
    using unat_byte_bound [of b] by (intro mult_le_less_imp_less) simp_all
  then have "push_bit k (unat b) < 2 ^ 64" by (simp add: push_bit_eq_mult mult.commute)
  then have "unat (push_bit k (ucast b :: usize)) = push_bit k (unat b)"
    using unat_ucast_byte_word [of b, where 'a = 64]
    by (simp add: unsigned_push_bit_eq take_bit_nat_eq_self)
  then show ?thesis
    using or_disjoint_nat [OF assms(1), of "unat b"] by (simp add: unsigned_or_eq)
qed

lemma unat_head_len: "unat ((b AND 0x3 :: u8) + 1) = unat b mod 4 + 1"
proof -
  have "unat b AND 3 = unat b mod 4"
    using take_bit_eq_mask [of 2 "unat b"] by (simp add: mask_eq_exp_minus_1 take_bit_eq_mod)
  then have u: "unat (b AND 0x3) = unat b mod 4" by (simp add: unsigned_and_eq)
  moreover have "unat b mod 4 < 4" by simp
  ultimately have "unat (b AND 0x3) + 1 < 2 ^ 8" by simp
  then have "unat ((b AND 0x3) + 1) = unat (b AND 0x3) + 1"
    by (subst unat_add_lem [THEN iffD1]) simp_all
  with u show ?thesis by simp
qed

text \<open>The number a header of \<open>k\<close> bytes stands for.\<close>

definition head_len :: "bytes \<Rightarrow> nat" where
  "head_len src = unat (hd src) mod 4 + 1"

definition head_val :: "bytes \<Rightarrow> nat" where
  "head_val src = nat_of_le (take (head_len src) src) div 4"

lemma head_len_bounds: "1 \<le> head_len src" "head_len src \<le> 4"
  by (auto simp: head_len_def)

text \<open>The shifts and ors of the decoder compute the number of the header.\<close>

definition head_word :: "bytes \<Rightarrow> usize" where
  "head_word src =
     (let n0 = ucast (src ! 0) :: usize;
          n1 = (if head_len src > 1 then n0 OR push_bit 8 (ucast (src ! 1)) else n0);
          n2 = (if head_len src > 2 then n1 OR push_bit 16 (ucast (src ! 2)) else n1)
      in (if head_len src > 3 then n2 OR push_bit 24 (ucast (src ! 3)) else n2))"

lemma head_word_value:
  assumes "src \<noteq> []" and len: "head_len src \<le> length src"
  shows "unat (head_word src) = nat_of_le (take (head_len src) src)"
proof -
  define a b c d where abcd: "a = src ! 0" "b = src ! 1" "c = src ! 2" "d = src ! 3"
  define n0 where "n0 = (ucast a :: usize)"
  define n1 where "n1 = n0 OR push_bit 8 (ucast b)"
  define n2 where "n2 = n1 OR push_bit 16 (ucast c)"
  define n3 where "n3 = n2 OR push_bit 24 (ucast d)"
  have n0: "unat n0 = unat a" by (simp add: n0_def unat_ucast_byte_word)
  have n1: "unat n1 = unat a + 256 * unat b"
    using unat_or_shifted_byte [of n0 8 b] unat_byte_bound [of a] by (simp add: n1_def n0)
  have n2: "unat n2 = unat a + 256 * unat b + 65536 * unat c"
    using unat_or_shifted_byte [of n1 16 c] unat_byte_bound [of a] unat_byte_bound [of b]
    by (simp add: n2_def n1)
  have n3: "unat n3 = unat a + 256 * unat b + 65536 * unat c + 16777216 * unat d"
    using unat_or_shifted_byte [of n2 24 d] unat_byte_bound [of a] unat_byte_bound [of b]
      unat_byte_bound [of c]
    by (simp add: n3_def n2)
  have w: "head_word src = (if head_len src > 3 then n3 else if head_len src > 2 then n2
      else if head_len src > 1 then n1 else n0)"
    by (simp add: head_word_def Let_def n3_def n2_def n1_def n0_def abcd)
  consider "head_len src = 1" | "head_len src = 2" | "head_len src = 3" | "head_len src = 4"
    using head_len_bounds [of src] by linarith
  then show ?thesis
  proof cases
    case 1
    then have "take (head_len src) src = [a]"
      using assms by (cases src) (simp_all add: abcd)
    with 1 show ?thesis by (simp add: w n0)
  next
    case 2
    then have "take (head_len src) src = [a, b]" using len
      by (simp add: abcd list_eq_iff_nth_eq less_Suc_eq numeral_2_eq_2)
    with 2 show ?thesis by (simp add: w n1)
  next
    case 3
    then have "take (head_len src) src = [a, b, c]" using len
      by (simp add: abcd list_eq_iff_nth_eq less_Suc_eq numeral_eq_Suc)
    with 3 show ?thesis by (simp add: w n2)
  next
    case 4
    then have "take (head_len src) src = [a, b, c, d]" using len
      by (simp add: abcd list_eq_iff_nth_eq less_Suc_eq numeral_eq_Suc)
    with 4 show ?thesis by (simp add: w n3)
  qed
qed

lemma unat_drop_head:
  assumes "src \<noteq> []" and "head_len src \<le> length src"
  shows "unat (drop_bit 2 (head_word src)) = head_val src"
  using head_word_value [OF assms]
  by (simp add: head_val_def drop_bit_eq_div unat_div)

lemma decode_head_cases:
  assumes "src \<noteq> []"
  shows "decode_head c src =
    (if length src < head_len src then Inr (None, src)
     else if unat (max_packet_length c) < head_val src then Inl Too_big_packet
     else Inr (Some (drop_bit 2 (head_word src)), drop (head_len src) src))"
proof -
  have hl: "unat ((src ! 0 AND 0x3) + 1) = head_len src"
    using assms by (simp add: unat_head_len head_len_def hd_conv_nth)
  have "max_packet_length c < drop_bit 2 (head_word src) \<longleftrightarrow>
      unat (max_packet_length c) < head_val src" if "\<not> length src < head_len src"
    using unat_drop_head [OF assms] that by (simp add: word_less_nat_alt)
  then show ?thesis
    using assms by (simp add: decode_head_def Let_def hl head_word_def)
qed

subsection \<open>Encoded headers\<close>

lemma ucast_of_nat_usize:
  "m < 2 ^ 64 \<Longrightarrow> ucast (of_nat m :: usize) = (of_nat m :: 'a::len word)"
  unfolding unsigned_of_nat by (subst take_bit_nat_eq_self) simp_all

lemma shifted_len: "m < 2 ^ 62 \<Longrightarrow> ucast (push_bit 2 (of_nat m :: usize)) = (of_nat (4 * m) :: 'a::len word)"
  using ucast_of_nat_usize [of "4 * m"] by (simp add: push_bit_eq_mult mult.commute)

lemma or_tag_nat: "r < 4 \<Longrightarrow> (4 * m) OR r = 4 * m + (r :: nat)"
  using or_disjoint_nat [of r 2 m] by (simp add: push_bit_eq_mult or.commute mult.commute)

definition size_class :: "nat \<Rightarrow> nat" where
  "size_class len = (if len \<le> 0x3F then 1 else if len \<le> 0x3FFF then 2
     else if len \<le> 0x3FFFFF then 3 else 4)"

lemma unat_tagged:
  assumes "4 * m + unat r < 2 ^ LENGTH('a)" and "unat r < 4"
  shows "unat ((of_nat (4 * m) :: 'a::len word) OR r) = 4 * m + unat r"
proof -
  have "unat (of_nat (4 * m) :: 'a word) = 4 * m"
    using assms(1) unfolding unat_of_nat by (intro mod_less) linarith
  then show ?thesis using or_tag_nat [OF assms(2), of m] by (simp add: unsigned_or_eq)
qed

lemma nat_to_le_2: "nat_to_le 2 x = [of_nat (x mod 256), of_nat (x div 256 mod 256)]"
  by (simp add: numeral_2_eq_2)

lemma nat_to_le_3:
  "nat_to_le 3 x = [of_nat (x mod 256), of_nat (x div 256 mod 256), of_nat (x div 256 div 256 mod 256)]"
  by (simp add: numeral_3_eq_3)

lemma nat_to_le_3_split:
  assumes "x < 2 ^ 24"
  shows "nat_to_le 3 x = nat_to_le 2 (x mod 65536) @ [of_nat (x div 65536)]"
proof -
  have "x mod 65536 mod 256 = x mod 256" by (simp add: mod_mod_cancel)
  moreover have "x mod 65536 div 256 mod 256 = x div 256 mod 256"
    using mod_mult2_eq [of x 256 256] by simp
  moreover have "x div 256 div 256 mod 256 = x div 65536"
    using assms by (simp add: div_mult2_eq [of x 256 256, simplified, symmetric] less_mult_imp_div_less)
  ultimately show ?thesis by (simp only: nat_to_le_3 nat_to_le_2 append_Cons append_Nil)
qed

lemma three_byte_header:
  assumes "unat (h :: u32) < 2 ^ 24"
  shows "to_le_bytes (ucast (h AND 0xFFFF) :: u16) @ [ucast (drop_bit 16 h)] = nat_to_le 3 (unat h)"
proof -
  have "unat h AND 0xFFFF = unat h mod 65536"
    using take_bit_eq_mask [of 16 "unat h"] by (simp add: mask_eq_exp_minus_1 take_bit_eq_mod)
  then have "unat (h AND 0xFFFF) = unat h mod 65536" by (simp add: unsigned_and_eq)
  then have lo: "unat (ucast (h AND 0xFFFF) :: u16) = unat h mod 65536"
    by (simp add: unsigned_ucast_eq take_bit_eq_mod)
  have hi: "ucast (drop_bit 16 h) = (of_nat (unat h div 65536) :: u8)"
    by (subst word_unat_eq_iff) (simp add: unsigned_ucast_eq take_bit_eq_mod drop_bit_eq_div
        unat_div unat_of_nat)
  show ?thesis unfolding to_le_bytes_def lo hi nat_to_le_3_split [OF assms] by simp
qed

lemma encode_head_eq:
  assumes "len \<le> 0x3FFFFFFF"
  shows "encode_head len = Inr (nat_to_le (size_class len) (4 * len + (size_class len - 1)))"
proof -
  have sh: "ucast (push_bit 2 (of_nat len :: usize)) = (of_nat (4 * len) :: 'b::len word)"
    using assms by (intro shifted_len) simp
  consider "len \<le> 0x3F" | "0x3F < len \<and> len \<le> 0x3FFF" | "0x3FFF < len \<and> len \<le> 0x3FFFFF"
    | "0x3FFFFF < len" by linarith
  then show ?thesis
  proof cases
    case 1
    then show ?thesis by (simp add: encode_head_def size_class_def sh del: of_nat_mult)
  next
    case 2
    then have "unat ((of_nat (4 * len) :: u16) OR 1) = 4 * len + 1"
      using unat_tagged [of len "1 :: u16"] by simp
    with 2 show ?thesis by (simp add: encode_head_def size_class_def sh to_le_bytes_def del: of_nat_mult)
  next
    case 3
    then have "unat ((of_nat (4 * len) :: u32) OR 2) = 4 * len + 2"
      using unat_tagged [of len "2 :: u32"] by simp
    with 3 show ?thesis
      using three_byte_header [of "(of_nat (4 * len) :: u32) OR 2"]
      by (simp add: encode_head_def size_class_def sh Let_def del: of_nat_mult)
  next
    case 4
    then have "unat ((of_nat (4 * len) :: u32) OR 3) = 4 * len + 3"
      using unat_tagged [of len "3 :: u32"] assms by simp
    with 4 assms show ?thesis
      by (simp add: encode_head_def size_class_def sh to_le_bytes_def del: of_nat_mult)
  qed
qed

text \<open>A header is read back as the length it was made for.\<close>

lemma encoded_head_reads:
  assumes "len \<le> 0x3FFFFFFF"
  defines "h \<equiv> nat_to_le (size_class len) (4 * len + (size_class len - 1))"
  shows "head_len (h @ rest) = size_class len" and "head_val (h @ rest) = len"
    and "length h = size_class len"
proof -
  define k where "k = size_class len"
  have k: "1 \<le> k" "k \<le> 4" by (auto simp: k_def size_class_def)
  have bound: "4 * len + (k - 1) < 256 ^ k"
    using assms(1) by (auto simp: k_def size_class_def)
  obtain k' where k': "k = Suc k'" using k by (cases k) auto
  have h: "h = of_nat ((4 * len + k') mod 256) # nat_to_le k' ((4 * len + k') div 256)"
    by (simp add: h_def k_def [symmetric] k')
  have "(4 * len + k') mod 256 mod 4 = k'" using k by (simp add: mod_mod_cancel k')
  then show hl: "head_len (h @ rest) = size_class len"
    by (simp add: head_len_def h k_def [symmetric] k')
  show len_h: "length h = size_class len" by (simp add: h_def)
  have "take (head_len (h @ rest)) (h @ rest) = h" by (simp add: hl len_h)
  then have "head_val (h @ rest) = (4 * len + (k - 1)) div 4"
    using bound by (simp add: head_val_def h_def k_def [symmetric])
  then show "head_val (h @ rest) = len" using k by simp
qed

subsection \<open>Framed streams\<close>

text \<open>
  How \<^verbatim>\<open>Framed\<close> drives a decoder: decode until it asks for more bytes or fails; then append
  the next chunk of the stream. The fuel of \<open>drain\<close> is one more than the buffered bytes,
  enough because every frame takes at least one of them.
\<close>

fun drain :: "('st \<Rightarrow> bytes \<Rightarrow> 'e + 'm option \<times> 'st \<times> bytes) \<Rightarrow> nat \<Rightarrow> 'st \<Rightarrow> bytes
    \<Rightarrow> 'm list \<times> ('e + 'st \<times> bytes)" where
  "drain dec 0 st buf = ([], Inr (st, buf))"
| "drain dec (Suc f) st buf =
     (case dec st buf of
        Inl e \<Rightarrow> ([], Inl e)
      | Inr (None, st', buf') \<Rightarrow> ([], Inr (st', buf'))
      | Inr (Some m, st', buf') \<Rightarrow> (let (ms, r) = drain dec f st' buf' in (m # ms, r)))"

definition drain_all :: "('st \<Rightarrow> bytes \<Rightarrow> 'e + 'm option \<times> 'st \<times> bytes) \<Rightarrow> 'st \<Rightarrow> bytes
    \<Rightarrow> 'm list \<times> ('e + 'st \<times> bytes)" where
  "drain_all dec st buf = drain dec (Suc (length buf)) st buf"

fun feed :: "('st \<Rightarrow> bytes \<Rightarrow> 'e + 'm option \<times> 'st \<times> bytes) \<Rightarrow> 'st \<Rightarrow> bytes \<Rightarrow> bytes list
    \<Rightarrow> 'm list \<times> ('e + 'st \<times> bytes)" where
  "feed dec st buf [] = ([], Inr (st, buf))"
| "feed dec st buf (c # cs) =
     (case drain_all dec st (buf @ c) of
        (ms, Inl e) \<Rightarrow> (ms, Inl e)
      | (ms, Inr (st', buf')) \<Rightarrow> (let (ms', r) = feed dec st' buf' cs in (ms @ ms', r)))"

locale frame_codec =
  fixes dec :: "'st \<Rightarrow> bytes \<Rightarrow> 'e + 'm option \<times> 'st \<times> bytes"
    and good :: "'st \<Rightarrow> bool"
  assumes dec_none: "good st \<Longrightarrow> dec st buf = Inr (None, st', buf') \<Longrightarrow>
      good st' \<and> dec st (buf @ ext) = dec st' (buf' @ ext)"
    and dec_some: "good st \<Longrightarrow> dec st buf = Inr (Some m, st', buf') \<Longrightarrow>
      good st' \<and> length buf' < length buf \<and> dec st (buf @ ext) = Inr (Some m, st', buf' @ ext)"
    and dec_err: "good st \<Longrightarrow> dec st buf = Inl e \<Longrightarrow> dec st (buf @ ext) = Inl e"
begin

lemma drain_fuel:
  "good st \<Longrightarrow> length buf < f \<Longrightarrow> length buf < g \<Longrightarrow> drain dec f st buf = drain dec g st buf"
proof (induction f arbitrary: g st buf)
  case 0
  then show ?case by simp
next
  case (Suc f)
  obtain g' where g: "g = Suc g'" using Suc.prems by (cases g) auto
  show ?case
  proof (cases "dec st buf")
    case (Inr r)
    then obtain o' st' buf' where r: "dec st buf = Inr (o', st', buf')" by (cases r) auto
    show ?thesis
    proof (cases o')
      case None
      then show ?thesis using r by (simp add: g)
    next
      case (Some m)
      with r have "good st'" "length buf' < length buf"
        using dec_some [OF Suc.prems(1)] by blast+
      then have "drain dec f st' buf' = drain dec g' st' buf'"
        using Suc.prems g by (intro Suc.IH) simp_all
      then show ?thesis by (simp add: g r Some)
    qed
  qed (simp add: g)
qed

lemma drain_good:
  "good st \<Longrightarrow> drain dec f st buf = (ms, Inr (st', buf')) \<Longrightarrow> good st'"
proof (induction f arbitrary: st buf ms)
  case (Suc f)
  then show ?case
    using dec_none [OF Suc.prems(1), of buf _ _ "[]"] dec_some [OF Suc.prems(1), of buf]
    by (auto split: sum.splits option.splits prod.splits) blast
qed simp

text \<open>Draining a longer buffer is draining the shorter one first.\<close>

lemma drain_append:
  assumes "good st" and "length buf < f"
  shows "drain_all dec st (buf @ ext) =
    (case drain dec f st buf of
       (ms, Inl e) \<Rightarrow> (ms, Inl e)
     | (ms, Inr (st', buf')) \<Rightarrow>
         (let (ms', r) = drain_all dec st' (buf' @ ext) in (ms @ ms', r)))"
  using assms
proof (induction f arbitrary: st buf)
  case 0
  then show ?case by simp
next
  case (Suc f)
  show ?case
  proof (cases "dec st buf")
    case (Inl e)
    then show ?thesis
      using dec_err [OF Suc.prems(1) Inl, of ext] by (simp add: drain_all_def)
  next
    case (Inr r)
    then obtain o' st' buf' where r: "dec st buf = Inr (o', st', buf')" by (cases r) auto
    show ?thesis
    proof (cases o')
      case None
      from r have "dec st (buf @ ext) = dec st' (buf' @ ext)" "good st'"
        using dec_none [OF Suc.prems(1), of buf st' buf'] by (simp_all add: None)
      then have "drain_all dec st (buf @ ext) = drain dec (Suc (length (buf @ ext))) st' (buf' @ ext)"
        by (simp add: drain_all_def)
      also have "\<dots> = drain_all dec st' (buf' @ ext)"
        unfolding drain_all_def using \<open>good st'\<close>
      proof (cases "dec st' (buf' @ ext)")
        case (Inr q)
        then obtain oq sq bq where q: "dec st' (buf' @ ext) = Inr (oq, sq, bq)" by (cases q) auto
        show "drain dec (Suc (length (buf @ ext))) st' (buf' @ ext) =
          drain dec (Suc (length (buf' @ ext))) st' (buf' @ ext)"
        proof (cases oq)
          case (Some m)
          then have "length bq < length (buf' @ ext)" "length bq < length (buf @ ext)" "good sq"
            using q dec_some [OF \<open>good st'\<close>, of "buf' @ ext" m sq bq "[]"]
              dec_some [OF Suc.prems(1), of "buf @ ext" m sq bq "[]"]
              \<open>dec st (buf @ ext) = dec st' (buf' @ ext)\<close> by simp_all
          then show ?thesis
            using q Some drain_fuel [OF \<open>good sq\<close>, of bq "length (buf @ ext)" "length (buf' @ ext)"]
            by simp
        qed (simp add: q)
      qed simp
      finally show ?thesis using r None by simp
    next
      case (Some m)
      then have s: "good st'" "length buf' < length buf"
        "dec st (buf @ ext) = Inr (Some m, st', buf' @ ext)"
        using dec_some [OF Suc.prems(1) r [unfolded Some]] by simp_all
      have "drain dec (length (buf @ ext)) st' (buf' @ ext) = drain_all dec st' (buf' @ ext)"
        unfolding drain_all_def using s by (intro drain_fuel) simp_all
      then have "drain_all dec st (buf @ ext) =
          (let (ms, r) = drain_all dec st' (buf' @ ext) in (m # ms, r))"
        using s(3) unfolding drain_all_def [of dec st] by simp
      then show ?thesis
        using Suc.IH [OF s(1), of buf'] s(2) Suc.prems(2) r Some
        by (auto split: prod.splits sum.splits)
    qed
  qed
qed

text \<open>The messages read do not depend on how the stream is cut.\<close>

lemma feed_chunks:
  assumes "good st" and "cs \<noteq> []"
  shows "feed dec st buf cs = drain_all dec st (buf @ concat cs)"
  using assms
proof (induction cs arbitrary: st buf)
  case Nil
  then show ?case by simp
next
  case (Cons c cs)
  obtain ms r where d: "drain_all dec st (buf @ c) = (ms, r)" by (cases "drain_all dec st (buf @ c)")
  note app = drain_append [OF Cons.prems(1), of "buf @ c" "Suc (length (buf @ c))" "concat cs",
      folded drain_all_def, unfolded d]
  show ?case
  proof (cases r)
    case (Inl e)
    with d app show ?thesis by simp
  next
    case (Inr q)
    then obtain st' buf' where q: "r = Inr (st', buf')" by (cases q) auto
    have "good st'" using drain_good [OF Cons.prems(1)] d unfolding drain_all_def q by blast
    show ?thesis
    proof (cases cs)
      case Nil
      with d q show ?thesis by simp
    next
      case (Cons c' cs')
      with Cons.IH [OF \<open>good st'\<close>, of buf'] d app q show ?thesis by simp
    qed
  qed
qed

end

locale framed_pair = frame_codec dec good
  for dec :: "'st \<Rightarrow> bytes \<Rightarrow> 'e + 'm option \<times> 'st \<times> bytes" and good :: "'st \<Rightarrow> bool" +
  fixes enc :: "'m \<Rightarrow> bytes option" and st0 :: 'st
  assumes st0_good: "good st0"
    and enc_dec: "enc m = Some e \<Longrightarrow> dec st0 (e @ rest) = Inr (Some m, st0, rest)"
    and dec_empty: "dec st0 [] = Inr (None, st0, [])"
begin

lemma drain_encoded:
  "those (map enc ms) = Some es \<Longrightarrow> length (concat es) < f \<Longrightarrow>
   drain dec f st0 (concat es) = (ms, Inr (st0, []))"
proof (induction ms arbitrary: es f)
  case Nil
  then show ?case by (cases f) (auto simp: dec_empty)
next
  case (Cons m ms)
  then obtain e es' where e: "enc m = Some e" "those (map enc ms) = Some es'" "es = e # es'"
    by (auto split: option.splits)
  obtain f' where f: "f = Suc f'" using Cons.prems by (cases f) auto
  have d: "dec st0 (e @ concat es') = Inr (Some m, st0, concat es')" by (rule enc_dec [OF e(1)])
  then have "length (concat es') < length (e @ concat es')" using dec_some [OF st0_good d] by blast
  moreover have "length (e @ concat es') < Suc f'" using Cons.prems(2) e(3) f by simp
  ultimately have "length (concat es') < f'" by linarith
  with Cons.IH [OF e(2), of f'] d show ?case by (simp add: e(3) f)
qed

lemma feed_encoded:
  assumes "those (map enc ms) = Some es" and "concat cs = concat es" and "cs \<noteq> []"
  shows "feed dec st0 [] cs = (ms, Inr (st0, []))"
  using feed_chunks [OF st0_good assms(3), of "[]"] drain_encoded [OF assms(1) lessI] assms(2)
  by (simp add: drain_all_def del: drain.simps)

end

subsection \<open>The codec is a framed pair\<close>

definition codec_good :: "codec \<Rightarrow> bool" where
  "codec_good c \<longleftrightarrow> \<not> raw c \<and> (case state c of Head \<Rightarrow> True | DataOf n \<Rightarrow> n \<noteq> 0)"

lemma head_prefix:
  assumes "src \<noteq> []" and "head_len src \<le> length src"
  shows "head_len (src @ ext) = head_len src" and "head_word (src @ ext) = head_word src"
    and "head_val (src @ ext) = head_val src"
    and "drop (head_len src) (src @ ext) = drop (head_len src) src @ ext"
proof -
  show hl: "head_len (src @ ext) = head_len src" using assms by (simp add: head_len_def)
  have "i < head_len src \<Longrightarrow> (src @ ext) ! i = src ! i" for i
    using assms by (simp add: nth_append)
  then show "head_word (src @ ext) = head_word src"
    using head_len_bounds [of src] by (simp add: head_word_def hl Let_def)
  show "head_val (src @ ext) = head_val src" using assms by (simp add: head_val_def hl)
  show "drop (head_len src) (src @ ext) = drop (head_len src) src @ ext" using assms by simp
qed

lemma decode_body_cases:
  "decode_body c n src = (if length src < unat n then Inr (None, c, src)
     else Inr (Some (take (unat n) src), c\<lparr>state := Head\<rparr>, drop (unat n) src))"
  by (simp add: decode_body_def decode_data_def)

lemma decode_Head:
  assumes "\<not> raw c" and "state c = Head" and "src \<noteq> []"
  shows "decode c src =
    (if length src < head_len src then Inr (None, c, src)
     else if unat (max_packet_length c) < head_val src then Inl Too_big_packet
     else decode_body (c\<lparr>state := DataOf (drop_bit 2 (head_word src))\<rparr>)
       (drop_bit 2 (head_word src)) (drop (head_len src) src))"
  using assms by (simp add: decode_def decode_head_cases [OF assms(3)])

lemma decode_DataOf:
  "\<not> raw c \<Longrightarrow> state c = DataOf n \<Longrightarrow> decode c src = decode_body c n src"
  by (simp add: decode_def)

lemma decode_empty: "\<not> raw c \<Longrightarrow> state c = Head \<Longrightarrow> decode c [] = Inr (None, c, [])"
  by (simp add: decode_def decode_head_def)

interpretation bytes: frame_codec decode codec_good
proof
  fix c :: codec and buf ext :: bytes and c' buf' m e
  assume g: "codec_good c"
  then have raw: "\<not> raw c" by (simp add: codec_good_def)
  show "codec_good c' \<and> decode c (buf @ ext) = decode c' (buf' @ ext)"
    if d: "decode c buf = Inr (None, c', buf')"
  proof (cases "state c")
    case (DataOf n)
    with d g raw show ?thesis by (auto simp: decode_DataOf decode_body_cases split: if_splits)
  next
    case Head
    show ?thesis
    proof (cases "buf = [] \<or> length buf < head_len buf")
      case True
      with d g raw Head show ?thesis by (cases "buf = []") (auto simp: decode_empty decode_Head)
    next
      case False
      then have b: "buf \<noteq> []" "head_len buf \<le> length buf" by auto
      with d raw Head have c': "c' = c\<lparr>state := DataOf (drop_bit 2 (head_word buf))\<rparr>"
        "buf' = drop (head_len buf) buf" "length buf' < unat (drop_bit 2 (head_word buf))"
        "\<not> unat (max_packet_length c) < head_val buf"
        by (auto simp: decode_Head decode_body_cases split: if_splits)
      then have "drop_bit 2 (head_word buf) \<noteq> 0" by (metis not_less_zero unat_0)
      then have "codec_good c'" using raw by (simp add: codec_good_def c'(1))
      moreover have "decode c (buf @ ext) = decode c' (buf' @ ext)"
        using b c' raw Head by (simp add: decode_Head decode_DataOf head_prefix)
      ultimately show ?thesis by blast
    qed
  qed
  show "codec_good c' \<and> length buf' < length buf \<and>
      decode c (buf @ ext) = Inr (Some m, c', buf' @ ext)"
    if d: "decode c buf = Inr (Some m, c', buf')"
  proof (cases "state c")
    case (DataOf n)
    with g have "0 < unat n" by (simp add: codec_good_def unat_gt_0)
    with d DataOf g raw show ?thesis
      by (auto simp: decode_DataOf decode_body_cases codec_good_def split: if_splits)
  next
    case Head
    have b: "buf \<noteq> []" using d raw Head by (auto simp: decode_empty)
    then have len: "head_len buf \<le> length buf" using d raw Head
      by (auto simp: decode_Head split: if_splits)
    with b d raw Head have "c' = c" "m = take (unat (drop_bit 2 (head_word buf))) (drop (head_len buf) buf)"
      "buf' = drop (unat (drop_bit 2 (head_word buf))) (drop (head_len buf) buf)"
      "unat (drop_bit 2 (head_word buf)) \<le> length (drop (head_len buf) buf)"
      "\<not> unat (max_packet_length c) < head_val buf"
      by (auto simp: decode_Head decode_body_cases split: if_splits)
    moreover from this have "decode c (buf @ ext) = Inr (Some m, c', buf' @ ext)"
      using b len raw Head by (simp add: decode_Head head_prefix decode_body_cases)
    moreover have "length buf' < length buf"
      using b len calculation head_len_bounds [of buf] by simp
    ultimately show ?thesis using g by blast
  qed
  show "decode c (buf @ ext) = Inl e" if d: "decode c buf = Inl e"
  proof (cases "state c")
    case (DataOf n)
    with d raw show ?thesis by (auto simp: decode_DataOf decode_body_cases split: if_splits)
  next
    case Head
    have b: "buf \<noteq> []" using d raw Head by (auto simp: decode_empty)
    with d raw Head show ?thesis
      by (auto simp: decode_Head head_prefix decode_body_cases split: if_splits)
  qed
qed

definition codec_limit :: "usize \<Rightarrow> codec" where
  "codec_limit n = codec_set_max_packet_length n codec_new"

definition frame :: "usize \<Rightarrow> bytes \<Rightarrow> bytes option" where
  "frame n m = (if length m \<le> unat n
     then (case encode (codec_limit n) m [] of Inl e \<Rightarrow> None | Inr b \<Rightarrow> Some b) else None)"

lemma codec_limit_simps [simp]:
  "raw (codec_limit n) = False" "state (codec_limit n) = Head" "max_packet_length (codec_limit n) = n"
  by (simp_all add: codec_limit_def codec_set_max_packet_length_def codec_new_def)

lemma encode_ok:
  assumes "\<not> raw c" and "length m \<le> 0x3FFFFFFF"
  shows "encode c m buf = Inr (buf @ nat_to_le (size_class (length m))
    (4 * length m + (size_class (length m) - 1)) @ m)"
  using encode_head_eq [OF assms(2)] assms(1) by (simp add: encode_def)

lemma encode_too_long: "\<not> raw c \<Longrightarrow> 0x3FFFFFFF < length m \<Longrightarrow> encode c m buf = Inl Codec_overflow"
  by (simp add: encode_def encode_head_def)

lemma frame_Some:
  assumes "frame n m = Some e"
  shows "length m \<le> 0x3FFFFFFF" and "length m \<le> unat n"
    and "e = nat_to_le (size_class (length m)) (4 * length m + (size_class (length m) - 1)) @ m"
proof -
  show l: "length m \<le> 0x3FFFFFFF"
    using assms encode_too_long [of "codec_limit n" m "[]"]
    by (cases "length m \<le> 0x3FFFFFFF") (auto simp: frame_def split: if_splits)
  show "length m \<le> unat n" using assms by (simp add: frame_def split: if_splits)
  show "e = nat_to_le (size_class (length m)) (4 * length m + (size_class (length m) - 1)) @ m"
    using assms encode_ok [OF _ l, of "codec_limit n" "[]"] by (simp add: frame_def split: if_splits)
qed

lemma decode_frame:
  assumes "frame n m = Some e"
  shows "decode (codec_limit n) (e @ rest) = Inr (Some m, codec_limit n, rest)"
proof -
  note f = frame_Some [OF assms]
  define h where "h = nat_to_le (size_class (length m)) (4 * length m + (size_class (length m) - 1))"
  note r = encoded_head_reads(1,2) [OF f(1), folded h_def, of "m @ rest"]
    encoded_head_reads(3) [OF f(1), folded h_def]
  have ne: "h @ m @ rest \<noteq> []" using r(3) head_len_bounds [of "h @ m @ rest"] r(1) by auto
  have len: "head_len (h @ m @ rest) \<le> length (h @ m @ rest)" by (simp add: r)
  have u: "unat (drop_bit 2 (head_word (h @ m @ rest))) = length m"
    using unat_drop_head [OF ne len] r(2) by simp
  have e: "e @ rest = h @ m @ rest" by (simp add: f(3) h_def)
  have c: "codec_limit n\<lparr>state := DataOf x, state := Head\<rparr> = codec_limit n" for x
    by (simp add: codec_limit_def codec_set_max_packet_length_def codec_new_def)
  have d: "drop (head_len (h @ m @ rest)) (h @ m @ rest) = m @ rest" by (simp add: r)
  show ?thesis
    unfolding e decode_Head [OF _ _ ne, of "codec_limit n", simplified] decode_body_cases u d
    using f(2) len r(2) c by simp
qed

interpretation framed: framed_pair decode codec_good "frame n" "codec_limit n" for n :: usize
  by unfold_locales (simp_all add: codec_good_def decode_frame decode_empty)

subsection \<open>Properties\<close>

text \<open>C6. Whatever messages are framed one after the other, and however the network cuts their
  bytes into chunks, the decoder returns exactly these messages in order and is back at a
  frame boundary with nothing left over. Each message must fit the header and the reader's
  limit.\<close>

theorem framed_stream_roundtrip:
  assumes "those (map (frame n) ms) = Some es" and "concat cs = concat es" and "cs \<noteq> []"
  shows "feed decode (codec_limit n) [] cs = (ms, Inr (codec_limit n, []))"
  using assms by (rule framed.feed_encoded)

theorem framed_stream_roundtrip_witness:
  "feed decode (codec_limit 100) [] [[12, 7], [], [8, 9, 0, 4], [5]] =
    ([[7, 8, 9], [], [5]], Inr (codec_limit 100, []))"
proof (rule framed_stream_roundtrip)
  show "those (map (frame 100) [[7, 8, 9], [], [5]]) = Some [[12, 7, 8, 9], [0], [4, 5]]"
    by code_simp
qed simp_all

text \<open>Also on a stream that no encoder made, with errors in it, what the reader gets and the
  state it ends in depend on the bytes alone and not on the chunks they came in.\<close>

theorem decoding_ignores_chunks:
  assumes "codec_good c" and "cs \<noteq> []"
  shows "feed decode c buf cs = drain_all decode c (buf @ concat cs)"
  using assms by (rule bytes.feed_chunks)

theorem decoding_ignores_chunks_witness:
  "feed decode (codec_limit 2) [] [[4], [1, 0xFF], [9, 9, 9]] = ([[1]], Inl Too_big_packet)"
proof -
  have "codec_good (codec_limit 2)" by (simp add: codec_good_def)
  from decoding_ignores_chunks [OF this, of "[[4], [1, 0xFF], [9, 9, 9]]" "[]"]
  have "feed decode (codec_limit 2) [] [[4], [1, 0xFF], [9, 9, 9]] =
    drain_all decode (codec_limit 2) [4, 1, 0xFF, 9, 9, 9]" by simp
  also have "\<dots> = ([[1]], Inl Too_big_packet)" by code_simp
  finally show ?thesis .
qed

text \<open>Encoding appends a header of one to four bytes, the shortest for the length, and the
  data; it fails exactly above 0x3FFFFFFF bytes. Only the raw mode adds no header.\<close>

theorem encode_spec:
  "encode c m buf =
    (if raw c then Inr (buf @ m)
     else if length m \<le> 0x3FFFFFFF then
       Inr (buf @ nat_to_le (size_class (length m)) (4 * length m + (size_class (length m) - 1)) @ m)
     else Inl Codec_overflow)"
  using encode_ok [of c m buf] encode_too_long [of c m buf] by (simp add: encode_def)

text \<open>In framed mode a decode step fails exactly when a complete header announces more than
  the limit; no payload is waited for.\<close>

theorem decode_error_iff:
  assumes "\<not> raw c"
  shows "decode c src = Inl e \<longleftrightarrow> state c = Head \<and> src \<noteq> [] \<and> head_len src \<le> length src \<and>
    unat (max_packet_length c) < head_val src \<and> e = Too_big_packet"
proof (cases "state c")
  case Head
  then show ?thesis using assms
    by (cases "src = []") (auto simp: decode_empty decode_Head decode_body_cases)
next
  case (DataOf n)
  then show ?thesis using assms by (simp add: decode_DataOf decode_body_cases)
qed

theorem decode_error_iff_witness:
  "decode (codec_limit 2) [12, 9] = Inl Too_big_packet \<and>
   decode (codec_limit 2) [13] \<noteq> Inl Too_big_packet"
proof
  have v: "head_len [12, 9] \<le> 2" "2 < head_val [12, 9]" "\<not> head_len [13] \<le> 1"
    by code_simp+
  show "decode (codec_limit 2) [12, 9] = Inl Too_big_packet"
    using decode_error_iff [of "codec_limit 2" "[12, 9]" Too_big_packet] v by simp
  show "decode (codec_limit 2) [13] \<noteq> Inl Too_big_packet"
    using decode_error_iff [of "codec_limit 2" "[13]" Too_big_packet] v by simp
qed

end
