(* ===== verification/AddrMangle.thy ===== *)
theory AddrMangle
  imports Net BytesCodec
begin

unbundle bit_operations_syntax

text \<open>
  \<^verbatim>\<open>AddrMangle\<close> and \<^verbatim>\<open>try_into_v4\<close> of \<^verbatim>\<open>libs/hbb_common/src/lib.rs\<close>: socket addresses mixed with
  the clock so that routers do not recognise and rewrite them. The clock's microseconds,
  cut to 32 bits, are the argument \<open>tm\<close>. Decoding subtracts on \<^verbatim>\<open>u128\<close>, so it can panic in a
  build with overflow checks.
\<close>

definition is_loopback :: "ip_addr \<Rightarrow> bool" where
  "is_loopback ip = (case ip of IpV4 a b c d \<Rightarrow> a = 127 | IpV6 segs \<Rightarrow> segs = [0, 0, 0, 0, 0, 0, 0, 1])"

text \<open>\<^verbatim>\<open>Ipv6Addr::to_ipv4\<close>: the compatible and the mapped addresses.\<close>

definition v6_to_ipv4 :: "u16 list \<Rightarrow> ip_addr option" where
  "v6_to_ipv4 segs =
     (case segs of
        [s0, s1, s2, s3, s4, m, ab, cd] \<Rightarrow>
          if s0 = 0 \<and> s1 = 0 \<and> s2 = 0 \<and> s3 = 0 \<and> s4 = 0 \<and> (m = 0 \<or> m = 0xFFFF)
          then Some (IpV4 (ucast (drop_bit 8 ab)) (ucast ab) (ucast (drop_bit 8 cd)) (ucast cd))
          else None
      | _ \<Rightarrow> None)"

definition try_into_v4 :: "sock_addr \<Rightarrow> sock_addr" where
  "try_into_v4 addr =
     (case addr of
        SockV6 (IpV6 segs) port flow scope \<Rightarrow>
          if \<not> is_loopback (sock_ip addr)
          then (case v6_to_ipv4 segs of Some v4 \<Rightarrow> SockV4 v4 port | None \<Rightarrow> addr)
          else addr
      | _ \<Rightarrow> addr)"

text \<open>The octets of an address, in network order.\<close>

fun octets :: "ip_addr \<Rightarrow> bytes" where
  "octets (IpV4 a b c d) = [a, b, c, d]"
| "octets (IpV6 segs) = concat (map (\<lambda>s. [ucast (drop_bit 8 s), ucast s]) segs)"

fun pair_up :: "bytes \<Rightarrow> u16 list" where
  "pair_up (a # b # bs) = (push_bit 8 (ucast a) OR ucast b) # pair_up bs"
| "pair_up bs = []"

definition strip_zeros :: "bytes \<Rightarrow> bytes" where
  "strip_zeros bs = take (16 - length (takeWhile (\<lambda>i. i = 0) (rev bs))) bs"

definition mangle_v4 :: "u32 \<Rightarrow> ip_addr \<Rightarrow> u16 \<Rightarrow> u128" where
  "mangle_v4 now ip4 port4 =
     (let tm = ucast now :: u128; ip = ucast (from_le_bytes (octets ip4) :: u32) :: u128;
          port = ucast port4 :: u128
      in push_bit 49 (ip + tm) OR push_bit 17 tm OR (port + (tm AND 0xFFFF)))"

definition mangle_encode :: "u32 \<Rightarrow> sock_addr \<Rightarrow> bytes" where
  "mangle_encode now addr0 =
     (let addr = try_into_v4 addr0
      in case addr of
           SockV4 ip port \<Rightarrow> strip_zeros (to_le_bytes (mangle_v4 now ip port))
         | SockV6 ip port flow scope \<Rightarrow> octets ip @ to_le_bytes port)"

text \<open>\<^verbatim>\<open>Config::get_any_listen_addr(false)\<close>.\<close>

definition get_any_listen_addr :: "bool \<Rightarrow> sock_addr" where
  "get_any_listen_addr is_ipv4 =
     (if is_ipv4 then SockV4 (IpV4 0 0 0 0) 0 else SockV6 (IpV6 (replicate 8 0)) 0 0 0)"

text \<open>\<^verbatim>\<open>x - y\<close> on \<^verbatim>\<open>u128\<close>.\<close>

definition u128_sub :: "bool \<Rightarrow> u128 \<Rightarrow> u128 \<Rightarrow> u128 option" where
  "u128_sub checks x y = (if checks \<and> x < y then None else Some (x - y))"

definition mangle_decode :: "bool \<Rightarrow> bytes \<Rightarrow> sock_addr option" where
  "mangle_decode checks bs =
     (if 16 < length bs then
        (if length bs \<noteq> 18 then Some (get_any_listen_addr False)
         else Some (SockV6 (IpV6 (pair_up (take 16 bs))) (from_le_bytes (drop 16 bs)) 0 0))
      else
        let padded = copy_at 0 bs (replicate 16 0);
            number = from_le_bytes padded :: u128;
            tm = drop_bit 17 number AND 0xFFFFFFFF
        in Option.bind (u128_sub checks (drop_bit 49 number) tm) (\<lambda>x.
             let ip = to_le_bytes (ucast x :: u32)
             in Option.bind (u128_sub checks (number AND 0xFFFFFF) (tm AND 0xFFFF)) (\<lambda>port.
                  Some (SockV4 (IpV4 (ip ! 0) (ip ! 1) (ip ! 2) (ip ! 3)) (ucast port)))))"

subsection \<open>The mangled number\<close>

lemma unat_and_mask:
  "unat (w AND mask n :: 'a::len word) = unat w mod 2 ^ n"
proof -
  have "unat (w AND mask n) = unat (take_bit n w)" by (simp only: take_bit_eq_mask)
  also have "\<dots> = take_bit n (unat w)" by (rule unsigned_take_bit_eq)
  finally show ?thesis by (simp only: take_bit_eq_mod)
qed

lemma unat_push_bit:
  assumes "2 ^ k * unat w < 2 ^ LENGTH('a)"
  shows "unat (push_bit k w :: 'a::len word) = push_bit k (unat w)"
proof -
  have "push_bit k (unat w) < 2 ^ LENGTH('a)"
    using assms by (simp add: push_bit_eq_mult mult.commute)
  then show ?thesis by (simp add: unsigned_push_bit_eq take_bit_nat_eq_self)
qed

lemma mangle_value:
  fixes now :: u32 and ip4 and port :: u16
  defines "tm \<equiv> unat now" and "ip \<equiv> unat (from_le_bytes (octets ip4) :: u32)" and "p \<equiv> unat port"
  shows "unat (mangle_v4 now ip4 port) = (ip + tm) * 2 ^ 49 + tm * 2 ^ 17 + (p + tm mod 2 ^ 16)"
proof -
  have b: "tm < 2 ^ 32" "ip < 2 ^ 32" "p < 2 ^ 16"
    using unsigned_less [of now] unsigned_less [of "from_le_bytes (octets ip4) :: u32"]
      unsigned_less [of port] by (simp_all add: tm_def ip_def p_def)
  have w: "unat (ucast now :: u128) = tm" "unat (ucast (from_le_bytes (octets ip4) :: u32) :: u128) = ip"
    "unat (ucast port :: u128) = p"
    using b by (simp_all add: tm_def ip_def p_def unsigned_ucast_eq take_bit_nat_eq_self)
  have m: "unat (ucast now AND 0xFFFF :: u128) = tm mod 2 ^ 16"
    using unat_and_mask [of "ucast now :: u128" 16] w by (simp add: mask_eq_exp_minus_1)
  have s1: "unat (ucast (from_le_bytes (octets ip4) :: u32) + ucast now :: u128) = ip + tm"
    using b w by (subst unat_add_lem [THEN iffD1]) simp_all
  have s2: "unat (ucast port + (ucast now AND 0xFFFF) :: u128) = p + tm mod 2 ^ 16"
    using b w m by (subst unat_add_lem [THEN iffD1]) simp_all
  have p1: "unat (push_bit 49 (ucast (from_le_bytes (octets ip4) :: u32) + ucast now :: u128)) =
      push_bit 49 (ip + tm)"
    unfolding s1 [symmetric] by (rule unat_push_bit) (use b in \<open>simp add: s1\<close>)
  have p2: "unat (push_bit 17 (ucast now :: u128)) = push_bit 17 tm"
    unfolding w(1) [symmetric] by (rule unat_push_bit) (use b in \<open>simp add: w\<close>)
  have low: "p + tm mod 2 ^ 16 < 2 ^ 17" using b mod_less_divisor [of "2 ^ 16" tm] by simp
  have o1: "(p + tm mod 2 ^ 16) OR push_bit 17 tm = p + tm mod 2 ^ 16 + 2 ^ 17 * tm"
    using or_disjoint_nat [OF low] .
  have "p + tm mod 2 ^ 16 + 2 ^ 17 * tm < 2 ^ 49" using b low by simp
  from or_disjoint_nat [OF this, of "ip + tm"]
  have "push_bit 49 (ip + tm) OR push_bit 17 tm OR (p + tm mod 2 ^ 16) =
      p + tm mod 2 ^ 16 + 2 ^ 17 * tm + 2 ^ 49 * (ip + tm)"
    by (simp only: o1 [symmetric] or.commute or.left_commute or.assoc)
  then show ?thesis
    by (simp add: mangle_v4_def Let_def unsigned_or_eq p1 p2 s2)
qed

subsection \<open>Padding and stripping\<close>

lemma nat_of_le_zeros [simp]: "nat_of_le (replicate n 0) = 0"
  by (induction n) simp_all

lemma padded_value: "length bs \<le> 16 \<Longrightarrow> nat_of_le (copy_at 0 bs (replicate 16 0)) = nat_of_le bs"
  by (simp add: copy_at_def nat_of_le_append)

lemma strip_zeros_split:
  assumes "length bs = 16"
  shows "bs = strip_zeros bs @ replicate (16 - length (strip_zeros bs)) 0"
proof -
  define k where "k = length (takeWhile (\<lambda>i. i = 0) (rev bs))"
  have tw: "takeWhile (\<lambda>i. i = 0) (rev bs) = replicate k 0"
    unfolding k_def by (rule replicate_eqI) (auto dest: set_takeWhileD)
  have k: "k \<le> 16" using length_takeWhile_le [of "\<lambda>i. i = 0" "rev bs"] assms by (simp add: k_def)
  have "rev bs = replicate k 0 @ dropWhile (\<lambda>i. i = 0) (rev bs)"
    using takeWhile_dropWhile_id [of "\<lambda>i. i = 0" "rev bs"] by (simp only: tw)
  then have bs: "bs = rev (dropWhile (\<lambda>i. i = 0) (rev bs)) @ replicate k 0"
    by (metis rev_append rev_replicate rev_rev_ident)
  then have "length (rev (dropWhile (\<lambda>i. i = 0) (rev bs))) = 16 - k"
    using assms by (metis add_diff_cancel_right' length_append length_replicate)
  then have "strip_zeros bs = rev (dropWhile (\<lambda>i. i = 0) (rev bs))"
    unfolding strip_zeros_def k_def [symmetric] by (subst bs) simp
  with bs k \<open>length (rev (dropWhile (\<lambda>i. i = 0) (rev bs))) = 16 - k\<close> show ?thesis by simp
qed

lemma strip_zeros_value:
  assumes "length bs = 16"
  shows "nat_of_le (strip_zeros bs) = nat_of_le bs" and "length (strip_zeros bs) \<le> 16"
proof -
  have "nat_of_le bs = nat_of_le (strip_zeros bs @ replicate (16 - length (strip_zeros bs)) 0)"
    using strip_zeros_split [OF assms] by simp
  then show "nat_of_le (strip_zeros bs) = nat_of_le bs" by (simp add: nat_of_le_append)
  show "length (strip_zeros bs) \<le> 16" by (simp add: strip_zeros_def assms)
qed

subsection \<open>Decoding as arithmetic\<close>

lemma unat_number:
  assumes "length bs \<le> 16"
  shows "unat (from_le_bytes (copy_at 0 bs (replicate 16 0)) :: u128) = nat_of_le bs"
    and "nat_of_le bs < 2 ^ 128"
proof -
  have "nat_of_le bs < 256 ^ length bs" by (rule nat_of_le_bound)
  also have "\<dots> \<le> 256 ^ 16" using assms by (intro power_increasing) simp_all
  finally show "nat_of_le bs < 2 ^ 128" by simp
  then show "unat (from_le_bytes (copy_at 0 bs (replicate 16 0)) :: u128) = nat_of_le bs"
    using padded_value [OF assms] unfolding from_le_bytes_def unat_of_nat by simp
qed

lemma u128_sub_ok: "unat y \<le> unat x \<Longrightarrow> u128_sub checks x y = Some (of_nat (unat x - unat y))"
proof -
  assume le: "unat y \<le> unat x"
  then have "y \<le> x" by (simp add: word_le_nat_alt)
  have "of_nat (unat (x - y)) = x - y" by simp
  then have "of_nat (unat x - unat y) = x - y" using unat_sub [OF \<open>y \<le> x\<close>] by simp
  with \<open>y \<le> x\<close> show ?thesis by (simp add: u128_sub_def not_less)
qed

text \<open>The fields of the number \<open>N\<close> that a short byte string stands for.\<close>

definition mangled_time :: "nat \<Rightarrow> nat" where "mangled_time N = N div 2 ^ 17 mod 2 ^ 32"

lemma decode_short:
  fixes bs :: bytes
  assumes len: "length bs \<le> 16"
  defines "N \<equiv> nat_of_le bs"
  defines "w \<equiv> from_le_bytes (copy_at 0 bs (replicate 16 0)) :: u128"
  shows "unat (drop_bit 49 w) = N div 2 ^ 49"
    and "unat (drop_bit 17 w AND 0xFFFFFFFF) = mangled_time N"
    and "unat (w AND 0xFFFFFF) = N mod 2 ^ 24"
    and "unat ((drop_bit 17 w AND 0xFFFFFFFF) AND 0xFFFF) = mangled_time N mod 2 ^ 16"
proof -
  have w: "unat w = N" using unat_number [OF len] by (simp add: w_def N_def)
  show "unat (drop_bit 49 w) = N div 2 ^ 49"
    using w by (simp add: unsigned_drop_bit_eq drop_bit_eq_div unat_div)
  have "unat (drop_bit 17 w) = N div 2 ^ 17"
    using w by (simp add: unsigned_drop_bit_eq drop_bit_eq_div unat_div)
  then show t: "unat (drop_bit 17 w AND 0xFFFFFFFF) = mangled_time N"
    using unat_and_mask [of "drop_bit 17 w" 32] by (simp add: mask_eq_exp_minus_1 mangled_time_def)
  show "unat (w AND 0xFFFFFF) = N mod 2 ^ 24"
    using unat_and_mask [of w 24] w by (simp add: mask_eq_exp_minus_1)
  show "unat ((drop_bit 17 w AND 0xFFFFFFFF) AND 0xFFFF) = mangled_time N mod 2 ^ 16"
    using unat_and_mask [of "drop_bit 17 w AND 0xFFFFFFFF" 16] t by (simp add: mask_eq_exp_minus_1)
qed

lemma mangle_decode_short:
  assumes len: "length bs \<le> 16" and N: "N = nat_of_le bs"
    and a: "mangled_time N \<le> N div 2 ^ 49" and b: "mangled_time N mod 2 ^ 16 \<le> N mod 2 ^ 24"
  shows "mangle_decode checks bs =
    (let ip = to_le_bytes (of_nat (N div 2 ^ 49 - mangled_time N) :: u32)
     in Some (SockV4 (IpV4 (ip ! 0) (ip ! 1) (ip ! 2) (ip ! 3))
       (of_nat (N mod 2 ^ 24 - mangled_time N mod 2 ^ 16))))"
proof -
  define w where "w = (from_le_bytes (copy_at 0 bs (replicate 16 0)) :: u128)"
  note d = decode_short [OF len, folded w_def N]
  have s1: "u128_sub checks (drop_bit 49 w) (drop_bit 17 w AND 0xFFFFFFFF) =
      Some (of_nat (N div 2 ^ 49 - mangled_time N))"
    by (rule u128_sub_ok [of "drop_bit 17 w AND 0xFFFFFFFF" "drop_bit 49 w" checks, unfolded d, OF a])
  have s2: "u128_sub checks (w AND 0xFFFFFF) ((drop_bit 17 w AND 0xFFFFFFFF) AND 0xFFFF) =
      Some (of_nat (N mod 2 ^ 24 - mangled_time N mod 2 ^ 16))"
    by (rule u128_sub_ok [of "(drop_bit 17 w AND 0xFFFFFFFF) AND 0xFFFF" "w AND 0xFFFFFF" checks,
          unfolded d, OF b])
  have nb: "N < 2 ^ 128" using unat_number(2) [OF len] N by simp
  have c: "ucast (of_nat k :: u128) = (of_nat k :: 'a::len word)" if "k < 2 ^ 128" for k
    unfolding unsigned_of_nat using that by (subst take_bit_nat_eq_self) simp_all
  have k1: "N div 2 ^ 49 - mangled_time N < 2 ^ 128"
    and k2: "N mod 2 ^ 24 - mangled_time N mod 2 ^ 16 < 2 ^ 128"
    using nb by (meson div_le_dividend diff_le_self le_less_trans,
      meson mod_less_eq_dividend diff_le_self le_less_trans)
  have l: "\<not> 16 < length bs" using len by simp
  show ?thesis
    unfolding mangle_decode_def Let_def w_def [symmetric] s1 s2 bind.bind_lunit c [OF k1] c [OF k2]
    using l by simp
qed

lemma mangle_decode_panics:
  assumes len: "length bs \<le> 16" and N: "N = nat_of_le bs"
  shows "mangle_decode checks bs = None \<longleftrightarrow>
    checks \<and> (N div 2 ^ 49 < mangled_time N \<or> N mod 2 ^ 24 < mangled_time N mod 2 ^ 16)"
proof -
  define w where "w = (from_le_bytes (copy_at 0 bs (replicate 16 0)) :: u128)"
  note d = decode_short [OF len, folded w_def N]
  have l: "\<not> 16 < length bs" using len by simp
  show ?thesis
    unfolding mangle_decode_def Let_def w_def [symmetric] u128_sub_def word_less_nat_alt d
    using l by (auto simp: Option.bind_eq_None_conv)
qed

subsection \<open>Round trip\<close>

lemma octets_of_le:
  "to_le_bytes (of_nat (unat (from_le_bytes [a, b, c, d] :: u32)) :: u32) = [a, b, c, d]"
  by (simp, rule to_from_le_bytes) simp_all

lemma mangled_fields:
  fixes ip tm p :: nat
  assumes "ip < 2 ^ 32" and "tm < 2 ^ 32" and "p < 2 ^ 16"
    and N: "N = (ip + tm) * 2 ^ 49 + tm * 2 ^ 17 + (p + tm mod 2 ^ 16)"
  shows "mangled_time N = tm" and "N div 2 ^ 49 = ip + tm"
    and "N mod 2 ^ 24 = tm mod 2 ^ 7 * 2 ^ 17 + (p + tm mod 2 ^ 16)"
proof -
  define q where "q = p + tm mod 2 ^ 16"
  have q: "q < 2 ^ 17" using assms(3) mod_less_divisor [of "2 ^ 16" tm] by (simp add: q_def)
  have N': "N = ((ip + tm) * 2 ^ 32 + tm) * 2 ^ 17 + q" by (simp add: N q_def algebra_simps)
  have d: "N div 2 ^ 17 = (ip + tm) * 2 ^ 32 + tm" using q by (simp add: N')
  then show "mangled_time N = tm"
    unfolding mangled_time_def using assms(2) by (simp only: mod_mult_self3 mod_less)
  have "N div 2 ^ 49 = N div 2 ^ 17 div 2 ^ 32" by (simp add: div_mult2_eq [symmetric])
  also have "\<dots> = ip + tm + tm div 2 ^ 32" unfolding d by (rule div_mult_self3) simp
  finally show "N div 2 ^ 49 = ip + tm" using assms(2) by simp
  have "N mod 2 ^ 24 = 2 ^ 17 * (N div 2 ^ 17 mod 2 ^ 7) + N mod 2 ^ 17"
    using mod_mult2_eq [of N "2 ^ 17" "2 ^ 7"] by simp
  moreover have "N mod 2 ^ 17 = q" unfolding N' using q by (simp only: mod_mult_self3 mod_less)
  moreover have "((ip + tm) * 2 ^ 32 + tm) mod 2 ^ 7 = tm mod 2 ^ 7"
  proof -
    have "(ip + tm) * 2 ^ 32 + tm = tm + 2 ^ 7 * ((ip + tm) * 2 ^ 25)" by simp
    then show ?thesis by (simp only: mod_mult_self2)
  qed
  ultimately show "N mod 2 ^ 24 = tm mod 2 ^ 7 * 2 ^ 17 + (p + tm mod 2 ^ 16)"
    using d by (simp add: q_def)
qed

lemma v4_roundtrip:
  "mangle_decode checks (strip_zeros (to_le_bytes (mangle_v4 now (IpV4 a b c d) port))) =
     Some (SockV4 (IpV4 a b c d) port)"
proof -
  define bs where "bs = strip_zeros (to_le_bytes (mangle_v4 now (IpV4 a b c d) port))"
  define N where "N = unat (mangle_v4 now (IpV4 a b c d) port)"
  define ip where "ip = unat (from_le_bytes [a, b, c, d] :: u32)"
  define tm where "tm = unat now"
  define p where "p = unat port"
  have l16: "length (to_le_bytes (mangle_v4 now (IpV4 a b c d) port)) = 16"
    by (simp add: length_to_le_bytes)
  have "N < 2 ^ 128"
    using unsigned_less [of "mangle_v4 now (IpV4 a b c d) port"] by (simp add: N_def)
  then have "nat_of_le (to_le_bytes (mangle_v4 now (IpV4 a b c d) port)) = N"
    by (simp add: to_le_bytes_def N_def)
  then have len: "length bs \<le> 16" and Nbs: "N = nat_of_le bs"
    using strip_zeros_value [OF l16] by (simp_all add: bs_def)
  have bnd: "ip < 2 ^ 32" "tm < 2 ^ 32" "p < 2 ^ 16"
    using unsigned_less [of "from_le_bytes [a, b, c, d] :: u32"] unsigned_less [of now]
      unsigned_less [of port] by (simp_all add: ip_def tm_def p_def)
  have N: "N = (ip + tm) * 2 ^ 49 + tm * 2 ^ 17 + (p + tm mod 2 ^ 16)"
    using mangle_value [of now "IpV4 a b c d" port] by (simp add: N_def ip_def tm_def p_def)
  note f = mangled_fields [OF bnd N]
  have sub: "N mod 2 ^ 24 - mangled_time N mod 2 ^ 16 = p + 2 ^ 16 * (2 * (tm mod 2 ^ 7))"
    unfolding f by simp
  have "(of_nat (p + 2 ^ 16 * (2 * (tm mod 2 ^ 7))) :: u16) = port"
  proof -
    have "unat (of_nat (p + 2 ^ 16 * (2 * (tm mod 2 ^ 7))) :: u16) = p"
    proof -
      have "(2 :: nat) ^ LENGTH(16) = 2 ^ 16" by simp
      then show ?thesis unfolding unat_of_nat using bnd(3) by (simp only: mod_mult_self2 mod_less)
    qed
    then show ?thesis by (simp only: p_def word_unat_eq_iff)
  qed
  moreover have "mangle_decode checks bs =
    (let ip' = to_le_bytes (of_nat (N div 2 ^ 49 - mangled_time N) :: u32)
     in Some (SockV4 (IpV4 (ip' ! 0) (ip' ! 1) (ip' ! 2) (ip' ! 3))
       (of_nat (N mod 2 ^ 24 - mangled_time N mod 2 ^ 16))))"
    by (rule mangle_decode_short [OF len Nbs]) (use f in simp_all)
  ultimately show ?thesis
    unfolding sub f bs_def [symmetric] using octets_of_le [of a b c d]
    by (simp add: ip_def add.commute mult.commute)
qed

text \<open>Socket addresses as \<^verbatim>\<open>std\<close> has them: the two families keep to their kind, eight segments.\<close>

definition sock_wf :: "sock_addr \<Rightarrow> bool" where
  "sock_wf addr \<longleftrightarrow> (case addr of
     SockV4 ip p \<Rightarrow> (\<exists>a b c d. ip = IpV4 a b c d)
   | SockV6 ip p f s \<Rightarrow> (\<exists>segs. ip = IpV6 segs \<and> length segs = 8))"

text \<open>What survives the round trip: the address with its IPv4 form preferred, without scope.\<close>

definition without_scope :: "sock_addr \<Rightarrow> sock_addr" where
  "without_scope addr = (case addr of SockV4 ip p \<Rightarrow> addr | SockV6 ip p f s \<Rightarrow> SockV6 ip p 0 0)"

lemma u16_bytes: "push_bit 8 (ucast (ucast (drop_bit 8 s) :: u8)) OR ucast (ucast s :: u8) = (s :: u16)"
  by (rule bit_eqI) (auto simp: bit_simps)

lemma pair_up_octets: "pair_up (concat (map (\<lambda>s. [ucast (drop_bit 8 s), ucast s]) segs)) = segs"
  by (induction segs) (simp_all add: u16_bytes)

lemma length_octets_v6: "length (octets (IpV6 segs)) = 2 * length segs"
  by (induction segs) simp_all

lemma try_into_v4_wf: "sock_wf addr \<Longrightarrow> sock_wf (try_into_v4 addr)"
  by (auto simp: sock_wf_def try_into_v4_def v6_to_ipv4_def
      split: sock_addr.splits ip_addr.splits option.splits list.splits if_splits)

subsection \<open>Properties\<close>

text \<open>C26. Whatever the clock, decoding an encoded socket address never panics and gives the address
  back, an IPv4-mapped or -compatible one in its IPv4 form and an IPv6 one without scope.\<close>

theorem addr_mangle_roundtrip:
  assumes "sock_wf addr"
  shows "mangle_decode checks (mangle_encode now addr) = Some (without_scope (try_into_v4 addr))"
proof (cases "try_into_v4 addr")
  case (SockV4 ip port)
  then obtain a b c d where "ip = IpV4 a b c d"
    using try_into_v4_wf [OF assms] by (auto simp: sock_wf_def)
  then show ?thesis using SockV4 v4_roundtrip by (simp add: mangle_encode_def without_scope_def)
next
  case (SockV6 ip port f sc)
  then obtain segs where ip: "ip = IpV6 segs" "length segs = 8"
    using try_into_v4_wf [OF assms] by (auto simp: sock_wf_def)
  have len: "length (octets ip) = 16" using length_octets_v6 [of segs] ip by simp
  have "from_le_bytes (to_le_bytes port) = port" by (rule from_to_le16)
  then show ?thesis
    using SockV6 len pair_up_octets [of segs] ip(1)
    by (simp add: mangle_encode_def mangle_decode_def without_scope_def length_to_le_bytes)
qed

theorem addr_mangle_roundtrip_witness:
  "mangle_decode True (mangle_encode 0xDEADBEEF
     (SockV6 (IpV6 [0, 0, 0, 0, 0, 0xFFFF, 0x7F00, 0x0001]) 8080 1 2)) =
   Some (SockV4 (IpV4 127 0 0 1) 8080)"
proof -
  have "sock_wf (SockV6 (IpV6 [0, 0, 0, 0, 0, 0xFFFF, 0x7F00, 0x0001]) 8080 1 2)"
    by (simp add: sock_wf_def)
  moreover have "without_scope (try_into_v4 (SockV6 (IpV6 [0, 0, 0, 0, 0, 0xFFFF, 0x7F00, 0x0001]) 8080 1 2))
      = SockV4 (IpV4 127 0 0 1) 8080" by code_simp
  ultimately show ?thesis
    using addr_mangle_roundtrip [of "SockV6 (IpV6 [0, 0, 0, 0, 0, 0xFFFF, 0x7F00, 0x0001]) 8080 1 2"
        True "0xDEADBEEF"] by simp
qed

text \<open>On bytes from the network: in a build with overflow checks \<^verbatim>\<open>AddrMangle::decode\<close> panics
  exactly for at most sixteen bytes whose clock field exceeds the field of address plus clock,
  or whose clock, modulo 2^16, exceeds the low 24 bits.\<close>

theorem mangle_decode_panics_iff:
  "mangle_decode checks bs = None \<longleftrightarrow>
     checks \<and> length bs \<le> 16 \<and>
     (nat_of_le bs div 2 ^ 49 < mangled_time (nat_of_le bs) \<or>
      nat_of_le bs mod 2 ^ 24 < mangled_time (nat_of_le bs) mod 2 ^ 16)"
proof (cases "length bs \<le> 16")
  case True
  then show ?thesis using mangle_decode_panics [OF True refl, of checks] by simp
next
  case False
  then show ?thesis by (simp add: mangle_decode_def)
qed

end
