(* ===== verification/SecretStream.thy ===== *)
theory SecretStream
  imports BytesCodec Net
begin

text \<open>
  \<^verbatim>\<open>libs/hbb_common/src/tcp.rs\<close>: the encrypted framed TCP stream and its handshake.
  sodiumoxide's \<^verbatim>\<open>secretbox\<close> and \<^verbatim>\<open>box_\<close> are parameters; what the stream relies on is the
  hypothesis \<open>secretbox_laws\<close>. The outcome of a write is an argument; creating and connecting
  sockets is in \<open>Sockets\<close>. A panic of the overflow-checked counters is \<open>None\<close>.
\<close>

subsection \<open>Sealing and opening\<close>

record 'k secretbox =
  seal :: "bytes \<Rightarrow> bytes \<Rightarrow> 'k \<Rightarrow> bytes"
  open_box :: "bytes \<Rightarrow> bytes \<Rightarrow> 'k \<Rightarrow> bytes option"

record 'k encrypt =
  enc_key :: 'k
  send_seq :: u64
  recv_seq :: u64

datatype stream_error = Codec_failed codec_error | Decryption_error | Send_timeout | Io_failed

definition NONCEBYTES :: nat where "NONCEBYTES = 24"

definition u64_succ :: "bool \<Rightarrow> u64 \<Rightarrow> u64 option" where
  "u64_succ checks x = (if checks \<and> x = - 1 then None else Some (x + 1))"

definition get_nonce :: "u64 \<Rightarrow> bytes" where
  "get_nonce seqnum = copy_at 0 (to_le_bytes seqnum) (replicate NONCEBYTES 0)"

definition encrypt_new :: "'k \<Rightarrow> 'k encrypt" where
  "encrypt_new key = \<lparr>enc_key = key, send_seq = 0, recv_seq = 0\<rparr>"

definition dec ::
  "'k secretbox \<Rightarrow> bool \<Rightarrow> 'k encrypt \<Rightarrow> bytes \<Rightarrow> ((stream_error + bytes) \<times> 'k encrypt) option" where
  "dec sb checks e bs =
     (if length bs \<le> 1 then Some (Inr bs, e)
      else case u64_succ checks (recv_seq e) of
        None \<Rightarrow> None
      | Some q \<Rightarrow>
          let e' = e\<lparr>recv_seq := q\<rparr>; nonce = get_nonce q
          in case open_box sb bs nonce (enc_key e) of
               Some res \<Rightarrow> Some (Inr res, e')
             | None \<Rightarrow> Some (Inl Decryption_error, e'))"

definition enc :: "'k secretbox \<Rightarrow> bool \<Rightarrow> 'k encrypt \<Rightarrow> bytes \<Rightarrow> (bytes \<times> 'k encrypt) option" where
  "enc sb checks e data =
     (case u64_succ checks (send_seq e) of
        None \<Rightarrow> None
      | Some q \<Rightarrow> Some (seal sb data (get_nonce q) (enc_key e), e\<lparr>send_seq := q\<rparr>))"

subsection \<open>The handshake key\<close>

datatype handshake_error = Bad_pk_length nat | Box_failure | Bad_key_length

definition handshake_decode ::
  "(bytes \<Rightarrow> bytes \<Rightarrow> bytes \<Rightarrow> 'sk \<Rightarrow> bytes option) \<Rightarrow> bytes \<Rightarrow> bytes \<Rightarrow> 'sk
     \<Rightarrow> handshake_error + bytes" where
  "handshake_decode box_open symmetric_data their_pk_b our_sk_b =
     (if length their_pk_b \<noteq> 32 then Inl (Bad_pk_length (length their_pk_b))
      else case box_open symmetric_data (replicate 24 0) their_pk_b our_sk_b of
        None \<Rightarrow> Inl Box_failure
      | Some symmetric_key \<Rightarrow>
          if length symmetric_key \<noteq> 32 then Inl Bad_key_length else Inr symmetric_key)"

subsection \<open>The stream\<close>

text \<open>\<open>written\<close> is what the codec has put into the write buffer of the connection.\<close>

record 'k framed_stream =
  fs_codec :: codec
  fs_local :: sock_addr
  fs_encrypt :: "'k encrypt option"
  fs_timeout :: u64
  written :: bytes

definition fs_from :: "sock_addr \<Rightarrow> 'k framed_stream" where
  "fs_from addr = \<lparr>fs_codec = codec_new, fs_local = addr, fs_encrypt = None, fs_timeout = 0,
     written = []\<rparr>"

definition fs_set_send_timeout :: "u64 \<Rightarrow> 'k framed_stream \<Rightarrow> 'k framed_stream" where
  "fs_set_send_timeout ms s = s\<lparr>fs_timeout := ms\<rparr>"

definition fs_set_raw :: "'k framed_stream \<Rightarrow> 'k framed_stream" where
  "fs_set_raw s = s\<lparr>fs_codec := codec_set_raw (fs_codec s), fs_encrypt := None\<rparr>"

definition fs_is_secured :: "'k framed_stream \<Rightarrow> bool" where
  "fs_is_secured s = (fs_encrypt s \<noteq> None)"

definition fs_set_key :: "'k \<Rightarrow> 'k framed_stream \<Rightarrow> 'k framed_stream" where
  "fs_set_key key s = s\<lparr>fs_encrypt := Some (encrypt_new key)\<rparr>"

text \<open>
  \<^verbatim>\<open>send_bytes\<close>: the frame goes to the write buffer, then the flush either finishes, fails or,
  when a timeout is set, is given up. \<open>io\<close> is that outcome: elapsed, failed.
\<close>

definition fs_send_bytes ::
  "bool \<times> bool \<Rightarrow> bytes \<Rightarrow> 'k framed_stream \<Rightarrow> (stream_error + unit) \<times> 'k framed_stream" where
  "fs_send_bytes io bs s =
     (case encode (fs_codec s) bs (written s) of
        Inl e \<Rightarrow> (Inl (Codec_failed e), s)
      | Inr w \<Rightarrow>
          (if 0 < fs_timeout s \<and> fst io then Inl Send_timeout
           else if snd io then Inl Io_failed else Inr (),
           s\<lparr>written := w\<rparr>))"

definition fs_send_raw ::
  "'k secretbox \<Rightarrow> bool \<Rightarrow> bool \<times> bool \<Rightarrow> bytes \<Rightarrow> 'k framed_stream
     \<Rightarrow> ((stream_error + unit) \<times> 'k framed_stream) option" where
  "fs_send_raw sb checks io msg s =
     (case fs_encrypt s of
        None \<Rightarrow> Some (fs_send_bytes io msg s)
      | Some key \<Rightarrow>
          (case enc sb checks key msg of
             None \<Rightarrow> None
           | Some (msg', key') \<Rightarrow>
               Some (fs_send_bytes io msg' (s\<lparr>fs_encrypt := Some key'\<rparr>))))"

text \<open>\<^verbatim>\<open>next\<close>, on what the framed connection yields: end of stream, an error or a frame.\<close>

definition fs_next ::
  "'k secretbox \<Rightarrow> bool \<Rightarrow> (stream_error + bytes) option \<Rightarrow> 'k framed_stream
     \<Rightarrow> ((stream_error + bytes) option \<times> 'k framed_stream) option" where
  "fs_next sb checks res s =
     (case res of
        Some (Inr bs) \<Rightarrow>
          (case fs_encrypt s of
             None \<Rightarrow> Some (res, s)
           | Some key \<Rightarrow>
               (case dec sb checks key bs of
                  None \<Rightarrow> None
                | Some (Inl err, key') \<Rightarrow> Some (Some (Inl err), s\<lparr>fs_encrypt := Some key'\<rparr>)
                | Some (Inr bs', key') \<Rightarrow> Some (Some (Inr bs'), s\<lparr>fs_encrypt := Some key'\<rparr>)))
      | _ \<Rightarrow> Some (res, s))"

definition fs_next_timeout ::
  "'k secretbox \<Rightarrow> bool \<Rightarrow> bool \<Rightarrow> (stream_error + bytes) option \<Rightarrow> 'k framed_stream
     \<Rightarrow> ((stream_error + bytes) option \<times> 'k framed_stream) option" where
  "fs_next_timeout sb checks elapsed res s =
     (if elapsed then Some (None, s) else fs_next sb checks res s)"

text \<open>Sending several messages; reading all frames of a sequence of chunks.\<close>

fun fs_send_all ::
  "'k secretbox \<Rightarrow> bool \<Rightarrow> bytes list \<Rightarrow> 'k framed_stream \<Rightarrow> 'k framed_stream option" where
  "fs_send_all sb checks [] s = Some s"
| "fs_send_all sb checks (m # ms) s =
     (case fs_send_raw sb checks (False, False) m s of
        Some (Inr u, s') \<Rightarrow> fs_send_all sb checks ms s'
      | _ \<Rightarrow> None)"

fun fs_next_all ::
  "'k secretbox \<Rightarrow> bool \<Rightarrow> bytes list \<Rightarrow> 'k framed_stream
     \<Rightarrow> ((stream_error + bytes) option list \<times> 'k framed_stream) option" where
  "fs_next_all sb checks [] s = Some ([], s)"
| "fs_next_all sb checks (w # ws) s =
     (case fs_next sb checks (Some (Inr w)) s of
        None \<Rightarrow> None
      | Some (r, s') \<Rightarrow> map_option (\<lambda>(rs, s''). (r # rs, s'')) (fs_next_all sb checks ws s'))"

definition fs_read ::
  "'k secretbox \<Rightarrow> bool \<Rightarrow> bytes list \<Rightarrow> 'k framed_stream
     \<Rightarrow> ((stream_error + bytes) option list \<times> 'k framed_stream) option" where
  "fs_read sb checks cs s = fs_next_all sb checks (fst (feed decode (fs_codec s) [] cs)) s"

subsection \<open>Nonces\<close>

lemma length_get_nonce [simp]: "length (get_nonce q) = 24"
  by (simp add: get_nonce_def NONCEBYTES_def copy_at_def length_to_le_bytes)

lemma get_nonce_inj: "get_nonce p = get_nonce q \<longleftrightarrow> p = q"
proof
  assume "get_nonce p = get_nonce q"
  then have "subslice 0 (0 + length (to_le_bytes p)) (get_nonce p) =
      subslice 0 (0 + length (to_le_bytes q)) (get_nonce q)"
    by (simp add: length_to_le_bytes)
  then have "to_le_bytes p = to_le_bytes q"
    unfolding get_nonce_def
    by (subst (asm) (1 2) subslice_copy_at) (simp_all add: length_to_le_bytes NONCEBYTES_def)
  then show "p = q" by (metis from_to_le64)
qed simp

subsection \<open>Delivery\<close>

text \<open>What sodiumoxide documents of \<^verbatim>\<open>secretbox\<close>: opening undoes sealing, and a box is sixteen
  bytes longer than its content.\<close>

definition secretbox_laws :: "'k secretbox \<Rightarrow> bool" where
  "secretbox_laws sb \<longleftrightarrow> (\<forall>m n k. open_box sb (seal sb m n k) n k = Some m) \<and>
     (\<forall>m n k. length (seal sb m n k) = length m + 16)"

fun sealed :: "'k secretbox \<Rightarrow> 'k \<Rightarrow> u64 \<Rightarrow> bytes list \<Rightarrow> bytes list" where
  "sealed sb k q [] = []"
| "sealed sb k q (m # ms) = seal sb m (get_nonce (q + 1)) k # sealed sb k (q + 1) ms"

lemma u64_succ_ok: "unat q + Suc n < 2 ^ 64 \<Longrightarrow> u64_succ checks q = Some (q + 1)"
  by (auto simp: u64_succ_def unsigned_minus_1_eq_mask mask_eq_exp_minus_1)

lemma unat_u64_succ:
  assumes "unat (q :: u64) + Suc n < 2 ^ 64"
  shows "unat (q + 1) + n < 2 ^ 64"
proof -
  have "unat (q + 1) = unat q + 1"
    using assms by (subst unat_add_lem [THEN iffD1]) simp_all
  then show ?thesis using assms by simp
qed

lemma send_all_sealed:
  assumes laws: "secretbox_laws sb"
    and "fs_encrypt s = Some e" and "\<not> raw (fs_codec s)"
    and "unat (send_seq e) + length ms < 2 ^ 64"
    and "\<forall>m \<in> set ms. length m + 16 \<le> 0x3FFFFFFF \<and> length m + 16 \<le> unat n"
  shows "\<exists>s' es. fs_send_all sb checks ms s = Some s' \<and>
    those (map (frame n) (sealed sb (enc_key e) (send_seq e) ms)) = Some es \<and>
    written s' = written s @ concat es"
  using assms(2-)
proof (induction ms arbitrary: s e)
  case Nil
  then show ?case by simp
next
  case (Cons m ms)
  define q where "q = send_seq e"
  define w where "w = seal sb m (get_nonce (q + 1)) (enc_key e)"
  define s1 where "s1 = s\<lparr>fs_encrypt := Some (e\<lparr>send_seq := q + 1\<rparr>)\<rparr>"
  have q: "unat q + Suc (length ms) < 2 ^ 64" using Cons.prems by (simp add: q_def)
  have lw: "length w = length m + 16" using laws by (simp add: w_def secretbox_laws_def)
  then have lim: "length w \<le> 0x3FFFFFFF" "length w \<le> unat n" using Cons.prems by auto
  obtain f where f: "frame n w = Some f"
    using encode_ok [of "codec_limit n" w "[]"] lim by (simp add: frame_def)
  have "encode (fs_codec s) w (written s) = Inr (written s @ f)"
    using encode_ok [of "fs_codec s" w "written s"] frame_Some [OF f] Cons.prems lim by simp
  then have step: "fs_send_raw sb checks (False, False) m s = Some (Inr (), s1\<lparr>written := written s @ f\<rparr>)"
    using Cons.prems(1) u64_succ_ok [OF q, of checks]
    by (simp add: fs_send_raw_def enc_def q_def w_def fs_send_bytes_def s1_def)
  have "\<exists>s' es. fs_send_all sb checks ms (s1\<lparr>written := written s @ f\<rparr>) = Some s' \<and>
      those (map (frame n) (sealed sb (enc_key (e\<lparr>send_seq := q + 1\<rparr>))
        (send_seq (e\<lparr>send_seq := q + 1\<rparr>)) ms)) = Some es \<and>
      written s' = written (s1\<lparr>written := written s @ f\<rparr>) @ concat es"
    by (rule Cons.IH) (use Cons.prems unat_u64_succ [OF q] in \<open>simp_all add: s1_def\<close>)
  then obtain s' es where "fs_send_all sb checks ms (s1\<lparr>written := written s @ f\<rparr>) = Some s'"
    "those (map (frame n) (sealed sb (enc_key e) (q + 1) ms)) = Some es"
    "written s' = (written s @ f) @ concat es"
    by auto
  then show ?case using step f
    by (intro exI [of _ s'] exI [of _ "f # es"]) (simp add: q_def [symmetric] w_def [symmetric])
qed

lemma next_all_sealed:
  assumes laws: "secretbox_laws sb"
    and "fs_encrypt s = Some e" and "unat (recv_seq e) + length ms < 2 ^ 64"
  shows "\<exists>s'. fs_next_all sb checks (sealed sb (enc_key e) (recv_seq e) ms) s =
    Some (map (\<lambda>m. Some (Inr m)) ms, s')"
  using assms(2-)
proof (induction ms arbitrary: s e)
  case Nil
  then show ?case by simp
next
  case (Cons m ms)
  define q where "q = recv_seq e"
  define e1 where "e1 = e\<lparr>recv_seq := q + 1\<rparr>"
  have q: "unat q + Suc (length ms) < 2 ^ 64" using Cons.prems by (simp add: q_def)
  have "\<not> length (seal sb m (get_nonce (q + 1)) (enc_key e)) \<le> 1"
    using laws by (simp add: secretbox_laws_def)
  then have step: "fs_next sb checks (Some (Inr (seal sb m (get_nonce (q + 1)) (enc_key e)))) s =
      Some (Some (Inr m), s\<lparr>fs_encrypt := Some e1\<rparr>)"
    using laws Cons.prems(1) u64_succ_ok [OF q, of checks]
    by (simp add: fs_next_def dec_def Let_def q_def e1_def secretbox_laws_def)
  have "\<exists>s'. fs_next_all sb checks (sealed sb (enc_key e1) (recv_seq e1) ms)
      (s\<lparr>fs_encrypt := Some e1\<rparr>) = Some (map (\<lambda>m. Some (Inr m)) ms, s')"
    by (rule Cons.IH) (use unat_u64_succ [OF q] in \<open>simp_all add: e1_def\<close>)
  then show ?case using step by (auto simp: e1_def q_def [symmetric])
qed

subsection \<open>Properties\<close>

text \<open>C4. The secured channel delivers: what one end sends with \<^verbatim>\<open>send_raw\<close> under a key, the other
  end, with the same key and a receive counter equal to the sender's send counter, reads with
  \<^verbatim>\<open>next\<close> as the same messages in order, whatever the network does to the chunking, as long as
  the counter does not wrap and the sealed messages fit a frame.\<close>

theorem secured_delivery:
  assumes "secretbox_laws sb"
    and "fs_encrypt a = Some ea" and "\<not> raw (fs_codec a)" and "written a = []"
    and "fs_encrypt b = Some eb" and "fs_codec b = codec_limit n"
    and "enc_key eb = enc_key ea" and "recv_seq eb = send_seq ea"
    and "unat (send_seq ea) + length ms < 2 ^ 64"
    and "\<forall>m \<in> set ms. length m + 16 \<le> 0x3FFFFFFF \<and> length m + 16 \<le> unat n"
  shows "\<exists>a'. fs_send_all sb checks ms a = Some a' \<and>
    (\<forall>cs. cs \<noteq> [] \<longrightarrow> concat cs = written a' \<longrightarrow>
      (\<exists>b'. fs_read sb checks cs b = Some (map (\<lambda>m. Some (Inr m)) ms, b')))"
proof -
  obtain a' es where a': "fs_send_all sb checks ms a = Some a'"
    "those (map (frame n) (sealed sb (enc_key ea) (send_seq ea) ms)) = Some es"
    "written a' = concat es"
    using send_all_sealed [OF assms(1-3) assms(9-10), of checks] assms(4) by auto
  have "\<exists>b'. fs_read sb checks cs b = Some (map (\<lambda>m. Some (Inr m)) ms, b')"
    if "cs \<noteq> []" "concat cs = written a'" for cs
    using next_all_sealed [OF assms(1,5), of ms checks] that a' assms
      framed.feed_encoded [OF a'(2), of cs]
    by (simp add: fs_read_def)
  with a'(1) show ?thesis by blast
qed

text \<open>A toy box for the witness: sixteen bytes of the key before the content.\<close>

definition demo_box :: "u8 secretbox" where
  "demo_box = \<lparr>seal = (\<lambda>m n k. replicate 16 k @ m),
     open_box = (\<lambda>c n k. if take 16 c = replicate 16 k then Some (drop 16 c) else None)\<rparr>"

lemma demo_box_laws: "secretbox_laws demo_box"
  by (simp add: secretbox_laws_def demo_box_def)

theorem secured_delivery_witness:
  "\<exists>a'. fs_send_all demo_box True [[1, 2], []] (fs_set_key 7 (fs_from (SockV4 (IpV4 1 2 3 4) 5)))
      = Some a' \<and>
    (\<forall>cs. cs \<noteq> [] \<longrightarrow> concat cs = written a' \<longrightarrow>
      (\<exists>b'. fs_read demo_box True cs (fs_set_key 7 (fs_from (SockV4 (IpV4 4 3 2 1) 6)) ) =
         Some (map (\<lambda>m. Some (Inr m)) [[1, 2], []], b')))"
proof (rule secured_delivery [OF demo_box_laws])
  show "fs_codec (fs_set_key 7 (fs_from (SockV4 (IpV4 4 3 2 1) 6))) = codec_limit (- 1)"
    by (simp add: fs_set_key_def fs_from_def codec_limit_def codec_set_max_packet_length_def
        codec_new_def)
  show "\<forall>m \<in> set [[1, 2], []]. length (m :: bytes) + 16 \<le> 0x3FFFFFFF \<and>
      length m + 16 \<le> unat (- 1 :: usize)"
    by (simp add: unsigned_minus_1_eq_mask mask_eq_exp_minus_1)
qed (simp_all add: fs_set_key_def fs_from_def codec_new_def, simp_all add: encrypt_new_def)

text \<open>Sealing a list of messages with one \<^verbatim>\<open>Encrypt\<close>.\<close>

fun enc_all :: "'k secretbox \<Rightarrow> bool \<Rightarrow> 'k encrypt \<Rightarrow> bytes list \<Rightarrow> (bytes list \<times> 'k encrypt) option" where
  "enc_all sb checks e [] = Some ([], e)"
| "enc_all sb checks e (m # ms) =
     Option.bind (enc sb checks e m) (\<lambda>(w, e'). map_option (\<lambda>(ws, e''). (w # ws, e''))
       (enc_all sb checks e' ms))"

lemma enc_all_from:
  "unat (of_nat k :: u64) = k \<Longrightarrow> send_seq e = of_nat k \<Longrightarrow> k + length ms < 2 ^ 64 \<Longrightarrow>
   map_option fst (enc_all sb checks e ms) =
     Some (map2 (\<lambda>m i. seal sb m (get_nonce (of_nat i)) (enc_key e)) ms
       [Suc k..<Suc k + length ms])"
proof (induction ms arbitrary: k e)
  case Nil
  then show ?case by simp
next
  case (Cons m ms)
  have q: "u64_succ checks (of_nat k) = Some (of_nat k + 1)"
    using Cons.prems by (intro u64_succ_ok [of _ 0]) simp
  define e' where "e' = e\<lparr>send_seq := of_nat (Suc k)\<rparr>"
  have "unat (of_nat (Suc k) :: u64) = Suc k"
    unfolding unat_of_nat using Cons.prems(3) by (intro mod_less) simp
  then have IH: "map_option fst (enc_all sb checks e' ms) =
      Some (map2 (\<lambda>m i. seal sb m (get_nonce (of_nat i)) (enc_key e')) ms
        [Suc (Suc k)..<Suc (Suc k) + length ms])"
    using Cons.prems(3) by (intro Cons.IH) (simp_all add: e'_def)
  have e: "enc sb checks e m = Some (seal sb m (get_nonce (of_nat (Suc k))) (enc_key e), e')"
    using Cons.prems(2) q by (simp add: enc_def e'_def add.commute)
  have "[Suc k..<Suc k + length (m # ms)] = Suc k # [Suc (Suc k)..<Suc (Suc k) + length ms]"
    by (subst upt_conv_Cons) simp_all
  then show ?case using IH e
    by (cases "enc_all sb checks e' ms") (auto simp: e'_def)
qed

text \<open>C37. A fresh key seals the n-th message it sends under the nonce of n, and these nonces are
  distinct, before the 64-bit counter wraps. Both ends of a connection hold the same key and
  count from zero, so the n-th messages of the two directions share a nonce.\<close>

theorem sender_nonces:
  assumes "length ms < 2 ^ 64"
  shows "map_option fst (enc_all sb checks (encrypt_new k) ms) =
      Some (map2 (\<lambda>m i. seal sb m (get_nonce (of_nat i)) k) ms [1..<Suc (length ms)]) \<and>
    distinct (map (\<lambda>i. get_nonce (of_nat i)) [1..<Suc (length ms)])"
proof
  show "map_option fst (enc_all sb checks (encrypt_new k) ms) =
      Some (map2 (\<lambda>m i. seal sb m (get_nonce (of_nat i)) k) ms [1..<Suc (length ms)])"
    using enc_all_from [of 0 "encrypt_new k" ms sb checks] assms by (simp add: encrypt_new_def)
  have "unat (of_nat i :: u64) = i" if "i \<le> length ms" for i
    unfolding unat_of_nat using assms that by (intro mod_less) simp
  then have "inj_on (\<lambda>i. get_nonce (of_nat i)) (set [1..<Suc (length ms)])"
    by (intro inj_onI) (metis atLeastLessThan_iff get_nonce_inj less_Suc_eq_le set_upt)
  then show "distinct (map (\<lambda>i. get_nonce (of_nat i)) [1..<Suc (length ms)])"
    by (simp only: distinct_map distinct_upt)
qed

theorem sender_nonces_witness:
  "map_option fst (enc_all demo_box True (encrypt_new 7) [[1], [2]]) =
      Some (map2 (\<lambda>m i. seal demo_box m (get_nonce (of_nat i)) 7) [[1], [2]]
        [1..<Suc (length [[1 :: u8], [2]])]) \<and>
    distinct (map (\<lambda>i. get_nonce (of_nat i)) [1..<Suc (length [[1 :: u8], [2]])])"
  by (rule sender_nonces [of "[[1], [2]]" demo_box True 7]) simp

text \<open>The handshake takes a symmetric key only from a box that opens under the zero nonce with
  a public key of 32 bytes, and only one of 32 bytes; each failure is reported as itself.\<close>

theorem handshake_key_iff:
  "handshake_decode box_open symmetric_data pk sk = Inr key \<longleftrightarrow>
     length pk = 32 \<and> box_open symmetric_data (replicate 24 0) pk sk = Some key \<and> length key = 32"
  by (auto simp: handshake_decode_def split: option.splits)

text \<open>Reading back one frame never corrupts the stream's counter: a frame of at most one byte is
  passed through unopened with the counter unmoved, any other one moves it by one, also when
  it does not open.\<close>

theorem receive_counter:
  assumes "dec sb checks e bs = Some (r, e')"
  shows "enc_key e' = enc_key e \<and> send_seq e' = send_seq e \<and>
    recv_seq e' = (if length bs \<le> 1 then recv_seq e else recv_seq e + 1) \<and>
    (length bs \<le> 1 \<longrightarrow> r = Inr bs)"
  using assms by (auto simp: dec_def u64_succ_def Let_def split: if_splits option.splits)

theorem receive_counter_witness:
  "dec demo_box False (encrypt_new 7) [9, 9] =
     Some (Inl Decryption_error, (encrypt_new 7)\<lparr>recv_seq := 1\<rparr>) \<and>
   recv_seq ((encrypt_new (7 :: u8))\<lparr>recv_seq := 1\<rparr>) = recv_seq (encrypt_new (7 :: u8)) + 1"
proof -
  have d: "dec demo_box False (encrypt_new 7) [9, 9] =
     Some (Inl Decryption_error, (encrypt_new 7)\<lparr>recv_seq := 1\<rparr>)"
    by code_simp
  with receive_counter [OF d] show ?thesis by simp
qed

end
