(* ===== verification/Utf8.thy ===== *)
theory Utf8
  imports Prelude
begin

text \<open>
  Rust strings as their UTF-8 bytes: \<^verbatim>\<open>len()\<close>, \<^verbatim>\<open>chars().count()\<close>, \<^verbatim>\<open>as_bytes()\<close> and
  \<^verbatim>\<open>String::from_utf8_lossy\<close>, which replaces each maximal invalid prefix by U+FFFD. A
  HOL \<open>string\<close> is a list of 8-bit characters, here the bytes of the Rust string.
\<close>

definition char_byte :: "char \<Rightarrow> u8" where "char_byte c = of_nat (of_char c)"
definition byte_char :: "u8 \<Rightarrow> char" where "byte_char b = char_of (unat b)"

definition as_bytes :: "string \<Rightarrow> bytes" where "as_bytes s = map char_byte s"
definition of_bytes :: "bytes \<Rightarrow> string" where "of_bytes bs = map byte_char bs"

lemma of_char_less: "(of_char c :: nat) < 256"
  using nat_of_char_less_256 [of c] by simp

lemma char_byte_inverse [simp]: "byte_char (char_byte c) = c"
proof -
  have "unat (char_byte c) = of_char c"
    unfolding char_byte_def unat_of_nat using of_char_less [of c] by simp
  then show ?thesis by (simp add: byte_char_def)
qed

lemma byte_char_inverse [simp]: "char_byte (byte_char b) = b"
proof -
  have "unat b < 256" using unsigned_less [of b] by simp
  then show ?thesis by (simp add: char_byte_def byte_char_def)
qed

lemma of_as_bytes [simp]: "of_bytes (as_bytes s) = s"
  by (simp add: of_bytes_def as_bytes_def o_def)

lemma as_of_bytes [simp]: "as_bytes (of_bytes bs) = bs"
  by (simp add: of_bytes_def as_bytes_def o_def)

lemma length_as_bytes [simp]: "length (as_bytes s) = length s"
  by (simp add: as_bytes_def)

lemma as_bytes_Nil_iff [simp]: "as_bytes s = [] \<longleftrightarrow> s = []"
  by (simp add: as_bytes_def)

lemma of_bytes_Nil_iff [simp]: "of_bytes v = [] \<longleftrightarrow> v = []"
  by (simp add: of_bytes_def)

subsection \<open>Scalar values\<close>

definition is_cont :: "u8 \<Rightarrow> bool" where "is_cont b \<longleftrightarrow> 0x80 \<le> b \<and> b \<le> 0xBF"

text \<open>The first unit of a non-empty byte string: whether it is a scalar value, and its length.\<close>

definition utf8_second :: "u8 \<Rightarrow> u8 \<Rightarrow> bool" where
  "utf8_second b0 b1 \<longleftrightarrow>
     (if b0 = 0xE0 then 0xA0 \<le> b1 \<and> b1 \<le> 0xBF
      else if b0 = 0xED then 0x80 \<le> b1 \<and> b1 \<le> 0x9F
      else if b0 = 0xF0 then 0x90 \<le> b1 \<and> b1 \<le> 0xBF
      else if b0 = 0xF4 then 0x80 \<le> b1 \<and> b1 \<le> 0x8F
      else is_cont b1)"

definition cont_at :: "nat \<Rightarrow> bytes \<Rightarrow> bool" where
  "cont_at i bs \<longleftrightarrow> i < length bs \<and> is_cont (bs ! i)"

definition utf8_unit :: "bytes \<Rightarrow> bool \<times> nat" where
  "utf8_unit bs =
     (let b0 = bs ! 0; second = 1 < length bs \<and> utf8_second b0 (bs ! 1)
      in if b0 < 0x80 then (True, 1)
         else if 0xC2 \<le> b0 \<and> b0 \<le> 0xDF then (if second then (True, 2) else (False, 1))
         else if 0xE0 \<le> b0 \<and> b0 \<le> 0xEF then
           (if \<not> second then (False, 1) else if cont_at 2 bs then (True, 3) else (False, 2))
         else if 0xF0 \<le> b0 \<and> b0 \<le> 0xF4 then
           (if \<not> second then (False, 1) else if \<not> cont_at 2 bs then (False, 2)
            else if cont_at 3 bs then (True, 4) else (False, 3))
         else (False, 1))"

lemma utf8_unit_pos: "0 < snd (utf8_unit bs)"
  by (simp add: utf8_unit_def Let_def)

lemma utf8_unit_shorter:
  assumes "bs \<noteq> []" and "(ok, k) = utf8_unit bs"
  shows "length (drop k bs) < length bs"
proof -
  have "0 < k" using utf8_unit_pos [of bs] assms(2) by (metis snd_conv)
  then show ?thesis using assms(1) by simp
qed

function utf8_valid :: "bytes \<Rightarrow> bool" where
  "utf8_valid bs = (if bs = [] then True
     else let (ok, k) = utf8_unit bs in ok \<and> utf8_valid (drop k bs))"
  by pat_completeness auto
termination
  by (relation "measure length") (use utf8_unit_shorter in \<open>auto simp del: length_drop\<close>)

function utf8_lossy :: "bytes \<Rightarrow> bytes" where
  "utf8_lossy bs = (if bs = [] then []
     else let (ok, k) = utf8_unit bs
          in (if ok then take k bs else [0xEF, 0xBF, 0xBD]) @ utf8_lossy (drop k bs))"
  by pat_completeness auto
termination
  by (relation "measure length") (use utf8_unit_shorter in \<open>auto simp del: length_drop\<close>)

declare utf8_valid.simps [simp del] utf8_lossy.simps [simp del]

lemma utf8_lossy_valid: "utf8_valid bs \<Longrightarrow> utf8_lossy bs = bs"
proof (induction bs rule: utf8_lossy.induct)
  case (1 bs)
  show ?case
  proof (cases "bs = []")
    case False
    obtain ok k where u: "utf8_unit bs = (ok, k)" by (cases "utf8_unit bs")
    with 1 False have "ok" "utf8_valid (drop k bs)" by (simp_all add: utf8_valid.simps [of bs])
    with 1 False u have "utf8_lossy (drop k bs) = drop k bs" by auto
    with \<open>ok\<close> u False show ?thesis by (simp add: utf8_lossy.simps [of bs])
  next
    case True
    then show ?thesis by (subst utf8_lossy.simps) simp
  qed
qed

definition from_utf8_lossy :: "bytes \<Rightarrow> string" where
  "from_utf8_lossy bs = of_bytes (utf8_lossy bs)"

definition is_utf8 :: "string \<Rightarrow> bool" where
  "is_utf8 s \<longleftrightarrow> utf8_valid (as_bytes s)"

text \<open>\<^verbatim>\<open>s.chars().count()\<close>.\<close>

definition chars_count :: "string \<Rightarrow> nat" where
  "chars_count s = length (filter (\<lambda>b. \<not> is_cont b) (as_bytes s))"

lemma chars_count_le: "chars_count s \<le> length s"
  by (simp add: chars_count_def) (metis length_as_bytes length_filter_le)

lemma from_utf8_lossy_str: "is_utf8 s \<Longrightarrow> from_utf8_lossy (as_bytes s) = s"
  by (simp add: from_utf8_lossy_def is_utf8_def utf8_lossy_valid)

text \<open>ASCII strings.\<close>

lemma ascii_valid:
  assumes "\<forall>c \<in> set s. (of_char c :: nat) < 128"
  shows "is_utf8 s"
proof -
  have "utf8_valid (as_bytes s)" using assms
  proof (induction s)
    case (Cons c s)
    have "unat (char_byte c) = of_char c"
      unfolding char_byte_def unat_of_nat using of_char_less [of c] by simp
    then have "char_byte c < 0x80" using Cons.prems by (simp add: word_less_nat_alt)
    then have "utf8_unit (as_bytes (c # s)) = (True, 1)"
      by (simp add: utf8_unit_def as_bytes_def)
    with Cons show ?case by (subst utf8_valid.simps) (simp add: as_bytes_def)
  next
    case Nil
    show ?case by (subst utf8_valid.simps) (simp add: as_bytes_def)
  qed
  then show ?thesis by (simp add: is_utf8_def)
qed

end
