(* ===== verification/Text.thy ===== *)
theory Text
  imports Utf8 Net
begin

text \<open>
  The parts of Rust's \<^verbatim>\<open>str\<close> the program uses: splitting, prefixes, and parsing of
  decimal integers.
\<close>

definition starts_with :: "string \<Rightarrow> string \<Rightarrow> bool" where
  "starts_with s pre \<longleftrightarrow> take (length pre) s = pre"

text \<open>\<^verbatim>\<open>s.split(c)\<close> for one character: always at least one piece.\<close>

fun split_char :: "char \<Rightarrow> string \<Rightarrow> string list" where
  "split_char c [] = [[]]"
| "split_char c (x # xs) =
     (if x = c then [] # split_char c xs
      else case split_char c xs of [] \<Rightarrow> [[x]] | p # ps \<Rightarrow> (x # p) # ps)"

lemma split_char_not_Nil [simp]: "split_char c s \<noteq> []"
  by (induction s) (auto split: list.splits)

lemma split_char_join: "concat (map (\<lambda>p. p @ [c]) (split_char c s)) = s @ [c]"
  by (induction s) (auto split: list.splits)

lemma split_char_none: "c \<notin> set s \<Longrightarrow> split_char c s = [s]"
  by (induction s) auto

lemma split_char_pieces: "p \<in> set (split_char c s) \<Longrightarrow> c \<notin> set p"
  by (induction s arbitrary: p) (auto split: if_splits list.splits)

lemma split_char_append: "c \<notin> set p \<Longrightarrow> split_char c (p @ c # s) = p # split_char c s"
  by (induction p) auto

text \<open>\<^verbatim>\<open>s.split(pat)\<close> for a non-empty pattern.\<close>

function split_str :: "string \<Rightarrow> string \<Rightarrow> string list" where
  "split_str pat s =
     (if s = [] then [[]]
      else if pat \<noteq> [] \<and> starts_with s pat then [] # split_str pat (drop (length pat) s)
      else case split_str pat (tl s) of [] \<Rightarrow> [[hd s]] | p # ps \<Rightarrow> (hd s # p) # ps)"
  by pat_completeness auto
termination by (relation "measure (\<lambda>(pat, s). length s)") auto

declare split_str.simps [simp del]

subsection \<open>Integers\<close>

definition is_digit :: "char \<Rightarrow> bool" where
  "is_digit c \<longleftrightarrow> 48 \<le> (of_char c :: nat) \<and> (of_char c :: nat) \<le> 57"

definition digit_val :: "char \<Rightarrow> nat" where "digit_val c = of_char c - 48"

definition digits_val :: "string \<Rightarrow> nat" where
  "digits_val s = foldl (\<lambda>n c. n * 10 + digit_val c) 0 s"

text \<open>\<^verbatim>\<open>s.parse::<iN>()\<close>: an optional sign, at least one digit, a value in range.\<close>

definition parse_int :: "nat \<Rightarrow> string \<Rightarrow> int option" where
  "parse_int bits s =
     (let (neg, ds) = (case s of
            [] \<Rightarrow> (False, [])
          | c # cs \<Rightarrow> if c = CHR ''-'' then (True, cs) else if c = CHR ''+'' then (False, cs) else (False, s))
      in if ds = [] \<or> \<not> list_all is_digit ds then None
         else let v = (if neg then - int (digits_val ds) else int (digits_val ds))
              in if - (2 ^ (bits - 1)) \<le> v \<and> v < 2 ^ (bits - 1) then Some v else None)"

definition parse_i32 :: "string \<Rightarrow> int option" where "parse_i32 = parse_int 32"
definition parse_i64 :: "string \<Rightarrow> int option" where "parse_i64 = parse_int 64"

text \<open>\<^verbatim>\<open>s.parse::<u16>()\<close> and the like: no minus sign.\<close>

definition parse_uint :: "nat \<Rightarrow> string \<Rightarrow> nat option" where
  "parse_uint bits s =
     (let ds = (case s of [] \<Rightarrow> [] | c # cs \<Rightarrow> if c = CHR ''+'' then cs else s)
      in if ds = [] \<or> \<not> list_all is_digit ds then None
         else if digits_val ds < 2 ^ bits then Some (digits_val ds) else None)"

definition show_int :: "int \<Rightarrow> string" where "show_int = int_string"

lemma digits_val_append: "digits_val (xs @ [c]) = digits_val xs * 10 + digit_val c"
  by (simp add: digits_val_def)

lemma parse_int_range: "parse_int bits s = Some v \<Longrightarrow> - (2 ^ (bits - 1)) \<le> v \<and> v < 2 ^ (bits - 1)"
  by (auto simp: parse_int_def Let_def split: list.splits if_splits)

text \<open>Decimal printing is read back.\<close>

lemma digit_char_props: "d < 10 \<Longrightarrow> is_digit (digit_char d) \<and> digit_val (digit_char d) = d"
  by (simp add: is_digit_def digit_val_def digit_char_def)

lemma dec_string_props:
  "list_all is_digit (dec_string n) \<and> digits_val (dec_string n) = n \<and> dec_string n \<noteq> ''''"
proof (induction n rule: less_induct)
  case (less n)
  show ?case
  proof (cases "n < 10")
    case True
    then show ?thesis using digit_char_props [of n]
      by (simp add: dec_string_def digits_base.simps [of 10 n] digits_val_def)
  next
    case False
    then have rec: "dec_string n = dec_string (n div 10) @ [digit_char (n mod 10)]"
      by (simp add: dec_string_def digits_base.simps [of 10 n])
    moreover have "n div 10 < n" using False by simp
    ultimately show ?thesis using less.IH [of "n div 10"] digit_char_props [of "n mod 10"]
      by (simp add: digits_val_append)
  qed
qed

lemma dec_string_no_sign: "hd (dec_string n) \<noteq> CHR ''-'' \<and> hd (dec_string n) \<noteq> CHR ''+''"
proof -
  have "is_digit (hd (dec_string n))"
    using dec_string_props [of n] by (cases "dec_string n") auto
  then show ?thesis by (auto simp: is_digit_def)
qed

lemma parse_dec_string:
  assumes "int n < 2 ^ (bits - 1)"
  shows "parse_int bits (dec_string n) = Some (int n)"
proof -
  obtain c cs where "dec_string n = c # cs" using dec_string_props [of n] by (cases "dec_string n") auto
  moreover have "- (2 ^ (bits - 1)) \<le> int n"
    by (rule order_trans [of _ 0]) simp_all
  ultimately show ?thesis
    using assms dec_string_props [of n] dec_string_no_sign [of n]
    by (simp add: parse_int_def Let_def)
qed

lemma dec_string_no_char: "\<not> is_digit c \<Longrightarrow> c \<notin> set (dec_string n)"
  using dec_string_props [of n] by (auto simp: list_all_iff)

end
