(* ===== verification/Passwords.thy ===== *)
theory Passwords
  imports SecretStream Text
begin

text \<open>
  \<^verbatim>\<open>libs/hbb_common/src/password_security.rs\<close>: the verification and approval settings, and
  the versioned encryption of passwords at rest. sodiumoxide's \<^verbatim>\<open>secretbox\<close> and base64 are
  the record \<open>crypto\<close>, with the machine's identifier. Options are read through a map whose
  missing keys read as the empty string.
\<close>

record crypto =
  cr_box :: "bytes secretbox"
  b64_encode :: "bytes \<Rightarrow> string"
  b64_decode :: "bytes \<Rightarrow> bytes option"
  get_uuid :: bytes

subsection \<open>Encryption at rest\<close>

definition KEYBYTES :: nat where "KEYBYTES = 32"
definition VERSION_LEN :: nat where "VERSION_LEN = 2"

text \<open>\<^verbatim>\<open>keybuf.resize(KEYBYTES, 0)\<close>; the conversion to a key then cannot fail.\<close>

definition crypt_key :: "crypto \<Rightarrow> bytes" where
  "crypt_key cr = take KEYBYTES (get_uuid cr @ replicate KEYBYTES 0)"

definition symmetric_crypt :: "crypto \<Rightarrow> bytes \<Rightarrow> bool \<Rightarrow> bytes option" where
  "symmetric_crypt cr data sealing =
     (if sealing then Some (seal (cr_box cr) data (replicate NONCEBYTES 0) (crypt_key cr))
      else open_box (cr_box cr) data (replicate NONCEBYTES 0) (crypt_key cr))"

definition encrypt_bytes :: "crypto \<Rightarrow> bytes \<Rightarrow> string option" where
  "encrypt_bytes cr v = (if v \<noteq> [] then map_option (b64_encode cr) (symmetric_crypt cr v True) else None)"

definition decrypt_bytes :: "crypto \<Rightarrow> bytes \<Rightarrow> bytes option" where
  "decrypt_bytes cr v = (if v \<noteq> []
     then Option.bind (b64_decode cr v) (\<lambda>v. symmetric_crypt cr v False) else None)"

definition decrypt_str_or_original :: "crypto \<Rightarrow> string \<Rightarrow> string \<Rightarrow> string \<times> bool \<times> bool" where
  "decrypt_str_or_original cr s current_version =
     (if VERSION_LEN < length s \<and> take 2 s = ''00''
      then case decrypt_bytes cr (as_bytes (drop VERSION_LEN s)) of
             Some v \<Rightarrow> (from_utf8_lossy v, True, ''00'' \<noteq> current_version)
           | None \<Rightarrow> (s, False, s \<noteq> '''')
      else (s, False, s \<noteq> ''''))"

definition encrypt_str_or_original :: "crypto \<Rightarrow> string \<Rightarrow> string \<Rightarrow> nat \<Rightarrow> string" where
  "encrypt_str_or_original cr s version max_len =
     (if fst (snd (decrypt_str_or_original cr s version)) then s
      else if max_len < chars_count s then ''''
      else if version = ''00''
      then case encrypt_bytes cr (as_bytes s) of Some e \<Rightarrow> version @ e | None \<Rightarrow> s
      else s)"

definition decrypt_vec_or_original :: "crypto \<Rightarrow> bytes \<Rightarrow> string \<Rightarrow> bytes \<times> bool \<times> bool" where
  "decrypt_vec_or_original cr v current_version =
     (if VERSION_LEN < length v \<and> from_utf8_lossy (take VERSION_LEN v) = ''00''
      then case decrypt_bytes cr (drop VERSION_LEN v) of
             Some v' \<Rightarrow> (v', True, from_utf8_lossy (take VERSION_LEN v) \<noteq> current_version)
           | None \<Rightarrow> (v, False, v \<noteq> [])
      else (v, False, v \<noteq> []))"

definition encrypt_vec_or_original :: "crypto \<Rightarrow> bytes \<Rightarrow> string \<Rightarrow> nat \<Rightarrow> bytes" where
  "encrypt_vec_or_original cr v version max_len =
     (if fst (snd (decrypt_vec_or_original cr v version)) then v
      else if max_len < length v then []
      else if version = ''00''
      then case encrypt_bytes cr v of Some s \<Rightarrow> as_bytes version @ as_bytes s | None \<Rightarrow> v
      else v)"

subsection \<open>Verification and approval\<close>

datatype verification_method = OnlyUseTemporaryPassword | OnlyUsePermanentPassword | UseBothPasswords
datatype approve_mode = ApproveBoth | ApprovePassword | ApproveClick

type_synonym options = "string \<Rightarrow> string"

definition verification_method :: "options \<Rightarrow> verification_method" where
  "verification_method get_option =
     (let method = get_option ''verification-method''
      in if method = ''use-temporary-password'' then OnlyUseTemporaryPassword
         else if method = ''use-permanent-password'' then OnlyUsePermanentPassword
         else UseBothPasswords)"

definition temporary_password_length :: "options \<Rightarrow> nat" where
  "temporary_password_length get_option =
     (let len = get_option ''temporary-password-length''
      in if len = ''8'' then 8 else if len = ''10'' then 10 else 6)"

definition temporary_enabled :: "options \<Rightarrow> bool" where
  "temporary_enabled get_option = (verification_method get_option \<noteq> OnlyUsePermanentPassword)"

definition permanent_enabled :: "options \<Rightarrow> bool" where
  "permanent_enabled get_option = (verification_method get_option \<noteq> OnlyUseTemporaryPassword)"

definition has_valid_password :: "options \<Rightarrow> string \<Rightarrow> string \<Rightarrow> bool" where
  "has_valid_password get_option temporary permanent =
     (temporary_enabled get_option \<and> temporary \<noteq> '''' \<or>
      permanent_enabled get_option \<and> permanent \<noteq> '''')"

definition approve_mode :: "options \<Rightarrow> approve_mode" where
  "approve_mode get_option =
     (let mode = get_option ''approve-mode''
      in if mode = ''password'' then ApprovePassword
         else if mode = ''click'' then ApproveClick else ApproveBoth)"

text \<open>\<^verbatim>\<open>option2bool\<close> of \<^verbatim>\<open>config.rs\<close>.\<close>


definition option2bool :: "string \<Rightarrow> string \<Rightarrow> bool" where
  "option2bool opt value =
     (if starts_with opt ''enable-'' then value \<noteq> ''N''
      else if starts_with opt ''allow-'' \<or> opt = ''stop-service'' \<or> opt = ''direct-server''
           \<or> opt = ''force-always-relay''
      then value = ''Y''
      else value \<noteq> ''N'')"

definition hide_cm :: "options \<Rightarrow> bool" where
  "hide_cm get_option \<longleftrightarrow> approve_mode get_option = ApprovePassword
     \<and> verification_method get_option = OnlyUsePermanentPassword
     \<and> option2bool ''allow-hide-cm'' (get_option ''allow-hide-cm'')"

text \<open>\<^verbatim>\<open>Config::get_auto_password\<close>, on the numbers the random generator gives.\<close>

definition CHARS :: string where "CHARS = ''23456789abcdefghijkmnpqrstuvwxyz''"

definition get_auto_password :: "(nat \<Rightarrow> usize) \<Rightarrow> nat \<Rightarrow> string" where
  "get_auto_password rng len = map (\<lambda>i. CHARS ! (unat (rng i) mod length CHARS)) [0..<len]"

definition update_temporary_password :: "options \<Rightarrow> (nat \<Rightarrow> usize) \<Rightarrow> string" where
  "update_temporary_password get_option rng =
     get_auto_password rng (temporary_password_length get_option)"

subsection \<open>Round trips\<close>

text \<open>What sodiumoxide documents of base64: decoding undoes encoding, and only an empty input
  encodes to an empty text.\<close>

definition crypto_laws :: "crypto \<Rightarrow> bool" where
  "crypto_laws cr \<longleftrightarrow> secretbox_laws (cr_box cr) \<and>
     (\<forall>v. b64_decode cr (as_bytes (b64_encode cr v)) = Some v) \<and>
     (\<forall>v. b64_encode cr v = '''' \<longrightarrow> v = [])"

lemma encrypt_bytes_decrypts:
  assumes "crypto_laws cr" and "v \<noteq> []"
  shows "\<exists>e. encrypt_bytes cr v = Some e \<and> e \<noteq> '''' \<and> decrypt_bytes cr (as_bytes e) = Some v"
proof -
  define w where "w = seal (cr_box cr) v (replicate NONCEBYTES 0) (crypt_key cr)"
  have "length w = length v + 16" "open_box (cr_box cr) w (replicate NONCEBYTES 0) (crypt_key cr) = Some v"
    using assms(1) by (simp_all add: crypto_laws_def secretbox_laws_def w_def)
  moreover from this have "b64_encode cr w \<noteq> ''''"
    using assms(1) by (auto simp: crypto_laws_def)
  moreover have "b64_decode cr (as_bytes (b64_encode cr w)) = Some w"
    using assms(1) by (simp add: crypto_laws_def)
  ultimately show ?thesis
    using assms(2) by (intro exI [of _ "b64_encode cr w"])
      (simp add: encrypt_bytes_def decrypt_bytes_def symmetric_crypt_def w_def)
qed

lemma decrypt_of_encrypted:
  assumes "crypto_laws cr" and "v \<noteq> []" and "encrypt_bytes cr v = Some e"
  shows "decrypt_str_or_original cr (''00'' @ e) cur = (from_utf8_lossy v, True, ''00'' \<noteq> cur)"
  using encrypt_bytes_decrypts [OF assms(1,2)] assms(3)
  by (auto simp: decrypt_str_or_original_def VERSION_LEN_def)

lemma lossy_00: "from_utf8_lossy [0x30, 0x30] = ''00''"
proof -
  have "is_utf8 ''00''" by (intro ascii_valid) simp
  from from_utf8_lossy_str [OF this] show ?thesis by (simp add: as_bytes_def char_byte_def)
qed

lemma decrypt_vec_of_encrypted:
  assumes "crypto_laws cr" and "v \<noteq> []" and "encrypt_bytes cr v = Some e"
  shows "decrypt_vec_or_original cr (as_bytes ''00'' @ as_bytes e) cur = (v, True, ''00'' \<noteq> cur)"
proof -
  have "as_bytes ''00'' = [0x30, 0x30]" by (simp add: as_bytes_def char_byte_def)
  with encrypt_bytes_decrypts [OF assms(1,2)] assms(3) show ?thesis
    by (auto simp: decrypt_vec_or_original_def VERSION_LEN_def lossy_00)
qed

subsection \<open>Properties\<close>

text \<open>C32. A stored string reads back: a non-empty string within the length limit that is not
  already an encrypted one is encrypted under version 00 and decrypts to itself, and asks to
  be stored again exactly when the current version is another. What came out encrypted is not
  encrypted twice.\<close>

theorem stored_string_roundtrip:
  assumes "crypto_laws cr" and "is_utf8 s" and "s \<noteq> ''''" and "chars_count s \<le> max_len"
    and "\<not> fst (snd (decrypt_str_or_original cr s ''00''))"
  shows "decrypt_str_or_original cr (encrypt_str_or_original cr s ''00'' max_len) cur =
      (s, True, ''00'' \<noteq> cur) \<and>
    encrypt_str_or_original cr (encrypt_str_or_original cr s ''00'' max_len) ''00'' max_len =
      encrypt_str_or_original cr s ''00'' max_len"
proof -
  have "as_bytes s \<noteq> []" using assms(3) by simp
  from encrypt_bytes_decrypts [OF assms(1) this] obtain e
    where e: "encrypt_bytes cr (as_bytes s) = Some e" by blast
  have enc: "encrypt_str_or_original cr s ''00'' max_len = ''00'' @ e"
    using assms e by (simp add: encrypt_str_or_original_def)
  have dec: "decrypt_str_or_original cr (''00'' @ e) v = (s, True, ''00'' \<noteq> v)" for v
    using decrypt_of_encrypted [OF assms(1) \<open>as_bytes s \<noteq> []\<close> e] from_utf8_lossy_str [OF assms(2)]
    by simp
  show ?thesis
    unfolding enc dec by (simp only: encrypt_str_or_original_def dec fst_conv snd_conv if_True)
qed

text \<open>A toy box and a toy base64 for the witnesses.\<close>

definition demo_crypto :: crypto where
  "demo_crypto = \<lparr>cr_box = \<lparr>seal = (\<lambda>m n k. replicate 16 (hd k) @ m),
       open_box = (\<lambda>c n k. if take 16 c = replicate 16 (hd k) then Some (drop 16 c) else None)\<rparr>,
     b64_encode = (\<lambda>v. of_bytes v), b64_decode = (\<lambda>v. Some v), get_uuid = [1, 2, 3]\<rparr>"

lemma demo_crypto_laws: "crypto_laws demo_crypto"
  by (auto simp: crypto_laws_def secretbox_laws_def demo_crypto_def)

theorem stored_string_roundtrip_witness:
  "decrypt_str_or_original demo_crypto (encrypt_str_or_original demo_crypto ''secret'' ''00'' 128) ''99''
     = (''secret'', True, True) \<and>
   encrypt_str_or_original demo_crypto (encrypt_str_or_original demo_crypto ''secret'' ''00'' 128)
     ''00'' 128 = encrypt_str_or_original demo_crypto ''secret'' ''00'' 128"
proof -
  have "is_utf8 ''secret''" by (intro ascii_valid) simp
  moreover have "chars_count ''secret'' \<le> 128" using chars_count_le [of "''secret''"] by simp
  moreover have "\<not> fst (snd (decrypt_str_or_original demo_crypto ''secret'' ''00''))"
    by (simp add: decrypt_str_or_original_def)
  ultimately show ?thesis
    using stored_string_roundtrip [OF demo_crypto_laws, of "''secret''" 128 "''99''"] by simp
qed

text \<open>The same for byte strings, the passwords of the peer configurations, with no condition on
  their content.\<close>

theorem stored_bytes_roundtrip:
  assumes "crypto_laws cr" and "v \<noteq> []" and "length v \<le> max_len"
    and "\<not> fst (snd (decrypt_vec_or_original cr v ''00''))"
  shows "decrypt_vec_or_original cr (encrypt_vec_or_original cr v ''00'' max_len) cur =
      (v, True, ''00'' \<noteq> cur)"
proof -
  from encrypt_bytes_decrypts [OF assms(1,2)] obtain e where e: "encrypt_bytes cr v = Some e" by blast
  then have "encrypt_vec_or_original cr v ''00'' max_len = as_bytes ''00'' @ as_bytes e"
    using assms by (simp add: encrypt_vec_or_original_def)
  with decrypt_vec_of_encrypted [OF assms(1,2) e] show ?thesis by simp
qed

theorem stored_bytes_roundtrip_witness:
  "decrypt_vec_or_original demo_crypto (encrypt_vec_or_original demo_crypto [0xFF, 0] ''00'' 128) ''00''
     = ([0xFF, 0], True, False)"
proof -
  have "\<not> fst (snd (decrypt_vec_or_original demo_crypto [0xFF, 0] ''00''))"
    by (simp add: decrypt_vec_or_original_def VERSION_LEN_def)
  then show ?thesis
    using stored_bytes_roundtrip [OF demo_crypto_laws, of "[0xFF, 0]" 128 "''00''"] by simp
qed

text \<open>A string over the length limit is stored as the empty string: what was set is lost, not
  refused.\<close>

theorem long_password_is_lost:
  assumes "max_len < chars_count s" and "\<not> fst (snd (decrypt_str_or_original cr s version))"
  shows "encrypt_str_or_original cr s version max_len = ''''"
  using assms by (simp add: encrypt_str_or_original_def)

theorem long_password_is_lost_witness:
  "encrypt_str_or_original demo_crypto ''abc'' ''00'' 2 = ''''"
proof (rule long_password_is_lost)
  show "2 < chars_count ''abc''" by code_simp
  show "\<not> fst (snd (decrypt_str_or_original demo_crypto ''abc'' ''00''))"
    by (simp add: decrypt_str_or_original_def)
qed

text \<open>A generated password has the configured length and uses only the 32 unambiguous
  characters, whatever the random numbers.\<close>

theorem auto_password_wellformed:
  "length (update_temporary_password opts rng) = temporary_password_length opts \<and>
   temporary_password_length opts \<in> {6, 8, 10} \<and>
   set (update_temporary_password opts rng) \<subseteq> set CHARS"
proof -
  have n: "length CHARS = 32" by (simp add: CHARS_def)
  have "set (update_temporary_password opts rng) \<subseteq> set CHARS"
    by (auto simp: update_temporary_password_def get_auto_password_def n)
  then show ?thesis
    by (auto simp: update_temporary_password_def get_auto_password_def temporary_password_length_def
        Let_def)
qed

text \<open>Some password kind is always enabled, and the connection manager is hidden only when the
  permanent password alone is accepted and password approval is required.\<close>

theorem approval_consistency:
  "(temporary_enabled opts \<or> permanent_enabled opts) \<and>
   hide_cm opts = (permanent_enabled opts \<and> \<not> temporary_enabled opts \<and>
      approve_mode opts = ApprovePassword \<and> opts ''allow-hide-cm'' = ''Y'')"
  by (auto simp: temporary_enabled_def permanent_enabled_def hide_cm_def option2bool_def
      starts_with_def)

end
