(* ===== verification/ConfigState.thy ===== *)
theory ConfigState
  imports Passwords "HOL-Library.Finite_Map"
begin

text \<open>
  The state of \<^verbatim>\<open>libs/hbb_common/src/config.rs\<close>: the configuration structs, the global
  locks that hold them, and the files behind them. confy and serde are not part of the
  repository; what the code relies on is that loading a file gives the value that was stored
  in it, or the default value when there is none or it cannot be read, so a file is kept as
  the value. \<open>readonly\<close> is a disk whose writes fail, which the code only logs.
\<close>

type_synonym strmap = "(string, string) fmap"

record socks5_server =
  sk_proxy :: string
  sk_username :: string
  sk_password :: string

record config =
  cf_id :: string
  enc_id :: string
  cf_password :: string
  cf_salt :: string
  key_pair :: "bytes \<times> bytes"  \<comment> \<open>secret key, public key\<close>
  key_confirmed :: bool
  keys_confirmed :: "(string, bool) fmap"

record config2 =
  rendezvous_server :: string
  nat_type :: i32
  serial :: i32
  unlock_pin :: string
  trusted_devices :: string
  socks :: "socks5_server option"
  c2_options :: strmap

record local_config =
  remote_id :: string
  kb_layout_type :: string
  lc_size :: "int \<times> int \<times> int \<times> int"
  fav :: "string list"
  lc_options :: strmap
  ui_flutter :: strmap

record trusted_device =
  hwid :: bytes
  td_time :: int
  td_id :: string
  td_name :: string
  td_platform :: string

definition config_default :: config where
  "config_default = \<lparr>cf_id = '''', enc_id = '''', cf_password = '''', cf_salt = '''',
     key_pair = ([], []), key_confirmed = False, keys_confirmed = fmempty\<rparr>"

definition config2_default :: config2 where
  "config2_default = \<lparr>rendezvous_server = '''', nat_type = 0, serial = 0, unlock_pin = '''',
     trusted_devices = '''', socks = None, c2_options = fmempty\<rparr>"

definition local_config_default :: local_config where
  "local_config_default = \<lparr>remote_id = '''', kb_layout_type = '''', lc_size = (0, 0, 0, 0),
     fav = [], lc_options = fmempty, ui_flutter = fmempty\<rparr>"

record disk =
  d_config :: "config option"
  d_config2 :: "config2 option"
  d_local :: "local_config option"
  d_default :: "strmap option"
  readonly :: bool

text \<open>The globals of \<^verbatim>\<open>lazy_static!\<close>. An \<^verbatim>\<open>Instant\<close> is a number of nanoseconds.\<close>

record app =
  CONFIG :: config
  CONFIG2 :: config2
  LOCAL_CONFIG :: local_config
  USER_DEFAULT_CONFIG :: "strmap \<times> nat"
  TRUSTED_DEVICES :: "trusted_device list \<times> bool"
  ONLINE :: "(string, int) fmap"
  PROD_RENDEZVOUS_SERVER :: string
  EXE_RENDEZVOUS_SERVER :: string
  KEY_PAIR :: "(bytes \<times> bytes) option"
  DEFAULT_SETTINGS :: strmap
  OVERWRITE_SETTINGS :: strmap
  DEFAULT_DISPLAY_SETTINGS :: strmap
  OVERWRITE_DISPLAY_SETTINGS :: strmap
  DEFAULT_LOCAL_SETTINGS :: strmap
  OVERWRITE_LOCAL_SETTINGS :: strmap
  HARD_SETTINGS :: strmap
  files :: disk

definition PASSWORD_ENC_VERSION :: string where "PASSWORD_ENC_VERSION = ''00''"
definition ENCRYPT_MAX_LEN :: nat where "ENCRYPT_MAX_LEN = 128"
definition RENDEZVOUS_PORT :: nat where "RENDEZVOUS_PORT = 21116"
definition RENDEZVOUS_SERVERS :: "string list" where "RENDEZVOUS_SERVERS = [''rs-ny.rustdesk.com'']"
definition SERIAL :: i32 where "SERIAL = 3"

text \<open>\<^verbatim>\<open>Config::store_\<close> and \<^verbatim>\<open>Config::load_\<close>, for each of the files.\<close>

definition store_file :: "(disk \<Rightarrow> disk) \<Rightarrow> app \<Rightarrow> app" where
  "store_file write a = (if readonly (files a) then a else a\<lparr>files := write (files a)\<rparr>)"

definition load_config_file :: "app \<Rightarrow> config" where
  "load_config_file a = (case d_config (files a) of Some c \<Rightarrow> c | None \<Rightarrow> config_default)"

definition load_config2_file :: "app \<Rightarrow> config2" where
  "load_config2_file a = (case d_config2 (files a) of Some c \<Rightarrow> c | None \<Rightarrow> config2_default)"

definition load_local_file :: "app \<Rightarrow> local_config" where
  "load_local_file a = (case d_local (files a) of Some c \<Rightarrow> c | None \<Rightarrow> local_config_default)"

definition load_default_file :: "app \<Rightarrow> strmap" where
  "load_default_file a = (case d_default (files a) of Some c \<Rightarrow> c | None \<Rightarrow> fmempty)"

subsection \<open>Encrypted stores\<close>

definition encrypt_socks :: "crypto \<Rightarrow> socks5_server option \<Rightarrow> socks5_server option" where
  "encrypt_socks cr = map_option (\<lambda>s. s\<lparr>sk_password :=
     encrypt_str_or_original cr (sk_password s) PASSWORD_ENC_VERSION ENCRYPT_MAX_LEN\<rparr>)"

definition config2_stored :: "crypto \<Rightarrow> config2 \<Rightarrow> config2" where
  "config2_stored cr c = c\<lparr>socks := encrypt_socks cr (socks c),
     unlock_pin := encrypt_str_or_original cr (unlock_pin c) PASSWORD_ENC_VERSION ENCRYPT_MAX_LEN\<rparr>"

definition config2_store :: "crypto \<Rightarrow> config2 \<Rightarrow> app \<Rightarrow> app" where
  "config2_store cr c = store_file (\<lambda>d. d\<lparr>d_config2 := Some (config2_stored cr c)\<rparr>)"

definition config2_load :: "crypto \<Rightarrow> app \<Rightarrow> config2 \<times> app" where
  "config2_load cr a =
     (let c = load_config2_file a;
          (c1, store1) = (case socks c of
             None \<Rightarrow> (c, False)
           | Some s \<Rightarrow>
               let (password, ok, store2) = decrypt_str_or_original cr (sk_password s) PASSWORD_ENC_VERSION
               in (c\<lparr>socks := Some (s\<lparr>sk_password := password\<rparr>)\<rparr>, store2));
          (pin, ok, store2) = decrypt_str_or_original cr (unlock_pin c1) PASSWORD_ENC_VERSION;
          c2 = c1\<lparr>unlock_pin := pin\<rparr>
      in (c2, if store1 \<or> store2 then config2_store cr c2 a else a))"

definition config_stored :: "crypto \<Rightarrow> config \<Rightarrow> config" where
  "config_stored cr c = c\<lparr>
     cf_password := encrypt_str_or_original cr (cf_password c) PASSWORD_ENC_VERSION ENCRYPT_MAX_LEN,
     enc_id := encrypt_str_or_original cr (cf_id c) PASSWORD_ENC_VERSION ENCRYPT_MAX_LEN,
     cf_id := ''''\<rparr>"

definition config_store :: "crypto \<Rightarrow> config \<Rightarrow> app \<Rightarrow> app" where
  "config_store cr c = store_file (\<lambda>d. d\<lparr>d_config := Some (config_stored cr c)\<rparr>)"

text \<open>
  \<^verbatim>\<open>get_auto_id\<close> on a desktop: the last four bytes of the network card's address, if there is
  one. The three attempts of \<^verbatim>\<open>load\<close> read the same card.
\<close>

definition auto_id_of_mac :: "bytes \<Rightarrow> u32" where
  "auto_id_of_mac mac = and (fold (\<lambda>x id. or (push_bit 8 id) (ucast x)) (drop 2 mac) 0) 0x1FFFFFFF"

definition get_auto_id :: "bytes option \<Rightarrow> string option" where
  "get_auto_id mac = map_option (\<lambda>m. dec_string (unat (auto_id_of_mac m))) mac"

definition config_load :: "crypto \<Rightarrow> bytes option \<Rightarrow> app \<Rightarrow> config \<times> app" where
  "config_load cr mac a =
     (let c = load_config_file a;
          (password, ok1, store1) = decrypt_str_or_original cr (cf_password c) PASSWORD_ENC_VERSION;
          c1 = c\<lparr>cf_password := password\<rparr>;
          (ident, encrypted, store2) = decrypt_str_or_original cr (enc_id c1) PASSWORD_ENC_VERSION;
          (c2, id_valid, store3) =
            (if encrypted then (c1\<lparr>cf_id := ident\<rparr>, True, store1 \<or> store2)
             else if cf_id c1 \<noteq> '''' \<and> enc_id c1 = ''''
                \<and> \<not> fst (snd (decrypt_str_or_original cr (cf_id c1) PASSWORD_ENC_VERSION))
             then (c1, True, True)
             else (c1, False, store1));
          (c3, store4) =
            (if id_valid then (c2, store3)
             else case get_auto_id mac of
                    Some ident \<Rightarrow> (c2\<lparr>cf_id := ident\<rparr>, True)
                  | None \<Rightarrow> (c2, store3))
      in (c3, if store4 then config_store cr c3 a else a))"

definition local_store :: "local_config \<Rightarrow> app \<Rightarrow> app" where
  "local_store c = store_file (\<lambda>d. d\<lparr>d_local := Some c\<rparr>)"

definition default_store :: "strmap \<Rightarrow> app \<Rightarrow> app" where
  "default_store c = store_file (\<lambda>d. d\<lparr>d_default := Some c\<rparr>)"

text \<open>Changing a global under its lock and storing it.\<close>

definition put_config :: "crypto \<Rightarrow> config \<Rightarrow> app \<Rightarrow> app" where
  "put_config cr c a = config_store cr c (a\<lparr>CONFIG := c\<rparr>)"

definition put_config2 :: "crypto \<Rightarrow> config2 \<Rightarrow> app \<Rightarrow> app" where
  "put_config2 cr c a = config2_store cr c (a\<lparr>CONFIG2 := c\<rparr>)"

definition put_local :: "local_config \<Rightarrow> app \<Rightarrow> app" where
  "put_local c a = local_store c (a\<lparr>LOCAL_CONFIG := c\<rparr>)"

lemma store_file_globals [simp]:
  "CONFIG (store_file w a) = CONFIG a" "CONFIG2 (store_file w a) = CONFIG2 a"
  "LOCAL_CONFIG (store_file w a) = LOCAL_CONFIG a"
  "USER_DEFAULT_CONFIG (store_file w a) = USER_DEFAULT_CONFIG a"
  "TRUSTED_DEVICES (store_file w a) = TRUSTED_DEVICES a" "ONLINE (store_file w a) = ONLINE a"
  "DEFAULT_SETTINGS (store_file w a) = DEFAULT_SETTINGS a"
  "OVERWRITE_SETTINGS (store_file w a) = OVERWRITE_SETTINGS a"
  "DEFAULT_DISPLAY_SETTINGS (store_file w a) = DEFAULT_DISPLAY_SETTINGS a"
  "OVERWRITE_DISPLAY_SETTINGS (store_file w a) = OVERWRITE_DISPLAY_SETTINGS a"
  "DEFAULT_LOCAL_SETTINGS (store_file w a) = DEFAULT_LOCAL_SETTINGS a"
  "OVERWRITE_LOCAL_SETTINGS (store_file w a) = OVERWRITE_LOCAL_SETTINGS a"
  "HARD_SETTINGS (store_file w a) = HARD_SETTINGS a"
  "KEY_PAIR (store_file w a) = KEY_PAIR a"
  "EXE_RENDEZVOUS_SERVER (store_file w a) = EXE_RENDEZVOUS_SERVER a"
  "PROD_RENDEZVOUS_SERVER (store_file w a) = PROD_RENDEZVOUS_SERVER a"
  "readonly (files (store_file w a)) = (if readonly (files a) then True else readonly (w (files a)))"
  by (simp_all add: store_file_def)

lemma put_config_simps [simp]:
  "CONFIG (put_config cr c a) = c" "CONFIG2 (put_config cr c a) = CONFIG2 a"
  "TRUSTED_DEVICES (put_config cr c a) = TRUSTED_DEVICES a"
  "HARD_SETTINGS (put_config cr c a) = HARD_SETTINGS a"
  "OVERWRITE_SETTINGS (put_config cr c a) = OVERWRITE_SETTINGS a"
  "DEFAULT_SETTINGS (put_config cr c a) = DEFAULT_SETTINGS a"
  "\<not> readonly (files a) \<Longrightarrow> d_config (files (put_config cr c a)) = Some (config_stored cr c)"
  by (simp_all add: put_config_def config_store_def) (simp add: store_file_def)

lemma put_config2_simps [simp]:
  "CONFIG2 (put_config2 cr c a) = c" "CONFIG (put_config2 cr c a) = CONFIG a"
  "TRUSTED_DEVICES (put_config2 cr c a) = TRUSTED_DEVICES a"
  "HARD_SETTINGS (put_config2 cr c a) = HARD_SETTINGS a"
  "OVERWRITE_SETTINGS (put_config2 cr c a) = OVERWRITE_SETTINGS a"
  "DEFAULT_SETTINGS (put_config2 cr c a) = DEFAULT_SETTINGS a"
  "EXE_RENDEZVOUS_SERVER (put_config2 cr c a) = EXE_RENDEZVOUS_SERVER a"
  "PROD_RENDEZVOUS_SERVER (put_config2 cr c a) = PROD_RENDEZVOUS_SERVER a"
  "ONLINE (put_config2 cr c a) = ONLINE a"
  "\<not> readonly (files a) \<Longrightarrow> d_config2 (files (put_config2 cr c a)) = Some (config2_stored cr c)"
  by (simp_all add: put_config2_def config2_store_def) (simp add: store_file_def)

lemma put_local_simps [simp]:
  "LOCAL_CONFIG (put_local c a) = c"
  "OVERWRITE_LOCAL_SETTINGS (put_local c a) = OVERWRITE_LOCAL_SETTINGS a"
  "DEFAULT_LOCAL_SETTINGS (put_local c a) = DEFAULT_LOCAL_SETTINGS a"
  "\<not> readonly (files a) \<Longrightarrow> d_local (files (put_local c a)) = Some c"
  by (simp_all add: put_local_def local_store_def) (simp add: store_file_def)

end
