(* ===== verification/Settings.thy ===== *)
theory Settings
  imports ConfigState
begin

text \<open>
  The layered options of \<^verbatim>\<open>libs/hbb_common/src/config.rs\<close>: overwriting settings before saved
  options before defaults, for the three configurations that have them. The locale
  \<open>settings_layer\<close> is what the getters and setters promise each other; \<open>Config\<close>, \<open>LocalConfig\<close>
  and \<open>UserDefaultConfig\<close> are interpretations.
\<close>

subsection \<open>The shared functions\<close>

definition get_or :: "strmap \<Rightarrow> strmap \<Rightarrow> strmap \<Rightarrow> string \<Rightarrow> string option" where
  "get_or a b c k =
     (case fmlookup a k of Some v \<Rightarrow> Some v
      | None \<Rightarrow> (case fmlookup b k of Some v \<Rightarrow> Some v | None \<Rightarrow> fmlookup c k))"

definition is_option_can_save :: "strmap \<Rightarrow> string \<Rightarrow> strmap \<Rightarrow> string \<Rightarrow> bool" where
  "is_option_can_save overwrite k defaults v =
     (\<not> (fmlookup overwrite k \<noteq> None \<or> fmlookup defaults k = Some v))"

definition unwrap_or_default :: "string option \<Rightarrow> string" where
  "unwrap_or_default r = (case r of Some v \<Rightarrow> v | None \<Rightarrow> '''')"

text \<open>The common tail of the setters: an empty value removes the key; the second component tells
  whether there is something to store.\<close>

definition put_option :: "string \<Rightarrow> string \<Rightarrow> strmap \<Rightarrow> strmap \<times> bool" where
  "put_option k v m =
     (let v2 = (if v = '''' then None else Some v)
      in if v2 \<noteq> fmlookup m k then ((if v2 = None then fmdrop k m else fmupd k v m), True)
         else (m, False))"

lemma put_option_lookup:
  "fmlookup (fst (put_option k v m)) k' =
     (if k' = k then (if v = '''' then None else Some v) else fmlookup m k')"
  by (auto simp: put_option_def Let_def)

lemma put_option_unchanged: "\<not> snd (put_option k v m) \<Longrightarrow> fst (put_option k v m) = m"
  by (auto simp: put_option_def Let_def split: if_splits)

subsection \<open>\<^verbatim>\<open>Config\<close>\<close>

definition config_get_options :: "app \<Rightarrow> strmap" where
  "config_get_options a = DEFAULT_SETTINGS a ++\<^sub>f c2_options (CONFIG2 a) ++\<^sub>f OVERWRITE_SETTINGS a"

definition purify_options :: "app \<Rightarrow> strmap \<Rightarrow> strmap" where
  "purify_options a v = fmfilter (\<lambda>k. is_option_can_save (OVERWRITE_SETTINGS a) k (DEFAULT_SETTINGS a)
     (the (fmlookup v k))) v"

definition config_set_options :: "crypto \<Rightarrow> strmap \<Rightarrow> app \<Rightarrow> app" where
  "config_set_options cr v0 a =
     (let v = purify_options a v0
      in if c2_options (CONFIG2 a) = v then a
         else put_config2 cr ((CONFIG2 a)\<lparr>c2_options := v\<rparr>) a)"

definition config_get_option :: "app \<Rightarrow> string \<Rightarrow> string" where
  "config_get_option a k = unwrap_or_default
     (get_or (OVERWRITE_SETTINGS a) (c2_options (CONFIG2 a)) (DEFAULT_SETTINGS a) k)"

definition config_get_bool_option :: "app \<Rightarrow> string \<Rightarrow> bool" where
  "config_get_bool_option a k = option2bool k (config_get_option a k)"

definition config_set_option :: "crypto \<Rightarrow> string \<Rightarrow> string \<Rightarrow> app \<Rightarrow> app" where
  "config_set_option cr k v a =
     (if \<not> is_option_can_save (OVERWRITE_SETTINGS a) k (DEFAULT_SETTINGS a) v then a
      else let (m, changed) = put_option k v (c2_options (CONFIG2 a))
           in if changed then put_config2 cr ((CONFIG2 a)\<lparr>c2_options := m\<rparr>) a else a)"

subsection \<open>\<^verbatim>\<open>LocalConfig\<close>\<close>

definition local_get_option :: "app \<Rightarrow> string \<Rightarrow> string" where
  "local_get_option a k = unwrap_or_default
     (get_or (OVERWRITE_LOCAL_SETTINGS a) (lc_options (LOCAL_CONFIG a)) (DEFAULT_LOCAL_SETTINGS a) k)"

definition local_get_option_from_file :: "app \<Rightarrow> string \<Rightarrow> string" where
  "local_get_option_from_file a k = unwrap_or_default
     (get_or (OVERWRITE_LOCAL_SETTINGS a) (lc_options (load_local_file a)) (DEFAULT_LOCAL_SETTINGS a) k)"

definition local_get_bool_option :: "app \<Rightarrow> string \<Rightarrow> bool" where
  "local_get_bool_option a k = option2bool k (local_get_option a k)"

definition default_lang :: "string \<Rightarrow> string \<Rightarrow> bool" where
  "default_lang k v \<longleftrightarrow> k = ''lang'' \<and> v = ''default''"

definition local_set_option :: "string \<Rightarrow> string \<Rightarrow> app \<Rightarrow> app" where
  "local_set_option k v a =
     (if \<not> is_option_can_save (OVERWRITE_LOCAL_SETTINGS a) k (DEFAULT_LOCAL_SETTINGS a) v then a
      else if default_lang k v
      then put_local ((LOCAL_CONFIG a)\<lparr>lc_options := fmupd k '''' (lc_options (LOCAL_CONFIG a))\<rparr>) a
      else let (m, changed) = put_option k v (lc_options (LOCAL_CONFIG a))
           in if changed then put_local ((LOCAL_CONFIG a)\<lparr>lc_options := m\<rparr>) a else a)"

definition get_flutter_option :: "app \<Rightarrow> string \<Rightarrow> string" where
  "get_flutter_option a k = unwrap_or_default
     (get_or (OVERWRITE_LOCAL_SETTINGS a) (ui_flutter (LOCAL_CONFIG a)) (DEFAULT_LOCAL_SETTINGS a) k)"

definition set_flutter_option :: "string \<Rightarrow> string \<Rightarrow> app \<Rightarrow> app" where
  "set_flutter_option k v a =
     (let (m, changed) = put_option k v (ui_flutter (LOCAL_CONFIG a))
      in if changed then put_local ((LOCAL_CONFIG a)\<lparr>ui_flutter := m\<rparr>) a else a)"

definition set_kb_layout_type :: "string \<Rightarrow> app \<Rightarrow> app" where
  "set_kb_layout_type t a = put_local ((LOCAL_CONFIG a)\<lparr>kb_layout_type := t\<rparr>) a"

definition local_set_size :: "int \<Rightarrow> int \<Rightarrow> int \<Rightarrow> int \<Rightarrow> app \<Rightarrow> app" where
  "local_set_size x y w h a =
     (if (x, y, w, h) = lc_size (LOCAL_CONFIG a) \<or> w < 300 \<or> h < 300 then a
      else put_local ((LOCAL_CONFIG a)\<lparr>lc_size := (x, y, w, h)\<rparr>) a)"

definition set_remote_id :: "string \<Rightarrow> app \<Rightarrow> app" where
  "set_remote_id i a = (if i = remote_id (LOCAL_CONFIG a) then a
     else put_local ((LOCAL_CONFIG a)\<lparr>remote_id := i\<rparr>) a)"

definition set_fav :: "string list \<Rightarrow> app \<Rightarrow> app" where
  "set_fav f a = (if fav (LOCAL_CONFIG a) = f then a
     else put_local ((LOCAL_CONFIG a)\<lparr>fav := f\<rparr>) a)"

subsection \<open>\<^verbatim>\<open>UserDefaultConfig\<close>\<close>

text \<open>\<^verbatim>\<open>f64\<close> parsing, comparison and printing are parameters, over a type of floats.\<close>

record 'f f64_ops =
  f_parse :: "string \<Rightarrow> 'f option"
  f_of_nat :: "nat \<Rightarrow> 'f"
  f_le :: "'f \<Rightarrow> 'f \<Rightarrow> bool"
  f_show :: "'f \<Rightarrow> string"

definition default_get_after :: "app \<Rightarrow> strmap \<Rightarrow> string \<Rightarrow> string option" where
  "default_get_after a opts k =
     get_or (OVERWRITE_DISPLAY_SETTINGS a) opts (DEFAULT_DISPLAY_SETTINGS a) k"

definition default_get_string :: "app \<Rightarrow> strmap \<Rightarrow> string \<Rightarrow> string \<Rightarrow> string list \<Rightarrow> string" where
  "default_get_string a opts key dflt others =
     (case default_get_after a opts key of
        Some opt \<Rightarrow> if opt \<in> set others then opt else dflt
      | None \<Rightarrow> dflt)"

definition default_get_double_string ::
  "'f f64_ops \<Rightarrow> app \<Rightarrow> strmap \<Rightarrow> string \<Rightarrow> nat \<Rightarrow> nat \<Rightarrow> nat \<Rightarrow> string" where
  "default_get_double_string f a opts key dflt lo hi =
     (case default_get_after a opts key of
        Some opt \<Rightarrow>
          let v = (case f_parse f opt of Some v \<Rightarrow> v | None \<Rightarrow> f_of_nat f dflt)
          in if f_le f (f_of_nat f lo) v \<and> f_le f v (f_of_nat f hi) then f_show f v
             else f_show f (f_of_nat f dflt)
      | None \<Rightarrow> f_show f (f_of_nat f dflt))"

definition default_get :: "'f f64_ops \<Rightarrow> bool \<Rightarrow> app \<Rightarrow> strmap \<Rightarrow> string \<Rightarrow> string" where
  "default_get f mobile a opts key =
     (if key = ''view_style'' then
        (if mobile then default_get_string a opts key ''adaptive'' [''original'']
         else default_get_string a opts key ''original'' [''adaptive''])
      else if key = ''scroll_style'' then default_get_string a opts key ''scrollauto'' [''scrollbar'']
      else if key = ''image_quality'' then
        default_get_string a opts key ''balanced'' [''best'', ''low'', ''custom'']
      else if key = ''codec-preference'' then
        default_get_string a opts key ''auto'' [''vp8'', ''vp9'', ''av1'', ''h264'', ''h265'']
      else if key = ''custom_image_quality'' then default_get_double_string f a opts key 50 10 0xFFF
      else if key = ''custom-fps'' then default_get_double_string f a opts key 30 5 120
      else if key = ''enable-file-copy-paste'' then default_get_string a opts key ''Y'' ['''', ''N'']
      else unwrap_or_default (default_get_after a opts key))"

definition default_set :: "string \<Rightarrow> string \<Rightarrow> strmap \<times> app \<Rightarrow> strmap \<times> app" where
  "default_set key value oa =
     (let (opts, a) = oa
      in if \<not> is_option_can_save (OVERWRITE_DISPLAY_SETTINGS a) key (DEFAULT_DISPLAY_SETTINGS a) value
         then oa
         else let opts' = (if value = '''' then fmdrop key opts else fmupd key value opts)
              in (opts', default_store opts' a))"

text \<open>\<^verbatim>\<open>UserDefaultConfig::read\<close>: the cached options, reloaded when older than a second.\<close>

definition default_read :: "'f f64_ops \<Rightarrow> bool \<Rightarrow> nat \<Rightarrow> string \<Rightarrow> app \<Rightarrow> string \<times> app" where
  "default_read f mobile now key a =
     (let a' = (if 1000000000 < now - snd (USER_DEFAULT_CONFIG a)
                then a\<lparr>USER_DEFAULT_CONFIG := (load_default_file a, now)\<rparr> else a)
      in (default_get f mobile a' (fst (USER_DEFAULT_CONFIG a')) key, a'))"

subsection \<open>What getters and setters promise each other\<close>

text \<open>
  \<open>plain k v\<close> are the settings that are saved as they are. The laws speak of the three
  layers; the lemmas of what a reader sees.
\<close>

locale settings_layer =
  fixes get_opt :: "'s \<Rightarrow> string \<Rightarrow> string option"
    and set_opt :: "string \<Rightarrow> string \<Rightarrow> 's \<Rightarrow> 's"
    and over saved defs :: "'s \<Rightarrow> strmap"
    and plain :: "string \<Rightarrow> string \<Rightarrow> bool"
  assumes get_layers: "get_opt s k = get_or (over s) (saved s) (defs s) k"
    and set_frame: "over (set_opt k v s) = over s" "defs (set_opt k v s) = defs s"
    and set_refused: "\<not> is_option_can_save (over s) k (defs s) v \<Longrightarrow> saved (set_opt k v s) = saved s"
    and set_saved: "is_option_can_save (over s) k (defs s) v \<Longrightarrow> plain k v \<Longrightarrow>
        fmlookup (saved (set_opt k v s)) k = (if v = '''' then None else Some v)"
    and set_other: "k' \<noteq> k \<Longrightarrow> fmlookup (saved (set_opt k v s)) k' = fmlookup (saved s) k'"
begin

lemma get_set_other: "k' \<noteq> k \<Longrightarrow> get_opt (set_opt k v s) k' = get_opt s k'"
  using set_other [of k' k v s] by (simp add: get_layers get_or_def set_frame cong: option.case_cong)

lemma get_overwritten: "fmlookup (over s) k = Some w \<Longrightarrow> get_opt (set_opt k' v s) k = Some w"
  by (simp add: get_layers get_or_def set_frame)

lemma get_set_same:
  assumes "fmlookup (over s) k = None" and "fmlookup (defs s) k \<noteq> Some v" and "plain k v" and "v \<noteq> ''''"
  shows "get_opt (set_opt k v s) k = Some v"
  using assms set_saved [of s k v]
  by (simp add: get_layers get_or_def set_frame is_option_can_save_def)

lemma get_set_empty:
  assumes "fmlookup (over s) k = None" and "fmlookup (defs s) k \<noteq> Some ''''" and "plain k ''''"
  shows "get_opt (set_opt k '''' s) k = fmlookup (defs s) k"
  using assms set_saved [of s k "''''"]
  by (simp add: get_layers get_or_def set_frame is_option_can_save_def)

text \<open>Setting an option to its default value is refused, so a saved value stays in force.\<close>

lemma set_default_refused:
  assumes "fmlookup (over s) k = None" and "fmlookup (defs s) k = Some v"
    and "fmlookup (saved s) k = Some w"
  shows "get_opt (set_opt k v s) k = Some w"
  using assms set_refused [of s k v]
  by (simp add: get_layers get_or_def set_frame is_option_can_save_def)

end

interpretation conf: settings_layer
  "\<lambda>a. get_or (OVERWRITE_SETTINGS a) (c2_options (CONFIG2 a)) (DEFAULT_SETTINGS a)"
  "config_set_option cr" OVERWRITE_SETTINGS "\<lambda>a. c2_options (CONFIG2 a)" DEFAULT_SETTINGS
  "\<lambda>k v. True" for cr
proof (unfold_locales, goal_cases)
  case (5 s k v)
  then show ?case using put_option_lookup [of k v "c2_options (CONFIG2 s)" k]
      put_option_unchanged [of k v "c2_options (CONFIG2 s)"]
    by (auto simp: config_set_option_def split: prod.splits)
next
  case (6 k' k v s)
  then show ?case using put_option_lookup [of k v "c2_options (CONFIG2 s)" k']
    by (auto simp: config_set_option_def split: prod.splits)
qed (auto simp: config_set_option_def split: prod.splits)

interpretation loc: settings_layer
  "\<lambda>a. get_or (OVERWRITE_LOCAL_SETTINGS a) (lc_options (LOCAL_CONFIG a)) (DEFAULT_LOCAL_SETTINGS a)"
  local_set_option OVERWRITE_LOCAL_SETTINGS "\<lambda>a. lc_options (LOCAL_CONFIG a)" DEFAULT_LOCAL_SETTINGS
  "\<lambda>k v. \<not> default_lang k v"
proof (unfold_locales, goal_cases)
  case (5 s k v)
  then show ?case using put_option_lookup [of k v "lc_options (LOCAL_CONFIG s)" k]
      put_option_unchanged [of k v "lc_options (LOCAL_CONFIG s)"]
    by (auto simp: local_set_option_def split: prod.splits)
next
  case (6 k' k v s)
  then show ?case using put_option_lookup [of k v "lc_options (LOCAL_CONFIG s)" k']
    by (auto simp: local_set_option_def split: prod.splits)
qed (auto simp: local_set_option_def split: prod.splits)

interpretation dflt: settings_layer
  "\<lambda>oa. default_get_after (snd oa) (fst oa)" default_set
  "\<lambda>oa. OVERWRITE_DISPLAY_SETTINGS (snd oa)" fst "\<lambda>oa. DEFAULT_DISPLAY_SETTINGS (snd oa)"
  "\<lambda>k v. True"
  by unfold_locales (auto simp: default_get_after_def default_set_def default_store_def
      Let_def split: prod.splits)

subsection \<open>Servers, proxy and built-in switches\<close>

definition get_rendezvous_servers :: "app \<Rightarrow> string list" where
  "get_rendezvous_servers a =
     (if EXE_RENDEZVOUS_SERVER a \<noteq> '''' then [EXE_RENDEZVOUS_SERVER a]
      else let s = config_get_option a ''custom-rendezvous-server''
      in if s \<noteq> '''' then [s]
      else if PROD_RENDEZVOUS_SERVER a \<noteq> '''' then [PROD_RENDEZVOUS_SERVER a]
      else let ss = (if SERIAL <s serial (CONFIG2 a)
             then filter (\<lambda>x. CHR ''.'' \<in> set x)
               (split_char CHR '','' (config_get_option a ''rendezvous-servers'')) else [])
      in if ss \<noteq> [] then ss else RENDEZVOUS_SERVERS)"

definition get_rendezvous_server :: "app \<Rightarrow> string" where
  "get_rendezvous_server a =
     (let s0 = EXE_RENDEZVOUS_SERVER a;
          s1 = (if s0 = '''' then config_get_option a ''custom-rendezvous-server'' else s0);
          s2 = (if s1 = '''' then PROD_RENDEZVOUS_SERVER a else s1);
          s3 = (if s2 = '''' then rendezvous_server (CONFIG2 a) else s2);
          s4 = (if s3 = '''' then (case get_rendezvous_servers a of [] \<Rightarrow> '''' | x # xs \<Rightarrow> x) else s3)
      in if CHR '':'' \<in> set s4 then s4 else s4 @ '':'' @ dec_string RENDEZVOUS_PORT)"

definition get_serial :: "app \<Rightarrow> i32" where
  "get_serial a = (if serial (CONFIG2 a) <s SERIAL then SERIAL else serial (CONFIG2 a))"

definition set_nat_type :: "crypto \<Rightarrow> i32 \<Rightarrow> app \<Rightarrow> app" where
  "set_nat_type cr n a = (if n = nat_type (CONFIG2 a) then a
     else put_config2 cr ((CONFIG2 a)\<lparr>nat_type := n\<rparr>) a)"

definition set_serial :: "crypto \<Rightarrow> i32 \<Rightarrow> app \<Rightarrow> app" where
  "set_serial cr n a = (if n = serial (CONFIG2 a) then a
     else put_config2 cr ((CONFIG2 a)\<lparr>serial := n\<rparr>) a)"

text \<open>The measured latencies, in the order the hash map iterates over them.\<close>

fun fastest_host :: "(string \<times> int) list \<Rightarrow> string \<times> int \<Rightarrow> string \<times> int" where
  "fastest_host [] best = best"
| "fastest_host ((h, d) # es) (host, delay) =
     (if 0 < d \<and> d < delay then fastest_host es (h, d) else fastest_host es (host, delay))"

definition update_latency ::
  "crypto \<Rightarrow> ((string, int) fmap \<Rightarrow> (string \<times> int) list) \<Rightarrow> string \<Rightarrow> int \<Rightarrow> app \<Rightarrow> app" where
  "update_latency cr iter host latency a =
     (let a1 = a\<lparr>ONLINE := fmupd host latency (ONLINE a)\<rparr>;
          (best, delay) = fastest_host (iter (ONLINE a1)) ('''', 2 ^ 63 - 1)
      in if best \<noteq> '''' \<and> best \<noteq> rendezvous_server (CONFIG2 a1)
         then put_config2 cr ((CONFIG2 a1)\<lparr>rendezvous_server := best\<rparr>) a1 else a1)"

definition reset_online :: "app \<Rightarrow> app" where "reset_online a = a\<lparr>ONLINE := fmempty\<rparr>"

definition get_online_state :: "((string, int) fmap \<Rightarrow> (string \<times> int) list) \<Rightarrow> app \<Rightarrow> int" where
  "get_online_state iter a = (case map snd (iter (ONLINE a)) of [] \<Rightarrow> 0 | x # xs \<Rightarrow> foldl max x xs)"

datatype network_type = Direct | ProxySocks

definition socks_of_settings :: "strmap \<Rightarrow> socks5_server option" where
  "socks_of_settings m = map_option (\<lambda>url. \<lparr>sk_proxy = url,
     sk_username = unwrap_or_default (fmlookup m ''proxy-username''),
     sk_password = unwrap_or_default (fmlookup m ''proxy-password'')\<rparr>) (fmlookup m ''proxy-url'')"

definition get_socks :: "app \<Rightarrow> socks5_server option" where
  "get_socks a =
     (case socks_of_settings (OVERWRITE_SETTINGS a) of Some s \<Rightarrow> Some s
      | None \<Rightarrow> (case socks (CONFIG2 a) of Some s \<Rightarrow> Some s
                 | None \<Rightarrow> socks_of_settings (DEFAULT_SETTINGS a)))"

definition set_socks :: "crypto \<Rightarrow> socks5_server option \<Rightarrow> app \<Rightarrow> app" where
  "set_socks cr s a = (if socks (CONFIG2 a) = s then a
     else put_config2 cr ((CONFIG2 a)\<lparr>socks := s\<rparr>) a)"

definition get_network_type :: "app \<Rightarrow> network_type" where
  "get_network_type a =
     (if fmlookup (OVERWRITE_SETTINGS a) ''proxy-url'' \<noteq> None then ProxySocks
      else if socks (CONFIG2 a) \<noteq> None then ProxySocks
      else if fmlookup (DEFAULT_SETTINGS a) ''proxy-url'' \<noteq> None then ProxySocks
      else Direct)"

definition is_proxy :: "app \<Rightarrow> bool" where "is_proxy a = (get_network_type a \<noteq> Direct)"

definition is_incoming_only :: "app \<Rightarrow> bool" where
  "is_incoming_only a = (fmlookup (HARD_SETTINGS a) ''conn-type'' = Some ''incoming'')"

definition is_outgoing_only :: "app \<Rightarrow> bool" where
  "is_outgoing_only a = (fmlookup (HARD_SETTINGS a) ''conn-type'' = Some ''outgoing'')"

definition is_some_hard_opton :: "string \<Rightarrow> app \<Rightarrow> bool" where
  "is_some_hard_opton name a = (fmlookup (HARD_SETTINGS a) name = Some ''Y'')"

definition is_disable_tcp_listen :: "app \<Rightarrow> bool" where
  "is_disable_tcp_listen = is_some_hard_opton ''disable-tcp-listen''"
definition is_disable_settings :: "app \<Rightarrow> bool" where
  "is_disable_settings = is_some_hard_opton ''disable-settings''"
definition is_disable_ab :: "app \<Rightarrow> bool" where
  "is_disable_ab = is_some_hard_opton ''disable-ab''"
definition is_disable_account :: "app \<Rightarrow> bool" where
  "is_disable_account = is_some_hard_opton ''disable-account''"
definition is_disable_installation :: "app \<Rightarrow> bool" where
  "is_disable_installation = is_some_hard_opton ''disable-installation''"

subsection \<open>Properties\<close>

text \<open>A fresh application, for the witnesses.\<close>

definition demo_app :: app where
  "demo_app = \<lparr>CONFIG = config_default, CONFIG2 = config2_default, LOCAL_CONFIG = local_config_default,
     USER_DEFAULT_CONFIG = (fmempty, 0), TRUSTED_DEVICES = ([], False), ONLINE = fmempty,
     PROD_RENDEZVOUS_SERVER = '''', EXE_RENDEZVOUS_SERVER = '''', KEY_PAIR = None,
     DEFAULT_SETTINGS = fmupd ''b'' ''x'' fmempty, OVERWRITE_SETTINGS = fmupd ''o'' ''z'' fmempty,
     DEFAULT_DISPLAY_SETTINGS = fmempty, OVERWRITE_DISPLAY_SETTINGS = fmempty,
     DEFAULT_LOCAL_SETTINGS = fmempty, OVERWRITE_LOCAL_SETTINGS = fmempty, HARD_SETTINGS = fmempty,
     files = \<lparr>d_config = None, d_config2 = None, d_local = None, d_default = None, readonly = False\<rparr>\<rparr>"

text \<open>C40. Setting an option that no overwriting setting fixes to a value that is neither empty nor its
  default makes every reader see the value, leaves every other option alone, and reaches the
  disk if the value is new.\<close>

theorem set_option_visible:
  assumes "fmlookup (OVERWRITE_SETTINGS a) k = None" and "fmlookup (DEFAULT_SETTINGS a) k \<noteq> Some v"
    and "v \<noteq> ''''"
  shows "config_get_option (config_set_option cr k v a) k = v \<and>
    (\<forall>k'. k' \<noteq> k \<longrightarrow> config_get_option (config_set_option cr k v a) k' = config_get_option a k') \<and>
    (fmlookup (c2_options (CONFIG2 a)) k \<noteq> Some v \<and> \<not> readonly (files a) \<longrightarrow>
      (\<exists>c. d_config2 (files (config_set_option cr k v a)) = Some c \<and>
        fmlookup (c2_options c) k = Some v))"
proof (intro conjI allI impI)
  show "config_get_option (config_set_option cr k v a) k = v"
    using conf.get_set_same [OF assms(1,2), of cr] assms(3)
    by (simp add: config_get_option_def unwrap_or_default_def)
  show "config_get_option (config_set_option cr k v a) k' = config_get_option a k'" if "k' \<noteq> k" for k'
    using conf.get_set_other [OF that, of cr v a] by (simp add: config_get_option_def)
  show "\<exists>c. d_config2 (files (config_set_option cr k v a)) = Some c \<and> fmlookup (c2_options c) k = Some v"
    if "fmlookup (c2_options (CONFIG2 a)) k \<noteq> Some v \<and> \<not> readonly (files a)"
    using that assms
    by (auto simp: config_set_option_def put_option_def Let_def is_option_can_save_def
        config2_stored_def)
qed

theorem set_option_visible_witness:
  "config_get_option (config_set_option demo_crypto ''b'' ''y'' demo_app) ''b'' = ''y'' \<and>
   config_get_option (config_set_option demo_crypto ''b'' ''y'' demo_app) ''o'' = ''z''"
  using set_option_visible [of demo_app "''b''" "''y''" demo_crypto]
  by (simp add: demo_app_def config_get_option_def get_or_def unwrap_or_default_def)

text \<open>An option cannot be set back to its default value: the request is refused because the value
  is the default, and a saved other value stays in force.\<close>

theorem set_to_default_is_ignored:
  assumes "fmlookup (OVERWRITE_SETTINGS a) k = None" and "fmlookup (DEFAULT_SETTINGS a) k = Some v"
    and "fmlookup (c2_options (CONFIG2 a)) k = Some w"
  shows "config_get_option (config_set_option cr k v a) k = w"
  using conf.set_default_refused [OF assms, of cr]
  by (simp add: config_get_option_def unwrap_or_default_def)

theorem set_to_default_is_ignored_witness:
  "config_get_option (config_set_option demo_crypto ''b'' ''x''
     (config_set_option demo_crypto ''b'' ''y'' demo_app)) ''b'' = ''y''"
proof (rule set_to_default_is_ignored)
  show "fmlookup (c2_options (CONFIG2 (config_set_option demo_crypto ''b'' ''y'' demo_app))) ''b'' = Some ''y''"
    using conf.set_saved [of demo_app "''b''" "''y''" demo_crypto]
    by (simp add: is_option_can_save_def demo_app_def)
qed (use conf.set_frame [of demo_crypto "''b''" "''y''" demo_app] in \<open>simp_all add: demo_app_def\<close>)

text \<open>The merged table of all options agrees with reading them one by one, and storing a whole
  table loses nothing a reader could see: entries that are overwritten or equal their default
  are not saved, and every option then reads as in the table laid over the defaults under the
  overwriting settings.\<close>

theorem options_tables_agree:
  "fmlookup (config_get_options a) k =
     get_or (OVERWRITE_SETTINGS a) (c2_options (CONFIG2 a)) (DEFAULT_SETTINGS a) k \<and>
   config_get_option (config_set_options cr v a) k =
     unwrap_or_default (get_or (OVERWRITE_SETTINGS a) v (DEFAULT_SETTINGS a) k)"
proof
  show "fmlookup (config_get_options a) k =
     get_or (OVERWRITE_SETTINGS a) (c2_options (CONFIG2 a)) (DEFAULT_SETTINGS a) k"
    by (auto simp: config_get_options_def get_or_def fmlookup_dom_iff split: option.split)
  have "c2_options (CONFIG2 (config_set_options cr v a)) = purify_options a v"
    by (simp add: config_set_options_def Let_def)
  moreover have "OVERWRITE_SETTINGS (config_set_options cr v a) = OVERWRITE_SETTINGS a"
    "DEFAULT_SETTINGS (config_set_options cr v a) = DEFAULT_SETTINGS a"
    by (simp_all add: config_set_options_def Let_def)
  ultimately show "config_get_option (config_set_options cr v a) k =
     unwrap_or_default (get_or (OVERWRITE_SETTINGS a) v (DEFAULT_SETTINGS a) k)"
    by (auto simp: config_get_option_def get_or_def purify_options_def is_option_can_save_def
        split: option.split)
qed

text \<open>The three sources of a proxy agree: connections are proxied exactly when a proxy is
  configured, and the overwriting settings win over the saved ones, these over the defaults.\<close>

theorem proxy_iff_socks:
  "is_proxy a \<longleftrightarrow> get_socks a \<noteq> None"
  by (auto simp: is_proxy_def get_network_type_def get_socks_def socks_of_settings_def
      split: option.splits)

text \<open>The rendezvous server always carries a port, and it is the first of the server list unless
  the saved fastest server is used.\<close>

theorem rendezvous_server_has_port:
  "CHR '':'' \<in> set (get_rendezvous_server a) \<and> get_rendezvous_servers a \<noteq> [] \<and>
   (let s = hd (get_rendezvous_servers a);
        saved = rendezvous_server (CONFIG2 a);
        free = EXE_RENDEZVOUS_SERVER a = '''' \<and> config_get_option a ''custom-rendezvous-server'' = ''''
          \<and> PROD_RENDEZVOUS_SERVER a = '''';
        r = (if free \<and> saved \<noteq> '''' then saved else s)
    in get_rendezvous_server a = (if CHR '':'' \<in> set r then r else r @ '':21116''))"
proof -
  have p: "dec_string RENDEZVOUS_PORT = ''21116''" by (simp add: dec_string_def RENDEZVOUS_PORT_def digits_base.simps digit_char_def char_of_def bit_Suc_0_iff)
  have ne: "get_rendezvous_servers a \<noteq> []"
    by (simp add: get_rendezvous_servers_def Let_def RENDEZVOUS_SERVERS_def)
  then obtain s ss where gs: "get_rendezvous_servers a = s # ss" by (meson neq_Nil_conv)
  have h: "EXE_RENDEZVOUS_SERVER a \<noteq> '''' \<Longrightarrow> s = EXE_RENDEZVOUS_SERVER a"
    "EXE_RENDEZVOUS_SERVER a = '''' \<Longrightarrow> config_get_option a ''custom-rendezvous-server'' \<noteq> '''' \<Longrightarrow>
       s = config_get_option a ''custom-rendezvous-server''"
    "EXE_RENDEZVOUS_SERVER a = '''' \<Longrightarrow> config_get_option a ''custom-rendezvous-server'' = '''' \<Longrightarrow>
       PROD_RENDEZVOUS_SERVER a \<noteq> '''' \<Longrightarrow> s = PROD_RENDEZVOUS_SERVER a"
    using gs by (simp_all add: get_rendezvous_servers_def Let_def)
  define r where "r = (if (EXE_RENDEZVOUS_SERVER a = ''''
      \<and> config_get_option a ''custom-rendezvous-server'' = '''' \<and> PROD_RENDEZVOUS_SERVER a = '''')
      \<and> rendezvous_server (CONFIG2 a) \<noteq> '''' then rendezvous_server (CONFIG2 a) else s)"
  have eq: "get_rendezvous_server a = (if CHR '':'' \<in> set r then r else r @ '':21116'')"
    using h unfolding get_rendezvous_server_def Let_def p gs r_def by simp
  then have "CHR '':'' \<in> set (get_rendezvous_server a)" by simp
  with eq ne show ?thesis unfolding Let_def gs list.sel r_def by (intro conjI)
qed

end
