(* ===== verification/ConfigStore.thy ===== *)
theory ConfigStore
  imports Settings
begin

text \<open>
  Identity, passwords, keys and trusted devices of \<^verbatim>\<open>libs/hbb_common/src/config.rs\<close>, and what
  loading gives after storing. JSON text is a parameter of the trusted devices, time a number
  of milliseconds, random values and generated keys are arguments.
\<close>

subsection \<open>Identity, salt, passwords\<close>

definition config_is_empty :: "config \<Rightarrow> bool" where
  "config_is_empty c \<longleftrightarrow> cf_id c = '''' \<and> enc_id c = '''' \<or> fst (key_pair c) = []"

definition set_id :: "crypto \<Rightarrow> string \<Rightarrow> app \<Rightarrow> app" where
  "set_id cr i a = (if i = cf_id (CONFIG a) then a
     else put_config cr ((CONFIG a)\<lparr>cf_id := i\<rparr>) a)"

definition get_id :: "crypto \<Rightarrow> bytes option \<Rightarrow> app \<Rightarrow> string \<times> app" where
  "get_id cr mac a =
     (let i = cf_id (CONFIG a)
      in if i = '''' then
           (case get_auto_id mac of Some tmp \<Rightarrow> (tmp, set_id cr tmp a) | None \<Rightarrow> (i, a))
         else (i, a))"

definition get_id_or :: "string \<Rightarrow> app \<Rightarrow> string" where
  "get_id_or b a = (if cf_id (CONFIG a) = '''' then b else cf_id (CONFIG a))"

text \<open>\<^verbatim>\<open>gen_range(1_000_000_000..2_000_000_000)\<close> gives \<open>n\<close>.\<close>

definition update_id :: "crypto \<Rightarrow> bytes option \<Rightarrow> nat \<Rightarrow> app \<Rightarrow> app" where
  "update_id cr mac n a = (let (i, a1) = get_id cr mac a in set_id cr (dec_string n) a1)"

definition set_salt :: "crypto \<Rightarrow> string \<Rightarrow> app \<Rightarrow> app" where
  "set_salt cr s a = (if s = cf_salt (CONFIG a) then a
     else put_config cr ((CONFIG a)\<lparr>cf_salt := s\<rparr>) a)"

definition get_salt :: "crypto \<Rightarrow> (nat \<Rightarrow> usize) \<Rightarrow> app \<Rightarrow> string \<times> app" where
  "get_salt cr rng a =
     (if cf_salt (CONFIG a) = ''''
      then let s = get_auto_password rng 6 in (s, set_salt cr s a)
      else (cf_salt (CONFIG a), a))"

definition get_permanent_password :: "app \<Rightarrow> string" where
  "get_permanent_password a =
     (let password = cf_password (CONFIG a)
      in if password = ''''
         then (case fmlookup (HARD_SETTINGS a) ''password'' of Some v \<Rightarrow> v | None \<Rightarrow> password)
         else password)"

definition set_key_confirmed :: "crypto \<Rightarrow> bool \<Rightarrow> app \<Rightarrow> app" where
  "set_key_confirmed cr v a =
     (if key_confirmed (CONFIG a) = v then a
      else let c = (CONFIG a)\<lparr>key_confirmed := v\<rparr>
           in put_config cr (if \<not> v then c\<lparr>keys_confirmed := fmempty\<rparr> else c) a)"

definition get_host_key_confirmed :: "string \<Rightarrow> app \<Rightarrow> bool" where
  "get_host_key_confirmed host a = (fmlookup (keys_confirmed (CONFIG a)) host = Some True)"

definition set_host_key_confirmed :: "crypto \<Rightarrow> string \<Rightarrow> bool \<Rightarrow> app \<Rightarrow> app" where
  "set_host_key_confirmed cr host v a =
     (if get_host_key_confirmed host a = v then a
      else put_config cr ((CONFIG a)\<lparr>keys_confirmed := fmupd host v (keys_confirmed (CONFIG a))\<rparr>) a)"

definition set_unlock_pin :: "crypto \<Rightarrow> string \<Rightarrow> app \<Rightarrow> app" where
  "set_unlock_pin cr pin a = (if pin = unlock_pin (CONFIG2 a) then a
     else put_config2 cr ((CONFIG2 a)\<lparr>unlock_pin := pin\<rparr>) a)"

definition config_set :: "crypto \<Rightarrow> config \<Rightarrow> app \<Rightarrow> bool \<times> app" where
  "config_set cr c a = (if CONFIG a = c then (False, a) else (True, put_config cr c a))"

definition config2_set :: "crypto \<Rightarrow> config2 \<Rightarrow> app \<Rightarrow> bool \<times> app" where
  "config2_set cr c a = (if CONFIG2 a = c then (False, a) else (True, put_config2 cr c a))"

subsection \<open>The key pair\<close>

text \<open>
  The first call reads the file, and generates a pair if the file has none; a spawned thread
  then stores it. The second component of the result is what that thread has to write.
\<close>

definition get_key_pair ::
  "bytes \<times> bytes \<Rightarrow> app \<Rightarrow> (bytes \<times> bytes) \<times> (bytes \<times> bytes) option \<times> app" where
  "get_key_pair gen a =
     (case KEY_PAIR a of
        Some p \<Rightarrow> (p, None, a)
      | None \<Rightarrow>
          let c = load_config_file a;
              (kp, spawned) = (if fst (key_pair c) = [] then (gen, Some gen) else (key_pair c, None))
          in (kp, spawned, a\<lparr>KEY_PAIR := Some kp\<rparr>))"

definition key_pair_thread :: "crypto \<Rightarrow> bytes \<times> bytes \<Rightarrow> app \<Rightarrow> app" where
  "key_pair_thread cr kp a = put_config cr ((CONFIG a)\<lparr>key_pair := kp\<rparr>) a"

subsection \<open>Trusted devices\<close>

record json =
  to_json :: "trusted_device list \<Rightarrow> string"
  from_json :: "string \<Rightarrow> trusted_device list option"

definition outdate :: "int \<Rightarrow> trusted_device \<Rightarrow> bool" where
  "outdate now d \<longleftrightarrow> td_time d + 90 * 24 * 60 * 60 * 1000 < now"

definition set_trusted_devices ::
  "crypto \<Rightarrow> json \<Rightarrow> int \<Rightarrow> trusted_device list \<Rightarrow> app \<Rightarrow> app" where
  "set_trusted_devices cr js now devices a =
     (let ds = filter (\<lambda>d. \<not> outdate now d) devices;
          text = to_json js ds; max_len = 1024 * 1024
      in if max_len < length text then a
         else let enc_text = encrypt_str_or_original cr text PASSWORD_ENC_VERSION max_len
              in (put_config2 cr ((CONFIG2 a)\<lparr>trusted_devices := enc_text\<rparr>) a)
                   \<lparr>TRUSTED_DEVICES := (ds, True)\<rparr>)"

definition get_trusted_devices ::
  "crypto \<Rightarrow> json \<Rightarrow> int \<Rightarrow> app \<Rightarrow> trusted_device list \<times> app" where
  "get_trusted_devices cr js now a =
     (if snd (TRUSTED_DEVICES a) then (fst (TRUSTED_DEVICES a), a)
      else let (text, succ, store) =
             decrypt_str_or_original cr (trusted_devices (CONFIG2 a)) PASSWORD_ENC_VERSION
        in if \<not> succ then ([], a)
        else let ds0 = (case from_json js text of Some ds \<Rightarrow> ds | None \<Rightarrow> []);
                 ds = filter (\<lambda>d. \<not> outdate now d) ds0;
                 a1 = (if store \<or> length ds \<noteq> length ds0 then set_trusted_devices cr js now ds a else a)
             in (ds, a1\<lparr>TRUSTED_DEVICES := (ds, True)\<rparr>))"

definition add_trusted_device ::
  "crypto \<Rightarrow> json \<Rightarrow> int \<Rightarrow> trusted_device \<Rightarrow> app \<Rightarrow> app" where
  "add_trusted_device cr js now device a =
     (let (ds, a1) = get_trusted_devices cr js now a
      in set_trusted_devices cr js now (filter (\<lambda>d. hwid d \<noteq> hwid device) ds @ [device]) a1)"

definition remove_trusted_devices ::
  "crypto \<Rightarrow> json \<Rightarrow> int \<Rightarrow> bytes list \<Rightarrow> app \<Rightarrow> app" where
  "remove_trusted_devices cr js now hwids a =
     (let (ds, a1) = get_trusted_devices cr js now a
      in set_trusted_devices cr js now (filter (\<lambda>d. hwid d \<notin> set hwids) ds) a1)"

definition clear_trusted_devices :: "crypto \<Rightarrow> json \<Rightarrow> int \<Rightarrow> app \<Rightarrow> app" where
  "clear_trusted_devices cr js now = set_trusted_devices cr js now []"

definition set_permanent_password :: "crypto \<Rightarrow> json \<Rightarrow> int \<Rightarrow> string \<Rightarrow> app \<Rightarrow> app" where
  "set_permanent_password cr js now password a =
     (if fmlookup (HARD_SETTINGS a) ''password'' = Some password then a
      else if password = cf_password (CONFIG a) then a
      else clear_trusted_devices cr js now (put_config cr ((CONFIG a)\<lparr>cf_password := password\<rparr>) a))"

subsection \<open>Stored strings\<close>

text \<open>A string that survives storing: empty, or valid, within the limit and not itself one that
  decrypts.\<close>

definition storable :: "crypto \<Rightarrow> string \<Rightarrow> bool" where
  "storable cr s \<longleftrightarrow> s = '''' \<or> is_utf8 s \<and> chars_count s \<le> ENCRYPT_MAX_LEN \<and>
     \<not> fst (snd (decrypt_str_or_original cr s ''00''))"

lemma empty_not_encrypted [simp]: "encrypt_str_or_original cr '''' v m = ''''"
  by (simp add: encrypt_str_or_original_def decrypt_str_or_original_def encrypt_bytes_def chars_count_def)

lemma decrypt_empty [simp]: "decrypt_str_or_original cr '''' v = ('''', False, False)"
  by (simp add: decrypt_str_or_original_def)

lemma stored_reads_back:
  assumes "crypto_laws cr" and "storable cr s"
  shows "decrypt_str_or_original cr
      (encrypt_str_or_original cr s PASSWORD_ENC_VERSION ENCRYPT_MAX_LEN) PASSWORD_ENC_VERSION =
    (s, s \<noteq> '''', False)"
proof (cases "s = ''''")
  case False
  then have s: "is_utf8 s" "chars_count s \<le> ENCRYPT_MAX_LEN"
    "\<not> fst (snd (decrypt_str_or_original cr s ''00''))"
    using assms(2) by (auto simp: storable_def)
  have ne: "as_bytes s \<noteq> []" using False by simp
  from encrypt_bytes_decrypts [OF assms(1) ne] obtain e
    where e: "encrypt_bytes cr (as_bytes s) = Some e" by blast
  have "encrypt_str_or_original cr s ''00'' ENCRYPT_MAX_LEN = ''00'' @ e"
    using s e by (simp add: encrypt_str_or_original_def)
  then show ?thesis
    using decrypt_of_encrypted [OF assms(1) ne e, of "''00''"] from_utf8_lossy_str [OF s(1)] False
    by (simp add: PASSWORD_ENC_VERSION_def)
qed (simp add: PASSWORD_ENC_VERSION_def)

subsection \<open>Trusted devices, as a reader sees them\<close>

lemma set_trusted_cached:
  assumes "length (to_json js (filter (\<lambda>d. \<not> outdate now d) ds)) \<le> 1024 * 1024"
  shows "TRUSTED_DEVICES (set_trusted_devices cr js now ds a) = (filter (\<lambda>d. \<not> outdate now d) ds, True)"
  using assms by (simp add: set_trusted_devices_def Let_def)

lemma get_trusted_cached:
  "snd (TRUSTED_DEVICES a) \<Longrightarrow> get_trusted_devices cr js now a = (fst (TRUSTED_DEVICES a), a)"
  by (simp add: get_trusted_devices_def)

subsection \<open>Properties\<close>

text \<open>C39. What \<^verbatim>\<open>Config::store\<close> writes, \<^verbatim>\<open>Config::load\<close> reads back: the password and the identifier
  are decrypted to what they were, nothing else changes but the encrypted copy of the
  identifier, no new identifier is made and the file is not written again.\<close>

theorem config_store_load:
  assumes "crypto_laws cr" and "storable cr (cf_password c)" and "storable cr (cf_id c)"
    and "cf_id c \<noteq> ''''" and "\<not> readonly (files a)"
  shows "config_load cr mac (config_store cr c a) =
    (c\<lparr>enc_id := encrypt_str_or_original cr (cf_id c) PASSWORD_ENC_VERSION ENCRYPT_MAX_LEN\<rparr>,
     config_store cr c a)"
proof -
  have "load_config_file (config_store cr c a) = config_stored cr c"
    using assms(5) by (simp add: load_config_file_def config_store_def store_file_def)
  then show ?thesis
    using stored_reads_back [OF assms(1,2)] stored_reads_back [OF assms(1,3)] assms(4)
    by (simp add: config_load_def config_stored_def Let_def)
qed

definition demo_config :: config where
  "demo_config = config_default\<lparr>cf_id := ''123'', cf_password := ''pw''\<rparr>"

lemma demo_storable: "storable demo_crypto ''123''" "storable demo_crypto ''pw''"
  by (auto simp: storable_def decrypt_str_or_original_def VERSION_LEN_def ENCRYPT_MAX_LEN_def
      intro!: ascii_valid order_trans [OF chars_count_le])

theorem config_store_load_witness:
  "cf_password (fst (config_load demo_crypto None (config_store demo_crypto demo_config demo_app))) = ''pw''"
proof -
  have "config_load demo_crypto None (config_store demo_crypto demo_config demo_app) =
    (demo_config\<lparr>enc_id := encrypt_str_or_original demo_crypto (cf_id demo_config)
       PASSWORD_ENC_VERSION ENCRYPT_MAX_LEN\<rparr>, config_store demo_crypto demo_config demo_app)"
    by (rule config_store_load [OF demo_crypto_laws])
      (use demo_storable in \<open>simp_all add: demo_config_def demo_app_def\<close>)
  then show ?thesis by (simp add: demo_config_def)
qed

text \<open>The same for \<^verbatim>\<open>Config2\<close>: the proxy's password and the unlock pin survive, everything else is
  unchanged, and nothing is written again.\<close>

theorem config2_store_load:
  assumes "crypto_laws cr" and "storable cr (unlock_pin c)"
    and "\<forall>s. socks c = Some s \<longrightarrow> storable cr (sk_password s)" and "\<not> readonly (files a)"
  shows "config2_load cr (config2_store cr c a) = (c, config2_store cr c a)"
proof -
  have l: "load_config2_file (config2_store cr c a) = config2_stored cr c"
    using assms(4) by (simp add: load_config2_file_def config2_store_def store_file_def)
  show ?thesis
  proof (cases "socks c")
    case None
    then show ?thesis using l stored_reads_back [OF assms(1,2)]
      by (simp add: config2_load_def config2_stored_def encrypt_socks_def Let_def)
  next
    case (Some s)
    then have "storable cr (sk_password s)" using assms(3) by blast
    then show ?thesis using l Some stored_reads_back [OF assms(1,2)] stored_reads_back [OF assms(1)]
      by (simp add: config2_load_def config2_stored_def encrypt_socks_def Let_def)
  qed
qed

theorem config2_store_load_witness:
  "config2_load demo_crypto (config2_store demo_crypto (config2_default\<lparr>unlock_pin := ''123''\<rparr>) demo_app) =
     (config2_default\<lparr>unlock_pin := ''123''\<rparr>,
      config2_store demo_crypto (config2_default\<lparr>unlock_pin := ''123''\<rparr>) demo_app)"
  by (rule config2_store_load [OF demo_crypto_laws])
    (use demo_storable in \<open>simp_all add: config2_default_def demo_app_def\<close>)

text \<open>A key pair is made once: the second call returns the pair of the first and starts no writer,
  whatever pair a new generation would give, and when the writer has run, the stored file
  holds the pair.\<close>

theorem key_pair_generated_once:
  assumes "get_key_pair gen a = (kp, spawned, a')" and "\<not> readonly (files a)"
  shows "get_key_pair gen' a' = (kp, None, a') \<and>
    (case spawned of
       None \<Rightarrow> key_pair (load_config_file a) = kp \<or> KEY_PAIR a = Some kp
     | Some p \<Rightarrow> p = kp \<and> key_pair (load_config_file (key_pair_thread cr p a')) = kp)"
proof -
  have f: "files a' = files a" and k: "KEY_PAIR a' = Some kp"
    using assms(1) by (auto simp: get_key_pair_def Let_def split: option.splits if_splits)
  have again: "get_key_pair gen' a' = (kp, None, a')" by (simp add: get_key_pair_def k)
  have "\<not> readonly (files a')" using assms(2) f by simp
  then have w: "key_pair (load_config_file (key_pair_thread cr p a')) = p" for p
    by (simp add: key_pair_thread_def load_config_file_def config_stored_def)
  have "case spawned of None \<Rightarrow> key_pair (load_config_file a) = kp \<or> KEY_PAIR a = Some kp
      | Some p \<Rightarrow> p = kp"
    using assms(1) by (auto simp: get_key_pair_def Let_def split: option.splits if_splits)
  with again w show ?thesis by (auto split: option.splits)
qed

theorem key_pair_generated_once_witness:
  "get_key_pair ([9], [8]) (snd (snd (get_key_pair ([1], [2]) demo_app))) =
     (([1], [2]), None, snd (snd (get_key_pair ([1], [2]) demo_app)))"
proof -
  have "get_key_pair ([1], [2]) demo_app =
      (([1], [2]), Some ([1], [2]), snd (snd (get_key_pair ([1], [2]) demo_app)))"
    by (simp add: get_key_pair_def demo_app_def load_config_file_def config_default_def)
  from key_pair_generated_once [OF this, of "([9], [8])" demo_crypto] show ?thesis
    by (simp add: demo_app_def)
qed

text \<open>The salt and the identifier are stable: once one has been given out, asking again gives the
  same and changes nothing, whatever the random generator.\<close>

theorem salt_and_id_stable:
  "(let (s, a1) = get_salt cr rng a in s \<noteq> '''' \<and> get_salt cr rng' a1 = (s, a1)) \<and>
   (let (i, a1) = get_id cr mac a in get_id cr mac a1 = (i, a1))"
proof -
  have "length (get_auto_password rng 6) = 6" by (simp add: get_auto_password_def)
  then have "get_auto_password rng 6 \<noteq> ''''" by auto
  moreover have "get_auto_id mac = Some i \<Longrightarrow> i \<noteq> ''''" for i
    using dec_string_props by (auto simp: get_auto_id_def)
  ultimately show ?thesis
    by (auto simp: get_salt_def set_salt_def get_id_def set_id_def Let_def split: option.splits)
qed

text \<open>Changing the permanent password forgets every trusted device, in memory and in the stored
  configuration, and the new password is the one in force.\<close>

theorem password_change_clears_devices:
  assumes "fmlookup (HARD_SETTINGS a) ''password'' \<noteq> Some password"
    and "password \<noteq> cf_password (CONFIG a)" and "password \<noteq> ''''"
    and "length (to_json js []) \<le> 1024 * 1024"
  shows "get_permanent_password (set_permanent_password cr js now password a) = password \<and>
    fst (get_trusted_devices cr js now' (set_permanent_password cr js now password a)) = [] \<and>
    trusted_devices (CONFIG2 (set_permanent_password cr js now password a)) =
      encrypt_str_or_original cr (to_json js []) PASSWORD_ENC_VERSION (1024 * 1024)"
  using assms
  by (simp add: set_permanent_password_def clear_trusted_devices_def get_trusted_devices_def
      set_trusted_devices_def Let_def get_permanent_password_def)

definition demo_json :: json where
  "demo_json = \<lparr>to_json = (\<lambda>ds. ''[]''), from_json = (\<lambda>s. Some [])\<rparr>"

theorem password_change_clears_devices_witness:
  "get_permanent_password (set_permanent_password demo_crypto demo_json 0 ''pw'' demo_app) = ''pw''"
  using password_change_clears_devices [of demo_app "''pw''" demo_json demo_crypto 0 0]
  by (simp add: demo_app_def config_default_def demo_json_def)

text \<open>Adding a trusted device makes it the last of the list, replaces an earlier entry of the same
  hardware and drops expired ones; removing devices leaves exactly the others.\<close>

theorem trusted_device_update:
  assumes "snd (TRUSTED_DEVICES a)" and "ds = fst (TRUSTED_DEVICES a)" and "\<not> outdate now d"
    and "\<forall>xs. length (to_json js xs) \<le> 1024 * 1024"
  shows "fst (get_trusted_devices cr js now (add_trusted_device cr js now d a)) =
      filter (\<lambda>x. hwid x \<noteq> hwid d \<and> \<not> outdate now x) ds @ [d] \<and>
    fst (get_trusted_devices cr js now (remove_trusted_devices cr js now hs a)) =
      filter (\<lambda>x. hwid x \<notin> set hs \<and> \<not> outdate now x) ds"
  using assms
  by (simp add: add_trusted_device_def remove_trusted_devices_def get_trusted_cached
      set_trusted_cached conj_commute)

definition demo_device :: "u8 \<Rightarrow> int \<Rightarrow> trusted_device" where
  "demo_device h t = \<lparr>hwid = [h], td_time = t, td_id = '''', td_name = '''', td_platform = ''''\<rparr>"

theorem trusted_device_update_witness:
  "fst (get_trusted_devices demo_crypto demo_json 10 (add_trusted_device demo_crypto demo_json 10
     (demo_device 1 5) (demo_app\<lparr>TRUSTED_DEVICES := ([demo_device 1 2, demo_device 2 3], True)\<rparr>))) =
   [demo_device 2 3, demo_device 1 5]"
  using trusted_device_update [of "demo_app\<lparr>TRUSTED_DEVICES := ([demo_device 1 2, demo_device 2 3], True)\<rparr>"
      "[demo_device 1 2, demo_device 2 3]" 10 "demo_device 1 5" demo_json demo_crypto "[]"]
  by (simp add: demo_json_def outdate_def demo_device_def)

text \<open>Expiry is only checked when the list is loaded or changed: a device that expires while the
  list is cached stays trusted, however much time passes.\<close>

theorem cached_devices_never_expire:
  assumes "snd (TRUSTED_DEVICES a)"
  shows "fst (get_trusted_devices cr js now a) = fst (TRUSTED_DEVICES a)"
  using assms by (simp add: get_trusted_devices_def)

theorem cached_devices_never_expire_witness:
  "fst (get_trusted_devices demo_crypto demo_json (10 ^ 15)
     (demo_app\<lparr>TRUSTED_DEVICES := ([demo_device 1 0], True)\<rparr>)) = [demo_device 1 0] \<and>
   outdate (10 ^ 15) (demo_device 1 0)"
  using cached_devices_never_expire [of "demo_app\<lparr>TRUSTED_DEVICES := ([demo_device 1 0], True)\<rparr>"
      demo_crypto demo_json "10 ^ 15"]
  by (simp add: outdate_def demo_device_def)

end
