(* ===== verification/FileStore.thy ===== *)
theory FileStore
  imports Text
begin

text \<open>
  The file system as \<^verbatim>\<open>libs/hbb_common/src/fs.rs\<close> uses it: paths joined as
  \<^verbatim>\<open>std::path::Path\<close> joins them, names that point to inodes (so an open file keeps its
  inode when the name is changed), and the calls the code makes. What the system decides is
  data of the state: how many bytes a read returns, where creating is refused, how much
  space is left. Two paths denote the same file only if they are the same string.
\<close>

subsection \<open>Paths\<close>

text \<open>\<^verbatim>\<open>Path::join\<close> on Unix.\<close>

definition path_join :: "string \<Rightarrow> string \<Rightarrow> string" where
  "path_join base name =
     (if starts_with name ''/'' then name
      else if base = '''' then name
      else if last base = CHR ''/'' then base @ name
      else base @ ''/'' @ name)"

text \<open>\<^verbatim>\<open>Path::parent\<close>; trailing separators and \<^verbatim>\<open>.\<close> components do not count.\<close>

fun trim_rev :: "string \<Rightarrow> string" where
  "trim_rev (c # r) =
     (if c = CHR ''/'' then trim_rev r
      else if c = CHR ''.'' then (case r of d # r' \<Rightarrow> if d = CHR ''/'' then trim_rev r else c # r
                                          | [] \<Rightarrow> c # r)
      else c # r)"
| "trim_rev [] = []"

definition path_parent :: "string \<Rightarrow> string option" where
  "path_parent p =
     (let r = trim_rev (rev p)
      in if r = [] then None
         else let d = dropWhile (\<lambda>c. c \<noteq> CHR ''/'') r
              in if d = [] then Some ''''
                 else let t = trim_rev d in Some (if t = [] then ''/'' else rev t))"

lemma path_parent_examples:
  "path_parent ''/home/u/a.txt'' = Some ''/home/u'' \<and> path_parent ''/a'' = Some ''/'' \<and>
   path_parent ''a/b/'' = Some ''a'' \<and> path_parent ''a'' = Some '''' \<and> path_parent ''/'' = None"
  by (simp add: path_parent_def Let_def)

lemma path_join_absolute: "starts_with name ''/'' \<Longrightarrow> path_join base name = name"
  by (simp add: path_join_def)

lemma path_join_inj:
  assumes "path_join base a = path_join base b"
    and "\<not> starts_with a ''/''" and "\<not> starts_with b ''/''"
  shows "a = b"
  using assms by (auto simp: path_join_def split: if_splits)

subsection \<open>State\<close>

record inode_data =
  content :: bytes
  mtime :: int

text \<open>
  \<open>mtime\<close> is in nanoseconds since the epoch; \<open>grant i pos\<close> is the number of bytes the
  system hands out at once at that position of an inode, \<open>None\<close> an error. \<open>sync_fails i\<close> says that what
  was written to an inode cannot be brought to the disk.
\<close>

record fsys =
  names :: "string \<Rightarrow> nat option"
  inodes :: "nat \<Rightarrow> inode_data"
  next_ino :: nat
  dirs :: "string list"
  grant :: "nat \<Rightarrow> nat \<Rightarrow> nat option"
  deny :: "string \<Rightarrow> bool"
  sync_fails :: "nat \<Rightarrow> bool"
  room :: nat
  now :: int

type_synonym handle = "nat \<times> nat"

datatype io_error =
  Open_failed | Read_failed | Write_failed | Create_failed | Time_failed | Send_failed
| Wrong_id | Wrong_file_number | Not_exists | No_file | No_parent | Rename_failed | Sync_failed

definition content_at :: "fsys \<Rightarrow> string \<Rightarrow> bytes option" where
  "content_at fs p = map_option (\<lambda>i. content (inodes fs i)) (names fs p)"

definition mtime_at :: "fsys \<Rightarrow> string \<Rightarrow> int option" where
  "mtime_at fs p = map_option (\<lambda>i. mtime (inodes fs i)) (names fs p)"

subsection \<open>Calls\<close>

definition os_open :: "fsys \<Rightarrow> string \<Rightarrow> io_error + handle" where
  "os_open fs p = (case names fs p of
       None \<Rightarrow> Inl Open_failed
     | Some i \<Rightarrow> if deny fs p then Inl Open_failed else Inr (i, 0))"

text \<open>\<^verbatim>\<open>File::create\<close> truncates an existing file in place.\<close>

definition os_create :: "string \<Rightarrow> fsys \<Rightarrow> io_error + (handle \<times> fsys)" where
  "os_create p fs =
     (if deny fs p then Inl Create_failed
      else case names fs p of
        Some i \<Rightarrow> Inr ((i, 0), fs\<lparr>inodes := (inodes fs)(i := \<lparr>content = [], mtime = now fs\<rparr>)\<rparr>)
      | None \<Rightarrow> Inr ((next_ino fs, 0),
           fs\<lparr>names := (names fs)(p \<mapsto> next_ino fs),
              inodes := (inodes fs)(next_ino fs := \<lparr>content = [], mtime = now fs\<rparr>),
              next_ino := Suc (next_ino fs)\<rparr>))"

text \<open>One \<^verbatim>\<open>read\<close> into a buffer with \<open>r\<close> free bytes.\<close>

definition os_read :: "fsys \<Rightarrow> handle \<Rightarrow> nat \<Rightarrow> io_error + bytes" where
  "os_read fs h r = (case h of (i, pos) \<Rightarrow> (case grant fs i pos of
       None \<Rightarrow> Inl Read_failed
     | Some g \<Rightarrow> Inr (take (min r (max 1 g)) (drop pos (content (inodes fs i))))))"

definition write_at :: "nat \<Rightarrow> bytes \<Rightarrow> bytes \<Rightarrow> bytes" where
  "write_at pos bs old =
     (let c = old @ replicate (pos - length old) 0
      in take pos c @ bs @ drop (pos + length bs) c)"

text \<open>\<^verbatim>\<open>write_all\<close>: without enough space a prefix is written and the call fails.\<close>

definition os_write_all :: "handle \<Rightarrow> bytes \<Rightarrow> fsys \<Rightarrow> (io_error + unit) \<times> handle \<times> fsys" where
  "os_write_all h bs fs = (case h of (i, pos) \<Rightarrow>
     let w = take (room fs) bs
     in (if length bs \<le> room fs then Inr () else Inl Write_failed,
         (i, pos + length w),
         fs\<lparr>inodes := (inodes fs)(i := \<lparr>content = write_at pos w (content (inodes fs i)), mtime = now fs\<rparr>),
            room := room fs - length w\<rparr>))"

definition os_sync_all :: "handle \<Rightarrow> fsys \<Rightarrow> io_error + unit" where
  "os_sync_all h fs = (if sync_fails fs (fst h) then Inl Sync_failed else Inr ())"

definition os_rename :: "string \<Rightarrow> string \<Rightarrow> fsys \<Rightarrow> (io_error + unit) \<times> fsys" where
  "os_rename a b fs = (case names fs a of
       None \<Rightarrow> (Inl Rename_failed, fs)
     | Some i \<Rightarrow> if deny fs b \<or> b \<in> set (dirs fs) then (Inl Rename_failed, fs)
                else (Inr (), fs\<lparr>names := ((names fs)(a := None))(b \<mapsto> i)\<rparr>))"

definition os_remove :: "string \<Rightarrow> fsys \<Rightarrow> (io_error + unit) \<times> fsys" where
  "os_remove p fs = (case names fs p of
       None \<Rightarrow> (Inl Not_exists, fs)
     | Some i \<Rightarrow> if deny fs p then (Inl Not_exists, fs) else (Inr (), fs\<lparr>names := (names fs)(p := None)\<rparr>))"

definition os_set_mtime :: "string \<Rightarrow> int \<Rightarrow> fsys \<Rightarrow> fsys" where
  "os_set_mtime p t fs = (case names fs p of
       None \<Rightarrow> fs
     | Some i \<Rightarrow> fs\<lparr>inodes := (inodes fs)(i := (inodes fs i)\<lparr>mtime := t\<rparr>)\<rparr>)"

definition os_create_dir_all :: "string \<Rightarrow> fsys \<Rightarrow> fsys" where
  "os_create_dir_all p fs =
     (if deny fs p \<or> names fs p \<noteq> None \<or> p \<in> set (dirs fs) then fs else fs\<lparr>dirs := p # dirs fs\<rparr>)"

subsection \<open>Facts\<close>

text \<open>No two names share an inode, and new inodes are new.\<close>

definition fs_ok :: "fsys \<Rightarrow> bool" where
  "fs_ok fs \<longleftrightarrow> (\<forall>p i. names fs p = Some i \<longrightarrow> i < next_ino fs) \<and>
     (\<forall>p q i. names fs p = Some i \<longrightarrow> names fs q = Some i \<longrightarrow> p = q)"

lemma fs_ok_lt: "fs_ok fs \<Longrightarrow> names fs p = Some i \<Longrightarrow> i < next_ino fs"
  by (auto simp: fs_ok_def)

lemma fs_ok_inj: "fs_ok fs \<Longrightarrow> names fs p = Some i \<Longrightarrow> names fs q = Some i \<Longrightarrow> p = q"
  by (auto simp: fs_ok_def)

lemma fs_ok_create: "fs_ok fs \<Longrightarrow> os_create p fs = Inr (h, fs') \<Longrightarrow> fs_ok fs'"
  by (fastforce simp: fs_ok_def os_create_def less_Suc_eq split: if_splits option.splits)

lemma fs_ok_write: "fs_ok fs \<Longrightarrow> os_write_all h bs fs = (r, h', fs') \<Longrightarrow> fs_ok fs'"
  by (auto simp: fs_ok_def os_write_all_def Let_def split: prod.splits)

lemma fs_ok_rename: "fs_ok fs \<Longrightarrow> fs_ok (snd (os_rename a b fs))"
  by (auto simp: fs_ok_def os_rename_def split: option.splits)

lemma fs_ok_remove: "fs_ok fs \<Longrightarrow> fs_ok (snd (os_remove p fs))"
  by (auto simp: fs_ok_def os_remove_def split: option.splits)

lemma fs_ok_set_mtime: "fs_ok fs \<Longrightarrow> fs_ok (os_set_mtime p t fs)"
  by (auto simp: fs_ok_def os_set_mtime_def split: option.splits)

lemma fs_ok_create_dir_all: "fs_ok fs \<Longrightarrow> fs_ok (os_create_dir_all p fs)"
  by (auto simp: fs_ok_def os_create_dir_all_def)

lemmas fs_ok_intros =
  fs_ok_create fs_ok_write fs_ok_rename fs_ok_remove fs_ok_set_mtime fs_ok_create_dir_all

lemma os_read_le: "os_read fs h r = Inr bs \<Longrightarrow> length bs \<le> r"
  by (auto simp: os_read_def split: prod.splits option.splits)

lemma write_at_end: "write_at (length old) bs old = old @ bs"
  by (simp add: write_at_def Let_def)

end
