(* ===== verification/FileJobs.thy ===== *)
theory FileJobs
  imports FileStore
begin

text \<open>
  File transfer jobs, \<^verbatim>\<open>libs/hbb_common/src/fs.rs\<close>: the job record, reading blocks on the
  sending side, writing them on the receiving side, the confirmation of files that exist,
  and \<^verbatim>\<open>handle_read_jobs\<close>. Compression (\<^verbatim>\<open>zstd\<close>) is a parameter of the definitions.
\<close>

subsection \<open>Data\<close>

datatype file_type = Dir | Dir_link | Dir_drive | File | File_link

record file_entry =
  entry_type :: file_type
  ent_name :: string
  ent_hidden :: bool
  ent_size :: u64
  ent_modified :: u64

record file_block =
  blk_job :: i32
  blk_file_num :: i32
  blk_data :: bytes
  blk_compressed :: bool

record file_digest =
  dig_id :: i32
  dig_file_num :: i32
  dig_modified :: u64
  dig_size :: u64
  dig_identical :: bool

datatype confirm_choice = Skip bool | Offset_blk u32

record send_confirm =
  sc_id :: i32
  sc_file_num :: i32
  sc_union :: "confirm_choice option"

datatype transfer_msg =
  Resp_error i32 "io_error + string" i32
| Resp_dir i32 string "file_entry list"
| Resp_block file_block
| Resp_digest file_digest
| Resp_done i32 i32
| Act_send_confirm send_confirm
| Act_receive i32 string i32 "file_entry list" u64
| Act_send i32 string i32 bool

record transfer_job =
  job_id :: i32
  remote :: string
  path :: string
  show_hidden :: bool
  is_remote :: bool
  is_last_job :: bool
  file_num :: i32
  files :: "file_entry list"
  conn_id :: i32
  handle_opt :: "handle option"
  total_size :: u64
  finished_size :: u64
  transferred :: u64
  enable_overwrite_detection :: bool
  file_confirmed :: bool
  file_skipped :: bool
  file_is_waiting :: bool
  default_overwrite_strategy :: "bool option"

text \<open>The stream a job sends on; a closed stream fails every send.\<close>

record ostream =
  sent :: "transfer_msg list"
  alive :: bool

definition stream_send :: "transfer_msg \<Rightarrow> ostream \<Rightarrow> io_error + ostream" where
  "stream_send m st = (if alive st then Inr (st\<lparr>sent := sent st @ [m]\<rparr>) else Inl Send_failed)"

subsection \<open>Names\<close>

definition get_ext :: "string \<Rightarrow> string" where
  "get_ext name = (if CHR ''.'' \<in> set name then rev (takeWhile (\<lambda>c. c \<noteq> CHR ''.'') (rev name)) else '''')"

definition is_compressed_file :: "string \<Rightarrow> bool" where
  "is_compressed_file name \<longleftrightarrow>
     get_ext name \<in> set [''xz'', ''gz'', ''zip'', ''7z'', ''rar'', ''bz2'', ''tgz'', ''png'', ''jpg'']"

definition transform_windows_path :: "file_entry list \<Rightarrow> file_entry list" where
  "transform_windows_path =
     map (\<lambda>e. e\<lparr>ent_name := map (\<lambda>c. if c = CHR 0x5C then CHR ''/'' else c) (ent_name e)\<rparr>)"

subsection \<open>Jobs\<close>

text \<open>\<^verbatim>\<open>TransferJob::default()\<close>.\<close>

definition job_default :: transfer_job where
  "job_default =
     \<lparr>job_id = 0, remote = '''', path = '''', show_hidden = False, is_remote = False,
      is_last_job = False, file_num = 0, files = [], conn_id = 0, handle_opt = None,
      total_size = 0, finished_size = 0, transferred = 0, enable_overwrite_detection = False,
      file_confirmed = False, file_skipped = False, file_is_waiting = False,
      default_overwrite_strategy = None\<rparr>"

definition sum_sizes :: "file_entry list \<Rightarrow> u64" where
  "sum_sizes es = sum_list (map ent_size es)"

definition new_write ::
    "i32 \<Rightarrow> string \<Rightarrow> string \<Rightarrow> i32 \<Rightarrow> bool \<Rightarrow> bool \<Rightarrow> file_entry list \<Rightarrow> bool \<Rightarrow> transfer_job" where
  "new_write i rem p n hid isrem es detect =
     job_default\<lparr>job_id := i, remote := rem, path := p, file_num := n, show_hidden := hid,
       is_remote := isrem, files := es, total_size := sum_sizes es,
       enable_overwrite_detection := detect\<rparr>"

text \<open>\<^verbatim>\<open>new_read\<close>, over the result of \<^verbatim>\<open>get_recursive_files\<close>.\<close>

definition new_read ::
    "i32 \<Rightarrow> string \<Rightarrow> string \<Rightarrow> i32 \<Rightarrow> bool \<Rightarrow> bool \<Rightarrow> (io_error + file_entry list) \<Rightarrow> bool
      \<Rightarrow> io_error + transfer_job" where
  "new_read i rem p n hid isrem listing detect =
     rbind listing (\<lambda>es. Inr (job_default\<lparr>job_id := i, remote := rem, path := p, file_num := n,
       show_hidden := hid, is_remote := isrem, files := es, total_size := sum_sizes es,
       enable_overwrite_detection := detect\<rparr>))"

text \<open>\<^verbatim>\<open>file_num as usize\<close>: sign-extended, so a negative number is beyond every list.\<close>

definition idx :: "i32 \<Rightarrow> nat" where
  "idx n = unat (scast n :: usize)"

definition join :: "transfer_job \<Rightarrow> string \<Rightarrow> string" where
  "join j name = (if name = '''' then path j else path_join (path j) name)"

definition dest_path :: "transfer_job \<Rightarrow> nat \<Rightarrow> string" where
  "dest_path j n = join j (ent_name (files j ! n))"

definition download_path :: "transfer_job \<Rightarrow> nat \<Rightarrow> string" where
  "download_path j n = dest_path j n @ ''.download''"

definition modify_time :: "transfer_job \<Rightarrow> fsys \<Rightarrow> fsys" where
  "modify_time j fs =
     (let n = idx (file_num j)
      in if n < length (files j)
         then os_set_mtime (dest_path j n) (sint (ent_modified (files j ! n)) * 10 ^ 9)
                (snd (os_rename (download_path j n) (dest_path j n) fs))
         else fs)"

definition remove_download_file :: "transfer_job \<Rightarrow> fsys \<Rightarrow> fsys" where
  "remove_download_file j fs =
     (let n = idx (file_num j)
      in if n < length (files j) then snd (os_remove (download_path j n) fs) else fs)"

definition set_overwrite_strategy :: "bool option \<Rightarrow> transfer_job \<Rightarrow> transfer_job" where
  "set_overwrite_strategy s j = j\<lparr>default_overwrite_strategy := s\<rparr>"

definition set_file_confirmed :: "bool \<Rightarrow> transfer_job \<Rightarrow> transfer_job" where
  "set_file_confirmed b j = j\<lparr>file_confirmed := b, file_skipped := False\<rparr>"

definition set_file_is_waiting :: "bool \<Rightarrow> transfer_job \<Rightarrow> transfer_job" where
  "set_file_is_waiting b j = j\<lparr>file_is_waiting := b\<rparr>"

definition job_skipped :: "transfer_job \<Rightarrow> bool" where
  "job_skipped j \<longleftrightarrow> file_skipped j \<and> length (files j) = 1"

definition job_completed :: "transfer_job \<Rightarrow> bool" where
  "job_completed j \<longleftrightarrow>
     \<not> enable_overwrite_detection j \<or> (\<not> file_confirmed j \<and> \<not> file_is_waiting j)"

definition job_error :: "transfer_job \<Rightarrow> string option" where
  "job_error j = (if job_skipped j then Some ''skipped'' else None)"

definition set_file_skipped :: "transfer_job \<Rightarrow> transfer_job" where
  "set_file_skipped j =
     (let j1 = set_file_is_waiting False (set_file_confirmed False (j\<lparr>handle_opt := None\<rparr>))
      in j1\<lparr>file_num := file_num j1 + 1, file_skipped := True\<rparr>)"

definition confirm :: "send_confirm \<Rightarrow> transfer_job \<Rightarrow> transfer_job" where
  "confirm r j =
     (if file_num j \<noteq> sc_file_num r then j
      else case sc_union r of
             Some (Skip s) \<Rightarrow> if s then set_file_skipped j else set_file_confirmed True j
           | Some (Offset_blk _) \<Rightarrow> set_file_confirmed True j
           | None \<Rightarrow> j)"

record job_meta =
  meta_id :: i32
  meta_remote :: string
  meta_to :: string
  meta_show_hidden :: bool
  meta_file_num :: i32
  meta_is_remote :: bool

definition gen_meta :: "transfer_job \<Rightarrow> job_meta" where
  "gen_meta j = \<lparr>meta_id = job_id j, meta_remote = remote j, meta_to = path j,
     meta_show_hidden = show_hidden j, meta_file_num = file_num j, meta_is_remote = is_remote j\<rparr>"


subsection \<open>Sending\<close>

text \<open>The constructors of messages.\<close>

definition new_error :: "i32 \<Rightarrow> io_error + string \<Rightarrow> i32 \<Rightarrow> transfer_msg" where
  [simp]: "new_error i err n = Resp_error i err n"

definition new_dir :: "i32 \<Rightarrow> string \<Rightarrow> file_entry list \<Rightarrow> transfer_msg" where
  "new_dir i p es = Resp_dir i p es"

definition new_block :: "file_block \<Rightarrow> transfer_msg" where
  [simp]: "new_block b = Resp_block b"

definition new_send_confirm :: "send_confirm \<Rightarrow> transfer_msg" where
  "new_send_confirm r = Act_send_confirm r"

definition new_receive :: "i32 \<Rightarrow> string \<Rightarrow> i32 \<Rightarrow> file_entry list \<Rightarrow> u64 \<Rightarrow> transfer_msg" where
  "new_receive i p n es sz = Act_receive i p n es sz"

definition new_send :: "i32 \<Rightarrow> string \<Rightarrow> i32 \<Rightarrow> bool \<Rightarrow> transfer_msg" where
  "new_send i p n hid = Act_send i p n hid"

definition new_done :: "i32 \<Rightarrow> i32 \<Rightarrow> transfer_msg" where
  [simp]: "new_done i n = Resp_done i n"

text \<open>\<^verbatim>\<open>BUF_SIZE\<close>, and the loop that fills the buffer until it is full or the file ends.\<close>

definition buf_size :: nat where "buf_size = 128 * 1024"

function fill :: "fsys \<Rightarrow> handle \<Rightarrow> nat \<Rightarrow> bytes \<Rightarrow> io_error + (bytes \<times> handle)" where
  "fill fs h r acc = (case os_read fs h r of
       Inl e \<Rightarrow> Inl e
     | Inr bs \<Rightarrow>
         let acc' = acc @ bs; h' = (fst h, snd h + length bs)
         in if bs = [] \<or> length bs = r then Inr (acc', h')
            else fill fs h' (r - length bs) acc')"
  by pat_completeness auto
termination
proof (relation "measure (\<lambda>(fs, h, r, acc). r)")
  show "wf (measure (\<lambda>(fs, h, r, acc). r))" by simp
next
  fix fs :: fsys and h r acc x2 xa and xb :: handle
  assume "os_read fs h r = Inr x2" and "\<not> (x2 = [] \<or> length x2 = r)"
  then show "((fs, xb, r - length x2, xa), fs, h, r, acc) \<in> measure (\<lambda>(fs, h, r, acc). r)"
    using os_read_le [of fs h r x2] by (cases x2) auto
qed

declare fill.simps [simp del]

text \<open>The reset that follows the end of a file and every failure to open or read one.\<close>

definition next_file :: "transfer_job \<Rightarrow> transfer_job" where
  "next_file j = j\<lparr>file_num := file_num j + 1, handle_opt := None, file_confirmed := False,
     file_is_waiting := False\<rparr>"

text \<open>Modification times before the epoch are errors (\<^verbatim>\<open>duration_since\<close>).\<close>

definition send_current_digest :: "fsys \<Rightarrow> transfer_job \<Rightarrow> ostream \<Rightarrow> io_error + ostream" where
  "send_current_digest fs j st = (case handle_opt j of
       None \<Rightarrow> Inl No_file
     | Some (i, pos) \<Rightarrow>
         if mtime (inodes fs i) < 0 then Inl Time_failed
         else stream_send (Resp_digest
                \<lparr>dig_id = job_id j, dig_file_num = file_num j,
                 dig_modified = word_of_int (mtime (inodes fs i) div 10 ^ 9),
                 dig_size = word_of_nat (length (content (inodes fs i))),
                 dig_identical = False\<rparr>) st)"

text \<open>What is sent for a non-empty buffer: compressed if that makes it shorter.\<close>

definition encode_block :: "(bytes \<Rightarrow> bytes) \<Rightarrow> string \<Rightarrow> bytes \<Rightarrow> bytes \<times> bool" where
  "encode_block zc name buf =
     (if \<not> is_compressed_file name
      then let tmp = zc buf in if length tmp < length buf then (tmp, True) else (buf, False)
      else (buf, False))"

definition read_block ::
    "(bytes \<Rightarrow> bytes) \<Rightarrow> fsys \<Rightarrow> transfer_job \<Rightarrow> (io_error + file_block option) \<times> transfer_job" where
  "read_block zc fs j =
     (let n = idx (file_num j); name = ent_name (files j ! n)
      in case handle_opt j of
           None \<Rightarrow> (Inl No_file, j)
         | Some h \<Rightarrow> (case fill fs h buf_size [] of
             Inl e \<Rightarrow> (Inl e, next_file j)
           | Inr (buf, h') \<Rightarrow>
               if buf = []
               then (Inr (Some \<lparr>blk_job = job_id j, blk_file_num = word_of_nat n, blk_data = [],
                                blk_compressed = False\<rparr>), next_file j)
               else case encode_block zc name buf of (data, compressed) \<Rightarrow>
                    (Inr (Some \<lparr>blk_job = job_id j, blk_file_num = word_of_nat n, blk_data = data,
                                blk_compressed = compressed\<rparr>),
                     j\<lparr>handle_opt := Some h',
                       finished_size := finished_size j + word_of_nat (length buf),
                       transferred := transferred j + word_of_nat (length data)\<rparr>)))"

definition job_read ::
    "(bytes \<Rightarrow> bytes) \<Rightarrow> fsys \<Rightarrow> transfer_job \<Rightarrow> ostream
      \<Rightarrow> (io_error + file_block option) \<times> transfer_job \<times> ostream" where
  "job_read zc fs j st =
     (if length (files j) \<le> idx (file_num j) then (Inr None, j\<lparr>handle_opt := None\<rparr>, st)
      else case (case handle_opt j of
                   Some h \<Rightarrow> Inr j
                 | None \<Rightarrow> (case os_open fs (dest_path j (idx (file_num j))) of
                       Inr h \<Rightarrow> Inr (j\<lparr>handle_opt := Some h, file_confirmed := False,
                                       file_is_waiting := False\<rparr>)
                     | Inl e \<Rightarrow> Inl e)) of
        Inl e \<Rightarrow> (Inl e, next_file j, st)
      | Inr j1 \<Rightarrow>
          if enable_overwrite_detection j1 \<and> \<not> file_confirmed j1
          then if \<not> file_is_waiting j1
               then case send_current_digest fs j1 st of
                      Inl e \<Rightarrow> (Inl e, j1, st)
                    | Inr st' \<Rightarrow> (Inr None, set_file_is_waiting True j1, st')
               else (Inr None, j1, st)
          else case read_block zc fs j1 of (r, j2) \<Rightarrow> (r, j2, st))"

subsection \<open>Receiving\<close>

text \<open>
  Opening the next file of the job: the previous one is published first and brought to the disk; if
  that fails, nothing else happens. The job moves to the new number before the file is created; when that
  fails the old handle stays.
\<close>

definition sync_open :: "transfer_job \<Rightarrow> fsys \<Rightarrow> io_error + unit" where
  "sync_open j fs = (case handle_opt j of Some h \<Rightarrow> os_sync_all h fs | None \<Rightarrow> Inr ())"

definition write_open :: "file_block \<Rightarrow> transfer_job \<Rightarrow> fsys \<Rightarrow> (io_error + unit) \<times> transfer_job \<times> fsys" where
  "write_open b j fs =
     (let n = idx (blk_file_num b);
          fs1 = modify_time j fs;
          j1 = j\<lparr>file_num := blk_file_num b\<rparr>;
          fs2 = (case path_parent (dest_path j1 n) of
                   None \<Rightarrow> fs1 | Some d \<Rightarrow> os_create_dir_all d fs1)
      in case sync_open j fs1 of
           Inl e \<Rightarrow> (Inl e, j, fs1)
         | Inr _ \<Rightarrow>
             (case os_create (download_path j1 n) fs2 of
                Inl e \<Rightarrow> (Inl e, j1, fs2)
              | Inr (h, fs3) \<Rightarrow> (Inr (), j1\<lparr>handle_opt := Some h\<rparr>, fs3)))"

definition write_data ::
    "(bytes \<Rightarrow> bytes) \<Rightarrow> file_block \<Rightarrow> transfer_job \<Rightarrow> fsys
      \<Rightarrow> (io_error + unit) \<times> transfer_job \<times> fsys" where
  "write_data zd b j fs =
     (let out = (if blk_compressed b then zd (blk_data b) else blk_data b)
      in case handle_opt j of
           None \<Rightarrow> (Inl No_file, j, fs)
         | Some h \<Rightarrow> (case os_write_all h out fs of
             (Inl e, h', fs') \<Rightarrow> (Inl e, j\<lparr>handle_opt := Some h'\<rparr>, fs')
           | (Inr _, h', fs') \<Rightarrow>
               (Inr (),
                j\<lparr>handle_opt := Some h',
                  finished_size := finished_size j + word_of_nat (length out),
                  transferred := transferred j + word_of_nat (length (blk_data b))\<rparr>, fs')))"

definition job_write ::
    "(bytes \<Rightarrow> bytes) \<Rightarrow> file_block \<Rightarrow> transfer_job \<Rightarrow> fsys
      \<Rightarrow> (io_error + unit) \<times> transfer_job \<times> fsys" where
  "job_write zd b j fs =
     (if blk_job b \<noteq> job_id j then (Inl Wrong_id, j, fs)
      else if length (files j) \<le> idx (blk_file_num b) then (Inl Wrong_file_number, j, fs)
      else case (if idx (blk_file_num b) \<noteq> idx (file_num j) \<or> handle_opt j = None
                 then write_open b j fs else (Inr (), j, fs)) of
             (Inl e, j1, fs1) \<Rightarrow> (Inl e, j1, fs1)
           | (Inr _, j1, fs1) \<Rightarrow> write_data zd b j1 fs1)"

subsection \<open>Job lists\<close>

definition remove_job :: "i32 \<Rightarrow> transfer_job list \<Rightarrow> transfer_job list" where
  "remove_job i js = filter (\<lambda>x. job_id x \<noteq> i) js"

definition get_job :: "i32 \<Rightarrow> transfer_job list \<Rightarrow> transfer_job option" where
  "get_job i js = find (\<lambda>x. job_id x = i) js"

text \<open>
  One pass over the jobs: the jobs as the pass leaves them, the finished ones with the last
  job that is logged (with the \<^verbatim>\<open>done\<close> flag and the error of the log entry), or the error
  of \<^verbatim>\<open>send\<close> that ended the pass.
\<close>

type_synonym job_log = "(transfer_job \<times> bool \<times> string) option"

definition read_outcome ::
    "(io_error + file_block option) \<Rightarrow> transfer_job \<Rightarrow> transfer_msg option \<times> i32 list \<times> job_log" where
  "read_outcome res j = (case res of
       Inl e \<Rightarrow> (Some (new_error (job_id j) (Inl e) (file_num j)), [], None)
     | Inr (Some b) \<Rightarrow> (Some (new_block b), [], None)
     | Inr None \<Rightarrow>
         if job_completed j
         then (case job_error j of
                 Some err \<Rightarrow> (Some (new_error (job_id j) (Inr err) (file_num j)), [job_id j],
                              Some (j, False, err))
               | None \<Rightarrow> (Some (new_done (job_id j) (file_num j)), [job_id j], Some (j, True, '''')))
         else (None, [], None))"

fun read_jobs_loop ::
    "(bytes \<Rightarrow> bytes) \<Rightarrow> fsys \<Rightarrow> transfer_job list \<Rightarrow> ostream
      \<Rightarrow> (io_error + (i32 list \<times> job_log)) \<times> transfer_job list \<times> ostream" where
  "read_jobs_loop zc fs [] st = (Inr ([], None), [], st)"
| "read_jobs_loop zc fs (j # js) st =
     (if is_last_job j
      then case read_jobs_loop zc fs js st of (r, js', st') \<Rightarrow> (r, j # js', st')
      else case job_read zc fs j st of (res, j1, st1) \<Rightarrow>
        (case read_outcome res j1 of (msg, fin, log) \<Rightarrow>
          (case (case msg of None \<Rightarrow> Inr st1 | Some m \<Rightarrow> stream_send m st1) of
             Inl e \<Rightarrow> (Inl e, j1 # js, st1)
           | Inr st2 \<Rightarrow> (case read_jobs_loop zc fs js st2 of (r, js', st') \<Rightarrow>
               (case r of
                  Inl e \<Rightarrow> Inl e
                | Inr (fin', log') \<Rightarrow> Inr (fin @ fin', if log' = None then log else log'),
                j1 # js', st')))))"

definition handle_read_jobs ::
    "(bytes \<Rightarrow> bytes) \<Rightarrow> fsys \<Rightarrow> transfer_job list \<Rightarrow> ostream
      \<Rightarrow> (io_error + job_log) \<times> transfer_job list \<times> ostream" where
  "handle_read_jobs zc fs js st =
     (case read_jobs_loop zc fs js st of
        (Inl e, js', st') \<Rightarrow> (Inl e, js', st')
      | (Inr (fin, log), js', st') \<Rightarrow> (Inr log, fold remove_job fin js', st'))"

subsection \<open>The receiver's question\<close>

datatype digest_check = Need_confirm file_digest | No_such_file

definition is_write_need_confirmation ::
    "fsys \<Rightarrow> string \<Rightarrow> file_digest \<Rightarrow> io_error + digest_check" where
  "is_write_need_confirmation fs p d = (case names fs p of
       None \<Rightarrow> Inr No_such_file
     | Some i \<Rightarrow>
         let t = mtime (inodes fs i); len = (word_of_nat (length (content (inodes fs i))) :: u64)
         in if t < 0 then Inl Time_failed
            else Inr (Need_confirm
              \<lparr>dig_id = dig_id d, dig_file_num = dig_file_num d,
               dig_modified = word_of_int (t div 10 ^ 9), dig_size = len,
               dig_identical = (uint (dig_modified d) * 10 ^ 9 = t \<and> dig_size d = len)\<rparr>))"

text \<open>\<^verbatim>\<open>rename_file\<close> of a file; renaming a directory is outside this state.\<close>

definition rename_file :: "string \<Rightarrow> string \<Rightarrow> fsys \<Rightarrow> (io_error + unit) \<times> fsys" where
  "rename_file p new_name fs =
     (if names fs p \<noteq> None
      then case path_parent p of
             None \<Rightarrow> (Inl No_parent, fs)
           | Some d \<Rightarrow> os_rename p (path_join d new_name) fs
      else (Inl Not_exists, fs))"

definition can_enable_overwrite_detection :: "(string \<Rightarrow> int) \<Rightarrow> int \<Rightarrow> bool" where
  "can_enable_overwrite_detection version_number v \<longleftrightarrow> version_number ''1.1.10'' \<le> v"

end
