(* ===== verification/JobFlow.thy ===== *)
theory JobFlow
  imports FileJobs
begin

text \<open>
  What a transfer job sends and what a receiving job makes of it. The sender's lemmas turn
  ticks of \<^verbatim>\<open>handle_read_jobs\<close> into the list of blocks of the job's files; the receiver's turn
  a list of blocks into published files.
\<close>

subsection \<open>File numbers\<close>

lemma idx_of_nat:
  assumes "n < 2 ^ 31"
  shows "idx (word_of_nat n) = n"
proof -
  have "(word_of_nat n :: i32) = word_of_int (int n)" by simp
  then have "sint (word_of_nat n :: i32) = int n" using assms
    by (simp only: sint_sbintrunc') (auto intro!: signed_take_bit_int_eq_self)
  then have "(scast (word_of_nat n :: i32) :: usize) = word_of_nat n"
    by (simp add: scast_eq)
  then show ?thesis using assms by (simp add: idx_def unat_of_nat)
qed

lemma word_of_idx: "word_of_nat (idx n) = n"
proof -
  have "(word_of_nat (idx n) :: i32) = ucast (scast n :: usize)" by (simp add: idx_def)
  also have "\<dots> = n" by (rule bit_word_eqI) (simp add: bit_ucast_iff bit_signed_iff)
  finally show ?thesis .
qed

lemma next_file_num: "file_num j = word_of_nat n \<Longrightarrow> file_num (next_file j) = word_of_nat (Suc n)"
  by (simp add: next_file_def add.commute)

subsection \<open>Filling a buffer\<close>

text \<open>However the system cuts its reads, a readable file fills the buffer from its content.\<close>

lemma fill_readable:
  assumes "\<forall>p. grant fs i p \<noteq> None"
  shows "fill fs (i, pos) r acc =
    (let bs = take r (drop pos (content (inodes fs i))) in Inr (acc @ bs, (i, pos + length bs)))"
proof (induction r arbitrary: pos acc rule: less_induct)
  case (less r)
  let ?X = "drop pos (content (inodes fs i))"
  obtain g where g: "grant fs i pos = Some g" using assms by auto
  define bs where "bs = take (min r (max 1 g)) ?X"
  have rd: "os_read fs (i, pos) r = Inr bs" by (simp add: os_read_def g bs_def)
  have le: "length bs \<le> r" by (simp add: bs_def)
  consider (stop) "bs = [] \<or> length bs = r" | (again) "bs \<noteq> []" "length bs < r"
    using le by fastforce
  then show ?case
  proof cases
    case stop
    then have "take r ?X = bs" by (auto simp: bs_def min_def max_def split: if_splits)
    with stop show ?thesis by (subst fill.simps) (simp add: rd Let_def)
  next
    case again
    have "bs = take (length bs) ?X" by (simp add: bs_def min_def)
    then have split: "take r ?X = bs @ take (r - length bs) (drop (pos + length bs) (content (inodes fs i)))"
      using take_add [of "length bs" "r - length bs" ?X] le by (simp add: add.commute)
    from again have "r - length bs < r" by (cases bs) auto
    from less.IH [OF this] again show ?thesis
      by (subst fill.simps) (simp add: rd Let_def split algebra_simps)
  qed
qed

subsection \<open>What a job sends\<close>

function chunks :: "bytes \<Rightarrow> bytes list" where
  "chunks c = (if c = [] then [] else take buf_size c # chunks (drop buf_size c))"
  by pat_completeness auto
termination by (relation "measure length") (auto simp: buf_size_def)

declare chunks.simps [simp del]

lemma chunks_Nil [simp]: "chunks [] = []" by (subst chunks.simps) simp

lemma chunks_step: "c \<noteq> [] \<Longrightarrow> chunks c = take buf_size c # chunks (drop buf_size c)"
  by (subst chunks.simps) simp

lemma concat_chunks [simp]: "concat (chunks c) = c"
  by (induction c rule: chunks.induct) (subst chunks.simps, simp)

lemma chunks_bound: "ch \<in> set (chunks c) \<Longrightarrow> ch \<noteq> [] \<and> length ch \<le> buf_size"
proof (induction c rule: chunks.induct)
  case (1 c)
  then show ?case by (subst (asm) (2) chunks.simps) (auto simp: buf_size_def split: if_splits)
qed

definition mk_block :: "i32 \<Rightarrow> nat \<Rightarrow> bytes \<times> bool \<Rightarrow> file_block" where
  "mk_block i n d = \<lparr>blk_job = i, blk_file_num = word_of_nat n, blk_data = fst d, blk_compressed = snd d\<rparr>"

definition file_blocks :: "(bytes \<Rightarrow> bytes) \<Rightarrow> i32 \<Rightarrow> nat \<Rightarrow> string \<Rightarrow> bytes \<Rightarrow> file_block list" where
  "file_blocks zc i n name c =
     map (\<lambda>ch. mk_block i n (encode_block zc name ch)) (chunks c) @ [mk_block i n ([], False)]"

fun job_blocks :: "(bytes \<Rightarrow> bytes) \<Rightarrow> i32 \<Rightarrow> nat \<Rightarrow> string list \<Rightarrow> bytes list \<Rightarrow> file_block list" where
  "job_blocks zc i n (nm # nms) (c # cs) = file_blocks zc i n nm c @ job_blocks zc i (Suc n) nms cs"
| "job_blocks zc i n _ _ = []"

text \<open>A source file that can be opened and read to its end.\<close>

definition reads_as :: "fsys \<Rightarrow> string \<Rightarrow> bytes \<Rightarrow> bool" where
  "reads_as fs p c \<longleftrightarrow> content_at fs p = Some c \<and> \<not> deny fs p \<and> (\<forall>i pos. grant fs i pos \<noteq> None)"

lemma reads_asE:
  assumes "reads_as fs p c"
  obtains i where "os_open fs p = Inr (i, 0)" and "content (inodes fs i) = c"
    and "\<forall>pos. grant fs i pos \<noteq> None"
proof -
  from assms obtain i where "names fs p = Some i" "content (inodes fs i) = c"
    by (auto simp: reads_as_def content_at_def)
  with assms show ?thesis by (intro that [of i]) (auto simp: reads_as_def os_open_def)
qed

text \<open>Repeated calls of \<^verbatim>\<open>handle_read_jobs\<close>.\<close>

fun ticks ::
    "nat \<Rightarrow> (bytes \<Rightarrow> bytes) \<Rightarrow> fsys \<Rightarrow> transfer_job list \<Rightarrow> ostream \<Rightarrow> transfer_job list \<times> ostream" where
  "ticks 0 zc fs js st = (js, st)"
| "ticks (Suc k) zc fs js st =
     (case handle_read_jobs zc fs js st of (_, js', st') \<Rightarrow> ticks k zc fs js' st')"

lemma ticks_add: "ticks (a + b) zc fs js st = (case ticks a zc fs js st of (js', st') \<Rightarrow> ticks b zc fs js' st')"
  by (induction a arbitrary: js st) (auto split: prod.splits)

lemma ticks_Nil [simp]: "ticks k zc fs [] st = ([], st)"
  by (induction k) (simp_all add: handle_read_jobs_def)

lemma tick_block:
  assumes "job_read zc fs j st = (Inr (Some b), j', st)" and "alive st" and "\<not> is_last_job j"
  shows "handle_read_jobs zc fs [j] st = (Inr None, [j'], st\<lparr>sent := sent st @ [Resp_block b]\<rparr>)"
  using assms by (simp add: handle_read_jobs_def read_outcome_def stream_send_def)

lemma tick_done:
  assumes "job_read zc fs j st = (Inr None, j', st)" and "alive st" and "\<not> is_last_job j"
    and "job_completed j'" and "\<not> file_skipped j'"
  shows "handle_read_jobs zc fs [j] st =
    (Inr (Some (j', True, '''')), [], st\<lparr>sent := sent st @ [Resp_done (job_id j') (file_num j')]\<rparr>)"
  using assms
  by (simp add: handle_read_jobs_def read_outcome_def stream_send_def job_error_def job_skipped_def
      remove_job_def)

lemma job_read_chunk:
  assumes "handle_opt j = Some (i, pos)" and "idx (file_num j) < length (files j)"
    and "\<not> enable_overwrite_detection j \<or> file_confirmed j" and "\<forall>p. grant fs i p \<noteq> None"
    and "file_num j = word_of_nat n" and "n < 2 ^ 31"
  shows "job_read zc fs j st =
    (let ch = take buf_size (drop pos (content (inodes fs i)));
         d = encode_block zc (ent_name (files j ! n)) ch
     in if ch = [] then (Inr (Some (mk_block (job_id j) n ([], False))), next_file j, st)
        else (Inr (Some (mk_block (job_id j) n d)),
              j\<lparr>handle_opt := Some (i, pos + length ch),
                finished_size := finished_size j + word_of_nat (length ch),
                transferred := transferred j + word_of_nat (length (fst d))\<rparr>, st))"
  using assms idx_of_nat [of n]
  by (auto simp: job_read_def read_block_def fill_readable [OF assms(4)] Let_def mk_block_def
      split: prod.splits)

lemma ticks_file:
  assumes "handle_opt j = Some (i, pos)" and "drop pos (content (inodes fs i)) = rest"
    and "n < length (files j)" and "n < 2 ^ 31" and "file_num j = word_of_nat n"
    and "\<not> enable_overwrite_detection j" and "\<not> is_last_job j" and "alive st"
    and readable: "\<forall>p. grant fs i p \<noteq> None"
  shows "\<exists>t. ticks (Suc (length (chunks rest))) zc fs [j] st =
    ([next_file (j\<lparr>finished_size := finished_size j + word_of_nat (length rest), transferred := t\<rparr>)],
     st\<lparr>sent := sent st @ map Resp_block (file_blocks zc (job_id j) n (ent_name (files j ! n)) rest)\<rparr>)"
  using assms
proof (induction rest arbitrary: pos j st rule: chunks.induct)
  case (1 rest)
  have "idx (file_num j) < length (files j)" using 1 idx_of_nat [of n] by simp
  note rd = job_read_chunk [OF 1(2) this disjI1 [OF 1(7)] readable 1(6) 1(5), of zc st, unfolded 1(3)]
  show ?case
  proof (cases "rest = []")
    case True
    have "job_read zc fs j st = (Inr (Some (mk_block (job_id j) n ([], False))), next_file j, st)"
      using rd True by simp
    from tick_block [OF this 1(9) 1(8)] True show ?thesis
      by (intro exI [of _ "transferred j"]) (simp add: file_blocks_def)
  next
    case False
    define ch where "ch = take buf_size rest"
    define d where "d = encode_block zc (ent_name (files j ! n)) ch"
    define j' where "j' = j\<lparr>handle_opt := Some (i, pos + length ch),
      finished_size := finished_size j + word_of_nat (length ch),
      transferred := transferred j + word_of_nat (length (fst d))\<rparr>"
    define st' where "st' = st\<lparr>sent := sent st @ [Resp_block (mk_block (job_id j) n d)]\<rparr>"
    have ne: "ch \<noteq> []" using False by (auto simp: ch_def buf_size_def)
    then have "job_read zc fs j st = (Inr (Some (mk_block (job_id j) n d)), j', st)"
      using rd by (simp add: Let_def ch_def [symmetric] d_def [symmetric] j'_def)
    from tick_block [OF this 1(9) 1(8)]
    have tick: "handle_read_jobs zc fs [j] st = (Inr None, [j'], st')" by (simp add: st'_def)
    have rest': "drop (pos + length ch) (content (inodes fs i)) = drop buf_size rest"
    proof -
      have "drop (pos + length ch) (content (inodes fs i)) = drop (length ch) rest"
        using 1(3) by (metis add.commute drop_drop)
      also have "\<dots> = drop buf_size rest" by (simp add: ch_def min_def)
      finally show ?thesis .
    qed
    have "\<exists>t. ticks (Suc (length (chunks (drop buf_size rest)))) zc fs [j'] st' =
      ([next_file (j'\<lparr>finished_size := finished_size j' + word_of_nat (length (drop buf_size rest)), transferred := t\<rparr>)],
       st'\<lparr>sent := sent st' @ map Resp_block
         (file_blocks zc (job_id j') n (ent_name (files j' ! n)) (drop buf_size rest))\<rparr>)"
      by (rule 1(1) [OF False _ rest']) (use 1 in \<open>simp_all add: j'_def st'_def\<close>)
    then obtain t where t: "ticks (Suc (length (chunks (drop buf_size rest)))) zc fs [j'] st' =
      ([next_file (j'\<lparr>finished_size := finished_size j' + word_of_nat (length (drop buf_size rest)), transferred := t\<rparr>)],
       st'\<lparr>sent := sent st' @ map Resp_block
         (file_blocks zc (job_id j') n (ent_name (files j' ! n)) (drop buf_size rest))\<rparr>)" ..
    have "(word_of_nat (length rest) :: u64) = word_of_nat (length ch + length (drop buf_size rest))"
      by (rule arg_cong [where f = word_of_nat]) (simp add: ch_def)
    then have sz: "finished_size j' + word_of_nat (length (drop buf_size rest)) =
        finished_size j + word_of_nat (length rest)"
      by (simp add: j'_def del: length_drop)
    have nf: "next_file (j'\<lparr>finished_size := f, transferred := t\<rparr>) =
        next_file (j\<lparr>finished_size := f, transferred := t\<rparr>)" for f
      by (simp add: next_file_def j'_def)
    have blk: "sent st' @ map Resp_block (file_blocks zc (job_id j') n (ent_name (files j' ! n)) (drop buf_size rest))
      = sent st @ map Resp_block (file_blocks zc (job_id j) n (ent_name (files j ! n)) rest)"
      using False by (simp add: st'_def j'_def file_blocks_def chunks_step [of rest] d_def ch_def)
    have "ticks (Suc (length (chunks rest))) zc fs [j] st =
        ticks (Suc (length (chunks (drop buf_size rest)))) zc fs [j'] st'"
      using False by (simp add: tick chunks_step [of rest])
    also have "\<dots> = ([next_file (j\<lparr>finished_size := finished_size j + word_of_nat (length rest), transferred := t\<rparr>)],
       st\<lparr>sent := sent st @ map Resp_block (file_blocks zc (job_id j) n (ent_name (files j ! n)) rest)\<rparr>)"
      unfolding t sz nf blk by (simp add: st'_def)
    finally show ?thesis by blast
  qed
qed

text \<open>Opening the file is part of the first read.\<close>

definition opened :: "nat \<Rightarrow> transfer_job \<Rightarrow> transfer_job" where
  "opened i j = j\<lparr>handle_opt := Some (i, 0), file_confirmed := False, file_is_waiting := False\<rparr>"

lemma handle_read_jobs_open:
  assumes "handle_opt j = None" and "idx (file_num j) < length (files j)"
    and "os_open fs (dest_path j (idx (file_num j))) = Inr (i, 0)" and "\<not> is_last_job j"
  shows "handle_read_jobs zc fs [j] st = handle_read_jobs zc fs [opened i j] st"
proof -
  have "job_read zc fs j st = job_read zc fs (opened i j) st"
    using assms by (simp add: job_read_def opened_def)
  moreover have "is_last_job (opened i j) = is_last_job j" by (simp add: opened_def)
  ultimately show ?thesis using assms(4) by (simp add: handle_read_jobs_def)
qed

lemma length_file_blocks [simp]: "length (file_blocks zc i n nm c) = Suc (length (chunks c))"
  by (simp add: file_blocks_def)

lemma ticks_job:
  assumes "handle_opt j = None" and "file_num j = word_of_nat n"
    and "n + length cs = length (files j)" and "length (files j) < 2 ^ 31"
    and "\<not> enable_overwrite_detection j" and "\<not> is_last_job j" and "\<not> file_skipped j" and "alive st"
    and "\<forall>k < length cs. reads_as fs (dest_path j (n + k)) (cs ! k)"
  shows "ticks (Suc (length (job_blocks zc (job_id j) n (map ent_name (drop n (files j))) cs))) zc fs [j] st =
    ([], st\<lparr>sent := sent st @ map Resp_block (job_blocks zc (job_id j) n (map ent_name (drop n (files j))) cs)
              @ [Resp_done (job_id j) (word_of_nat (length (files j)))]\<rparr>)"
  using assms
proof (induction cs arbitrary: n j st)
  case Nil
  then have n: "n = length (files j)" and small: "n < 2 ^ 31" by simp_all
  have "job_read zc fs j st = (Inr None, j\<lparr>handle_opt := None\<rparr>, st)"
    using Nil(2) n idx_of_nat [OF small] by (simp add: job_read_def)
  from tick_done [OF this Nil(8) Nil(6)] Nil(2,5,7) n show ?case
    by (simp add: job_completed_def)
next
  case (Cons c cs)
  have n: "n < length (files j)" and small: "n < 2 ^ 31" using Cons.prems(3,4) by simp_all
  have idx: "idx (file_num j) = n" using Cons.prems(2) idx_of_nat [OF small] by simp
  have "reads_as fs (dest_path j n) c" using Cons.prems(9) by force
  then obtain i where op: "os_open fs (dest_path j n) = Inr (i, 0)" "content (inodes fs i) = c"
      "\<forall>pos. grant fs i pos \<noteq> None"
    by (rule reads_asE)
  define nm where "nm = ent_name (files j ! n)"
  define B where "B = file_blocks zc (job_id j) n nm c"
  define st1 where "st1 = st\<lparr>sent := sent st @ map Resp_block B\<rparr>"
  have "\<exists>t. ticks (Suc (length (chunks c))) zc fs [opened i j] st =
    ([next_file ((opened i j)\<lparr>finished_size := finished_size (opened i j) + word_of_nat (length c), transferred := t\<rparr>)],
     st\<lparr>sent := sent st @ map Resp_block (file_blocks zc (job_id (opened i j)) n (ent_name (files (opened i j) ! n)) c)\<rparr>)"
    by (rule ticks_file [where pos = 0]) (use Cons.prems n small op in \<open>simp_all add: opened_def\<close>)
  then obtain t where t: "ticks (length B) zc fs [opened i j] st =
    ([next_file ((opened i j)\<lparr>finished_size := finished_size j + word_of_nat (length c), transferred := t\<rparr>)], st1)"
    by (auto simp: opened_def B_def nm_def st1_def)
  define j1 where "j1 = next_file ((opened i j)\<lparr>finished_size := finished_size j + word_of_nat (length c), transferred := t\<rparr>)"
  have fst_tick: "ticks (length B) zc fs [j] st = ([j1], st1)"
    using t handle_read_jobs_open [OF Cons.prems(1), of fs i zc st] idx n op(1) Cons.prems(6)
    by (simp add: B_def j1_def)
  have j1: "handle_opt j1 = None" "file_num j1 = word_of_nat (Suc n)" "files j1 = files j"
      "job_id j1 = job_id j" "\<not> enable_overwrite_detection j1" "\<not> is_last_job j1" "\<not> file_skipped j1"
      "\<And>k. dest_path j1 k = dest_path j k"
    using Cons.prems
    by (simp_all add: j1_def next_file_def opened_def dest_path_def join_def add.commute)
  define R where "R = job_blocks zc (job_id j) (Suc n) (map ent_name (drop (Suc n) (files j))) cs"
  have split: "job_blocks zc (job_id j) n (map ent_name (drop n (files j))) (c # cs) = B @ R"
    using Cons_nth_drop_Suc [OF n] by (simp add: B_def R_def nm_def flip: Cons_nth_drop_Suc [OF n])
  have "ticks (Suc (length R)) zc fs [j1] st1 =
    ([], st1\<lparr>sent := sent st1 @ map Resp_block R @ [Resp_done (job_id j) (word_of_nat (length (files j)))]\<rparr>)"
  proof -
    have "\<forall>k < length cs. reads_as fs (dest_path j1 (Suc n + k)) (cs ! k)"
      using Cons.prems(9) by (force simp: j1(8))
    moreover have "alive st1" using Cons.prems(8) by (simp add: st1_def)
    ultimately show ?thesis
      using Cons.IH [of j1 "Suc n" st1] Cons.prems(3,4) j1 by (simp add: R_def)
  qed
  then show ?case
    unfolding split using ticks_add [of "length B" "Suc (length R)" zc fs "[j]" st] fst_tick
    by (simp add: st1_def)
qed

end
