(* ===== verification/JobReceive.thy ===== *)
theory JobReceive
  imports JobFlow
begin

text \<open>
  The receiving side of a transfer: what a job makes of a list of blocks. \<open>grown\<close> says that
  only the content of one inode has changed; \<open>recv_inv\<close> that the files before the current
  one are published and the current one is complete under its download name.
\<close>

subsection \<open>Blocks into an open file\<close>

definition out_data :: "(bytes \<Rightarrow> bytes) \<Rightarrow> file_block \<Rightarrow> bytes" where
  "out_data zd b = (if blk_compressed b then zd (blk_data b) else blk_data b)"

fun receive ::
    "(bytes \<Rightarrow> bytes) \<Rightarrow> file_block list \<Rightarrow> transfer_job \<Rightarrow> fsys
      \<Rightarrow> (io_error + unit) \<times> transfer_job \<times> fsys" where
  "receive zd [] j fs = (Inr (), j, fs)"
| "receive zd (b # bs) j fs = (case job_write zd b j fs of
       (Inl e, j', fs') \<Rightarrow> (Inl e, j', fs')
     | (Inr _, j', fs') \<Rightarrow> receive zd bs j' fs')"

lemma receive_append:
  assumes "receive zd as j fs = (Inr (), j1, fs1)"
  shows "receive zd (as @ bs) j fs = receive zd bs j1 fs1"
  using assms by (induction as arbitrary: j fs) (auto split: sum.splits prod.splits)

definition grown :: "nat \<Rightarrow> bytes \<Rightarrow> fsys \<Rightarrow> fsys \<Rightarrow> bool" where
  "grown i d fs fs' \<longleftrightarrow> names fs' = names fs \<and> next_ino fs' = next_ino fs \<and> dirs fs' = dirs fs \<and>
     deny fs' = deny fs \<and> sync_fails fs' = sync_fails fs \<and> now fs' = now fs \<and> room fs = room fs' + length d \<and>
     (\<forall>k. k \<noteq> i \<longrightarrow> inodes fs' k = inodes fs k) \<and> content (inodes fs' i) = content (inodes fs i) @ d"

lemma grown_refl: "grown i [] fs fs" by (simp add: grown_def)

lemma grown_trans: "grown i a fs fs1 \<Longrightarrow> grown i b fs1 fs2 \<Longrightarrow> grown i (a @ b) fs fs2"
  by (simp add: grown_def)

lemma os_write_all_append:
  assumes "pos = length (content (inodes fs i))" and "length d \<le> room fs"
  shows "\<exists>fs'. os_write_all (i, pos) d fs = (Inr (), (i, pos + length d), fs') \<and> grown i d fs fs'"
  using assms by (simp add: os_write_all_def Let_def grown_def write_at_end)

lemma job_write_append:
  assumes "blk_job b = job_id j" and "idx (blk_file_num b) = idx (file_num j)"
    and "idx (file_num j) < length (files j)" and "handle_opt j = Some (i, length (content (inodes fs i)))"
    and "length (out_data zd b) \<le> room fs"
  shows "\<exists>f t fs'. job_write zd b j fs =
      (Inr (), j\<lparr>handle_opt := Some (i, length (content (inodes fs' i))), finished_size := f, transferred := t\<rparr>, fs')
      \<and> grown i (out_data zd b) fs fs'"
proof -
  define out where "out = out_data zd b"
  have "length out \<le> room fs" using assms(5) by (simp add: out_def)
  from os_write_all_append [OF refl this, of i] obtain fs' where
    w: "os_write_all (i, length (content (inodes fs i))) out fs
      = (Inr (), (i, length (content (inodes fs i)) + length out), fs')"
    and g: "grown i out fs fs'" by blast
  have "length (content (inodes fs' i)) = length (content (inodes fs i)) + length out"
    using g by (simp add: grown_def)
  with w g assms show ?thesis
    by (intro exI [of _ "finished_size j + word_of_nat (length out)"]
          exI [of _ "transferred j + word_of_nat (length (blk_data b))"] exI [of _ fs'])
       (simp add: job_write_def write_data_def Let_def out_data_def [symmetric] out_def [symmetric])
qed

lemma receive_open_file:
  assumes "\<forall>b \<in> set bs. blk_job b = job_id j \<and> idx (blk_file_num b) = idx (file_num j)"
    and "idx (file_num j) < length (files j)" and "handle_opt j = Some (i, length (content (inodes fs i)))"
    and "length (concat (map (out_data zd) bs)) \<le> room fs"
  shows "\<exists>f t fs'. receive zd bs j fs =
      (Inr (), j\<lparr>handle_opt := Some (i, length (content (inodes fs' i))), finished_size := f, transferred := t\<rparr>, fs')
      \<and> grown i (concat (map (out_data zd) bs)) fs fs'"
  using assms
proof (induction bs arbitrary: j fs)
  case Nil
  then have "j = j\<lparr>handle_opt := Some (i, length (content (inodes fs i))),
      finished_size := finished_size j, transferred := transferred j\<rparr>" by simp
  then show ?case
    by (intro exI [of _ "finished_size j"] exI [of _ "transferred j"] exI [of _ fs]) (simp add: grown_refl)
next
  case (Cons b bs)
  obtain f t fs1 where w: "job_write zd b j fs =
      (Inr (), j\<lparr>handle_opt := Some (i, length (content (inodes fs1 i))), finished_size := f, transferred := t\<rparr>, fs1)"
    and g: "grown i (out_data zd b) fs fs1"
    using job_write_append [of b j i fs zd] Cons.prems by auto
  define j1 where "j1 = j\<lparr>handle_opt := Some (i, length (content (inodes fs1 i))), finished_size := f, transferred := t\<rparr>"
  have "length (concat (map (out_data zd) bs)) \<le> room fs1"
    using Cons.prems(4) g by (simp add: grown_def)
  then obtain f' t' fs2 where r: "receive zd bs j1 fs1 =
      (Inr (), j1\<lparr>handle_opt := Some (i, length (content (inodes fs2 i))), finished_size := f', transferred := t'\<rparr>, fs2)"
    and g2: "grown i (concat (map (out_data zd) bs)) fs1 fs2"
    using Cons.IH [of j1 fs1] Cons.prems by (auto simp: j1_def)
  have "receive zd (b # bs) j fs =
      (Inr (), j\<lparr>handle_opt := Some (i, length (content (inodes fs2 i))), finished_size := f', transferred := t'\<rparr>, fs2)"
    using w r by (simp add: j1_def)
  moreover have "grown i (concat (map (out_data zd) (b # bs))) fs fs2"
    using grown_trans [OF g g2] by simp
  ultimately show ?case by blast
qed

lemma out_data_encode:
  assumes "\<forall>x. zd (zc x) = x"
  shows "out_data zd (mk_block i n (encode_block zc nm ch)) = ch"
  using assms by (simp add: out_data_def mk_block_def encode_block_def Let_def)

lemma out_data_file_blocks:
  assumes "\<forall>x. zd (zc x) = x"
  shows "concat (map (out_data zd) (file_blocks zc i n nm c)) = c"
proof -
  have "out_data zd (mk_block i n ([], False)) = []" by (simp add: out_data_def mk_block_def)
  then show ?thesis by (simp add: file_blocks_def o_def out_data_encode [where zd = zd and zc = zc, OF assms])
qed

subsection \<open>Publishing a file\<close>

definition published :: "fsys \<Rightarrow> transfer_job \<Rightarrow> nat \<Rightarrow> bytes \<Rightarrow> bool" where
  "published fs j k c \<longleftrightarrow> content_at fs (dest_path j k) = Some c \<and>
     mtime_at fs (dest_path j k) = Some (sint (ent_modified (files j ! k)) * 10 ^ 9)"

lemma set_mtime_other:
  assumes "fs_ok fs" and "p \<noteq> q"
  shows "content_at (os_set_mtime q t fs) p = content_at fs p" "mtime_at (os_set_mtime q t fs) p = mtime_at fs p"
  using assms fs_ok_inj [OF assms(1), of p _ q]
  by (cases "names fs p"; auto simp: content_at_def mtime_at_def os_set_mtime_def split: option.splits)+

lemma rename_other:
  assumes "p \<noteq> a" and "p \<noteq> b"
  shows "content_at (snd (os_rename a b fs)) p = content_at fs p"
    "mtime_at (snd (os_rename a b fs)) p = mtime_at fs p"
  using assms by (auto simp: content_at_def mtime_at_def os_rename_def split: option.splits)

lemma modify_time_frame:
  "room (modify_time j fs) = room fs" "deny (modify_time j fs) = deny fs" "dirs (modify_time j fs) = dirs fs"
  "sync_fails (modify_time j fs) = sync_fails fs"
  by (simp_all add: modify_time_def Let_def os_set_mtime_def os_rename_def split: option.splits)

lemma fs_ok_modify_time: "fs_ok fs \<Longrightarrow> fs_ok (modify_time j fs)"
  by (simp add: modify_time_def Let_def fs_ok_set_mtime fs_ok_rename)

lemma modify_time_other:
  assumes "fs_ok fs" and "p \<noteq> dest_path j (idx (file_num j))" and "p \<noteq> download_path j (idx (file_num j))"
  shows "content_at (modify_time j fs) p = content_at fs p" "mtime_at (modify_time j fs) p = mtime_at fs p"
  using assms by (simp_all add: modify_time_def Let_def set_mtime_other fs_ok_rename rename_other)

lemma modify_time_publishes:
  assumes "idx (file_num j) = k" and "k < length (files j)" and "content_at fs (download_path j k) = Some c"
    and "\<not> deny fs (dest_path j k)" and "dest_path j k \<notin> set (dirs fs)"
  shows "published (modify_time j fs) j k c"
proof -
  obtain i where "names fs (download_path j k) = Some i" "content (inodes fs i) = c"
    using assms(3) by (auto simp: content_at_def)
  with assms show ?thesis
    by (simp add: published_def modify_time_def Let_def os_rename_def os_set_mtime_def content_at_def mtime_at_def)
qed

subsection \<open>Opening the next file\<close>

lemma create_props:
  assumes "fs_ok fs" and "\<not> deny fs p"
  obtains i fs' where "os_create p fs = Inr ((i, 0), fs')" and "names fs' p = Some i"
    and "content (inodes fs' i) = []" and "room fs' = room fs" and "deny fs' = deny fs" and "dirs fs' = dirs fs"
    and "sync_fails fs' = sync_fails fs"
    and "\<And>q. q \<noteq> p \<Longrightarrow> content_at fs' q = content_at fs q \<and> mtime_at fs' q = mtime_at fs q"
    and "fs_ok fs'"
proof (cases "names fs p")
  case None
  define fs' where "fs' = fs\<lparr>names := (names fs)(p \<mapsto> next_ino fs),
              inodes := (inodes fs)(next_ino fs := \<lparr>content = [], mtime = now fs\<rparr>),
              next_ino := Suc (next_ino fs)\<rparr>"
  have c: "os_create p fs = Inr ((next_ino fs, 0), fs')"
    using None assms(2) by (simp add: os_create_def fs'_def)
  show ?thesis
  proof (rule that [OF c])
    show "content_at fs' q = content_at fs q \<and> mtime_at fs' q = mtime_at fs q" if "q \<noteq> p" for q
      using that fs_ok_lt [OF assms(1), of q]
      by (cases "names fs q") (auto simp: fs'_def content_at_def mtime_at_def)
    show "fs_ok fs'" by (rule fs_ok_create [OF assms(1) c])
  qed (simp_all add: fs'_def)
next
  case (Some i)
  define fs' where "fs' = fs\<lparr>inodes := (inodes fs)(i := \<lparr>content = [], mtime = now fs\<rparr>)\<rparr>"
  have c: "os_create p fs = Inr ((i, 0), fs')"
    using Some assms(2) by (simp add: os_create_def fs'_def)
  show ?thesis
  proof (rule that [OF c])
    show "content_at fs' q = content_at fs q \<and> mtime_at fs' q = mtime_at fs q" if "q \<noteq> p" for q
      using that fs_ok_inj [OF assms(1), of q i p] Some
      by (cases "names fs q") (auto simp: fs'_def content_at_def mtime_at_def)
    show "fs_ok fs'" by (rule fs_ok_create [OF assms(1) c])
  qed (simp_all add: fs'_def Some)
qed

lemma create_dir_frame:
  "content_at (os_create_dir_all d fs) p = content_at fs p" "mtime_at (os_create_dir_all d fs) p = mtime_at fs p"
  "room (os_create_dir_all d fs) = room fs" "deny (os_create_dir_all d fs) = deny fs"
  "sync_fails (os_create_dir_all d fs) = sync_fails fs"
  "set (dirs (os_create_dir_all d fs)) \<subseteq> insert d (set (dirs fs))"
  by (auto simp: os_create_dir_all_def content_at_def mtime_at_def)

definition syncs :: "fsys \<Rightarrow> bool" where
  "syncs fs \<longleftrightarrow> (\<forall>i. \<not> sync_fails fs i)"

lemma sync_open_ok: "syncs fs \<Longrightarrow> sync_open j (modify_time j fs) = Inr ()"
  by (simp add: syncs_def sync_open_def os_sync_all_def modify_time_frame split: option.split)

lemma write_open_props:
  assumes "fs_ok fs" and "syncs fs" and "\<not> deny fs (download_path j (idx (blk_file_num b)))"
  obtains i fs1 where "write_open b j fs =
        (Inr (), j\<lparr>file_num := blk_file_num b, handle_opt := Some (i, 0)\<rparr>, fs1)"
    and "names fs1 (download_path j (idx (blk_file_num b))) = Some i" and "content (inodes fs1 i) = []"
    and "room fs1 = room fs" and "deny fs1 = deny fs" and "sync_fails fs1 = sync_fails fs"
    and "\<And>p. p \<in> set (dirs fs1) \<Longrightarrow> p \<in> set (dirs fs) \<or> path_parent (dest_path j (idx (blk_file_num b))) = Some p"
    and "\<And>q. q \<noteq> download_path j (idx (blk_file_num b)) \<Longrightarrow>
        content_at fs1 q = content_at (modify_time j fs) q \<and> mtime_at fs1 q = mtime_at (modify_time j fs) q"
    and "fs_ok fs1"
proof -
  let ?n = "idx (blk_file_num b)"
  define j1 where "j1 = j\<lparr>file_num := blk_file_num b\<rparr>"
  have same: "dest_path j1 ?n = dest_path j ?n" "download_path j1 ?n = download_path j ?n"
    by (simp_all add: j1_def download_path_def dest_path_def join_def)
  define fs2 where "fs2 = (case path_parent (dest_path j ?n) of
     None \<Rightarrow> modify_time j fs | Some d \<Rightarrow> os_create_dir_all d (modify_time j fs))"
  have fs2: "fs_ok fs2" "room fs2 = room fs" "deny fs2 = deny fs" "sync_fails fs2 = sync_fails fs"
      "\<And>q. content_at fs2 q = content_at (modify_time j fs) q" "\<And>q. mtime_at fs2 q = mtime_at (modify_time j fs) q"
      "\<And>p. p \<in> set (dirs fs2) \<Longrightarrow> p \<in> set (dirs fs) \<or> path_parent (dest_path j ?n) = Some p"
    using assms(1) create_dir_frame(6)
    by (auto simp: fs2_def fs_ok_modify_time fs_ok_create_dir_all modify_time_frame create_dir_frame(1-5)
        split: option.splits)
      (metis create_dir_frame(6) insertE modify_time_frame(3) subsetD)
  have nd: "\<not> deny fs2 (download_path j ?n)" using assms(3) by (simp add: fs2)
  obtain i fs1 where c: "os_create (download_path j ?n) fs2 = Inr ((i, 0), fs1)"
      "names fs1 (download_path j ?n) = Some i" "content (inodes fs1 i) = []" "room fs1 = room fs2"
      "deny fs1 = deny fs2" "dirs fs1 = dirs fs2" "sync_fails fs1 = sync_fails fs2"
      "\<And>q. q \<noteq> download_path j ?n \<Longrightarrow> content_at fs1 q = content_at fs2 q \<and> mtime_at fs1 q = mtime_at fs2 q"
      "fs_ok fs1"
    using create_props [OF fs2(1) nd] by metis
  show ?thesis
  proof (rule that [of i fs1])
    show "write_open b j fs = (Inr (), j\<lparr>file_num := blk_file_num b, handle_opt := Some (i, 0)\<rparr>, fs1)"
      using c(1) same sync_open_ok [OF assms(2), of j]
      by (simp add: write_open_def Let_def j1_def [symmetric] fs2_def [symmetric])
  qed (use c fs2 in auto)
qed

lemma receive_opens:
  assumes "blk_job b = job_id j" and "idx (blk_file_num b) < length (files j)"
    and "idx (blk_file_num b) \<noteq> idx (file_num j) \<or> handle_opt j = None"
    and "write_open b j fs = (Inr (), j\<lparr>file_num := blk_file_num b, handle_opt := Some h\<rparr>, fs1)"
  shows "receive zd (b # bs) j fs =
    receive zd (b # bs) (j\<lparr>file_num := blk_file_num b, handle_opt := Some h\<rparr>) fs1"
  using assms by (auto simp: job_write_def)

subsection \<open>The invariant of a receiving job\<close>

text \<open>
  The places a job writes to: pairwise different, none of them the download name of another
  or a directory on the way to another, creating is allowed, and the disk takes what is written.
\<close>

definition targets_ok :: "transfer_job \<Rightarrow> fsys \<Rightarrow> bool" where
  "targets_ok j fs \<longleftrightarrow> syncs fs \<and> (\<forall>k < length (files j).
     \<not> deny fs (dest_path j k) \<and> \<not> deny fs (download_path j k) \<and> dest_path j k \<notin> set (dirs fs) \<and>
     (\<forall>l < length (files j). (k \<noteq> l \<longrightarrow> dest_path j k \<noteq> dest_path j l) \<and>
        dest_path j k \<noteq> download_path j l \<and> path_parent (dest_path j k) \<noteq> Some (dest_path j l)))"

definition recv_inv :: "bytes list \<Rightarrow> nat \<Rightarrow> transfer_job \<Rightarrow> fsys \<Rightarrow> bool" where
  "recv_inv cs m j fs \<longleftrightarrow> fs_ok fs \<and> targets_ok j fs \<and> m \<le> length (files j) \<and>
     length cs = length (files j) \<and> length (files j) < 2 ^ 31 \<and>
     length (concat (drop m cs)) \<le> room fs \<and>
     (\<forall>k. Suc k < m \<longrightarrow> published fs j k (cs ! k)) \<and>
     (if m = 0 then handle_opt j = None \<and> file_num j = 0
      else file_num j = word_of_nat (m - 1) \<and> handle_opt j \<noteq> None \<and>
           content_at fs (download_path j (m - 1)) = Some (cs ! (m - 1)))"

lemma targets_okD:
  assumes "targets_ok j fs" and "k < length (files j)" and "l < length (files j)"
  shows "\<not> deny fs (dest_path j k)" "\<not> deny fs (download_path j k)" "dest_path j k \<notin> set (dirs fs)"
    "k \<noteq> l \<Longrightarrow> dest_path j k \<noteq> dest_path j l" "dest_path j k \<noteq> download_path j l"
    "path_parent (dest_path j k) \<noteq> Some (dest_path j l)"
  using assms by (auto simp: targets_ok_def)

lemma targets_syncs: "targets_ok j fs \<Longrightarrow> syncs fs"
  by (simp add: targets_ok_def)

lemma download_path_inj:
  "targets_ok j fs \<Longrightarrow> k < length (files j) \<Longrightarrow> l < length (files j) \<Longrightarrow> k \<noteq> l \<Longrightarrow>
    download_path j k \<noteq> download_path j l"
  using targets_okD(4) [of j fs k l] by (simp add: download_path_def)

text \<open>After \<open>modify_time\<close>, every file up to the current one is published.\<close>

lemma recv_inv_publishes:
  assumes "recv_inv cs m j fs" and "k < m"
  shows "published (modify_time j fs) j k (cs ! k)"
proof -
  have m: "m \<le> length (files j)" "length (files j) < 2 ^ 31" "m \<noteq> 0" and t: "targets_ok j fs" and ok: "fs_ok fs"
    using assms by (auto simp: recv_inv_def)
  then have small: "m - 1 < 2 ^ 31" and in_m: "m - 1 < length (files j)" and in_k: "k < length (files j)"
    using assms(2) by simp_all
  have cur: "idx (file_num j) = m - 1" "content_at fs (download_path j (m - 1)) = Some (cs ! (m - 1))"
    using assms m idx_of_nat [OF small] by (auto simp: recv_inv_def)
  show ?thesis
  proof (cases "k = m - 1")
    case True
    then show ?thesis
      using modify_time_publishes [OF cur(1) in_m cur(2)] targets_okD [OF t in_m in_m] by simp
  next
    case False
    with assms have "published fs j k (cs ! k)" by (auto simp: recv_inv_def)
    moreover have "dest_path j k \<noteq> dest_path j (m - 1)" "dest_path j k \<noteq> download_path j (m - 1)"
      using targets_okD [OF t in_k in_m] False by simp_all
    ultimately show ?thesis
      using modify_time_other [OF ok, of "dest_path j k" j] by (simp add: published_def cur(1))
  qed
qed

lemma recv_inv_file:
  assumes inv: "recv_inv cs m j fs" and m: "m < length (files j)" and law: "\<forall>x. zd (zc x) = x"
  shows "\<exists>j' fs'. receive zd (file_blocks zc (job_id j) m nm (cs ! m)) j fs = (Inr (), j', fs') \<and>
     recv_inv cs (Suc m) j' fs' \<and> job_id j' = job_id j \<and> files j' = files j \<and> path j' = path j"
proof -
  have t: "targets_ok j fs" and ok: "fs_ok fs" and small: "m < 2 ^ 31" and lens: "length cs = length (files j)"
      "length (files j) < 2 ^ 31" and rm: "length (concat (drop m cs)) \<le> room fs"
    using inv m by (auto simp: recv_inv_def)
  have idxm: "idx (word_of_nat m) = m" by (rule idx_of_nat [OF small])
  define B where "B = file_blocks zc (job_id j) m nm (cs ! m)"
  have blk: "\<forall>b \<in> set B. blk_job b = job_id j \<and> blk_file_num b = word_of_nat m"
    by (auto simp: B_def file_blocks_def mk_block_def)
  obtain b bs where B: "B = b # bs" by (cases B) (simp_all add: B_def file_blocks_def)
  have b: "blk_job b = job_id j" "blk_file_num b = word_of_nat m" using blk B by simp_all
  have new: "m \<noteq> idx (file_num j) \<or> handle_opt j = None"
  proof (cases m)
    case (Suc m')
    then have "idx (file_num j) = m'" using inv idx_of_nat [of m'] small by (simp add: recv_inv_def)
    then show ?thesis by (simp add: Suc)
  qed (use inv in \<open>simp add: recv_inv_def\<close>)
  have "\<not> deny fs (download_path j (idx (blk_file_num b)))"
    using targets_okD(2) [OF t m m] b idxm by simp
  from write_open_props [OF ok targets_syncs [OF t] this] obtain i fs1 where w:
      "write_open b j fs = (Inr (), j\<lparr>file_num := word_of_nat m, handle_opt := Some (i, 0)\<rparr>, fs1)"
      "names fs1 (download_path j m) = Some i" "content (inodes fs1 i) = []"
      "room fs1 = room fs" "deny fs1 = deny fs" "sync_fails fs1 = sync_fails fs"
      "\<And>p. p \<in> set (dirs fs1) \<Longrightarrow> p \<in> set (dirs fs) \<or> path_parent (dest_path j m) = Some p"
      "\<And>q. q \<noteq> download_path j m \<Longrightarrow>
        content_at fs1 q = content_at (modify_time j fs) q \<and> mtime_at fs1 q = mtime_at (modify_time j fs) q"
      "fs_ok fs1"
    unfolding b(2) idxm by metis
  define j1 where "j1 = j\<lparr>file_num := word_of_nat m, handle_opt := Some (i, 0)\<rparr>"
  have "receive zd B j fs = receive zd B j1 fs1"
    unfolding B j1_def using receive_opens [of b j fs "(i, 0)" fs1 zd bs] b idxm m new w(1) by simp
  moreover have "\<exists>f t fs'. receive zd B j1 fs1 =
      (Inr (), j1\<lparr>handle_opt := Some (i, length (content (inodes fs' i))), finished_size := f, transferred := t\<rparr>, fs')
      \<and> grown i (concat (map (out_data zd) B)) fs1 fs'"
  proof (rule receive_open_file)
    have "length (cs ! m) \<le> length (concat (drop m cs))"
      using Cons_nth_drop_Suc [of m cs] m lens(1) by (metis concat.simps(2) length_append le_add1)
    then show "length (concat (map (out_data zd) B)) \<le> room fs1"
      using rm w(4) out_data_file_blocks [where zc = zc and zd = zd, OF law] by (simp add: B_def)
  qed (use blk m idxm w(3) in \<open>auto simp: j1_def\<close>)
  ultimately obtain f tr fs' where r: "receive zd B j fs =
      (Inr (), j1\<lparr>handle_opt := Some (i, length (content (inodes fs' i))), finished_size := f, transferred := tr\<rparr>, fs')"
    and g: "grown i (cs ! m) fs1 fs'"
    using out_data_file_blocks [where zc = zc and zd = zd, OF law] by (auto simp: B_def)
  define j' where "j' = j1\<lparr>handle_opt := Some (i, length (content (inodes fs' i))), finished_size := f, transferred := tr\<rparr>"
  have j': "job_id j' = job_id j" "files j' = files j" "path j' = path j" "file_num j' = word_of_nat m"
      "handle_opt j' \<noteq> None" "\<And>k. dest_path j' k = dest_path j k" "\<And>k. download_path j' k = download_path j k"
    by (simp_all add: j'_def j1_def download_path_def dest_path_def join_def)
  have dirs': "p \<in> set (dirs fs) \<or> path_parent (dest_path j m) = Some p" if "p \<in> set (dirs fs')" for p
    using that w(7) [of p] g by (simp add: grown_def)
  have "recv_inv cs (Suc m) j' fs'"
    unfolding recv_inv_def
  proof (intro conjI)
    show "fs_ok fs'" using w(9) g by (simp add: fs_ok_def grown_def)
    show "targets_ok j' fs'"
      unfolding targets_ok_def j'
    proof (intro allI impI conjI)
      show "syncs fs'" using targets_syncs [OF t] w(6) g by (simp add: syncs_def grown_def)
      have deny': "deny fs' = deny fs" using w(5) g by (simp add: grown_def)
      fix k assume k: "k < length (files j)"
      show "\<not> deny fs' (dest_path j k)" "\<not> deny fs' (download_path j k)"
        using targets_okD(1,2) [OF t k m] deny' by simp_all
      show "dest_path j k \<notin> set (dirs fs')"
        using dirs' [of "dest_path j k"] targets_okD(3) [OF t k m] targets_okD(6) [OF t m k] by blast
      fix l assume l: "l < length (files j)"
      show "dest_path j k \<noteq> dest_path j l" if "k \<noteq> l" by (rule targets_okD(4) [OF t k l that])
      show "dest_path j k \<noteq> download_path j l" by (rule targets_okD(5) [OF t k l])
      show "path_parent (dest_path j k) \<noteq> Some (dest_path j l)" by (rule targets_okD(6) [OF t k l])
    qed
    show "Suc m \<le> length (files j')" "length cs = length (files j')" "length (files j') < 2 ^ 31"
      using m lens by (simp_all add: j')
    show "length (concat (drop (Suc m) cs)) \<le> room fs'"
    proof -
      have "length (concat (drop m cs)) = length (cs ! m) + length (concat (drop (Suc m) cs))"
        using Cons_nth_drop_Suc [of m cs] m lens(1) by (metis concat.simps(2) length_append)
      then show ?thesis using rm w(4) g by (simp add: grown_def)
    qed
    show "\<forall>k. Suc k < Suc m \<longrightarrow> published fs' j' k (cs ! k)"
    proof (intro allI impI)
      fix k assume "Suc k < Suc m"
      then have k: "k < m" and in_k: "k < length (files j)" using m by simp_all
      have other: "dest_path j k \<noteq> download_path j m" by (rule targets_okD(5) [OF t in_k m])
      have "names fs' (dest_path j k) \<noteq> Some i"
        using fs_ok_inj [OF w(9), of "dest_path j k" i "download_path j m"] w(2) g other
        by (auto simp: grown_def)
      then have "content_at fs' (dest_path j k) = content_at fs1 (dest_path j k)"
          "mtime_at fs' (dest_path j k) = mtime_at fs1 (dest_path j k)"
        using g by (cases "names fs' (dest_path j k)"; force simp: grown_def content_at_def mtime_at_def)+
      then show "published fs' j' k (cs ! k)"
        using recv_inv_publishes [OF inv k] w(8) [OF other] by (simp add: published_def j')
    qed
    show "if Suc m = 0 then handle_opt j' = None \<and> file_num j' = 0
      else file_num j' = word_of_nat (Suc m - 1) \<and> handle_opt j' \<noteq> None \<and>
           content_at fs' (download_path j' (Suc m - 1)) = Some (cs ! (Suc m - 1))"
      using j' w(2,3) g by (simp add: grown_def content_at_def)
  qed
  then show ?thesis using r j' unfolding B_def [symmetric] j'_def [symmetric] by blast
qed

end
