(* ===== verification/JobProps.thy ===== *)
theory JobProps
  imports JobReceive
begin

text \<open>
  Properties of file transfer: delivery of a whole job, that jobs end, the confirmation of
  files, and what happens to incomplete files.
\<close>

subsection \<open>Concrete systems\<close>

definition demo_entry :: "string \<Rightarrow> u64 \<Rightarrow> file_entry" where
  "demo_entry nm t = \<lparr>entry_type = File, ent_name = nm, ent_hidden = False, ent_size = 0, ent_modified = t\<rparr>"

definition empty_fs :: fsys where
  "empty_fs = \<lparr>names = (\<lambda>_. None), inodes = (\<lambda>_. \<lparr>content = [], mtime = 0\<rparr>), next_ino = 0, dirs = [],
     grant = (\<lambda>_ _. Some 2), deny = (\<lambda>_. False), sync_fails = (\<lambda>_. False), room = 100, now = 5\<rparr>"

definition demo_src :: fsys where
  "demo_src = empty_fs\<lparr>names := [''/s/a'' \<mapsto> 0, ''/s/b'' \<mapsto> 1],
     inodes := (\<lambda>i. if i = 0 then \<lparr>content = [7, 7, 7], mtime = 1500000000\<rparr> else \<lparr>content = [], mtime = 0\<rparr>),
     next_ino := 2\<rparr>"

text \<open>A toy compressor with one short code word.\<close>

definition demo_zip :: "bytes \<Rightarrow> bytes" where
  "demo_zip x = (if x = [7, 7, 7] then [0] else 1 # x)"

definition demo_unzip :: "bytes \<Rightarrow> bytes" where
  "demo_unzip y = (if y = [0] then [7, 7, 7] else tl y)"

lemma demo_zip_law: "\<forall>x. demo_unzip (demo_zip x) = x"
  by (simp add: demo_zip_def demo_unzip_def)

subsection \<open>Delivery\<close>

lemma receive_job:
  assumes law: "\<forall>x. zd (zc x) = x" and "recv_inv cs m j fs" and "m + n = length (files j)"
  shows "\<exists>j' fs'. receive zd (job_blocks zc (job_id j) m (map ent_name (drop m (files j))) (drop m cs)) j fs
      = (Inr (), j', fs') \<and>
     recv_inv cs (length (files j)) j' fs' \<and> files j' = files j \<and> path j' = path j"
  using assms(2,3)
proof (induction n arbitrary: m j fs)
  case 0
  then show ?case by (cases "drop m cs") auto
next
  case (Suc n)
  have m: "m < length (files j)" "m < length cs" using Suc.prems by (auto simp: recv_inv_def)
  define nm where "nm = ent_name (files j ! m)"
  obtain j1 fs1 where r: "receive zd (file_blocks zc (job_id j) m nm (cs ! m)) j fs = (Inr (), j1, fs1)"
    and inv: "recv_inv cs (Suc m) j1 fs1" and same: "job_id j1 = job_id j" "files j1 = files j" "path j1 = path j"
    using recv_inv_file [where zc = zc and zd = zd and nm = nm, OF Suc.prems(1) m(1) law] by blast
  have split: "job_blocks zc (job_id j) m (map ent_name (drop m (files j))) (drop m cs) =
     file_blocks zc (job_id j) m nm (cs ! m) @
     job_blocks zc (job_id j1) (Suc m) (map ent_name (drop (Suc m) (files j1))) (drop (Suc m) cs)"
    unfolding same nm_def
    by (simp add: Cons_nth_drop_Suc [OF m(1), symmetric] Cons_nth_drop_Suc [OF m(2), symmetric])
  show ?case
    unfolding split receive_append [OF r]
    using Suc.IH [OF inv] Suc.prems(2) same by simp
qed

text \<open>C2. A transfer delivers: when compression is inverted by decompression, the source files
  can be opened and read, and the receiving side has the space, may create the targets and
  brings what it writes to the disk, then finitely many calls of \<^verbatim>\<open>handle_read_jobs\<close> send the blocks of the job and one
  \<^verbatim>\<open>Done\<close>, and the receiving job accepts the blocks one after the other; publishing the last
  file then leaves every file with the content of its source and the modification time of
  its entry. How the system cuts its reads does not matter, nor which blocks compress.
\<close>

theorem transfer_delivers:
  assumes law: "\<forall>x. zd (zc x) = x"
    and sj: "new_read i rem sp 0 hid isrem (Inr es) False = Inr sj"
    and rj: "rj = new_write i rem' dp 0 hid' isrem' es detect"
    and len: "length cs = length es" "length es < 2 ^ 31"
    and src: "\<forall>k < length es. reads_as sfs (dest_path sj k) (cs ! k)"
    and dst: "fs_ok rfs" "targets_ok rj rfs" "length (concat cs) \<le> room rfs"
  shows "\<exists>k bs rj' rfs'. ticks k zc sfs [sj] \<lparr>sent = [], alive = True\<rparr> =
       ([], \<lparr>sent = map Resp_block bs @ [Resp_done i (word_of_nat (length es))], alive = True\<rparr>) \<and>
     receive zd bs rj rfs = (Inr (), rj', rfs') \<and>
     (\<forall>k < length es. published (modify_time rj' rfs') rj k (cs ! k))"
proof -
  have sf: "handle_opt sj = None" "file_num sj = word_of_nat 0" "files sj = es" "job_id sj = i"
      "\<not> enable_overwrite_detection sj" "\<not> is_last_job sj" "\<not> file_skipped sj"
    using sj by (auto simp: new_read_def job_default_def)
  have rf: "handle_opt rj = None" "file_num rj = 0" "files rj = es" "job_id rj = i"
    by (simp_all add: rj new_write_def job_default_def)
  define bs where "bs = job_blocks zc i 0 (map ent_name es) cs"
  have "ticks (Suc (length bs)) zc sfs [sj] \<lparr>sent = [], alive = True\<rparr> =
       ([], \<lparr>sent = map Resp_block bs @ [Resp_done i (word_of_nat (length es))], alive = True\<rparr>)"
    using ticks_job [OF sf(1,2), of cs "\<lparr>sent = [], alive = True\<rparr>" sfs zc] sf len src by (simp add: bs_def)
  moreover have "recv_inv cs 0 rj rfs" using dst len rf by (simp add: recv_inv_def)
  from receive_job [where zc = zc and zd = zd, OF law this, of "length es"] rf
  obtain rj' rfs' where r: "receive zd bs rj rfs = (Inr (), rj', rfs')"
    and inv: "recv_inv cs (length es) rj' rfs'" and same: "files rj' = files rj" "path rj' = path rj"
    by (auto simp: bs_def)
  moreover have "published (modify_time rj' rfs') rj k (cs ! k)" if "k < length es" for k
    using recv_inv_publishes [OF inv that] unfolding published_def dest_path_def join_def same .
  ultimately show ?thesis by blast
qed

lemma all_less_two: "(\<forall>k < Suc (Suc 0). P k) \<longleftrightarrow> P 0 \<and> P (Suc 0)"
  by (auto simp: less_Suc_eq)

lemma demo_src_reads:
  "reads_as demo_src (path_join ''/s'' ''a'') [7, 7, 7]" "reads_as demo_src (path_join ''/s'' ''b'') []"
  by (simp_all add: reads_as_def content_at_def demo_src_def empty_fs_def path_join_def starts_with_def)

lemma transfer_delivers_witness:
  "\<exists>k bs rj' rfs'. ticks k demo_zip demo_src
      [job_default\<lparr>job_id := 3, remote := ''r'', path := ''/s'', files := [demo_entry ''a'' 1, demo_entry ''b'' 0]\<rparr>]
      \<lparr>sent = [], alive = True\<rparr> =
      ([], \<lparr>sent = map Resp_block bs @ [Resp_done 3 (word_of_nat 2)], alive = True\<rparr>) \<and>
    receive demo_unzip bs (new_write 3 ''r'' ''/d'' 0 False False [demo_entry ''a'' 1, demo_entry ''b'' 0] False) empty_fs
      = (Inr (), rj', rfs') \<and>
    content_at (modify_time rj' rfs') ''/d/a'' = Some [7, 7, 7] \<and>
    mtime_at (modify_time rj' rfs') ''/d/a'' = Some 1000000000 \<and>
    content_at (modify_time rj' rfs') ''/d/b'' = Some []"
proof -
  let ?es = "[demo_entry ''a'' 1, demo_entry ''b'' 0]"
  let ?cs = "[[7, 7, 7], []] :: bytes list"
  let ?sj = "job_default\<lparr>job_id := 3, remote := ''r'', path := ''/s'', files := ?es\<rparr>"
  let ?rj = "new_write 3 ''r'' ''/d'' 0 False False ?es False"
  have small: "length ?es < 2 ^ 31" by simp
  have reading: "new_read 3 ''r'' ''/s'' 0 False False (Inr ?es) False = Inr ?sj"
    by (simp add: new_read_def job_default_def sum_sizes_def demo_entry_def)
  have src: "\<forall>k < length ?es. reads_as demo_src (dest_path ?sj k) (?cs ! k)"
    using demo_src_reads by (simp add: dest_path_def join_def demo_entry_def all_less_two)
  have paths: "dest_path ?rj 0 = ''/d/a''" "dest_path ?rj (Suc 0) = ''/d/b''"
    by (simp_all add: dest_path_def join_def new_write_def job_default_def demo_entry_def path_join_def starts_with_def)
  have dst: "fs_ok empty_fs" "length (concat ?cs) \<le> room empty_fs"
    by (simp_all add: fs_ok_def empty_fs_def)
  have two: "length (files ?rj) = 2" by (simp add: new_write_def job_default_def)
  have tok: "targets_ok ?rj empty_fs"
    by (auto simp: targets_ok_def two download_path_def paths less_Suc_eq numeral_2_eq_2 empty_fs_def
         path_parent_def Let_def syncs_def)
  obtain k bs rj' rfs' where r: "ticks k demo_zip demo_src [?sj] \<lparr>sent = [], alive = True\<rparr> =
       ([], \<lparr>sent = map Resp_block bs @ [Resp_done 3 (word_of_nat (length ?es))], alive = True\<rparr>)"
     "receive demo_unzip bs ?rj empty_fs = (Inr (), rj', rfs')"
     "\<forall>k < length ?es. published (modify_time rj' rfs') ?rj k (?cs ! k)"
    using transfer_delivers [where zc = demo_zip and zd = demo_unzip, OF demo_zip_law reading refl _ small src dst(1) tok dst(2)]
    by auto
  have fn: "files ?rj = ?es" by (simp add: new_write_def job_default_def)
  have "published (modify_time rj' rfs') ?rj 0 [7, 7, 7]" "published (modify_time rj' rfs') ?rj (Suc 0) []"
    using r(3) by (force, force)
  then show ?thesis
    using r(1,2) unfolding published_def paths fn
    by (intro exI [of _ k] exI [of _ bs] exI [of _ rj'] exI [of _ rfs']) (simp add: demo_entry_def)
qed

subsection \<open>Jobs end\<close>

lemma fill_progress:
  assumes "fill fs h r acc = Inr (buf, h')"
  shows "\<exists>d. buf = acc @ d \<and> h' = (fst h, snd h + length d) \<and>
    length d \<le> length (content (inodes fs (fst h))) - snd h"
  using assms
proof (induction fs h r acc rule: fill.induct)
  case (1 fs h r acc)
  obtain i pos where h: "h = (i, pos)" by (cases h)
  show ?case
  proof (cases "os_read fs h r")
    case (Inl e)
    then show ?thesis using 1(2) by (subst (asm) fill.simps) simp
  next
    case (Inr bs)
    then have bs: "length bs \<le> length (content (inodes fs i)) - pos"
      by (auto simp: os_read_def h split: option.splits)
    show ?thesis
    proof (cases "bs = [] \<or> length bs = r")
      case True
      then show ?thesis using 1(2) bs Inr h by (subst (asm) fill.simps) (auto simp: Let_def)
    next
      case False
      then have "fill fs (i, pos + length bs) (r - length bs) (acc @ bs) = Inr (buf, h')"
        using 1(2) Inr h by (subst (asm) fill.simps) (simp add: Let_def)
      with 1(1) [OF Inr refl refl False] h obtain d where
        "buf = (acc @ bs) @ d" "h' = (i, pos + length bs + length d)"
        "length d \<le> length (content (inodes fs i)) - (pos + length bs)"
        by auto
      with bs h show ?thesis by (intro exI [of _ "bs @ d"]) auto
    qed
  qed
qed

text \<open>What one call does to a single job that does not wait for confirmations.\<close>

lemma tick_open_file:
  assumes "handle_opt j = Some (i, pos)" and "idx (file_num j) < length (files j)"
    and "\<not> enable_overwrite_detection j" and "\<not> is_last_job j" and "alive st"
  obtains (next_one) j1 r st' where "handle_read_jobs zc fs [j] st = (r, [next_file j], st')" "alive st'"
  | (further) pos' f t r st' where
      "handle_read_jobs zc fs [j] st =
        (r, [j\<lparr>handle_opt := Some (i, pos'), finished_size := f, transferred := t\<rparr>], st')"
      "pos < pos'" "pos' \<le> length (content (inodes fs i))" "alive st'"
proof (cases "fill fs (i, pos) buf_size []")
  case (Inl e)
  then have "job_read zc fs j st = (Inl e, next_file j, st)"
    using assms by (simp add: job_read_def read_block_def Let_def)
  then have "handle_read_jobs zc fs [j] st = (Inr None, [next_file j],
      st\<lparr>sent := sent st @ [Resp_error (job_id (next_file j)) (Inl e) (file_num (next_file j))]\<rparr>)"
    using assms(4,5) by (simp add: handle_read_jobs_def read_outcome_def stream_send_def)
  then show ?thesis by (rule next_one) (simp add: assms(5))
next
  case (Inr p)
  obtain buf h' where p: "fill fs (i, pos) buf_size [] = Inr (buf, h')" using Inr by (cases p) auto
  obtain d where d: "buf = d" "h' = (i, pos + length d)" "length d \<le> length (content (inodes fs i)) - pos"
    using fill_progress [OF p] by auto
  show ?thesis
  proof (cases "buf = []")
    case True
    then have "\<exists>b. job_read zc fs j st = (Inr (Some b), next_file j, st)"
      using assms p by (simp add: job_read_def read_block_def Let_def)
    then obtain b where "job_read zc fs j st = (Inr (Some b), next_file j, st)" ..
    from tick_block [OF this assms(5,4)] show ?thesis by (rule next_one) (simp add: assms(5))
  next
    case False
    have "\<exists>b f t. job_read zc fs j st =
        (Inr (Some b), j\<lparr>handle_opt := Some (i, pos + length d), finished_size := f, transferred := t\<rparr>, st)"
      using assms p False d by (auto simp: job_read_def read_block_def Let_def split: prod.splits)
    then obtain b f t where "job_read zc fs j st =
        (Inr (Some b), j\<lparr>handle_opt := Some (i, pos + length d), finished_size := f, transferred := t\<rparr>, st)"
      by blast
    from tick_block [OF this assms(5,4)] show ?thesis
    proof (rule further)
      show "pos < pos + length d" using False d by simp
      show "pos + length d \<le> length (content (inodes fs i))"
        using False d(1,3) by (cases "length d") auto
      show "alive (st\<lparr>sent := sent st @ [Resp_block b]\<rparr>)" by (simp add: assms(5))
    qed
  qed
qed

lemma ticks_Suc_ex:
  assumes "handle_read_jobs zc fs js st = (r, js', st')" and "\<exists>k. fst (ticks k zc fs js' st') = []"
  shows "\<exists>k. fst (ticks k zc fs js st) = []"
proof -
  from assms(2) obtain k where "fst (ticks k zc fs js' st') = []" ..
  then have "fst (ticks (Suc k) zc fs js st) = []" using assms(1) by simp
  then show ?thesis by blast
qed

lemma job_ends:
  assumes "file_num j = word_of_nat n" and "n + m = length (files j)" and "length (files j) < 2 ^ 31"
    and "\<not> enable_overwrite_detection j" and "\<not> is_last_job j" and "alive st"
  shows "\<exists>k. fst (ticks k zc fs [j] st) = []"
  using assms
proof (induction m arbitrary: n j st)
  case 0
  then have "job_read zc fs j st = (Inr None, j\<lparr>handle_opt := None\<rparr>, st)"
    using idx_of_nat [of n] by (simp add: job_read_def)
  then have "\<exists>r st'. handle_read_jobs zc fs [j] st = (r, [], st')"
    using 0 by (auto simp: handle_read_jobs_def read_outcome_def stream_send_def job_completed_def
        remove_job_def split: option.splits)
  then obtain r st' where "handle_read_jobs zc fs [j] st = (r, [], st')" by blast
  then show ?case by (rule ticks_Suc_ex) simp
next
  case (Suc m)
  have n: "n < length (files j)" "n < 2 ^ 31" using Suc.prems by simp_all
  have nxt: "\<exists>k. fst (ticks k zc fs [next_file j'] st') = []"
    if "file_num j' = file_num j" "files j' = files j" "\<not> enable_overwrite_detection j'"
       "\<not> is_last_job j'" "alive st'" for j' st'
  proof (rule Suc.IH [where n = "Suc n"])
    show "file_num (next_file j') = word_of_nat (Suc n)"
      using next_file_num [of j' n] that(1) Suc.prems(1) by simp
  qed (use that Suc.prems in \<open>simp_all add: next_file_def\<close>)
  have opn: "\<exists>k. fst (ticks k zc fs [j'] st') = []"
    if "handle_opt j' = Some (i, pos)" "file_num j' = file_num j" "files j' = files j"
       "\<not> enable_overwrite_detection j'" "\<not> is_last_job j'" "alive st'" for j' st' i pos
    using that
  proof (induction "length (content (inodes fs i)) - pos" arbitrary: pos j' st' rule: less_induct)
    case less
    have ix: "idx (file_num j') < length (files j')" using less.prems n idx_of_nat [of n] Suc.prems(1) by simp
    show ?case
    proof (rule tick_open_file [OF less.prems(1) ix less.prems(4,5,6), of zc fs])
      fix r st1 assume t: "handle_read_jobs zc fs [j'] st' = (r, [next_file j'], st1)" and "alive st1"
      with nxt [OF less.prems(2-5)] show ?thesis by (intro ticks_Suc_ex [OF t]) simp
    next
      fix pos' f tr r st1
      assume t: "handle_read_jobs zc fs [j'] st' =
          (r, [j'\<lparr>handle_opt := Some (i, pos'), finished_size := f, transferred := tr\<rparr>], st1)"
        and "pos < pos'" "pos' \<le> length (content (inodes fs i))" "alive st1"
      then have "length (content (inodes fs i)) - pos' < length (content (inodes fs i)) - pos" by simp
      then show ?thesis
        by (intro ticks_Suc_ex [OF t] less.hyps [of pos']) (use less.prems \<open>alive st1\<close> in simp_all)
    qed
  qed
  have ix: "idx (file_num j) < length (files j)" using Suc.prems(1) n idx_of_nat [of n] by simp
  show ?case
  proof (cases "handle_opt j")
    case (Some h)
    then show ?thesis using opn [of j "fst h" "snd h" st] Suc.prems by (cases h) simp
  next
    case None
    show ?thesis
    proof (cases "os_open fs (dest_path j (idx (file_num j)))")
      case (Inl e)
      then have "job_read zc fs j st = (Inl e, next_file j, st)" using None ix by (simp add: job_read_def)
      then have t: "handle_read_jobs zc fs [j] st = (Inr None, [next_file j],
          st\<lparr>sent := sent st @ [Resp_error (job_id (next_file j)) (Inl e) (file_num (next_file j))]\<rparr>)"
        using Suc.prems(5,6) by (simp add: handle_read_jobs_def read_outcome_def stream_send_def)
      show ?thesis by (rule ticks_Suc_ex [OF t], rule nxt) (use Suc.prems in simp_all)
    next
      case (Inr h)
      then obtain i where op: "os_open fs (dest_path j (idx (file_num j))) = Inr (i, 0)"
        by (auto simp: os_open_def split: option.splits if_splits)
      have "\<exists>k. fst (ticks k zc fs [opened i j] st) = []"
        by (rule opn [of _ i 0]) (use Suc.prems in \<open>simp_all add: opened_def\<close>)
      then obtain k where "fst (ticks k zc fs [opened i j] st) = []" ..
      moreover have "k \<noteq> 0" using calculation by (cases k) auto
      ultimately have "fst (ticks k zc fs [j] st) = []"
        using handle_read_jobs_open [OF None ix op Suc.prems(5), of zc st] by (cases k) simp_all
      then show ?thesis by blast
    qed
  qed
qed

text \<open>C7. A job ends: as long as the stream takes the messages, a job without overwrite detection that
  is alone in the list and is not only kept for resuming is gone from the list after finitely many
  calls of \<^verbatim>\<open>handle_read_jobs\<close>, whatever errors opening and reading its files gives.
\<close>

theorem read_job_ends:
  assumes "idx (file_num j) \<le> length (files j)" and "length (files j) < 2 ^ 31"
    and "\<not> enable_overwrite_detection j" and "\<not> is_last_job j" and "alive st"
  shows "\<exists>k. fst (ticks k zc fs [j] st) = []"
proof -
  have "file_num j = word_of_nat (idx (file_num j))" by (rule word_of_idx [symmetric])
  then show ?thesis
    using job_ends [of j "idx (file_num j)" "length (files j) - idx (file_num j)" st zc fs] assms by simp
qed

lemma read_job_ends_witness:
  "\<exists>k. fst (ticks k demo_zip empty_fs [job_default\<lparr>files := [demo_entry ''a'' 1]\<rparr>] \<lparr>sent = [], alive = True\<rparr>) = []"
  by (rule read_job_ends) (simp_all add: job_default_def idx_def)

text \<open>With overwrite detection it may not: a file that was last changed before 1970 has no digest, the
  error leaves the job as it is, and every further call reports the same error.\<close>

lemma old_file_blocks_job:
  assumes "handle_opt j = Some (i, pos)" and "mtime (inodes fs i) < 0" and "idx (file_num j) < length (files j)"
    and "enable_overwrite_detection j" and "\<not> file_confirmed j" and "\<not> file_is_waiting j"
    and "\<not> is_last_job j" and "alive st"
  shows "fst (ticks k zc fs [j] st) = [j]"
  using assms(8)
proof (induction k arbitrary: st)
  case (Suc k)
  have "job_read zc fs j st = (Inl Time_failed, j, st)"
    using assms(1-6) by (simp add: job_read_def send_current_digest_def)
  then have "handle_read_jobs zc fs [j] st =
      (Inr None, [j], st\<lparr>sent := sent st @ [Resp_error (job_id j) (Inl Time_failed) (file_num j)]\<rparr>)"
    using Suc.prems assms(7) by (simp add: handle_read_jobs_def read_outcome_def stream_send_def)
  then show ?case using Suc by simp
qed simp

subsection \<open>Confirmation\<close>

text \<open>
  The life of a sending job: ticks of the reader, each with the file system it meets, and
  confirmations from the peer. \<open>job_run\<close> collects the blocks that are read.
\<close>

datatype job_event = Tick fsys | Confirm send_confirm

fun job_run ::
    "(bytes \<Rightarrow> bytes) \<Rightarrow> job_event list \<Rightarrow> transfer_job \<Rightarrow> ostream
      \<Rightarrow> file_block list \<times> transfer_job \<times> ostream" where
  "job_run zc [] j st = ([], j, st)"
| "job_run zc (Tick fs # evs) j st = (case job_read zc fs j st of (res, j1, st1) \<Rightarrow>
     (case job_run zc evs j1 st1 of (bs, j2, st2) \<Rightarrow>
        ((case res of Inr (Some b) \<Rightarrow> [b] | _ \<Rightarrow> []) @ bs, j2, st2)))"
| "job_run zc (Confirm r # evs) j st = job_run zc evs (confirm r j) st"

definition approves :: "send_confirm \<Rightarrow> bool" where
  "approves r = (case sc_union r of Some (Skip s) \<Rightarrow> \<not> s | Some (Offset_blk _) \<Rightarrow> True | None \<Rightarrow> False)"

lemma read_block_num:
  assumes "read_block zc fs j = (res, j1)"
  shows "file_num j1 = file_num j \<or> file_num j1 = file_num j + 1"
    "res = Inr (Some b) \<Longrightarrow> blk_file_num b = file_num j"
    "file_confirmed j1 \<Longrightarrow> file_confirmed j \<and> file_num j1 = file_num j"
    "enable_overwrite_detection j1 = enable_overwrite_detection j"
  using assms
  by (auto simp: read_block_def next_file_def Let_def word_of_idx
      split: option.splits sum.splits prod.splits if_splits)

lemma job_read_cases:
  assumes "job_read zc fs j st = (res, j1, st1)"
  obtains (no_block) "\<And>b. res \<noteq> Inr (Some b)" "file_num j1 = file_num j \<or> file_num j1 = file_num j + 1"
      "enable_overwrite_detection j1 = enable_overwrite_detection j"
      "file_confirmed j1 \<Longrightarrow> file_confirmed j \<and> file_num j1 = file_num j"
  | (reads) jo where "read_block zc fs jo = (res, j1)" "file_num jo = file_num j"
      "enable_overwrite_detection jo = enable_overwrite_detection j"
      "file_confirmed jo \<Longrightarrow> file_confirmed j"
      "enable_overwrite_detection j \<Longrightarrow> file_confirmed jo"
proof (cases "length (files j) \<le> idx (file_num j)")
  case True
  then show ?thesis using assms by (intro no_block) (auto simp: job_read_def)
next
  case False
  define jo where "jo = (case handle_opt j of Some h \<Rightarrow> Inr j
     | None \<Rightarrow> (case os_open fs (dest_path j (idx (file_num j))) of
           Inr h \<Rightarrow> Inr (j\<lparr>handle_opt := Some h, file_confirmed := False, file_is_waiting := False\<rparr>)
         | Inl e \<Rightarrow> Inl e))"
  show ?thesis
  proof (cases jo)
    case (Inl e)
    then have "job_read zc fs j st = (Inl e, next_file j, st)"
      using False by (simp add: job_read_def jo_def [symmetric])
    then show ?thesis using assms by (intro no_block) (auto simp: next_file_def)
  next
    case (Inr j2)
    have j2: "file_num j2 = file_num j" "enable_overwrite_detection j2 = enable_overwrite_detection j"
        "file_confirmed j2 \<Longrightarrow> file_confirmed j"
      using Inr by (auto simp: jo_def split: option.splits sum.splits)
    have rd: "job_read zc fs j st = (if enable_overwrite_detection j2 \<and> \<not> file_confirmed j2
          then if \<not> file_is_waiting j2
               then case send_current_digest fs j2 st of
                      Inl e \<Rightarrow> (Inl e, j2, st)
                    | Inr st' \<Rightarrow> (Inr None, set_file_is_waiting True j2, st')
               else (Inr None, j2, st)
          else case read_block zc fs j2 of (r, j3) \<Rightarrow> (r, j3, st))"
      using False Inr by (simp add: job_read_def jo_def [symmetric])
    show ?thesis
    proof (cases "enable_overwrite_detection j2 \<and> \<not> file_confirmed j2")
      case True
      then show ?thesis using assms j2
        by (intro no_block) (auto simp: rd set_file_is_waiting_def split: if_splits sum.splits)
    next
      case False
      then have "read_block zc fs j2 = (res, j1)"
        using assms by (auto simp: rd simp del: de_Morgan_conj split: prod.splits)
      then show ?thesis by (rule reads) (use j2 False in auto)
    qed
  qed
qed

lemma job_read_num:
  assumes "job_read zc fs j st = (res, j1, st1)"
  shows "file_num j1 = file_num j \<or> file_num j1 = file_num j + 1"
    "res = Inr (Some b) \<Longrightarrow> blk_file_num b = file_num j"
proof -
  show "file_num j1 = file_num j \<or> file_num j1 = file_num j + 1"
  proof (rule job_read_cases [OF assms])
    fix jo assume "read_block zc fs jo = (res, j1)" "file_num jo = file_num j"
    with read_block_num(1) [of zc fs jo res j1] show ?thesis by simp
  qed
  assume b: "res = Inr (Some b)"
  show "blk_file_num b = file_num j"
  proof (rule job_read_cases [OF assms])
    fix jo assume "read_block zc fs jo = (res, j1)" "file_num jo = file_num j"
    with read_block_num(2) [of zc fs jo res j1 b] b show ?thesis by simp
  qed (use b in blast)
qed

lemma job_read_confirmed:
  assumes "job_read zc fs j st = (res, j1, st1)" and "enable_overwrite_detection j"
  shows "enable_overwrite_detection j1" "res = Inr (Some b) \<Longrightarrow> file_confirmed j"
    "file_confirmed j1 \<Longrightarrow> file_confirmed j \<and> file_num j1 = file_num j"
proof -
  show "enable_overwrite_detection j1"
  proof (rule job_read_cases [OF assms(1)])
    fix jo assume "read_block zc fs jo = (res, j1)"
      "enable_overwrite_detection jo = enable_overwrite_detection j"
    with read_block_num(4) [of zc fs jo res j1] assms(2) show ?thesis by simp
  qed (use assms(2) in simp)
  {
    assume b: "res = Inr (Some b)"
    show "file_confirmed j"
      by (rule job_read_cases [OF assms(1)]) (use assms(2) b in blast)+
  }
  assume c: "file_confirmed j1"
  show "file_confirmed j \<and> file_num j1 = file_num j"
  proof (rule job_read_cases [OF assms(1)])
    fix jo assume "read_block zc fs jo = (res, j1)" "file_num jo = file_num j"
      "file_confirmed jo \<Longrightarrow> file_confirmed j"
    with read_block_num(3) [of zc fs jo res j1] c show ?thesis by simp
  qed (use c in simp)
qed

lemma confirm_props:
  "enable_overwrite_detection (confirm r j) = enable_overwrite_detection j"
  "file_num (confirm r j) = file_num j \<or> file_num (confirm r j) = file_num j + 1"
  "file_confirmed (confirm r j) \<Longrightarrow> file_num (confirm r j) = file_num j \<and>
     (file_confirmed j \<or> (sc_file_num r = file_num j \<and> approves r))"
  by (auto simp: confirm_def set_file_skipped_def set_file_confirmed_def set_file_is_waiting_def
      Let_def approves_def split: option.splits confirm_choice.splits)

lemma job_run_confirmed:
  assumes "enable_overwrite_detection j" and "job_run zc evs j st = (bs, j', st')" and "b \<in> set bs"
    and "file_confirmed j \<Longrightarrow> \<exists>r \<in> H. sc_file_num r = file_num j \<and> approves r"
  shows "\<exists>r \<in> H \<union> {r. Confirm r \<in> set evs}. sc_file_num r = blk_file_num b \<and> approves r"
  using assms
proof (induction evs arbitrary: j st bs H)
  case Nil
  then show ?case by simp
next
  case (Cons ev evs)
  show ?case
  proof (cases ev)
    case (Confirm r)
    have run: "job_run zc evs (confirm r j) st = (bs, j', st')" using Cons.prems(2) Confirm by simp
    have "\<exists>r' \<in> insert r H. sc_file_num r' = file_num (confirm r j) \<and> approves r'"
      if "file_confirmed (confirm r j)"
      using confirm_props(3) [OF that] Cons.prems(4) by auto
    from Cons.IH [OF _ run Cons.prems(3) this] Cons.prems(1) confirm_props(1) [of r j] Confirm
    show ?thesis by auto
  next
    case (Tick fs)
    obtain res j1 st1 where rd: "job_read zc fs j st = (res, j1, st1)" by (cases "job_read zc fs j st") auto
    obtain bs' where run: "job_run zc evs j1 st1 = (bs', j', st')"
      and bs: "bs = (case res of Inr (Some b) \<Rightarrow> [b] | _ \<Rightarrow> []) @ bs'"
      using Cons.prems(2) Tick rd by (cases "job_run zc evs j1 st1") auto
    note props = job_read_confirmed [OF rd Cons.prems(1)]
    show ?thesis
    proof (cases "b \<in> set bs'")
      case True
      have "\<exists>r \<in> H. sc_file_num r = file_num j1 \<and> approves r" if "file_confirmed j1"
        using props(3) [OF that] Cons.prems(4) by auto
      from Cons.IH [OF props(1) run True this] Tick show ?thesis by auto
    next
      case False
      then have "res = Inr (Some b)" using bs Cons.prems(3) by (auto split: sum.splits option.splits)
      with props(2) job_read_num(2) [OF rd] Cons.prems(4) show ?thesis by fastforce
    qed
  qed
qed

text \<open>C12. Nothing is sent without consent: for a job with overwrite detection, every block that
  any sequence of reads and peer messages produces belongs to a file for which the sequence
  holds a confirmation that is not a skip. A confirmation for another file number, or one
  that arrived before the file was opened, does not count.
\<close>

theorem only_confirmed_files_are_sent:
  assumes "enable_overwrite_detection j" and "\<not> file_confirmed j"
    and "job_run zc evs j st = (bs, j', st')" and "b \<in> set bs"
  shows "\<exists>r. Confirm r \<in> set evs \<and> sc_file_num r = blk_file_num b \<and> approves r"
  using job_run_confirmed [OF assms(1,3,4), of "{}"] assms(2) by auto

definition detect_job :: transfer_job where
  "detect_job = new_write 3 ''r'' ''/s'' 0 False False [demo_entry ''a'' 1, demo_entry ''b'' 0] True"

definition yes :: "i32 \<Rightarrow> send_confirm" where
  "yes n = \<lparr>sc_id = 3, sc_file_num = n, sc_union = Some (Offset_blk 0)\<rparr>"

lemma detect_tick:
  "job_read demo_zip demo_src detect_job \<lparr>sent = [], alive = True\<rparr> =
    (Inr None, detect_job\<lparr>handle_opt := Some (0, 0), file_is_waiting := True\<rparr>,
     \<lparr>sent = [Resp_digest \<lparr>dig_id = 3, dig_file_num = 0, dig_modified = 1, dig_size = 3, dig_identical = False\<rparr>],
      alive = True\<rparr>)"
  by (simp add: job_read_def detect_job_def new_write_def job_default_def demo_entry_def dest_path_def
      join_def path_join_def starts_with_def os_open_def demo_src_def empty_fs_def idx_def
      send_current_digest_def stream_send_def set_file_is_waiting_def)

lemma detect_read:
  "fst (job_read demo_zip demo_src (detect_job\<lparr>handle_opt := Some (0, 0), file_is_waiting := True,
      file_confirmed := True\<rparr>) st)
    = Inr (Some \<lparr>blk_job = 3, blk_file_num = 0, blk_data = [0], blk_compressed = True\<rparr>)"
proof -
  have rd: "fill demo_src (0, 0) buf_size [] = Inr ([7, 7, 7], (0, 3))"
    by (simp add: fill_readable demo_src_def empty_fs_def buf_size_def Let_def)
  show ?thesis
    by (simp add: job_read_def read_block_def rd detect_job_def new_write_def job_default_def idx_def
         demo_entry_def encode_block_def is_compressed_file_def get_ext_def demo_zip_def Let_def)
qed

lemma detect_confirm:
  "confirm (yes 0) (detect_job\<lparr>handle_opt := h, file_is_waiting := True\<rparr>)
    = detect_job\<lparr>handle_opt := h, file_is_waiting := True, file_confirmed := True\<rparr>"
  by (simp add: confirm_def yes_def set_file_confirmed_def detect_job_def new_write_def job_default_def)

lemma detect_run:
  "fst (job_run demo_zip [Tick demo_src, Confirm (yes 0), Tick demo_src] detect_job \<lparr>sent = [], alive = True\<rparr>)
    = [\<lparr>blk_job = 3, blk_file_num = 0, blk_data = [0], blk_compressed = True\<rparr>]"
proof -
  define st where "st = \<lparr>sent = [Resp_digest \<lparr>dig_id = 3, dig_file_num = 0, dig_modified = 1, dig_size = 3,
      dig_identical = False\<rparr>], alive = True\<rparr>"
  define j1 where "j1 = detect_job\<lparr>handle_opt := Some (0, 0), file_is_waiting := True, file_confirmed := True\<rparr>"
  obtain j2 st2 where "job_read demo_zip demo_src j1 st =
      (Inr (Some \<lparr>blk_job = 3, blk_file_num = 0, blk_data = [0], blk_compressed = True\<rparr>), j2, st2)"
    using detect_read [of st] unfolding j1_def [symmetric] by (metis prod.collapse)
  then show ?thesis
    by (simp only: job_run.simps detect_tick detect_confirm j1_def [symmetric] st_def [symmetric]
        prod.case sum.case option.case append.simps fst_conv)
qed

lemma only_confirmed_files_are_sent_witness:
  "\<exists>r. Confirm r \<in> set [Tick demo_src, Confirm (yes 0), Tick demo_src] \<and> sc_file_num r = 0 \<and> approves r"
proof -
  define b where "b = \<lparr>blk_job = 3, blk_file_num = 0, blk_data = [0 :: u8], blk_compressed = True\<rparr>"
  obtain bs j' st' where run: "job_run demo_zip [Tick demo_src, Confirm (yes 0), Tick demo_src] detect_job
      \<lparr>sent = [], alive = True\<rparr> = (bs, j', st')"
    by (metis prod_cases3)
  then have "b \<in> set bs" using detect_run by (simp add: b_def)
  from only_confirmed_files_are_sent [OF _ _ run this] show ?thesis
    by (simp add: b_def detect_job_def new_write_def job_default_def)
qed

lemma job_run_numbers:
  assumes "file_num j = word_of_nat n" and "n + length evs < 2 ^ 31"
    and "job_run zc evs j st = (bs, j', st')" and "b \<in> set bs"
  shows "n \<le> idx (blk_file_num b)"
  using assms
proof (induction evs arbitrary: n j st bs)
  case Nil
  then show ?case by simp
next
  case (Cons ev evs)
  have step: "n \<le> idx (blk_file_num b)"
    if "job_run zc evs j1 st1 = (bs1, j', st')" "b \<in> set bs1"
       "file_num j1 = file_num j \<or> file_num j1 = file_num j + 1" for j1 st1 bs1
  proof -
    from that(3) Cons.prems(1) have "file_num j1 = word_of_nat n \<or> file_num j1 = word_of_nat (Suc n)"
      by (auto simp: add.commute)
    then show ?thesis
    proof
      assume "file_num j1 = word_of_nat n"
      from Cons.IH [OF this _ that(1,2)] Cons.prems(2) show ?thesis by simp
    next
      assume "file_num j1 = word_of_nat (Suc n)"
      from Cons.IH [OF this _ that(1,2)] Cons.prems(2) show ?thesis by simp
    qed
  qed
  show ?case
  proof (cases ev)
    case (Confirm r)
    with Cons.prems(3) have run: "job_run zc evs (confirm r j) st = (bs, j', st')" by simp
    show ?thesis by (rule step [OF run Cons.prems(4) confirm_props(2)])
  next
    case (Tick fs)
    obtain res j1 st1 where rd: "job_read zc fs j st = (res, j1, st1)" by (cases "job_read zc fs j st") auto
    obtain bs' where run: "job_run zc evs j1 st1 = (bs', j', st')"
      and bs: "bs = (case res of Inr (Some b) \<Rightarrow> [b] | _ \<Rightarrow> []) @ bs'"
      using Cons.prems(3) Tick rd by (cases "job_run zc evs j1 st1") auto
    show ?thesis
    proof (cases "b \<in> set bs'")
      case True
      show ?thesis by (rule step [OF run True job_read_num(1) [OF rd]])
    next
      case False
      then have "res = Inr (Some b)" using bs Cons.prems(4) by (auto split: sum.splits option.splits)
      from job_read_num(2) [OF rd this] Cons.prems(1,2) idx_of_nat [of n] show ?thesis by simp
    qed
  qed
qed

text \<open>A skipped file is over: once the peer has asked to skip the file a job is at, no later
  block, whatever events follow, belongs to that file or an earlier one.
\<close>

theorem skipped_file_is_not_sent:
  assumes "file_num j = word_of_nat n" and "sc_file_num r = word_of_nat n" and "sc_union r = Some (Skip True)"
    and "Suc n + length evs < 2 ^ 31"
    and "job_run zc (Confirm r # evs) j st = (bs, j', st')" and "b \<in> set bs"
  shows "n < idx (blk_file_num b)"
proof -
  have "file_num (confirm r j) = word_of_nat (Suc n)"
    using assms(1-3)
    by (simp add: confirm_def set_file_skipped_def set_file_confirmed_def set_file_is_waiting_def
        Let_def add.commute)
  from job_run_numbers [OF this assms(4) _ assms(6), of zc st j' st'] assms(5) show ?thesis by simp
qed

subsection \<open>Incomplete files\<close>

lemma switch_publishes:
  assumes "blk_job b = job_id j" and "idx (blk_file_num b) < length (files j)"
    and "idx (blk_file_num b) \<noteq> idx (file_num j) \<or> handle_opt j = None"
    and "idx (file_num j) = cur" and "cur < length (files j)" and "fs_ok fs"
    and "content_at fs (download_path j cur) = Some d"
    and "\<not> deny fs (dest_path j cur)" and "dest_path j cur \<notin> set (dirs fs)" and "syncs fs"
    and "\<not> deny fs (download_path j (idx (blk_file_num b)))"
    and "dest_path j cur \<noteq> download_path j (idx (blk_file_num b))"
    and "job_write zd b j fs = (res, j', fs')"
  shows "published fs' j cur d"
proof -
  let ?n = "idx (blk_file_num b)"
  have pub: "published (modify_time j fs) j cur d"
    by (rule modify_time_publishes) (use assms in simp_all)
  from write_open_props [OF assms(6,10,11)] obtain i fs1 where w:
      "write_open b j fs = (Inr (), j\<lparr>file_num := blk_file_num b, handle_opt := Some (i, 0)\<rparr>, fs1)"
      "names fs1 (download_path j ?n) = Some i" "fs_ok fs1"
      "\<And>q. q \<noteq> download_path j ?n \<Longrightarrow>
        content_at fs1 q = content_at (modify_time j fs) q \<and> mtime_at fs1 q = mtime_at (modify_time j fs) q"
    by metis
  have "names fs1 (dest_path j cur) \<noteq> Some i"
    using fs_ok_inj [OF w(3), of "dest_path j cur" i "download_path j ?n"] w(2) assms(12) by auto
  moreover have "write_data zd b (j\<lparr>file_num := blk_file_num b, handle_opt := Some (i, 0)\<rparr>) fs1 = (res, j', fs')"
    using assms(1-3,13) w(1) by (auto simp: job_write_def)
  ultimately have "content_at fs' (dest_path j cur) = content_at fs1 (dest_path j cur)"
      "mtime_at fs' (dest_path j cur) = mtime_at fs1 (dest_path j cur)"
    by (cases "names fs1 (dest_path j cur)";
        auto simp: write_data_def os_write_all_def Let_def content_at_def mtime_at_def
          split: sum.splits prod.splits if_splits)+
  then show ?thesis using pub w(4) [OF assms(12)] by (simp add: published_def)
qed

text \<open>Whatever has arrived is published: when a block of another file number comes, the
  download of the current file takes the place of the target with the content it has by
  then, complete or not, and with the modification time of the entry. In particular a file
  whose reading failed half-way replaces the target in truncated form.
\<close>

theorem next_block_publishes_partial_file:
  assumes "blk_job b = job_id j" and "idx (blk_file_num b) < length (files j)"
    and "idx (blk_file_num b) \<noteq> idx (file_num j)"
    and "idx (file_num j) = cur" and "cur < length (files j)" and "fs_ok fs"
    and "content_at fs (download_path j cur) = Some part"
    and "targets_ok j fs"
    and "job_write zd b j fs = (res, j', fs')"
  shows "published fs' j cur part"
  by (rule switch_publishes [OF assms(1,2) disjI1 [OF assms(3)] assms(4-7) _ _ targets_syncs [OF assms(8)] _ _ assms(9)])
     (use targets_okD [OF assms(8) assms(5,2)] targets_okD(2) [OF assms(8) assms(2) assms(2)] in auto)

text \<open>A left-over is published first: when a fresh job gets its first block and a download
  of an earlier attempt lies under the download name, the left-over takes the place of the
  target before any byte of the new transfer is stored, also when the block then fails.
\<close>

theorem first_block_publishes_leftover:
  assumes "blk_job b = job_id j" and "blk_file_num b = file_num j" and "handle_opt j = None"
    and "idx (file_num j) = cur" and "cur < length (files j)" and "fs_ok fs"
    and "content_at fs (download_path j cur) = Some old"
    and "targets_ok j fs"
    and "job_write zd b j fs = (res, j', fs')"
  shows "published fs' j cur old"
  by (rule switch_publishes [OF assms(1) _ disjI2 [OF assms(3)] assms(4-7) _ _ targets_syncs [OF assms(8)] _ _ assms(9)])
     (use assms(2,4,5) targets_okD [OF assms(8) assms(5,5)] in auto)

definition demo_recv :: transfer_job where
  "demo_recv = new_write 3 ''r'' ''/d'' 0 False False [demo_entry ''a'' 1, demo_entry ''b'' 0] False"

definition part_fs :: fsys where
  "part_fs = empty_fs\<lparr>names := [''/d/a.download'' \<mapsto> 0],
     inodes := (\<lambda>i. \<lparr>content = [9], mtime = 0\<rparr>), next_ino := 1\<rparr>"

lemma demo_recv_simps:
  "job_id demo_recv = 3" "files demo_recv = [demo_entry ''a'' 1, demo_entry ''b'' 0]"
  "dest_path demo_recv 0 = ''/d/a''" "dest_path demo_recv (Suc 0) = ''/d/b''"
  "download_path demo_recv 0 = ''/d/a.download''" "download_path demo_recv (Suc 0) = ''/d/b.download''"
  "handle_opt demo_recv = None" "file_num demo_recv = 0"
  by (simp_all add: demo_recv_def download_path_def dest_path_def join_def new_write_def job_default_def
      demo_entry_def path_join_def starts_with_def)

lemma path_handle [simp]:
  "dest_path (j\<lparr>handle_opt := h\<rparr>) k = dest_path j k"
  "download_path (j\<lparr>handle_opt := h\<rparr>) k = download_path j k"
  by (simp_all add: download_path_def dest_path_def join_def)

lemma demo_targets:
  assumes "deny fs = deny empty_fs" and "dirs fs = []" and "syncs fs"
  shows "targets_ok (demo_recv\<lparr>handle_opt := h\<rparr>) fs"
  using assms demo_recv_simps
  by (auto simp: targets_ok_def less_Suc_eq download_path_def dest_path_def join_def empty_fs_def
       path_parent_def Let_def demo_recv_def new_write_def job_default_def demo_entry_def
       path_join_def starts_with_def)

lemma part_fs_simps: "fs_ok part_fs" "content_at part_fs ''/d/a.download'' = Some [9]"
    "deny part_fs = deny empty_fs" "dirs part_fs = []" "syncs part_fs"
  by (simp_all add: fs_ok_def part_fs_def empty_fs_def content_at_def syncs_def)

lemma idx_small: "idx 0 = 0" "idx 1 = 1"
  by (simp_all add: idx_def)

lemma next_block_publishes_partial_file_witness:
  "\<exists>res j' fs'. job_write demo_unzip \<lparr>blk_job = 3, blk_file_num = 1, blk_data = [4], blk_compressed = False\<rparr>
      (demo_recv\<lparr>handle_opt := Some (0, 1)\<rparr>) part_fs = (res, j', fs') \<and> content_at fs' ''/d/a'' = Some [9]"
proof -
  let ?b = "\<lparr>blk_job = 3, blk_file_num = 1, blk_data = [4], blk_compressed = False\<rparr> :: file_block"
  define j where "j = demo_recv\<lparr>handle_opt := Some (0, 1)\<rparr>"
  have p: "dest_path j 0 = ''/d/a''" "download_path j 0 = ''/d/a.download''" "files j = files demo_recv"
      "job_id j = 3" "file_num j = 0"
    using demo_recv_simps by (simp_all add: j_def)
  obtain res j' fs' where w: "job_write demo_unzip ?b j part_fs = (res, j', fs')" by (metis prod_cases3)
  have t: "targets_ok j part_fs" using demo_targets part_fs_simps by (simp add: j_def)
  have "published fs' j 0 [9]"
    by (rule next_block_publishes_partial_file [OF _ _ _ _ _ part_fs_simps(1) _ t w])
       (simp_all add: p demo_recv_simps idx_small part_fs_simps)
  then show ?thesis using w unfolding j_def [symmetric] by (simp add: published_def p)
qed

lemma first_block_publishes_leftover_witness:
  "\<exists>res j' fs'. job_write demo_unzip \<lparr>blk_job = 3, blk_file_num = 0, blk_data = [4], blk_compressed = False\<rparr>
      demo_recv part_fs = (res, j', fs') \<and> content_at fs' ''/d/a'' = Some [9]"
proof -
  let ?b = "\<lparr>blk_job = 3, blk_file_num = 0, blk_data = [4], blk_compressed = False\<rparr> :: file_block"
  obtain res j' fs' where w: "job_write demo_unzip ?b demo_recv part_fs = (res, j', fs')" by (metis prod_cases3)
  have t: "targets_ok demo_recv part_fs"
    using demo_targets [of part_fs None] part_fs_simps demo_recv_simps(7)
    by (simp add: demo_recv_def new_write_def job_default_def)
  have "published fs' demo_recv 0 [9]"
    by (rule first_block_publishes_leftover [OF _ _ _ _ _ part_fs_simps(1) _ t w])
       (simp_all add: demo_recv_simps idx_small part_fs_simps)
  then show ?thesis using w by (simp add: published_def demo_recv_simps)
qed

definition demo_src2 :: fsys where
  "demo_src2 = demo_src\<lparr>inodes := (\<lambda>_. \<lparr>content = [5, 5], mtime = 0\<rparr>)\<rparr>"

lemma skip_run:
  "\<exists>j' st'. job_run demo_zip
      [Confirm \<lparr>sc_id = 3, sc_file_num = 0, sc_union = Some (Skip True)\<rparr>, Tick demo_src2, Confirm (yes 1), Tick demo_src2]
      detect_job \<lparr>sent = [], alive = True\<rparr>
    = ([\<lparr>blk_job = 3, blk_file_num = 1, blk_data = [5, 5], blk_compressed = False\<rparr>], j', st')"
proof -
  define j1 where "j1 = confirm \<lparr>sc_id = 3, sc_file_num = 0, sc_union = Some (Skip True)\<rparr> detect_job"
  have j1: "file_num j1 = 1" "files j1 = files detect_job" "handle_opt j1 = None" "path j1 = ''/s''"
    "enable_overwrite_detection j1" "\<not> file_confirmed j1" "\<not> file_is_waiting j1" "job_id j1 = 3"
    by (simp_all add: j1_def confirm_def set_file_skipped_def set_file_confirmed_def set_file_is_waiting_def
          detect_job_def new_write_def job_default_def)
  have fl: "files detect_job = [demo_entry ''a'' 1, demo_entry ''b'' 0]"
    by (simp add: detect_job_def new_write_def job_default_def)
  obtain st2 where t1: "job_read demo_zip demo_src2 j1 \<lparr>sent = [], alive = True\<rparr> =
      (Inr None, j1\<lparr>handle_opt := Some (1, 0), file_is_waiting := True\<rparr>, st2)"
    using j1 fl
    by (simp add: job_read_def demo_entry_def dest_path_def demo_src2_def
      join_def path_join_def starts_with_def os_open_def demo_src_def empty_fs_def idx_def
      send_current_digest_def stream_send_def set_file_is_waiting_def)
  have c: "confirm (yes 1) (j1\<lparr>handle_opt := Some (1, 0), file_is_waiting := True\<rparr>) =
      j1\<lparr>handle_opt := Some (1, 0), file_is_waiting := True, file_confirmed := True, file_skipped := False\<rparr>"
    using j1 by (simp add: confirm_def yes_def set_file_confirmed_def)
  have rd: "fill demo_src2 (Suc 0, 0) buf_size [] = Inr ([5, 5], (Suc 0, 2))"
    by (simp add: fill_readable demo_src2_def demo_src_def empty_fs_def buf_size_def Let_def)
  have "fst (job_read demo_zip demo_src2 (j1\<lparr>handle_opt := Some (1, 0), file_is_waiting := True, file_confirmed := True, file_skipped := False\<rparr>) st2) =
      Inr (Some \<lparr>blk_job = 3, blk_file_num = 1, blk_data = [5, 5], blk_compressed = False\<rparr>)"
    using j1 fl
    by (simp add: job_read_def read_block_def rd idx_def
         demo_entry_def encode_block_def is_compressed_file_def get_ext_def demo_zip_def Let_def)
  then obtain j3 st3 where t2: "job_read demo_zip demo_src2 (j1\<lparr>handle_opt := Some (1, 0), file_is_waiting := True, file_confirmed := True, file_skipped := False\<rparr>) st2 =
      (Inr (Some \<lparr>blk_job = 3, blk_file_num = 1, blk_data = [5, 5], blk_compressed = False\<rparr>), j3, st3)"
    by (metis prod.collapse)
  show ?thesis
    by (simp only: job_run.simps j1_def [symmetric] t1 c t2 prod.case sum.case option.case append.simps) simp
qed
lemma skipped_file_is_not_sent_witness:
  "\<exists>b j' st'. job_run demo_zip
      [Confirm \<lparr>sc_id = 3, sc_file_num = 0, sc_union = Some (Skip True)\<rparr>, Tick demo_src2, Confirm (yes 1), Tick demo_src2]
      detect_job \<lparr>sent = [], alive = True\<rparr> = ([b], j', st') \<and> 0 < idx (blk_file_num b)"
proof -
  let ?r = "\<lparr>sc_id = 3, sc_file_num = 0, sc_union = Some (Skip True)\<rparr> :: send_confirm"
  let ?evs = "[Tick demo_src2, Confirm (yes 1), Tick demo_src2]"
  obtain b j' st' where run: "job_run demo_zip (Confirm ?r # ?evs) detect_job \<lparr>sent = [], alive = True\<rparr> = ([b], j', st')"
    using skip_run by blast
  have "0 < idx (blk_file_num b)"
    by (rule skipped_file_is_not_sent [OF _ _ _ _ run])
       (simp_all add: detect_job_def new_write_def job_default_def)
  with run show ?thesis by blast
qed

text \<open>A failed create mixes two files: when a block of another file arrives and creating its
  download fails, the job has already moved to the new number but keeps the open handle of
  the file before; the next block of the new file is accepted and its bytes are appended to
  the file before, which has been published by then.
\<close>

theorem create_failure_mixes_files:
  assumes "blk_job b = job_id j" and "idx (blk_file_num b) < length (files j)"
    and "idx (blk_file_num b) \<noteq> idx (file_num j)"
    and "handle_opt j = Some (i, length (content (inodes fs i)))"
    and "deny fs (download_path j (idx (blk_file_num b)))"
    and "length (out_data zd b) \<le> room fs" and "\<not> sync_fails fs i"
  shows "\<exists>j1 fs1 j2 fs2. job_write zd b j fs = (Inl Create_failed, j1, fs1) \<and>
     job_write zd b j1 fs1 = (Inr (), j2, fs2) \<and>
     content (inodes fs2 i) = content (inodes fs i) @ out_data zd b"
proof -
  let ?n = "idx (blk_file_num b)"
  define j1 where "j1 = j\<lparr>file_num := blk_file_num b\<rparr>"
  define fs1 where "fs1 = (case path_parent (dest_path j1 ?n) of
     None \<Rightarrow> modify_time j fs | Some d \<Rightarrow> os_create_dir_all d (modify_time j fs))"
  have dl: "download_path j1 ?n = download_path j ?n"
    by (simp add: j1_def download_path_def dest_path_def join_def)
  have frame: "deny fs1 = deny fs" "room fs1 = room fs"
    by (simp_all add: fs1_def modify_time_frame create_dir_frame split: option.split)
  have cont: "content (inodes fs1 i) = content (inodes fs i)"
    by (auto simp: fs1_def modify_time_def Let_def os_set_mtime_def os_rename_def os_create_dir_all_def
        split: option.split)
  have "write_open b j fs = (Inl Create_failed, j1, fs1)"
    using assms(4,5,7) frame(1)
    by (simp add: sync_open_def os_sync_all_def modify_time_frame write_open_def Let_def j1_def [symmetric] fs1_def [symmetric] dl os_create_def)
  then have fail: "job_write zd b j fs = (Inl Create_failed, j1, fs1)"
    using assms(1-3) by (simp add: job_write_def)
  have "\<exists>f t fs2. job_write zd b j1 fs1 =
      (Inr (), j1\<lparr>handle_opt := Some (i, length (content (inodes fs2 i))), finished_size := f, transferred := t\<rparr>, fs2)
      \<and> grown i (out_data zd b) fs1 fs2"
    by (rule job_write_append) (use assms frame cont in \<open>simp_all add: j1_def\<close>)
  then obtain j2 fs2 where "job_write zd b j1 fs1 = (Inr (), j2, fs2)" "grown i (out_data zd b) fs1 fs2"
    by blast
  with fail cont show ?thesis by (auto simp: grown_def)
qed

lemma create_failure_mixes_files_witness:
  "\<exists>j1 fs1 j2 fs2. job_write demo_unzip \<lparr>blk_job = 3, blk_file_num = 1, blk_data = [4], blk_compressed = False\<rparr>
      (demo_recv\<lparr>handle_opt := Some (0, 1)\<rparr>) (part_fs\<lparr>deny := (\<lambda>p. p = ''/d/b.download'')\<rparr>)
      = (Inl Create_failed, j1, fs1) \<and>
     job_write demo_unzip \<lparr>blk_job = 3, blk_file_num = 1, blk_data = [4], blk_compressed = False\<rparr> j1 fs1
      = (Inr (), j2, fs2) \<and> content (inodes fs2 0) = [9, 4]"
proof -
  let ?b = "\<lparr>blk_job = 3, blk_file_num = 1, blk_data = [4], blk_compressed = False\<rparr> :: file_block"
  define j where "j = demo_recv\<lparr>handle_opt := Some (0, 1)\<rparr>"
  define fs where "fs = part_fs\<lparr>deny := (\<lambda>p. p = ''/d/b.download'')\<rparr>"
  have dl: "download_path j (Suc 0) = ''/d/b.download''"
    using demo_recv_simps(6) by (simp add: j_def)
  have "\<exists>j1 fs1 j2 fs2. job_write demo_unzip ?b j fs = (Inl Create_failed, j1, fs1) \<and>
     job_write demo_unzip ?b j1 fs1 = (Inr (), j2, fs2) \<and>
     content (inodes fs2 0) = content (inodes fs 0) @ out_data demo_unzip ?b"
    by (rule create_failure_mixes_files)
       (simp_all add: idx_small dl, simp_all add: j_def fs_def demo_recv_simps part_fs_def empty_fs_def
          out_data_def idx_small)
  then show ?thesis unfolding j_def [symmetric] fs_def [symmetric]
    by (simp add: out_data_def fs_def part_fs_def)
qed

text \<open>A file that cannot be opened: the pass reports the error, the job moves on to the next
  file and stays in the list; the message names the number of the next file, not of the one
  that failed.
\<close>

theorem open_error_names_next_file:
  assumes "handle_opt j = None" and "idx (file_num j) < length (files j)"
    and "os_open fs (dest_path j (idx (file_num j))) = Inl e" and "\<not> is_last_job j" and "alive st"
  shows "handle_read_jobs zc fs [j] st =
    (Inr None, [next_file j], st\<lparr>sent := sent st @ [Resp_error (job_id j) (Inl e) (file_num j + 1)]\<rparr>)"
  using assms
  by (simp add: handle_read_jobs_def job_read_def read_outcome_def stream_send_def) (simp add: next_file_def)

lemma open_error_names_next_file_witness:
  "handle_read_jobs demo_zip empty_fs [job_default\<lparr>files := [demo_entry ''a'' 1]\<rparr>] \<lparr>sent = [], alive = True\<rparr> =
    (Inr None, [next_file (job_default\<lparr>files := [demo_entry ''a'' 1]\<rparr>)],
     \<lparr>sent = [Resp_error 0 (Inl Open_failed) 1], alive = True\<rparr>)"
  using open_error_names_next_file [of "job_default\<lparr>files := [demo_entry ''a'' 1]\<rparr>" empty_fs Open_failed
      "\<lparr>sent = [], alive = True\<rparr>" demo_zip]
  by (simp add: job_default_def idx_small os_open_def empty_fs_def)

subsection \<open>Files that are there already\<close>

text \<open>Sending an unchanged file again: the digest of a source file, checked against the
  target that an earlier transfer of it has published, is recognised as identical, although
  the target's time has whole seconds only.
\<close>

theorem retransfer_is_identical:
  assumes "handle_opt j = Some (i, pos)" and "content (inodes sfs i) = c"
    and "0 \<le> mtime (inodes sfs i)" and "mtime (inodes sfs i) div 10 ^ 9 < 2 ^ 63"
    and "ent_modified (files rj ! k) = word_of_int (mtime (inodes sfs i) div 10 ^ 9)"
    and "published dfs rj k c" and "alive st"
  shows "\<exists>d d'. send_current_digest sfs j st = Inr (st\<lparr>sent := sent st @ [Resp_digest d]\<rparr>) \<and>
     is_write_need_confirmation dfs (dest_path rj k) d = Inr (Need_confirm d') \<and> dig_identical d'"
proof -
  define s where "s = mtime (inodes sfs i) div 10 ^ 9"
  have s: "0 \<le> s" "s < 2 ^ 63" using assms(3,4) by (simp_all add: s_def)
  have ws: "sint (word_of_int s :: u64) = s"
    by (simp only: sint_sbintrunc') (rule signed_take_bit_int_eq_self; use s in simp)
  have wu: "uint (word_of_int s :: u64) = s"
    using s by (simp add: uint_word_of_int_eq take_bit_int_eq_self_iff)
  obtain q where q: "names dfs (dest_path rj k) = Some q" "content (inodes dfs q) = c"
      "mtime (inodes dfs q) = s * 10 ^ 9"
    using assms(6) ws unfolding published_def content_at_def mtime_at_def assms(5) s_def [symmetric]
    by auto
  define d where "d = \<lparr>dig_id = job_id j, dig_file_num = file_num j, dig_modified = word_of_int s,
      dig_size = word_of_nat (length c), dig_identical = False\<rparr>"
  have "send_current_digest sfs j st = Inr (st\<lparr>sent := sent st @ [Resp_digest d]\<rparr>)"
    using assms(1,2,3,7) by (simp add: send_current_digest_def stream_send_def d_def s_def)
  moreover have "is_write_need_confirmation dfs (dest_path rj k) d = Inr (Need_confirm
      \<lparr>dig_id = dig_id d, dig_file_num = dig_file_num d, dig_modified = word_of_int s,
       dig_size = word_of_nat (length c), dig_identical = True\<rparr>)"
    using q s(1) wu by (simp add: is_write_need_confirmation_def Let_def d_def)
  ultimately show ?thesis by (intro exI conjI) (assumption, assumption, simp)
qed

lemma retransfer_is_identical_witness:
  "\<exists>d d'. send_current_digest demo_src (detect_job\<lparr>handle_opt := Some (0, 0)\<rparr>) \<lparr>sent = [], alive = True\<rparr>
       = Inr \<lparr>sent = [Resp_digest d], alive = True\<rparr> \<and>
     is_write_need_confirmation (demo_src\<lparr>names := [''/d/a'' \<mapsto> 0],
         inodes := (\<lambda>_. \<lparr>content = [7, 7, 7], mtime = 1000000000\<rparr>)\<rparr>) ''/d/a'' d
       = Inr (Need_confirm d') \<and> dig_identical d'"
proof -
  define dfs where "dfs = demo_src\<lparr>names := [''/d/a'' \<mapsto> 0],
         inodes := (\<lambda>_. \<lparr>content = [7, 7, 7], mtime = 1000000000\<rparr>)\<rparr>"
  have "published dfs demo_recv 0 [7, 7, 7]"
    by (simp add: published_def demo_recv_simps content_at_def mtime_at_def dfs_def)
       (simp add: demo_entry_def)
  from retransfer_is_identical [of "detect_job\<lparr>handle_opt := Some (0, 0)\<rparr>" 0 0 demo_src, OF _ _ _ _ _ this,
      of "\<lparr>sent = [], alive = True\<rparr>"]
  show ?thesis unfolding dfs_def [symmetric]
    by (simp add: demo_src_def demo_recv_simps demo_entry_def)
qed

end
