(* ===== verification/FsTree.thy ===== *)
theory FsTree
  imports FileJobs
begin

text \<open>
  Directory listings of \<^verbatim>\<open>libs/hbb_common/src/fs.rs\<close> on a tree of files, directories and
  symbolic links: \<^verbatim>\<open>read_dir\<close>, the recursive listings a transfer starts from, and the removal
  of empty directories. The part for Unix is modelled; the listing of drives is Windows'.
\<close>

subsection \<open>Trees\<close>

text \<open>
  A directory knows whether it can be read and whether entries can be removed from it; a
  link knows its target, \<open>None\<close> for a dangling one; \<open>Nbad\<close> is an entry whose meta data
  cannot be read. A name that is not UTF-8 is the empty string here. Times are in
  nanoseconds.
\<close>

datatype fs_node =
  Nfile (file_len: u64) (file_time: int)
| Ndir (readable: bool) (writable: bool) int "(string \<times> fs_node) list"
| Nlink int "fs_node option"
| Nbad

fun is_dir :: "fs_node \<Rightarrow> bool" where
  "is_dir (Ndir _ _ _ _) = True"
| "is_dir (Nlink _ (Some n)) = is_dir n"
| "is_dir _ = False"

definition as_secs :: "int \<Rightarrow> u64" where
  "as_secs t = (if t < 0 then 0 else word_of_int (t div 10 ^ 9))"

definition is_hidden :: "string \<Rightarrow> bool" where
  "is_hidden name \<longleftrightarrow> starts_with name ''.''"

text \<open>One entry of \<^verbatim>\<open>read_dir\<close>, \<open>None\<close> where the loop skips it.\<close>

definition read_entry :: "bool \<Rightarrow> string \<Rightarrow> fs_node \<Rightarrow> file_entry option" where
  "read_entry hid name node =
     (if name = '''' \<or> (is_hidden name \<and> \<not> hid) then None
      else let e = \<lparr>entry_type = File, ent_name = name, ent_hidden = is_hidden name,
                    ent_size = 0, ent_modified = 0\<rparr>
        in case node of
             Nfile len t \<Rightarrow> Some (e\<lparr>ent_size := len, ent_modified := as_secs t\<rparr>)
           | Ndir _ _ t _ \<Rightarrow> Some (e\<lparr>entry_type := Dir, ent_modified := as_secs t\<rparr>)
           | Nlink t target \<Rightarrow>
               Some (e\<lparr>entry_type := (if is_dir node then Dir_link else File_link), ent_modified := as_secs t\<rparr>)
           | Nbad \<Rightarrow> None)"

fun read_dir :: "bool \<Rightarrow> fs_node \<Rightarrow> io_error + file_entry list" where
  "read_dir hid (Ndir r _ _ es) =
     (if r then Inr (List.map_filter (\<lambda>(name, node). read_entry hid name node) es) else Inl Open_failed)"
| "read_dir hid (Nlink _ (Some n)) = read_dir hid n"
| "read_dir hid _ = Inl Open_failed"

subsection \<open>Recursive listings\<close>

fun read_dir_recursive :: "bool \<Rightarrow> string \<Rightarrow> fs_node \<Rightarrow> io_error + file_entry list"
and read_entries_recursive :: "bool \<Rightarrow> string \<Rightarrow> (string \<times> fs_node) list \<Rightarrow> file_entry list" where
  "read_dir_recursive hid prefix (Ndir r _ _ es) =
     (if r then Inr (read_entries_recursive hid prefix es) else Inl Open_failed)"
| "read_dir_recursive hid prefix (Nfile len t) =
     Inr [\<lparr>entry_type = File, ent_name = '''', ent_hidden = False, ent_size = len, ent_modified = as_secs t\<rparr>]"
| "read_dir_recursive hid prefix (Nlink _ (Some n)) = read_dir_recursive hid prefix n"
| "read_dir_recursive hid prefix (Nlink _ None) = Inl Not_exists"
| "read_dir_recursive hid prefix Nbad = Inl Not_exists"
| "read_entries_recursive hid prefix [] = []"
| "read_entries_recursive hid prefix ((name, node) # es) =
     (case read_entry hid name node of
        None \<Rightarrow> []
      | Some e \<Rightarrow> (case entry_type e of
            File \<Rightarrow> [e\<lparr>ent_name := path_join prefix (ent_name e)\<rparr>]
          | Dir \<Rightarrow> (case read_dir_recursive hid (path_join prefix (ent_name e)) node of
                Inr tmp \<Rightarrow> tmp | Inl _ \<Rightarrow> [])
          | _ \<Rightarrow> [])) @ read_entries_recursive hid prefix es"

definition get_recursive_files :: "fs_node \<Rightarrow> bool \<Rightarrow> io_error + file_entry list" where
  "get_recursive_files root hid = read_dir_recursive hid '''' root"

record file_directory =
  dir_path :: string
  dir_entries :: "file_entry list"

fun read_empty_dirs_recursive :: "bool \<Rightarrow> string \<Rightarrow> fs_node \<Rightarrow> io_error + file_directory list"
and read_empty_entries :: "bool \<Rightarrow> string \<Rightarrow> (string \<times> fs_node) list \<Rightarrow> file_directory list" where
  "read_empty_dirs_recursive hid p (Ndir r w t es) =
     (case read_dir hid (Ndir r w t es) of
        Inl e \<Rightarrow> Inl e
      | Inr ents \<Rightarrow> if ents = [] then Inr [\<lparr>dir_path = p, dir_entries = []\<rparr>]
                    else Inr (read_empty_entries hid p es))"
| "read_empty_dirs_recursive hid p (Nfile _ _) = Inr []"
| "read_empty_dirs_recursive hid p (Nlink _ (Some n)) = read_empty_dirs_recursive hid p n"
| "read_empty_dirs_recursive hid p (Nlink _ None) = Inl Not_exists"
| "read_empty_dirs_recursive hid p Nbad = Inl Not_exists"
| "read_empty_entries hid p [] = []"
| "read_empty_entries hid p ((name, node) # es) =
     (case read_entry hid name node of
        None \<Rightarrow> []
      | Some e \<Rightarrow>
          if entry_type e = Dir
          then (case read_empty_dirs_recursive hid (path_join p (ent_name e)) node of
                  Inr tmp \<Rightarrow> tmp | Inl _ \<Rightarrow> [])
          else []) @ read_empty_entries hid p es"

subsection \<open>Removing empty directories\<close>

text \<open>
  The result is the directory afterwards, \<open>None\<close> when \<^verbatim>\<open>remove_dir\<close> succeeded: it is empty
  and entries can be removed from its parent (\<open>w\<close>).
\<close>

fun remove_all_empty_dir :: "bool \<Rightarrow> fs_node \<Rightarrow> fs_node option"
and remove_in_entries :: "bool \<Rightarrow> (string \<times> fs_node) list \<Rightarrow> (string \<times> fs_node) list" where
  "remove_all_empty_dir w (Ndir r w' t es) =
     (if \<not> r then Some (Ndir r w' t es)
      else let es' = remove_in_entries w' es
           in if es' = [] \<and> w then None else Some (Ndir r w' t es'))"
| "remove_all_empty_dir w (Nlink t (Some n)) =
     Some (Nlink t (Some (case remove_all_empty_dir False n of None \<Rightarrow> n | Some n' \<Rightarrow> n')))"
| "remove_all_empty_dir w node = Some node"
| "remove_in_entries w [] = []"
| "remove_in_entries w ((name, node) # es) =
     (case read_entry True name node of
        None \<Rightarrow> [(name, node)]
      | Some e \<Rightarrow> (case entry_type e of
            Dir \<Rightarrow> (case remove_all_empty_dir w node of None \<Rightarrow> [] | Some node' \<Rightarrow> [(name, node')])
          | Dir_link \<Rightarrow> if w then [] else [(name, node)]
          | File_link \<Rightarrow> if w then [] else [(name, node)]
          | _ \<Rightarrow> [(name, node)])) @ remove_in_entries w es"

subsection \<open>The files of a tree\<close>

text \<open>
  The regular files below a node, with the names on the way. With \<open>ro\<close> only readable
  directories are entered.
\<close>

fun node_files :: "bool \<Rightarrow> fs_node \<Rightarrow> (string list \<times> u64 \<times> int) list"
and entry_files :: "bool \<Rightarrow> (string \<times> fs_node) list \<Rightarrow> (string list \<times> u64 \<times> int) list" where
  "node_files ro (Nfile len t) = [([], len, t)]"
| "node_files ro (Ndir r w t es) = (if ro \<and> \<not> r then [] else entry_files ro es)"
| "node_files ro (Nlink _ _) = []"
| "node_files ro Nbad = []"
| "entry_files ro [] = []"
| "entry_files ro ((name, node) # es) =
     map (\<lambda>f. (name # fst f, snd f)) (node_files ro node) @ entry_files ro es"

definition shown :: "bool \<Rightarrow> string \<Rightarrow> bool" where
  "shown hid name \<longleftrightarrow> name \<noteq> '''' \<and> (is_hidden name \<longrightarrow> hid)"

definition listed :: "string \<Rightarrow> string list \<times> u64 \<times> int \<Rightarrow> file_entry" where
  "listed prefix f = (case f of (ps, len, t) \<Rightarrow>
     \<lparr>entry_type = File, ent_name = foldl path_join prefix ps,
      ent_hidden = (if ps = [] then False else is_hidden (last ps)),
      ent_size = len, ent_modified = as_secs t\<rparr>)"

lemma listed_cons:
  "ps \<noteq> [] \<Longrightarrow> listed prefix (nm # ps, x) = listed (path_join prefix nm) (ps, x)"
  by (auto simp: listed_def split: prod.splits)

lemma read_entries_files:
  "\<forall>r w t es. node = Ndir r w t es \<longrightarrow> read_dir_recursive hid prefix node =
     (if r then Inr (map (listed prefix) (filter (\<lambda>f. list_all (shown hid) (fst f)) (entry_files True es)))
      else Inl Open_failed)"
  "read_entries_recursive hid prefix es =
     map (listed prefix) (filter (\<lambda>f. list_all (shown hid) (fst f)) (entry_files True es))"
proof (induction hid prefix node and hid prefix es rule: read_dir_recursive_read_entries_recursive.induct)
  case (7 hid prefix name node es)
  have nonempty: "ps \<noteq> []" if "(ps, x) \<in> set (entry_files True ds)" for ps x ds
    using that by (induction ds) auto
  show ?case
  proof (cases node)
    case (Nfile len t)
    then show ?thesis using 7(2)
      by (auto simp: read_entry_def shown_def listed_def Let_def)
  next
    case (Ndir r w t ds)
    show ?thesis
    proof (cases "shown hid name")
      case True
      then obtain e where e: "read_entry hid name node = Some e" "entry_type e = Dir" "ent_name e = name"
        by (auto simp: read_entry_def shown_def Ndir Let_def)
      have "(case read_dir_recursive hid (path_join prefix name) node of Inr tmp \<Rightarrow> tmp | Inl _ \<Rightarrow> []) =
          map (listed (path_join prefix name))
            (filter (\<lambda>f. list_all (shown hid) (fst f)) (if r then entry_files True ds else []))"
        using 7(1) [OF e(1,2)] Ndir e(3) by simp
      also have "\<dots> = map (listed prefix) (filter (\<lambda>f. list_all (shown hid) (fst f))
            (map (\<lambda>f. (name # fst f, snd f)) (node_files True node)))"
        using True by (auto simp: Ndir filter_map o_def listed_cons dest: nonempty)
      finally show ?thesis using e 7(2) by simp
    next
      case False
      then have "read_entry hid name node = None" by (auto simp: read_entry_def shown_def)
      then show ?thesis using False 7(2) by (auto simp: filter_map o_def filter_empty_conv)
    qed
  next
    case (Nlink t tgt)
    then show ?thesis using 7(2) by (auto simp: read_entry_def Let_def)
  next
    case Nbad
    then show ?thesis using 7(2) by (simp add: read_entry_def Let_def)
  qed
qed auto

text \<open>C28. The recursive listing is exact: for a readable directory it is the list, in directory
  order, of the regular files below it that are reached through readable real directories
  and shown names only, each with its joined relative path, size and time in seconds.
  Nothing is followed through a link, and unreadable subdirectories are left out silently.
\<close>

theorem recursive_listing:
  "get_recursive_files (Ndir r w t es) hid =
    (if r then Inr (map (listed '''') (filter (\<lambda>f. list_all (shown hid) (fst f)) (entry_files True es)))
     else Inl Open_failed)"
  using read_entries_files(1) [of "Ndir r w t es" hid "''''"] by (simp add: get_recursive_files_def)

subsection \<open>Names in a listing\<close>

fun wf_node :: "fs_node \<Rightarrow> bool" and wf_entries :: "(string \<times> fs_node) list \<Rightarrow> bool" where
  "wf_node (Ndir _ _ _ es) = wf_entries es"
| "wf_node _ = True"
| "wf_entries [] = True"
| "wf_entries ((name, node) # es) \<longleftrightarrow>
     name \<noteq> '''' \<and> CHR ''/'' \<notin> set name \<and> name \<notin> fst ` set es \<and> wf_node node \<and> wf_entries es"

lemma join_tail:
  assumes "p \<noteq> ''''" and "last p \<noteq> CHR ''/''" and "\<forall>n \<in> set ps. n \<noteq> '''' \<and> CHR ''/'' \<notin> set n"
  shows "foldl path_join p ps = p @ concat (map ((#) CHR ''/'') ps)"
  using assms
proof (induction ps arbitrary: p)
  case Nil
  then show ?case by simp
next
  case (Cons n ps)
  then have n: "n \<noteq> ''''" "CHR ''/'' \<notin> set n" by auto
  have "path_join p n = p @ CHR ''/'' # n"
    using n Cons.prems(1,2) by (cases n) (auto simp: path_join_def starts_with_def)
  moreover have "last n \<noteq> CHR ''/''" using last_in_set [OF n(1)] n(2) by metis
  ultimately show ?case using Cons n by simp
qed

lemma split_joined:
  assumes "\<forall>n \<in> set (n # ps). n \<noteq> '''' \<and> CHR ''/'' \<notin> set n"
  shows "split_char CHR ''/'' (n @ concat (map ((#) CHR ''/'') ps)) = n # ps"
  using assms
proof (induction ps arbitrary: n)
  case Nil
  then show ?case by (simp add: split_char_none)
next
  case (Cons m ps)
  then show ?case by (simp add: split_char_append)
qed

lemma split_listed:
  assumes "ps \<noteq> []" and "\<forall>n \<in> set ps. n \<noteq> '''' \<and> CHR ''/'' \<notin> set n"
  shows "split_char CHR ''/'' (ent_name (listed '''' (ps, x))) = ps"
proof -
  obtain n qs where ps: "ps = n # qs" using assms(1) by (cases ps) auto
  have n: "n \<noteq> ''''" "CHR ''/'' \<notin> set n" using assms(2) ps by auto
  have "path_join '''' n = n" by (simp add: path_join_def)
  moreover have "last n \<noteq> CHR ''/''" using last_in_set [OF n(1)] n(2) by metis
  ultimately have "foldl path_join '''' ps = n @ concat (map ((#) CHR ''/'') qs)"
    using join_tail [of n qs] n assms(2) ps by simp
  then show ?thesis using split_joined [of n qs] assms(2) ps by (cases x) (simp add: listed_def)
qed

lemma entry_files_distinct:
  "wf_node node \<Longrightarrow> distinct (map fst (node_files ro node)) \<and>
     (\<forall>f \<in> set (node_files ro node). \<forall>n \<in> set (fst f). n \<noteq> '''' \<and> CHR ''/'' \<notin> set n)"
  "wf_entries es \<Longrightarrow> distinct (map fst (entry_files ro es)) \<and>
     (\<forall>f \<in> set (entry_files ro es). fst f \<noteq> [] \<and> hd (fst f) \<in> fst ` set es \<and>
        (\<forall>n \<in> set (fst f). n \<noteq> '''' \<and> CHR ''/'' \<notin> set n))"
proof (induction ro node and ro es rule: node_files_entry_files.induct)
  case (6 ro name node es)
  then have wf: "name \<noteq> ''''" "CHR ''/'' \<notin> set name" "name \<notin> fst ` set es"
    and d1: "distinct (map fst (node_files ro node))" and d2: "distinct (map fst (entry_files ro es))"
    and n1: "\<forall>f \<in> set (node_files ro node). \<forall>n \<in> set (fst f). n \<noteq> '''' \<and> CHR ''/'' \<notin> set n"
    and n2: "\<forall>f \<in> set (entry_files ro es). fst f \<noteq> [] \<and> hd (fst f) \<in> fst ` set es \<and>
        (\<forall>n \<in> set (fst f). n \<noteq> '''' \<and> CHR ''/'' \<notin> set n)"
    by auto
  have "distinct (map ((#) name) (map fst (node_files ro node)))"
    using d1 by (simp add: distinct_map inj_on_def)
  moreover have "map fst (map (\<lambda>f. (name # fst f, snd f)) (node_files ro node)) =
      map ((#) name) (map fst (node_files ro node))" by simp
  moreover have "set (map ((#) name) (map fst (node_files ro node))) \<inter> set (map fst (entry_files ro es)) = {}"
    using n2 wf(3) by (auto simp: image_iff) (metis fst_conv list.sel(1))
  ultimately have "distinct (map fst (entry_files ro ((name, node) # es)))"
    using d2 by (simp only: entry_files.simps map_append distinct_append)
  moreover have "\<forall>f \<in> set (entry_files ro ((name, node) # es)). fst f \<noteq> [] \<and>
      hd (fst f) \<in> fst ` set ((name, node) # es) \<and> (\<forall>n \<in> set (fst f). n \<noteq> '''' \<and> CHR ''/'' \<notin> set n)"
  proof
    fix f assume "f \<in> set (entry_files ro ((name, node) # es))"
    then consider g where "g \<in> set (node_files ro node)" "f = (name # fst g, snd g)"
      | "f \<in> set (entry_files ro es)"
      by auto
    then show "fst f \<noteq> [] \<and> hd (fst f) \<in> fst ` set ((name, node) # es) \<and>
        (\<forall>n \<in> set (fst f). n \<noteq> '''' \<and> CHR ''/'' \<notin> set n)"
    proof cases
      case 1
      then show ?thesis using n1 wf(1,2) by simp
    next
      case 2
      then show ?thesis using n2 by simp
    qed
  qed
  ultimately show ?case by blast
qed auto

text \<open>The names of a listing are distinct: in a tree whose directories have distinct entry
  names, no two files of a recursive listing get the same relative path, so a transfer
  never writes two of them to one place.
\<close>

theorem listed_names_distinct:
  assumes "wf_entries es" and "get_recursive_files (Ndir True w t es) hid = Inr out"
  shows "distinct (map ent_name out)"
proof -
  define fs where "fs = filter (\<lambda>f. list_all (shown hid) (fst f)) (entry_files True es)"
  have out: "out = map (listed '''') fs"
    using assms(2) read_entries_files(2) [of hid "''''" es]
    by (simp add: get_recursive_files_def fs_def)
  have "split_char CHR ''/'' (ent_name (listed '''' f)) = fst f" if "f \<in> set fs" for f
    using that entry_files_distinct(2) [OF assms(1), of True] split_listed [of "fst f" "snd f"]
    by (auto simp: fs_def)
  then have "map (split_char CHR ''/'') (map ent_name out) = map fst fs"
    by (simp add: out)
  moreover have "distinct (map fst fs)"
    using entry_files_distinct(2) [OF assms(1), of True] by (auto simp: fs_def intro: distinct_map_filter)
  ultimately show ?thesis by (metis distinct_map)
qed

definition demo_tree :: "(string \<times> fs_node) list" where
  "demo_tree = [(''a'', Nfile 3 5000000000), (''.h'', Nfile 1 0),
     (''d'', Ndir True True 0 [(''a'', Nfile 4 0), (''l'', Nlink 0 None), (''e'', Ndir True True 0 [])])]"

lemma listed_names_distinct_witness:
  "get_recursive_files (Ndir True True 0 demo_tree) False = Inr
     [\<lparr>entry_type = File, ent_name = ''a'', ent_hidden = False, ent_size = 3, ent_modified = 5\<rparr>,
      \<lparr>entry_type = File, ent_name = ''d/a'', ent_hidden = False, ent_size = 4, ent_modified = 0\<rparr>] \<and>
   distinct [''a'', ''d/a'']"
proof -
  have get: "get_recursive_files (Ndir True True 0 demo_tree) False = Inr
     [\<lparr>entry_type = File, ent_name = ''a'', ent_hidden = False, ent_size = 3, ent_modified = 5\<rparr>,
      \<lparr>entry_type = File, ent_name = ''d/a'', ent_hidden = False, ent_size = 4, ent_modified = 0\<rparr>]"
    by (simp add: get_recursive_files_def demo_tree_def read_entry_def is_hidden_def starts_with_def
        as_secs_def path_join_def Let_def)
  have "wf_entries demo_tree" by (simp add: demo_tree_def)
  from listed_names_distinct [OF this get] get show ?thesis by simp
qed

subsection \<open>Removal\<close>

lemma remove_keeps_files:
  "(\<forall>n'. remove_all_empty_dir w node = Some n' \<longrightarrow> node_files False n' = node_files False node) \<and>
   (remove_all_empty_dir w node = None \<longrightarrow> node_files False node = [])"
  "entry_files False (remove_in_entries w es) = entry_files False es"
proof (induction w node and w es rule: remove_all_empty_dir_remove_in_entries.induct)
  case (5 w name node es)
  then show ?case
    by (cases node) (auto simp: read_entry_def Let_def split: option.splits)
qed (auto simp: Let_def split: option.splits)

text \<open>
  In a clean tree everything can be read and removed; in a tidy one every directory holds
  something and there are no links.
\<close>

fun clean_node :: "fs_node \<Rightarrow> bool" and clean_entries :: "(string \<times> fs_node) list \<Rightarrow> bool" where
  "clean_node (Ndir r w _ es) \<longleftrightarrow> r \<and> w \<and> clean_entries es"
| "clean_node Nbad = False"
| "clean_node _ = True"
| "clean_entries [] = True"
| "clean_entries ((name, node) # es) \<longleftrightarrow> name \<noteq> '''' \<and> clean_node node \<and> clean_entries es"

fun tidy_node :: "fs_node \<Rightarrow> bool" and tidy_entries :: "(string \<times> fs_node) list \<Rightarrow> bool" where
  "tidy_node (Nfile _ _) = True"
| "tidy_node (Ndir _ _ _ es) \<longleftrightarrow> es \<noteq> [] \<and> tidy_entries es"
| "tidy_node _ = False"
| "tidy_entries [] = True"
| "tidy_entries ((_, node) # es) \<longleftrightarrow> tidy_node node \<and> tidy_entries es"

lemma tidy_append [simp]: "tidy_entries (xs @ ys) \<longleftrightarrow> tidy_entries xs \<and> tidy_entries ys"
  by (induction xs) auto

lemma remove_tidies:
  "w \<and> clean_node node \<and> (\<exists>r w t es. node = Ndir r w t es) \<longrightarrow>
     (case remove_all_empty_dir w node of None \<Rightarrow> True | Some n' \<Rightarrow> tidy_node n')"
  "w \<and> clean_entries es \<longrightarrow> tidy_entries (remove_in_entries w es)"
proof (induction w node and w es rule: remove_all_empty_dir_remove_in_entries.induct)
  case (5 w name node es)
  then show ?case
    by (cases node) (auto simp: read_entry_def is_hidden_def Let_def split: option.splits)
qed (auto simp: Let_def)

text \<open>C36. Removing empty directories removes nothing else that matters: every regular file, at
  every depth and also below unreadable directories, is still there with its path, size and
  time; the directory itself goes only if there was no regular file in it. Where everything
  can be read and removed, what is left has no link and no empty directory.
\<close>

theorem removal_keeps_files:
  "(case remove_all_empty_dir w (Ndir r w' t es) of
      None \<Rightarrow> entry_files False es = []
    | Some n' \<Rightarrow> node_files False n' = entry_files False es \<and>
        (if w \<and> clean_node (Ndir r w' t es) then tidy_node n' else True))"
proof -
  let ?d = "Ndir r w' t es"
  have files: "node_files False ?d = entry_files False es" by simp
  show ?thesis
  proof (cases "remove_all_empty_dir w ?d")
    case None
    then show ?thesis using remove_keeps_files(1) [of w ?d] files by simp
  next
    case (Some n')
    moreover have "node_files False n' = entry_files False es"
      using remove_keeps_files(1) [of w ?d] Some files by metis
    moreover have "tidy_node n'" if "w" "clean_node ?d"
      using remove_tidies(1) [of w ?d] that Some by (metis option.case(2))
    ultimately show ?thesis by (simp only: option.case if_True) simp
  qed
qed

end
