(* ===== verification/ScrapCommon.thy ===== *)
theory ScrapCommon
  imports Text
begin

unbundle bit_operations_syntax

text \<open>
  \<^verbatim>\<open>libs/scrap/src/common/mod.rs\<close>: codec and pixel formats, image buffers and the conversion
  of decoded pictures into them. The pixel conversions of libyuv are a parameter; a picture
  holds its planes as bytes.
\<close>

subsection \<open>Formats\<close>

datatype codec_format = VP8 | VP9 | AV1 | H264 | H265 | Unknown

datatype codec_name =
  Name_VP8 | Name_VP9 | Name_AV1 | Name_H264RAM string | Name_H265RAM string | Name_H264VRAM | Name_H265VRAM

text \<open>The video frame of the protocol with its encoded pictures; other kinds are \<open>Frame_other\<close>.\<close>

datatype video_union =
  Vp8s "bytes list" | Vp9s "bytes list" | Av1s "bytes list" | H264s "bytes list" | H265s "bytes list"
| Frame_other

definition format_of_union :: "video_union \<Rightarrow> codec_format" where
  "format_of_union f = (case f of
     Vp8s _ \<Rightarrow> VP8 | Vp9s _ \<Rightarrow> VP9 | Av1s _ \<Rightarrow> AV1 | H264s _ \<Rightarrow> H264 | H265s _ \<Rightarrow> H265
   | Frame_other \<Rightarrow> Unknown)"

definition format_of_frame :: "video_union option \<Rightarrow> codec_format" where
  "format_of_frame f = (case f of
     Some (Vp8s _) \<Rightarrow> VP8 | Some (Vp9s _) \<Rightarrow> VP9 | Some (Av1s _) \<Rightarrow> AV1
   | Some (H264s _) \<Rightarrow> H264 | Some (H265s _) \<Rightarrow> H265 | _ \<Rightarrow> Unknown)"

definition format_of_name :: "codec_name \<Rightarrow> codec_format" where
  "format_of_name n = (case n of
     Name_VP8 \<Rightarrow> VP8 | Name_VP9 \<Rightarrow> VP9 | Name_AV1 \<Rightarrow> AV1
   | Name_H264RAM _ \<Rightarrow> H264 | Name_H264VRAM \<Rightarrow> H264
   | Name_H265RAM _ \<Rightarrow> H265 | Name_H265VRAM \<Rightarrow> H265)"

definition codec_to_string :: "codec_format \<Rightarrow> string" where
  "codec_to_string f = (case f of
     VP8 \<Rightarrow> ''VP8'' | VP9 \<Rightarrow> ''VP9'' | AV1 \<Rightarrow> ''AV1'' | H264 \<Rightarrow> ''H264'' | H265 \<Rightarrow> ''H265''
   | Unknown \<Rightarrow> ''Unknown'')"

datatype pixfmt = BGRA | RGBA | RGB565LE | I420_fmt | NV12 | I444_fmt

definition bpp :: "pixfmt \<Rightarrow> nat" where
  "bpp f = (case f of BGRA \<Rightarrow> 32 | RGBA \<Rightarrow> 32 | RGB565LE \<Rightarrow> 16 | I420_fmt \<Rightarrow> 12 | NV12 \<Rightarrow> 12 | I444_fmt \<Rightarrow> 24)"

definition bytes_per_pixel :: "pixfmt \<Rightarrow> nat" where
  "bytes_per_pixel f = (bpp f + 7) div 8"

subsection \<open>Images\<close>

datatype image_format = Raw | ABGR | ARGB
datatype chroma = I420 | I444

record image_rgb =
  raw :: bytes
  rgb_w :: usize
  rgb_h :: usize
  fmt :: image_format
  align :: usize

definition image_rgb_new :: "image_format \<Rightarrow> usize \<Rightarrow> image_rgb" where
  "image_rgb_new f a = \<lparr>raw = [], rgb_w = 0, rgb_h = 0, fmt = f, align = a\<rparr>"

record image_texture =
  texture :: u64
  tex_w :: usize
  tex_h :: usize

record google_image =
  img_w :: usize
  img_h :: usize
  stride :: "i32 list"
  planes :: "bytes list"
  img_chroma :: chroma

text \<open>\<^verbatim>\<open>would_block_if_equal\<close>: \<open>None\<close> is the error \<^verbatim>\<open>WouldBlock\<close>.\<close>

definition would_block_if_equal :: "bytes \<Rightarrow> bytes \<Rightarrow> bytes option" where
  "would_block_if_equal old b = (if b = old then None else Some b)"

definition pixel_bytes :: "image_format \<Rightarrow> usize" where
  "pixel_bytes f = (case f of Raw \<Rightarrow> 3 | ARGB \<Rightarrow> 4 | ABGR \<Rightarrow> 4)"

definition get_bytes_per_row :: "usize \<Rightarrow> image_format \<Rightarrow> usize \<Rightarrow> usize" where
  "get_bytes_per_row w f a = (w * pixel_bytes f + a - 1) AND NOT (a - 1)"

text \<open>\<^verbatim>\<open>Vec::resize\<close>.\<close>

definition resize :: "nat \<Rightarrow> bytes \<Rightarrow> bytes" where
  "resize n v = take n v @ replicate (n - length v) 0"

text \<open>
  \<^verbatim>\<open>GoogleImage::to\<close>: \<open>yuv c f img row buf\<close> is what the libyuv routine for chroma \<open>c\<close> and
  target format \<open>f\<close> leaves in a buffer. There is none for I444 to raw: the buffer keeps what
  it had.
\<close>

type_synonym yuv_convert = "chroma \<Rightarrow> image_format \<Rightarrow> google_image \<Rightarrow> usize \<Rightarrow> bytes \<Rightarrow> bytes"

definition image_to :: "yuv_convert \<Rightarrow> google_image \<Rightarrow> image_rgb \<Rightarrow> image_rgb" where
  "image_to yuv img rgb =
     (let row = get_bytes_per_row (img_w img) (fmt rgb) (align rgb);
          buf = resize (unat (img_h img * row)) (raw rgb);
          rgb1 = rgb\<lparr>rgb_w := img_w img, rgb_h := img_h img, raw := buf\<rparr>
      in case (img_chroma img, fmt rgb) of
           (I420, Raw) \<Rightarrow> rgb1\<lparr>raw := yuv I420 Raw img row buf\<rparr>
         | (I420, ARGB) \<Rightarrow> rgb1\<lparr>raw := yuv I420 ARGB img row buf\<rparr>
         | (I420, ABGR) \<Rightarrow> rgb1\<lparr>raw := yuv I420 ABGR img row buf\<rparr>
         | (I444, ARGB) \<Rightarrow> rgb1\<lparr>raw := yuv I444 ARGB img row buf\<rparr>
         | (I444, ABGR) \<Rightarrow> rgb1\<lparr>raw := yuv I444 ABGR img row buf\<rparr>
         | (I444, Raw) \<Rightarrow> rgb1)"

text \<open>
  \<^verbatim>\<open>GoogleImage::data\<close>: the bytes of the planes that are read; the slices go by stride and
  height, rounded up to an even number.
\<close>

definition image_data :: "google_image \<Rightarrow> bytes \<times> bytes \<times> bytes" where
  "image_data img =
     (let h = (img_h img + 1) AND NOT 1
      in (take (unat (scast (stride img ! 0) * h)) (planes img ! 0),
          take (unat (scast (stride img ! 1) * drop_bit 1 h)) (planes img ! 1),
          take (unat (scast (stride img ! 1) * drop_bit 1 h)) (planes img ! 2)))"

subsection \<open>Facts\<close>

lemma length_resize [simp]: "length (resize n v) = n"
  by (simp add: resize_def)

lemma format_of_frame_union: "format_of_frame (Some u) = format_of_union u"
  by (simp add: format_of_frame_def format_of_union_def)

lemma codec_to_string_inj: "codec_to_string a = codec_to_string b \<Longrightarrow> a = b"
  by (cases a; cases b) (simp_all add: codec_to_string_def)

lemma unat_and_not_mask:
  fixes x :: "'a::len word"
  shows "unat (x AND NOT (mask k)) = unat x div 2 ^ k * 2 ^ k"
proof -
  have "x AND NOT (mask k) = push_bit k (drop_bit k x)"
    by (rule bit_word_eqI) (auto simp: bit_simps)
  also have "unat \<dots> = take_bit LENGTH('a) (push_bit k (drop_bit k (unat x)))"
  proof -
    have "take_bit LENGTH('a) (unat x) = unat x" by (simp add: take_bit_nat_eq_self_iff)
    then show ?thesis by (simp add: unsigned_push_bit_eq unsigned_drop_bit_eq)
  qed
  also have "\<dots> = unat x div 2 ^ k * 2 ^ k"
  proof -
    have "unat x div 2 ^ k * 2 ^ k \<le> unat x" by (metis div_times_less_eq_dividend)
    then have "unat x div 2 ^ k * 2 ^ k < 2 ^ LENGTH('a)"
      using unsigned_less [of x] by (metis le_less_trans)
    then show ?thesis by (simp add: push_bit_eq_mult drop_bit_eq_div take_bit_nat_eq_self_iff)
  qed
  finally show ?thesis .
qed

lemma unat_pixel_bytes: "unat (pixel_bytes f) = (case f of Raw \<Rightarrow> 3 | _ \<Rightarrow> 4)"
  by (simp add: pixel_bytes_def split: image_format.split)

text \<open>The length of a row: a multiple of the alignment, the least that holds the pixels.\<close>

lemma bytes_per_row_bounds:
  assumes "a = 2 ^ k" and "k < 64" and "unat w * unat (pixel_bytes f) + 2 ^ k < 2 ^ 64"
  shows "unat w * unat (pixel_bytes f) \<le> unat (get_bytes_per_row w f a)"
    and "unat (get_bytes_per_row w f a) < unat w * unat (pixel_bytes f) + 2 ^ k"
    and "2 ^ k dvd unat (get_bytes_per_row w f a)"
proof -
  define p where "p = unat w * unat (pixel_bytes f)"
  have mask: "a - 1 = mask k" by (simp add: assms(1) mask_eq_exp_minus_1)
  have "(2 :: nat) ^ k < 2 ^ 64" using assms(2) by (intro power_strict_increasing) simp_all
  then have pw: "unat (2 ^ k :: usize) = 2 ^ k" using unat_of_nat [of "2 ^ k", where 'a = 64] by simp
  have "unat (w * pixel_bytes f) = p"
    using assms(3) by (simp add: unat_word_ariths p_def)
  then have sum: "unat (w * pixel_bytes f + 2 ^ k) = p + 2 ^ k"
    using assms(3) by (simp add: unat_word_ariths(1) pw p_def)
  then have "w * pixel_bytes f + 2 ^ k \<noteq> 0" by (metis add_is_0 power_eq_0_iff unat_0 zero_neq_numeral)
  then have "unat (w * pixel_bytes f + 2 ^ k - 1) = p + 2 ^ k - 1"
    using sum by (simp add: unat_minus_one)
  then have row: "unat (get_bytes_per_row w f a) = (p + 2 ^ k - 1) div 2 ^ k * 2 ^ k"
    unfolding get_bytes_per_row_def mask unat_and_not_mask by (simp add: assms(1))
  have "(p + 2 ^ k - 1) mod 2 ^ k < 2 ^ k" by simp
  moreover have "unat (get_bytes_per_row w f a) + (p + 2 ^ k - 1) mod 2 ^ k = p + 2 ^ k - 1"
    unfolding row by (rule div_mult_mod_eq)
  moreover have "(2 :: nat) ^ k > 0" by simp
  ultimately show "unat w * unat (pixel_bytes f) \<le> unat (get_bytes_per_row w f a)"
    and "unat (get_bytes_per_row w f a) < unat w * unat (pixel_bytes f) + 2 ^ k"
    unfolding p_def [symmetric] by linarith+
  show "2 ^ k dvd unat (get_bytes_per_row w f a)" unfolding row by simp
qed

text \<open>Rows of an image buffer are padded as they should be: when the alignment is a power of
  two and the sizes fit a \<^verbatim>\<open>usize\<close>, a row holds all pixels, is a multiple of the alignment
  and is the shortest such row; the buffer of a converted picture then has room for every
  row of it.
\<close>

theorem rows_are_padded:
  assumes "align rgb = 2 ^ k" and "k < 64"
    and "unat (img_w img) * unat (pixel_bytes (fmt rgb)) + 2 ^ k < 2 ^ 64"
    and "unat (img_h img) * (unat (img_w img) * unat (pixel_bytes (fmt rgb)) + 2 ^ k) < 2 ^ 64"
    and "\<forall>c f i r b. length (yuv c f i r b) = length b"
  shows "\<exists>row. row = unat (get_bytes_per_row (img_w img) (fmt rgb) (align rgb)) \<and>
    unat (img_w img) * unat (pixel_bytes (fmt rgb)) \<le> row \<and>
    row < unat (img_w img) * unat (pixel_bytes (fmt rgb)) + 2 ^ k \<and> 2 ^ k dvd row \<and>
    length (raw (image_to yuv img rgb)) = unat (img_h img) * row"
proof -
  define row where "row = get_bytes_per_row (img_w img) (fmt rgb) (align rgb)"
  note bounds = bytes_per_row_bounds [OF assms(1-3)]
  have "unat (img_h img) * unat row \<le> unat (img_h img) * (unat (img_w img) * unat (pixel_bytes (fmt rgb)) + 2 ^ k)"
    using bounds(2) unfolding row_def by (intro mult_le_mono2) simp
  then have "unat (img_h img) * unat row < 2 ^ 64"
    using assms(4) by (rule le_less_trans)
  then have "unat (img_h img * row) = unat (img_h img) * unat row"
    by (simp add: unat_word_ariths(2))
  moreover have "length (raw (image_to yuv img rgb)) = unat (img_h img * row)"
    using assms(5) by (simp add: image_to_def Let_def row_def split: chroma.split image_format.split)
  ultimately show ?thesis using bounds unfolding row_def by (intro exI conjI) (rule refl, simp_all)
qed

definition demo_rgb :: image_rgb where "demo_rgb = image_rgb_new ARGB 64"

definition demo_picture :: google_image where
  "demo_picture = \<lparr>img_w = 10, img_h = 2, stride = [10, 5, 5], planes = [[], [], []], img_chroma = I420\<rparr>"

lemma rows_are_padded_witness:
  "length (raw (image_to (\<lambda>c f i r b. b) demo_picture demo_rgb)) = 128"
proof -
  have row: "get_bytes_per_row 10 ARGB 64 = 64"
    by (simp add: get_bytes_per_row_def pixel_bytes_def)
  have "\<exists>row. row = unat (get_bytes_per_row (img_w demo_picture) (fmt demo_rgb) (align demo_rgb)) \<and>
    unat (img_w demo_picture) * unat (pixel_bytes (fmt demo_rgb)) \<le> row \<and>
    row < unat (img_w demo_picture) * unat (pixel_bytes (fmt demo_rgb)) + 2 ^ 6 \<and> 2 ^ 6 dvd row \<and>
    length (raw (image_to (\<lambda>c f i r b. b) demo_picture demo_rgb)) = unat (img_h demo_picture) * row"
    by (rule rows_are_padded) (simp_all add: demo_rgb_def image_rgb_new_def demo_picture_def pixel_bytes_def)
  then show ?thesis by (simp add: demo_rgb_def image_rgb_new_def demo_picture_def row)
qed

end
