(* ===== verification/VideoCodec.thy ===== *)
theory VideoCodec
  imports ScrapCommon Passwords
begin

text \<open>
  \<^verbatim>\<open>libs/scrap/src/common/codec.rs\<close>: which codec the encoder uses for the connected peers,
  what a decoder announces and handles, and the numbers for quality and threads. Build
  features, platform, options, memory and the codec libraries are the record \<open>codec_env\<close>.
\<close>

subsection \<open>Data\<close>

datatype prefer_codec = Auto | Pref_VP9 | Pref_H264 | Pref_H265 | Pref_VP8 | Pref_AV1 | Pref_unknown int

record codec_ability =
  ab_vp9 :: bool
  ab_av1 :: bool

record supported_decoding =
  ability_vp8 :: int
  ability_vp9 :: int
  ability_av1 :: int
  ability_h264 :: int
  ability_h265 :: int
  prefer_fmt :: prefer_codec
  dec_i444 :: codec_ability
  prefer_chroma :: chroma

record supported_encoding =
  enc_vp8 :: bool
  enc_av1 :: bool
  enc_h264 :: bool
  enc_h265 :: bool
  enc_i444 :: "codec_ability option"

definition default_decoding :: supported_decoding where
  "default_decoding = \<lparr>ability_vp8 = 0, ability_vp9 = 0, ability_av1 = 0, ability_h264 = 0,
     ability_h265 = 0, prefer_fmt = Auto, dec_i444 = \<lparr>ab_vp9 = False, ab_av1 = False\<rparr>, prefer_chroma = I420\<rparr>"

record codec_env =
  feature_hwcodec :: bool
  feature_vram :: bool
  feature_mediacodec :: bool
  on_windows :: bool
  on_ios :: bool
  usize_bytes :: nat
  get_option :: "string \<Rightarrow> string"
  total_memory :: nat
  vram_encoders :: "codec_format \<Rightarrow> nat"
  hwram_encoder :: "codec_format \<Rightarrow> string option"
  vram_decoders :: "codec_format \<Rightarrow> nat"
  hwram_decoder :: "codec_format \<Rightarrow> bool"
  media_decoder :: "codec_format \<Rightarrow> bool"
  peer_options :: "string \<Rightarrow> string \<Rightarrow> string option"

datatype vpx_codec_id = Vpx_VP8 | Vpx_VP9
datatype data_format = DF_VP8 | DF_VP9 | DF_AV1 | DF_H264 | DF_H265

datatype encoder_cfg = Cfg_VPX vpx_codec_id | Cfg_AOM | Cfg_HWRAM string | Cfg_VRAM data_format

datatype encoding_update =
  Upd_update int supported_decoding | Upd_remove int | Upd_new_only_vp9 int | Upd_check

text \<open>
  The global tables. \<open>peer_decodings\<close> is the hash map in the order in which it is iterated.
\<close>

record codec_state =
  peer_decodings :: "(int \<times> supported_decoding) list"
  encode_format :: codec_format
  usable_encoding :: "supported_encoding option"

definition codec_init :: codec_state where
  "codec_init = \<lparr>peer_decodings = [], encode_format = VP9, usable_encoding = None\<rparr>"

subsection \<open>Switches\<close>

definition OPTION_ENABLE_HWCODEC :: string where "OPTION_ENABLE_HWCODEC = ''enable-hwcodec''"
definition OPTION_ENABLE_DIRECTX_CAPTURE :: string where
  "OPTION_ENABLE_DIRECTX_CAPTURE = ''enable-directx-capture''"
definition OPTION_AV1_TEST :: string where "OPTION_AV1_TEST = ''av1-test''"

definition disable_av1 :: "codec_env \<Rightarrow> bool" where
  "disable_av1 e \<longleftrightarrow> usize_bytes e = 4"

definition enable_hwcodec_option :: "codec_env \<Rightarrow> bool" where
  "enable_hwcodec_option e =
     (if \<not> on_ios e then option2bool OPTION_ENABLE_HWCODEC (get_option e OPTION_ENABLE_HWCODEC) else False)"

definition enable_directx_capture :: "codec_env \<Rightarrow> bool" where
  "enable_directx_capture e =
     option2bool OPTION_ENABLE_DIRECTX_CAPTURE (get_option e OPTION_ENABLE_DIRECTX_CAPTURE)"

definition enable_vram_option :: "codec_env \<Rightarrow> bool \<Rightarrow> bool" where
  "enable_vram_option e for_encode =
     (if on_windows e
      then let enable = option2bool OPTION_ENABLE_HWCODEC (get_option e OPTION_ENABLE_HWCODEC)
           in if for_encode then enable \<and> enable_directx_capture e else enable
      else False)"

subsection \<open>Choosing the encoder's format\<close>

text \<open>\<^verbatim>\<open>HashMap::insert\<close> and \<^verbatim>\<open>remove\<close>.\<close>

fun map_insert :: "int \<Rightarrow> 'v \<Rightarrow> (int \<times> 'v) list \<Rightarrow> (int \<times> 'v) list" where
  "map_insert k v [] = [(k, v)]"
| "map_insert k v ((k', v') # m) = (if k' = k then (k, v) # m else (k', v') # map_insert k v m)"

definition map_remove :: "int \<Rightarrow> (int \<times> 'v) list \<Rightarrow> (int \<times> 'v) list" where
  "map_remove k m = filter (\<lambda>p. fst p \<noteq> k) m"

definition apply_update :: "encoding_update \<Rightarrow> (int \<times> supported_decoding) list \<Rightarrow> (int \<times> supported_decoding) list" where
  "apply_update u m = (case u of
       Upd_update i d \<Rightarrow> map_insert i d m
     | Upd_remove i \<Rightarrow> map_remove i m
     | Upd_new_only_vp9 i \<Rightarrow> map_insert i (default_decoding\<lparr>ability_vp9 := 1\<rparr>) m
     | Upd_check \<Rightarrow> m)"

definition all_support :: "(supported_decoding \<Rightarrow> int) \<Rightarrow> (int \<times> supported_decoding) list \<Rightarrow> bool" where
  "all_support ability m \<longleftrightarrow> m \<noteq> [] \<and> (\<forall>p \<in> set m. 0 < ability (snd p))"

definition vp8_useable :: "(int \<times> supported_decoding) list \<Rightarrow> bool" where
  "vp8_useable m = all_support ability_vp8 m"

definition av1_useable :: "codec_env \<Rightarrow> (int \<times> supported_decoding) list \<Rightarrow> bool" where
  "av1_useable e m \<longleftrightarrow> all_support ability_av1 m \<and> \<not> disable_av1 e"

text \<open>Whether an encoder of the machine makes the format, given that all peers decode it.\<close>

definition vram_encoding :: "codec_env \<Rightarrow> codec_format \<Rightarrow> bool \<Rightarrow> bool" where
  "vram_encoding e f all \<longleftrightarrow> feature_vram e \<and> enable_vram_option e True \<and> all \<and> 0 < vram_encoders e f"

definition hw_encoding :: "codec_env \<Rightarrow> codec_format \<Rightarrow> bool \<Rightarrow> string option" where
  "hw_encoding e f all =
     (if feature_hwcodec e \<and> enable_hwcodec_option e \<and> all then hwram_encoder e f else None)"

definition h26x_encoding :: "codec_env \<Rightarrow> codec_format \<Rightarrow> bool \<Rightarrow> bool" where
  "h26x_encoding e f all \<longleftrightarrow> vram_encoding e f all \<or> hw_encoding e f all \<noteq> None"

definition h264_useable :: "codec_env \<Rightarrow> (int \<times> supported_decoding) list \<Rightarrow> bool" where
  "h264_useable e m \<longleftrightarrow> all_support ability_h264 m \<and> h26x_encoding e H264 (all_support ability_h264 m)"

definition h265_useable :: "codec_env \<Rightarrow> (int \<times> supported_decoding) list \<Rightarrow> bool" where
  "h265_useable e m \<longleftrightarrow> all_support ability_h265 m \<and> h26x_encoding e H265 (all_support ability_h265 m)"

definition useable_preferences :: "codec_env \<Rightarrow> (int \<times> supported_decoding) list \<Rightarrow> prefer_codec list" where
  "useable_preferences e m = filter
     (\<lambda>p. p = Pref_VP9 \<or> p = Pref_VP8 \<and> vp8_useable m \<or> p = Pref_AV1 \<and> av1_useable e m
        \<or> p = Pref_H264 \<and> h264_useable e m \<or> p = Pref_H265 \<and> h265_useable e m)
     (map (prefer_fmt \<circ> snd) m)"

text \<open>The counting loop, and the first entry with the greatest count.\<close>

fun bump :: "'p \<Rightarrow> ('p \<times> nat) list \<Rightarrow> ('p \<times> nat) list" where
  "bump p [] = [(p, 1)]"
| "bump p ((q, n) # cs) = (if q = p then (q, Suc n) # cs else (q, n) # bump p cs)"

definition count_preferences :: "'p list \<Rightarrow> ('p \<times> nat) list" where
  "count_preferences ps = foldl (\<lambda>cs p. bump p cs) [] ps"

definition most_frequent :: "prefer_codec list \<Rightarrow> prefer_codec" where
  "most_frequent ps =
     (let counts = count_preferences ps;
          max_count = foldl max 0 (map snd counts)
      in case find (\<lambda>c. snd c = max_count) counts of Some c \<Rightarrow> fst c | None \<Rightarrow> Auto)"

definition enum_value_or_auto :: "prefer_codec \<Rightarrow> prefer_codec" where
  "enum_value_or_auto p = (case p of Pref_unknown _ \<Rightarrow> Auto | _ \<Rightarrow> p)"

definition auto_codec :: "codec_env \<Rightarrow> (int \<times> supported_decoding) list \<Rightarrow> codec_format" where
  "auto_codec e m =
     (let a0 = (if av1_useable e m \<and> get_option e OPTION_AV1_TEST \<noteq> ''N'' then AV1 else VP9);
          a1 = (if h264_useable e m then H264 else a0);
          a2 = (if h265_useable e m then H265 else a1)
      in if (a2 = VP9 \<or> a2 = AV1) \<and> vp8_useable m \<and> total_memory e \<le> 4 * 1024 * 1024 * 1024
         then VP8 else a2)"

definition chosen_format :: "codec_env \<Rightarrow> (int \<times> supported_decoding) list \<Rightarrow> codec_format" where
  "chosen_format e m =
     (case enum_value_or_auto (most_frequent (useable_preferences e m)) of
        Pref_VP8 \<Rightarrow> VP8
      | Pref_VP9 \<Rightarrow> VP9
      | Pref_AV1 \<Rightarrow> AV1
      | Pref_H264 \<Rightarrow> if h26x_encoding e H264 (all_support ability_h264 m) then H264 else auto_codec e m
      | Pref_H265 \<Rightarrow> if h26x_encoding e H265 (all_support ability_h265 m) then H265 else auto_codec e m
      | _ \<Rightarrow> auto_codec e m)"

definition encoder_update :: "codec_env \<Rightarrow> encoding_update \<Rightarrow> codec_state \<Rightarrow> codec_state" where
  "encoder_update e u s =
     (let m = apply_update u (peer_decodings s)
      in s\<lparr>peer_decodings := m,
           usable_encoding := Some \<lparr>enc_vp8 = vp8_useable m, enc_av1 = av1_useable e m,
              enc_h264 = h264_useable e m, enc_h265 = h265_useable e m, enc_i444 = None\<rparr>,
           encode_format := chosen_format e m\<rparr>)"

definition supported_encoding_of :: "codec_env \<Rightarrow> supported_encoding" where
  "supported_encoding_of e =
     \<lparr>enc_vp8 = True, enc_av1 = (\<not> disable_av1 e),
      enc_h264 = (feature_hwcodec e \<and> enable_hwcodec_option e \<and> hwram_encoder e H264 \<noteq> None \<or>
                  feature_vram e \<and> enable_vram_option e True \<and> 0 < vram_encoders e H264),
      enc_h265 = (feature_hwcodec e \<and> enable_hwcodec_option e \<and> hwram_encoder e H265 \<noteq> None \<or>
                  feature_vram e \<and> enable_vram_option e True \<and> 0 < vram_encoders e H265),
      enc_i444 = Some \<lparr>ab_vp9 = True, ab_av1 = True\<rparr>\<rparr>"

text \<open>\<^verbatim>\<open>name.contains(p)\<close> of a lower-cased name.\<close>

fun contains :: "string \<Rightarrow> string \<Rightarrow> bool" where
  "contains [] p \<longleftrightarrow> p = []"
| "contains (c # s) p \<longleftrightarrow> starts_with (c # s) p \<or> contains s p"

definition to_lower :: "string \<Rightarrow> string" where
  "to_lower = map (\<lambda>c. if 65 \<le> (of_char c :: nat) \<and> (of_char c :: nat) \<le> 90
                       then char_of (of_char c + 32 :: nat) else c)"

definition fallback_format :: "encoder_cfg \<Rightarrow> codec_format option" where
  "fallback_format cfg = (case cfg of
       Cfg_VPX Vpx_VP8 \<Rightarrow> Some VP8
     | Cfg_VPX Vpx_VP9 \<Rightarrow> Some VP9
     | Cfg_AOM \<Rightarrow> Some AV1
     | Cfg_HWRAM name \<Rightarrow>
         let n = to_lower name
         in Some (if contains n ''vp8'' then VP8 else if contains n ''vp9'' then VP9
                  else if contains n ''av1'' then AV1 else if contains n ''h264'' then H264 else H265)
     | Cfg_VRAM DF_H264 \<Rightarrow> Some H264
     | Cfg_VRAM DF_H265 \<Rightarrow> Some H265
     | Cfg_VRAM _ \<Rightarrow> None)"

definition set_fallback :: "encoder_cfg \<Rightarrow> codec_state \<Rightarrow> codec_state" where
  "set_fallback cfg s = (case fallback_format cfg of
       None \<Rightarrow> s
     | Some f \<Rightarrow> if encode_format s \<noteq> f then s\<lparr>encode_format := f\<rparr> else s)"

definition use_i444 :: "encoder_cfg \<Rightarrow> codec_state \<Rightarrow> bool" where
  "use_i444 cfg s =
     (let ds = peer_decodings s;
          prefer_i444 = list_all (\<lambda>d. prefer_chroma (snd d) = I444) ds;
          i444_useable = (case cfg of
              Cfg_VPX Vpx_VP8 \<Rightarrow> False
            | Cfg_VPX Vpx_VP9 \<Rightarrow> list_all (\<lambda>d. ab_vp9 (dec_i444 (snd d))) ds
            | Cfg_AOM \<Rightarrow> list_all (\<lambda>d. ab_av1 (dec_i444 (snd d))) ds
            | Cfg_HWRAM _ \<Rightarrow> False
            | Cfg_VRAM _ \<Rightarrow> False)
      in prefer_i444 \<and> i444_useable \<and> ds \<noteq> [])"

text \<open>
  \<^verbatim>\<open>Encoder::new\<close>: a hardware encoder that cannot be made resets the format. \<open>mk\<close> is the
  constructor of the codec library; the flags of the result say which parts of the hardware
  configuration are cleared (\<^verbatim>\<open>HwCodecConfig::clear(vram, encode)\<close>).
\<close>

definition encoder_new ::
    "(encoder_cfg \<Rightarrow> bool \<Rightarrow> string + 'c) \<Rightarrow> encoder_cfg \<Rightarrow> bool \<Rightarrow> codec_state
      \<Rightarrow> (string + 'c) \<times> (bool \<times> bool) option \<times> codec_state" where
  "encoder_new mk cfg i444 s = (case (cfg, mk cfg i444) of
       (Cfg_HWRAM _, Inl err) \<Rightarrow> (Inl err, Some (False, True), s\<lparr>encode_format := VP9\<rparr>)
     | (Cfg_VRAM _, Inl err) \<Rightarrow> (Inl err, Some (True, True), s\<lparr>encode_format := VP9\<rparr>)
     | (_, r) \<Rightarrow> (r, None, s))"

subsection \<open>Decoders\<close>

text \<open>
  A codec library with decoders of type \<open>'d\<close>: constructors, the pictures a call yields, and
  for hardware decoders the conversions or textures they yield.
\<close>

record 'd codec_lib =
  new_vpx :: "vpx_codec_id \<Rightarrow> string + 'd"
  new_aom :: "string + 'd"
  new_vram :: "codec_format \<Rightarrow> int option \<Rightarrow> string + 'd"
  new_ram :: "codec_format \<Rightarrow> string + 'd"
  new_media :: "codec_format \<Rightarrow> 'd option"
  lib_decode :: "'d \<Rightarrow> bytes \<Rightarrow> (string + google_image list) \<times> 'd"
  lib_flush :: "'d \<Rightarrow> (string + google_image list) \<times> 'd"
  ram_decode :: "'d \<Rightarrow> bytes \<Rightarrow> (string + (image_rgb \<Rightarrow> image_rgb option) list) \<times> 'd"
  vram_decode :: "'d \<Rightarrow> bytes \<Rightarrow> (string + image_texture list) \<times> 'd"
  media_decode :: "'d \<Rightarrow> bytes \<Rightarrow> image_rgb \<Rightarrow> (string + bool) \<times> image_rgb \<times> 'd"
  lib_yuv :: yuv_convert

record 'd decoder =
  dec_vp8 :: "'d option"
  dec_vp9 :: "'d option"
  dec_av1 :: "'d option"
  h264_ram :: "'d option"
  h265_ram :: "'d option"
  h264_vram :: "'d option"
  h265_vram :: "'d option"
  h264_media :: "'d option"
  h265_media :: "'d option"
  dec_format :: codec_format
  valid :: bool

definition ok_of :: "string + 'd \<Rightarrow> 'd option" where
  "ok_of r = (case r of Inl _ \<Rightarrow> None | Inr d \<Rightarrow> Some d)"

text \<open>The hardware decoders that are tried in turn for H264 and H265: vram, ram, media codec.\<close>

definition try_hardware ::
    "codec_env \<Rightarrow> 'd codec_lib \<Rightarrow> codec_format \<Rightarrow> int option \<Rightarrow> 'd option \<times> 'd option \<times> 'd option" where
  "try_hardware e lib f luid =
     (let vram = (if feature_vram e \<and> enable_vram_option e False \<and> (case luid of None \<Rightarrow> 0 | Some l \<Rightarrow> l) \<noteq> 0
                  then ok_of (new_vram lib f luid) else None);
          ram = (if feature_hwcodec e \<and> vram = None then ok_of (new_ram lib f) else None);
          media = (if feature_mediacodec e \<and> vram = None \<and> ram = None \<and> enable_hwcodec_option e
                   then new_media lib f else None)
      in (vram, ram, media))"

definition decoder_new :: "codec_env \<Rightarrow> 'd codec_lib \<Rightarrow> codec_format \<Rightarrow> int option \<Rightarrow> 'd decoder" where
  "decoder_new e lib f luid =
     (let d0 = \<lparr>dec_vp8 = None, dec_vp9 = None, dec_av1 = None, h264_ram = None, h265_ram = None,
                h264_vram = None, h265_vram = None, h264_media = None, h265_media = None,
                dec_format = f, valid = False\<rparr>
      in case f of
           VP8 \<Rightarrow> let d = ok_of (new_vpx lib Vpx_VP8) in d0\<lparr>dec_vp8 := d, valid := d \<noteq> None\<rparr>
         | VP9 \<Rightarrow> let d = ok_of (new_vpx lib Vpx_VP9) in d0\<lparr>dec_vp9 := d, valid := d \<noteq> None\<rparr>
         | AV1 \<Rightarrow> let d = ok_of (new_aom lib) in d0\<lparr>dec_av1 := d, valid := d \<noteq> None\<rparr>
         | H264 \<Rightarrow> (case try_hardware e lib H264 luid of (v, r, m) \<Rightarrow>
              d0\<lparr>h264_vram := v, h264_ram := r, h264_media := m,
                 valid := v \<noteq> None \<or> r \<noteq> None \<or> m \<noteq> None\<rparr>)
         | H265 \<Rightarrow> (case try_hardware e lib H265 luid of (v, r, m) \<Rightarrow>
              d0\<lparr>h265_vram := v, h265_ram := r, h265_media := m,
                 valid := v \<noteq> None \<or> r \<noteq> None \<or> m \<noteq> None\<rparr>)
         | Unknown \<Rightarrow> d0)"

record video_out =
  out_rgb :: image_rgb
  out_texture :: image_texture
  out_pixelbuffer :: bool
  out_chroma :: "chroma option"

text \<open>Decoding the pictures of a software-coded frame; the last picture counts.\<close>

fun decode_all ::
    "('d \<Rightarrow> bytes \<Rightarrow> (string + google_image list) \<times> 'd) \<Rightarrow> bytes list \<Rightarrow> google_image option \<Rightarrow> 'd
      \<Rightarrow> (string + google_image option) \<times> 'd" where
  "decode_all dc [] img d = (Inr img, d)"
| "decode_all dc (b # bs) img d = (case dc d b of
       (Inl err, d') \<Rightarrow> (Inl err, d')
     | (Inr imgs, d') \<Rightarrow> decode_all dc bs (if imgs = [] then img else Some (last imgs)) d')"

definition handle_vpxs_video_frame ::
    "'d codec_lib \<Rightarrow> bytes list \<Rightarrow> video_out \<Rightarrow> 'd \<Rightarrow> (string + bool) \<times> video_out \<times> 'd" where
  "handle_vpxs_video_frame lib bs out d = (case decode_all (lib_decode lib) bs None d of
       (Inl err, d1) \<Rightarrow> (Inl err, out, d1)
     | (Inr img, d1) \<Rightarrow> (case lib_flush lib d1 of
           (Inl err, d2) \<Rightarrow> (Inl err, out, d2)
         | (Inr imgs, d2) \<Rightarrow> (case (if imgs = [] then img else Some (last imgs)) of
               None \<Rightarrow> (Inr False, out, d2)
             | Some i \<Rightarrow> (Inr True, out\<lparr>out_chroma := Some (img_chroma i),
                                      out_rgb := image_to (lib_yuv lib) i (out_rgb out)\<rparr>, d2))))"

text \<open>The same text again, for the decoder of libaom.\<close>

definition handle_av1s_video_frame ::
    "'d codec_lib \<Rightarrow> bytes list \<Rightarrow> video_out \<Rightarrow> 'd \<Rightarrow> (string + bool) \<times> video_out \<times> 'd" where
  "handle_av1s_video_frame lib bs out d = (case decode_all (lib_decode lib) bs None d of
       (Inl err, d1) \<Rightarrow> (Inl err, out, d1)
     | (Inr img, d1) \<Rightarrow> (case lib_flush lib d1 of
           (Inl err, d2) \<Rightarrow> (Inl err, out, d2)
         | (Inr imgs, d2) \<Rightarrow> (case (if imgs = [] then img else Some (last imgs)) of
               None \<Rightarrow> (Inr False, out, d2)
             | Some i \<Rightarrow> (Inr True, out\<lparr>out_chroma := Some (img_chroma i),
                                      out_rgb := image_to (lib_yuv lib) i (out_rgb out)\<rparr>, d2))))"

text \<open>Hardware decoders: every picture that converts makes the result true.\<close>

definition convert_step :: "(image_rgb \<Rightarrow> image_rgb option) \<Rightarrow> bool \<times> image_rgb \<Rightarrow> bool \<times> image_rgb" where
  "convert_step c s = (case c (snd s) of None \<Rightarrow> s | Some rgb' \<Rightarrow> (True, rgb'))"

fun handle_hwram_video_frame ::
    "'d codec_lib \<Rightarrow> bytes list \<Rightarrow> bool \<Rightarrow> video_out \<Rightarrow> 'd \<Rightarrow> (string + bool) \<times> video_out \<times> 'd" where
  "handle_hwram_video_frame lib [] ret out d = (Inr ret, out, d)"
| "handle_hwram_video_frame lib (b # bs) ret out d = (case ram_decode lib d b of
       (Inl err, d') \<Rightarrow> (Inl err, out, d')
     | (Inr cs, d') \<Rightarrow> (case foldl (\<lambda>s c. convert_step c s) (ret, out_rgb out) cs of
           (ret', rgb') \<Rightarrow> handle_hwram_video_frame lib bs ret' (out\<lparr>out_rgb := rgb'\<rparr>) d'))"

fun handle_vram_video_frame ::
    "'d codec_lib \<Rightarrow> bytes list \<Rightarrow> bool \<Rightarrow> video_out \<Rightarrow> 'd \<Rightarrow> (string + bool) \<times> video_out \<times> 'd" where
  "handle_vram_video_frame lib [] ret out d = (Inr ret, out, d)"
| "handle_vram_video_frame lib (b # bs) ret out d = (case vram_decode lib d b of
       (Inl err, d') \<Rightarrow> (Inl err, out, d')
     | (Inr ts, d') \<Rightarrow>
         if ts = [] then handle_vram_video_frame lib bs ret out d'
         else handle_vram_video_frame lib bs True (out\<lparr>out_texture := last ts\<rparr>) d')"

text \<open>The media codec: only the first picture of the frame is decoded.\<close>

definition handle_mediacodec_video_frame ::
    "'d codec_lib \<Rightarrow> bytes list \<Rightarrow> video_out \<Rightarrow> 'd \<Rightarrow> (string + bool) \<times> video_out \<times> 'd" where
  "handle_mediacodec_video_frame lib bs out d = (case bs of
       [] \<Rightarrow> (Inr False, out, d)
     | b # _ \<Rightarrow> (case media_decode lib d b (out_rgb out) of
           (r, rgb', d') \<Rightarrow> (r, out\<lparr>out_rgb := rgb'\<rparr>, d')))"

definition handle_video_frame ::
    "codec_env \<Rightarrow> 'd codec_lib \<Rightarrow> video_union \<Rightarrow> video_out \<Rightarrow> 'd decoder
      \<Rightarrow> (string + bool) \<times> video_out \<times> 'd decoder" where
  "handle_video_frame e lib vf out dcd = (case vf of
       Vp8s bs \<Rightarrow> (case dec_vp8 dcd of
           None \<Rightarrow> (Inl ''vp8 decoder not available'', out, dcd)
         | Some d \<Rightarrow> (case handle_vpxs_video_frame lib bs out d of
               (r, out', d') \<Rightarrow> (r, out', dcd\<lparr>dec_vp8 := Some d'\<rparr>)))
     | Vp9s bs \<Rightarrow> (case dec_vp9 dcd of
           None \<Rightarrow> (Inl ''vp9 decoder not available'', out, dcd)
         | Some d \<Rightarrow> (case handle_vpxs_video_frame lib bs out d of
               (r, out', d') \<Rightarrow> (r, out', dcd\<lparr>dec_vp9 := Some d'\<rparr>)))
     | Av1s bs \<Rightarrow> (case dec_av1 dcd of
           None \<Rightarrow> (Inl ''av1 decoder not available'', out, dcd)
         | Some d \<Rightarrow> (case handle_av1s_video_frame lib bs out d of
               (r, out', d') \<Rightarrow> (r, out', dcd\<lparr>dec_av1 := Some d'\<rparr>)))
     | H264s bs \<Rightarrow>
         if feature_hwcodec e \<or> feature_vram e
         then let out1 = out\<lparr>out_chroma := Some I420\<rparr>
              in (case (if feature_vram e then h264_vram dcd else None) of
                    Some d \<Rightarrow> (case handle_vram_video_frame lib bs False (out1\<lparr>out_pixelbuffer := False\<rparr>) d of
                        (r, out', d') \<Rightarrow> (r, out', dcd\<lparr>h264_vram := Some d'\<rparr>))
                  | None \<Rightarrow> (case (if feature_hwcodec e then h264_ram dcd else None) of
                        Some d \<Rightarrow> (case handle_hwram_video_frame lib bs False out1 d of
                            (r, out', d') \<Rightarrow> (r, out', dcd\<lparr>h264_ram := Some d'\<rparr>))
                      | None \<Rightarrow> (Inl ''don't support h264!'', out1, dcd)))
         else if feature_mediacodec e
         then let out1 = out\<lparr>out_chroma := Some I420\<rparr>
              in (case h264_media dcd of
                    Some d \<Rightarrow> (case handle_mediacodec_video_frame lib bs out1 d of
                        (r, out', d') \<Rightarrow> (r, out', dcd\<lparr>h264_media := Some d'\<rparr>))
                  | None \<Rightarrow> (Inl ''don't support h264!'', out1, dcd))
         else (Inl ''unsupported video frame type!'', out, dcd)
     | H265s bs \<Rightarrow>
         if feature_hwcodec e \<or> feature_vram e
         then let out1 = out\<lparr>out_chroma := Some I420\<rparr>
              in (case (if feature_vram e then h265_vram dcd else None) of
                    Some d \<Rightarrow> (case handle_vram_video_frame lib bs False (out1\<lparr>out_pixelbuffer := False\<rparr>) d of
                        (r, out', d') \<Rightarrow> (r, out', dcd\<lparr>h265_vram := Some d'\<rparr>))
                  | None \<Rightarrow> (case (if feature_hwcodec e then h265_ram dcd else None) of
                        Some d \<Rightarrow> (case handle_hwram_video_frame lib bs False out1 d of
                            (r, out', d') \<Rightarrow> (r, out', dcd\<lparr>h265_ram := Some d'\<rparr>))
                      | None \<Rightarrow> (Inl ''don't support h265!'', out1, dcd)))
         else if feature_mediacodec e
         then let out1 = out\<lparr>out_chroma := Some I420\<rparr>
              in (case h265_media dcd of
                    Some d \<Rightarrow> (case handle_mediacodec_video_frame lib bs out1 d of
                        (r, out', d') \<Rightarrow> (r, out', dcd\<lparr>h265_media := Some d'\<rparr>))
                  | None \<Rightarrow> (Inl ''don't support h265!'', out1, dcd))
         else (Inl ''unsupported video frame type!'', out, dcd)
     | Frame_other \<Rightarrow> (Inl ''unsupported video frame type!'', out, dcd))"

subsection \<open>What a decoder announces\<close>

definition preference :: "codec_env \<Rightarrow> string option \<Rightarrow> prefer_codec \<times> chroma" where
  "preference e peer =
     (let i = (case peer of None \<Rightarrow> '''' | Some i \<Rightarrow> i)
      in if i = '''' then (Auto, I420)
         else let opts = peer_options e i;
                  c = (case opts ''codec-preference'' of None \<Rightarrow> '''' | Some c \<Rightarrow> c)
              in (if c = ''vp8'' then Pref_VP8 else if c = ''vp9'' then Pref_VP9
                  else if c = ''av1'' then Pref_AV1 else if c = ''h264'' then Pref_H264
                  else if c = ''h265'' then Pref_H265 else Auto,
                  if opts ''i444'' = Some ''Y'' then I444 else I420))"

definition mark_unsupported :: "codec_format \<Rightarrow> supported_decoding \<Rightarrow> supported_decoding" where
  "mark_unsupported f d = (case f of
       VP8 \<Rightarrow> d\<lparr>ability_vp8 := 0\<rparr> | VP9 \<Rightarrow> d\<lparr>ability_vp9 := 0\<rparr> | AV1 \<Rightarrow> d\<lparr>ability_av1 := 0\<rparr>
     | H264 \<Rightarrow> d\<lparr>ability_h264 := 0\<rparr> | H265 \<Rightarrow> d\<lparr>ability_h265 := 0\<rparr> | Unknown \<Rightarrow> d)"

text \<open>\<open>ability\<close> is what the three optional blocks make of an ability that starts at 0.\<close>

definition hardware_ability :: "codec_env \<Rightarrow> bool \<Rightarrow> codec_format \<Rightarrow> int" where
  "hardware_ability e texture_render f =
     (let a1 = (if feature_hwcodec e \<and> hwram_decoder e f then 1 else 0);
          a2 = (if feature_vram e \<and> enable_vram_option e False \<and> texture_render \<and> 0 < vram_decoders e f
                then 1 else a1)
      in if feature_mediacodec e \<and> enable_hwcodec_option e then (if media_decoder e f then 1 else 0) else a2)"

definition supported_decodings ::
    "codec_env \<Rightarrow> string option \<Rightarrow> bool \<Rightarrow> codec_format list \<Rightarrow> supported_decoding" where
  "supported_decodings e peer texture_render unsupported =
     (let (pref, chr) = preference e peer
      in foldl (\<lambda>d f. mark_unsupported f d)
           \<lparr>ability_vp8 = 1, ability_vp9 = 1, ability_av1 = (if disable_av1 e then 0 else 1),
            ability_h264 = hardware_ability e texture_render H264,
            ability_h265 = hardware_ability e texture_render H265,
            prefer_fmt = pref, dec_i444 = \<lparr>ab_vp9 = True, ab_av1 = True\<rparr>, prefer_chroma = chr\<rparr>
           unsupported)"

subsection \<open>Numbers\<close>

text \<open>\<^verbatim>\<open>base_bitrate\<close> on a desktop system, with the product wrapping as in a release build.\<close>

definition base_bitrate :: "u32 \<Rightarrow> u32 \<Rightarrow> u32" where
  "base_bitrate w h =
     (let b = word_of_nat (unat (w * h) div 1000) in if b = 0 then 1920 * 1080 div 1000 else b)"

text \<open>
  \<^verbatim>\<open>codec_thread_num\<close>: \<open>load\<close> is the rounded number of threads left by the load of the
  machine, \<open>cpus\<close> the number of processors, \<open>mem\<close> the available memory in gigabytes.
\<close>

definition common_thread_count :: "nat \<Rightarrow> nat" where
  "common_thread_count r =
     (if 64 \<le> r then 64 else if 32 \<le> r then 32 else if 16 \<le> r then 16 else if 8 \<le> r then 8
      else if 4 \<le> r then 4 else if 2 \<le> r then 2 else 1)"

definition codec_thread_num :: "nat \<Rightarrow> nat \<Rightarrow> nat \<Rightarrow> nat \<Rightarrow> nat" where
  "codec_thread_num load cpus mem limit =
     min (common_thread_count (min (min load (cpus div 2)) (mem div 2))) limit"

end
