(* ===== verification/VideoProps.thy ===== *)
theory VideoProps
  imports VideoCodec
begin

text \<open>
  Properties of the codec negotiation: the format in use is one every peer decodes, the most
  frequent usable preference wins, decoders handle exactly their own format.
\<close>

subsection \<open>Counting\<close>

lemma bump_keys: "distinct (map fst cs) \<Longrightarrow>
    distinct (map fst (bump p cs)) \<and> set (map fst (bump p cs)) = insert p (set (map fst cs))"
  by (induction p cs rule: bump.induct) auto

lemma map_of_bump: "map_of (bump p cs) q =
    (if q = p then Some (Suc (case map_of cs p of None \<Rightarrow> 0 | Some n \<Rightarrow> n)) else map_of cs q)"
  by (induction p cs rule: bump.induct) auto

lemma count_preferences_map:
  "distinct (map fst (count_preferences ps)) \<and>
   map_of (count_preferences ps) = (\<lambda>q. if q \<in> set ps then Some (count_list ps q) else None)"
proof (induction ps rule: rev_induct)
  case Nil
  then show ?case by (simp add: count_preferences_def)
next
  case (snoc p ps)
  have step: "count_preferences (ps @ [p]) = bump p (count_preferences ps)"
    by (simp add: count_preferences_def)
  show ?case
    unfolding step using snoc bump_keys [of "count_preferences ps" p]
    by (auto simp: map_of_bump fun_eq_iff)
qed

lemma foldl_max:
  fixes ns :: "nat list"
  shows "(\<forall>n \<in> set ns. n \<le> foldl max a ns) \<and> a \<le> foldl max a ns \<and> foldl max a ns \<in> insert a (set ns)"
proof (induction ns arbitrary: a)
  case (Cons n ns)
  from Cons.IH [of "max a n"] show ?case by (auto simp: max_def split: if_splits)
qed simp

lemma most_frequent_max:
  assumes "ps \<noteq> []"
  shows "most_frequent ps \<in> set ps" "count_list ps q \<le> count_list ps (most_frequent ps)"
proof -
  define cs where "cs = count_preferences ps"
  define m where "m = foldl max 0 (map snd cs)"
  have cs: "distinct (map fst cs)" "map_of cs = (\<lambda>q. if q \<in> set ps then Some (count_list ps q) else None)"
    using count_preferences_map [of ps] by (simp_all add: cs_def)
  have in_cs: "(q, n) \<in> set cs \<longleftrightarrow> q \<in> set ps \<and> n = count_list ps q" for q n
    using map_of_eq_Some_iff [OF cs(1), of q n] cs(2) by (auto split: if_splits)
  obtain p0 where "p0 \<in> set ps" using assms by (cases ps) auto
  then have p0: "(p0, count_list ps p0) \<in> set cs" by (simp add: in_cs)
  have upper: "count_list ps q \<le> m" if "q \<in> set ps" for q
    using foldl_max [of "map snd cs" 0] in_cs [of q "count_list ps q"] that by (force simp: m_def)
  have "m \<in> insert 0 (snd ` set cs)" using foldl_max [of "map snd cs" 0] by (simp add: m_def)
  moreover have "m \<noteq> 0"
    using upper [OF \<open>p0 \<in> set ps\<close>] \<open>p0 \<in> set ps\<close> by (metis count_list_0_iff le_zero_eq)
  ultimately obtain c where "c \<in> set cs" "snd c = m" by auto
  then obtain c where c: "find (\<lambda>c. snd c = m) cs = Some c"
    by (metis (mono_tags, lifting) find_None_iff option.exhaust)
  then have "c \<in> set cs" "snd c = m" by (auto simp: find_Some_iff)
  then have fst: "fst c \<in> set ps" "count_list ps (fst c) = m" using in_cs [of "fst c" "snd c"] by auto
  have mf: "most_frequent ps = fst c"
    using c by (simp add: most_frequent_def Let_def cs_def [symmetric] m_def [symmetric])
  show "most_frequent ps \<in> set ps" by (simp add: mf fst)
  show "count_list ps q \<le> count_list ps (most_frequent ps)"
    using upper [of q] by (cases "q \<in> set ps") (simp_all add: mf fst)
qed

lemma most_frequent_Nil: "most_frequent [] = Auto"
  by (simp add: most_frequent_def count_preferences_def)

subsection \<open>Negotiation\<close>

lemma useable_preference_cases:
  assumes "p \<in> set (useable_preferences e m)"
  shows "p = Pref_VP9 \<or> p = Pref_VP8 \<and> vp8_useable m \<or> p = Pref_AV1 \<and> av1_useable e m
        \<or> p = Pref_H264 \<and> h264_useable e m \<or> p = Pref_H265 \<and> h265_useable e m"
  using assms by (simp add: useable_preferences_def)

lemma most_frequent_cases:
  obtains "most_frequent (useable_preferences e m) = Auto" "useable_preferences e m = []"
  | "most_frequent (useable_preferences e m) \<in> set (useable_preferences e m)"
  using most_frequent_max(1) [of "useable_preferences e m"] most_frequent_Nil
  by (cases "useable_preferences e m = []") auto

definition format_useable :: "codec_env \<Rightarrow> (int \<times> supported_decoding) list \<Rightarrow> codec_format \<Rightarrow> bool" where
  "format_useable e m f = (case f of
       VP8 \<Rightarrow> vp8_useable m | VP9 \<Rightarrow> True | AV1 \<Rightarrow> av1_useable e m
     | H264 \<Rightarrow> h264_useable e m | H265 \<Rightarrow> h265_useable e m | Unknown \<Rightarrow> False)"

lemma auto_codec_useable: "format_useable e m (auto_codec e m)"
  by (simp add: auto_codec_def Let_def format_useable_def)

lemma chosen_format_useable: "format_useable e m (chosen_format e m)"
proof (rule most_frequent_cases [of e m])
  assume "most_frequent (useable_preferences e m) = Auto"
  then show ?thesis by (simp add: chosen_format_def enum_value_or_auto_def auto_codec_useable)
next
  assume "most_frequent (useable_preferences e m) \<in> set (useable_preferences e m)"
  from useable_preference_cases [OF this] show ?thesis
    by (auto simp: chosen_format_def enum_value_or_auto_def auto_codec_useable format_useable_def
        h264_useable_def h265_useable_def)
qed

text \<open>C16. The negotiated codec is one that works: after any update of the table of peers, the
  format is VP9, or there are peers and every one of them decodes the format, and for H264
  and H265 an enabled encoder of the machine makes it; AV1 is never chosen on 32-bit systems.
\<close>

theorem negotiated_format_is_usable:
  "case encode_format (encoder_update e u s) of
     VP9 \<Rightarrow> True
   | VP8 \<Rightarrow> all_support ability_vp8 (peer_decodings (encoder_update e u s))
   | AV1 \<Rightarrow> all_support ability_av1 (peer_decodings (encoder_update e u s)) \<and> usize_bytes e \<noteq> 4
   | H264 \<Rightarrow> all_support ability_h264 (peer_decodings (encoder_update e u s)) \<and>
       (feature_vram e \<and> enable_vram_option e True \<and> 0 < vram_encoders e H264 \<or>
        feature_hwcodec e \<and> enable_hwcodec_option e \<and> hwram_encoder e H264 \<noteq> None)
   | H265 \<Rightarrow> all_support ability_h265 (peer_decodings (encoder_update e u s)) \<and>
       (feature_vram e \<and> enable_vram_option e True \<and> 0 < vram_encoders e H265 \<or>
        feature_hwcodec e \<and> enable_hwcodec_option e \<and> hwram_encoder e H265 \<noteq> None)
   | Unknown \<Rightarrow> False"
proof -
  define m where "m = apply_update u (peer_decodings s)"
  have "format_useable e m (chosen_format e m)" by (rule chosen_format_useable)
  then show ?thesis
    by (cases "chosen_format e m")
       (auto simp: encoder_update_def Let_def m_def [symmetric] format_useable_def vp8_useable_def
          av1_useable_def disable_av1_def h264_useable_def h265_useable_def h26x_encoding_def
          vram_encoding_def hw_encoding_def split: if_splits)
qed

text \<open>The format a preference stands for.\<close>

definition preferred_format :: "prefer_codec \<Rightarrow> codec_format" where
  "preferred_format p = (case p of Pref_VP8 \<Rightarrow> VP8 | Pref_VP9 \<Rightarrow> VP9 | Pref_AV1 \<Rightarrow> AV1
     | Pref_H264 \<Rightarrow> H264 | Pref_H265 \<Rightarrow> H265 | _ \<Rightarrow> Unknown)"

text \<open>The majority decides: if a peer states a preference that can be met, the chosen format
  is the preference of some peer that can be met, and no other such preference is stated
  by more peers. Preferences that cannot be met do not count.
\<close>

theorem most_frequent_preference_wins:
  assumes "useable_preferences e m \<noteq> []"
  shows "\<exists>p \<in> set (useable_preferences e m). chosen_format e m = preferred_format p \<and>
    (\<exists>d \<in> set m. prefer_fmt (snd d) = p) \<and>
    list_all (\<lambda>q. count_list (useable_preferences e m) q \<le> count_list (useable_preferences e m) p)
      (useable_preferences e m)"
proof -
  define p where "p = most_frequent (useable_preferences e m)"
  have p: "p \<in> set (useable_preferences e m)" unfolding p_def by (rule most_frequent_max(1) [OF assms])
  from useable_preference_cases [OF p] have "chosen_format e m = preferred_format p"
    by (auto simp: chosen_format_def p_def [symmetric] enum_value_or_auto_def preferred_format_def
        h264_useable_def h265_useable_def)
  moreover have "\<exists>d \<in> set m. prefer_fmt (snd d) = p" using p by (auto simp: useable_preferences_def)
  moreover have "list_all (\<lambda>q. count_list (useable_preferences e m) q \<le> count_list (useable_preferences e m) p)
      (useable_preferences e m)"
    using most_frequent_max(2) [OF assms] by (auto simp: list_all_iff p_def)
  ultimately show ?thesis using p by blast
qed

definition plain_env :: codec_env where
  "plain_env = \<lparr>feature_hwcodec = False, feature_vram = False, feature_mediacodec = False,
     on_windows = False, on_ios = False, usize_bytes = 8, get_option = (\<lambda>_. ''''),
     total_memory = 8 * 1024 * 1024 * 1024, vram_encoders = (\<lambda>_. 0), hwram_encoder = (\<lambda>_. None),
     vram_decoders = (\<lambda>_. 0), hwram_decoder = (\<lambda>_. False), media_decoder = (\<lambda>_. False),
     peer_options = (\<lambda>_ _. None)\<rparr>"

definition wants :: "prefer_codec \<Rightarrow> supported_decoding" where
  "wants p = default_decoding\<lparr>ability_vp8 := 1, ability_vp9 := 1, ability_av1 := 1, prefer_fmt := p\<rparr>"

lemma wants_useable:
  "useable_preferences plain_env [(1, wants Pref_VP8), (2, wants Pref_AV1), (3, wants Pref_AV1)]
    = [Pref_VP8, Pref_AV1, Pref_AV1]"
  "useable_preferences plain_env [(1, wants Pref_VP8), (2, wants Pref_VP9)] = [Pref_VP8, Pref_VP9]"
  "useable_preferences plain_env [(2, wants Pref_VP9), (1, wants Pref_VP8)] = [Pref_VP9, Pref_VP8]"
  by (simp_all add: useable_preferences_def vp8_useable_def av1_useable_def disable_av1_def
      all_support_def wants_def default_decoding_def plain_env_def)

lemma most_frequent_preference_wins_witness:
  "chosen_format plain_env [(1, wants Pref_VP8), (2, wants Pref_AV1), (3, wants Pref_AV1)] = AV1"
proof -
  obtain p where "p \<in> set [Pref_VP8, Pref_AV1, Pref_AV1]"
    "chosen_format plain_env [(1, wants Pref_VP8), (2, wants Pref_AV1), (3, wants Pref_AV1)] = preferred_format p"
    "list_all (\<lambda>q. count_list [Pref_VP8, Pref_AV1, Pref_AV1] q \<le> count_list [Pref_VP8, Pref_AV1, Pref_AV1] p)
       [Pref_VP8, Pref_AV1, Pref_AV1]"
    using most_frequent_preference_wins
      [of plain_env "[(1, wants Pref_VP8), (2, wants Pref_AV1), (3, wants Pref_AV1)]"]
    unfolding wants_useable by blast
  then show ?thesis by (auto simp: preferred_format_def)
qed

text \<open>Ties are broken by chance: with two peers that prefer different codecs both of which
  work, the same table of peers gives one codec or the other, depending on the order in
  which the hash map happens to be iterated.
\<close>

theorem tie_depends_on_order:
  "set [(1, wants Pref_VP8), (2, wants Pref_VP9)] = set [(2, wants Pref_VP9), (1, wants Pref_VP8)] \<and>
   chosen_format plain_env [(1, wants Pref_VP8), (2, wants Pref_VP9)] = VP8 \<and>
   chosen_format plain_env [(2, wants Pref_VP9), (1, wants Pref_VP8)] = VP9"
  by (auto simp: chosen_format_def wants_useable most_frequent_def count_preferences_def
      enum_value_or_auto_def)

text \<open>VP9 is taken for granted: a peer that has marked VP9 as unsupported, as
  \<open>supported_decodings\<close> does after a failure, and asks for nothing else is still sent VP9
  when AV1 is too slow on this machine.
\<close>

theorem vp9_is_not_checked:
  "ability_vp9 (supported_decodings plain_env None False [VP9]) = 0 \<and>
   encode_format (encoder_update (plain_env\<lparr>get_option := (\<lambda>_. ''N'')\<rparr>)
     (Upd_update 1 (supported_decodings plain_env None False [VP9])) codec_init) = VP9"
  by (simp add: supported_decodings_def preference_def mark_unsupported_def encoder_update_def
      codec_init_def apply_update_def chosen_format_def useable_preferences_def most_frequent_Nil
      enum_value_or_auto_def auto_codec_def av1_useable_def vp8_useable_def h264_useable_def
      h265_useable_def all_support_def hardware_ability_def disable_av1_def plain_env_def Let_def)

text \<open>What is usable was announced: after an update, each codec that the table of usable
  encodings offers is one the machine's announcement \<open>supported_encoding\<close> contains.
\<close>

theorem usable_encodings_are_announced:
  "\<exists>u'. usable_encoding (encoder_update e u s) = Some u' \<and>
    enc_vp8 u' \<le> enc_vp8 (supported_encoding_of e) \<and> enc_av1 u' \<le> enc_av1 (supported_encoding_of e) \<and>
    enc_h264 u' \<le> enc_h264 (supported_encoding_of e) \<and> enc_h265 u' \<le> enc_h265 (supported_encoding_of e)"
  by (auto simp: encoder_update_def Let_def supported_encoding_of_def av1_useable_def
      h264_useable_def h265_useable_def h26x_encoding_def vram_encoding_def hw_encoding_def le_bool_def
      split: if_splits)

subsection \<open>Decoders\<close>

text \<open>A decoder handles one format: it answers every frame of another format with an error,
  and keeps its own state and the output image and texture as they were.
\<close>

theorem decoder_rejects_other_formats:
  assumes "format_of_union vf \<noteq> f"
  shows "\<exists>err c. handle_video_frame e lib vf out (decoder_new e lib f luid) =
    (Inl err, out\<lparr>out_chroma := c\<rparr>, decoder_new e lib f luid)"
proof -
  have same: "\<exists>c. out = out\<lparr>out_chroma := c\<rparr>" by (rule exI [of _ "out_chroma out"]) simp
  show ?thesis
    using assms same
    by (cases f; cases vf)
       (auto simp: format_of_union_def handle_video_frame_def decoder_new_def Let_def split: prod.splits)
qed

text \<open>A library whose calls succeed.\<close>

definition lib_total :: "'d codec_lib \<Rightarrow> bool" where
  "lib_total lib \<longleftrightarrow> (\<forall>d b. \<exists>x d'. lib_decode lib d b = (Inr x, d')) \<and>
     (\<forall>d. \<exists>x d'. lib_flush lib d = (Inr x, d')) \<and>
     (\<forall>d b. \<exists>x d'. ram_decode lib d b = (Inr x, d')) \<and>
     (\<forall>d b. \<exists>x d'. vram_decode lib d b = (Inr x, d')) \<and>
     (\<forall>d b i. \<exists>x i' d'. media_decode lib d b i = (Inr x, i', d'))"

lemma lib_totalD:
  assumes "lib_total lib"
  shows "\<exists>x d'. lib_decode lib d b = (Inr x, d')" "\<exists>x d'. lib_flush lib d = (Inr x, d')"
    "\<exists>x d'. ram_decode lib d b = (Inr x, d')" "\<exists>x d'. vram_decode lib d b = (Inr x, d')"
    "\<exists>x i' d'. media_decode lib d b i = (Inr x, i', d')"
  using assms unfolding lib_total_def by blast+

lemma decode_all_total:
  assumes "lib_total lib"
  shows "\<exists>x d'. decode_all (lib_decode lib) bs img d = (Inr x, d')"
proof (induction bs arbitrary: img d)
  case (Cons b bs)
  obtain x d' where "lib_decode lib d b = (Inr x, d')" using lib_totalD(1) [OF assms] by blast
  then show ?case using Cons.IH by simp
qed simp

lemma handle_vpxs_total:
  assumes "lib_total lib"
  shows "\<exists>r out' d'. handle_vpxs_video_frame lib bs out d = (Inr r, out', d')"
    "\<exists>r out' d'. handle_av1s_video_frame lib bs out d = (Inr r, out', d')"
proof -
  obtain img d1 where 1: "decode_all (lib_decode lib) bs None d = (Inr img, d1)"
    using decode_all_total [OF assms] by blast
  obtain imgs d2 where 2: "lib_flush lib d1 = (Inr imgs, d2)" using lib_totalD(2) [OF assms] by blast
  show "\<exists>r out' d'. handle_vpxs_video_frame lib bs out d = (Inr r, out', d')"
    "\<exists>r out' d'. handle_av1s_video_frame lib bs out d = (Inr r, out', d')"
    unfolding handle_vpxs_video_frame_def handle_av1s_video_frame_def 1 2 prod.case sum.case
    by (cases "if imgs = [] then img else Some (last imgs)"; simp only: option.case; blast)+
qed

lemma handle_hwram_total:
  assumes "lib_total lib"
  shows "\<exists>r out' d'. handle_hwram_video_frame lib bs ret out d = (Inr r, out', d')"
proof (induction bs arbitrary: ret out d)
  case (Cons b bs)
  obtain x d' where "ram_decode lib d b = (Inr x, d')" using lib_totalD(3) [OF assms] by blast
  then show ?case using Cons.IH by (auto split: prod.splits)
qed simp

lemma handle_vram_total:
  assumes "lib_total lib"
  shows "\<exists>r out' d'. handle_vram_video_frame lib bs ret out d = (Inr r, out', d')"
proof (induction bs arbitrary: ret out d)
  case (Cons b bs)
  obtain x d' where "vram_decode lib d b = (Inr x, d')" using lib_totalD(4) [OF assms] by blast
  then show ?case using Cons.IH by auto
qed simp

lemma handle_media_total:
  assumes "lib_total lib"
  shows "\<exists>r out' d'. handle_mediacodec_video_frame lib bs out d = (Inr r, out', d')"
proof (cases bs)
  case (Cons b bs')
  obtain x i d' where "media_decode lib d b (out_rgb out) = (Inr x, i, d')"
    using lib_totalD(5) [OF assms] by blast
  then show ?thesis by (simp add: Cons handle_mediacodec_video_frame_def)
qed (auto simp: handle_mediacodec_video_frame_def)

text \<open>A valid decoder handles its own frames: when the decoder for a format could be made,
  and the calls of the codec library succeed, no frame of the format is answered with an
  error, provided the build does not combine the media codec with the desktop hardware
  codecs (then the media decoder is never asked).
\<close>

theorem valid_decoder_handles_its_format:
  assumes "lib_total lib" and "valid (decoder_new e lib f luid)" and "format_of_union vf = f"
    and "\<not> (feature_mediacodec e \<and> (feature_hwcodec e \<or> feature_vram e))"
  shows "\<exists>r out' d'. handle_video_frame e lib vf out (decoder_new e lib f luid) = (Inr r, out', d')"
proof -
  note tot = handle_vpxs_total [OF assms(1)] handle_hwram_total [OF assms(1)]
    handle_vram_total [OF assms(1)] handle_media_total [OF assms(1)]
  have sw: "\<exists>r out' d'. (case p of (r, out', d') \<Rightarrow> (r, out', g d')) = (Inr r, out', d')"
    if "\<exists>r out' d'. p = (Inr r, out', d')" for p :: "(string + bool) \<times> video_out \<times> 'a" and g :: "'a \<Rightarrow> 'a decoder"
    using that by auto
  show ?thesis
  proof (cases vf)
    case (Vp8s bs)
    then show ?thesis using assms(2,3) tot(1)
      by (auto simp: format_of_union_def handle_video_frame_def decoder_new_def Let_def intro!: sw)
  next
    case (Vp9s bs)
    then show ?thesis using assms(2,3) tot(1)
      by (auto simp: format_of_union_def handle_video_frame_def decoder_new_def Let_def intro!: sw)
  next
    case (Av1s bs)
    then show ?thesis using assms(2,3) tot(2)
      by (auto simp: format_of_union_def handle_video_frame_def decoder_new_def Let_def intro!: sw)
  next
    case (H264s bs)
    obtain v r m where h: "try_hardware e lib H264 luid = (v, r, m)" by (metis prod_cases3)
    then have guard: "v \<noteq> None \<Longrightarrow> feature_vram e" "r \<noteq> None \<Longrightarrow> feature_hwcodec e"
        "m \<noteq> None \<Longrightarrow> feature_mediacodec e"
      by (auto simp: try_hardware_def Let_def split: if_splits)
    from H264s assms(2,3,4) h guard tot(3,4,5) show ?thesis
      by (cases v; cases r; cases m)
         (auto simp: format_of_union_def handle_video_frame_def decoder_new_def Let_def intro!: sw)
  next
    case (H265s bs)
    obtain v r m where h: "try_hardware e lib H265 luid = (v, r, m)" by (metis prod_cases3)
    then have guard: "v \<noteq> None \<Longrightarrow> feature_vram e" "r \<noteq> None \<Longrightarrow> feature_hwcodec e"
        "m \<noteq> None \<Longrightarrow> feature_mediacodec e"
      by (auto simp: try_hardware_def Let_def split: if_splits)
    from H265s assms(2,3,4) h guard tot(3,4,5) show ?thesis
      by (cases v; cases r; cases m)
         (auto simp: format_of_union_def handle_video_frame_def decoder_new_def Let_def intro!: sw)
  next
    case Frame_other
    then show ?thesis using assms(2,3) by (simp add: format_of_union_def decoder_new_def Let_def)
  qed
qed

definition demo_lib :: "nat codec_lib" where
  "demo_lib = \<lparr>new_vpx = (\<lambda>_. Inr 0), new_aom = Inl ''no'', new_vram = (\<lambda>_ _. Inl ''no''),
     new_ram = (\<lambda>_. Inl ''no''), new_media = (\<lambda>_. None),
     lib_decode = (\<lambda>d b. (Inr [demo_picture], Suc d)), lib_flush = (\<lambda>d. (Inr [], d)),
     ram_decode = (\<lambda>d b. (Inr [], d)), vram_decode = (\<lambda>d b. (Inr [], d)),
     media_decode = (\<lambda>d b i. (Inr True, i, d)), lib_yuv = (\<lambda>c f i r b. b)\<rparr>"

definition demo_out :: video_out where
  "demo_out = \<lparr>out_rgb = demo_rgb, out_texture = \<lparr>texture = 0, tex_w = 0, tex_h = 0\<rparr>,
     out_pixelbuffer = True, out_chroma = None\<rparr>"

lemma decoder_rejects_other_formats_witness:
  "\<exists>err c. handle_video_frame plain_env demo_lib (Vp8s [[1]]) demo_out (decoder_new plain_env demo_lib VP9 None) =
    (Inl err, demo_out\<lparr>out_chroma := c\<rparr>, decoder_new plain_env demo_lib VP9 None)"
  by (rule decoder_rejects_other_formats) (simp add: format_of_union_def)

lemma valid_decoder_handles_its_format_witness:
  "\<exists>r out' d'. handle_video_frame plain_env demo_lib (Vp9s [[1]]) demo_out
    (decoder_new plain_env demo_lib VP9 None) = (Inr r, out', d')"
  by (rule valid_decoder_handles_its_format)
     (auto simp: lib_total_def demo_lib_def decoder_new_def ok_of_def format_of_union_def plain_env_def Let_def)

text \<open>The thread count is sane: with a limit of at least one there is at least one thread
  and never more than the limit or 64; beyond one thread, at most half the processors and
  half the gigabytes of memory are used.
\<close>

theorem codec_threads_bounded:
  assumes "1 \<le> limit"
  shows "1 \<le> codec_thread_num load cpus mem limit \<and> codec_thread_num load cpus mem limit \<le> min 64 limit \<and>
    codec_thread_num load cpus mem limit \<le> max 1 (cpus div 2) \<and>
    codec_thread_num load cpus mem limit \<le> max 1 (mem div 2)"
proof -
  have c: "1 \<le> common_thread_count r" "common_thread_count r \<le> 64" "common_thread_count r \<le> max 1 r" for r
    by (simp_all add: common_thread_count_def)
  define r where "r = min (min load (cpus div 2)) (mem div 2)"
  have "r \<le> cpus div 2" "r \<le> mem div 2" by (simp_all add: r_def)
  then have "max 1 r \<le> max 1 (cpus div 2)" "max 1 r \<le> max 1 (mem div 2)" by simp_all
  moreover have "codec_thread_num load cpus mem limit = min (common_thread_count r) limit"
    by (simp add: codec_thread_num_def r_def)
  moreover have "min (common_thread_count r) limit \<le> common_thread_count r" by simp
  moreover have "1 \<le> min (common_thread_count r) limit" "min (common_thread_count r) limit \<le> min 64 limit"
    using c(1,2) [of r] assms by simp_all
  ultimately show ?thesis using c(3) [of r] by linarith
qed

lemma codec_threads_bounded_witness:
  "1 \<le> codec_thread_num 5 12 16 8 \<and> codec_thread_num 5 12 16 8 \<le> 6"
  using codec_threads_bounded [of 8 5 12 16] by simp

end
