(* ===== verification/Rx.thy ===== *)
theory Rx
  imports Text
begin

text \<open>
  Anchored regular expressions over ASCII characters, as \<^verbatim>\<open>libs/hbb_common/src/lib.rs\<close> uses
  them: a matcher by derivatives, and the language it decides. Membership lemmas are
  collected in \<open>rx_intros\<close>.
\<close>

named_theorems rx_intros "membership in the language of an expression"

datatype rx = Zero | One | Sym "char \<Rightarrow> bool" | Alt rx rx | Seq rx rx | Star rx

inductive_set star :: "string set \<Rightarrow> string set" for L where
  star_Nil: "[] \<in> star L"
| star_step: "u \<in> L \<Longrightarrow> v \<in> star L \<Longrightarrow> u @ v \<in> star L"

fun lang :: "rx \<Rightarrow> string set" where
  "lang Zero = {}"
| "lang One = {[]}"
| "lang (Sym p) = {[c] | c. p c}"
| "lang (Alt r s) = lang r \<union> lang s"
| "lang (Seq r s) = {u @ v | u v. u \<in> lang r \<and> v \<in> lang s}"
| "lang (Star r) = star (lang r)"

fun nullable :: "rx \<Rightarrow> bool" where
  "nullable Zero = False"
| "nullable One = True"
| "nullable (Sym p) = False"
| "nullable (Alt r s) \<longleftrightarrow> nullable r \<or> nullable s"
| "nullable (Seq r s) \<longleftrightarrow> nullable r \<and> nullable s"
| "nullable (Star r) = True"

text \<open>Constructors that keep derivatives small.\<close>

fun alt :: "rx \<Rightarrow> rx \<Rightarrow> rx" where
  "alt Zero s = s"
| "alt r Zero = r"
| "alt r s = Alt r s"

fun seq :: "rx \<Rightarrow> rx \<Rightarrow> rx" where
  "seq Zero s = Zero"
| "seq One s = s"
| "seq r s = Seq r s"

fun deriv :: "char \<Rightarrow> rx \<Rightarrow> rx" where
  "deriv c Zero = Zero"
| "deriv c One = Zero"
| "deriv c (Sym p) = (if p c then One else Zero)"
| "deriv c (Alt r s) = alt (deriv c r) (deriv c s)"
| "deriv c (Seq r s) =
     (if nullable r then alt (seq (deriv c r) s) (deriv c s) else seq (deriv c r) s)"
| "deriv c (Star r) = seq (deriv c r) (Star r)"

fun is_match :: "rx \<Rightarrow> string \<Rightarrow> bool" where
  "is_match r [] = nullable r"
| "is_match r (c # s) = is_match (deriv c r) s"

subsection \<open>Notation of patterns\<close>

definition chr :: "char \<Rightarrow> rx" where "chr c = Sym (\<lambda>x. x = c)"

definition in_range :: "char \<Rightarrow> char \<Rightarrow> char \<Rightarrow> bool" where
  "in_range a b c \<longleftrightarrow> (of_char a :: nat) \<le> of_char c \<and> (of_char c :: nat) \<le> of_char b"

fun lit :: "string \<Rightarrow> rx" where
  "lit [] = One"
| "lit (c # s) = Seq (chr c) (lit s)"

definition opt :: "rx \<Rightarrow> rx" where "opt r = Alt One r"
definition plus :: "rx \<Rightarrow> rx" where "plus r = Seq r (Star r)"

fun times :: "nat \<Rightarrow> rx \<Rightarrow> rx" where
  "times 0 r = One"
| "times (Suc n) r = Seq r (times n r)"

fun upto_times :: "nat \<Rightarrow> rx \<Rightarrow> rx" where
  "upto_times 0 r = One"
| "upto_times (Suc n) r = opt (Seq r (upto_times n r))"

text \<open>\<open>r{m,n}\<close>.\<close>

definition rep :: "nat \<Rightarrow> nat \<Rightarrow> rx \<Rightarrow> rx" where
  "rep m n r = Seq (times m r) (upto_times (n - m) r)"

subsection \<open>The matcher decides the language\<close>

lemma nullable_iff: "nullable r \<longleftrightarrow> [] \<in> lang r"
  by (induction r) (auto intro: star_Nil)

lemma lang_alt [simp]: "lang (alt r s) = lang r \<union> lang s"
  by (cases "(r, s)" rule: alt.cases) auto

lemma lang_seq [simp]: "lang (seq r s) = lang (Seq r s)"
  by (cases "(r, s)" rule: seq.cases) auto

lemma star_cons:
  assumes "w \<in> star L" and "w = c # s"
  shows "\<exists>u v. s = u @ v \<and> c # u \<in> L \<and> v \<in> star L"
  using assms
proof (induction arbitrary: s)
  case (star_step u v)
  then show ?case by (cases u) auto
qed simp

lemma lang_deriv: "lang (deriv c r) = {s. c # s \<in> lang r}"
proof (induction r)
  case (Seq r s)
  have "c # w \<in> lang (Seq r s) \<longleftrightarrow>
      (\<exists>u v. w = u @ v \<and> c # u \<in> lang r \<and> v \<in> lang s) \<or> ([] \<in> lang r \<and> c # w \<in> lang s)" for w
    by (auto simp: Cons_eq_append_conv)
  then show ?case using Seq by (auto simp: nullable_iff)
next
  case (Star r)
  have "c # w \<in> star (lang r) \<longleftrightarrow> (\<exists>u v. w = u @ v \<and> c # u \<in> lang r \<and> v \<in> star (lang r))" for w
    using star_cons [of "c # w" "lang r" c w] star_step [of "c # _" "lang r"] by fastforce
  then show ?case using Star by simp
qed (auto split: if_splits)

theorem is_match_iff: "is_match r s \<longleftrightarrow> s \<in> lang r"
  by (induction s arbitrary: r) (auto simp: nullable_iff lang_deriv)

subsection \<open>Membership\<close>

lemma rx_Sym [rx_intros]: "p c \<Longrightarrow> [c] \<in> lang (Sym p)" by simp

lemma rx_chr [rx_intros]: "[c] \<in> lang (chr c)" by (simp add: chr_def)

lemma lang_chr: "lang (chr c) = {[c]}" by (auto simp: chr_def)

lemma lang_lit [simp]: "lang (lit s) = {s}"
  by (induction s) (auto simp: lang_chr)

lemma lang_opt: "lang (opt r) = insert [] (lang r)" by (simp add: opt_def)

lemma rx_Seq [rx_intros]: "u \<in> lang r \<Longrightarrow> v \<in> lang s \<Longrightarrow> u @ v \<in> lang (Seq r s)" by auto

lemma rx_AltI1: "u \<in> lang r \<Longrightarrow> u \<in> lang (Alt r s)"
  and rx_AltI2: "u \<in> lang s \<Longrightarrow> u \<in> lang (Alt r s)"
  by auto

lemma rx_Star_chars [rx_intros]: "list_all p s \<Longrightarrow> s \<in> lang (Star (Sym p))"
proof (induction s)
  case (Cons c s)
  then show ?case using star_step [of "[c]" "lang (Sym p)" s] by simp
qed (simp add: star_Nil)

lemma rx_plus_chars [rx_intros]:
  assumes "s \<noteq> []" and "list_all p s"
  shows "s \<in> lang (plus (Sym p))"
proof -
  obtain c t where "s = c # t" using assms(1) by (cases s) auto
  then show ?thesis using rx_Seq [of "[c]" "Sym p" t "Star (Sym p)"] assms(2) rx_Star_chars [of p t]
    by (simp add: plus_def)
qed

lemma star_chars_all: "s \<in> star (lang (Sym p)) \<Longrightarrow> list_all p s"
  by (induction rule: star.induct) auto

lemma upto_times_Nil: "[] \<in> lang (upto_times n r)"
  by (cases n) (simp_all add: lang_opt)

lemma upto_times_step: "u \<in> lang r \<Longrightarrow> v \<in> lang (upto_times n r) \<Longrightarrow> u @ v \<in> lang (upto_times (Suc n) r)"
  by (auto simp: lang_opt)

lemma Seq_Sym_iff: "s \<in> lang (Seq (Sym p) r) \<longleftrightarrow> (\<exists>c t. s = c # t \<and> p c \<and> t \<in> lang r)"
proof
  assume "s \<in> lang (Seq (Sym p) r)"
  then obtain u v where "s = u @ v" "u \<in> lang (Sym p)" "v \<in> lang r" unfolding lang.simps by blast
  then show "\<exists>c t. s = c # t \<and> p c \<and> t \<in> lang r" by auto
next
  assume "\<exists>c t. s = c # t \<and> p c \<and> t \<in> lang r"
  then show "s \<in> lang (Seq (Sym p) r)" by (metis rx_Seq rx_Sym append_Cons append_Nil)
qed

lemma times_chars_iff: "s \<in> lang (times n (Sym p)) \<longleftrightarrow> length s = n \<and> list_all p s"
proof (induction n arbitrary: s)
  case (Suc n)
  show ?case unfolding times.simps Seq_Sym_iff Suc.IH by (cases s) auto
qed auto

lemma upto_chars_iff: "s \<in> lang (upto_times n (Sym p)) \<longleftrightarrow> length s \<le> n \<and> list_all p s"
proof (induction n arbitrary: s)
  case (Suc n)
  show ?case unfolding upto_times.simps lang_opt insert_iff Seq_Sym_iff Suc.IH by (cases s) auto
qed auto

lemma rep_chars_iff:
  assumes "m \<le> n"
  shows "s \<in> lang (rep m n (Sym p)) \<longleftrightarrow> m \<le> length s \<and> length s \<le> n \<and> list_all p s"
proof -
  have "s \<in> lang (rep m n (Sym p)) \<longleftrightarrow>
      (\<exists>u v. s = u @ v \<and> length u = m \<and> list_all p u \<and> length v \<le> n - m \<and> list_all p v)"
    unfolding rep_def lang.simps by (simp add: times_chars_iff upto_chars_iff)
  also have "\<dots> \<longleftrightarrow> m \<le> length s \<and> length s \<le> n \<and> list_all p s"
  proof
    assume "m \<le> length s \<and> length s \<le> n \<and> list_all p s"
    then show "\<exists>u v. s = u @ v \<and> length u = m \<and> list_all p u \<and> length v \<le> n - m \<and> list_all p v"
      by (intro exI [of _ "take m s"] exI [of _ "drop m s"])
         (auto simp: list_all_iff dest: in_set_takeD in_set_dropD)
  qed (use assms in auto)
  finally show ?thesis .
qed

end
