(* ===== verification/Hosts.thy ===== *)
theory Hosts
  imports Rx
begin

text \<open>
  Host names, ports and version numbers: the validators and version functions of
  \<^verbatim>\<open>libs/hbb_common/src/lib.rs\<close> and the string functions of \<^verbatim>\<open>socket_client.rs\<close>. Strings are
  ASCII; in the code \<^verbatim>\<open>\d\<close> and \<^verbatim>\<open>\w\<close> also match letters and digits of other scripts.
\<close>

subsection \<open>Validators\<close>

definition lower :: "char \<Rightarrow> bool" where "lower = in_range (CHR ''a'') (CHR ''z'')"
definition upper :: "char \<Rightarrow> bool" where "upper = in_range (CHR ''A'') (CHR ''Z'')"
definition alpha :: "char \<Rightarrow> bool" where "alpha c \<longleftrightarrow> lower c \<or> upper c"
definition wordc :: "char \<Rightarrow> bool" where "wordc c \<longleftrightarrow> alpha c \<or> is_digit c \<or> c = CHR ''_''"
definition hexc :: "char \<Rightarrow> bool" where
  "hexc c \<longleftrightarrow> in_range (CHR ''a'') (CHR ''f'') c \<or> in_range (CHR ''A'') (CHR ''F'') c \<or> is_digit c"

definition rx_custom_id :: rx where
  "rx_custom_id = Seq (Sym alpha) (rep 5 15 (Sym wordc))"

definition is_valid_custom_id :: "string \<Rightarrow> bool" where
  "is_valid_custom_id s = is_match rx_custom_id s"

definition rx_octet :: rx where
  "rx_octet = Alt (Seq (lit ''25'') (Sym (in_range (CHR ''0'') (CHR ''5''))))
     (Alt (Seq (lit ''2'') (Seq (Sym (in_range (CHR ''0'') (CHR ''4''))) (Sym is_digit)))
          (Seq (opt (Sym (\<lambda>c. c = CHR ''0'' \<or> c = CHR ''1''))) (Seq (Sym is_digit) (opt (Sym is_digit)))))"

definition rx_ipv4 :: rx where
  "rx_ipv4 = Seq rx_octet (Seq (lit ''.'') (Seq rx_octet (Seq (lit ''.'') (Seq rx_octet
     (Seq (lit ''.'') (Seq rx_octet (opt (Seq (lit '':'') (plus (Sym is_digit))))))))))"

definition is_ipv4_str :: "string \<Rightarrow> bool" where "is_ipv4_str s = is_match rx_ipv4 s"

definition rx_groups :: rx where
  "rx_groups = Seq (plus (Seq (rep 1 4 (Sym hexc)) (rep 1 2 (chr CHR '':'')))) (rep 1 4 (Sym hexc))"

definition rx_ipv6 :: rx where
  "rx_ipv6 = Alt rx_groups
     (Seq (lit ''['') (Seq rx_groups (Seq (lit '']:'') (plus (Sym is_digit)))))"

definition is_ipv6_str :: "string \<Rightarrow> bool" where "is_ipv6_str s = is_match rx_ipv6 s"

definition is_ip_str :: "string \<Rightarrow> bool" where
  "is_ip_str s \<longleftrightarrow> is_ipv4_str s \<or> is_ipv6_str s"

definition alnum :: "char \<Rightarrow> bool" where "alnum c \<longleftrightarrow> alpha c \<or> is_digit c"

definition rx_label :: rx where
  "rx_label = Seq (Sym alnum)
     (opt (Seq (rep 0 61 (Sym (\<lambda>c. alnum c \<or> c = CHR ''-''))) (Sym alnum)))"

definition rx_domain_port :: rx where
  "rx_domain_port = Seq (plus (Seq rx_label (lit ''.'')))
     (Seq (Sym alpha) (Seq (rep 0 61 (Sym (\<lambda>c. alpha c \<or> c = CHR ''-'')))
       (Seq (Sym alpha) (Seq (lit '':'') (rep 1 5 (Sym is_digit))))))"

definition is_domain_port_str :: "string \<Rightarrow> bool" where
  "is_domain_port_str s = is_match rx_domain_port s"

subsection \<open>Versions\<close>

text \<open>\<^verbatim>\<open>i64\<close> arithmetic with overflow checks: \<open>None\<close> is the panic of a debug build.\<close>

definition chk64 :: "int \<Rightarrow> int option" where
  "chk64 x = (if - (2 ^ 63) \<le> x \<and> x < 2 ^ 63 then Some x else None)"

definition parse_or_zero :: "string \<Rightarrow> int" where
  "parse_or_zero s = (case parse_i64 s of None \<Rightarrow> 0 | Some n \<Rightarrow> n)"

fun version_fold :: "string list \<Rightarrow> int \<Rightarrow> int \<Rightarrow> (int \<times> int) option" where
  "version_fold [] n lst = Some (n, lst)"
| "version_fold (x # xs) n lst =
     Option.bind (chk64 (n * 1000)) (\<lambda>n1.
     Option.bind (chk64 (n1 + parse_or_zero x)) (\<lambda>n2. version_fold xs n2 (parse_or_zero x)))"

definition get_version_number :: "string \<Rightarrow> int option" where
  "get_version_number v =
     (case split_char CHR ''-'' v of
        [] \<Rightarrow> Some 0
      | main # rest \<Rightarrow>
          Option.bind (version_fold (split_char CHR ''.'' main) 0 0) (\<lambda>(n, lst).
          Option.bind (chk64 (n - lst)) (\<lambda>n1.
          Option.bind (chk64 (lst * 10)) (\<lambda>l10.
          Option.bind (chk64 (n1 + l10)) (\<lambda>n2.
            case rest of [] \<Rightarrow> Some n2 | p # _ \<Rightarrow> chk64 (n2 + parse_or_zero p))))))"

text \<open>\<^verbatim>\<open>url.chars().rev().position(|x| x == c)\<close>.\<close>

definition rev_position :: "char \<Rightarrow> string \<Rightarrow> nat option" where
  "rev_position c s = (if c \<in> set s then Some (length (takeWhile (\<lambda>x. x \<noteq> c) (rev s))) else None)"

definition get_version_from_url :: "string \<Rightarrow> string" where
  "get_version_from_url url =
     (let n = length url
      in case rev_position CHR ''-'' url of
           None \<Rightarrow> ''''
         | Some a \<Rightarrow> (case rev_position CHR ''.'' url of
               None \<Rightarrow> ''''
             | Some b \<Rightarrow>
                 if b < a
                 then if parse_i32 (drop (n - b) url) \<noteq> None then drop (n - a) url
                      else take (a - b - 1) (drop (n - a) url)
                 else drop (n - a) url))"

subsection \<open>Ports\<close>

definition check_port :: "string \<Rightarrow> int \<Rightarrow> string" where
  "check_port host port =
     (if is_ipv6_str host
      then if starts_with host ''['' then host
           else ''['' @ host @ '']:'' @ show_int port
      else if CHR '':'' \<notin> set host then host @ '':'' @ show_int port
      else host)"

definition parse_port :: "string \<Rightarrow> int" where
  "parse_port s = (case parse_i32 s of None \<Rightarrow> 0 | Some n \<Rightarrow> n)"

text \<open>\<open>port + offset\<close> on \<^verbatim>\<open>i32\<close> wraps in a release build.\<close>

definition wrap32 :: "int \<Rightarrow> int" where
  "wrap32 x = (x + 2 ^ 31) mod 2 ^ 32 - 2 ^ 31"

definition increase_port :: "string \<Rightarrow> int \<Rightarrow> string" where
  "increase_port host offset =
     (if is_ipv6_str host
      then if starts_with host ''[''
           then case split_str '']:'' host of
                  [a, p] \<Rightarrow> if 0 < parse_port p then a @ '']:'' @ show_int (wrap32 (parse_port p + offset)) else host
                | _ \<Rightarrow> host
           else host
      else if CHR '':'' \<in> set host
      then case split_char CHR '':'' host of
             [a, p] \<Rightarrow> if 0 < parse_port p then a @ '':'' @ show_int (wrap32 (parse_port p + offset)) else host
           | _ \<Rightarrow> host
      else host)"

text \<open>\<^verbatim>\<open>s.replace(p, q)\<close> for a non-empty \<open>p\<close>.\<close>


definition replace_str :: "string \<Rightarrow> string \<Rightarrow> string \<Rightarrow> string" where
  "replace_str s p q = join_with q (split_str p s)"

definition ipv4_to_ipv6 :: "string \<Rightarrow> bool \<Rightarrow> string" where
  "ipv4_to_ipv6 addr ipv4 =
     (if \<not> ipv4 \<and> is_ipv4_str addr
      then case split_char CHR '':'' addr of
             ip # _ \<Rightarrow> replace_str addr ip (ip @ ''.nip.io'')
           | [] \<Rightarrow> addr
      else addr)"

end
