(* ===== verification/HostProps.thy ===== *)
theory HostProps
  imports Hosts
begin

text \<open>Properties of version numbers, validators and host strings.\<close>

subsection \<open>Versions\<close>

definition version_string :: "nat \<Rightarrow> nat \<Rightarrow> nat \<Rightarrow> nat \<Rightarrow> string" where
  "version_string a b c p =
     dec_string a @ ''.'' @ dec_string b @ ''.'' @ dec_string c @ ''-'' @ dec_string p"

lemma not_in_dec [simp]:
  "CHR ''.'' \<notin> set (dec_string n)" "CHR ''-'' \<notin> set (dec_string n)" "CHR '':'' \<notin> set (dec_string n)"
  by (rule dec_string_no_char, simp add: is_digit_def)+

lemma parse_or_zero_dec: "n < 2 ^ 63 \<Longrightarrow> parse_or_zero (dec_string n) = int n"
  using parse_dec_string [of n 64] by (simp add: parse_or_zero_def parse_i64_def)

lemma chk64_small: "0 \<le> x \<Longrightarrow> x < 2 ^ 63 \<Longrightarrow> chk64 x = Some x"
  by (simp add: chk64_def)

lemma get_version_number_triple:
  assumes "a < 1000000" and "b < 1000000" and "c < 1000000" and "p < 1000000"
  shows "get_version_number (version_string a b c p) =
    Some (int a * 1000000 + int b * 1000 + int c * 10 + int p)"
proof -
  have split: "split_char CHR ''-'' (version_string a b c p) =
      [dec_string a @ ''.'' @ dec_string b @ ''.'' @ dec_string c, dec_string p]"
    using split_char_append [of "CHR ''-''" "dec_string a @ ''.'' @ dec_string b @ ''.'' @ dec_string c" "dec_string p"]
    by (simp add: version_string_def split_char_none)
  have parts: "split_char CHR ''.'' (dec_string a @ ''.'' @ dec_string b @ ''.'' @ dec_string c) =
      [dec_string a, dec_string b, dec_string c]"
    by (simp add: split_char_append split_char_none)
  have vals: "parse_or_zero (dec_string a) = int a" "parse_or_zero (dec_string b) = int b"
      "parse_or_zero (dec_string c) = int c" "parse_or_zero (dec_string p) = int p"
    using assms by (simp_all add: parse_or_zero_dec)
  have fold: "version_fold [dec_string a, dec_string b, dec_string c] 0 0 =
      Some (int a * 1000000 + int b * 1000 + int c, int c)"
    using assms by (simp add: vals chk64_small algebra_simps)
  show ?thesis
    unfolding get_version_number_def split parts list.case fold
    using assms by (simp add: vals chk64_small algebra_simps)
qed

lemma lex_step:
  fixes k :: nat
  assumes "r < k" and "r' < k"
  shows "x * k + r < x' * k + r' \<longleftrightarrow> x < x' \<or> x = x' \<and> r < r'"
proof (cases rule: linorder_cases [of x x'])
  case less
  then have "Suc x * k \<le> x' * k" by (intro mult_le_mono1) simp
  then show ?thesis using assms less by simp
next
  case greater
  then have "Suc x' * k \<le> x * k" by (intro mult_le_mono1) simp
  then show ?thesis using assms greater by simp
qed simp

text \<open>Version numbers are ordered like versions: as long as minor numbers stay below 1000,
  patch levels below 100 and build numbers below 10, \<open>get_version_number\<close> compares
  \<^verbatim>\<open>a.b.c-p\<close> strings as the tuples are compared, and never overflows.
\<close>

theorem version_numbers_ordered:
  assumes "a < 1000000" and "b < 1000" and "c < 100" and "p < 10"
    and "a' < 1000000" and "b' < 1000" and "c' < 100" and "p' < 10"
  shows "\<exists>n n'. get_version_number (version_string a b c p) = Some n \<and>
    get_version_number (version_string a' b' c' p') = Some n' \<and>
    (n < n' \<longleftrightarrow> a < a' \<or> a = a' \<and> (b < b' \<or> b = b' \<and> (c < c' \<or> c = c' \<and> p < p')))"
proof -
  have "int a * 1000000 + int b * 1000 + int c * 10 + int p = int ((a * 1000 + b) * 1000 + (c * 10 + p))"
    for a b c p :: nat by simp
  moreover have "(a * 1000 + b) * 1000 + (c * 10 + p) < (a' * 1000 + b') * 1000 + (c' * 10 + p') \<longleftrightarrow>
    a < a' \<or> a = a' \<and> (b < b' \<or> b = b' \<and> (c < c' \<or> c = c' \<and> p < p'))"
  proof -
    have "c * 10 + p < 1000" "c' * 10 + p' < 1000" using assms by simp_all
    note lex_step [OF this, of "a * 1000 + b" "a' * 1000 + b'"]
    moreover have "a * 1000 + b = a' * 1000 + b' \<longleftrightarrow> a = a' \<and> b = b'"
    proof
      assume eq: "a * 1000 + b = a' * 1000 + b'"
      have "(a * 1000 + b) div 1000 = a" "(a' * 1000 + b') div 1000 = a'" using assms by simp_all
      with eq show "a = a' \<and> b = b'" by simp
    qed simp
    ultimately show ?thesis
      using lex_step [OF assms(2,6), of a a'] lex_step [OF assms(4,8), of c c'] by auto
  qed
  ultimately have "(int a * 1000000 + int b * 1000 + int c * 10 + int p
      < int a' * 1000000 + int b' * 1000 + int c' * 10 + int p') \<longleftrightarrow>
    a < a' \<or> a = a' \<and> (b < b' \<or> b = b' \<and> (c < c' \<or> c = c' \<and> p < p'))"
    by (simp only: of_nat_less_iff)
  then show ?thesis using assms by (simp add: get_version_number_triple)
qed

lemma version_numbers_ordered_witness:
  "\<exists>n n'. get_version_number ''1.1.10-1'' = Some n \<and> get_version_number ''1.2.3-0'' = Some n' \<and> n < n'"
proof -
  have v: "version_string 1 1 10 1 = ''1.1.10-1''" "version_string 1 2 3 0 = ''1.2.3-0''"
    by (simp_all add: version_string_def dec_string_def digits_base.simps digit_char_def char_of_def bit_Suc_0_iff)
  show ?thesis
    using version_numbers_ordered [of 1 1 10 1 1 2 3 0] unfolding v by simp
qed

text \<open>A patch level of 100 collides with the next minor version: \<^verbatim>\<open>1.1.100\<close> and \<^verbatim>\<open>1.2.0\<close> have
  the same number, and a version with a huge component stops a checked build.
\<close>

theorem version_collision:
  "get_version_number ''1.1.100'' = get_version_number ''1.2.0'' \<and>
   get_version_number ''9223372036854775.999'' = None"
  by (simp add: get_version_number_def parse_or_zero_def parse_i64_def parse_int_def digits_val_def
      digit_val_def is_digit_def chk64_def Let_def)

subsection \<open>Ports\<close>

lemma groups_have_colon: "s \<in> lang rx_groups \<Longrightarrow> CHR '':'' \<in> set s"
proof -
  assume "s \<in> lang rx_groups"
  then obtain a b c where s: "s = (a @ b) @ c" and b: "b \<in> lang (rep 1 2 (chr CHR '':''))"
    unfolding rx_groups_def plus_def lang.simps by auto
  from b have "1 \<le> length b" "list_all (\<lambda>x. x = CHR '':'') b"
    unfolding chr_def using rep_chars_iff [of 1 2 b] by simp_all
  then have "CHR '':'' \<in> set b" by (cases b) auto
  then show ?thesis by (simp add: s)
qed

lemma ipv6_has_colon: "is_ipv6_str s \<Longrightarrow> CHR '':'' \<in> set s"
  unfolding is_ipv6_str_def is_match_iff rx_ipv6_def lang.simps
  using groups_have_colon by auto

lemma show_int_nat: "show_int (int n) = dec_string n"
  by (simp add: show_int_def int_string_def)

lemma parse_port_dec: "n < 2 ^ 31 \<Longrightarrow> parse_port (dec_string n) = int n"
  using parse_dec_string [of n 32] by (simp add: parse_port_def parse_i32_def)

lemma wrap32_small: "0 \<le> x \<Longrightarrow> x < 2 ^ 31 \<Longrightarrow> wrap32 x = x"
  by (simp add: wrap32_def)

text \<open>Ports add up: a host without a colon gets its port from \<open>check_port\<close>, and
  \<open>increase_port\<close> then adds to that port, as long as the result is not one of the strings
  that pass for an IPv6 address.
\<close>

theorem ports_add_up:
  assumes "CHR '':'' \<notin> set h" and "\<not> is_ipv6_str (h @ '':'' @ dec_string p)" and "0 < p" and "p + q < 2 ^ 31"
  shows "increase_port (check_port h (int p)) (int q) = h @ '':'' @ dec_string (p + q)"
proof -
  have "\<not> is_ipv6_str h" using ipv6_has_colon assms(1) by blast
  then have chk: "check_port h (int p) = h @ '':'' @ dec_string p"
    using assms(1) by (simp add: check_port_def show_int_nat)
  have split: "split_char CHR '':'' (h @ '':'' @ dec_string p) = [h, dec_string p]"
    using split_char_append [OF assms(1)] by (simp add: split_char_none)
  have port: "parse_port (dec_string p) = int p" using assms(4) by (intro parse_port_dec) simp
  have "wrap32 (int p + int q) = int (p + q)" using assms(4) by (subst wrap32_small) simp_all
  then have "show_int (wrap32 (int p + int q)) = dec_string (p + q)" by (simp only: show_int_nat)
  then show ?thesis
    unfolding chk increase_port_def split using assms(2,3) by (simp add: port)
qed

lemma ports_add_up_witness:
  "increase_port (check_port ''host'' 21116) 1 = ''host:21117''"
proof -
  have d: "dec_string 21116 = ''21116''" "dec_string 21117 = ''21117''"
    by (simp_all add: dec_string_def digits_base.simps digit_char_def char_of_def bit_Suc_0_iff)
  have "\<not> is_ipv6_str (''host'' @ '':'' @ dec_string 21116)" unfolding d by code_simp
  from ports_add_up [OF _ this, of 1] show ?thesis by (simp add: d)
qed

text \<open>Short host names pass for IPv6 addresses: \<^verbatim>\<open>cafe:8080\<close> is a host and port, but checking
  it again brackets it as an address, and its port is not increased.
\<close>

theorem short_hex_host_is_taken_for_ipv6:
  "check_port ''cafe'' 8080 = ''cafe:8080'' \<and> check_port ''cafe:8080'' 1 = ''[cafe:8080]:1'' \<and>
   increase_port ''cafe:8080'' 1 = ''cafe:8080''"
proof -
  have "is_ipv6_str ''cafe:8080''" "\<not> is_ipv6_str ''cafe''" by code_simp+
  moreover have "show_int 8080 = ''8080''" "show_int 1 = ''1''"
    by (simp_all add: show_int_def int_string_def dec_string_def digits_base.simps digit_char_def
        char_of_def bit_Suc_0_iff)
  ultimately show ?thesis by (simp add: check_port_def increase_port_def starts_with_def)
qed

subsection \<open>IPv4 addresses\<close>

lemma dec_string_digit: "n < 10 \<Longrightarrow> dec_string n = [digit_char n]"
  by (simp add: dec_string_def digits_base.simps)

lemma dec_string_step: "10 \<le> n \<Longrightarrow> dec_string n = dec_string (n div 10) @ [digit_char (n mod 10)]"
  by (simp add: dec_string_def digits_base.simps [of 10 n])

lemma digit_is_digit: "d < 10 \<Longrightarrow> is_digit (digit_char d)"
  using digit_char_props by blast

lemma digit_in_range: "d \<le> k \<Longrightarrow> k < 10 \<Longrightarrow> in_range (CHR ''0'') (digit_char k) (digit_char d)"
  by (simp add: in_range_def digit_char_def)

lemma digit_chars: "digit_char 0 = CHR ''0''" "digit_char (Suc 0) = CHR ''1''" "digit_char 2 = CHR ''2''"
    "digit_char 4 = CHR ''4''" "digit_char 5 = CHR ''5''"
  by (simp_all add: digit_char_def char_of_def bit_Suc_0_iff)

lemma octet_forms:
  "is_digit x \<Longrightarrow> [x] \<in> lang rx_octet"
  "is_digit x \<Longrightarrow> is_digit y \<Longrightarrow> [x, y] \<in> lang rx_octet"
  "is_digit y \<Longrightarrow> is_digit z \<Longrightarrow> [CHR ''1'', y, z] \<in> lang rx_octet"
  "in_range (CHR ''0'') (CHR ''4'') y \<Longrightarrow> is_digit z \<Longrightarrow> [CHR ''2'', y, z] \<in> lang rx_octet"
  "in_range (CHR ''0'') (CHR ''5'') z \<Longrightarrow> [CHR ''2'', CHR ''5'', z] \<in> lang rx_octet"
  unfolding is_match_iff [symmetric]
  by (auto simp: rx_octet_def opt_def chr_def)

lemma octet_of_byte:
  assumes "n < 256"
  shows "dec_string n \<in> lang rx_octet"
proof -
  consider "n < 10" | "10 \<le> n" "n < 100" | "100 \<le> n" by linarith
  then show ?thesis
  proof cases
    case 1
    then show ?thesis using octet_forms(1) digit_is_digit by (simp add: dec_string_digit)
  next
    case 2
    then have "dec_string n = [digit_char (n div 10), digit_char (n mod 10)]"
      by (simp add: dec_string_step dec_string_digit)
    then show ?thesis using octet_forms(2) 2 by (simp add: digit_is_digit)
  next
    case 3
    define m where "m = n div 10"
    define d1 where "d1 = m mod 10"
    define d0 where "d0 = n mod 10"
    have m: "10 \<le> m" "m div 10 = 1 \<or> m div 10 = 2" using 3 assms by (auto simp: m_def)
    have d: "d1 < 10" "d0 < 10" by (simp_all add: d1_def d0_def)
    have "dec_string m = dec_string (m div 10) @ [digit_char d1]"
      using dec_string_step [OF m(1)] by (simp add: d1_def)
    then have s: "dec_string n = [digit_char (m div 10), digit_char d1, digit_char d0]"
      using 3 m by (auto simp: dec_string_step [of n] m_def [symmetric] d0_def dec_string_digit)
    from m(2) show ?thesis
    proof
      assume "m div 10 = 1"
      then show ?thesis using s octet_forms(3) d by (simp add: digit_chars digit_is_digit)
    next
      assume two: "m div 10 = 2"
      have n: "n = 200 + 10 * d1 + d0"
      proof -
        have "m = 20 + d1" using two div_mult_mod_eq [of m 10] by (simp add: d1_def)
        moreover have "n = m * 10 + d0" using div_mult_mod_eq [of n 10] by (simp add: m_def d0_def)
        ultimately show ?thesis by simp
      qed
      show ?thesis
      proof (cases "d1 \<le> 4")
        case True
        then show ?thesis using s two octet_forms(4) d digit_in_range [of d1 4]
          by (simp add: digit_chars digit_is_digit)
      next
        case False
        then have "d1 = 5" "d0 \<le> 5" using n assms by simp_all
        then show ?thesis using s two octet_forms(5) digit_in_range [of d0 5]
          by (simp add: digit_chars)
      qed
    qed
  qed
qed

text \<open>Every IPv4 address is recognised, as it is printed, with a port and without one.
\<close>

theorem printed_ipv4_is_recognised:
  "is_ipv4_str (v4_string a b c d) \<and> is_ipv4_str (v4_string a b c d @ '':'' @ dec_string p)"
proof -
  have oct: "dec_string (unat x) \<in> lang rx_octet" for x :: u8
    using octet_of_byte unsigned_less [of x] by simp
  have port: "'':'' @ dec_string p \<in> lang (opt (Seq (lit '':'') (plus (Sym is_digit))))"
  proof -
    have "'':'' \<in> lang (lit '':'')" unfolding lang_lit by simp
    moreover have "dec_string p \<in> lang (plus (Sym is_digit))"
      using rx_plus_chars dec_string_props [of p] by blast
    ultimately show ?thesis unfolding lang_opt by (intro insertI2 rx_Seq)
  qed
  have tail: "dec_string (unat a) @ ''.'' @ dec_string (unat b) @ ''.'' @ dec_string (unat c) @ ''.'' @
      dec_string (unat d) @ t \<in> lang rx_ipv4"
    if "t \<in> lang (opt (Seq (lit '':'') (plus (Sym is_digit))))" for t
    unfolding rx_ipv4_def by (intro rx_Seq oct that) (simp_all only: lang_lit singleton_iff)
  from tail [OF port] tail [of "''''"] show ?thesis
    unfolding is_ipv4_str_def is_match_iff v4_string_def by (simp add: lang_opt)
qed

end
