(* ===== verification/Sockets.thy ===== *)
theory Sockets
  imports SecretStream AddrMangle
begin

text \<open>
  Sockets, \<^verbatim>\<open>libs/hbb_common/src/tcp.rs\<close> and \<^verbatim>\<open>udp.rs\<close>. The operating system is the record
  \<open>os\<close>: whether a call succeeds may depend on all calls before it, so every function takes the
  list of calls made so far and returns it extended. A call concerns the socket created last.
  A connection that takes longer than its timeout is a call that fails.
\<close>

definition is_v4 :: "sock_addr \<Rightarrow> bool" where
  "is_v4 a = (case a of SockV4 _ _ \<Rightarrow> True | SockV6 _ _ _ _ \<Rightarrow> False)"

datatype sys_call =
  Tcp_v4 | Tcp_v6 | Udp_v4 | Udp_v6
| Set_reuseport | Set_reuseaddr | Set_nonblocking | Set_recv_buffer nat | Set_only_v6 bool
| Bind sock_addr | Listen_on nat | Bind_listener string
| Connect_to sock_addr u64 | Connect_name string u64 | Set_nodelay | Get_local | Get_peer

type_synonym calls = "sys_call list"

record os =
  grants :: "calls \<Rightarrow> bool"
  name_of :: "calls \<Rightarrow> sock_addr"
  lookup_host :: "string \<Rightarrow> string + sock_addr list"
  is_unix :: bool

datatype sock_error =
  Sock_failed sys_call | Lookup_error string | No_address | Not_connected | Bad_target string
| Proxy_failed string

definition sys :: "os \<Rightarrow> sys_call \<Rightarrow> calls \<Rightarrow> (sock_error + unit) \<times> calls" where
  "sys os c h = (if grants os (h @ [c]) then Inr () else Inl (Sock_failed c), h @ [c])"

text \<open>\<^verbatim>\<open>f()?\<close> and then the rest.\<close>

definition andthen ::
    "('e + 'a) \<times> calls \<Rightarrow> ('a \<Rightarrow> calls \<Rightarrow> ('e + 'b) \<times> calls) \<Rightarrow> ('e + 'b) \<times> calls" where
  "andthen r f = (case r of (Inl e, h) \<Rightarrow> (Inl e, h) | (Inr x, h) \<Rightarrow> f x h)"

lemma andthen_simps [simp]:
  "andthen (Inl e, h) f = (Inl e, h)" "andthen (Inr x, h) f = f x h"
  by (simp_all add: andthen_def)

subsection \<open>TCP\<close>

definition tcp_new_socket :: "os \<Rightarrow> sock_addr \<Rightarrow> bool \<Rightarrow> calls \<Rightarrow> (sock_error + unit) \<times> calls" where
  "tcp_new_socket os addr reuse h0 =
     andthen (sys os (if is_v4 addr then Tcp_v4 else Tcp_v6) h0) (\<lambda>_ h.
       sys os (Bind addr)
         (if reuse then h @ (if is_unix os then [Set_reuseport] else []) @ [Set_reuseaddr] else h))"

text \<open>What can be connected to: a socket address, or a name to look up.\<close>

datatype target = Resolved sock_addr | Named string

definition addrs_of :: "os \<Rightarrow> target \<Rightarrow> string + sock_addr list" where
  "addrs_of os t = (case t of Resolved a \<Rightarrow> Inr [a] | Named s \<Rightarrow> lookup_host os s)"

definition local_or_any :: "sock_addr option \<Rightarrow> sock_addr \<Rightarrow> sock_addr" where
  "local_or_any local_addr remote =
     (case local_addr of Some a \<Rightarrow> a | None \<Rightarrow> get_any_listen_addr (is_v4 remote))"

definition open_and_connect ::
    "os \<Rightarrow> sock_addr option \<Rightarrow> sock_addr \<Rightarrow> u64 \<Rightarrow> calls \<Rightarrow> (sock_error + unit) \<times> calls" where
  "open_and_connect os local_addr remote ms h0 =
     andthen (tcp_new_socket os (local_or_any local_addr remote) True h0) (\<lambda>_ h.
       sys os (Connect_to remote ms) h)"

definition connected_stream :: "os \<Rightarrow> calls \<Rightarrow> (sock_error + 'k framed_stream) \<times> calls" where
  "connected_stream os h0 =
     andthen (sys os Get_local (h0 @ [Set_nodelay])) (\<lambda>_ h. (Inr (fs_from (name_of os h)), h))"

fun first_connection ::
    "os \<Rightarrow> sock_addr option \<Rightarrow> u64 \<Rightarrow> sock_addr list \<Rightarrow> calls
      \<Rightarrow> (sock_error + 'k framed_stream) \<times> calls" where
  "first_connection os local_addr ms [] h = (Inl Not_connected, h)"
| "first_connection os local_addr ms (remote # rest) h =
     (case open_and_connect os local_addr remote ms h of
        (Inr _, h') \<Rightarrow> connected_stream os h'
      | (Inl _, h') \<Rightarrow> first_connection os local_addr ms rest h')"

definition fs_new ::
    "os \<Rightarrow> target \<Rightarrow> sock_addr option \<Rightarrow> u64 \<Rightarrow> calls \<Rightarrow> (sock_error + 'k framed_stream) \<times> calls" where
  "fs_new os remote_addr local_addr ms h =
     (case addrs_of os remote_addr of
        Inl e \<Rightarrow> (Inl (Lookup_error e), h)
      | Inr as \<Rightarrow> first_connection os local_addr ms as h)"

definition DEFAULT_BACKLOG :: nat where "DEFAULT_BACKLOG = 128"

text \<open>Without \<open>reuse\<close> the bind of tokio's listener tries the addresses of the name itself.\<close>

definition new_listener :: "os \<Rightarrow> string \<Rightarrow> bool \<Rightarrow> calls \<Rightarrow> (sock_error + unit) \<times> calls" where
  "new_listener os addr reuse h0 =
     (if \<not> reuse then sys os (Bind_listener addr) h0
      else case lookup_host os addr of
             Inl e \<Rightarrow> (Inl (Lookup_error e), h0)
           | Inr [] \<Rightarrow> (Inl No_address, h0)
           | Inr (a # _) \<Rightarrow> andthen (tcp_new_socket os a True h0) (\<lambda>_ h. sys os (Listen_on DEFAULT_BACKLOG) h))"

definition any_v6 :: "u16 \<Rightarrow> sock_addr" where "any_v6 port = SockV6 (IpV6 (replicate 8 0)) port 0 0"
definition any_v4 :: "u16 \<Rightarrow> sock_addr" where "any_v4 port = SockV4 (IpV4 0 0 0 0) port"

definition listen_v6 :: "os \<Rightarrow> u16 \<Rightarrow> calls \<Rightarrow> (sock_error + unit) \<times> calls" where
  "listen_v6 os port h0 =
     andthen (sys os Tcp_v6 h0) (\<lambda>_ h1.
     andthen (sys os (Bind (any_v6 port))
               (h1 @ (if is_unix os then [Set_reuseport, Set_reuseaddr] else []) @ [Set_only_v6 False])) (\<lambda>_ h2.
     sys os (Listen_on DEFAULT_BACKLOG) h2))"

definition listen_any :: "os \<Rightarrow> u16 \<Rightarrow> calls \<Rightarrow> (sock_error + unit) \<times> calls" where
  "listen_any os port h0 =
     (case listen_v6 os port h0 of
        (Inr _, h) \<Rightarrow> (Inr (), h)
      | (Inl _, h) \<Rightarrow> andthen (tcp_new_socket os (any_v4 port) True h) (\<lambda>_ h'.
            sys os (Listen_on DEFAULT_BACKLOG) h'))"

subsection \<open>UDP\<close>

text \<open>A target of tokio-socks: an address, or a domain the proxy resolves.\<close>

datatype target_addr = Ip_target sock_addr | Domain_target string u16

text \<open>The packets handed to the socket, with their targets.\<close>

datatype framed_socket =
  Direct_socket "(bytes \<times> sock_addr) list"
| Socks_socket "(bytes \<times> target_addr) list"

definition unspecified :: "sock_addr \<Rightarrow> bool" where
  "unspecified a = (case sock_ip a of IpV4 p q r s \<Rightarrow> p = 0 \<and> q = 0 \<and> r = 0 \<and> s = 0
     | IpV6 segs \<Rightarrow> segs = replicate 8 0)"

definition udp_new_socket :: "os \<Rightarrow> sock_addr \<Rightarrow> bool \<Rightarrow> nat \<Rightarrow> calls \<Rightarrow> (sock_error + unit) \<times> calls" where
  "udp_new_socket os addr reuse buf_size h0 =
     andthen (sys os (if is_v4 addr then Udp_v4 else Udp_v6) h0) (\<lambda>_ h1.
     andthen (sys os Set_nonblocking
               (if reuse then h1 @ (if is_unix os then [Set_reuseport] else []) @ [Set_reuseaddr] else h1))
       (\<lambda>_ h2. sys os (Bind addr)
          (h2 @ (if 0 < buf_size then [Set_recv_buffer buf_size] else [])
              @ (if \<not> is_v4 addr \<and> unspecified addr \<and> 0 < sock_port addr then [Set_only_v6 False] else []))))"

definition udp_new_reuse ::
    "os \<Rightarrow> target \<Rightarrow> bool \<Rightarrow> nat \<Rightarrow> calls \<Rightarrow> (sock_error + framed_socket) \<times> calls" where
  "udp_new_reuse os t reuse buf_size h0 =
     (case addrs_of os t of
        Inl e \<Rightarrow> (Inl (Lookup_error e), h0)
      | Inr [] \<Rightarrow> (Inl No_address, h0)
      | Inr (a # _) \<Rightarrow> andthen (udp_new_socket os a reuse buf_size h0) (\<lambda>_ h. (Inr (Direct_socket []), h)))"

definition udp_new :: "os \<Rightarrow> target \<Rightarrow> calls \<Rightarrow> (sock_error + framed_socket) \<times> calls" where
  "udp_new os t h = udp_new_reuse os t False 0 h"

text \<open>\<^verbatim>\<open>str::trim\<close> on ASCII: tab, line feed, vertical tab, form feed, return and space.\<close>

definition is_space :: "char \<Rightarrow> bool" where
  "is_space c \<longleftrightarrow> of_char c \<in> {9 :: nat, 10, 11, 12, 13, 32}"

text \<open>
  \<open>assoc\<close> is tokio-socks: whether an association through the proxy can be made, without or
  with a name and password, within the timeout.
\<close>

definition udp_new_proxy ::
    "(string \<Rightarrow> (string \<times> string) option \<Rightarrow> u64 \<Rightarrow> bool) \<Rightarrow> string \<Rightarrow> string \<Rightarrow> string \<Rightarrow> u64
      \<Rightarrow> sock_error + framed_socket" where
  "udp_new_proxy assoc prox username password ms =
     (let auth = (if list_all is_space username then None else Some (username, password))
      in if assoc prox auth ms then Inr (Socks_socket []) else Inl (Proxy_failed prox))"

text \<open>
  \<^verbatim>\<open>send\<close> and \<^verbatim>\<open>send_raw\<close>, with the outcome of \<^verbatim>\<open>into_target_addr\<close> and whether the socket takes
  the packet. \<^verbatim>\<open>write_to_bytes\<close> has been done.
\<close>

definition udp_send ::
    "bool \<Rightarrow> bytes \<Rightarrow> string + target_addr \<Rightarrow> framed_socket \<Rightarrow> (sock_error + unit) \<times> framed_socket" where
  "udp_send io data addr s =
     (case addr of
        Inl e \<Rightarrow> (Inl (Bad_target e), s)
      | Inr t \<Rightarrow>
          (case s of
             Direct_socket out \<Rightarrow>
               (case t of
                  Ip_target a \<Rightarrow> if io then (Inr (), Direct_socket (out @ [(data, a)])) else (Inl Not_connected, s)
                | Domain_target _ _ \<Rightarrow> (Inr (), s))
           | Socks_socket out \<Rightarrow>
               if io then (Inr (), Socks_socket (out @ [(data, t)])) else (Inl Not_connected, s)))"

text \<open>\<^verbatim>\<open>next\<close>, on what the underlying stream yields.\<close>

datatype udp_item =
  From_direct bytes sock_addr
| From_proxy bytes target_addr

definition udp_next :: "(string + udp_item) option \<Rightarrow> (string + bytes \<times> target_addr) option" where
  "udp_next res =
     (case res of
        None \<Rightarrow> None
      | Some (Inl e) \<Rightarrow> Some (Inl e)
      | Some (Inr (From_direct data a)) \<Rightarrow> Some (Inr (data, Ip_target a))
      | Some (Inr (From_proxy data dst)) \<Rightarrow> Some (Inr (data, dst)))"

definition udp_next_timeout ::
    "bool \<Rightarrow> (string + udp_item) option \<Rightarrow> (string + bytes \<times> target_addr) option" where
  "udp_next_timeout elapsed res = (if elapsed then None else udp_next res)"

definition udp_local_addr :: "os \<Rightarrow> framed_socket \<Rightarrow> calls \<Rightarrow> sock_addr option" where
  "udp_local_addr os s h =
     (case s of
        Direct_socket _ \<Rightarrow> if grants os (h @ [Get_local]) then Some (name_of os (h @ [Get_local])) else None
      | Socks_socket _ \<Rightarrow> None)"

end
