(* ===== verification/Proxy.thy ===== *)
theory Proxy
  imports Sockets Settings
begin

text \<open>
  The proxy client, \<^verbatim>\<open>libs/hbb_common/src/proxy.rs\<close>: proxy URLs, the addresses taken from them,
  and connecting through an HTTP, HTTPS or SOCKS5 proxy. The crates url, base64, httparse, the
  TLS libraries and tokio-socks are the record \<open>proxy_env\<close>. A connection is the bytes its peer
  will send, whether they end with an error, the bytes sent so far, and whether sending works.
\<close>

subsection \<open>URLs\<close>

datatype proxy_error =
  Io_error string | Target_parse_error string | Http_parse_error
| Maximum_length_exceeded nat | End_of_file | Url_bad_scheme string | Url_parse_scheme string
| No_http_code | Http_code_not_200 u16 | Resolution_failed string | Tls_error
| Connect_failed sock_error | Socks_error | Elapsed

text \<open>A parsed URL: what the code asks of it. \<open>u_addrs\<close> is \<^verbatim>\<open>socket_addrs\<close> with a default port.\<close>

record url =
  u_text :: string
  u_scheme :: string
  u_has_host :: bool
  u_username :: string
  u_password :: "string option"
  u_host_port :: string
  u_addrs :: "nat option \<Rightarrow> string + sock_addr list"

record conn =
  rx :: bytes
  rx_fails :: bool
  tx :: bytes
  writable :: bool

record proxy_env =
  url_parse :: "string \<Rightarrow> string + url"
  base64 :: "bytes \<Rightarrow> string"
  resolve :: "string \<Rightarrow> nat \<Rightarrow> string + sock_addr list"
  str_target :: "string \<Rightarrow> string + target_addr"
  parse_response :: "bytes \<Rightarrow> (u16 option) option"
  server_name_ok :: "string \<Rightarrow> bool"
  tls_connect :: "string \<Rightarrow> conn \<Rightarrow> conn option"
  socks5_connect :: "conn \<Rightarrow> target_addr \<Rightarrow> (string \<times> string) option \<Rightarrow> conn option"
  handshake_elapsed :: bool  \<comment> \<open>the handshake takes longer than the timeout\<close>

definition into_url :: "url \<Rightarrow> proxy_error + url" where
  "into_url u = (if u_has_host u then Inr u else Inl (Url_bad_scheme (u_text u)))"

definition str_into_url :: "proxy_env \<Rightarrow> string \<Rightarrow> proxy_error + url" where
  "str_into_url env s = (case url_parse env s of Inl e \<Rightarrow> Inl (Url_parse_scheme e) | Inr u \<Rightarrow> into_url u)"

record auth =
  au_name :: string
  au_password :: string

definition get_basic_authorization :: "proxy_env \<Rightarrow> auth \<Rightarrow> string" where
  "get_basic_authorization env a = base64 env (as_bytes (au_name a @ '':'' @ au_password a))"

definition CRLF :: string where "CRLF = [char_of (13 :: nat), char_of (10 :: nat)]"

definition get_proxy_authorization :: "proxy_env \<Rightarrow> auth \<Rightarrow> string" where
  "get_proxy_authorization env a =
     ''Proxy-Authorization: Basic '' @ get_basic_authorization env a @ CRLF"

datatype proxy_scheme =
  Http "auth option" string
| Https "auth option" string
| Socks5 sock_addr "auth option" bool

fun maybe_auth :: "proxy_scheme \<Rightarrow> auth option" where
  "maybe_auth (Http a _) = a"
| "maybe_auth (Https a _) = a"
| "maybe_auth (Socks5 _ a _) = a"

fun set_basic_auth :: "string \<Rightarrow> string \<Rightarrow> proxy_scheme \<Rightarrow> proxy_scheme" where
  "set_basic_auth u p (Http _ h) = Http (Some \<lparr>au_name = u, au_password = p\<rparr>) h"
| "set_basic_auth u p (Https _ h) = Https (Some \<lparr>au_name = u, au_password = p\<rparr>) h"
| "set_basic_auth u p (Socks5 a _ r) = Socks5 a (Some \<lparr>au_name = u, au_password = p\<rparr>) r"

definition to_addr :: "url \<Rightarrow> proxy_error + sock_addr" where
  "to_addr u =
     (case u_addrs u (if u_scheme u = ''socks5'' then Some 1080 else None) of
        Inl e \<Rightarrow> Inl (Io_error e)
      | Inr [] \<Rightarrow> Inl (Url_parse_scheme ''EmptyHost'')
      | Inr (a # _) \<Rightarrow> Inr a)"

definition scheme_of_url :: "url \<Rightarrow> proxy_error + proxy_scheme" where
  "scheme_of_url u =
     (if u_scheme u = ''http'' then Inr (Http None (u_host_port u))
      else if u_scheme u = ''https'' then Inr (Https None (u_host_port u))
      else if u_scheme u = ''socks5'' then rbind (to_addr u) (\<lambda>a. Inr (Socks5 a None False))
      else Inl (Url_bad_scheme (u_scheme u)))"

definition proxy_parse :: "url \<Rightarrow> proxy_error + proxy_scheme" where
  "proxy_parse u = rbind (scheme_of_url u) (\<lambda>s.
     Inr (case u_password u of Some pwd \<Rightarrow> set_basic_auth (u_username u) pwd s | None \<Rightarrow> s))"

definition into_proxy_scheme :: "proxy_env \<Rightarrow> string \<Rightarrow> proxy_error + proxy_scheme" where
  "into_proxy_scheme env s =
     rbind (case str_into_url env s of
              Inr u \<Rightarrow> Inr u
            | Inl (Url_parse_scheme _) \<Rightarrow> str_into_url env (''socks5://'' @ s)
            | Inl e \<Rightarrow> Inl e)
       proxy_parse"

subsection \<open>Addresses\<close>

text \<open>\<^verbatim>\<open>s.split_once(c)\<close>.\<close>

definition split_once :: "char \<Rightarrow> string \<Rightarrow> (string \<times> string) option" where
  "split_once c s = (if c \<in> set s
     then Some (takeWhile (\<lambda>x. x \<noteq> c) s, tl (dropWhile (\<lambda>x. x \<noteq> c) s)) else None)"

definition resolve_host :: "proxy_env \<Rightarrow> string \<Rightarrow> nat \<Rightarrow> proxy_error + sock_addr" where
  "resolve_host env host default_port =
     (let (host_str, port) = (case split_once CHR '':'' host of
            Some (h, p) \<Rightarrow> (h, parse_uint 16 p) | None \<Rightarrow> (host, None))
      in case resolve env host_str (case port of Some p \<Rightarrow> p | None \<Rightarrow> default_port) of
           Inl e \<Rightarrow> Inl (Io_error e)
         | Inr [] \<Rightarrow> Inl (Resolution_failed host)
         | Inr (a # _) \<Rightarrow> Inr a)"

fun socket_addrs :: "proxy_env \<Rightarrow> proxy_scheme \<Rightarrow> proxy_error + sock_addr" where
  "socket_addrs env (Http _ host) = resolve_host env host 80"
| "socket_addrs env (Https _ host) = resolve_host env host 443"
| "socket_addrs env (Socks5 addr _ _) = Inr addr"

fun get_domain :: "proxy_scheme \<Rightarrow> proxy_error + string" where
  "get_domain (Http _ host) =
     (case split_char CHR '':'' host of [] \<Rightarrow> Inl (Resolution_failed host) | d # _ \<Rightarrow> Inr d)"
| "get_domain (Https _ host) =
     (case split_char CHR '':'' host of [] \<Rightarrow> Inl (Resolution_failed host) | d # _ \<Rightarrow> Inr d)"
| "get_domain (Socks5 addr _ _) = Inr (ip_string (sock_ip addr))"

definition append_default_port :: "string \<Rightarrow> nat \<Rightarrow> string" where
  "append_default_port host default_port =
     (if CHR '':'' \<in> set host then host else host @ '':'' @ dec_string default_port)"

text \<open>\<^verbatim>\<open>Display\<close> of a \<^verbatim>\<open>SocketAddr\<close>; a scope identifier other than zero is printed too.\<close>

definition sock_string :: "sock_addr \<Rightarrow> string" where
  "sock_string a =
     (case a of
        SockV4 ip p \<Rightarrow> ip_string ip @ '':'' @ dec_string (unat p)
      | SockV6 ip p f sc \<Rightarrow> ''['' @ ip_string ip @ (if sc = 0 then '''' else ''%'' @ dec_string (unat sc))
          @ '']:'' @ dec_string (unat p))"

fun get_host_and_port :: "proxy_scheme \<Rightarrow> proxy_error + string" where
  "get_host_and_port (Http _ host) = Inr (append_default_port host 80)"
| "get_host_and_port (Https _ host) = Inr (append_default_port host 443)"
| "get_host_and_port (Socks5 addr _ _) = Inr (sock_string addr)"

subsection \<open>The client\<close>

record proxy_client =
  intercept :: proxy_scheme
  ms_timeout :: u64

definition DEFINE_TIME_OUT :: u64 where "DEFINE_TIME_OUT = 600"

definition proxy_new :: "proxy_env \<Rightarrow> string \<Rightarrow> u64 \<Rightarrow> proxy_error + proxy_client" where
  "proxy_new env s ms = rbind (into_proxy_scheme env s) (\<lambda>sch. Inr \<lparr>intercept = sch, ms_timeout = ms\<rparr>)"

definition is_http_or_https :: "proxy_client \<Rightarrow> bool" where
  "is_http_or_https p = (case intercept p of Socks5 _ _ _ \<Rightarrow> False | _ \<Rightarrow> True)"

definition basic_auth :: "string \<Rightarrow> string \<Rightarrow> proxy_client \<Rightarrow> proxy_client" where
  "basic_auth u pw p = p\<lparr>intercept := set_basic_auth u pw (intercept p)\<rparr>"

definition from_conf :: "proxy_env \<Rightarrow> socks5_server \<Rightarrow> u64 option \<Rightarrow> proxy_error + proxy_client" where
  "from_conf env conf ms =
     rbind (proxy_new env (sk_proxy conf) (case ms of None \<Rightarrow> DEFINE_TIME_OUT | Some t \<Rightarrow> t)) (\<lambda>p.
       Inr (if sk_password conf \<noteq> '''' \<and> sk_username conf \<noteq> ''''
            then basic_auth (sk_username conf) (sk_password conf) p else p))"

definition make_request :: "proxy_env \<Rightarrow> proxy_client \<Rightarrow> string \<Rightarrow> nat \<Rightarrow> string" where
  "make_request env p host port =
     (let hp = host @ '':'' @ dec_string port;
          request = ''CONNECT '' @ hp @ '' HTTP/1.1'' @ CRLF @ ''Host: '' @ hp @ CRLF;
          request = (case maybe_auth (intercept p) of
             None \<Rightarrow> request | Some a \<Rightarrow> request @ get_proxy_authorization env a)
      in request @ CRLF)"

definition get_domain_and_port :: "string + target_addr \<Rightarrow> proxy_error + string \<times> nat" where
  "get_domain_and_port t =
     (case t of
        Inl e \<Rightarrow> Inl (Target_parse_error e)
      | Inr (Ip_target a) \<Rightarrow> Inr (ip_string (sock_ip a), unat (sock_port a))
      | Inr (Domain_target name port) \<Rightarrow> Inr (name, unat port))"

subsection \<open>The answer\<close>

definition MAXIMUM_RESPONSE_HEADER_LENGTH :: nat where "MAXIMUM_RESPONSE_HEADER_LENGTH = 4096"

definition ends_with :: "bytes \<Rightarrow> bytes \<Rightarrow> bool" where
  "ends_with s suf \<longleftrightarrow> length suf \<le> length s \<and> drop (length s - length suf) s = suf"

text \<open>Everything up to and including the first line feed, and the rest.\<close>

fun split_line :: "bytes \<Rightarrow> bytes \<times> bytes" where
  "split_line [] = ([], [])"
| "split_line (b # bs) =
     (if b = 10 then ([b], bs) else let (l, rest) = split_line bs in (b # l, rest))"

lemma split_line_append: "split_line bs = (l, rest) \<Longrightarrow> bs = l @ rest"
  by (induction bs arbitrary: l) (auto split: if_splits prod.splits)

lemma split_line_ne: "split_line bs = (l, rest) \<Longrightarrow> bs \<noteq> [] \<Longrightarrow> l \<noteq> []"
  by (cases bs) (auto split: if_splits prod.splits)

text \<open>
  \<^verbatim>\<open>read_line\<close>: a line that is not UTF-8 is an error, and so is a failure of the connection
  before the line is complete.
\<close>

definition read_line :: "bool \<Rightarrow> bytes \<Rightarrow> proxy_error + bytes \<times> bytes" where
  "read_line fails s =
     (let (line, rest) = split_line s
      in if fails \<and> \<not> ends_with line [10] then Inl (Io_error ''read'')
         else if \<not> utf8_valid line then Inl (Io_error ''utf-8'')
         else Inr (line, rest))"

lemma read_line_shorter:
  assumes "read_line fails s = Inr (line, rest)" and "line \<noteq> []"
  shows "length rest < length s"
proof -
  have "split_line s = (line, rest)"
    using assms(1) by (auto simp: read_line_def Let_def split: prod.splits if_splits)
  from split_line_append [OF this] assms(2) show ?thesis by simp
qed

function response_loop :: "bool \<Rightarrow> bytes \<Rightarrow> bytes \<Rightarrow> proxy_error + bytes \<times> bytes" where
  "response_loop fails s response =
     (case read_line fails s of
        Inl e \<Rightarrow> Inl e
      | Inr (line, rest) \<Rightarrow>
          if line = [] then Inl End_of_file
          else let r = response @ line
            in if MAXIMUM_RESPONSE_HEADER_LENGTH < length r then Inl (Maximum_length_exceeded (length r))
               else if ends_with r [13, 10, 13, 10] then Inr (r, rest)
               else response_loop fails rest r)"
  by pat_completeness auto
termination
  by (relation "measure (\<lambda>(_, s, _). length s)") (auto dest: read_line_shorter)

declare response_loop.simps [simp del]

definition get_response :: "conn \<Rightarrow> proxy_error + bytes \<times> conn" where
  "get_response c =
     rbind (response_loop (rx_fails c) (rx c) []) (\<lambda>(r, rest). Inr (r, c\<lparr>rx := rest\<rparr>))"

definition recv_and_check_response :: "proxy_env \<Rightarrow> conn \<Rightarrow> proxy_error + conn" where
  "recv_and_check_response env c =
     rbind (get_response c) (\<lambda>(response, c').
       case parse_response env response of
         None \<Rightarrow> Inl Http_parse_error
       | Some None \<Rightarrow> Inl No_http_code
       | Some (Some code) \<Rightarrow> if code = 200 then Inr c' else Inl (Http_code_not_200 code))"

definition http_connect :: "proxy_env \<Rightarrow> proxy_client \<Rightarrow> conn \<Rightarrow> string + target_addr \<Rightarrow> proxy_error + conn" where
  "http_connect env p c t =
     rbind (get_domain_and_port t) (\<lambda>(domain, port).
       if writable c
       then recv_and_check_response env (c\<lparr>tx := tx c @ as_bytes (make_request env p domain port)\<rparr>)
       else Inl (Io_error ''write''))"

text \<open>The build for Linux: the server name is checked before the TLS handshake.\<close>

definition https_connect :: "proxy_env \<Rightarrow> proxy_client \<Rightarrow> conn \<Rightarrow> string + target_addr \<Rightarrow> proxy_error + conn" where
  "https_connect env p c t =
     rbind (get_domain (intercept p)) (\<lambda>d.
       if \<not> server_name_ok env d then Inl (Resolution_failed d)
       else case tls_connect env d c of
              None \<Rightarrow> Inl Tls_error
            | Some c' \<Rightarrow> http_connect env p c' t)"

definition socks_connect :: "proxy_env \<Rightarrow> proxy_client \<Rightarrow> conn \<Rightarrow> string + target_addr \<Rightarrow> proxy_error + conn" where
  "socks_connect env p c t =
     (case t of
        Inl e \<Rightarrow> Inl (Target_parse_error e)
      | Inr t' \<Rightarrow>
          (case socks5_connect env c t' (map_option (\<lambda>a. (au_name a, au_password a)) (maybe_auth (intercept p))) of
             None \<Rightarrow> Inl Socks_error | Some c' \<Rightarrow> Inr c'))"

text \<open>
  \<^verbatim>\<open>Proxy::connect\<close>: \<open>c\<close> is the connection that the operating system makes to the proxy. The
  result is the framed stream and the connection it runs on.
\<close>

definition handshake :: "proxy_env \<Rightarrow> proxy_client \<Rightarrow> conn \<Rightarrow> string + target_addr \<Rightarrow> proxy_error + conn" where
  "handshake env p c t =
     (case intercept p of
        Http _ _ \<Rightarrow> http_connect env p c t
      | Https _ _ \<Rightarrow> https_connect env p c t
      | Socks5 _ _ _ \<Rightarrow> socks_connect env p c t)"

definition proxy_connect ::
    "proxy_env \<Rightarrow> os \<Rightarrow> proxy_client \<Rightarrow> string + target_addr \<Rightarrow> sock_addr option \<Rightarrow> conn \<Rightarrow> calls
      \<Rightarrow> (proxy_error + 'k framed_stream \<times> conn) \<times> calls" where
  "proxy_connect env os p t local_addr c h =
     (case socket_addrs env (intercept p) of
        Inl e \<Rightarrow> (Inl e, h)
      | Inr prox \<Rightarrow>
          (case open_and_connect os local_addr prox (ms_timeout p) h of
             (Inl e, h1) \<Rightarrow> (Inl (Connect_failed e), h1)
           | (Inr _, h1) \<Rightarrow>
               (case connected_stream os h1 of
                  (Inl e, h2) \<Rightarrow> (Inl (Connect_failed e), h2)
                | (Inr st, h2) \<Rightarrow> (if handshake_elapsed env then Inl Elapsed
                     else rbind (handshake env p c t) (\<lambda>c'. Inr (st, c')), h2))))"

text \<open>\<^verbatim>\<open>FramedStream::connect\<close> of \<^verbatim>\<open>tcp.rs\<close>.\<close>

definition fs_connect ::
    "proxy_env \<Rightarrow> os \<Rightarrow> string + target_addr \<Rightarrow> sock_addr option \<Rightarrow> socks5_server \<Rightarrow> u64 \<Rightarrow> conn \<Rightarrow> calls
      \<Rightarrow> (proxy_error + 'k framed_stream \<times> conn) \<times> calls" where
  "fs_connect env os t local_addr conf ms c h =
     (case from_conf env conf (Some ms) of
        Inl e \<Rightarrow> (Inl e, h)
      | Inr p \<Rightarrow> proxy_connect env os p t local_addr c h)"

end
