(* ===== verification/SocketClient.thy ===== *)
theory SocketClient
  imports Proxy Hosts
begin

text \<open>
  Choosing how to connect, \<^verbatim>\<open>libs/hbb_common/src/socket_client.rs\<close>: through the configured
  proxy, directly, or over the IPv6 translation of \<^verbatim>\<open>nip.io\<close>. The string functions of the file
  are in \<open>Hosts\<close>.
\<close>

subsection \<open>TCP\<close>

definition into_target_addr :: "proxy_env \<Rightarrow> target \<Rightarrow> string + target_addr" where
  "into_target_addr env t = (case t of Resolved a \<Rightarrow> Inr (Ip_target a) | Named s \<Rightarrow> str_target env s)"

fun first_v6 :: "sock_addr list \<Rightarrow> sock_addr option" where
  "first_v6 [] = None"
| "first_v6 (a # as) = (if is_v4 a then first_v6 as else Some a)"

definition nip_io_name :: "sock_addr \<Rightarrow> string" where
  "nip_io_name a = ip_string (sock_ip a) @ ''.nip.io:'' @ dec_string (unat (sock_port a))"

definition query_nip_io :: "os \<Rightarrow> sock_addr \<Rightarrow> sock_error + sock_addr" where
  "query_nip_io os a =
     (case lookup_host os (nip_io_name a) of
        Inl e \<Rightarrow> Inl (Lookup_error e)
      | Inr as \<Rightarrow> (case first_v6 as of None \<Rightarrow> Inl No_address | Some b \<Rightarrow> Inr b))"

text \<open>
  The address a direct connection goes to. A resolved IPv4 target with a local IPv6 address is
  translated.
\<close>

definition direct_target :: "os \<Rightarrow> target \<Rightarrow> sock_addr option \<Rightarrow> sock_error + target" where
  "direct_target os t local_addr =
     (case (t, local_addr) of
        (Resolved a, Some l) \<Rightarrow>
          if \<not> is_v4 l \<and> is_v4 a
          then (case query_nip_io os a of Inl e \<Rightarrow> Inl e | Inr b \<Rightarrow> Inr (Resolved b))
          else Inr t
      | _ \<Rightarrow> Inr t)"

definition connect_tcp_local ::
    "proxy_env \<Rightarrow> os \<Rightarrow> app \<Rightarrow> target \<Rightarrow> sock_addr option \<Rightarrow> u64 \<Rightarrow> conn \<Rightarrow> calls
      \<Rightarrow> (proxy_error + 'k framed_stream \<times> conn) \<times> calls" where
  "connect_tcp_local env os a t local_addr ms c h =
     (case get_socks a of
        Some conf \<Rightarrow> fs_connect env os (into_target_addr env t) local_addr conf ms c h
      | None \<Rightarrow>
          (case direct_target os t local_addr of
             Inl e \<Rightarrow> (Inl (Connect_failed e), h)
           | Inr t' \<Rightarrow>
               (case fs_new os t' local_addr ms h of
                  (Inl e, h') \<Rightarrow> (Inl (Connect_failed e), h')
                | (Inr st, h') \<Rightarrow> (Inr (st, c), h'))))"

definition connect_tcp ::
    "proxy_env \<Rightarrow> os \<Rightarrow> app \<Rightarrow> target \<Rightarrow> u64 \<Rightarrow> conn \<Rightarrow> calls
      \<Rightarrow> (proxy_error + 'k framed_stream \<times> conn) \<times> calls" where
  "connect_tcp env os a t ms c h = connect_tcp_local env os a t None ms c h"

definition is_ipv4_target :: "target_addr \<Rightarrow> bool" where
  "is_ipv4_target t = (case t of Ip_target a \<Rightarrow> is_v4 a | Domain_target _ _ \<Rightarrow> True)"

text \<open>\<^verbatim>\<open>test_if_valid_server\<close>: the empty string, or the error. \<open>lookup_host\<close> stands for \<^verbatim>\<open>to_socket_addrs\<close>.\<close>

definition test_if_valid_server_for_proxy :: "proxy_env \<Rightarrow> string \<Rightarrow> string" where
  "test_if_valid_server_for_proxy env host =
     (case str_target env host of Inl e \<Rightarrow> e | Inr _ \<Rightarrow> '''')"

definition test_if_valid_server :: "proxy_env \<Rightarrow> os \<Rightarrow> app \<Rightarrow> string \<Rightarrow> bool \<Rightarrow> string" where
  "test_if_valid_server env os a host test_with_proxy =
     (let host = check_port host 0
      in if test_with_proxy \<and> get_network_type a = ProxySocks
         then test_if_valid_server_for_proxy env host
         else case lookup_host os host of Inl e \<Rightarrow> e | Inr _ \<Rightarrow> '''')"

subsection \<open>UDP\<close>

definition test_target :: "os \<Rightarrow> string \<Rightarrow> calls \<Rightarrow> (sock_error + sock_addr) \<times> calls" where
  "test_target os t h0 =
     (case andthen (sys os (Connect_name t 1000) h0) (\<lambda>_ h. sys os Get_peer h) of
        (Inr _, h) \<Rightarrow> (Inr (name_of os h), h)
      | (Inl _, h) \<Rightarrow>
          (case lookup_host os t of
             Inl e \<Rightarrow> (Inl (Lookup_error e), h)
           | Inr [] \<Rightarrow> (Inl No_address, h)
           | Inr (a # _) \<Rightarrow> (Inr a, h)))"

definition new_udp ::
    "(string \<Rightarrow> (string \<times> string) option \<Rightarrow> u64 \<Rightarrow> bool) \<Rightarrow> os \<Rightarrow> app \<Rightarrow> sock_addr \<Rightarrow> u64 \<Rightarrow> calls
      \<Rightarrow> (sock_error + framed_socket) \<times> calls" where
  "new_udp assoc os a local_addr ms h =
     (case get_socks a of
        None \<Rightarrow> udp_new os (Resolved local_addr) h
      | Some conf \<Rightarrow> (udp_new_proxy assoc (sk_proxy conf) (sk_username conf) (sk_password conf) ms, h))"

definition udp_target ::
    "proxy_env \<Rightarrow> os \<Rightarrow> app \<Rightarrow> string \<Rightarrow> calls \<Rightarrow> (sock_error + bool \<times> target_addr) \<times> calls" where
  "udp_target env os a t h0 =
     (if get_network_type a = Direct
      then andthen (test_target os t h0) (\<lambda>addr h. (Inr (is_v4 addr, Ip_target addr), h))
      else case str_target env t of
             Inl e \<Rightarrow> (Inl (Bad_target e), h0)
           | Inr ta \<Rightarrow> (Inr (True, ta), h0))"

definition new_udp_for ::
    "(string \<Rightarrow> (string \<times> string) option \<Rightarrow> u64 \<Rightarrow> bool) \<Rightarrow> proxy_env \<Rightarrow> os \<Rightarrow> app \<Rightarrow> string \<Rightarrow> u64 \<Rightarrow> calls
      \<Rightarrow> (sock_error + framed_socket \<times> target_addr) \<times> calls" where
  "new_udp_for assoc env os a t ms h0 =
     andthen (udp_target env os a t h0) (\<lambda>(ipv4, ta) h1.
     andthen (new_udp assoc os a (get_any_listen_addr ipv4) ms h1) (\<lambda>s h2. (Inr (s, ta), h2)))"

definition rebind_udp_for ::
    "os \<Rightarrow> app \<Rightarrow> string \<Rightarrow> calls \<Rightarrow> (sock_error + (framed_socket \<times> target_addr) option) \<times> calls" where
  "rebind_udp_for os a t h0 =
     (if get_network_type a \<noteq> Direct then (Inr None, h0)
      else andthen (test_target os t h0) (\<lambda>addr h1.
           andthen (udp_new os (Resolved (get_any_listen_addr (is_v4 addr))) h1) (\<lambda>s h2.
             (Inr (Some (s, Ip_target addr)), h2))))"

end
