(* ===== verification/ProxyProps.thy ===== *)
theory ProxyProps
  imports SocketClient
begin

text \<open>
  Properties of the proxy client and of the choice of sockets: the header of an HTTP answer is
  read exactly, what follows it belongs to the stream, the request is a single header.
\<close>

subsection \<open>Reading a header\<close>

definition blank_line :: bytes where "blank_line = [13, 10, 13, 10]"

definition ascii :: "bytes \<Rightarrow> bool" where "ascii s = list_all (\<lambda>b. b < 0x80) s"

text \<open>A text that ends with its first blank line.\<close>

definition is_block :: "bytes \<Rightarrow> bool" where
  "is_block h \<longleftrightarrow> ends_with h blank_line \<and> (\<forall>k < length h. \<not> ends_with (take k h) blank_line)"

lemma ends_with_append: "length suf \<le> length t \<Longrightarrow> ends_with (s @ t) suf \<longleftrightarrow> ends_with t suf"
  by (simp add: ends_with_def)

lemma ends_with_iff: "ends_with s suf \<longleftrightarrow> (\<exists>p. s = p @ suf)"
  by (metis append_take_drop_id append_eq_conv_conj diff_diff_cancel diff_le_self ends_with_def
      length_append length_drop le_add2 add_diff_cancel_right' drop_append append_Nil drop_all order_refl)

lemma ascii_utf8: "ascii s \<Longrightarrow> utf8_valid s"
proof (induction s)
  case Nil
  show ?case by (subst utf8_valid.simps) simp
next
  case (Cons b s)
  then have "utf8_unit (b # s) = (True, 1)" by (simp add: utf8_unit_def ascii_def)
  with Cons show ?case by (subst utf8_valid.simps) (simp add: ascii_def)
qed

lemma split_line_in:
  assumes "part \<noteq> []" and "last part = 10"
  shows "\<exists>l p'. split_line (part @ rest) = (l, p' @ rest) \<and> part = l @ p' \<and> ends_with l [10]
     \<and> (p' = [] \<or> last p' = 10)"
  using assms
proof (induction part)
  case (Cons b part)
  show ?case
  proof (cases "b = 10")
    case True
    with Cons.prems show ?thesis by (cases "part = []") (auto simp: ends_with_def)
  next
    case False
    with Cons.prems have "part \<noteq> []" "last part = 10" by (auto split: if_splits)
    from Cons.IH [OF this] obtain l p' where
      "split_line (part @ rest) = (l, p' @ rest)" "part = l @ p'" "ends_with l [10]" "p' = [] \<or> last p' = 10"
      by blast
    with False show ?thesis
      by (intro exI [of _ "b # l"] exI [of _ p']) (auto simp: ends_with_iff)
  qed
qed simp

text \<open>What the loop gives on a stream that starts with the rest of a block.\<close>

lemma response_loop_block:
  assumes "is_block (resp @ part)" and "part \<noteq> []" and "ascii part"
    and "length (resp @ part) \<le> MAXIMUM_RESPONSE_HEADER_LENGTH"
  shows "response_loop fails (part @ rest) resp = Inr (resp @ part, rest)"
  using assms
proof (induction part arbitrary: resp rule: length_induct)
  case (1 part)
  have "last (resp @ part) = 10"
    using 1(2) by (auto simp: is_block_def ends_with_iff blank_line_def)
  then have "last part = 10" using 1(3) by simp
  from split_line_in [OF 1(3) this, of rest] obtain l p' where
    l: "split_line (part @ rest) = (l, p' @ rest)" "part = l @ p'" "ends_with l [10]" "p' = [] \<or> last p' = 10"
    by blast
  have ne: "l \<noteq> []" using l(3) by (auto simp: ends_with_def)
  have "ascii l" "ascii p'" using 1(4) l(2) by (simp_all add: ascii_def)
  then have rd: "read_line fails (part @ rest) = Inr (l, p' @ rest)"
    using l(1,3) by (simp add: read_line_def ascii_utf8)
  have len: "\<not> MAXIMUM_RESPONSE_HEADER_LENGTH < length (resp @ l)" using 1(5) l(2) by simp
  show ?case
  proof (cases "p' = []")
    case True
    then have "ends_with (resp @ l) [13, 10, 13, 10]"
      using 1(2) l(2) by (simp add: is_block_def blank_line_def)
    with True l(2) ne len rd show ?thesis by (subst response_loop.simps) simp
  next
    case False
    then have "\<not> ends_with (resp @ l) [13, 10, 13, 10]"
      using 1(2) l(2) by (auto simp: is_block_def blank_line_def dest!: spec [of _ "length (resp @ l)"])
    moreover have "response_loop fails (p' @ rest) (resp @ l) = Inr ((resp @ l) @ p', rest)"
      by (rule 1(1) [rule_format]) (use 1 l ne False \<open>ascii p'\<close> in auto)
    ultimately show ?thesis using l(2) ne len rd by (subst response_loop.simps) simp
  qed
qed

lemma split_line_lf:
  assumes "split_line s = (l, rest)" and "Suc i < length l"
  shows "l ! i \<noteq> 10"
  using assms
proof (induction s arbitrary: l i)
  case (Cons b s)
  then show ?case by (cases i) (auto split: if_splits prod.splits)
qed simp

text \<open>And what it means that the loop succeeds.\<close>

lemma response_loop_Inr:
  assumes "response_loop fails s resp = Inr (r, rest)"
  shows "\<exists>p. p \<noteq> [] \<and> s = p @ rest \<and> r = resp @ p \<and> ends_with r blank_line
    \<and> length r \<le> MAXIMUM_RESPONSE_HEADER_LENGTH
    \<and> (\<forall>k. length resp < k \<and> k < length r \<longrightarrow> \<not> ends_with (take k r) blank_line)"
  using assms
proof (induction fails s resp rule: response_loop.induct)
  case (1 fails s resp)
  obtain line rest1 where rd: "read_line fails s = Inr (line, rest1)" and ne: "line \<noteq> []"
    and len: "\<not> MAXIMUM_RESPONSE_HEADER_LENGTH < length (resp @ line)"
    using 1(2) by (subst (asm) response_loop.simps) (auto split: sum.splits if_splits simp: Let_def)
  from rd have sl: "split_line s = (line, rest1)"
    by (auto simp: read_line_def Let_def split: prod.splits if_splits)
  from split_line_append [OF sl] have s: "s = line @ rest1" .
  have step: "response_loop fails s resp = (if ends_with (resp @ line) [13, 10, 13, 10]
      then Inr (resp @ line, rest1) else response_loop fails rest1 (resp @ line))"
    using rd ne len by (subst response_loop.simps) simp
  have inner: "\<not> ends_with (take k (resp @ line @ p)) blank_line"
    if kr: "length resp < k" "k < length (resp @ line)" for k p
  proof
    obtain i where i: "k = Suc (length resp + i)" "Suc i < length line"
      using kr less_imp_Suc_add [OF kr(1)] by auto
    assume "ends_with (take k (resp @ line @ p)) blank_line"
    then have "last (take k (resp @ line @ p)) = 10" by (auto simp: ends_with_iff blank_line_def)
    moreover have "take k (resp @ line @ p) = resp @ take (Suc i) line" using i by simp
    ultimately have "last (resp @ take (Suc i) line) = 10" by metis
    then have "line ! i = 10" using i(2) by (simp add: take_Suc_conv_app_nth)
    with split_line_lf [OF sl i(2)] show False by simp
  qed
  show ?case
  proof (cases "ends_with (resp @ line) [13, 10, 13, 10]")
    case True
    with 1(2) step have "r = resp @ line" "rest = rest1" by simp_all
    with True ne len s inner [of _ "[]"] show ?thesis
      by (intro exI [of _ line]) (auto simp: blank_line_def)
  next
    case False
    with 1(2) step have "response_loop fails rest1 (resp @ line) = Inr (r, rest)" by simp
    from 1(1) [OF rd refl ne refl len False this] obtain p where p: "p \<noteq> []" "rest1 = p @ rest"
      "r = (resp @ line) @ p" "ends_with r blank_line" "length r \<le> MAXIMUM_RESPONSE_HEADER_LENGTH"
      "\<forall>k. length (resp @ line) < k \<and> k < length r \<longrightarrow> \<not> ends_with (take k r) blank_line" by blast
    have "\<not> ends_with (take k r) blank_line" if k: "length resp < k" "k < length r" for k
    proof -
      consider "k < length (resp @ line)" | "k = length (resp @ line)" | "length (resp @ line) < k" by linarith
      then show ?thesis
      proof cases
        case 1
        with inner [OF k(1)] p(3) show ?thesis by simp
      next
        case 2
        with False p(3) show ?thesis by (simp add: blank_line_def)
      next
        case 3
        with k p(6) show ?thesis by blast
      qed
    qed
    with p s show ?thesis by (intro exI [of _ "line @ p"]) auto
  qed
qed


text \<open>The header of an answer is read exactly: for a connection that carries ASCII text,
  \<open>get_response\<close> succeeds if and only if the text starts with a block of at most 4096 bytes
  that ends with its first blank line; it returns that block, and leaves everything behind
  it for the stream that is tunnelled through the proxy.
\<close>

theorem header_is_read_exactly:
  assumes "ascii (rx c)"
  shows "get_response c = Inr (r, c') \<longleftrightarrow>
    is_block r \<and> length r \<le> MAXIMUM_RESPONSE_HEADER_LENGTH \<and> rx c = r @ rx c' \<and> c' = c\<lparr>rx := rx c'\<rparr>"
proof
  assume "get_response c = Inr (r, c')"
  then have "response_loop (rx_fails c) (rx c) [] = Inr (r, rx c')" and c': "c' = c\<lparr>rx := rx c'\<rparr>"
    by (auto simp: get_response_def rbind_Inr_iff)
  from response_loop_Inr [OF this(1)] c' show "is_block r \<and> length r \<le> MAXIMUM_RESPONSE_HEADER_LENGTH \<and>
      rx c = r @ rx c' \<and> c' = c\<lparr>rx := rx c'\<rparr>"
    by (auto simp: is_block_def) (metis ends_with_def gr_zeroI list.size(3) take_0 le_zero_eq
        blank_line_def length_0_conv list.distinct(1))
next
  assume r: "is_block r \<and> length r \<le> MAXIMUM_RESPONSE_HEADER_LENGTH \<and> rx c = r @ rx c' \<and> c' = c\<lparr>rx := rx c'\<rparr>"
  then have "r \<noteq> []" "ascii r"
    using assms by (auto simp: is_block_def ends_with_def blank_line_def ascii_def)
  with r response_loop_block [of "[]" r "rx_fails c" "rx c'"] show "get_response c = Inr (r, c')"
    by (simp add: get_response_def)
qed

lemma is_block_code: "is_block h \<longleftrightarrow> ends_with h blank_line \<and>
    list_all (\<lambda>k. \<not> ends_with (take k h) blank_line) [0..<length h]"
  by (auto simp: is_block_def list_all_iff)

lemma header_is_read_exactly_witness:
  "get_response \<lparr>rx = [72, 13, 10, 13, 10, 7], rx_fails = False, tx = [], writable = True\<rparr> =
    Inr ([72, 13, 10, 13, 10], \<lparr>rx = [7], rx_fails = False, tx = [], writable = True\<rparr>)"
proof (subst header_is_read_exactly)
  have "is_block [72, 13, 10, 13, 10]" unfolding is_block_code by code_simp
  then show "is_block [72, 13, 10, 13, 10] \<and> length [72, 13, 10, 13, 10 :: u8] \<le> MAXIMUM_RESPONSE_HEADER_LENGTH \<and>
      rx \<lparr>rx = [72, 13, 10, 13, 10, 7], rx_fails = False, tx = [], writable = True\<rparr> =
        [72, 13, 10, 13, 10] @ rx \<lparr>rx = [7], rx_fails = False, tx = [], writable = True\<rparr> \<and>
      \<lparr>rx = [7], rx_fails = False, tx = [], writable = True\<rparr> =
        \<lparr>rx = [72, 13, 10, 13, 10, 7], rx_fails = False, tx = [], writable = True\<rparr>
          \<lparr>rx := rx \<lparr>rx = [7], rx_fails = False, tx = [], writable = True\<rparr>\<rparr>"
    by (simp add: MAXIMUM_RESPONSE_HEADER_LENGTH_def)
qed (simp add: ascii_def)

subsection \<open>The request\<close>

definition no_eol :: "string \<Rightarrow> bool" where
  "no_eol s = list_all (\<lambda>c. (of_char c :: nat) \<noteq> 13 \<and> (of_char c :: nat) \<noteq> 10) s"

text \<open>Lines and the blank line behind them, over any two different end-of-line symbols.\<close>

fun lines_of :: "'a \<Rightarrow> 'a \<Rightarrow> 'a list list \<Rightarrow> 'a list" where
  "lines_of cr lf [] = [cr, lf]"
| "lines_of cr lf (l # ls) = l @ cr # lf # lines_of cr lf ls"

lemma lines_of_starts:
  assumes "list_all (\<lambda>l. l \<noteq> [] \<and> cr \<notin> set l \<and> lf \<notin> set l) ls" and "lines_of cr lf ls = cr # lf # q"
  shows "q = []"
proof (cases ls)
  case Nil
  with assms show ?thesis by simp
next
  case (Cons a list)
  with assms show ?thesis by (cases a) auto
qed

lemma lines_of_first_blank:
  assumes "list_all (\<lambda>l. l \<noteq> [] \<and> cr \<notin> set l \<and> lf \<notin> set l) ls" and "cr \<noteq> lf"
    and "lines_of cr lf ls = p @ [cr, lf, cr, lf] @ q"
  shows "q = []"
  using assms
proof (induction ls arbitrary: p)
  case Nil
  then show ?case by (cases p) (auto simp: Cons_eq_append_conv)
next
  case (Cons l ls)
  then have eq: "l @ cr # lf # lines_of cr lf ls = p @ cr # lf # cr # lf # q" and l: "cr \<notin> set l" by simp_all
  from eq consider us where "l = p @ us" "us @ cr # lf # lines_of cr lf ls = cr # lf # cr # lf # q"
    | us where "p = l @ us" "cr # lf # lines_of cr lf ls = us @ cr # lf # cr # lf # q"
    by (auto simp: append_eq_append_conv2)
  then show ?case
  proof cases
    case 1
    with l have "us = []" by (cases us) auto
    with 1 have t: "lines_of cr lf ls = cr # lf # q" by simp
    from lines_of_starts [OF _ this] Cons.prems(1) show ?thesis by simp
  next
    case 2
    then consider "us = []" | "us = [cr]" | us' where "us = cr # lf # us'"
      by (cases us; cases "tl us") auto
    then show ?thesis
    proof cases
      case 1
      with 2 have t: "lines_of cr lf ls = cr # lf # q" by simp
      from lines_of_starts [OF _ this] Cons.prems(1) show ?thesis by simp
    next
      case 2
      with \<open>cr # lf # lines_of cr lf ls = us @ _\<close> Cons.prems(2) show ?thesis by simp
    next
      case 3
      with 2 have "lines_of cr lf ls = us' @ [cr, lf, cr, lf] @ q" by simp
      with Cons.IH [of us'] Cons.prems show ?thesis by simp
    qed
  qed
qed

lemma lines_of_ends: "ls \<noteq> [] \<Longrightarrow> \<exists>p. lines_of cr lf ls = p @ [cr, lf, cr, lf]"
proof (induction ls)
  case (Cons l ls)
  then show ?case by (cases ls) (auto simp: append_assoc [symmetric] simp del: append_assoc)
qed simp

lemma lines_are_a_block:
  assumes "list_all (\<lambda>l. l \<noteq> [] \<and> (13 :: u8) \<notin> set l \<and> 10 \<notin> set l) ls" and "ls \<noteq> []"
  shows "is_block (lines_of 13 10 ls)"
  unfolding is_block_def
proof (intro conjI allI impI)
  show "ends_with (lines_of 13 10 ls) blank_line"
    using lines_of_ends [OF assms(2), of 13 10] by (auto simp: ends_with_iff blank_line_def)
  fix k
  assume k: "k < length (lines_of 13 10 ls)"
  show "\<not> ends_with (take k (lines_of 13 10 ls)) blank_line"
  proof
    assume "ends_with (take k (lines_of 13 10 ls)) blank_line"
    then obtain p where "take k (lines_of 13 10 ls) = p @ [13, 10, 13, 10]"
      by (auto simp: ends_with_iff blank_line_def)
    then have "lines_of 13 10 ls = p @ [13, 10, 13, 10] @ drop k (lines_of 13 10 ls)"
      by (metis append_assoc append_take_drop_id)
    from lines_of_first_blank [OF assms(1) _ this] k show False by simp
  qed
qed

lemma no_eol_bytes:
  assumes "no_eol s"
  shows "(13 :: u8) \<notin> set (as_bytes s)" and "(10 :: u8) \<notin> set (as_bytes s)"
proof -
  have "char_byte c = 13 \<Longrightarrow> (of_char c :: nat) = 13" and "char_byte c = 10 \<Longrightarrow> (of_char c :: nat) = 10" for c
  proof -
    have "unat (char_byte c) = of_char c"
      unfolding char_byte_def unat_of_nat using of_char_less [of c] by simp
    then show "char_byte c = 13 \<Longrightarrow> (of_char c :: nat) = 13" "char_byte c = 10 \<Longrightarrow> (of_char c :: nat) = 10"
      by simp_all
  qed
  with assms show "(13 :: u8) \<notin> set (as_bytes s)" "(10 :: u8) \<notin> set (as_bytes s)"
    by (auto simp: as_bytes_def no_eol_def list_all_iff)
qed

lemma no_eol_append [simp]: "no_eol (s @ t) \<longleftrightarrow> no_eol s \<and> no_eol t"
  by (simp add: no_eol_def)

lemma no_eol_Cons: "no_eol (c # t) \<longleftrightarrow> (of_char c :: nat) \<noteq> 13 \<and> (of_char c :: nat) \<noteq> 10 \<and> no_eol t"
  by (simp add: no_eol_def)

lemma no_eol_dec: "no_eol (dec_string n)"
  using dec_string_props [of n]
  by (auto simp: no_eol_def list_all_iff is_digit_def)

lemma as_bytes_append [simp]: "as_bytes (s @ t) = as_bytes s @ as_bytes t"
  by (simp add: as_bytes_def)

lemma as_bytes_lines:
  "as_bytes (lines_of (char_of (13 :: nat)) (char_of (10 :: nat)) ls) = lines_of 13 10 (map as_bytes ls)"
  by (induction ls) (simp_all add: as_bytes_def char_byte_def)

definition request_lines :: "proxy_env \<Rightarrow> proxy_client \<Rightarrow> string \<Rightarrow> nat \<Rightarrow> string list" where
  "request_lines env p host port =
     [''CONNECT '' @ host @ '':'' @ dec_string port @ '' HTTP/1.1'', ''Host: '' @ host @ '':'' @ dec_string port] @
     (case maybe_auth (intercept p) of None \<Rightarrow> []
      | Some a \<Rightarrow> [''Proxy-Authorization: Basic '' @ get_basic_authorization env a])"

lemma make_request_lines:
  "as_bytes (make_request env p host port) = lines_of 13 10 (map as_bytes (request_lines env p host port))"
proof -
  have "make_request env p host port =
      lines_of (char_of (13 :: nat)) (char_of (10 :: nat)) (request_lines env p host port)"
    by (cases "maybe_auth (intercept p)")
       (simp_all add: make_request_def request_lines_def Let_def CRLF_def get_proxy_authorization_def)
  then show ?thesis by (simp add: as_bytes_lines)
qed

text \<open>A request is one header: as long as the name of the target and the output of base64
  contain no end of line, the request ends with its first blank line, so a proxy that reads
  a header from it reads the request and nothing else, whatever the credentials are.
\<close>

theorem request_is_one_header:
  assumes "no_eol host" and "\<And>x. no_eol (base64 env x)"
  shows "is_block (as_bytes (make_request env p host port))"
proof -
  have "list_all (\<lambda>l. l \<noteq> [] \<and> no_eol l) (request_lines env p host port)"
    using assms no_eol_dec [of port]
    by (auto simp: request_lines_def get_basic_authorization_def no_eol_Cons no_eol_def [of "[]"]
        split: option.splits)
  then have "list_all (\<lambda>l. l \<noteq> [] \<and> (13 :: u8) \<notin> set l \<and> 10 \<notin> set l) (map as_bytes (request_lines env p host port))"
    by (auto simp: list_all_iff dest: no_eol_bytes)
  moreover have "map as_bytes (request_lines env p host port) \<noteq> []" by (simp add: request_lines_def)
  ultimately show ?thesis unfolding make_request_lines by (rule lines_are_a_block)
qed

text \<open>An environment with a toy base64 that writes one letter for a byte.\<close>

definition demo_proxy_env :: proxy_env where
  "demo_proxy_env = \<lparr>url_parse = (\<lambda>s. Inl ''RelativeUrlWithoutBase''),
     base64 = (\<lambda>bs. map (\<lambda>b. if b = 0 then CHR ''A'' else CHR ''B'') bs),
     resolve = (\<lambda>h p. Inr [SockV4 (IpV4 10 0 0 1) (of_nat p)]), str_target = (\<lambda>s. Inr (Domain_target s 80)),
     parse_response = (\<lambda>bs. if bs = [] then None else Some (Some 200)),
     server_name_ok = (\<lambda>d. d \<noteq> ''''), tls_connect = (\<lambda>d c. Some c), socks5_connect = (\<lambda>c t a. Some c), handshake_elapsed = False\<rparr>"

definition demo_proxy :: proxy_client where
  "demo_proxy = \<lparr>intercept = Http (Some \<lparr>au_name = ''u'', au_password = ''p''\<rparr>) ''proxy:3128'', ms_timeout = 600\<rparr>"

lemma demo_base64: "no_eol (base64 demo_proxy_env x)"
  by (auto simp: demo_proxy_env_def no_eol_def list_all_iff)

lemma request_is_one_header_witness:
  "is_block (as_bytes (make_request demo_proxy_env demo_proxy ''example.org'' 443))"
  by (rule request_is_one_header [OF _ demo_base64]) (simp add: no_eol_def)

subsection \<open>The tunnel\<close>

text \<open>C5. What the target sends through an HTTP proxy arrives: when the proxy answers with a
  header that carries code 200 and the framed messages of the target follow, in whatever
  pieces, connecting sends exactly the request, consumes exactly the header, and the stream
  then yields exactly the messages.
\<close>

theorem proxied_stream_delivers:
  assumes "get_domain_and_port t = Inr (domain, port)" and "writable c"
    and "rx c = h @ concat es" and "is_block h" and "length h \<le> MAXIMUM_RESPONSE_HEADER_LENGTH" and "ascii h"
    and "parse_response env h = Some (Some 200)" and "those (map (frame n) ms) = Some es"
  shows "\<exists>c'. http_connect env p c t = Inr c' \<and>
    tx c' = tx c @ as_bytes (make_request env p domain port) \<and>
    (\<forall>cs. (if cs \<noteq> [] \<and> concat cs = rx c' then feed decode (codec_limit n) [] cs = (ms, Inr (codec_limit n, [])) else True))"
proof -
  let ?c = "c\<lparr>tx := tx c @ as_bytes (make_request env p domain port)\<rparr>"
  have "h \<noteq> []" using assms(4) by (auto simp: is_block_def ends_with_def blank_line_def)
  with response_loop_block [of "[]" h "rx_fails c" "concat es"] assms(3-6)
  have "get_response ?c = Inr (h, ?c\<lparr>rx := concat es\<rparr>)" by (simp add: get_response_def)
  then have "http_connect env p c t = Inr (?c\<lparr>rx := concat es\<rparr>)"
    using assms(1,2,7) by (simp add: http_connect_def recv_and_check_response_def)
  moreover have "feed decode (codec_limit n) [] cs = (ms, Inr (codec_limit n, []))"
    if "cs \<noteq> []" "concat cs = concat es" for cs
    using framed.feed_encoded [OF assms(8)] that by simp
  ultimately show ?thesis by simp
qed

definition demo_answer :: bytes where
  "demo_answer = [72, 84, 84, 80, 47, 49, 46, 49, 32, 50, 48, 48, 13, 10, 13, 10]"

lemma proxied_stream_delivers_witness:
  "\<exists>c'. http_connect demo_proxy_env demo_proxy
      \<lparr>rx = demo_answer @ concat [[12, 7, 8, 9], [4, 5]], rx_fails = False, tx = [], writable = True\<rparr>
      (Inr (Domain_target ''example.org'' 443)) = Inr c' \<and>
    (\<forall>cs. (if cs \<noteq> [] \<and> concat cs = rx c'
      then feed decode (codec_limit 100) [] cs = ([[7, 8, 9], [5]], Inr (codec_limit 100, [])) else True))"
proof -
  let ?c = "\<lparr>rx = demo_answer @ concat [[12, 7, 8, 9], [4, 5]], rx_fails = False, tx = [], writable = True\<rparr>"
  have "is_block demo_answer" unfolding is_block_code by code_simp
  moreover have "length demo_answer \<le> MAXIMUM_RESPONSE_HEADER_LENGTH" "ascii demo_answer"
      "parse_response demo_proxy_env demo_answer = Some (Some 200)"
    by (simp_all add: demo_answer_def MAXIMUM_RESPONSE_HEADER_LENGTH_def ascii_def demo_proxy_env_def)
  moreover have "those (map (frame 100) [[7, 8, 9], [5]]) = Some [[12, 7, 8, 9], [4, 5]]" by code_simp
  ultimately obtain c' where "http_connect demo_proxy_env demo_proxy ?c (Inr (Domain_target ''example.org'' 443)) = Inr c'"
    "\<forall>cs. (if cs \<noteq> [] \<and> concat cs = rx c'
      then feed decode (codec_limit 100) [] cs = ([[7, 8, 9], [5]], Inr (codec_limit 100, [])) else True)"
    using proxied_stream_delivers [of "Inr (Domain_target ''example.org'' 443)" "''example.org''" 443 ?c
        demo_answer "[[12, 7, 8, 9], [4, 5]]" demo_proxy_env 100 "[[7, 8, 9], [5]]" demo_proxy]
    by (auto simp: get_domain_and_port_def)
  then show ?thesis by blast
qed

subsection \<open>Proxy addresses\<close>

text \<open>
  How a proxy setting becomes a scheme. Only text that does not parse as a URL at all is tried
  as a SOCKS5 address; a host name and a port parse as a URL without a host and are refused.
\<close>

lemma into_proxy_scheme_cases:
  "into_proxy_scheme env s =
    (case url_parse env s of
       Inl e \<Rightarrow> rbind (str_into_url env (''socks5://'' @ s)) proxy_parse
     | Inr u \<Rightarrow> if u_has_host u then proxy_parse u else Inl (Url_bad_scheme (u_text u)))"
  by (simp add: into_proxy_scheme_def str_into_url_def [of env s] into_url_def split: sum.splits)

text \<open>A bracketed IPv6 proxy is not reached: splitting at the first colon asks the resolver
  for the name \<^verbatim>\<open>[\<close> and the default port, and the server name of the TLS handshake is \<^verbatim>\<open>[\<close>.
\<close>

theorem bracketed_host_is_cut:
  "socket_addrs env (Http a ''[::1]:8080'') =
    (case resolve env ''['' 80 of
       Inl e \<Rightarrow> Inl (Io_error e)
     | Inr [] \<Rightarrow> Inl (Resolution_failed ''[::1]:8080'')
     | Inr (x # _) \<Rightarrow> Inr x) \<and>
   get_domain (Https a ''[::1]:8080'') = Inr ''[''"
proof -
  have "parse_uint 16 '':1]:8080'' = None" by code_simp
  then show ?thesis by (simp add: resolve_host_def split_once_def)
qed

text \<open>Credentials of the settings replace those of the URL when both of their parts are given.\<close>

lemma from_conf_auth:
  assumes "from_conf env conf ms = Inr p" and "into_proxy_scheme env (sk_proxy conf) = Inr sch"
  shows "maybe_auth (intercept p) =
    (if sk_username conf \<noteq> [] \<and> sk_password conf \<noteq> []
     then Some \<lparr>au_name = sk_username conf, au_password = sk_password conf\<rparr> else maybe_auth sch)"
  using assms by (cases sch) (auto simp: from_conf_def proxy_new_def basic_auth_def rbind_Inr_iff)

subsection \<open>Sockets\<close>

lemma direct_iff_no_socks: "get_network_type a = Direct \<longleftrightarrow> get_socks a = None"
  by (auto simp: get_network_type_def get_socks_def socks_of_settings_def split: option.splits)

lemma andthen_Inr: "andthen r f = (Inr y, h') \<longleftrightarrow> (\<exists>x h. r = (Inr x, h) \<and> f x h = (Inr y, h'))"
  by (cases r; cases "fst r") auto

lemma sys_Inr: "sys os c h = (Inr u, h') \<longleftrightarrow> grants os (h @ [c]) \<and> h' = h @ [c]"
  by (auto simp: sys_def)

lemma udp_new_Inr:
  assumes "udp_new os (Resolved a) h = (Inr s, h')"
  shows "s = Direct_socket [] \<and> Bind a \<in> set h'"
  using assms
  by (auto simp: udp_new_def udp_new_reuse_def addrs_of_def andthen_Inr udp_new_socket_def sys_Inr)

text \<open>A UDP socket fits its target: the socket that \<open>new_udp_for\<close> makes is bound to the
  wildcard address of the family of the address it returns, and sends to it; a socket whose
  target is an unresolved name is always one of the proxy, so no packet to the target is
  dropped silently.
\<close>

theorem udp_socket_fits_target:
  assumes "new_udp_for assoc env os a t ms h = (Inr (s, ta), h')"
  shows "(case s of
     Direct_socket out \<Rightarrow> (\<exists>addr. ta = Ip_target addr \<and> Bind (get_any_listen_addr (is_v4 addr)) \<in> set h' \<and>
       udp_send True data (Inr ta) s = (Inr (), Direct_socket [(data, addr)]))
   | Socks_socket out \<Rightarrow> get_socks a \<noteq> None \<and>
       udp_send True data (Inr ta) s = (Inr (), Socks_socket [(data, ta)]))"
proof (cases "get_socks a")
  case None
  then obtain addr h1 where "test_target os t h = (Inr addr, h1)" "ta = Ip_target addr"
      "udp_new os (Resolved (get_any_listen_addr (is_v4 addr))) h1 = (Inr s, h')"
    using assms direct_iff_no_socks [of a]
    by (auto simp: new_udp_for_def udp_target_def new_udp_def andthen_Inr)
  with udp_new_Inr [OF this(3)] show ?thesis by (auto simp: udp_send_def)
next
  case (Some conf)
  then have "s = Socks_socket []"
    using assms by (auto simp: new_udp_for_def new_udp_def andthen_Inr udp_new_proxy_def Let_def split: if_splits)
  with Some show ?thesis by (simp add: udp_send_def)
qed

text \<open>An operating system that grants everything, and the proxy library likewise.\<close>

definition demo_os :: os where
  "demo_os = \<lparr>grants = (\<lambda>h. True), name_of = (\<lambda>h. SockV6 (IpV6 [0xFD00, 0, 0, 0, 0, 0, 0, 1]) 21116 0 0),
     lookup_host = (\<lambda>s. Inr []), is_unix = True\<rparr>"

definition demo_name :: sock_addr where
  "demo_name = SockV6 (IpV6 [0xFD00, 0, 0, 0, 0, 0, 0, 1]) 21116 0 0"

lemma udp_socket_fits_target_witness:
  "\<exists>s h'. new_udp_for (\<lambda>p a t. True) demo_proxy_env demo_os demo_app ''id:1'' 18000 [] =
      (Inr (s, Ip_target demo_name), h') \<and>
    udp_send True [1] (Inr (Ip_target demo_name)) s = (Inr (), Direct_socket [([1], demo_name)])"
proof -
  have none: "get_socks demo_app = None"
    by (simp add: get_socks_def socks_of_settings_def demo_app_def config2_default_def)
  then have "get_network_type demo_app = Direct" by (simp add: direct_iff_no_socks)
  with none obtain h' where run: "new_udp_for (\<lambda>p a t. True) demo_proxy_env demo_os demo_app ''id:1'' 18000 [] =
      (Inr (Direct_socket [], Ip_target demo_name), h')"
    by (simp add: new_udp_for_def udp_target_def new_udp_def test_target_def sys_def demo_os_def udp_new_def
        udp_new_reuse_def udp_new_socket_def addrs_of_def demo_name_def)
  from udp_socket_fits_target [OF this, of "[1]"] run show ?thesis by auto
qed

end
