(* ===== verification/Toml.thy ===== *)
theory Toml
  imports ConfigState
begin

text \<open>
  Configuration files as values: what serde makes of the structs of
  \<^verbatim>\<open>libs/hbb_common/src/config.rs\<close> and back. A file is a table of values. Most fields are read
  with \<^verbatim>\<open>deserialize_default!\<close>, which puts the default where the value has another type. The
  locale \<open>toml_codec\<close> is what writing and reading a type promise each other. serde also reads a
  struct from an array, field by field; files that do so are outside the model.
\<close>

datatype toml =
  Str string
| Num int
| Flag bool
| Arr "toml list"
| Tab "(string, toml) fmap"

type_synonym table = "(string, toml) fmap"

subsection \<open>Reading values\<close>

definition as_string :: "toml \<Rightarrow> string option" where
  "as_string v = (case v of Str s \<Rightarrow> Some s | _ \<Rightarrow> None)"

definition as_bool :: "toml \<Rightarrow> bool option" where
  "as_bool v = (case v of Flag b \<Rightarrow> Some b | _ \<Rightarrow> None)"

definition as_i32 :: "toml \<Rightarrow> int option" where
  "as_i32 v = (case v of Num n \<Rightarrow> (if - (2 ^ 31) \<le> n \<and> n < 2 ^ 31 then Some n else None) | _ \<Rightarrow> None)"

definition as_u8 :: "toml \<Rightarrow> u8 option" where
  "as_u8 v = (case v of Num n \<Rightarrow> (if 0 \<le> n \<and> n < 256 then Some (of_int n) else None) | _ \<Rightarrow> None)"

definition as_list :: "(toml \<Rightarrow> 'a option) \<Rightarrow> toml \<Rightarrow> 'a list option" where
  "as_list f v = (case v of Arr vs \<Rightarrow> those (map f vs) | _ \<Rightarrow> None)"

definition as_map :: "(toml \<Rightarrow> 'a option) \<Rightarrow> toml \<Rightarrow> (string, 'a) fmap option" where
  "as_map f v = (case v of
     Tab m \<Rightarrow> (if fmpred (\<lambda>k x. f x \<noteq> None) m then Some (fmmap (\<lambda>x. the (f x)) m) else None)
   | _ \<Rightarrow> None)"

definition as_size :: "toml \<Rightarrow> (int \<times> int \<times> int \<times> int) option" where
  "as_size v = (case as_list as_i32 v of Some [x, y, w, h] \<Rightarrow> Some (x, y, w, h) | _ \<Rightarrow> None)"

definition as_forward :: "toml \<Rightarrow> (int \<times> string \<times> int) option" where
  "as_forward v = (case v of
     Arr [p, h, q] \<Rightarrow>
       (case (as_i32 p, as_string h, as_i32 q) of
          (Some p', Some h', Some q') \<Rightarrow> Some (p', h', q') | _ \<Rightarrow> None)
   | _ \<Rightarrow> None)"

definition as_keypair :: "toml \<Rightarrow> (bytes \<times> bytes) option" where
  "as_keypair v = (case as_list (as_list as_u8) v of Some [s, p] \<Rightarrow> Some (s, p) | _ \<Rightarrow> None)"

subsection \<open>Writing values\<close>

definition of_u8 :: "u8 \<Rightarrow> toml" where "of_u8 b = Num (uint b)"
definition of_list :: "('a \<Rightarrow> toml) \<Rightarrow> 'a list \<Rightarrow> toml" where "of_list f xs = Arr (map f xs)"
definition of_map :: "('a \<Rightarrow> toml) \<Rightarrow> (string, 'a) fmap \<Rightarrow> toml" where "of_map f m = Tab (fmmap f m)"

definition of_size :: "int \<times> int \<times> int \<times> int \<Rightarrow> toml" where
  "of_size s = (case s of (x, y, w, h) \<Rightarrow> Arr [Num x, Num y, Num w, Num h])"

definition of_forward :: "int \<times> string \<times> int \<Rightarrow> toml" where
  "of_forward f = (case f of (p, h, q) \<Rightarrow> Arr [Num p, Str h, Num q])"

definition of_keypair :: "bytes \<times> bytes \<Rightarrow> toml" where
  "of_keypair kp = (case kp of (s, p) \<Rightarrow> Arr [of_list of_u8 s, of_list of_u8 p])"

definition in_i32 :: "int \<Rightarrow> bool" where "in_i32 n \<longleftrightarrow> - (2 ^ 31) \<le> n \<and> n < 2 ^ 31"

fun in_i32s :: "int \<times> int \<times> int \<times> int \<Rightarrow> bool" where
  "in_i32s (x, y, w, h) \<longleftrightarrow> in_i32 x \<and> in_i32 y \<and> in_i32 w \<and> in_i32 h"

subsection \<open>Fields\<close>

text \<open>\<^verbatim>\<open>#[serde(default, deserialize_with = "deserialize_...")]\<close>.\<close>

definition field :: "'a \<Rightarrow> (toml \<Rightarrow> 'a option) \<Rightarrow> string \<Rightarrow> table \<Rightarrow> 'a" where
  "field d f k t = (case fmlookup t k of None \<Rightarrow> d | Some v \<Rightarrow> (case f v of None \<Rightarrow> d | Some x \<Rightarrow> x))"

text \<open>A field that is written unless \<open>skip\<close> holds.\<close>

definition put :: "bool \<Rightarrow> string \<Rightarrow> toml \<Rightarrow> table \<Rightarrow> table" where
  "put skip k v t = (if skip then t else fmupd k v t)"

lemma lookup_put: "fmlookup (put skip k v t) k' = (if \<not> skip \<and> k = k' then Some v else fmlookup t k')"
  by (simp add: put_def)

lemma field_put: "field d f k (put skip k' v t) =
    (if k' = k \<and> \<not> skip then (case f v of None \<Rightarrow> d | Some x \<Rightarrow> x) else field d f k t)"
  by (simp add: field_def lookup_put)

lemma field_empty: "field d f k fmempty = d"
  by (simp add: field_def)

subsection \<open>What is written is read\<close>

locale toml_codec =
  fixes to :: "'a \<Rightarrow> toml" and of_toml :: "toml \<Rightarrow> 'a option" and good :: "'a \<Rightarrow> bool"
  assumes of_to: "good x \<Longrightarrow> of_toml (to x) = Some x"
begin

lemma list_of_to: "list_all good xs \<Longrightarrow> as_list of_toml (of_list to xs) = Some xs"
  by (induction xs) (auto simp: as_list_def of_list_def of_to)

lemma map_of_to:
  assumes "fmpred (\<lambda>k. good) m"
  shows "as_map of_toml (of_map to m) = Some m"
proof -
  have ok: "of_toml (to x) = Some x" if "fmlookup m k = Some x" for k x
    using assms that by (auto intro: of_to dest: fmpredD)
  have "fmpred (\<lambda>k x. of_toml x \<noteq> None) (fmmap to m)"
    by (rule fmpredI) (auto simp: ok)
  moreover have "fmmap (\<lambda>x. the (of_toml x)) (fmmap to m) = m"
    by (rule fmap_ext) (auto simp: ok option.map_comp intro!: option.map_ident_strong)
  ultimately show ?thesis by (simp add: as_map_def of_map_def)
qed

end

interpretation str: toml_codec Str as_string "\<lambda>_. True"
  by unfold_locales (simp add: as_string_def)

interpretation boolean: toml_codec Flag as_bool "\<lambda>_. True"
  by unfold_locales (simp add: as_bool_def)

interpretation i32: toml_codec Num as_i32 in_i32
  by unfold_locales (simp add: as_i32_def in_i32_def)

interpretation u8: toml_codec of_u8 as_u8 "\<lambda>_. True"
proof
  fix b :: u8
  have "0 \<le> uint b" "uint b < 256" using uint_lt2p [of b] by simp_all
  then show "as_u8 (of_u8 b) = Some b" by (simp add: as_u8_def of_u8_def)
qed

interpretation size: toml_codec of_size as_size in_i32s
  by unfold_locales (auto simp: as_size_def of_size_def as_list_def as_i32_def in_i32_def)

interpretation forward: toml_codec of_forward as_forward "\<lambda>(p, h, q). in_i32 p \<and> in_i32 q"
  by unfold_locales (auto simp: as_forward_def of_forward_def as_i32_def as_string_def in_i32_def)

interpretation keypair: toml_codec of_keypair as_keypair "\<lambda>_. True"
proof
  fix kp :: "bytes \<times> bytes"
  obtain s p where kp: "kp = (s, p)" by (cases kp)
  have "as_list as_u8 (of_list of_u8 x) = Some x" for x
    by (rule u8.list_of_to) (simp add: list_all_iff)
  then show "as_keypair (of_keypair kp) = Some kp" by (simp add: kp as_keypair_def of_keypair_def as_list_def)
qed

lemma strmap_of_to: "as_map as_string (of_map Str m) = Some m"
  by (rule str.map_of_to) (auto intro: fmpredI)

lemmas written_values =
  str.of_to boolean.of_to i32.of_to u8.of_to size.of_to keypair.of_to
  str.list_of_to u8.list_of_to forward.list_of_to strmap_of_to

end
