(* ===== verification/PeerFields.thy ===== *)
theory PeerFields
  imports Toml Settings
begin

text \<open>
  \<^verbatim>\<open>PeerConfig\<close> of \<^verbatim>\<open>libs/hbb_common/src/config.rs\<close>: the settings kept for a peer, their
  defaults, and how they are read from and written to a file. \<open>rd\<close> is
  \<^verbatim>\<open>UserDefaultConfig::read\<close> (\<open>default_read\<close>), taken as one table for the whole operation; \<open>q\<close>
  reads its number: \<^verbatim>\<open>parse::<f64>().unwrap_or(50.0)\<close> converted to \<^verbatim>\<open>i32\<close>.
\<close>

record peer_info =
  pi_username :: string
  pi_hostname :: string
  pi_platform :: string

record transfer_serde =
  write_job_list :: "string list"
  read_job_list :: "string list"

record peer_config =
  pc_password :: bytes
  pc_size :: "int \<times> int \<times> int \<times> int"
  pc_size_ft :: "int \<times> int \<times> int \<times> int"
  pc_size_pf :: "int \<times> int \<times> int \<times> int"
  view_style :: string
  scroll_style :: string
  image_quality :: string
  custom_image_quality :: "int list"
  show_remote_cursor :: bool
  lock_after_session_end :: bool
  privacy_mode :: bool
  allow_swap_key :: bool
  port_forwards :: "(int \<times> string \<times> int) list"
  direct_failures :: int
  disable_audio :: bool
  disable_clipboard :: bool
  enable_file_copy_paste :: bool
  show_quality_monitor :: bool
  follow_remote_cursor :: bool
  follow_remote_window :: bool
  keyboard_mode :: string
  view_only :: bool
  sync_init_clipboard :: bool
  reverse_mouse_wheel :: string
  individual_windows :: string
  use_all_my_displays :: string
  custom_resolutions :: "(string, int \<times> int) fmap"
  pc_options :: strmap
  pc_ui_flutter :: strmap
  pc_info :: peer_info
  pc_transfer :: transfer_serde

subsection \<open>Defaults\<close>

text \<open>\<^verbatim>\<open>serde_field_bool!\<close>: the default of a switch.\<close>

definition default_flag :: "(string \<Rightarrow> string) \<Rightarrow> string \<Rightarrow> bool" where
  "default_flag rd k = (rd k = ''Y'')"

definition default_custom_image_quality :: "(string \<Rightarrow> string) \<Rightarrow> (string \<Rightarrow> int) \<Rightarrow> int list" where
  "default_custom_image_quality rd q = [q (rd ''custom_image_quality'')]"

definition default_option_keys :: "string list" where
  "default_option_keys = [''codec-preference'', ''custom-fps'', ''zoom-cursor'', ''touch-mode'', ''i444'',
     ''swap-left-right-mouse'', ''collapse_toolbar'']"

definition default_options :: "(string \<Rightarrow> string) \<Rightarrow> strmap" where
  "default_options rd = fold (\<lambda>k. fmupd k (rd k)) default_option_keys fmempty"

definition peer_info_default :: peer_info where
  "peer_info_default = \<lparr>pi_username = '''', pi_hostname = '''', pi_platform = ''''\<rparr>"

definition transfer_default :: transfer_serde where
  "transfer_default = \<lparr>write_job_list = [], read_job_list = []\<rparr>"

definition peer_default :: "(string \<Rightarrow> string) \<Rightarrow> (string \<Rightarrow> int) \<Rightarrow> peer_config" where
  "peer_default rd q =
     \<lparr>pc_password = [], pc_size = (0, 0, 0, 0), pc_size_ft = (0, 0, 0, 0), pc_size_pf = (0, 0, 0, 0),
      view_style = rd ''view_style'', scroll_style = rd ''scroll_style'', image_quality = rd ''image_quality'',
      custom_image_quality = default_custom_image_quality rd q,
      show_remote_cursor = default_flag rd ''show_remote_cursor'',
      lock_after_session_end = default_flag rd ''lock_after_session_end'',
      privacy_mode = default_flag rd ''privacy_mode'',
      allow_swap_key = default_flag rd ''allow_swap_key'',
      port_forwards = [], direct_failures = 0,
      disable_audio = default_flag rd ''disable_audio'',
      disable_clipboard = default_flag rd ''disable_clipboard'',
      enable_file_copy_paste = default_flag rd ''enable-file-copy-paste'',
      show_quality_monitor = default_flag rd ''show_quality_monitor'',
      follow_remote_cursor = default_flag rd ''follow_remote_cursor'',
      follow_remote_window = default_flag rd ''follow_remote_window'',
      keyboard_mode = '''',
      view_only = default_flag rd ''view_only'',
      sync_init_clipboard = default_flag rd ''sync-init-clipboard'',
      reverse_mouse_wheel = rd ''reverse_mouse_wheel'',
      individual_windows = rd ''displays_as_individual_windows'',
      use_all_my_displays = rd ''use_all_my_displays_for_the_remote_session'',
      custom_resolutions = fmempty, pc_options = default_options rd, pc_ui_flutter = fmempty,
      pc_info = peer_info_default, pc_transfer = transfer_default\<rparr>"

subsection \<open>Reading\<close>

text \<open>\<^verbatim>\<open>serde_field_string!\<close>: an empty or ill-typed string is the default.\<close>

definition style_field :: "(string \<Rightarrow> string) \<Rightarrow> string \<Rightarrow> table \<Rightarrow> string" where
  "style_field rd k t = (let s = field (rd k) as_string k t in if s = '''' then rd k else s)"

text \<open>A switch of another type is off; one that is missing has its default.\<close>

definition flag_field :: "(string \<Rightarrow> string) \<Rightarrow> string \<Rightarrow> table \<Rightarrow> bool" where
  "flag_field rd k t =
     (case fmlookup t k of
        None \<Rightarrow> default_flag rd k
      | Some v \<Rightarrow> (case as_bool v of Some b \<Rightarrow> b | None \<Rightarrow> False))"

definition valid_quality :: "int list \<Rightarrow> bool" where
  "valid_quality v = (case v of [n] \<Rightarrow> 10 \<le> n \<and> n \<le> 0xFFF | _ \<Rightarrow> False)"

text \<open>The only field whose type error fails the whole file, by the question mark of its reader.\<close>

definition quality_field :: "(string \<Rightarrow> string) \<Rightarrow> (string \<Rightarrow> int) \<Rightarrow> table \<Rightarrow> int list option" where
  "quality_field rd q t =
     (case fmlookup t ''custom_image_quality'' of
        None \<Rightarrow> Some (default_custom_image_quality rd q)
      | Some v \<Rightarrow> map_option (\<lambda>n. if valid_quality n then n else default_custom_image_quality rd q)
                    (as_list as_i32 v))"

definition as_resolution :: "toml \<Rightarrow> (int \<times> int) option" where
  "as_resolution v = (case v of
     Tab t \<Rightarrow>
       (case (fmlookup t ''w'', fmlookup t ''h'') of
          (Some w, Some h) \<Rightarrow> (case (as_i32 w, as_i32 h) of (Some w', Some h') \<Rightarrow> Some (w', h') | _ \<Rightarrow> None)
        | _ \<Rightarrow> None)
   | _ \<Rightarrow> None)"

definition info_of_table :: "table \<Rightarrow> peer_info" where
  "info_of_table t = \<lparr>pi_username = field '''' as_string ''username'' t,
     pi_hostname = field '''' as_string ''hostname'' t, pi_platform = field '''' as_string ''platform'' t\<rparr>"

definition transfer_of_table :: "table \<Rightarrow> transfer_serde" where
  "transfer_of_table t = \<lparr>write_job_list = field [] (as_list as_string) ''write_jobs'' t,
     read_job_list = field [] (as_list as_string) ''read_jobs'' t\<rparr>"

text \<open>\<^verbatim>\<open>info\<close> and \<^verbatim>\<open>transfer\<close> have no lenient reader either.\<close>

definition struct_field :: "'a \<Rightarrow> (table \<Rightarrow> 'a) \<Rightarrow> string \<Rightarrow> table \<Rightarrow> 'a option" where
  "struct_field d f k t = (case fmlookup t k of None \<Rightarrow> Some d | Some (Tab s) \<Rightarrow> Some (f s) | _ \<Rightarrow> None)"

definition peer_of_table :: "(string \<Rightarrow> string) \<Rightarrow> (string \<Rightarrow> int) \<Rightarrow> table \<Rightarrow> peer_config option" where
  "peer_of_table rd q t =
     Option.bind (quality_field rd q t) (\<lambda>quality.
     Option.bind (struct_field peer_info_default info_of_table ''info'' t) (\<lambda>info.
     Option.bind (struct_field transfer_default transfer_of_table ''transfer'' t) (\<lambda>transfer. Some
     \<lparr>pc_password = field [] (as_list as_u8) ''password'' t,
      pc_size = field (0, 0, 0, 0) as_size ''size'' t,
      pc_size_ft = field (0, 0, 0, 0) as_size ''size_ft'' t,
      pc_size_pf = field (0, 0, 0, 0) as_size ''size_pf'' t,
      view_style = style_field rd ''view_style'' t,
      scroll_style = style_field rd ''scroll_style'' t,
      image_quality = style_field rd ''image_quality'' t,
      custom_image_quality = quality,
      show_remote_cursor = flag_field rd ''show_remote_cursor'' t,
      lock_after_session_end = flag_field rd ''lock_after_session_end'' t,
      privacy_mode = flag_field rd ''privacy_mode'' t,
      allow_swap_key = flag_field rd ''allow_swap_key'' t,
      port_forwards = field [] (as_list as_forward) ''port_forwards'' t,
      direct_failures = field 0 as_i32 ''direct_failures'' t,
      disable_audio = flag_field rd ''disable_audio'' t,
      disable_clipboard = flag_field rd ''disable_clipboard'' t,
      enable_file_copy_paste = flag_field rd ''enable-file-copy-paste'' t,
      show_quality_monitor = flag_field rd ''show_quality_monitor'' t,
      follow_remote_cursor = flag_field rd ''follow_remote_cursor'' t,
      follow_remote_window = flag_field rd ''follow_remote_window'' t,
      keyboard_mode = field '''' as_string ''keyboard_mode'' t,
      view_only = flag_field rd ''view_only'' t,
      sync_init_clipboard = flag_field rd ''sync-init-clipboard'' t,
      reverse_mouse_wheel = style_field rd ''reverse_mouse_wheel'' t,
      individual_windows = style_field rd ''displays_as_individual_windows'' t,
      use_all_my_displays = style_field rd ''use_all_my_displays_for_the_remote_session'' t,
      custom_resolutions = field fmempty (as_map as_resolution) ''custom_resolutions'' t,
      pc_options = field fmempty (as_map as_string) ''options'' t,
      pc_ui_flutter = field fmempty (as_map as_string) ''ui_flutter'' t,
      pc_info = info, pc_transfer = transfer\<rparr>)))"

subsection \<open>Writing\<close>

definition of_resolution :: "int \<times> int \<Rightarrow> toml" where
  "of_resolution r = (case r of (w, h) \<Rightarrow> Tab (fmupd ''w'' (Num w) (fmupd ''h'' (Num h) fmempty)))"

definition table_of_info :: "peer_info \<Rightarrow> table" where
  "table_of_info i = put False ''username'' (Str (pi_username i)) (put False ''hostname'' (Str (pi_hostname i))
     (put False ''platform'' (Str (pi_platform i)) fmempty))"

definition table_of_transfer :: "transfer_serde \<Rightarrow> table" where
  "table_of_transfer r = put False ''write_jobs'' (of_list Str (write_job_list r))
     (put False ''read_jobs'' (of_list Str (read_job_list r)) fmempty)"

text \<open>An optional text is left out when it is empty (\<^verbatim>\<open>skip_serializing_if\<close>).\<close>

definition put_text :: "string \<Rightarrow> string \<Rightarrow> table \<Rightarrow> table" where
  "put_text k s = put (s = '''') k (Str s)"

definition put_flag :: "string \<Rightarrow> bool \<Rightarrow> table \<Rightarrow> table" where
  "put_flag k b = put False k (Flag b)"

definition table_of_peer :: "peer_config \<Rightarrow> table" where
  "table_of_peer c =
     (put False ''password'' (of_list of_u8 (pc_password c))
    \<circ> put False ''size'' (of_size (pc_size c))
    \<circ> put False ''size_ft'' (of_size (pc_size_ft c))
    \<circ> put False ''size_pf'' (of_size (pc_size_pf c))
    \<circ> put_text ''view_style'' (view_style c)
    \<circ> put_text ''scroll_style'' (scroll_style c)
    \<circ> put_text ''image_quality'' (image_quality c)
    \<circ> put (custom_image_quality c = []) ''custom_image_quality'' (of_list Num (custom_image_quality c))
    \<circ> put_flag ''show_remote_cursor'' (show_remote_cursor c)
    \<circ> put_flag ''lock_after_session_end'' (lock_after_session_end c)
    \<circ> put_flag ''privacy_mode'' (privacy_mode c)
    \<circ> put_flag ''allow_swap_key'' (allow_swap_key c)
    \<circ> put False ''port_forwards'' (of_list of_forward (port_forwards c))
    \<circ> put False ''direct_failures'' (Num (direct_failures c))
    \<circ> put_flag ''disable_audio'' (disable_audio c)
    \<circ> put_flag ''disable_clipboard'' (disable_clipboard c)
    \<circ> put_flag ''enable-file-copy-paste'' (enable_file_copy_paste c)
    \<circ> put_flag ''show_quality_monitor'' (show_quality_monitor c)
    \<circ> put_flag ''follow_remote_cursor'' (follow_remote_cursor c)
    \<circ> put_flag ''follow_remote_window'' (follow_remote_window c)
    \<circ> put_text ''keyboard_mode'' (keyboard_mode c)
    \<circ> put_flag ''view_only'' (view_only c)
    \<circ> put_flag ''sync-init-clipboard'' (sync_init_clipboard c)
    \<circ> put_text ''reverse_mouse_wheel'' (reverse_mouse_wheel c)
    \<circ> put_text ''displays_as_individual_windows'' (individual_windows c)
    \<circ> put_text ''use_all_my_displays_for_the_remote_session'' (use_all_my_displays c)
    \<circ> put (custom_resolutions c = fmempty) ''custom_resolutions'' (of_map of_resolution (custom_resolutions c))
    \<circ> put (pc_options c = fmempty) ''options'' (of_map Str (pc_options c))
    \<circ> put False ''ui_flutter'' (of_map Str (pc_ui_flutter c))
    \<circ> put False ''info'' (Tab (table_of_info (pc_info c)))
    \<circ> put False ''transfer'' (Tab (table_of_transfer (pc_transfer c)))) fmempty"

subsection \<open>What is written is read\<close>

definition or_default :: "(string \<Rightarrow> string) \<Rightarrow> string \<Rightarrow> string \<Rightarrow> string" where
  "or_default rd k s = (if s = '''' then rd k else s)"

definition normal_peer :: "(string \<Rightarrow> string) \<Rightarrow> (string \<Rightarrow> int) \<Rightarrow> peer_config \<Rightarrow> peer_config" where
  "normal_peer rd q c = c\<lparr>
     view_style := or_default rd ''view_style'' (view_style c),
     scroll_style := or_default rd ''scroll_style'' (scroll_style c),
     image_quality := or_default rd ''image_quality'' (image_quality c),
     custom_image_quality := (if valid_quality (custom_image_quality c) then custom_image_quality c
        else default_custom_image_quality rd q),
     reverse_mouse_wheel := or_default rd ''reverse_mouse_wheel'' (reverse_mouse_wheel c),
     individual_windows := or_default rd ''displays_as_individual_windows'' (individual_windows c),
     use_all_my_displays := or_default rd ''use_all_my_displays_for_the_remote_session'' (use_all_my_displays c)\<rparr>"

definition well_typed :: "peer_config \<Rightarrow> bool" where
  "well_typed c \<longleftrightarrow> in_i32s (pc_size c) \<and> in_i32s (pc_size_ft c) \<and> in_i32s (pc_size_pf c) \<and>
     list_all in_i32 (custom_image_quality c) \<and> list_all (\<lambda>(p, h, q). in_i32 p \<and> in_i32 q) (port_forwards c) \<and>
     in_i32 (direct_failures c) \<and> fmpred (\<lambda>k (w, h). in_i32 w \<and> in_i32 h) (custom_resolutions c)"

interpretation resolution: toml_codec of_resolution as_resolution "\<lambda>(w, h). in_i32 w \<and> in_i32 h"
  by unfold_locales (auto simp: as_resolution_def of_resolution_def as_i32_def in_i32_def)

lemma lookup_text: "fmlookup (put_text k s t) k' = (if s \<noteq> '''' \<and> k = k' then Some (Str s) else fmlookup t k')"
  by (simp add: put_text_def lookup_put)

lemma lookup_flag: "fmlookup (put_flag k b t) k' = (if k = k' then Some (Flag b) else fmlookup t k')"
  by (simp add: put_flag_def lookup_put)

lemma written_infos:
  "info_of_table (table_of_info i) = i" "transfer_of_table (table_of_transfer r) = r"
  by (simp_all add: info_of_table_def table_of_info_def transfer_of_table_def table_of_transfer_def
      field_put written_values list_all_iff)

lemma read_text: "fmlookup t k = (if s \<noteq> '''' then Some (Str s) else None) \<Longrightarrow> style_field rd k t = or_default rd k s"
  by (auto simp: style_field_def or_default_def field_def written_values Let_def)

lemma read_flag: "fmlookup t k = Some (Flag b) \<Longrightarrow> flag_field rd k t = b"
  by (simp add: flag_field_def written_values)

lemma read_field: "fmlookup t k = Some v \<Longrightarrow> f v = Some x \<Longrightarrow> field d f k t = x"
  by (simp add: field_def)

lemmas peer_lookups = table_of_peer_def lookup_put lookup_text lookup_flag

lemma read_quality:
  assumes "list_all in_i32 (custom_image_quality c)"
  shows "quality_field rd q (table_of_peer c) = Some (if valid_quality (custom_image_quality c)
     then custom_image_quality c else default_custom_image_quality rd q)"
proof -
  have "fmlookup (table_of_peer c) ''custom_image_quality'' =
      (if custom_image_quality c = [] then None else Some (of_list Num (custom_image_quality c)))"
    by (simp add: peer_lookups)
  then show ?thesis using i32.list_of_to [OF assms]
    by (simp add: quality_field_def valid_quality_def)
qed

lemma read_structs:
  "struct_field peer_info_default info_of_table ''info'' (table_of_peer c) = Some (pc_info c)"
  "struct_field transfer_default transfer_of_table ''transfer'' (table_of_peer c) = Some (pc_transfer c)"
  by (simp_all add: struct_field_def peer_lookups written_infos)

lemma read_styles:
  "style_field rd ''view_style'' (table_of_peer c) = or_default rd ''view_style'' (view_style c)"
  "style_field rd ''scroll_style'' (table_of_peer c) = or_default rd ''scroll_style'' (scroll_style c)"
  "style_field rd ''image_quality'' (table_of_peer c) = or_default rd ''image_quality'' (image_quality c)"
  "style_field rd ''reverse_mouse_wheel'' (table_of_peer c) = or_default rd ''reverse_mouse_wheel'' (reverse_mouse_wheel c)"
  "style_field rd ''displays_as_individual_windows'' (table_of_peer c) =
     or_default rd ''displays_as_individual_windows'' (individual_windows c)"
  "style_field rd ''use_all_my_displays_for_the_remote_session'' (table_of_peer c) =
     or_default rd ''use_all_my_displays_for_the_remote_session'' (use_all_my_displays c)"
  by (rule read_text, simp add: peer_lookups)+

lemma read_flags:
  "flag_field rd ''show_remote_cursor'' (table_of_peer c) = show_remote_cursor c"
  "flag_field rd ''lock_after_session_end'' (table_of_peer c) = lock_after_session_end c"
  "flag_field rd ''privacy_mode'' (table_of_peer c) = privacy_mode c"
  "flag_field rd ''allow_swap_key'' (table_of_peer c) = allow_swap_key c"
  "flag_field rd ''disable_audio'' (table_of_peer c) = disable_audio c"
  "flag_field rd ''disable_clipboard'' (table_of_peer c) = disable_clipboard c"
  "flag_field rd ''enable-file-copy-paste'' (table_of_peer c) = enable_file_copy_paste c"
  "flag_field rd ''show_quality_monitor'' (table_of_peer c) = show_quality_monitor c"
  "flag_field rd ''follow_remote_cursor'' (table_of_peer c) = follow_remote_cursor c"
  "flag_field rd ''follow_remote_window'' (table_of_peer c) = follow_remote_window c"
  "flag_field rd ''view_only'' (table_of_peer c) = view_only c"
  "flag_field rd ''sync-init-clipboard'' (table_of_peer c) = sync_init_clipboard c"
  by (rule read_flag, simp add: peer_lookups)+

lemma read_others:
  assumes "well_typed c"
  shows "field [] (as_list as_u8) ''password'' (table_of_peer c) = pc_password c"
    "field (0, 0, 0, 0) as_size ''size'' (table_of_peer c) = pc_size c"
    "field (0, 0, 0, 0) as_size ''size_ft'' (table_of_peer c) = pc_size_ft c"
    "field (0, 0, 0, 0) as_size ''size_pf'' (table_of_peer c) = pc_size_pf c"
    "field [] (as_list as_forward) ''port_forwards'' (table_of_peer c) = port_forwards c"
    "field 0 as_i32 ''direct_failures'' (table_of_peer c) = direct_failures c"
    "field fmempty (as_map as_string) ''ui_flutter'' (table_of_peer c) = pc_ui_flutter c"
  using assms by (simp_all add: well_typed_def field_def peer_lookups written_values list_all_iff)

lemma read_skipped:
  assumes "well_typed c"
  shows "field '''' as_string ''keyboard_mode'' (table_of_peer c) = keyboard_mode c"
    "field fmempty (as_map as_resolution) ''custom_resolutions'' (table_of_peer c) = custom_resolutions c"
    "field fmempty (as_map as_string) ''options'' (table_of_peer c) = pc_options c"
  using assms resolution.map_of_to [of "custom_resolutions c"]
  by (simp_all add: well_typed_def field_def peer_lookups written_values)

lemma peer_table_roundtrip:
  assumes "well_typed c"
  shows "peer_of_table rd q (table_of_peer c) = Some (normal_peer rd q c)"
proof -
  have "list_all in_i32 (custom_image_quality c)" using assms by (simp add: well_typed_def)
  then show ?thesis
    by (simp add: peer_of_table_def read_quality read_structs read_styles read_flags
        read_others [OF assms] read_skipped [OF assms] normal_peer_def)
qed

end
