(* ===== verification/PeerConfigs.thy ===== *)
theory PeerConfigs
  imports PeerFields ConfigStore FileStore "HOL-Library.AList"
begin

text \<open>
  The files of \<^verbatim>\<open>PeerConfig\<close>, \<^verbatim>\<open>libs/hbb_common/src/config.rs\<close>: one per peer below
  \<^verbatim>\<open>peers\<close> in the configuration directory, named after the peer. Paths are relative to that
  directory. The files are a list in the order in which the directory is read, each with its
  modification time; a file that cannot be read or is not TOML is \<open>Broken\<close>.
\<close>

datatype peer_file = Toml table | Broken

record peer_disk =
  peer_files :: "(string \<times> peer_file \<times> int) list"
  peers_readable :: bool
  peer_readonly :: bool
  stored_ids :: "string list"  \<comment> \<open>\<^verbatim>\<open>NEW_STORED_PEER_CONFIG\<close>\<close>
  now_time :: int

definition PEERS :: string where "PEERS = ''peers''"

subsection \<open>Paths\<close>

text \<open>
  \<^verbatim>\<open>Config::with_extension\<close>: \<^verbatim>\<open>.toml\<close> behind the last component, whether it has an extension
  already or not; an empty path or one that ends in \<^verbatim>\<open>..\<close> has no file name and stays.
\<close>

definition with_toml :: "string \<Rightarrow> string" where
  "with_toml p =
     (let t = rev (trim_rev (rev p))
      in if t = '''' \<or> last (split_char CHR ''/'' t) = ''..'' then p else t @ ''.toml'')"

definition forbidden :: "char \<Rightarrow> bool" where
  "forbidden c \<longleftrightarrow> c \<in> set ''<>:/|?*'' \<or> of_char c = (92 :: nat)"

definition encode_id :: "crypto \<Rightarrow> string \<Rightarrow> string" where
  "encode_id cr ident =
     (if list_ex forbidden ident then ''base64_'' @ b64_encode cr (as_bytes ident) else ident)"

definition peer_path :: "crypto \<Rightarrow> string \<Rightarrow> string" where
  "peer_path cr ident = with_toml (path_join PEERS (encode_id cr ident))"

subsection \<open>Loading and storing\<close>

definition secret_options :: "string list" where
  "secret_options = [''rdp_password'', ''os-username'', ''os-password'']"

definition encrypt_option :: "crypto \<Rightarrow> string \<Rightarrow> strmap \<Rightarrow> strmap" where
  "encrypt_option cr k m = (case fmlookup m k of None \<Rightarrow> m
     | Some v \<Rightarrow> fmupd k (encrypt_str_or_original cr v PASSWORD_ENC_VERSION ENCRYPT_MAX_LEN) m)"

definition encrypt_options :: "crypto \<Rightarrow> strmap \<Rightarrow> strmap" where
  "encrypt_options cr m = fold (encrypt_option cr) secret_options m"

definition decrypt_option :: "crypto \<Rightarrow> string \<Rightarrow> strmap \<times> bool \<Rightarrow> strmap \<times> bool" where
  "decrypt_option cr k ms = (case ms of (m, store) \<Rightarrow>
     (case fmlookup m k of None \<Rightarrow> (m, store)
      | Some v \<Rightarrow> let (d, ok, store2) = decrypt_str_or_original cr v PASSWORD_ENC_VERSION
                 in (fmupd k d m, store \<or> store2)))"

definition decrypt_options :: "crypto \<Rightarrow> strmap \<Rightarrow> strmap \<times> bool" where
  "decrypt_options cr m = fold (decrypt_option cr) secret_options (m, False)"

definition peer_stored :: "crypto \<Rightarrow> peer_config \<Rightarrow> peer_config" where
  "peer_stored cr c = c\<lparr>
     pc_password := encrypt_vec_or_original cr (pc_password c) PASSWORD_ENC_VERSION ENCRYPT_MAX_LEN,
     pc_options := encrypt_options cr (pc_options c)\<rparr>"

text \<open>Writing fails where it is forbidden and on the directory that \<^verbatim>\<open>..\<close> names.\<close>

definition put_file :: "string \<Rightarrow> peer_file \<Rightarrow> peer_disk \<Rightarrow> peer_disk" where
  "put_file p f d =
     (if peer_readonly d \<or> p = ''peers/..'' then d
      else d\<lparr>peer_files := AList.update p (f, now_time d) (peer_files d)\<rparr>)"

definition peer_store :: "crypto \<Rightarrow> string \<Rightarrow> peer_config \<Rightarrow> peer_disk \<Rightarrow> peer_disk" where
  "peer_store cr ident c d =
     (put_file (peer_path cr ident) (Toml (table_of_peer (peer_stored cr c))) d)
       \<lparr>stored_ids := List.insert ident (stored_ids d)\<rparr>"

definition read_file :: "(string \<Rightarrow> string) \<Rightarrow> (string \<Rightarrow> int) \<Rightarrow> string \<Rightarrow> peer_disk \<Rightarrow> peer_config option" where
  "read_file rd q p d =
     (case map_of (peer_files d) p of
        Some (Toml t, _) \<Rightarrow> peer_of_table rd q t
      | _ \<Rightarrow> None)"

definition peer_load ::
    "crypto \<Rightarrow> (string \<Rightarrow> string) \<Rightarrow> (string \<Rightarrow> int) \<Rightarrow> string \<Rightarrow> peer_disk \<Rightarrow> peer_config \<times> peer_disk" where
  "peer_load cr rd q ident d =
     (case read_file rd q (peer_path cr ident) d of
        None \<Rightarrow> (peer_default rd q, d)
      | Some c \<Rightarrow>
          let (password, ok, store1) = decrypt_vec_or_original cr (pc_password c) PASSWORD_ENC_VERSION;
              (opts, store2) = decrypt_options cr (pc_options c);
              c' = c\<lparr>pc_password := password, pc_options := opts\<rparr>
          in (c', if store1 \<or> store2 then peer_store cr ident c' d else d))"

definition remove_file :: "string \<Rightarrow> peer_disk \<Rightarrow> peer_disk" where
  "remove_file p d =
     (if peer_readonly d then d else d\<lparr>peer_files := AList.delete p (peer_files d)\<rparr>)"

definition peer_remove :: "crypto \<Rightarrow> string \<Rightarrow> peer_disk \<Rightarrow> peer_disk" where
  "peer_remove cr ident d = remove_file (peer_path cr ident) d"

definition peer_exists :: "crypto \<Rightarrow> string \<Rightarrow> peer_disk \<Rightarrow> bool" where
  "peer_exists cr ident d \<longleftrightarrow>
     map_of (peer_files d) (peer_path cr ident) \<noteq> None \<or> peer_path cr ident = ''peers/..''"

subsection \<open>Listing\<close>

text \<open>The stem of a file directly below \<^verbatim>\<open>peers\<close> whose extension is \<^verbatim>\<open>toml\<close>.\<close>

definition toml_stem :: "string \<Rightarrow> string option" where
  "toml_stem p =
     (if starts_with p ''peers/'' \<and> CHR ''/'' \<notin> set (drop 6 p)
         \<and> starts_with (rev (drop 6 p)) (rev ''.toml'') \<and> 5 < length (drop 6 p)
      then Some (take (length (drop 6 p) - 5) (drop 6 p)) else None)"

definition decode_id :: "crypto \<Rightarrow> string \<Rightarrow> string" where
  "decode_id cr stem =
     (if starts_with stem ''base64_'' \<and> length stem \<noteq> 7
      then from_utf8_lossy (case b64_decode cr (as_bytes (drop 7 stem)) of Some v \<Rightarrow> v | None \<Rightarrow> [])
      else stem)"

definition listed_files :: "crypto \<Rightarrow> string list option \<Rightarrow> peer_disk \<Rightarrow> (string \<times> string) list" where
  "listed_files cr filters d =
     filter (\<lambda>(ident, p). case filters of None \<Rightarrow> True | Some ids \<Rightarrow> ident \<in> set ids)
       (List.map_filter (\<lambda>(p, _). map_option (\<lambda>stem. (decode_id cr stem, p)) (toml_stem p)) (peer_files d))"

text \<open>The lazily run map over the files: each is loaded, and removed if the load has no platform.\<close>

fun visit_files ::
    "crypto \<Rightarrow> (string \<Rightarrow> string) \<Rightarrow> (string \<Rightarrow> int) \<Rightarrow> (string \<times> string) list \<Rightarrow> peer_disk
      \<Rightarrow> (string \<times> int \<times> peer_config) list \<times> peer_disk" where
  "visit_files cr rd q [] d = ([], d)"
| "visit_files cr rd q ((ident, p) # fs) d =
     (let t = (case map_of (peer_files d) p of Some (_, t) \<Rightarrow> t | None \<Rightarrow> 0);
          (c, d1) = peer_load cr rd q ident d;
          d2 = (if pi_platform (pc_info c) = '''' then remove_file p d1 else d1);
          (rs, d3) = visit_files cr rd q fs d2
      in (if pi_platform (pc_info c) = '''' then rs else (ident, t, c) # rs, d3))"

text \<open>Newest first; the code leaves the order of equal times open, here it is that of the directory.\<close>

definition peers ::
    "crypto \<Rightarrow> (string \<Rightarrow> string) \<Rightarrow> (string \<Rightarrow> int) \<Rightarrow> string list option \<Rightarrow> peer_disk
      \<Rightarrow> (string \<times> int \<times> peer_config) list \<times> peer_disk" where
  "peers cr rd q filters d =
     (if peers_readable d
      then let (rs, d') = visit_files cr rd q (listed_files cr filters d) d
           in (sort_key (\<lambda>(ident, t, c). - t) rs, d')
      else ([], d))"

end
