(* ===== verification/PeerProps.thy ===== *)
theory PeerProps
  imports PeerConfigs
begin

text \<open>Properties of the peer configurations: what is stored is loaded, listed and kept apart.\<close>

subsection \<open>Secrets\<close>

lemma stored_password_reads_back:
  assumes "crypto_laws cr" and "length v \<le> ENCRYPT_MAX_LEN"
    and "\<not> fst (snd (decrypt_vec_or_original cr v PASSWORD_ENC_VERSION))"
  shows "decrypt_vec_or_original cr (encrypt_vec_or_original cr v PASSWORD_ENC_VERSION ENCRYPT_MAX_LEN)
      PASSWORD_ENC_VERSION = (v, v \<noteq> [], False)"
proof (cases "v = []")
  case True
  then show ?thesis
    by (simp add: encrypt_vec_or_original_def decrypt_vec_or_original_def encrypt_bytes_def PASSWORD_ENC_VERSION_def)
next
  case False
  from encrypt_bytes_decrypts [OF assms(1) False] obtain e where e: "encrypt_bytes cr v = Some e" by blast
  then have "encrypt_vec_or_original cr v PASSWORD_ENC_VERSION ENCRYPT_MAX_LEN = as_bytes ''00'' @ as_bytes e"
    using assms by (simp add: encrypt_vec_or_original_def PASSWORD_ENC_VERSION_def)
  with decrypt_vec_of_encrypted [OF assms(1) False e] False show ?thesis
    by (simp add: PASSWORD_ENC_VERSION_def)
qed

definition secrets_storable :: "crypto \<Rightarrow> strmap \<Rightarrow> bool" where
  "secrets_storable cr m \<longleftrightarrow> list_all (\<lambda>k. case fmlookup m k of None \<Rightarrow> True | Some v \<Rightarrow> storable cr v) secret_options"

lemma lookup_encrypted: "fmlookup (encrypt_options cr m) k =
    (if k \<in> set secret_options
     then map_option (\<lambda>v. encrypt_str_or_original cr v PASSWORD_ENC_VERSION ENCRYPT_MAX_LEN) (fmlookup m k)
     else fmlookup m k)"
proof -
  have "distinct ks \<Longrightarrow> fmlookup (fold (encrypt_option cr) ks m) k = (if k \<in> set ks
     then map_option (\<lambda>v. encrypt_str_or_original cr v PASSWORD_ENC_VERSION ENCRYPT_MAX_LEN) (fmlookup m k)
     else fmlookup m k)" for ks
    by (induction ks arbitrary: m) (auto simp: encrypt_option_def split: option.splits)
  from this [of secret_options] show ?thesis by (simp add: encrypt_options_def secret_options_def)
qed

lemma lookup_decrypted: "fmlookup (fst (decrypt_options cr m)) k =
    (if k \<in> set secret_options
     then map_option (\<lambda>v. fst (decrypt_str_or_original cr v PASSWORD_ENC_VERSION)) (fmlookup m k)
     else fmlookup m k)"
proof -
  have "distinct ks \<Longrightarrow> fmlookup (fst (fold (decrypt_option cr) ks ms)) k = (if k \<in> set ks
     then map_option (\<lambda>v. fst (decrypt_str_or_original cr v PASSWORD_ENC_VERSION)) (fmlookup (fst ms) k)
     else fmlookup (fst ms) k)" for ks ms
    by (induction ks arbitrary: ms)
       (auto simp: decrypt_option_def Let_def split: option.splits prod.splits)
  from this [of secret_options "(m, False)"] show ?thesis
    by (simp add: decrypt_options_def secret_options_def)
qed

lemma decrypted_store:
  assumes "list_all (\<lambda>k. case fmlookup m k of None \<Rightarrow> True
     | Some v \<Rightarrow> \<not> snd (snd (decrypt_str_or_original cr v PASSWORD_ENC_VERSION))) secret_options"
  shows "\<not> snd (decrypt_options cr m)"
proof -
  have "distinct ks \<Longrightarrow> \<not> store \<Longrightarrow> list_all (\<lambda>k. case fmlookup m k of None \<Rightarrow> True
      | Some v \<Rightarrow> \<not> snd (snd (decrypt_str_or_original cr v PASSWORD_ENC_VERSION))) ks \<Longrightarrow>
    \<not> snd (fold (decrypt_option cr) ks (m, store))" for ks store
  proof (induction ks arbitrary: m store)
    case (Cons k ks)
    obtain m' store' where step: "decrypt_option cr k (m, store) = (m', store')"
      by (cases "decrypt_option cr k (m, store)")
    have "\<not> store'" "\<forall>k' \<in> set ks. fmlookup m' k' = fmlookup m k'"
      using Cons.prems step
      by (auto simp: decrypt_option_def Let_def split: option.splits prod.splits)
    with Cons.IH [of store' m'] Cons.prems step show ?case by (simp add: list_all_iff)
  qed simp
  from this [of secret_options False] assms show ?thesis
    by (simp add: decrypt_options_def secret_options_def)
qed

lemma options_read_back:
  assumes "crypto_laws cr" and "secrets_storable cr m"
  shows "decrypt_options cr (encrypt_options cr m) = (m, False)"
proof -
  have s: "storable cr v" if "k \<in> set secret_options" "fmlookup m k = Some v" for k v
    using assms(2) that by (auto simp: secrets_storable_def list_all_iff split: option.splits)
  have "fst (decrypt_options cr (encrypt_options cr m)) = m"
    by (rule fmap_ext)
       (auto simp: lookup_decrypted lookup_encrypted option.map_comp stored_reads_back [OF assms(1) s]
         intro!: option.map_ident_strong)
  moreover have "\<not> snd (decrypt_options cr (encrypt_options cr m))"
    by (rule decrypted_store)
       (auto simp: list_all_iff lookup_encrypted stored_reads_back [OF assms(1) s] split: option.splits)
  ultimately show ?thesis by (metis prod.collapse)
qed

subsection \<open>Storing and loading\<close>

definition peer_storable :: "crypto \<Rightarrow> peer_config \<Rightarrow> bool" where
  "peer_storable cr c \<longleftrightarrow> well_typed c \<and> length (pc_password c) \<le> ENCRYPT_MAX_LEN \<and>
     \<not> fst (snd (decrypt_vec_or_original cr (pc_password c) PASSWORD_ENC_VERSION)) \<and>
     secrets_storable cr (pc_options c)"

lemma stored_well_typed: "well_typed (peer_stored cr c) = well_typed c"
  by (simp add: well_typed_def peer_stored_def)

text \<open>Reading the file that a store has written, wherever it lies.\<close>

lemma load_stored_file:
  assumes "crypto_laws cr" and "peer_storable cr c"
    and "map_of (peer_files d) (peer_path cr ident) = Some (Toml (table_of_peer (peer_stored cr c)), t)"
  shows "peer_load cr rd q ident d = (normal_peer rd q c, d)"
proof -
  have "read_file rd q (peer_path cr ident) d = Some (normal_peer rd q (peer_stored cr c))"
    using assms by (simp add: read_file_def peer_table_roundtrip stored_well_typed peer_storable_def)
  moreover have "pc_password (normal_peer rd q (peer_stored cr c)) =
      encrypt_vec_or_original cr (pc_password c) PASSWORD_ENC_VERSION ENCRYPT_MAX_LEN"
    "pc_options (normal_peer rd q (peer_stored cr c)) = encrypt_options cr (pc_options c)"
    by (simp_all add: normal_peer_def peer_stored_def)
  moreover have "normal_peer rd q (peer_stored cr c)\<lparr>pc_password := pc_password c, pc_options := pc_options c\<rparr> =
      normal_peer rd q c"
    by (simp add: normal_peer_def peer_stored_def)
  ultimately show ?thesis
    using assms(1,2) by (simp add: peer_load_def peer_storable_def stored_password_reads_back options_read_back)
qed

lemma map_of_update: "map_of (AList.update k v al) = (map_of al)(k \<mapsto> v)"
  by (rule update_conv')

text \<open>A stored peer configuration reads back: the password and the secret options are
  decrypted to what they were, empty styles and an impossible image quality are replaced by
  the defaults, every other field is unchanged, and the file is not written again.
\<close>

theorem peer_store_load:
  assumes "crypto_laws cr" and "peer_storable cr c"
    and "\<not> peer_readonly d" and "peer_path cr ident \<noteq> ''peers/..''"
  shows "peer_load cr rd q ident (peer_store cr ident c d) = (normal_peer rd q c, peer_store cr ident c d)"
  by (rule load_stored_file [OF assms(1,2)])
     (use assms(3,4) in \<open>simp add: peer_store_def put_file_def map_of_update\<close>)

subsection \<open>Names\<close>

text \<open>
  A plain identifier: its file name is a single component that means itself, and it does not
  pass for an encoded one.
\<close>

definition plain :: "crypto \<Rightarrow> string \<Rightarrow> bool" where
  "plain cr ident \<longleftrightarrow> encode_id cr ident \<notin> {'''', ''.'', ''..''} \<and> CHR ''/'' \<notin> set (encode_id cr ident) \<and>
     (if starts_with ident ''base64_'' then list_ex forbidden ident else True) \<and> is_utf8 ident"

lemma path_of_name:
  assumes "n \<notin> {'''', ''.'', ''..''}" and "CHR ''/'' \<notin> set n"
  shows "with_toml (path_join PEERS n) = ''peers/'' @ n @ ''.toml''"
proof -
  obtain c r where n: "rev n = c # r" using assms(1) by (cases "rev n") auto
  have c: "c \<noteq> CHR ''/''" using assms(2) n by (metis list.set_intros(1) set_rev)
  have r: "c = CHR ''.'' \<longrightarrow> r \<noteq> [] \<and> hd r \<noteq> CHR ''/''"
  proof
    assume "c = CHR ''.''"
    with n assms(1) have "r \<noteq> []" by (metis insertCI rev_rev_ident rev_singleton_conv)
    moreover have "hd r \<noteq> CHR ''/''" using assms(2) n \<open>r \<noteq> []\<close>
      by (metis list.set_intros(2) list.set_sel(1) set_rev)
    ultimately show "r \<noteq> [] \<and> hd r \<noteq> CHR ''/''" by blast
  qed
  have join: "path_join PEERS n = ''peers'' @ CHR ''/'' # n"
    using assms by (cases n) (auto simp: path_join_def PEERS_def starts_with_def)
  have "trim_rev (rev n @ x) = rev n @ x" for x
    using c r by (cases r) (auto simp: n)
  then have "rev (trim_rev (rev (''peers'' @ CHR ''/'' # n))) = ''peers'' @ CHR ''/'' # n" by simp
  moreover have "split_char CHR ''/'' (''peers'' @ CHR ''/'' # n) = [''peers'', n]"
    using split_char_append [of "CHR ''/''" "''peers''" n] split_char_none [OF assms(2)] by simp
  ultimately show ?thesis using assms(1) by (simp add: with_toml_def join)
qed

lemma toml_stem_path:
  assumes "n \<noteq> ''''" and "CHR ''/'' \<notin> set n"
  shows "toml_stem (''peers/'' @ n @ ''.toml'') = Some n"
  using assms by (simp add: toml_stem_def starts_with_def)

lemma toml_stem_Some:
  assumes "toml_stem p = Some n"
  shows "p = ''peers/'' @ n @ ''.toml''"
proof -
  from assms have p: "take 6 p = ''peers/''" and n: "n = take (length (drop 6 p) - 5) (drop 6 p)"
    and e: "take 5 (rev (drop 6 p)) = rev ''.toml''"
    by (auto simp: toml_stem_def starts_with_def eval_nat_numeral split: if_splits)
  have "drop (length (drop 6 p) - 5) (drop 6 p) = rev (take 5 (rev (drop 6 p)))"
    by (simp add: take_rev)
  then have "drop 6 p = n @ ''.toml''"
    using n e by (metis append_take_drop_id rev_rev_ident)
  with p show ?thesis by (metis append_take_drop_id)
qed

lemma plain_path:
  assumes "plain cr ident"
  shows "peer_path cr ident = ''peers/'' @ encode_id cr ident @ ''.toml''"
    and "toml_stem (peer_path cr ident) = Some (encode_id cr ident)" and "peer_path cr ident \<noteq> ''peers/..''"
proof -
  show p: "peer_path cr ident = ''peers/'' @ encode_id cr ident @ ''.toml''"
    using assms path_of_name [of "encode_id cr ident"] by (simp add: plain_def peer_path_def)
  then show "toml_stem (peer_path cr ident) = Some (encode_id cr ident)"
    using assms toml_stem_path [of "encode_id cr ident"] by (simp add: plain_def)
  have "e @ ''.toml'' \<noteq> ''..''" for e by (cases e; cases "tl e") auto
  then show "peer_path cr ident \<noteq> ''peers/..''" by (simp add: p)
qed

lemma decode_encode:
  assumes "crypto_laws cr" and "plain cr ident"
  shows "decode_id cr (encode_id cr ident) = ident"
proof (cases "list_ex forbidden ident")
  case True
  then have "as_bytes ident \<noteq> []" by (cases ident) auto
  with assms True show ?thesis
    by (auto simp: encode_id_def decode_id_def starts_with_def crypto_laws_def plain_def from_utf8_lossy_str)
next
  case False
  with assms(2) show ?thesis by (simp add: encode_id_def decode_id_def plain_def split: if_splits)
qed

text \<open>Peers do not share files: two different plain identifiers have different files, also
  when one of them has to be encoded.
\<close>

theorem peer_files_are_distinct:
  assumes "crypto_laws cr" and "plain cr i" and "plain cr j" and "i \<noteq> j"
  shows "peer_path cr i \<noteq> peer_path cr j"
proof
  assume "peer_path cr i = peer_path cr j"
  then have "encode_id cr i = encode_id cr j"
    using plain_path(2) [OF assms(2)] plain_path(2) [OF assms(3)] by simp
  then show False using decode_encode [OF assms(1,2)] decode_encode [OF assms(1,3)] assms(4) by simp
qed

subsection \<open>Listing\<close>

lemma listed_iff:
  "(j, p) \<in> set (listed_files cr None d) \<longleftrightarrow>
     p \<in> fst ` set (peer_files d) \<and> (\<exists>s. toml_stem p = Some s \<and> j = decode_id cr s)"
proof -
  have "(j, p) \<in> set (List.map_filter (\<lambda>(p, _). map_option (\<lambda>stem. (decode_id cr stem, p)) (toml_stem p)) fs) \<longleftrightarrow>
     p \<in> fst ` set fs \<and> (\<exists>s. toml_stem p = Some s \<and> j = decode_id cr s)" for fs :: "(string \<times> peer_file \<times> int) list"
    by (induction fs) (auto simp: map_filter_def split: option.splits)
  then show ?thesis by (simp add: listed_files_def)
qed

text \<open>\<open>holds cr c p t d\<close>: the file at \<open>p\<close> is the stored form of \<open>c\<close>, written at \<open>t\<close>.\<close>

definition holds :: "crypto \<Rightarrow> peer_config \<Rightarrow> string \<Rightarrow> int \<Rightarrow> peer_disk \<Rightarrow> bool" where
  "holds cr c p t d \<longleftrightarrow> map_of (peer_files d) p = Some (Toml (table_of_peer (peer_stored cr c)), t)"

lemma holds_store_other: "peer_path cr j \<noteq> p \<Longrightarrow> holds cr c p t d \<Longrightarrow> holds cr c p t (peer_store cr j c' d)"
  by (simp add: holds_def peer_store_def put_file_def map_of_update)

lemma holds_remove_other: "p' \<noteq> p \<Longrightarrow> holds cr c p t d \<Longrightarrow> holds cr c p t (remove_file p' d)"
  by (simp add: holds_def remove_file_def delete_conv')

lemma holds_load:
  assumes "crypto_laws cr" and "peer_storable cr c" and "holds cr c p t d"
  shows "holds cr c p t (snd (peer_load cr rd q j d))"
proof (cases "peer_path cr j = p")
  case True
  with assms load_stored_file [OF assms(1,2), of d j] show ?thesis by (simp add: holds_def)
next
  case False
  show ?thesis
    using holds_store_other [OF False assms(3)] assms(3)
    by (auto simp: peer_load_def Let_def split: option.splits prod.splits)
qed

lemma normal_info [simp]: "pc_info (normal_peer rd q c) = pc_info c"
  by (simp add: normal_peer_def)

lemma visit_lists:
  assumes "crypto_laws cr" and "peer_storable cr c" and "pi_platform (pc_info c) \<noteq> ''''"
    and "p = peer_path cr ident" and "holds cr c p t d" and "(ident, p) \<in> set fs"
    and "\<forall>(j, p') \<in> set fs. p' = p \<longrightarrow> j = ident"
  shows "(ident, t, normal_peer rd q c) \<in> set (fst (visit_files cr rd q fs d))"
  using assms(5-7)
proof (induction fs arbitrary: d)
  case (Cons f fs)
  obtain j p' where f: "f = (j, p')" by (cases f)
  obtain c' d1 where load: "peer_load cr rd q j d = (c', d1)" by (cases "peer_load cr rd q j d")
  define d2 where "d2 = (if pi_platform (pc_info c') = '''' then remove_file p' d1 else d1)"
  obtain rs d3 where rest: "visit_files cr rd q fs d2 = (rs, d3)" by (cases "visit_files cr rd q fs d2")
  define t' where "t' = (case map_of (peer_files d) p' of Some (_, t) \<Rightarrow> t | None \<Rightarrow> 0)"
  have out: "fst (visit_files cr rd q (f # fs) d) =
      (if pi_platform (pc_info c') = '''' then rs else (j, t', c') # rs)"
    using load rest by (simp add: f d2_def [symmetric] t'_def [symmetric] Let_def)
  have same: "c' = normal_peer rd q c" if "p' = p"
    using load load_stored_file [OF assms(1,2), of d ident] Cons.prems(1,3) assms(4) that f
    by (auto simp: holds_def)
  have h1: "holds cr c p t d1" using holds_load [OF assms(1,2) Cons.prems(1), of rd q j] load by simp
  have h2: "holds cr c p t d2"
    using h1 holds_remove_other [OF _ h1, of p'] same assms(3) by (cases "p' = p") (auto simp: d2_def)
  show ?case
  proof (cases "(ident, p) \<in> set fs")
    case True
    with Cons.IH [OF h2 True] Cons.prems(3) rest show ?thesis by (auto simp: out)
  next
    case False
    with Cons.prems(2) f have "j = ident" "p' = p" by auto
    with same assms(3) Cons.prems(1) show ?thesis by (simp add: out t'_def holds_def)
  qed
qed simp

text \<open>A stored peer is listed: after storing a configuration with a platform under a plain
  identifier, the list of peers, whatever else is in the directory, has an entry with this
  identifier, the time of storing and the configuration as it loads.
\<close>

theorem stored_peer_is_listed:
  assumes "crypto_laws cr" and "peer_storable cr c" and "plain cr ident"
    and "pi_platform (pc_info c) \<noteq> ''''" and "peers_readable d" and "\<not> peer_readonly d"
  shows "(ident, now_time d, normal_peer rd q c) \<in> set (fst (peers cr rd q None (peer_store cr ident c d)))"
proof -
  let ?p = "peer_path cr ident" and ?d = "peer_store cr ident c d"
  note path = plain_path [OF assms(3)]
  have h: "holds cr c ?p (now_time d) ?d"
    using assms(6) path(3) by (simp add: holds_def peer_store_def put_file_def map_of_update)
  then have "?p \<in> fst ` set (peer_files ?d)" by (force simp: holds_def dest: map_of_SomeD)
  then have "(ident, ?p) \<in> set (listed_files cr None ?d)"
    using path(2) decode_encode [OF assms(1,3)] by (simp add: listed_iff)
  moreover have "\<forall>(j, p') \<in> set (listed_files cr None ?d). p' = ?p \<longrightarrow> j = ident"
    using path(2) decode_encode [OF assms(1,3)] by (auto simp: listed_iff)
  ultimately have "(ident, now_time d, normal_peer rd q c) \<in> set (fst (visit_files cr rd q (listed_files cr None ?d) ?d))"
    by (rule visit_lists [OF assms(1,2,4) refl h])
  moreover have "peers_readable ?d" using assms(5) by (simp add: peer_store_def put_file_def)
  ultimately show ?thesis
    by (cases "visit_files cr rd q (listed_files cr None ?d) ?d") (simp add: peers_def)
qed

text \<open>A peer whose file cannot be read is forgotten: a file that is locked, damaged or not
  TOML loads as the default configuration, which has no platform, so listing the peers deletes it.
\<close>

theorem unreadable_peer_is_deleted:
  assumes "crypto_laws cr" and "plain cr ident" and "peer_files d = [(peer_path cr ident, Broken, t)]"
    and "peers_readable d" and "\<not> peer_readonly d"
  shows "peers cr rd q None d = ([], d\<lparr>peer_files := []\<rparr>)"
proof -
  have "listed_files cr None d = [(ident, peer_path cr ident)]"
    using plain_path(2) [OF assms(2)] decode_encode [OF assms(1,2)]
    by (simp add: listed_files_def map_filter_def assms(3))
  moreover have "peer_load cr rd q ident d = (peer_default rd q, d)"
    using assms(3) by (simp add: peer_load_def read_file_def)
  ultimately show ?thesis
    using assms(3-5)
    by (simp add: peers_def peer_default_def peer_info_default_def remove_file_def)
qed

lemma split_char_suffix: "\<exists>pre. s = pre @ last (split_char c s)"
proof (induction s)
  case (Cons x xs)
  then obtain pre where pre: "xs = pre @ last (split_char c xs)" by blast
  show ?case
  proof (cases "x = c")
    case True
    then show ?thesis using pre by (intro exI [of _ "x # pre"]) (simp add: split_char_not_Nil)
  next
    case False
    obtain p ps where ps: "split_char c xs = p # ps" by (cases "split_char c xs") auto
    show ?thesis
    proof (cases ps)
      case Nil
      with pre ps False show ?thesis
        using split_char_join [of c xs] by (intro exI [of _ "[]"]) simp
    next
      case (Cons p' ps')
      with pre ps False show ?thesis by (intro exI [of _ "x # pre"]) simp
    qed
  qed
qed simp

text \<open>
  An identifier that has to be encoded and whose base64 form has a slash is stored in a
  directory below \<^verbatim>\<open>peers\<close>, where no listing finds it.
\<close>

theorem slash_in_base64_is_not_listed:
  assumes "list_ex forbidden ident" and "b64_encode cr (as_bytes ident) = e"
    and "CHR ''/'' \<in> set e" and "last e \<notin> set ''/.''"
  shows "peer_path cr ident \<notin> snd ` set (listed_files cr None d)"
proof -
  obtain c r where e: "rev e = c # r" using assms(3) by (cases "rev e") auto
  then have c: "c \<noteq> CHR ''/''" "c \<noteq> CHR ''.''" using assms(4) by (auto simp: rev_eq_Cons_iff)
  have trim: "rev (trim_rev (rev (x @ e))) = x @ e" for x
    using c by (simp add: e rev_eq_Cons_iff [THEN iffD1, OF e])
  have join: "path_join PEERS (encode_id cr ident) = ''peers/base64_'' @ e"
    using assms(1,2) by (simp add: path_join_def PEERS_def encode_id_def starts_with_def)
  have "last (split_char CHR ''/'' (''peers/base64_'' @ e)) \<noteq> ''..''"
  proof
    assume "last (split_char CHR ''/'' (''peers/base64_'' @ e)) = ''..''"
    with split_char_suffix [of "''peers/base64_'' @ e" "CHR ''/''"]
    obtain pre where "''peers/base64_'' @ e = pre @ ''..''" by auto
    then have "last (''peers/base64_'' @ e) = last (pre @ ''..'')" by (rule arg_cong)
    moreover have "last (''peers/base64_'' @ e) = c"
      using e by (simp add: rev_eq_Cons_iff del: append_Cons)
    ultimately show False using c(2) by simp
  qed
  then have "peer_path cr ident = ''peers/base64_'' @ e @ ''.toml''"
    using trim [of "''peers/base64_''"] by (simp add: peer_path_def join with_toml_def Let_def)
  then have "toml_stem (peer_path cr ident) = None" using assms(3) by (simp add: toml_stem_def)
  then show ?thesis by (auto simp: listed_iff)
qed

subsection \<open>A concrete peer\<close>

definition demo_rd :: "string \<Rightarrow> string" where "demo_rd k = (if k = ''view_style'' then ''original'' else '''')"
definition demo_q :: "string \<Rightarrow> int" where "demo_q s = 50"

definition demo_peer :: peer_config where
  "demo_peer = (peer_default demo_rd demo_q)\<lparr>pc_password := [1, 2],
     pc_options := fmupd ''rdp_password'' ''pw'' fmempty,
     pc_info := \<lparr>pi_username = ''u'', pi_hostname = ''h'', pi_platform = ''Linux''\<rparr>\<rparr>"

definition demo_disk :: peer_disk where
  "demo_disk = \<lparr>peer_files = [], peers_readable = True, peer_readonly = False, stored_ids = [], now_time = 7\<rparr>"

lemma demo_peer_storable: "peer_storable demo_crypto demo_peer"
  using demo_storable
  by (simp add: peer_storable_def demo_peer_def peer_default_def well_typed_def in_i32_def demo_q_def
      default_custom_image_quality_def ENCRYPT_MAX_LEN_def decrypt_vec_or_original_def VERSION_LEN_def
      secrets_storable_def secret_options_def)

lemma demo_plain: "plain demo_crypto ''9'' " "plain demo_crypto ''a:b''"
  by (auto simp: plain_def encode_id_def forbidden_def starts_with_def demo_crypto_def intro!: ascii_valid)

lemma peer_store_load_witness:
  "pc_options (fst (peer_load demo_crypto demo_rd demo_q ''9'' (peer_store demo_crypto ''9'' demo_peer demo_disk))) =
     fmupd ''rdp_password'' ''pw'' fmempty"
  using peer_store_load [OF demo_crypto_laws demo_peer_storable, of demo_disk "''9''" demo_rd demo_q]
    plain_path(3) [OF demo_plain(1)]
  by (simp add: demo_disk_def normal_peer_def demo_peer_def)

lemma peer_files_are_distinct_witness:
  "peer_path demo_crypto ''9'' \<noteq> peer_path demo_crypto ''a:b''"
  by (rule peer_files_are_distinct [OF demo_crypto_laws demo_plain]) simp

lemma stored_peer_is_listed_witness:
  "(''9'', 7, normal_peer demo_rd demo_q demo_peer) \<in>
     set (fst (peers demo_crypto demo_rd demo_q None (peer_store demo_crypto ''9'' demo_peer demo_disk)))"
  using stored_peer_is_listed [OF demo_crypto_laws demo_peer_storable demo_plain(1), of demo_disk demo_rd demo_q]
  by (simp add: demo_disk_def demo_peer_def)

lemma unreadable_peer_is_deleted_witness:
  "peers demo_crypto demo_rd demo_q None (demo_disk\<lparr>peer_files := [(peer_path demo_crypto ''9'', Broken, 3)]\<rparr>) =
    ([], demo_disk)"
  by (subst unreadable_peer_is_deleted [OF demo_crypto_laws demo_plain(1)])
     (simp_all add: demo_disk_def)

text \<open>
  A plain name that starts like an encoded one is taken apart on listing, so its configuration
  is looked for under another name and the file is deleted.
\<close>

lemma misread_name_is_deleted:
  "peer_files (snd (peers demo_crypto rd q None (peer_store demo_crypto ''base64_a'' c demo_disk))) = []"
proof -
  have "encode_id demo_crypto ''base64_a'' = ''base64_a''" "encode_id demo_crypto ''a'' = ''a''"
    by (simp_all add: encode_id_def forbidden_def)
  then have path: "peer_path demo_crypto ''base64_a'' = ''peers/base64_a.toml''" "peer_path demo_crypto ''a'' = ''peers/a.toml''"
    using path_of_name [of "''base64_a''"] path_of_name [of "''a''"] by (simp_all add: peer_path_def)
  have "from_utf8_lossy (as_bytes ''a'') = ''a''" by (rule from_utf8_lossy_str) (auto intro: ascii_valid)
  then have dec: "decode_id demo_crypto ''base64_a'' = ''a''"
    by (simp add: decode_id_def starts_with_def demo_crypto_def)
  have stem: "toml_stem ''peers/base64_a.toml'' = Some ''base64_a''"
    using toml_stem_path [of "''base64_a''"] by simp
  have "listed_files demo_crypto None (peer_store demo_crypto ''base64_a'' c demo_disk) = [(''a'', ''peers/base64_a.toml'')]"
    by (simp add: listed_files_def map_filter_def peer_store_def put_file_def demo_disk_def path stem dec)
  then show ?thesis
    by (simp add: peers_def peer_load_def read_file_def path peer_default_def peer_info_default_def
        remove_file_def peer_store_def put_file_def demo_disk_def)
qed

subsection \<open>What a file can hold\<close>

lemma field_good:
  assumes "P d" and "\<And>v x. f v = Some x \<Longrightarrow> P x"
  shows "P (field d f k t)"
  using assms by (auto simp: field_def split: option.splits)

lemma as_i32_good: "as_i32 v = Some n \<Longrightarrow> in_i32 n"
  by (auto simp: as_i32_def in_i32_def split: toml.splits if_splits)

lemma as_list_good:
  assumes "\<And>v x. f v = Some x \<Longrightarrow> P x" and "as_list f v = Some xs"
  shows "list_all P xs"
proof -
  obtain vs where "those (map f vs) = Some xs" using assms(2) by (auto simp: as_list_def split: toml.splits)
  then show ?thesis by (induction vs arbitrary: xs) (auto dest: assms(1) split: option.splits)
qed

lemma as_size_good:
  assumes "as_size v = Some s"
  shows "in_i32s s"
proof -
  obtain x y w h where l: "as_list as_i32 v = Some [x, y, w, h]" "s = (x, y, w, h)"
    using assms by (auto simp: as_size_def split: option.splits list.splits)
  from as_list_good [OF as_i32_good l(1)] l(2) show ?thesis by simp
qed

lemma as_forward_good: "as_forward v = Some f \<Longrightarrow> (case f of (p, h, q) \<Rightarrow> in_i32 p \<and> in_i32 q)"
  by (auto simp: as_forward_def dest: as_i32_good split: toml.splits list.splits option.splits)

lemma as_resolution_good: "as_resolution v = Some r \<Longrightarrow> (case r of (w, h) \<Rightarrow> in_i32 w \<and> in_i32 h)"
  by (auto simp: as_resolution_def dest: as_i32_good split: toml.splits option.splits)

lemma as_map_good:
  assumes "\<And>v x. f v = Some x \<Longrightarrow> P x" and "as_map f v = Some m"
  shows "fmpred (\<lambda>k. P) m"
  using assms by (auto simp: as_map_def split: toml.splits if_splits intro!: fmpredI dest: fmpredD) fastforce

text \<open>C29. Whatever a file holds, a loaded configuration is well typed: numbers fit \<^verbatim>\<open>i32\<close>, the
  image quality is a single value from 10 to 4095, and a style is empty only where its
  default is. The default quality, which its own reader keeps in range, has to be.
\<close>

theorem loaded_peer_is_well_typed:
  assumes "peer_of_table rd q t = Some c" and "valid_quality [q (rd ''custom_image_quality'')]"
  shows "well_typed c \<and> valid_quality (custom_image_quality c) \<and> normal_peer rd q c = c"
proof -
  have quality: "quality_field rd q t = Some (custom_image_quality c)"
    using assms(1) by (auto simp: peer_of_table_def bind_eq_Some_conv)
  then have v: "valid_quality (custom_image_quality c)"
    using assms(2) by (auto simp: quality_field_def default_custom_image_quality_def split: option.splits if_splits)
  then have "list_all in_i32 (custom_image_quality c)"
    by (auto simp: valid_quality_def in_i32_def split: list.splits)
  moreover have "in_i32s (field (0, 0, 0, 0) as_size k t)" for k
    by (rule field_good) (auto simp: in_i32_def dest: as_size_good)
  moreover have "list_all (\<lambda>(p, h, q). in_i32 p \<and> in_i32 q) (field [] (as_list as_forward) k t)" for k
    by (rule field_good) (simp, rule as_list_good [of as_forward], erule as_forward_good)
  moreover have "in_i32 (field 0 as_i32 k t)" for k
    by (rule field_good) (auto simp: in_i32_def [of 0] dest: as_i32_good)
  moreover have "fmpred (\<lambda>k (w, h). in_i32 w \<and> in_i32 h) (field fmempty (as_map as_resolution) k t)" for k
    by (rule field_good) (simp, rule as_map_good [of as_resolution], erule as_resolution_good)
  moreover have "or_default rd k (style_field rd k t) = style_field rd k t" for k
    by (simp add: or_default_def style_field_def Let_def)
  ultimately show ?thesis
    using assms(1) v by (auto simp: peer_of_table_def bind_eq_Some_conv well_typed_def normal_peer_def)
qed

lemma loaded_peer_is_well_typed_witness:
  "normal_peer demo_rd demo_q (the (peer_of_table demo_rd demo_q (table_of_peer demo_peer))) =
     the (peer_of_table demo_rd demo_q (table_of_peer demo_peer))"
proof -
  have "well_typed demo_peer" using demo_peer_storable by (simp add: peer_storable_def)
  from peer_table_roundtrip [OF this, of demo_rd demo_q]
  obtain c where c: "peer_of_table demo_rd demo_q (table_of_peer demo_peer) = Some c" by blast
  from loaded_peer_is_well_typed [OF this] c show ?thesis by (simp add: demo_q_def valid_quality_def)
qed

end
