(* ===== verification/Books.thy ===== *)
theory Books
  imports Toml
begin

text \<open>
  Small stores of \<^verbatim>\<open>libs/hbb_common/src\<close>: the compressed and encrypted address book and group
  files and the list of peers found on the local network (\<^verbatim>\<open>config.rs\<close>), with the wrappers
  around zstd (\<^verbatim>\<open>compress.rs\<close>) and the names of keyboard modes (\<^verbatim>\<open>keyboard.rs\<close>). zstd and
  serde's JSON reader are parameters.
\<close>

subsection \<open>Compression\<close>

record zstd =
  z_encode :: "bytes \<Rightarrow> bytes option"
  z_decode :: "bytes \<Rightarrow> bytes option"

definition compress :: "zstd \<Rightarrow> bytes \<Rightarrow> bytes" where
  "compress z d = (case z_encode z d of Some r \<Rightarrow> r | None \<Rightarrow> [])"

definition decompress :: "zstd \<Rightarrow> bytes \<Rightarrow> bytes" where
  "decompress z d = (case z_decode z d of Some r \<Rightarrow> r | None \<Rightarrow> [])"

subsection \<open>Address book and groups\<close>

text \<open>
  The file: its content, whether it can be created, read and removed, and how many bytes the
  disk takes; the result of \<^verbatim>\<open>write_all\<close> is ignored.
\<close>

record vault =
  v_file :: "bytes option"
  v_create :: bool
  v_read :: bool
  v_delete :: bool
  v_room :: nat

definition MAX_BOOK :: nat where "MAX_BOOK = 64 * 1024 * 1024"

definition book_store :: "crypto \<Rightarrow> zstd \<Rightarrow> string \<Rightarrow> vault \<Rightarrow> vault" where
  "book_store cr z json v =
     (if \<not> v_create v then v
      else let v1 = v\<lparr>v_file := Some []\<rparr>; data = compress z (as_bytes json)
        in if MAX_BOOK < length data then v1
           else case symmetric_crypt cr data True of
                  None \<Rightarrow> v1
                | Some out \<Rightarrow> v1\<lparr>v_file := Some (take (v_room v) out)\<rparr>)"

definition book_remove :: "vault \<Rightarrow> vault" where
  "book_remove v = (if v_delete v then v\<lparr>v_file := None\<rparr> else v)"

definition book_read :: "crypto \<Rightarrow> zstd \<Rightarrow> (string \<Rightarrow> 'a option) \<Rightarrow> vault \<Rightarrow> 'a option" where
  "book_read cr z parse v =
     (case v_file v of
        Some out \<Rightarrow>
          if v_read v
          then Option.bind (symmetric_crypt cr out False) (\<lambda>data.
                 parse (from_utf8_lossy (decompress z data)))
          else None
      | None \<Rightarrow> None)"

definition book_load :: "crypto \<Rightarrow> zstd \<Rightarrow> (string \<Rightarrow> 'a option) \<Rightarrow> 'a \<Rightarrow> vault \<Rightarrow> 'a \<times> vault" where
  "book_load cr z parse dflt v =
     (case book_read cr z parse v of Some ab \<Rightarrow> (ab, v) | None \<Rightarrow> (dflt, book_remove v))"

definition ab_store :: "crypto \<Rightarrow> zstd \<Rightarrow> string \<Rightarrow> vault \<Rightarrow> vault" where "ab_store = book_store"
definition group_store :: "crypto \<Rightarrow> zstd \<Rightarrow> string \<Rightarrow> vault \<Rightarrow> vault" where "group_store = book_store"

definition ab_load :: "crypto \<Rightarrow> zstd \<Rightarrow> (string \<Rightarrow> 'a option) \<Rightarrow> 'a \<Rightarrow> vault \<Rightarrow> 'a \<times> vault" where
  "ab_load = book_load"
definition group_load :: "crypto \<Rightarrow> zstd \<Rightarrow> (string \<Rightarrow> 'a option) \<Rightarrow> 'a \<Rightarrow> vault \<Rightarrow> 'a \<times> vault" where
  "group_load = book_load"

definition personal :: "string \<Rightarrow> bool" where
  "personal name \<longleftrightarrow> name = ''My address book'' \<or> name = ''Legacy address book''"

text \<open>An address book that is too large is lost: storing it truncates the file before the size
  is looked at, and loading the empty file gives the default and deletes it.
\<close>

theorem large_book_is_lost:
  assumes "MAX_BOOK < length (compress z (as_bytes json))" and "v_create v" and "v_delete v"
    and "open_box (cr_box cr) [] (replicate NONCEBYTES 0) (crypt_key cr) = None"
  shows "ab_load cr z parse dflt (ab_store cr z json v) = (dflt, v\<lparr>v_file := None\<rparr>)"
  using assms
  by (simp add: ab_load_def ab_store_def book_load_def book_store_def book_read_def book_remove_def
      symmetric_crypt_def)

text \<open>A stored book reads back: with a working compressor and enough room on the disk, what
  was stored is parsed again, and the file stays as it is.
\<close>

theorem book_store_load:
  assumes "crypto_laws cr" and "is_utf8 json" and "z_encode z (as_bytes json) = Some e" and "z_decode z e = Some (as_bytes json)"
    and "length e \<le> MAX_BOOK" and "v_create v" and "v_read v" and "length e + 16 \<le> v_room v"
    and "parse json = Some ab"
  shows "ab_load cr z parse dflt (ab_store cr z json v) = (ab, ab_store cr z json v) \<and>
    group_load cr z parse dflt (group_store cr z json v) = (ab, group_store cr z json v)"
proof -
  define w where "w = seal (cr_box cr) e (replicate NONCEBYTES 0) (crypt_key cr)"
  have "length w = length e + 16" "open_box (cr_box cr) w (replicate NONCEBYTES 0) (crypt_key cr) = Some e"
    using assms(1) by (simp_all add: crypto_laws_def secretbox_laws_def w_def)
  moreover have "from_utf8_lossy (as_bytes json) = json" by (rule from_utf8_lossy_str [OF assms(2)])
  ultimately have "book_load cr z parse dflt (book_store cr z json v) = (ab, book_store cr z json v)"
    using assms by (simp add: book_load_def book_store_def book_read_def compress_def decompress_def
        symmetric_crypt_def w_def [symmetric])
  then show ?thesis by (simp add: ab_load_def ab_store_def group_load_def group_store_def)
qed

subsection \<open>Peers on the local network\<close>

record discovery_peer =
  dp_id :: string
  dp_username :: string
  dp_hostname :: string
  dp_platform :: string
  dp_online :: bool
  dp_ip_mac :: strmap

definition is_same_peer :: "discovery_peer \<Rightarrow> discovery_peer \<Rightarrow> bool" where
  "is_same_peer a b \<longleftrightarrow> dp_id a = dp_id b \<and> dp_username a = dp_username b"

definition as_discovery_peer :: "toml \<Rightarrow> discovery_peer option" where
  "as_discovery_peer v = (case v of
     Tab t \<Rightarrow> Some \<lparr>dp_id = field '''' as_string ''id'' t, dp_username = field '''' as_string ''username'' t,
       dp_hostname = field '''' as_string ''hostname'' t, dp_platform = field '''' as_string ''platform'' t,
       dp_online = field False as_bool ''online'' t, dp_ip_mac = field fmempty (as_map as_string) ''ip_mac'' t\<rparr>
   | _ \<Rightarrow> None)"

definition of_discovery_peer :: "discovery_peer \<Rightarrow> toml" where
  "of_discovery_peer p = Tab (put False ''id'' (Str (dp_id p)) (put False ''username'' (Str (dp_username p))
     (put False ''hostname'' (Str (dp_hostname p)) (put False ''platform'' (Str (dp_platform p))
     (put False ''online'' (Flag (dp_online p)) (put False ''ip_mac'' (of_map Str (dp_ip_mac p)) fmempty))))))"

interpretation discovery: toml_codec of_discovery_peer as_discovery_peer "\<lambda>_. True"
  by unfold_locales
     (simp add: as_discovery_peer_def of_discovery_peer_def field_put written_values)

text \<open>The file of the list: absent or unreadable (\<open>None\<close>), or a table.\<close>

definition lan_load :: "table option \<Rightarrow> discovery_peer list" where
  "lan_load f = (case f of None \<Rightarrow> [] | Some t \<Rightarrow> field [] (as_list as_discovery_peer) ''peers'' t)"

definition lan_store :: "bool \<Rightarrow> discovery_peer list \<Rightarrow> table option \<Rightarrow> table option" where
  "lan_store writable ps f =
     (if writable then Some (put False ''peers'' (of_list of_discovery_peer ps) fmempty) else f)"

text \<open>In milliseconds, from a modification time in nanoseconds; a time before the epoch is an error.\<close>

definition lan_modify_time :: "int option \<Rightarrow> nat option" where
  "lan_modify_time t = (case t of None \<Rightarrow> None | Some n \<Rightarrow> if n < 0 then None else Some (nat (n div 10 ^ 6)))"

lemma lan_store_load: "lan_load (lan_store True ps f) = ps"
  using discovery.list_of_to [of ps] by (simp add: lan_load_def lan_store_def field_put list_all_iff)

subsection \<open>Keyboard modes\<close>

datatype keyboard_mode = Legacy | Map | Translate | Auto_mode

definition keyboard_modes :: "keyboard_mode list" where
  "keyboard_modes = [Legacy, Map, Translate, Auto_mode]"

definition mode_string :: "keyboard_mode \<Rightarrow> string" where
  "mode_string m = (case m of Legacy \<Rightarrow> ''legacy'' | Map \<Rightarrow> ''map'' | Translate \<Rightarrow> ''translate''
     | Auto_mode \<Rightarrow> ''auto'')"

definition mode_of_string :: "string \<Rightarrow> keyboard_mode option" where
  "mode_of_string s =
     (if s = ''legacy'' then Some Legacy else if s = ''map'' then Some Map
      else if s = ''translate'' then Some Translate else if s = ''auto'' then Some Auto_mode else None)"

lemma mode_string_inverse:
  "mode_of_string (mode_string m) = Some m" "m \<in> set keyboard_modes"
  by (cases m; simp add: mode_of_string_def mode_string_def keyboard_modes_def)+

lemma mode_of_string_Some: "mode_of_string s = Some m \<longleftrightarrow> s = mode_string m"
  by (cases m) (auto simp: mode_of_string_def mode_string_def)

subsection \<open>Witnesses\<close>

definition demo_zstd :: zstd where
  "demo_zstd = \<lparr>z_encode = (\<lambda>d. Some (7 # d)), z_decode = (\<lambda>d. case d of [] \<Rightarrow> None | x # r \<Rightarrow> Some r)\<rparr>"

lemma book_store_load_witness:
  "fst (ab_load demo_crypto demo_zstd (\<lambda>s. Some (length s)) 0
     (ab_store demo_crypto demo_zstd ''{}'' \<lparr>v_file = None, v_create = True, v_read = True, v_delete = True, v_room = 100\<rparr>)) = 2"
proof -
  have "is_utf8 ''{}''" by (intro ascii_valid) simp
  from book_store_load [OF demo_crypto_laws this, of demo_zstd "7 # as_bytes ''{}''"
      "\<lparr>v_file = None, v_create = True, v_read = True, v_delete = True, v_room = 100\<rparr>"
      "\<lambda>s. Some (length s)" 2 0]
  show ?thesis by (simp add: demo_zstd_def MAX_BOOK_def)
qed

end
