(* ===== verification/Recorder.thy ===== *)
theory Recorder
  imports ScrapCommon FileStore
begin

text \<open>
  Recording a session, \<^verbatim>\<open>libs/scrap/src/common/record.rs\<close>: the recorder opens a file per
  codec format and picture size, starts a new one when the time stamps go back, and reports
  what it does to a channel. The muxers (webm, hwcodec), the file system and the clock are the
  answers \<open>rec_env\<close>; the recorder consults the next answer at every call. A recorded file is
  the list of its pictures: time stamp (none for the hardware muxer), whether it is a key
  picture, and its data. A video frame is its format and its pictures; \<open>Unknown\<close> stands for the
  kinds that carry none.
\<close>


record picture =
  pic_data :: bytes
  pic_key :: bool
  pic_pts :: i64

record recorder_context =
  rc_server :: bool
  rc_id :: string
  rc_dir :: string
  rc_display :: nat
  rc_tx :: bool

record recorder_context2 =
  rc_filename :: string
  rc_width :: nat
  rc_height :: nat
  rc_format :: codec_format

datatype record_state = New_file string | New_frame | Write_tail | Remove_file

record rec_env =
  dir_ok :: bool  \<comment> \<open>the directory exists or can be made\<close>
  open_ok :: bool
  mux_ok :: bool
  private_ok :: bool
  hw_mux_ok :: bool
  add_ok :: bool
  delete_ok :: bool
  stamp :: string
  clock_ms :: nat

type_synonym pictures = "(u64 option \<times> bool \<times> bytes) list"

record rec_inner =
  ri_hw :: bool
  ri_ctx2 :: recorder_context2
  ri_key :: bool
  ri_written :: bool
  ri_start :: nat

record recorder =
  r_inner :: "rec_inner option"
  r_ctx :: recorder_context
  r_ctx2 :: "recorder_context2 option"
  r_pts :: "i64 option"
  check_failed :: bool
  r_files :: "string \<rightharpoonup> pictures"
  r_events :: "record_state list"
  consulted :: nat

datatype rec_error =
  No_directory | No_file | No_mux | No_private | No_hw_mux | Unsupported_codec | Check_failed
| Unsupported_frame | First_not_key | Ctx2_none

definition recorder_new :: "recorder_context \<Rightarrow> (string \<rightharpoonup> pictures) \<Rightarrow> recorder" where
  "recorder_new ctx fs = \<lparr>r_inner = None, r_ctx = ctx, r_ctx2 = None, r_pts = None, check_failed = False,
     r_files = fs, r_events = [], consulted = 0\<rparr>"

definition send_state :: "record_state \<Rightarrow> recorder \<Rightarrow> recorder" where
  "send_state st r = (if rc_tx (r_ctx r) then r\<lparr>r_events := r_events r @ [st]\<rparr> else r)"

definition consult :: "recorder \<Rightarrow> recorder" where
  "consult r = r\<lparr>consulted := consulted r + 1\<rparr>"

subsection \<open>File names\<close>

definition lower_char :: "char \<Rightarrow> char" where
  "lower_char c = (let n = of_char c :: nat in if 65 \<le> n \<and> n \<le> 90 then char_of (n + 32) else c)"

definition is_webm :: "codec_format \<Rightarrow> bool" where
  "is_webm f \<longleftrightarrow> f = VP9 \<or> f = VP8 \<or> f = AV1"

definition file_name :: "rec_env \<Rightarrow> recorder_context \<Rightarrow> codec_format \<Rightarrow> string" where
  "file_name e ctx f =
     path_join (rc_dir ctx)
       ((if rc_server ctx then ''incoming'' else ''outgoing'') @ ''_'' @ rc_id ctx @ stamp e
        @ ''display'' @ dec_string (rc_display ctx) @ ''_'' @ List.map lower_char (codec_to_string f)
        @ (if is_webm f then ''.webm'' else ''.mp4''))"

text \<open>\<^verbatim>\<open>RecorderContext2\<close> with \<^verbatim>\<open>set_filename\<close>.\<close>

definition new_ctx2 :: "rec_env \<Rightarrow> recorder_context \<Rightarrow> nat \<Rightarrow> nat \<Rightarrow> codec_format \<Rightarrow> rec_error + recorder_context2" where
  "new_ctx2 e ctx w h f =
     (if dir_ok e
      then Inr \<lparr>rc_filename = file_name e ctx f, rc_width = w, rc_height = h, rc_format = f\<rparr>
      else Inl No_directory)"

subsection \<open>The muxers\<close>

definition fresh_inner :: "bool \<Rightarrow> rec_env \<Rightarrow> recorder_context2 \<Rightarrow> rec_inner" where
  "fresh_inner hw e c = \<lparr>ri_hw = hw, ri_ctx2 = c, ri_key = False, ri_written = False, ri_start = clock_ms e\<rparr>"

text \<open>\<^verbatim>\<open>WebmRecorder::new\<close>: the file is created, or emptied if it is there, before the muxer is made.\<close>

definition webm_new ::
    "rec_env \<Rightarrow> recorder_context2 \<Rightarrow> (string \<rightharpoonup> pictures) \<Rightarrow> (rec_error + rec_inner) \<times> (string \<rightharpoonup> pictures)" where
  "webm_new e c fs =
     (if \<not> open_ok e then (Inl No_file, fs)
      else let fs1 = fs(rc_filename c \<mapsto> [])
        in if \<not> mux_ok e then (Inl No_mux, fs1)
           else if rc_format c = AV1 \<and> \<not> private_ok e then (Inl No_private, fs1)
           else (Inr (fresh_inner False e c), fs1))"

definition hw_new ::
    "rec_env \<Rightarrow> recorder_context2 \<Rightarrow> (string \<rightharpoonup> pictures) \<Rightarrow> (rec_error + rec_inner) \<times> (string \<rightharpoonup> pictures)" where
  "hw_new e c fs =
     (if hw_mux_ok e then (Inr (fresh_inner True e c), fs(rc_filename c \<mapsto> [])) else (Inl No_hw_mux, fs))"

definition new_inner ::
    "bool \<Rightarrow> rec_env \<Rightarrow> recorder_context2 \<Rightarrow> codec_format \<Rightarrow> (string \<rightharpoonup> pictures)
      \<Rightarrow> (rec_error + rec_inner) \<times> (string \<rightharpoonup> pictures)" where
  "new_inner hw e c f fs =
     (if is_webm f then webm_new e c fs
      else if hw then hw_new e c fs else (Inl Unsupported_codec, fs))"

text \<open>
  \<^verbatim>\<open>write_video\<close> of both muxers: nothing is written before the first key picture. The time in
  nanoseconds wraps around in a release build.
\<close>

definition write_video :: "(nat \<Rightarrow> rec_env) \<Rightarrow> picture \<Rightarrow> recorder \<Rightarrow> recorder" where
  "write_video env p r =
     (case r_inner r of
        None \<Rightarrow> r
      | Some i \<Rightarrow>
          let i1 = (if pic_key p then i\<lparr>ri_key := True\<rparr> else i);
              ok = add_ok (env (consulted r));
              name = rc_filename (ri_ctx2 i);
              ts = (if ri_hw i then None else Some (pic_pts p * 1000000))
          in if \<not> ri_key i1 then r\<lparr>r_inner := Some i1\<rparr>
             else if \<not> ok then consult (r\<lparr>r_inner := Some i1\<rparr>)
             else consult (r\<lparr>r_inner := Some (i1\<lparr>ri_written := True\<rparr>),
                    r_files := (r_files r)(name \<mapsto>
                      (case r_files r name of Some ps \<Rightarrow> ps | None \<Rightarrow> []) @ [(ts, pic_key p, pic_data p)])\<rparr>))"

text \<open>\<^verbatim>\<open>Drop\<close> of both muxers, which run when \<^verbatim>\<open>inner\<close> is replaced by \<^verbatim>\<open>None\<close>.\<close>

definition drop_inner :: "(nat \<Rightarrow> rec_env) \<Rightarrow> recorder \<Rightarrow> recorder" where
  "drop_inner env r =
     (case r_inner r of
        None \<Rightarrow> r
      | Some i \<Rightarrow>
          let e = env (consulted r);
              r1 = consult (r\<lparr>r_inner := None\<rparr>)
          in if \<not> ri_written i \<or> (clock_ms e - ri_start i) div 1000 < 1
             then send_state Remove_file
                    (if delete_ok e then r1\<lparr>r_files := (r_files r1)(rc_filename (ri_ctx2 i) := None)\<rparr> else r1)
             else send_state Write_tail r1)"

subsection \<open>The recorder\<close>

definition same_kind :: "recorder_context2 \<Rightarrow> nat \<Rightarrow> nat \<Rightarrow> codec_format \<Rightarrow> bool" where
  "same_kind c w h f \<longleftrightarrow> rc_width c = w \<and> rc_height c = h \<and> rc_format c = f"

text \<open>The first half of \<^verbatim>\<open>check\<close>: a context for this size and format.\<close>

definition check_ctx2 ::
    "(nat \<Rightarrow> rec_env) \<Rightarrow> nat \<Rightarrow> nat \<Rightarrow> codec_format \<Rightarrow> recorder \<Rightarrow> (rec_error + unit) \<times> recorder" where
  "check_ctx2 env w h f r =
     (if (case r_ctx2 r of Some c \<Rightarrow> same_kind c w h f | None \<Rightarrow> False) then (Inr (), r)
      else case new_ctx2 (env (consulted r)) (r_ctx r) w h f of
             Inl err \<Rightarrow> (Inl err, consult r)
           | Inr c \<Rightarrow> (Inr (), drop_inner env (consult r\<lparr>r_ctx2 := Some c\<rparr>)))"

definition check_inner ::
    "bool \<Rightarrow> (nat \<Rightarrow> rec_env) \<Rightarrow> codec_format \<Rightarrow> recorder \<Rightarrow> (rec_error + unit) \<times> recorder" where
  "check_inner hw env f r =
     (case r_ctx2 r of
        None \<Rightarrow> (Inl Ctx2_none, r)
      | Some c \<Rightarrow>
          (case r_inner r of
             Some _ \<Rightarrow> (Inr (), r)
           | None \<Rightarrow>
               (case new_inner hw (env (consulted r)) c f (r_files r) of
                  (Inl err, fs) \<Rightarrow> (Inl err, consult r\<lparr>r_files := fs\<rparr>)
                | (Inr i, fs) \<Rightarrow>
                    (Inr (), send_state (New_file (rc_filename c))
                       (consult r\<lparr>r_files := fs, r_inner := Some i, r_pts := None\<rparr>)))))"

definition check ::
    "bool \<Rightarrow> (nat \<Rightarrow> rec_env) \<Rightarrow> nat \<Rightarrow> nat \<Rightarrow> codec_format \<Rightarrow> recorder \<Rightarrow> (rec_error + unit) \<times> recorder" where
  "check hw env w h f r =
     (case check_ctx2 env w h f r of
        (Inl err, r1) \<Rightarrow> (Inl err, r1)
      | (Inr _, r1) \<Rightarrow> check_inner hw env f r1)"

definition check_pts ::
    "bool \<Rightarrow> (nat \<Rightarrow> rec_env) \<Rightarrow> picture \<Rightarrow> nat \<Rightarrow> nat \<Rightarrow> codec_format \<Rightarrow> recorder
      \<Rightarrow> (rec_error + unit) \<times> recorder" where
  "check_pts hw env p w h f r =
     (if r_pts r = None \<and> \<not> pic_key p then (Inl First_not_key, r)
      else let r1 = r\<lparr>r_pts := Some (pic_pts p)\<rparr>
        in if pic_pts p <s (case r_pts r of Some t \<Rightarrow> t | None \<Rightarrow> 0)
           then (case check hw env w h f ((drop_inner env r1)\<lparr>r_ctx2 := None\<rparr>) of
                   (Inl err, r2) \<Rightarrow> (Inl err, r2\<lparr>check_failed := True\<rparr>)
                 | (Inr _, r2) \<Rightarrow> (Inr (), r2\<lparr>r_pts := Some (pic_pts p)\<rparr>))
           else (Inr (), r1))"

fun write_pictures ::
    "bool \<Rightarrow> (nat \<Rightarrow> rec_env) \<Rightarrow> nat \<Rightarrow> nat \<Rightarrow> codec_format \<Rightarrow> picture list \<Rightarrow> recorder
      \<Rightarrow> (rec_error + unit) \<times> recorder" where
  "write_pictures hw env w h f [] r = (Inr (), r)"
| "write_pictures hw env w h f (p # ps) r =
     (case check_pts hw env p w h f r of
        (Inl err, r1) \<Rightarrow> (Inl err, r1)
      | (Inr _, r1) \<Rightarrow> write_pictures hw env w h f ps (write_video env p r1))"

definition write_frame ::
    "bool \<Rightarrow> (nat \<Rightarrow> rec_env) \<Rightarrow> codec_format \<times> picture list \<Rightarrow> nat \<Rightarrow> nat \<Rightarrow> recorder
      \<Rightarrow> (rec_error + unit) \<times> recorder" where
  "write_frame hw env frame w h r =
     (case frame of (f, ps) \<Rightarrow>
        if check_failed r then (Inl Check_failed, r)
        else if f = Unknown then (Inl Unsupported_frame, r)
        else case check hw env w h f r of
               (Inl err, r1) \<Rightarrow> (Inl err, r1\<lparr>check_failed := True\<rparr>)
             | (Inr _, r1) \<Rightarrow>
                 if \<not> is_webm f \<and> \<not> hw then (Inl Unsupported_frame, r1)
                 else case write_pictures hw env w h f ps r1 of
                        (Inl err, r2) \<Rightarrow> (Inl err, r2)
                      | (Inr _, r2) \<Rightarrow> (Inr (), send_state New_frame r2))"

text \<open>\<^verbatim>\<open>write_message\<close> ignores the result and messages without a video frame.\<close>

definition write_message ::
    "bool \<Rightarrow> (nat \<Rightarrow> rec_env) \<Rightarrow> (codec_format \<times> picture list) option \<Rightarrow> nat \<Rightarrow> nat \<Rightarrow> recorder \<Rightarrow> recorder" where
  "write_message hw env msg w h r =
     (case msg of None \<Rightarrow> r | Some frame \<Rightarrow> snd (write_frame hw env frame w h r))"

text \<open>Several messages, each with the size of its picture; then the recorder is dropped.\<close>

fun write_messages ::
    "bool \<Rightarrow> (nat \<Rightarrow> rec_env) \<Rightarrow> ((codec_format \<times> picture list) option \<times> nat \<times> nat) list \<Rightarrow> recorder \<Rightarrow> recorder" where
  "write_messages hw env [] r = r"
| "write_messages hw env ((m, w, h) # ms) r = write_messages hw env ms (write_message hw env m w h r)"

definition recorder_drop :: "(nat \<Rightarrow> rec_env) \<Rightarrow> recorder \<Rightarrow> recorder" where
  "recorder_drop env r = drop_inner env r"

end
