(* ===== verification/RecorderProps.thy ===== *)
theory RecorderProps
  imports Recorder
begin

text \<open>
  Properties of the recorder: the files it leaves behind are playable, and the messages it
  sends follow the life of its files.
\<close>

subsection \<open>The invariant\<close>

definition stamps :: "pictures \<Rightarrow> u64 list" where
  "stamps ps = concat (map (\<lambda>(t, _). case t of None \<Rightarrow> [] | Some s \<Rightarrow> [s]) ps)"

text \<open>A track that begins with a key picture and whose time stamps do not go back.\<close>

definition good_track :: "pictures \<Rightarrow> bool" where
  "good_track ps \<longleftrightarrow> (case ps of [] \<Rightarrow> True | (t, k, d) # _ \<Rightarrow> k) \<and> sorted (stamps ps)"

lemma stamps_simps:
  "stamps [] = []" "stamps (ps @ qs) = stamps ps @ stamps qs"
  "stamps [(t, k, d)] = (case t of None \<Rightarrow> [] | Some s \<Rightarrow> [s])"
  by (simp_all add: stamps_def)

text \<open>A file is announced, pictures follow, and it is closed once; the flag tells whether one is open.\<close>

fun next_phase :: "record_state \<Rightarrow> bool \<Rightarrow> bool option" where
  "next_phase (New_file _) opened = (if opened then None else Some True)"
| "next_phase New_frame opened = (if opened then Some True else None)"
| "next_phase Write_tail opened = (if opened then Some False else None)"
| "next_phase Remove_file opened = (if opened then Some False else None)"

definition phase :: "record_state list \<Rightarrow> bool option" where
  "phase evs = foldl (\<lambda>st e. Option.bind st (next_phase e)) (Some False) evs"

lemma phase_simps [simp]:
  "phase [] = Some False" "phase (evs @ [e]) = Option.bind (phase evs) (next_phase e)"
  by (simp_all add: phase_def)

text \<open>Time stamps of milliseconds that stay below \<open>2^44\<close> (five hundred years) do not wrap around.\<close>

definition in_time :: "i64 \<Rightarrow> bool" where
  "in_time t \<longleftrightarrow> unat t < 2 ^ 44"

definition name_of_inner :: "rec_inner \<Rightarrow> string" where
  "name_of_inner i = rc_filename (ri_ctx2 i)"

definition track_ok :: "rec_inner \<Rightarrow> i64 option \<Rightarrow> pictures \<Rightarrow> bool" where
  "track_ok i pts ps \<longleftrightarrow> good_track ps \<and> ri_written i = (ps \<noteq> []) \<and> ri_key i = (ps \<noteq> []) \<and>
     (case pts of None \<Rightarrow> ps = [] | Some t \<Rightarrow> in_time t \<and> (\<forall>s \<in> set (stamps ps). s \<le> t * 1000000))"

definition inner_ok :: "recorder \<Rightarrow> bool" where
  "inner_ok r \<longleftrightarrow> (case r_inner r of None \<Rightarrow> True
     | Some i \<Rightarrow> r_ctx2 r = Some (ri_ctx2 i) \<and>
         (\<exists>ps. r_files r (name_of_inner i) = Some ps \<and> track_ok i (r_pts r) ps))"

definition files_ok :: "recorder \<Rightarrow> bool" where
  "files_ok r \<longleftrightarrow> (\<forall>p ps. r_files r p = Some ps \<longrightarrow>
     (case r_inner r of Some i \<Rightarrow> p = name_of_inner i | None \<Rightarrow> False) \<or> good_track ps \<and> ps \<noteq> [])"

definition events_ok :: "recorder \<Rightarrow> bool" where
  "events_ok r \<longleftrightarrow> (rc_tx (r_ctx r) \<longrightarrow> phase (r_events r) = Some (r_inner r \<noteq> None))"

definition rec_inv :: "recorder \<Rightarrow> bool" where
  "rec_inv r \<longleftrightarrow> inner_ok r \<and> files_ok r \<and> events_ok r"

definition sane :: "(nat \<Rightarrow> rec_env) \<Rightarrow> bool" where
  "sane env \<longleftrightarrow> (\<forall>n. mux_ok (env n) \<and> private_ok (env n) \<and> add_ok (env n) \<and> delete_ok (env n))"

lemma send_state_simps [simp]:
  "r_inner (send_state e r) = r_inner r" "r_ctx (send_state e r) = r_ctx r" "r_ctx2 (send_state e r) = r_ctx2 r"
  "r_pts (send_state e r) = r_pts r" "check_failed (send_state e r) = check_failed r"
  "r_files (send_state e r) = r_files r"
  by (simp_all add: send_state_def)

lemma consult_simps [simp]:
  "r_inner (consult r) = r_inner r" "r_ctx (consult r) = r_ctx r" "r_ctx2 (consult r) = r_ctx2 r"
  "r_pts (consult r) = r_pts r" "check_failed (consult r) = check_failed r"
  "r_files (consult r) = r_files r" "r_events (consult r) = r_events r"
  by (simp_all add: consult_def)

lemma events_send: "r_events (send_state e r) = (if rc_tx (r_ctx r) then r_events r @ [e] else r_events r)"
  by (simp add: send_state_def)

subsection \<open>Preservation\<close>

lemma drop_inner_props:
  assumes "rec_inv r" and "sane env"
  shows "rec_inv (drop_inner env r)" and "r_inner (drop_inner env r) = None"
    and "r_ctx (drop_inner env r) = r_ctx r" and "r_pts (drop_inner env r) = r_pts r"
    and "r_ctx2 (drop_inner env r) = r_ctx2 r" and "check_failed (drop_inner env r) = check_failed r"
proof -
  show "r_inner (drop_inner env r) = None" "r_ctx (drop_inner env r) = r_ctx r"
    "r_pts (drop_inner env r) = r_pts r" "r_ctx2 (drop_inner env r) = r_ctx2 r"
    "check_failed (drop_inner env r) = check_failed r"
    by (auto simp: drop_inner_def Let_def split: option.splits)
  show "rec_inv (drop_inner env r)"
  proof (cases "r_inner r")
    case None
    then show ?thesis using assms(1) by (simp add: drop_inner_def)
  next
    case (Some i)
    with assms(1) obtain ps where ps: "r_files r (name_of_inner i) = Some ps" "track_ok i (r_pts r) ps"
      by (auto simp: rec_inv_def inner_ok_def)
    then have written: "ri_written i \<Longrightarrow> ps \<noteq> []" and good: "good_track ps" by (simp_all add: track_ok_def)
    have del: "delete_ok (env n)" for n using assms(2) by (simp add: sane_def)
    have others: "good_track qs \<and> qs \<noteq> []" if "r_files r q = Some qs" "q \<noteq> name_of_inner i" for q qs
      using assms(1) Some that by (auto simp: rec_inv_def files_ok_def)
    have "good_track qs \<and> qs \<noteq> []" if q: "r_files (drop_inner env r) q = Some qs" for q qs
    proof (cases "q = name_of_inner i")
      case True
      then show ?thesis using q Some ps(1) written good del
        by (auto simp: drop_inner_def Let_def name_of_inner_def split: if_splits)
    next
      case False
      have "r_files r q = Some qs" using q Some
        by (auto simp: drop_inner_def Let_def split: if_splits)
      then show ?thesis using others False by blast
    qed
    then have "files_ok (drop_inner env r)" by (simp add: files_ok_def)
    moreover have "events_ok (drop_inner env r)"
      using assms(1) Some by (auto simp: rec_inv_def events_ok_def drop_inner_def Let_def events_send del)
    moreover have "inner_ok (drop_inner env r)"
      using Some by (simp add: inner_ok_def drop_inner_def Let_def)
    ultimately show ?thesis by (simp add: rec_inv_def)
  qed
qed

lemma drop_inner_ctx2:
  "drop_inner env (r\<lparr>r_ctx2 := c\<rparr>) = (drop_inner env r)\<lparr>r_ctx2 := c\<rparr>"
  by (auto simp: drop_inner_def Let_def consult_def send_state_def split: option.splits)

lemma rec_inv_closed:
  assumes "rec_inv r" and "r_inner r = None"
  shows "rec_inv (r\<lparr>r_ctx2 := c\<rparr>)" and "rec_inv (r\<lparr>r_pts := t\<rparr>)"
  using assms by (simp_all add: rec_inv_def inner_ok_def files_ok_def events_ok_def)

lemma rec_inv_other [simp]:
  "rec_inv (consult r) = rec_inv r" "rec_inv (r\<lparr>check_failed := b\<rparr>) = rec_inv r"
  by (cases "r_inner r"; simp add: rec_inv_def inner_ok_def files_ok_def events_ok_def)+

lemma check_ctx2_props:
  assumes "rec_inv r" and "sane env" and "check_ctx2 env w h f r = (res, r')"
  shows "rec_inv r'" and "r_ctx r' = r_ctx r" and "r_pts r' = r_pts r"
proof -
  have c: "rec_inv (consult r)" using assms(1) by simp
  have d: "drop_inner env (consult r\<lparr>r_ctx2 := x\<rparr>) = (drop_inner env (consult r))\<lparr>r_ctx2 := x\<rparr>" for x
    by (rule drop_inner_ctx2)
  note p = drop_inner_props [OF c assms(2)]
  show "rec_inv r'" "r_ctx r' = r_ctx r" "r_pts r' = r_pts r"
    using assms(1,3) rec_inv_closed(1) [OF p(1,2)] p(3,4)
    by (auto simp: check_ctx2_def d split: if_splits sum.splits)
qed

lemma check_inner_props:
  assumes "rec_inv r" and "sane env" and "check_inner hw env f r = (res, r')"
  shows "rec_inv r'" and "r_ctx r' = r_ctx r"
    and "res = Inr () \<Longrightarrow> r_inner r' \<noteq> None"
    and "r_pts r' = r_pts r \<or> r_pts r' = None"
proof -
  have ok: "mux_ok (env n)" "private_ok (env n)" for n using assms(2) by (simp_all add: sane_def)
  show ctx: "r_ctx r' = r_ctx r" and "res = Inr () \<Longrightarrow> r_inner r' \<noteq> None"
    and "r_pts r' = r_pts r \<or> r_pts r' = None"
    using assms(3) by (auto simp: check_inner_def split: option.splits prod.splits sum.splits)
  show "rec_inv r'"
  proof (cases "r_ctx2 r")
    case None
    then show ?thesis using assms(1,3) by (simp add: check_inner_def)
  next
    case (Some c)
    show ?thesis
    proof (cases "r_inner r")
      case inner: None
      obtain nres fs where new: "new_inner hw (env (consulted r)) c f (r_files r) = (nres, fs)"
        by (cases "new_inner hw (env (consulted r)) c f (r_files r)")
      show ?thesis
      proof (cases nres)
        case (Inl err)
        then have "fs = r_files r"
          using new ok by (auto simp: new_inner_def webm_new_def hw_new_def Let_def split: if_splits)
        then have "r' = consult r" using assms(3) Some inner new Inl
          by (simp add: check_inner_def consult_def)
        then show ?thesis using assms(1) by simp
      next
        case (Inr i)
        then have i: "ri_ctx2 i = c" "\<not> ri_written i" "\<not> ri_key i" "fs = (r_files r)(rc_filename c \<mapsto> [])"
          using new by (auto simp: new_inner_def webm_new_def hw_new_def fresh_inner_def Let_def split: if_splits)
        then have "r' = send_state (New_file (rc_filename c)) (consult r\<lparr>r_files := fs, r_inner := Some i, r_pts := None\<rparr>)"
          using assms(3) Some inner new Inr by (simp add: check_inner_def)
        then show ?thesis using assms(1) Some inner i
          by (auto simp: rec_inv_def inner_ok_def files_ok_def events_ok_def name_of_inner_def track_ok_def
              good_track_def stamps_def events_send)
      qed
    next
      case inner: (Some i)
      then show ?thesis using assms(1,3) Some by (simp add: check_inner_def)
    qed
  qed
qed

lemma check_props:
  assumes "rec_inv r" and "sane env" and "check hw env w h f r = (res, r')"
  shows "rec_inv r'" and "r_ctx r' = r_ctx r"
    and "res = Inr () \<Longrightarrow> r_inner r' \<noteq> None"
    and "r_pts r' = r_pts r \<or> r_pts r' = None"
proof -
  obtain res1 r1 where one: "check_ctx2 env w h f r = (res1, r1)"
    by (cases "check_ctx2 env w h f r")
  note p1 = check_ctx2_props [OF assms(1,2) one]
  have "(\<exists>err. res = Inl err) \<and> r' = r1 \<or> check_inner hw env f r1 = (res, r')"
    using assms(3) one by (cases res1) (auto simp: check_def)
  then show "rec_inv r'" "r_ctx r' = r_ctx r" "res = Inr () \<Longrightarrow> r_inner r' \<noteq> None"
    "r_pts r' = r_pts r \<or> r_pts r' = None"
    using p1 check_inner_props [OF p1(1) assms(2), of hw f res r'] by auto
qed

lemma rec_inv_pts:
  assumes "rec_inv r" and "in_time t" and "case r_pts r of None \<Rightarrow> True | Some s \<Rightarrow> s \<le> t"
    and "case r_pts r of None \<Rightarrow> True | Some s \<Rightarrow> in_time s"
  shows "rec_inv (r\<lparr>r_pts := Some t\<rparr>)"
proof (cases "r_inner r")
  case None
  then show ?thesis using rec_inv_closed(2) assms(1) by blast
next
  case (Some i)
  have le: "s * 1000000 \<le> t * 1000000" if "r_pts r = Some s" for s
  proof -
    have "unat s < 2 ^ 44" "unat t < 2 ^ 44" "unat s \<le> unat t"
      using assms(2-4) that by (simp_all add: in_time_def word_le_nat_alt)
    then show ?thesis
      by (simp add: word_le_nat_alt unat_word_ariths)
  qed
  obtain ps where ps: "r_files r (name_of_inner i) = Some ps" "track_ok i (r_pts r) ps" "r_ctx2 r = Some (ri_ctx2 i)"
    using assms(1) Some by (auto simp: rec_inv_def inner_ok_def)
  have "track_ok i (Some t) ps"
    using ps(2) assms(2) le
    by (cases "r_pts r") (auto simp: track_ok_def stamps_def intro: order_trans)
  then have "inner_ok (r\<lparr>r_pts := Some t\<rparr>)" using Some ps by (simp add: inner_ok_def)
  then show ?thesis using assms(1) Some by (simp add: rec_inv_def files_ok_def events_ok_def)
qed

definition pts_in_time :: "recorder \<Rightarrow> bool" where
  "pts_in_time r \<longleftrightarrow> (case r_pts r of None \<Rightarrow> True | Some s \<Rightarrow> in_time s)"

lemma in_time_signed: 
  assumes "in_time s" "in_time t" shows "(s <s t) = (s < t)"
proof -
  have "sint w = uint w" if "in_time w" for w :: i64
  proof -
    have "int (unat w) < int (2 ^ 44)" using that by (simp only: in_time_def of_nat_less_iff)
    then have up: "uint w < 2 ^ 63" by simp
    have low: "- (2 ^ 63) \<le> uint w" by (rule order_trans [OF _ uint_ge_0 [of w]]) simp
    have "sint w = signed_take_bit 63 (uint w)" by (simp add: sint_uint)
    also have "\<dots> = uint w" using low up by (rule signed_take_bit_int_eq_self)
    finally show ?thesis .
  qed
  then show ?thesis using assms by (simp add: word_sless_alt word_less_def)
qed

lemma write_video_props:
  assumes "rec_inv r" and "sane env" and "r_pts r = Some (pic_pts p)" and "in_time (pic_pts p)"
  shows "rec_inv (write_video env p r)" and "r_ctx (write_video env p r) = r_ctx r"
    and "(r_inner (write_video env p r) = None) = (r_inner r = None)"
    and "r_pts (write_video env p r) = r_pts r"
proof -
  show "r_ctx (write_video env p r) = r_ctx r"
    "(r_inner (write_video env p r) = None) = (r_inner r = None)"
    "r_pts (write_video env p r) = r_pts r"
    by (auto simp: write_video_def Let_def split: option.splits)
  show "rec_inv (write_video env p r)"
  proof (cases "r_inner r")
    case None
    then show ?thesis using assms(1) by (simp add: write_video_def)
  next
    case (Some i)
    obtain ps where ps: "r_files r (name_of_inner i) = Some ps" "track_ok i (r_pts r) ps" "r_ctx2 r = Some (ri_ctx2 i)"
      using assms(1) Some by (auto simp: rec_inv_def inner_ok_def)
    define ts where "ts = (if ri_hw i then None else Some (pic_pts p * 1000000))"
    define qs where "qs = ps @ [(ts, pic_key p, pic_data p)]"
    define i1 where "i1 = (if pic_key p then i\<lparr>ri_key := True\<rparr> else i)"
    have i1: "name_of_inner i1 = name_of_inner i" "ri_ctx2 i1 = ri_ctx2 i" "ri_written i1 = ri_written i"
      by (simp_all add: i1_def name_of_inner_def)
    have one: "track_ok i1 (r_pts r) ps" if "\<not> ri_key i1"
      using ps(2) that by (auto simp: track_ok_def i1_def split: if_splits)
    have two: "track_ok (i1\<lparr>ri_written := True\<rparr>) (r_pts r) qs" if "ri_key i1"
    proof -
      have "good_track ps" "\<And>s. s \<in> set (stamps ps) \<Longrightarrow> s \<le> pic_pts p * 1000000"
        using ps(2) assms(3) by (simp_all add: track_ok_def)
      moreover have "ps = [] \<Longrightarrow> pic_key p"
        using ps(2) that by (auto simp: track_ok_def i1_def split: if_splits)
      moreover have "(case ps of [] \<Rightarrow> pic_key p | (t, k, d) # _ \<Rightarrow> k) =
          (case qs of [] \<Rightarrow> True | (t, k, d) # _ \<Rightarrow> k)"
        by (cases ps) (auto simp: qs_def)
      moreover have "stamps qs = stamps ps @ (case ts of None \<Rightarrow> [] | Some s \<Rightarrow> [s])"
        by (simp add: qs_def stamps_simps)
      moreover have "ts = None \<or> ts = Some (pic_pts p * 1000000)" by (simp add: ts_def)
      ultimately have "sorted (stamps qs)" and below: "\<And>s. s \<in> set (stamps qs) \<Longrightarrow> s \<le> pic_pts p * 1000000"
        and "case qs of [] \<Rightarrow> True | (t, k, d) # _ \<Rightarrow> k"
        by (auto simp: good_track_def sorted_append split: list.splits)
      then have "good_track qs" by (simp add: good_track_def)
      with below show ?thesis using that assms(3,4) by (simp add: track_ok_def qs_def)
    qed
    have "add_ok (env n)" for n using assms(2) by (simp add: sane_def)
    then have eq: "write_video env p r = (if \<not> ri_key i1 then r\<lparr>r_inner := Some i1\<rparr>
       else consult (r\<lparr>r_inner := Some (i1\<lparr>ri_written := True\<rparr>), r_files := (r_files r)(name_of_inner i \<mapsto> qs)\<rparr>))"
      using Some ps(1) by (simp add: write_video_def Let_def i1_def qs_def ts_def name_of_inner_def)
    have "rec_inv (r\<lparr>r_inner := Some i1\<rparr>)" if "\<not> ri_key i1"
      using assms(1) Some ps(1,3) one [OF that] i1
      by (simp add: rec_inv_def inner_ok_def files_ok_def events_ok_def)
    moreover have "rec_inv (r\<lparr>r_inner := Some (i1\<lparr>ri_written := True\<rparr>), r_files := (r_files r)(name_of_inner i \<mapsto> qs)\<rparr>)"
      if "ri_key i1"
      using assms(1) Some ps(1,3) two [OF that] i1
      by (auto simp: rec_inv_def inner_ok_def files_ok_def events_ok_def name_of_inner_def)
    ultimately show ?thesis unfolding eq by simp
  qed
qed

lemma check_pts_props:
  assumes "rec_inv r" and "sane env" and "pts_in_time r" and "in_time (pic_pts p)"
    and "r_inner r \<noteq> None" and "check_pts hw env p w h f r = (res, r')"
  shows "rec_inv r'" and "r_ctx r' = r_ctx r" and "pts_in_time r'"
    and "res = Inr () \<Longrightarrow> r_inner r' \<noteq> None \<and> r_pts r' = Some (pic_pts p)"
proof -
  let ?r1 = "r\<lparr>r_pts := Some (pic_pts p)\<rparr>"
  let ?r2 = "(drop_inner env ?r1)\<lparr>r_ctx2 := None\<rparr>"
  let ?rewinds = "pic_pts p <s (case r_pts r of Some t \<Rightarrow> t | None \<Rightarrow> 0)"
  have time: "pts_in_time r" "in_time (pic_pts p)" by fact+
  consider (refused) "res = Inl First_not_key" "r' = r"
    | (forward) "\<not> ?rewinds" "res = Inr ()" "r' = ?r1"
    | (rewind) res3 r3 where "?rewinds" "check hw env w h f ?r2 = (res3, r3)"
        "r' = (case res3 of Inl _ \<Rightarrow> r3\<lparr>check_failed := True\<rparr> | Inr _ \<Rightarrow> r3\<lparr>r_pts := Some (pic_pts p)\<rparr>)"
        "res = res3"
    using assms(6) by (cases "check hw env w h f ?r2"; cases "fst (check hw env w h f ?r2)")
      (auto simp: check_pts_def Let_def split: if_splits)
  then have "rec_inv r' \<and> r_ctx r' = r_ctx r \<and> pts_in_time r' \<and>
    (res = Inr () \<longrightarrow> r_inner r' \<noteq> None \<and> r_pts r' = Some (pic_pts p))"
  proof cases
    case refused
    then show ?thesis using assms by simp
  next
    case forward
    have "case r_pts r of None \<Rightarrow> True | Some s \<Rightarrow> s \<le> pic_pts p"
      using forward(1) time by (auto simp: pts_in_time_def in_time_signed split: option.splits)
    then have "rec_inv ?r1" using rec_inv_pts assms(1) time by (auto simp: pts_in_time_def)
    then show ?thesis using forward assms time by (simp add: pts_in_time_def)
  next
    case rewind
    have eq: "?r2 = (drop_inner env r)\<lparr>r_pts := Some (pic_pts p), r_ctx2 := None\<rparr>"
      by (auto simp: drop_inner_def Let_def consult_def send_state_def split: option.splits)
    note d = drop_inner_props [OF assms(1,2)]
    have "rec_inv ?r2" and 2: "r_ctx ?r2 = r_ctx r" "r_pts ?r2 = Some (pic_pts p)"
      unfolding eq using rec_inv_closed d by simp_all
    note c = check_props [OF this(1) assms(2) rewind(2)]
    have le: "case r_pts r3 of None \<Rightarrow> True | Some s \<Rightarrow> s \<le> pic_pts p"
      "case r_pts r3 of None \<Rightarrow> True | Some s \<Rightarrow> in_time s"
      using c(4) 2 time by auto
    then show ?thesis using rewind c 2 rec_inv_pts [OF c(1) time(2)]
      by (cases res3) (auto simp: pts_in_time_def time)
  qed
  then show "rec_inv r'" "r_ctx r' = r_ctx r" "pts_in_time r'"
    "res = Inr () \<Longrightarrow> r_inner r' \<noteq> None \<and> r_pts r' = Some (pic_pts p)" by auto
qed

lemma write_pictures_props:
  assumes "sane env" and "rec_inv r" and "pts_in_time r" and "list_all (\<lambda>p. in_time (pic_pts p)) ps"
    and "r_inner r \<noteq> None" and "write_pictures hw env w h f ps r = (res, r')"
  shows "rec_inv r' \<and> pts_in_time r' \<and> r_ctx r' = r_ctx r \<and> (res = Inr () \<longrightarrow> r_inner r' \<noteq> None)"
  using assms(2-)
proof (induction ps arbitrary: r)
  case Nil
  then show ?case by simp
next
  case (Cons p ps)
  obtain res1 r1 where one: "check_pts hw env p w h f r = (res1, r1)"
    by (cases "check_pts hw env p w h f r")
  note c = check_pts_props [OF Cons.prems(1) assms(1) Cons.prems(2) _ Cons.prems(4) one]
  show ?case
  proof (cases res1)
    case (Inl err)
    then show ?thesis using Cons.prems c one by auto
  next
    case (Inr u)
    then have r1: "r_inner r1 \<noteq> None" "r_pts r1 = Some (pic_pts p)" "rec_inv r1" "pts_in_time r1" "r_ctx r1 = r_ctx r"
      using c Cons.prems(3) by simp_all
    have "in_time (pic_pts p)" using Cons.prems(3) by simp
    note v = write_video_props [OF r1(3) assms(1) r1(2) this]
    have "write_pictures hw env w h f ps (write_video env p r1) = (res, r')"
      using Cons.prems(5) one Inr by simp
    then show ?thesis
      using Cons.IH [of "write_video env p r1"] v r1 Cons.prems(3) by (simp add: pts_in_time_def)
  qed
qed

definition picture_times_ok :: "codec_format \<times> picture list \<Rightarrow> bool" where
  "picture_times_ok frame \<longleftrightarrow> list_all (\<lambda>p. in_time (pic_pts p)) (snd frame)"

lemma write_frame_props:
  assumes "sane env" and "rec_inv r" and "pts_in_time r" and "picture_times_ok frame"
  shows "rec_inv (snd (write_frame hw env frame w h r)) \<and> pts_in_time (snd (write_frame hw env frame w h r))
    \<and> r_ctx (snd (write_frame hw env frame w h r)) = r_ctx r"
proof -
  obtain f ps where frame: "frame = (f, ps)" by (cases frame)
  obtain res1 r1 where one: "check hw env w h f r = (res1, r1)" by (cases "check hw env w h f r")
  note c = check_props [OF assms(2,1) one]
  have t1: "pts_in_time r1" using c(4) assms(3) by (auto simp: pts_in_time_def)
  show ?thesis
  proof (cases "check_failed r \<or> f = Unknown \<or> (\<exists>err. res1 = Inl err) \<or> \<not> is_webm f \<and> \<not> hw")
    case True
    then show ?thesis
      using one c t1 assms by (cases res1) (auto simp: write_frame_def frame pts_in_time_def split: sum.splits)
  next
    case False
    then have run: "res1 = Inr ()" by (cases res1) auto
    obtain res2 r2 where two: "write_pictures hw env w h f ps r1 = (res2, r2)"
      by (cases "write_pictures hw env w h f ps r1")
    have p: "rec_inv r2 \<and> pts_in_time r2 \<and> r_ctx r2 = r_ctx r1 \<and> (res2 = Inr () \<longrightarrow> r_inner r2 \<noteq> None)"
      using write_pictures_props [OF assms(1) c(1) t1 _ c(3) [OF run] two] assms(4)
      by (simp add: picture_times_ok_def frame)
    have new: "rec_inv (send_state New_frame r2)" if "r_inner r2 \<noteq> None"
      using p that by (auto simp: rec_inv_def inner_ok_def files_ok_def events_ok_def events_send)
    show ?thesis
    proof (cases res2)
      case (Inl err)
      then show ?thesis using False run one two p c(2) by (auto simp: write_frame_def frame)
    next
      case (Inr u)
      then show ?thesis using False run one two p c(2) new
        by (auto simp: write_frame_def frame pts_in_time_def)
    qed
  qed
qed

lemma write_messages_props:
  assumes "sane env" and "rec_inv r" and "pts_in_time r"
    and "list_all (\<lambda>(m, w, h). case m of None \<Rightarrow> True | Some frame \<Rightarrow> picture_times_ok frame) ms"
  shows "rec_inv (write_messages hw env ms r) \<and> r_ctx (write_messages hw env ms r) = r_ctx r"
  using assms(2-)
proof (induction ms arbitrary: r)
  case Nil
  then show ?case by simp
next
  case (Cons msg ms)
  obtain m w h where msg: "msg = (m, w, h)" by (cases msg)
  have "rec_inv (write_message hw env m w h r) \<and> pts_in_time (write_message hw env m w h r)
      \<and> r_ctx (write_message hw env m w h r) = r_ctx r"
  proof (cases m)
    case None
    then show ?thesis using Cons.prems by (simp add: write_message_def)
  next
    case (Some frame)
    then show ?thesis using Cons.prems write_frame_props [OF assms(1) Cons.prems(1,2), of frame hw w h]
      by (simp add: write_message_def msg)
  qed
  then show ?case using Cons by (simp add: msg)
qed

lemma recorder_new_inv: "rec_inv (recorder_new ctx Map.empty)" "pts_in_time (recorder_new ctx Map.empty)"
  by (simp_all add: recorder_new_def rec_inv_def inner_ok_def files_ok_def events_ok_def pts_in_time_def)

text \<open>C9. Whatever sequence of video messages a recorder is given, once it has been dropped every
file it left on disk has at least one picture, begins with a key picture and has time stamps
that never go back; and the messages on its channel announce a file before its pictures and
close it exactly once before the next. The muxers and the removal of a file do not fail, and
the stamps stay below \<open>2^44\<close> milliseconds.\<close>

theorem recordings_are_playable:
  assumes "sane env"
    and "list_all (\<lambda>(m, w, h). case m of None \<Rightarrow> True | Some frame \<Rightarrow> picture_times_ok frame) ms"
    and "r' = recorder_drop env (write_messages hw env ms (recorder_new ctx Map.empty))"
  shows "(\<forall>name ps. r_files r' name = Some ps \<longrightarrow> ps \<noteq> [] \<and> good_track ps)
    \<and> (rc_tx ctx \<longrightarrow> phase (r_events r') = Some False)"
proof -
  let ?r = "write_messages hw env ms (recorder_new ctx Map.empty)"
  have inv: "rec_inv ?r" and ctx: "r_ctx ?r = ctx"
    using write_messages_props [OF assms(1) recorder_new_inv assms(2)] by (simp_all add: recorder_new_def)
  note d = drop_inner_props [OF inv assms(1)]
  show ?thesis
    using d(1-3) ctx by (auto simp: assms(3) recorder_drop_def rec_inv_def files_ok_def events_ok_def)
qed

subsection \<open>A steady stream is recorded whole\<close>

definition track_of :: "picture \<Rightarrow> u64 option \<times> bool \<times> bytes" where
  "track_of p = (Some (pic_pts p * 1000000), pic_key p, pic_data p)"

text \<open>The recorder has an open webm file that holds exactly the pictures \<open>ps\<close>.\<close>

definition recording :: "nat \<Rightarrow> nat \<Rightarrow> codec_format \<Rightarrow> string \<Rightarrow> picture list \<Rightarrow> recorder \<Rightarrow> bool" where
  "recording w h f name ps r \<longleftrightarrow> \<not> check_failed r \<and>
     (case r_inner r of None \<Rightarrow> False | Some i \<Rightarrow> \<not> ri_hw i \<and> ri_key i = (ps \<noteq> [])
        \<and> r_ctx2 r = Some (ri_ctx2 i) \<and> same_kind (ri_ctx2 i) w h f \<and> rc_filename (ri_ctx2 i) = name)
     \<and> r_files r name = Some (List.map track_of ps)
     \<and> r_pts r = (if ps = [] then None else Some (pic_pts (List.last ps)))"

text \<open>\<open>p\<close> may follow the pictures \<open>ps\<close>.\<close>

definition continues :: "picture list \<Rightarrow> picture \<Rightarrow> bool" where
  "continues ps p \<longleftrightarrow> in_time (pic_pts p) \<and>
     (if ps = [] then pic_key p else pic_pts (List.last ps) \<le> pic_pts p \<and> in_time (pic_pts (List.last ps)))"

fun steady :: "picture list \<Rightarrow> picture list \<Rightarrow> bool" where
  "steady ps [] = True"
| "steady ps (q # qs) = (continues ps q \<and> steady (ps @ [q]) qs)"

lemma steady_append: "steady ps (qs @ rs) = (steady ps qs \<and> steady (ps @ qs) rs)"
  by (induction ps qs rule: steady.induct) auto

lemma in_time_zero: "in_time 0"
  by (simp add: in_time_def)

lemma recording_picture:
  assumes "recording w h f name ps r" and "continues ps p" and "sane env"
  shows "\<exists>r1. check_pts hw env p w h f r = (Inr (), r1) \<and> recording w h f name (ps @ [p]) (write_video env p r1)"
proof -
  obtain i where i: "r_inner r = Some i" "\<not> ri_hw i" "ri_key i = (ps \<noteq> [])" "r_ctx2 r = Some (ri_ctx2 i)"
      "same_kind (ri_ctx2 i) w h f" "rc_filename (ri_ctx2 i) = name"
      "r_files r name = Some (List.map track_of ps)"
      "r_pts r = (if ps = [] then None else Some (pic_pts (List.last ps)))" "\<not> check_failed r"
    using assms(1) by (auto simp: recording_def split: option.splits)
  have fwd: "\<not> pic_pts p <s (case r_pts r of Some t \<Rightarrow> t | None \<Rightarrow> 0)"
    using assms(2) i(8) in_time_zero by (cases "ps = []") (auto simp: continues_def in_time_signed)
  have key: "ps = [] \<Longrightarrow> pic_key p" using assms(2) by (simp add: continues_def)
  have add: "add_ok (env n)" for n using assms(3) by (simp add: sane_def)
  have "check_pts hw env p w h f r = (Inr (), r\<lparr>r_pts := Some (pic_pts p)\<rparr>)"
    using fwd key i(8) by (cases "ps = []") (auto simp: check_pts_def Let_def)
  moreover have "recording w h f name (ps @ [p]) (write_video env p (r\<lparr>r_pts := Some (pic_pts p)\<rparr>))"
    using i key add by (cases "pic_key p") (auto simp: write_video_def Let_def recording_def track_of_def)
  ultimately show ?thesis by blast
qed

lemma recording_pictures:
  assumes "recording w h f name ps r" and "steady ps qs" and "sane env"
  shows "\<exists>r1. write_pictures hw env w h f qs r = (Inr (), r1) \<and> recording w h f name (ps @ qs) r1"
  using assms(1,2)
proof (induction ps qs arbitrary: r rule: steady.induct)
  case (1 ps)
  then show ?case by simp
next
  case (2 ps q qs)
  from 2(3) have "continues ps q" by simp
  from recording_picture [OF 2(2) this assms(3)] obtain r1 where
      "check_pts hw env q w h f r = (Inr (), r1)" "recording w h f name (ps @ [q]) (write_video env q r1)"
    by blast
  then show ?case using 2(1) [of "write_video env q r1"] 2(3) by simp
qed

lemma recording_check:
  assumes "recording w h f name ps r"
  shows "check hw env w h f r = (Inr (), r)"
  using assms by (cases "r_inner r") (auto simp: recording_def check_def check_ctx2_def check_inner_def)

lemma recording_send: "recording w h f name ps (send_state e r) = recording w h f name ps r"
  by (cases "r_inner r") (simp_all add: recording_def)

lemma recording_frame:
  assumes "recording w h f name ps r" and "steady ps qs" and "sane env" and "is_webm f"
  shows "recording w h f name (ps @ qs) (write_message hw env (Some (f, qs)) w h r)"
proof -
  obtain r1 where "write_pictures hw env w h f qs r = (Inr (), r1)" "recording w h f name (ps @ qs) r1"
    using recording_pictures [OF assms(1-3)] by blast
  moreover have "\<not> check_failed r" "f \<noteq> Unknown"
    using assms(1,4) by (auto simp: recording_def is_webm_def)
  ultimately show ?thesis using assms(4) recording_check [OF assms(1)]
    by (simp add: write_message_def write_frame_def recording_send)
qed

definition as_message :: "codec_format \<Rightarrow> nat \<Rightarrow> nat \<Rightarrow> picture list
    \<Rightarrow> (codec_format \<times> picture list) option \<times> nat \<times> nat" where
  "as_message f w h ps = (Some (f, ps), w, h)"

lemma recording_messages:
  assumes "recording w h f name ps r" and "steady ps (concat qss)" and "sane env" and "is_webm f"
  shows "recording w h f name (ps @ concat qss) (write_messages hw env (map (as_message f w h) qss) r)"
  using assms(1,2)
proof (induction qss arbitrary: ps r)
  case Nil
  then show ?case by simp
next
  case (Cons qs qss)
  then have "steady ps qs" "steady (ps @ qs) (concat qss)" by (simp_all add: steady_append)
  from recording_frame [OF Cons.prems(1) this(1) assms(3,4), of hw] this(2)
  have "recording w h f name ((ps @ qs) @ concat qss)
      (write_messages hw env (map (as_message f w h) qss) (write_message hw env (Some (f, qs)) w h r))"
    by (rule Cons.IH)
  then show ?case by (simp add: as_message_def [of f w h qs])
qed

lemma first_check:
  assumes "sane env" and "dir_ok (env 0)" and "open_ok (env 1)" and "is_webm f"
  shows "\<exists>r1. check hw env w h f (recorder_new ctx fs) = (Inr (), r1)
    \<and> recording w h f (file_name (env 0) ctx f) [] r1"
proof -
  have ok: "mux_ok (env n)" "private_ok (env n)" for n using assms(1) by (simp_all add: sane_def)
  show ?thesis
    using assms ok
    by (simp add: check_def check_ctx2_def check_inner_def recorder_new_def new_ctx2_def drop_inner_def
        consult_def new_inner_def webm_new_def fresh_inner_def Let_def recording_def same_kind_def)
qed

text \<open>A stream of webm frames of one size and format that begins with a key picture and
whose time does not go back is recorded whole: the file named when the recording began holds every
picture of every message, in order, with its time in nanoseconds, whatever frames the pictures
were sent in.\<close>

theorem steady_stream_is_recorded:
  assumes "sane env" and "dir_ok (env 0)" and "open_ok (env 1)" and "is_webm f"
    and "qss \<noteq> []" and "steady [] (concat qss)"
  shows "r_files (write_messages hw env (map (as_message f w h) qss) (recorder_new ctx fs)) (file_name (env 0) ctx f)
    = Some (List.map track_of (concat qss))"
proof -
  obtain qs rest where qss: "qss = qs # rest" using assms(5) by (cases qss) auto
  obtain r1 where r1: "check hw env w h f (recorder_new ctx fs) = (Inr (), r1)"
      "recording w h f (file_name (env 0) ctx f) [] r1"
    using first_check [OF assms(1-4)] by blast
  have "write_message hw env (Some (f, qs)) w h (recorder_new ctx fs) = write_message hw env (Some (f, qs)) w h r1"
  proof -
    have "\<not> check_failed (recorder_new ctx fs)" "\<not> check_failed r1" "f \<noteq> Unknown"
      using r1(2) assms(4) by (auto simp: recorder_new_def recording_def is_webm_def)
    then show ?thesis using r1(1) recording_check [OF r1(2)]
      by (simp add: write_message_def write_frame_def)
  qed
  then have "write_messages hw env (map (as_message f w h) qss) (recorder_new ctx fs)
      = write_messages hw env (map (as_message f w h) qss) r1"
    by (simp add: qss as_message_def)
  then show ?thesis
    using recording_messages [OF r1(2) assms(6,1,4), of hw] by (simp add: recording_def)
qed

subsection \<open>Concrete recordings\<close>

definition demo_rec_env :: "nat \<Rightarrow> rec_env" where
  "demo_rec_env n = \<lparr>dir_ok = True, open_ok = True, mux_ok = True, private_ok = True, hw_mux_ok = True,
     add_ok = True, delete_ok = True, stamp = replicate n CHR ''t'', clock_ms = 1500 * n\<rparr>"

definition demo_rec_ctx :: recorder_context where
  "demo_rec_ctx = \<lparr>rc_server = False, rc_id = ''a'', rc_dir = ''d'', rc_display = 0, rc_tx = True\<rparr>"

definition pic :: "nat \<Rightarrow> bool \<Rightarrow> picture" where
  "pic t k = \<lparr>pic_data = [1, 2], pic_key = k, pic_pts = of_nat t\<rparr>"

definition demo_messages :: "((codec_format \<times> picture list) option \<times> nat \<times> nat) list" where
  "demo_messages = [(Some (VP9, [pic 5 True, pic 6 False]), 4, 3), (None, 4, 3)]"

abbreviation demo_recorded :: recorder where
  "demo_recorded \<equiv> recorder_drop demo_rec_env
     (write_messages False demo_rec_env demo_messages (recorder_new demo_rec_ctx Map.empty))"

lemmas recorder_eval = write_message_def write_frame_def write_video_def check_def check_ctx2_def
  check_inner_def check_pts_def drop_inner_def new_inner_def webm_new_def fresh_inner_def new_ctx2_def
  same_kind_def send_state_def consult_def recorder_new_def recorder_drop_def is_webm_def Let_def demo_messages_def demo_rec_ctx_def demo_rec_env_def pic_def

definition demo_name :: "string \<Rightarrow> string" where
  "demo_name s = file_name (demo_rec_env 0\<lparr>stamp := s\<rparr>) demo_rec_ctx VP9"

lemma file_name_demo:
  "file_name \<lparr>dir_ok = a, open_ok = b, mux_ok = c, private_ok = d, hw_mux_ok = g, add_ok = k,
      delete_ok = l, stamp = s, clock_ms = m\<rparr>
    \<lparr>rc_server = False, rc_id = ''a'', rc_dir = ''d'', rc_display = 0, rc_tx = True\<rparr> VP9 = demo_name s"
  by (simp add: demo_name_def file_name_def demo_rec_ctx_def)

lemma demo_stamps_ascend: "\<not> (5 :: i64) <s 0" "\<not> (6 :: i64) <s 5"
  by (simp_all add: word_sless_alt)

lemma sane_demo: "sane demo_rec_env"
  by (simp add: sane_def demo_rec_env_def)

lemma demo_recorded_file:
  "r_files demo_recorded (file_name (demo_rec_env 0) demo_rec_ctx VP9)
    = Some [(Some 5000000, True, [1, 2]), (Some 6000000, False, [1, 2])]"
  by (simp add: recorder_eval file_name_demo demo_stamps_ascend)

theorem recordings_are_playable_witness:
  "(case r_files demo_recorded (file_name (demo_rec_env 0) demo_rec_ctx VP9) of
      None \<Rightarrow> False | Some ps \<Rightarrow> length ps = 2 \<and> good_track ps)
    \<and> phase (r_events demo_recorded) = Some False"
proof -
  have times: "list_all (\<lambda>(m, w, h). case m of None \<Rightarrow> True | Some frame \<Rightarrow> picture_times_ok frame) demo_messages"
    by (simp add: demo_messages_def picture_times_ok_def in_time_def pic_def)
  note p = recordings_are_playable [OF sane_demo times refl, of False demo_rec_ctx]
  have "rc_tx demo_rec_ctx" by (simp add: demo_rec_ctx_def)
  then show ?thesis using p demo_recorded_file by simp
qed

theorem steady_stream_is_recorded_witness:
  "r_files (write_messages False demo_rec_env
       (map (as_message VP9 4 3) [[pic 5 True], [pic 6 False, pic 8 False]])
       (recorder_new demo_rec_ctx Map.empty))
     (file_name (demo_rec_env 0) demo_rec_ctx VP9)
    = Some (List.map track_of [pic 5 True, pic 6 False, pic 8 False])"
proof -
  have "steady [] (concat [[pic 5 True], [pic 6 False, pic 8 False]])"
    by (simp add: continues_def in_time_def pic_def)
  from steady_stream_is_recorded [OF sane_demo _ _ _ _ this, of VP9] show ?thesis
    by (simp add: demo_rec_env_def is_webm_def)
qed

subsection \<open>Where the hypotheses matter\<close>

text \<open>A muxer that cannot be made leaves an empty file behind, as the file is opened first.\<close>

lemma failed_muxer_leaves_an_empty_file:
  "r_files (recorder_drop (\<lambda>n. demo_rec_env n\<lparr>mux_ok := False\<rparr>)
      (write_messages False (\<lambda>n. demo_rec_env n\<lparr>mux_ok := False\<rparr>) demo_messages
        (recorder_new demo_rec_ctx Map.empty))) (file_name (demo_rec_env 0) demo_rec_ctx VP9) = Some []"
  by (simp add: recorder_eval file_name_demo demo_stamps_ascend good_track_def stamps_def)

text \<open>If the muxer refuses the key picture, the next picture begins the file although it is not one.\<close>

lemma refused_key_picture_starts_the_file_wrong:
  "(let env = (\<lambda>n. demo_rec_env n\<lparr>add_ok := n \<noteq> 2\<rparr>)
    in map_option good_track (r_files (write_messages False env demo_messages (recorder_new demo_rec_ctx Map.empty))
         (file_name (demo_rec_env 0) demo_rec_ctx VP9))) = Some False"
  by (simp add: recorder_eval file_name_demo demo_stamps_ascend good_track_def stamps_def)

end
