(* ===== verification/ServerLiveness.thy ===== *)
theory ServerLiveness
  imports ServerProps
begin

text \<open>
  What happens over time: a run of the server as the sequence of the datagrams its socket
  receives and the passes of its auto-disconnect task, each with the clock's reading. A client
  that has fallen silent loses its slots at the first pass that comes late enough, whatever the
  others send.
\<close>

datatype server_event = Datagram bytes sock_addr | Tick

text \<open>After a panic the receive loop is gone and takes no more datagrams, as in \<open>crash_step\<close>.\<close>

fun serve_event :: "bool \<Rightarrow> 's device \<Rightarrow> nat \<times> server_event \<Rightarrow> 's server \<Rightarrow> 's server" where
  "serve_event checks dev (now, Datagram data addr) s =
     (if udp_running s
      then case handle_datagram checks dev now data addr s of
             Some s' \<Rightarrow> s'
           | None \<Rightarrow> s\<lparr>rx_buf := recv_into (rx_buf s) data, udp_running := False\<rparr>
      else s)"
| "serve_event checks dev (now, Tick) s =
     (case on_tick checks dev now s of Some s' \<Rightarrow> s' | None \<Rightarrow> s)"

definition serve :: "bool \<Rightarrow> 's device \<Rightarrow> (nat \<times> server_event) list \<Rightarrow> 's server \<Rightarrow> 's server" where
  "serve checks dev es s = fold (serve_event checks dev) es s"

definition silent :: "sock_addr \<Rightarrow> (nat \<times> server_event) list \<Rightarrow> bool" where
  "silent a es = list_all (\<lambda>(_, e). case e of Datagram _ addr \<Rightarrow> addr \<noteq> a | Tick \<Rightarrow> True) es"

text \<open>The sessions of one address only shrink while the address is silent.\<close>

definition owned_by :: "sock_addr \<Rightarrow> (nat \<rightharpoonup> session) \<Rightarrow> (nat \<rightharpoonup> session)" where
  "owned_by a m = (\<lambda>i. case m i of None \<Rightarrow> None | Some c \<Rightarrow> if fst c = a then Some c else None)"

lemma owned_by_Some: "owned_by a m i = Some c \<longleftrightarrow> m i = Some c \<and> fst c = a"
  by (auto simp: owned_by_def split: option.splits)

lemma owned_by_abs_owned:
  assumes "addr \<noteq> a" and "\<And>c. case f c of None \<Rightarrow> True | Some d \<Rightarrow> fst d = fst c"
  shows "owned_by a (abs_owned addr i f m) = owned_by a m"
proof
  fix j
  show "owned_by a (abs_owned addr i f m) j = owned_by a m j"
    using assms(1) assms(2) [of "the (m i)"]
    by (auto simp: owned_by_def abs_owned_def split: option.splits)
qed

lemma abs_connect_other:
  assumes "addr \<noteq> a"
  shows "owned_by a (abs_connect now addr m) = owned_by a m"
proof (cases "find (\<lambda>i. m i = None) [0..<4]")
  case None
  then show ?thesis by (simp add: abs_connect_def)
next
  case (Some i)
  then have "m i = None" by (auto simp: find_Some_iff)
  then show ?thesis using Some assms by (auto simp: abs_connect_def owned_by_def)
qed

lemma abs_step_other:
  assumes "addr \<noteq> a" and "abs_step now addr rq m = Some m'"
  shows "owned_by a m' = owned_by a m"
  using assms by (cases rq) (auto simp: abs_connect_other intro!: owned_by_abs_owned split: if_splits)

lemma abs_expire_owned: "owned_by a (abs_expire now m) \<subseteq>\<^sub>m owned_by a m"
  by (auto simp: map_le_def owned_by_def abs_expire_def split: option.splits if_splits)

context controller_device
begin

lemma serve_event_props:
  assumes wf: "server_wf s"
  shows "server_wf (serve_event checks dev e s)"
    and "silent a [e] \<Longrightarrow> owned_by a (sessions (serve_event checks dev e s)) \<subseteq>\<^sub>m owned_by a (sessions s)"
proof -
  obtain now ev where e: "e = (now, ev)" by (cases e)
  have crash: "server_wf (s\<lparr>rx_buf := recv_into (rx_buf s) data, udp_running := False\<rparr>)" for data
    using wf by (simp add: server_wf_def)
  show "server_wf (serve_event checks dev e s)"
    using wf crash
    by (cases ev) (auto simp: e on_tick_def dest: handle_datagram_wf release_all_wf split: option.splits)
  assume quiet: "silent a [e]"
  show "owned_by a (sessions (serve_event checks dev e s)) \<subseteq>\<^sub>m owned_by a (sessions s)"
  proof (cases ev)
    case (Datagram data addr)
    have other: "addr \<noteq> a" using quiet by (simp add: silent_def e Datagram)
    have same: "sessions (s\<lparr>rx_buf := recv_into (rx_buf s) data, udp_running := False\<rparr>) = sessions s"
      by (simp add: sessions_def)
    show ?thesis
    proof (cases "handle_datagram checks dev now data addr s")
      case None
      then show ?thesis using same by (simp add: e Datagram)
    next
      case (Some s')
      then have "owned_by a (sessions s') = owned_by a (sessions s)"
        using sessions_datagram [OF wf, of checks dev now data addr] abs_step_other [OF other] by simp
      then show ?thesis using Some by (simp add: e Datagram)
    qed
  next
    case Tick
    then show ?thesis
      using tick_sessions [OF wf, of checks dev now] abs_expire_owned by (auto simp: e)
  qed
qed

lemma serve_props:
  assumes "server_wf s"
  shows "server_wf (serve checks dev es s)"
    and "silent a es \<Longrightarrow> owned_by a (sessions (serve checks dev es s)) \<subseteq>\<^sub>m owned_by a (sessions s)"
proof -
  have "server_wf (serve checks dev es s) \<and>
      (silent a es \<longrightarrow> owned_by a (sessions (serve checks dev es s)) \<subseteq>\<^sub>m owned_by a (sessions s))"
    using assms
  proof (induction es arbitrary: s)
    case Nil
    then show ?case by (simp add: serve_def)
  next
    case (Cons e es)
    let ?s = "serve_event checks dev e s"
    have "server_wf ?s" by (rule serve_event_props(1) [OF Cons.prems])
    note Cons.IH [OF this]
    moreover have "silent a [e] \<Longrightarrow> owned_by a (sessions ?s) \<subseteq>\<^sub>m owned_by a (sessions s)"
      by (rule serve_event_props(2) [OF Cons.prems])
    ultimately show ?case by (auto simp: serve_def silent_def intro: map_le_trans)
  qed
  then show "server_wf (serve checks dev es s)"
    and "silent a es \<Longrightarrow> owned_by a (sessions (serve checks dev es s)) \<subseteq>\<^sub>m owned_by a (sessions s)"
    by simp_all
qed

lemma tick_ends_old:
  assumes "server_wf s" and "owned_by a (sessions s) \<subseteq>\<^sub>m m"
    and "\<And>i q t. m i = Some (a, q, t) \<Longrightarrow> 3000 < (now - t) div 1000000"
  shows "owned_by a (sessions (serve_event checks dev (now, Tick) s)) = Map.empty"
proof -
  have "sessions (serve_event checks dev (now, Tick) s) = abs_expire now (sessions s)"
    using tick_sessions [OF assms(1), of checks dev now] by auto
  moreover have "owned_by a (abs_expire now (sessions s)) i = None" for i
  proof (rule ccontr)
    assume "owned_by a (abs_expire now (sessions s)) i \<noteq> None"
    then obtain c where c: "abs_expire now (sessions s) i = Some c" "fst c = a"
      by (auto simp: owned_by_Some)
    then obtain q t where s: "sessions s i = Some (a, q, t)" "\<not> 3000 < (now - t) div 1000000"
      by (auto simp: abs_expire_def split: option.splits if_splits)
    then have "owned_by a (sessions s) i = Some (a, q, t)" by (simp add: owned_by_Some)
    then have "m i = Some (a, q, t)" using assms(2) by (force simp: map_le_def)
    then show False using assms(3) s(2) by blast
  qed
  ultimately show ?thesis by auto
qed

lemma silent_dropped:
  assumes "server_wf s" and "silent a (before @ after)"
    and "\<forall>i q t. sessions s i = Some (a, q, t) \<longrightarrow> 3000 < (now - t) div 1000000"
  shows "owned_by a (sessions (serve checks dev (before @ (now, Tick) # after) s)) = Map.empty"
proof -
  let ?s1 = "serve checks dev before s"
  let ?s2 = "serve_event checks dev (now, Tick) ?s1"
  have quiet: "silent a before" "silent a after" using assms(2) by (simp_all add: silent_def)
  have old: "3000 < (now - t) div 1000000" if "owned_by a (sessions s) i = Some (a, q, t)" for i q t
    using assms(3) that by (auto simp: owned_by_Some)
  have wf1: "server_wf ?s1" by (rule serve_props(1) [OF assms(1)])
  have less: "owned_by a (sessions ?s1) \<subseteq>\<^sub>m owned_by a (sessions s)"
    by (rule serve_props(2) [OF assms(1) quiet(1)])
  have two: "owned_by a (sessions ?s2) = Map.empty"
    using tick_ends_old [OF wf1 less old] by simp
  have "server_wf ?s2" by (rule serve_event_props(1) [OF wf1])
  then have "owned_by a (sessions (serve checks dev after ?s2)) \<subseteq>\<^sub>m owned_by a (sessions ?s2)"
    using quiet(2) by (rule serve_props(2))
  then have "owned_by a (sessions (serve checks dev after ?s2)) = Map.empty"
    unfolding two by (metis map_le_antisym map_le_empty)
  then show ?thesis by (simp add: serve_def)
qed

end

text \<open>C8. A client that falls silent loses all its slots: whatever datagrams of other addresses
  and passes of the auto-disconnect task come before and after, one pass more than three seconds
  after the last packet of each of its sessions is enough, and it owns no slot afterwards.\<close>

theorem silent_client_is_dropped:
  assumes "server_wf s" and "silent a (before @ after)"
    and "\<forall>i q t. sessions s i = Some (a, q, t) \<longrightarrow> 3000 < (now - t) div 1000000"
  shows "case sessions (serve checks (vbus_device api) (before @ (now, Tick) # after) s) i of
           None \<Rightarrow> True | Some c \<Rightarrow> fst c \<noteq> a"
proof -
  have "owned_by a (sessions (serve checks (vbus_device api) (before @ (now, Tick) # after) s)) i = None"
    using vb.silent_dropped [OF assms] by simp
  then show ?thesis by (auto simp: owned_by_def split: option.splits if_splits)
qed

theorem silent_client_is_dropped_witness:
  "case sessions (serve True demo_dev
      ([(2000000, Datagram [0] (demo_addr 3))] @ (3001000005, Tick) # [(3001000006, Datagram [2, 1] (demo_addr 3))])
      demo_server) 0 of None \<Rightarrow> True | Some c \<Rightarrow> fst c \<noteq> demo_addr 9"
  unfolding demo_dev_def
  by (rule silent_client_is_dropped [OF demo_server_wf])
    (simp_all add: silent_def demo_addr_def demo_sessions)

end
