(* ===== verification/TcpPad.thy ===== *)
theory TcpPad
  imports VBusDriver ControllerServer
begin

unbundle bit_operations_syntax

text \<open>
  The TCP controller that the UDP server replaced: \<^verbatim>\<open>src-tauri/src/handler/client.rs\<close>
  (\<^verbatim>\<open>ClientHandler\<close>) and \<^verbatim>\<open>src-tauri/src/old.rs\<close>. The driver functions of \<^verbatim>\<open>old.rs\<close> are those of
  \<^verbatim>\<open>vbus/driver.rs\<close> word for word, but for a pause of two milliseconds before a report, so the
  device is the one of the theory \<open>VBusDriver\<close>. A client sends frames of 17 bytes: twelve bytes
  of gamepad state and five that say what to do with it. A handler that panics is gone, with its
  state left as it was at that point: results are pairs of \<open>True\<close> for \<^emph>\<open>went on\<close> and the state.
\<close>

record 's pad_state =
  pads :: "gamepad list"  \<comment> \<open>\<^verbatim>\<open>G_GAMEPAD\<close>\<close>
  pad_dev :: 's

definition MAX_NUMBER_XBOX_CTRLS :: nat where "MAX_NUMBER_XBOX_CTRLS = 4"

definition G_GAMEPAD_init :: "gamepad list" where
  "G_GAMEPAD_init = replicate MAX_NUMBER_XBOX_CTRLS gamepad_zero"

text \<open>\<^verbatim>\<open>[0; 28]\<close> with the size, the client and the report length.\<close>

definition client_buffer :: "usize \<Rightarrow> bytes" where
  "client_buffer client_id = (set_client_id client_id ((replicate 28 0)[0 := 0x1C]))[9 := 0x14]"

subsection \<open>One frame\<close>

definition set_pad :: "nat \<Rightarrow> (gamepad \<Rightarrow> gamepad) \<Rightarrow> 's pad_state \<Rightarrow> 's pad_state" where
  "set_pad i f st = st\<lparr>pads := (pads st)[i := f (pads st ! i)]\<rparr>"

text \<open>
  The buttons of a digital frame. The first assignment takes the old buttons away, or all but
  the directional pad with byte 13 equal to 1; the second puts the new ones in. The product of
  the second is checked in a debug build.
\<close>

definition clear_buttons :: "u16 \<Rightarrow> bytes \<Rightarrow> gamepad \<Rightarrow> gamepad" where
  "clear_buttons w buf g = g\<lparr>w_buttons := w_buttons g AND (if buf ! 13 \<noteq> 1 then NOT w else 0xFFF0)\<rparr>"

definition product_overflows :: "u16 \<Rightarrow> bytes \<Rightarrow> bool" where
  "product_overflows w buf \<longleftrightarrow> buf ! 13 \<noteq> 1 \<and> 2 ^ 16 \<le> unat w * unat (buf ! 12)"

definition put_buttons :: "u16 \<Rightarrow> bytes \<Rightarrow> gamepad \<Rightarrow> gamepad" where
  "put_buttons w buf g = g\<lparr>w_buttons := w_buttons g OR (if buf ! 13 \<noteq> 1 then w * ucast (buf ! 12) else w)\<rparr>"

definition put_triggers :: "gamepad \<Rightarrow> bytes \<Rightarrow> gamepad \<Rightarrow> gamepad" where
  "put_triggers p buf g = g\<lparr>
     b_left_trigger := (if buf ! 13 = 2 then b_left_trigger p else b_left_trigger g),
     b_right_trigger := (if buf ! 13 = 3 then b_right_trigger p else b_right_trigger g)\<rparr>"

definition put_sticks :: "gamepad \<Rightarrow> bytes \<Rightarrow> gamepad \<Rightarrow> gamepad" where
  "put_sticks p buf g =
     (if buf ! 14 = 1
      then g\<lparr>s_thumb_lx := s_thumb_lx p, s_thumb_ly := s_thumb_ly p\<rparr>
      else g\<lparr>s_thumb_rx := s_thumb_rx p, s_thumb_ry := s_thumb_ry p\<rparr>)"

text \<open>\<^verbatim>\<open>execute\<close> gets copies of the pad and of the device buffer.\<close>

definition report :: "'s device \<Rightarrow> usize \<Rightarrow> nat \<Rightarrow> 's pad_state \<Rightarrow> 's pad_state" where
  "report dev client_id i st =
     st\<lparr>pad_dev := snd (snd (dev_execute dev (pads st ! i) (client_buffer client_id) (pad_dev st)))\<rparr>"

definition update_pad ::
    "bool \<Rightarrow> 's device \<Rightarrow> usize \<Rightarrow> bytes \<Rightarrow> 's pad_state \<Rightarrow> bool \<times> 's pad_state" where
  "update_pad checks dev client_id buf st =
     (let g = gamepad_at 0 buf; i = unat (client_id - 1)
      in if length (pads st) \<le> i then (False, st)
         else if buf ! 14 = 0
         then let st1 = set_pad i (clear_buttons (w_buttons g) buf) st
              in if checks \<and> product_overflows (w_buttons g) buf then (False, st1)
                 else (True, report dev client_id i
                        (set_pad i (put_triggers g buf \<circ> put_buttons (w_buttons g) buf) st1))
         else (True, report dev client_id i (set_pad i (put_sticks g buf) st)))"

definition on_frame ::
    "bool \<Rightarrow> 's device \<Rightarrow> usize \<Rightarrow> bytes \<Rightarrow> 's pad_state \<Rightarrow> bool \<times> 's pad_state" where
  "on_frame checks dev client_id buf st =
     (let w = w_buttons (gamepad_at 0 buf)
      in if 4 < buf ! 15 then (True, st)
         else if buf ! 16 = 1 \<and> buf ! 12 = 1
         then (True, st\<lparr>pad_dev := dev_key_down dev (ucast w) (pad_dev st)\<rparr>)
         else update_pad checks dev client_id buf
                (if buf ! 16 = 1 then st\<lparr>pad_dev := dev_key_up dev (ucast w) (pad_dev st)\<rparr> else st))"

subsection \<open>The handlers\<close>

fun on_frames ::
    "bool \<Rightarrow> 's device \<Rightarrow> usize \<Rightarrow> bytes list \<Rightarrow> 's pad_state \<Rightarrow> bool \<times> 's pad_state" where
  "on_frames checks dev client_id [] st = (True, st)"
| "on_frames checks dev client_id (f # fs) st =
     (case on_frame checks dev client_id f st of
        (False, st1) \<Rightarrow> (False, st1)
      | (True, st1) \<Rightarrow> on_frames checks dev client_id fs st1)"

text \<open>
  \<^verbatim>\<open>read_exact\<close>: the bytes of the stream, in frames of \<^verbatim>\<open>BUFFER_SIZE\<close>; a rest that ends before
  its frame is full is an error, which ends the loop like the end of the stream.
\<close>

function frames_of :: "bytes \<Rightarrow> bytes list" where
  "frames_of s = (if length s < BUFFER_SIZE then [] else take BUFFER_SIZE s # frames_of (drop BUFFER_SIZE s))"
  by pat_completeness auto
termination
  by (relation "measure length") (auto simp: BUFFER_SIZE_def)

declare frames_of.simps [simp del]

text \<open>\<^verbatim>\<open>ClientHandler::init\<close>: \<^verbatim>\<open>client_id - 1\<close> panics on zero in a debug build, before anything else.\<close>

definition client_init ::
    "bool \<Rightarrow> 's device \<Rightarrow> usize \<Rightarrow> bytes \<Rightarrow> 's pad_state \<Rightarrow> bool \<times> 's pad_state" where
  "client_init checks dev client_id stream st =
     (if checks \<and> client_id = 0 then (False, st)
      else let st1 = st\<lparr>pad_dev := snd (dev_plug_in dev (ucast client_id) (pad_dev st))\<rparr>
        in case on_frames checks dev client_id (frames_of stream) st1 of
             (False, st2) \<Rightarrow> (False, st2)
           | (True, st2) \<Rightarrow> (True, st2\<lparr>pad_dev := snd (dev_unplug dev (ucast client_id) (pad_dev st2))\<rparr>))"

text \<open>
  \<^verbatim>\<open>handle_client\<close> of \<^verbatim>\<open>old.rs\<close> calls \<^verbatim>\<open>read\<close>, which returns what has arrived, at most 17 bytes,
  and handles the whole buffer each time: bytes a read did not fill are those of earlier reads.
  \<^verbatim>\<open>start_simulation\<close> unplugs the controller after it. A panic also poisons the lock of
  \<^verbatim>\<open>G_GAMEPAD\<close>, which is left out: no thread runs on after one in this model.
\<close>

fun buffers_of :: "bytes \<Rightarrow> bytes list \<Rightarrow> bytes list" where
  "buffers_of buffer [] = []"
| "buffers_of buffer (r # rs) =
     (if r = [] then [] else let b = r @ drop (length r) buffer in b # buffers_of b rs)"

definition handle_client ::
    "bool \<Rightarrow> 's device \<Rightarrow> usize \<Rightarrow> bytes list \<Rightarrow> 's pad_state \<Rightarrow> bool \<times> 's pad_state" where
  "handle_client checks dev client_id reads st =
     (if checks \<and> client_id = 0 then (False, st)
      else on_frames checks dev client_id (buffers_of (replicate BUFFER_SIZE 0) reads)
             (st\<lparr>pad_dev := snd (dev_plug_in dev (ucast client_id) (pad_dev st))\<rparr>))"

definition client_thread ::
    "bool \<Rightarrow> 's device \<Rightarrow> usize \<Rightarrow> bytes list \<Rightarrow> 's pad_state \<Rightarrow> bool \<times> 's pad_state" where
  "client_thread checks dev client_id reads st =
     (case handle_client checks dev client_id reads st of
        (False, st1) \<Rightarrow> (False, st1)
      | (True, st1) \<Rightarrow> (True, st1\<lparr>pad_dev := snd (dev_unplug dev (ucast client_id) (pad_dev st1))\<rparr>))"

subsection \<open>Accepting clients in \<^verbatim>\<open>old.rs\<close>\<close>

text \<open>
  \<^verbatim>\<open>start_simulation\<close> numbers a client by the count of the clients there are. The steps of its
  accept loop and of the threads, over the clients that are being handled, in order of arrival;
  a handler that panics never counts down. \<^verbatim>\<open>state\<close> is a guard that lives until the function
  returns, which the accept loop never does: the state stays locked.
\<close>

record simulation =
  running :: bool
  state_locked :: bool
  sim_count :: nat
  handled :: "nat list"
  crashed :: nat

definition simulation_init :: simulation where
  "simulation_init = \<lparr>running = False, state_locked = False, sim_count = 0, handled = [], crashed = 0\<rparr>"

datatype answer = Said string | Blocked | Serving

definition start_simulation :: "simulation \<Rightarrow> answer \<times> simulation" where
  "start_simulation s =
     (if state_locked s then (Blocked, s)
      else if running s then (Said ''Simulation is already running!'', s)
      else (Serving, s\<lparr>running := True, state_locked := True\<rparr>))"

definition accept_client :: "simulation \<Rightarrow> simulation" where
  "accept_client s =
     (if MAX_CLIENTS \<le> sim_count s then s
      else s\<lparr>sim_count := sim_count s + 1, handled := handled s @ [sim_count s + 1]\<rparr>)"

text \<open>The handler at position \<open>k\<close> of the list ends, or panics.\<close>

definition remove_at :: "nat \<Rightarrow> 'a list \<Rightarrow> 'a list" where
  "remove_at k xs = take k xs @ drop (Suc k) xs"

definition client_left :: "nat \<Rightarrow> simulation \<Rightarrow> simulation" where
  "client_left k s = s\<lparr>sim_count := sim_count s - 1, handled := remove_at k (handled s)\<rparr>"

definition client_crashed :: "nat \<Rightarrow> simulation \<Rightarrow> simulation" where
  "client_crashed k s = s\<lparr>handled := remove_at k (handled s), crashed := crashed s + 1\<rparr>"

inductive sim_step :: "simulation \<Rightarrow> simulation \<Rightarrow> bool" where
  sim_start: "start_simulation s = (a, s') \<Longrightarrow> sim_step s s'"
| sim_accept: "running s \<Longrightarrow> sim_step s (accept_client s)"
| sim_left: "k < length (handled s) \<Longrightarrow> sim_step s (client_left k s)"
| sim_crash: "k < length (handled s) \<Longrightarrow> sim_step s (client_crashed k s)"

inductive sim_reach :: "simulation \<Rightarrow> bool" where
  sim_init: "sim_reach simulation_init"
| sim_more: "sim_reach s \<Longrightarrow> sim_step s s' \<Longrightarrow> sim_reach s'"

inductive_cases sim_stepE: "sim_step s s'"

text \<open>
  \<^verbatim>\<open>stop_simulation\<close>: unplug the four controllers, stopping at the first that fails, then take
  the state.
\<close>

fun unplug_each :: "'s device \<Rightarrow> nat list \<Rightarrow> 's \<Rightarrow> nat option \<times> 's" where
  "unplug_each dev [] d = (None, d)"
| "unplug_each dev (i # is) d =
     (case dev_unplug dev (of_nat i) d of
        (out, d1) \<Rightarrow> if out = 0 then (Some i, d1) else unplug_each dev is d1)"

definition stop_simulation :: "'s device \<Rightarrow> 's \<Rightarrow> simulation \<Rightarrow> answer \<times> 's \<times> simulation" where
  "stop_simulation dev d s =
     (case unplug_each dev [1..<5] d of
        (Some i, d1) \<Rightarrow> (Said (''Failed to unplug controller '' @ dec_string i), d1, s)
      | (None, d1) \<Rightarrow>
          if state_locked s then (Blocked, d1, s)
          else if running s then (Said ''Simulation stopped!'', d1, s\<lparr>running := False\<rparr>)
          else (Said ''Simulation is not running!'', d1, s))"

end
