(* ===== verification/TcpProps.thy ===== *)
theory TcpProps
  imports TcpPad ServerProps
begin

unbundle bit_operations_syntax

text \<open>
  Properties of the TCP controller: what its frames do to the buttons, that clients with
  different numbers do not disturb each other, when a frame makes a handler panic, when the
  handler of \<^verbatim>\<open>old.rs\<close> agrees with \<^verbatim>\<open>ClientHandler\<close>, and the numbering of the clients.
\<close>

subsection \<open>A frame as a function on one pad\<close>

definition touches_pad :: "bytes \<Rightarrow> bool" where
  "touches_pad f \<longleftrightarrow> f ! 15 \<le> 4 \<and> \<not> (f ! 16 = 1 \<and> f ! 12 = 1)"

definition on_pad :: "bytes \<Rightarrow> gamepad \<Rightarrow> gamepad" where
  "on_pad f g =
     (let p = gamepad_at 0 f
      in if \<not> touches_pad f then g
         else if f ! 14 = 0
         then put_triggers p f (put_buttons (w_buttons p) f (clear_buttons (w_buttons p) f g))
         else put_sticks p f g)"

definition frame_ok17 :: "bool \<Rightarrow> bytes \<Rightarrow> bool" where
  "frame_ok17 checks f \<longleftrightarrow>
     \<not> (checks \<and> touches_pad f \<and> f ! 14 = 0 \<and> product_overflows (w_buttons (gamepad_at 0 f)) f)"

lemma pads_report [simp]: "pads (report dev c i st) = pads st"
  by (simp add: report_def)

lemma pads_set_pad [simp]: "pads (set_pad i f st) = (pads st)[i := f (pads st ! i)]"
  by (simp add: set_pad_def)

lemma pads_dev [simp]: "pads (st\<lparr>pad_dev := d\<rparr>) = pads st"
  by simp

lemma fst_update_pad:
  "fst (update_pad checks dev c f st) \<longleftrightarrow> unat (c - 1) < length (pads st) \<and>
     \<not> (checks \<and> f ! 14 = 0 \<and> product_overflows (w_buttons (gamepad_at 0 f)) f)"
  by (auto simp: update_pad_def Let_def)

lemma fst_on_frame:
  "fst (on_frame checks dev c f st) \<longleftrightarrow>
     \<not> touches_pad f \<or> unat (c - 1) < length (pads st) \<and> frame_ok17 checks f"
  by (auto simp: on_frame_def Let_def fst_update_pad touches_pad_def frame_ok17_def)

lemma pads_update_pad:
  assumes "fst (update_pad checks dev c f st)" and "touches_pad f"
  shows "pads (snd (update_pad checks dev c f st)) =
    (pads st)[unat (c - 1) := on_pad f (pads st ! unat (c - 1))]"
  using assms by (auto simp: update_pad_def Let_def on_pad_def split: if_splits)

lemma pads_on_frame:
  assumes "fst (on_frame checks dev c f st)"
  shows "pads (snd (on_frame checks dev c f st)) =
    (pads st)[unat (c - 1) := on_pad f (pads st ! unat (c - 1))]"
proof (cases "touches_pad f")
  case True
  let ?st = "if f ! 16 = 1 then st\<lparr>pad_dev := dev_key_up dev (ucast (w_buttons (gamepad_at 0 f))) (pad_dev st)\<rparr> else st"
  have eq: "on_frame checks dev c f st = update_pad checks dev c f ?st"
    using True by (auto simp: on_frame_def Let_def touches_pad_def)
  have "pads ?st = pads st" by simp
  with pads_update_pad [of checks dev c f ?st] assms True show ?thesis by (simp only: eq)
next
  case False
  then have "pads (snd (on_frame checks dev c f st)) = pads st"
    by (auto simp: on_frame_def Let_def touches_pad_def)
  with False show ?thesis by (simp add: on_pad_def)
qed

lemma pads_on_frames:
  assumes "fst (on_frames checks dev c fs st)"
  shows "pads (snd (on_frames checks dev c fs st)) =
    (pads st)[unat (c - 1) := fold on_pad fs (pads st ! unat (c - 1))]"
  using assms
proof (induction fs arbitrary: st)
  case Nil
  then show ?case by simp
next
  case (Cons f fs)
  obtain ok st1 where one: "on_frame checks dev c f st = (ok, st1)" by (cases "on_frame checks dev c f st")
  with Cons.prems have ok: "ok" by (auto split: bool.splits)
  have p: "pads st1 = (pads st)[unat (c - 1) := on_pad f (pads st ! unat (c - 1))]"
    using pads_on_frame [of checks dev c f st] one ok by simp
  have "pads (snd (on_frames checks dev c fs st1)) =
      (pads st1)[unat (c - 1) := fold on_pad fs (pads st1 ! unat (c - 1))]"
    using Cons.IH [of st1] Cons.prems one ok by simp
  then show ?case using one ok p
    by (cases "unat (c - 1) < length (pads st)") (simp_all add: list_update_beyond)
qed

lemma fst_on_frames:
  assumes "unat (c - 1) < length (pads st)" and "list_all (frame_ok17 checks) fs"
  shows "fst (on_frames checks dev c fs st)"
  using assms
proof (induction fs arbitrary: st)
  case Nil
  then show ?case by simp
next
  case (Cons f fs)
  then have ok: "fst (on_frame checks dev c f st)" by (simp add: fst_on_frame)
  then have "length (pads (snd (on_frame checks dev c f st))) = length (pads st)"
    by (simp add: pads_on_frame)
  with Cons ok show ?case by (cases "on_frame checks dev c f st") auto
qed

subsection \<open>Buttons\<close>

text \<open>A digital frame presses or releases the buttons of its mask.\<close>

definition digital :: "bytes \<Rightarrow> bool" where
  "digital f \<longleftrightarrow> f ! 12 \<le> 1 \<and> f ! 13 \<noteq> 1 \<and> f ! 14 = 0 \<and> f ! 15 \<le> 4 \<and> f ! 16 \<noteq> 1"

definition button_mask :: "bytes \<Rightarrow> u16" where
  "button_mask f = w_buttons (gamepad_at 0 f)"

lemma byte_le_1: "(b :: u8) \<le> 1 \<longleftrightarrow> b = 0 \<or> b = 1"
  by unat_arith

lemma digital_ok: "digital f \<Longrightarrow> frame_ok17 checks f"
proof -
  assume d: "digital f"
  have "unat (button_mask f) < 2 ^ 16" using unsigned_less [of "button_mask f"] by simp
  with d show "frame_ok17 checks f"
    by (auto simp: digital_def frame_ok17_def product_overflows_def byte_le_1 button_mask_def)
qed

lemma digital_buttons:
  assumes "digital f"
  shows "w_buttons (on_pad f g) =
    (if f ! 12 = 1 then w_buttons g OR button_mask f else w_buttons g AND NOT (button_mask f))"
proof -
  have put: "(w AND NOT m) OR m = w OR m" for w m :: u16
    by (rule bit_eqI) (auto simp: bit_simps)
  have "w_buttons (on_pad f g) =
      (w_buttons g AND NOT (button_mask f)) OR (button_mask f * ucast (f ! 12))"
    using assms by (simp add: on_pad_def Let_def touches_pad_def digital_def put_triggers_def
        put_buttons_def clear_buttons_def button_mask_def)
  moreover have "f ! 12 = 0 \<or> f ! 12 = 1" using assms by (simp add: digital_def byte_le_1)
  ultimately show ?thesis by (elim disjE) (simp_all add: put)
qed

lemma digital_bit:
  assumes "digital f" and "i < 16"
  shows "bit (w_buttons (on_pad f g)) i =
    (if bit (button_mask f) i then f ! 12 = 1 else bit (w_buttons g) i)"
  using assms by (auto simp: digital_buttons bit_simps)

lemma fold_digital_bit:
  assumes "list_all digital fs" and "i < 16"
  shows "bit (w_buttons (fold on_pad fs g)) i =
    (case find (\<lambda>f. bit (button_mask f) i) (rev fs) of
       Some f \<Rightarrow> f ! 12 = 1 | None \<Rightarrow> bit (w_buttons g) i)"
  using assms(1)
proof (induction fs rule: rev_induct)
  case Nil
  then show ?case by simp
next
  case (snoc f fs)
  then show ?case using digital_bit [OF _ assms(2), of f "fold on_pad fs g"] by simp
qed

subsection \<open>Several clients\<close>

text \<open>The frames of all clients in the order their handlers take the lock.\<close>

fun serve_pads :: "bool \<Rightarrow> 's device \<Rightarrow> (usize \<times> bytes) list \<Rightarrow> 's pad_state \<Rightarrow> 's pad_state" where
  "serve_pads checks dev [] st = st"
| "serve_pads checks dev ((c, f) # es) st = serve_pads checks dev es (snd (on_frame checks dev c f st))"

definition calm :: "bool \<Rightarrow> (usize \<times> bytes) list \<Rightarrow> bool" where
  "calm checks es = list_all (\<lambda>(c, f). unat (c - 1) < 4 \<and> frame_ok17 checks f) es"

lemma serve_pads_nth:
  assumes "length (pads st) = 4" and "calm checks es" and "i < 4"
  shows "pads (serve_pads checks dev es st) ! i =
    fold on_pad (map snd (filter (\<lambda>(c, f). unat (c - 1) = i) es)) (pads st ! i)"
  using assms
proof (induction checks dev es st rule: serve_pads.induct)
  case (1 checks dev st)
  then show ?case by simp
next
  case (2 checks dev c f es st)
  have ok: "fst (on_frame checks dev c f st)" using 2(2,3) by (simp add: fst_on_frame calm_def)
  have "pads (snd (on_frame checks dev c f st)) = (pads st)[unat (c - 1) := on_pad f (pads st ! unat (c - 1))]"
    using pads_on_frame [OF ok] .
  with 2 show ?case by (auto simp: calm_def nth_list_update)
qed

subsection \<open>Frames of a stream\<close>

lemma frames_of_length: "list_all (\<lambda>f. length f = BUFFER_SIZE) (frames_of s)"
proof (induction s rule: frames_of.induct)
  case (1 s)
  then show ?case by (subst frames_of.simps) (simp add: BUFFER_SIZE_def)
qed

lemma buffers_of_whole:
  assumes "length buffer = BUFFER_SIZE" and "list_all (\<lambda>f. length f = BUFFER_SIZE) fs"
  shows "buffers_of buffer fs = fs"
  using assms by (induction fs arbitrary: buffer) (auto simp: BUFFER_SIZE_def)

subsection \<open>The accept loop\<close>

definition sim_inv :: "simulation \<Rightarrow> bool" where
  "sim_inv s \<longleftrightarrow> sim_count s = length (handled s) + crashed s \<and> sim_count s \<le> MAX_CLIENTS \<and>
     list_all (\<lambda>i. 1 \<le> i \<and> i \<le> MAX_CLIENTS) (handled s) \<and> (running s = state_locked s)"

lemma length_remove_at: "k < length xs \<Longrightarrow> length (remove_at k xs) = length xs - 1"
  by (simp add: remove_at_def)

lemma list_all_remove_at: "list_all P xs \<Longrightarrow> list_all P (remove_at k xs)"
  by (auto simp: remove_at_def list_all_iff dest: in_set_takeD in_set_dropD)

lemma sim_step_inv:
  assumes "sim_step s s'" and "sim_inv s"
  shows "sim_inv s'"
  using assms
proof (cases rule: sim_step.cases)
  case (sim_start a)
  with assms(2) show ?thesis by (auto simp: start_simulation_def sim_inv_def split: if_splits)
next
  case sim_accept
  with assms(2) show ?thesis by (auto simp: accept_client_def sim_inv_def)
next
  case (sim_left k)
  with assms(2) show ?thesis
    by (auto simp: client_left_def sim_inv_def length_remove_at list_all_remove_at)
next
  case (sim_crash k)
  with assms(2) show ?thesis
    by (auto simp: client_crashed_def sim_inv_def length_remove_at list_all_remove_at)
qed

lemma sim_reach_inv: "sim_reach s \<Longrightarrow> sim_inv s"
proof (induction rule: sim_reach.induct)
  case sim_init
  then show ?case by (simp add: simulation_init_def sim_inv_def)
next
  case (sim_more s s')
  then show ?case using sim_step_inv by blast
qed

subsection \<open>Properties\<close>

text \<open>C27. Digital frames are presses and releases: after any sequence of them the handler is
  alive, every button is down exactly if the last frame whose mask names it was a press, buttons no
  frame names are as before, and the pads of the other controllers are untouched.\<close>

theorem each_button_follows_its_last_frame:
  assumes "list_all digital fs" and "unat (c - 1) < length (pads st)" and "i < 16"
  shows "case on_frames checks dev c fs st of (ok, st') \<Rightarrow> ok \<and>
    bit (w_buttons (pads st' ! unat (c - 1))) i =
      (case find (\<lambda>f. bit (button_mask f) i) (rev fs) of
         Some f \<Rightarrow> f ! 12 = 1 | None \<Rightarrow> bit (w_buttons (pads st ! unat (c - 1))) i) \<and>
    (pads st')[unat (c - 1) := pads st ! unat (c - 1)] = pads st"
proof -
  obtain ok st' where run: "on_frames checks dev c fs st = (ok, st')" by (cases "on_frames checks dev c fs st")
  have "list_all (frame_ok17 checks) fs" using assms(1) digital_ok by (auto simp: list_all_iff)
  with fst_on_frames [OF assms(2)] run have ok: ok by (metis fst_conv)
  then have "pads st' = (pads st)[unat (c - 1) := fold on_pad fs (pads st ! unat (c - 1))]"
    using pads_on_frames [of checks dev c fs st] run by simp
  with ok show ?thesis using assms(2) fold_digital_bit [OF assms(1,3)] by (simp add: run)
qed

text \<open>The handlers of different controllers do not disturb each other: for any interleaving
  of their frames, none of which makes a handler panic, each pad ends as if the frames of its own
  controller had come alone.\<close>

theorem pads_are_independent:
  assumes "length (pads st) = 4" and "calm checks es" and "i < 4"
  shows "pads (serve_pads checks dev es st) ! i =
    pads (serve_pads checks dev (filter (\<lambda>(c, f). unat (c - 1) = i) es) st) ! i"
proof -
  have "calm checks (filter (\<lambda>(c, f). unat (c - 1) = i) es)"
    using assms(2) by (auto simp: calm_def list_all_iff)
  from serve_pads_nth [OF assms(1) this assms(3)] serve_pads_nth [OF assms] show ?thesis by simp
qed

text \<open>A frame makes its handler panic exactly if it changes a pad and the client's number is
  out of range, or if, in a build with overflow checks, it is a digital frame whose product of
  mask and byte 12 does not fit sixteen bits.\<close>

theorem frame_panics_iff:
  "fst (on_frame checks dev c f st) = False \<longleftrightarrow> f ! 15 \<le> 4 \<and> (f ! 16 \<noteq> 1 \<or> f ! 12 \<noteq> 1) \<and>
    (length (pads st) \<le> unat (c - 1) \<or>
     checks \<and> f ! 14 = 0 \<and> f ! 13 \<noteq> 1 \<and> 2 ^ 16 \<le> unat (button_mask f) * unat (f ! 12))"
  by (auto simp: fst_on_frame frame_ok17_def touches_pad_def product_overflows_def button_mask_def)

text \<open>The handler of \<^verbatim>\<open>old.rs\<close> and \<^verbatim>\<open>ClientHandler\<close> do the same, to the device and to the
  pads, whenever each read returns a whole frame.\<close>

theorem old_client_agrees_on_whole_frames:
  "client_thread checks dev c (frames_of s) st = client_init checks dev c s st"
proof -
  have "buffers_of (replicate BUFFER_SIZE 0) (frames_of s) = frames_of s"
    using frames_of_length by (simp add: buffers_of_whole)
  then show ?thesis
    by (simp add: client_thread_def handle_client_def client_init_def Let_def)
qed

text \<open>The accept loop never has more than four clients, counts the handlers that run and
  those that crashed, and only gives out numbers from one to four, so the pad of a client is
  always there.\<close>

theorem client_numbers_in_range:
  assumes "sim_reach s"
  shows "sim_count s = length (handled s) + crashed s \<and> sim_count s \<le> MAX_CLIENTS \<and>
    list_all (\<lambda>i. 1 \<le> i \<and> i \<le> MAX_CLIENTS) (handled s)"
  using sim_reach_inv [OF assms] by (simp add: sim_inv_def)

text \<open>A simulation that was started cannot be stopped: the state is locked for as long as
  the accept loop runs, so \<^verbatim>\<open>stop_simulation\<close> either reports a controller it could not unplug or
  waits for ever.\<close>

theorem started_simulation_never_stops:
  assumes "sim_reach s" and "running s"
  shows "case stop_simulation dev d s of (a, d', s') \<Rightarrow> s' = s \<and> (case a of Said m \<Rightarrow> take 16 m = ''Failed to unplug'' | _ \<Rightarrow> a = Blocked)"
  using sim_reach_inv [OF assms(1)] assms(2)
  by (cases "unplug_each dev [1..<5] d"; cases "fst (unplug_each dev [1..<5] d)")
    (auto simp: stop_simulation_def sim_inv_def)

subsection \<open>Concrete clients\<close>

definition demo_frame :: "nat \<Rightarrow> bool \<Rightarrow> bytes" where
  "demo_frame buttons press =
     to_le_bytes (of_nat buttons :: u16) @ replicate 10 0 @ [if press then 1 else 0, 0, 0, 1, 0]"

definition demo_pads :: "((u32 \<times> bytes) list vbus) pad_state" where
  "demo_pads = \<lparr>pads = G_GAMEPAD_init, pad_dev = demo_init\<rparr>"

lemma demo_pads_nth: "length (pads demo_pads) = 4" "w_buttons (pads demo_pads ! 1) = 0"
  by (simp_all add: demo_pads_def G_GAMEPAD_init_def MAX_NUMBER_XBOX_CTRLS_def gamepad_zero_def)

lemma demo_frame_bytes:
  "demo_frame 3 True = [3, 0, 0, 0, 0, 0, 0, 0, 0, 0, 0, 0, 1, 0, 0, 1, 0]"
  "demo_frame 2 False = [2, 0, 0, 0, 0, 0, 0, 0, 0, 0, 0, 0, 0, 0, 0, 1, 0]"
  by code_simp+

lemma demo_digital: "digital (demo_frame 3 True)" "digital (demo_frame 2 False)"
  by (simp_all add: demo_frame_bytes digital_def)

lemma demo_masks: "button_mask (demo_frame 3 True) = 3" "button_mask (demo_frame 2 False) = 2"
  unfolding demo_frame_bytes by code_simp+

theorem each_button_follows_its_last_frame_witness:
  "case on_frames True demo_dev 2 [demo_frame 3 True, demo_frame 2 False] demo_pads of (ok, st') \<Rightarrow>
     ok \<and> \<not> bit (w_buttons (pads st' ! 1)) 1"
proof -
  let ?fs = "[demo_frame 3 True, demo_frame 2 False]"
  obtain ok st' where run: "on_frames True demo_dev 2 ?fs demo_pads = (ok, st')"
    by (cases "on_frames True demo_dev 2 ?fs demo_pads")
  have "list_all digital ?fs" by (simp add: demo_digital)
  moreover have "unat (2 - 1 :: usize) < length (pads demo_pads)" by (simp add: demo_pads_nth)
  ultimately have "case on_frames True demo_dev 2 ?fs demo_pads of (ok, st') \<Rightarrow> ok \<and>
      bit (w_buttons (pads st' ! unat (2 - 1 :: usize))) 1 =
      (case find (\<lambda>f. bit (button_mask f) 1) (rev ?fs) of
         Some f \<Rightarrow> f ! 12 = 1 | None \<Rightarrow> bit (w_buttons (pads demo_pads ! unat (2 - 1 :: usize))) 1) \<and>
      (pads st')[unat (2 - 1 :: usize) := pads demo_pads ! unat (2 - 1 :: usize)] = pads demo_pads"
    by (rule each_button_follows_its_last_frame) simp
  moreover have "bit (2 :: u16) 1" by code_simp
  moreover have "demo_frame 2 False ! 12 = 0" by (simp add: demo_frame_bytes)
  ultimately show ?thesis unfolding run by (simp add: demo_masks)
qed

theorem pads_are_independent_witness:
  "pads (serve_pads True demo_dev [(1, demo_frame 3 True), (2, demo_frame 2 False), (1, demo_frame 2 False)] demo_pads) ! 0 =
    pads (serve_pads True demo_dev [(1, demo_frame 3 True), (1, demo_frame 2 False)] demo_pads) ! 0"
  using pads_are_independent
    [of demo_pads True "[(1, demo_frame 3 True), (2, demo_frame 2 False), (1, demo_frame 2 False)]" 0 demo_dev]
  by (simp add: demo_pads_nth calm_def digital_ok demo_digital)

definition demo_sim :: simulation where
  "demo_sim = \<lparr>running = True, state_locked = True, sim_count = 2, handled = [2, 2], crashed = 0\<rparr>"

lemma demo_sim_reach: "sim_reach demo_sim"
proof -
  have 1: "sim_reach (snd (start_simulation simulation_init))"
    using sim_more [OF sim_init] sim_start surjective_pairing by metis
  then have 2: "sim_reach (accept_client (snd (start_simulation simulation_init)))"
    by (rule sim_more) (rule sim_accept, simp add: start_simulation_def simulation_init_def)
  then have 3: "sim_reach (accept_client (accept_client (snd (start_simulation simulation_init))))"
    by (rule sim_more) (rule sim_accept, simp add: accept_client_def start_simulation_def simulation_init_def)
  then have 4: "sim_reach (client_left 0 (accept_client (accept_client (snd (start_simulation simulation_init)))))"
    by (rule sim_more)
      (rule sim_left, simp add: accept_client_def start_simulation_def simulation_init_def MAX_CLIENTS_def)
  then have "sim_reach (accept_client (client_left 0 (accept_client (accept_client (snd (start_simulation simulation_init))))))"
    by (rule sim_more) (rule sim_accept, simp add: client_left_def accept_client_def start_simulation_def simulation_init_def)
  then show ?thesis
    by (simp add: demo_sim_def client_left_def accept_client_def start_simulation_def simulation_init_def
        MAX_CLIENTS_def remove_at_def numeral_2_eq_2)
qed

theorem client_numbers_in_range_witness:
  "sim_count demo_sim = length (handled demo_sim) + crashed demo_sim \<and> sim_count demo_sim \<le> MAX_CLIENTS \<and>
    list_all (\<lambda>i. 1 \<le> i \<and> i \<le> MAX_CLIENTS) (handled demo_sim)"
  using demo_sim_reach by (rule client_numbers_in_range)

theorem started_simulation_never_stops_witness:
  "case stop_simulation demo_dev demo_init demo_sim of (a, d', s') \<Rightarrow> s' = demo_sim \<and>
    (case a of Said m \<Rightarrow> take 16 m = ''Failed to unplug'' | _ \<Rightarrow> a = Blocked)"
  by (rule started_simulation_never_stops [OF demo_sim_reach]) (simp add: demo_sim_def)

subsection \<open>Where the old server goes wrong\<close>

text \<open>The number of a client that has left is given to the next one although another client may
  have it: after the first of two clients has left, the third shares the number of the second.\<close>

lemma client_numbers_are_shared: "sim_reach demo_sim \<and> \<not> distinct (handled demo_sim)"
  using demo_sim_reach by (simp add: demo_sim_def)

text \<open>A frame that arrives in two pieces is handled twice by \<^verbatim>\<open>old.rs\<close>, both times wrongly.\<close>

lemma split_frame_is_misread:
  "w_buttons (fold on_pad (frames_of (demo_frame 3 True)) gamepad_zero) = 3"
  "w_buttons (fold on_pad (buffers_of (replicate 17 0) [take 2 (demo_frame 3 True), drop 2 (demo_frame 3 True)]) gamepad_zero) = 0"
  unfolding demo_frame_bytes by code_simp+

end
