(* ===== verification/Convert.thy ===== *)
theory Convert
  imports ScrapCommon
begin

text \<open>
  From a captured picture to the picture an encoder takes: \<^verbatim>\<open>libs/scrap/src/common/convert.rs\<close>
  and \<^verbatim>\<open>Frame\<close>, \<^verbatim>\<open>EncodeInput\<close> and \<^verbatim>\<open>EncodeYuvFormat\<close> of \<^verbatim>\<open>common/mod.rs\<close>. The conversions
  themselves are libyuv's: the model has the list of its calls with the buffers, offsets, strides
  and sizes they are given, and an oracle for their return codes. What a call reads and writes is
  libyuv's documented use of strides, in \<open>ConvertProps\<close>. Lengths are numbers below \<open>2 ^ 64\<close> whose sums
  and products wrap around, as in a release build. Sizes and strides are passed to libyuv as \<^verbatim>\<open>c_int\<close>,
  which keeps those below \<open>2 ^ 31\<close>.
\<close>

record yuv_format =
  yf_pixfmt :: pixfmt
  yf_w :: nat
  yf_h :: nat
  yf_stride :: "nat list"
  yf_u :: nat
  yf_v :: nat

record pixel_buffer =
  pb_data :: bytes
  pb_width :: nat
  pb_height :: nat
  pb_stride :: "nat list"
  pb_pixfmt :: pixfmt

datatype buffer = Src | Mid | Dst

datatype yuv_fn =
  ARGBToI420 | ABGRToI420 | RGB565ToI420 | ARGBToNV12 | ABGRToNV12 | RGB565ToARGB | ABGRToARGB | ARGBToI444

text \<open>A plane is a buffer, the offset where it begins and its stride.\<close>

record plane =
  pl_buffer :: buffer
  pl_offset :: nat
  pl_stride :: nat

record yuv_call =
  yc_fn :: yuv_fn
  yc_src :: plane
  yc_dst :: "plane list"
  yc_width :: nat
  yc_height :: nat

datatype convert_error = Src_larger | Stride_too_small | Src_too_short | Unsupported_pixfmt | Yuv_call_failed

text \<open>\<^verbatim>\<open>usize\<close>; and \<^verbatim>\<open>Vec::resize\<close>, which panics beyond \<^verbatim>\<open>isize::MAX\<close> bytes.\<close>

definition usize_mul :: "nat \<Rightarrow> nat \<Rightarrow> nat" where "usize_mul a b = a * b mod 2 ^ 64"

definition usize_add :: "nat \<Rightarrow> nat \<Rightarrow> nat" where "usize_add a b = (a + b) mod 2 ^ 64"

definition too_long :: "nat \<Rightarrow> bool" where "too_long n \<longleftrightarrow> 2 ^ 63 \<le> n"

text \<open>The lengths of the destination and of the scratch buffer, and the calls made.\<close>

record conversion =
  cv_dst :: nat
  cv_mid :: nat
  cv_calls :: "yuv_call list"

type_synonym convert_result = "((convert_error + unit) \<times> conversion) option"  \<comment> \<open>\<open>None\<close>: a panic\<close>

definition align64 :: "nat \<Rightarrow> nat" where
  "align64 x = usize_mul (usize_add x 63 div 64) 64"

text \<open>The checks read \<^verbatim>\<open>src_stride[0]\<close>, a panic if there is no stride.\<close>

definition packed :: "pixfmt \<Rightarrow> bool" where
  "packed x \<longleftrightarrow> x = BGRA \<or> x = RGBA \<or> x = RGB565LE"

definition src_panics :: "pixel_buffer \<Rightarrow> yuv_format \<Rightarrow> bool" where
  "src_panics p f \<longleftrightarrow> pb_width p \<le> yf_w f \<and> pb_height p \<le> yf_h f \<and> packed (pb_pixfmt p) \<and> pb_stride p = []"

definition checks_source :: "pixel_buffer \<Rightarrow> yuv_format \<Rightarrow> convert_error option" where
  "checks_source p f =
     (if yf_w f < pb_width p \<or> yf_h f < pb_height p then Some Src_larger
      else if packed (pb_pixfmt p)
      then (if pb_stride p ! 0 < usize_mul (pb_width p) (bytes_per_pixel (pb_pixfmt p)) then Some Stride_too_small
            else if length (pb_data p) < usize_mul (pb_stride p ! 0) (pb_height p) then Some Src_too_short
            else None)
      else None)"

text \<open>\<^verbatim>\<open>call_yuv!\<close>: a return code other than zero is an error.\<close>

definition call_yuv :: "(yuv_call \<Rightarrow> bool) \<Rightarrow> yuv_call \<Rightarrow> conversion \<Rightarrow> (convert_error + unit) \<times> conversion" where
  "call_yuv ok c s = (if ok c then Inr () else Inl Yuv_call_failed, s\<lparr>cv_calls := cv_calls s @ [c]\<rparr>)"

definition plane_at :: "buffer \<Rightarrow> nat \<Rightarrow> nat \<Rightarrow> plane" where
  "plane_at b off st = \<lparr>pl_buffer = b, pl_offset = off, pl_stride = st\<rparr>"

text \<open>The scratch conversion to ARGB that two of the formats need first. A scratch buffer as long as the
  source is never too long, as no slice is.\<close>

definition to_argb ::
    "(yuv_call \<Rightarrow> bool) \<Rightarrow> yuv_fn \<Rightarrow> nat \<Rightarrow> nat \<Rightarrow> pixel_buffer \<Rightarrow> conversion \<Rightarrow> (convert_error + unit) \<times> conversion" where
  "to_argb ok g mid_len mid_stride p s =
     call_yuv ok \<lparr>yc_fn = g, yc_src = plane_at Src 0 (pb_stride p ! 0), yc_dst = [plane_at Mid 0 mid_stride],
                  yc_width = pb_width p, yc_height = pb_height p\<rparr> (s\<lparr>cv_mid := mid_len\<rparr>)"

definition convert_i420 :: "(yuv_call \<Rightarrow> bool) \<Rightarrow> pixel_buffer \<Rightarrow> yuv_format \<Rightarrow> conversion \<Rightarrow> convert_result" where
  "convert_i420 ok p f s =
     (let sy = yf_stride f ! 0; suv = yf_stride f ! 1; s1 = s\<lparr>cv_dst := usize_mul (usize_mul (yf_h f) sy) 2\<rparr>
      in if length (yf_stride f) < 2 \<or> too_long (cv_dst s1) \<or> cv_dst s1 < yf_u f \<or> cv_dst s1 < yf_v f then None
         else Some (call_yuv ok
           \<lparr>yc_fn = (case pb_pixfmt p of BGRA \<Rightarrow> ARGBToI420 | RGBA \<Rightarrow> ABGRToI420 | _ \<Rightarrow> RGB565ToI420),
            yc_src = plane_at Src 0 (pb_stride p ! 0),
            yc_dst = [plane_at Dst 0 sy, plane_at Dst (yf_u f) suv, plane_at Dst (yf_v f) suv],
            yc_width = pb_width p, yc_height = pb_height p\<rparr> s1))"

definition convert_nv12 :: "(yuv_call \<Rightarrow> bool) \<Rightarrow> pixel_buffer \<Rightarrow> yuv_format \<Rightarrow> conversion \<Rightarrow> convert_result" where
  "convert_nv12 ok p f s =
     (let sy = yf_stride f ! 0; suv = yf_stride f ! 1;
          s1 = s\<lparr>cv_dst := usize_mul (align64 (yf_h f)) (usize_add (align64 sy) (align64 (suv div 2)))\<rparr>;
          mid = usize_mul (pb_width p) 4; mid_len = usize_mul mid (pb_height p);
          last_call = (\<lambda>g src s. call_yuv ok
            \<lparr>yc_fn = g, yc_src = src, yc_dst = [plane_at Dst 0 sy, plane_at Dst (yf_u f) suv],
             yc_width = pb_width p, yc_height = pb_height p\<rparr> s)
      in if length (yf_stride f) < 2 \<or> too_long (cv_dst s1) \<or> cv_dst s1 < yf_u f then None
         else (case pb_pixfmt p of
             BGRA \<Rightarrow> Some (last_call ARGBToNV12 (plane_at Src 0 (pb_stride p ! 0)) s1)
           | RGBA \<Rightarrow> Some (last_call ABGRToNV12 (plane_at Src 0 (pb_stride p ! 0)) s1)
           | _ \<Rightarrow> if too_long mid_len then None
                else Some (case to_argb ok RGB565ToARGB mid_len mid p s1 of
                    (Inl e, s2) \<Rightarrow> (Inl e, s2)
                  | (Inr _, s2) \<Rightarrow> last_call ARGBToNV12 (plane_at Mid 0 mid) s2)))"

definition convert_i444 :: "(yuv_call \<Rightarrow> bool) \<Rightarrow> pixel_buffer \<Rightarrow> yuv_format \<Rightarrow> conversion \<Rightarrow> convert_result" where
  "convert_i444 ok p f s =
     (let sy = yf_stride f ! 0; su = yf_stride f ! 1; sv = yf_stride f ! 2;
          s1 = s\<lparr>cv_dst := usize_mul (align64 (yf_h f)) (usize_add (usize_add (align64 sy) (align64 su)) (align64 sv))\<rparr>;
          mid = usize_mul (pb_width p) 4; mid_len = usize_mul mid (pb_height p);
          last_call = (\<lambda>src s. call_yuv ok
            \<lparr>yc_fn = ARGBToI444, yc_src = src,
             yc_dst = [plane_at Dst 0 sy, plane_at Dst (yf_u f) su, plane_at Dst (yf_v f) sv],
             yc_width = pb_width p, yc_height = pb_height p\<rparr> s)
      in if length (yf_stride f) < 3 \<or> too_long (cv_dst s1) \<or> cv_dst s1 < yf_u f \<or> cv_dst s1 < yf_v f then None
         else (case pb_pixfmt p of
             BGRA \<Rightarrow> Some (last_call (plane_at Src 0 (pb_stride p ! 0)) s1)
           | RGBA \<Rightarrow> Some (case to_argb ok ABGRToARGB (length (pb_data p)) (pb_stride p ! 0) p s1 of
                    (Inl e, s2) \<Rightarrow> (Inl e, s2)
                  | (Inr _, s2) \<Rightarrow> last_call (plane_at Mid 0 (pb_stride p ! 0)) s2)
           | _ \<Rightarrow> if too_long mid_len then None
                else Some (case to_argb ok RGB565ToARGB mid_len mid p s1 of
                    (Inl e, s2) \<Rightarrow> (Inl e, s2)
                  | (Inr _, s2) \<Rightarrow> last_call (plane_at Mid 0 mid) s2)))"

text \<open>The state has the lengths of \<^verbatim>\<open>dst\<close> and \<^verbatim>\<open>mid_data\<close> as the caller passes them.\<close>

definition convert_to_yuv :: "(yuv_call \<Rightarrow> bool) \<Rightarrow> pixel_buffer \<Rightarrow> yuv_format \<Rightarrow> conversion \<Rightarrow> convert_result" where
  "convert_to_yuv ok p f s =
     (if src_panics p f then None else case checks_source p f of
        Some e \<Rightarrow> Some (Inl e, s)
      | None \<Rightarrow>
          if packed (pb_pixfmt p)
          then (case yf_pixfmt f of
                  I420_fmt \<Rightarrow> convert_i420 ok p f s
                | NV12 \<Rightarrow> convert_nv12 ok p f s
                | I444_fmt \<Rightarrow> convert_i444 ok p f s
                | _ \<Rightarrow> Some (Inl Unsupported_pixfmt, s))
          else Some (Inl Unsupported_pixfmt, s))"

subsection \<open>Frames\<close>

datatype frame_data = Pixel_frame pixel_buffer | Texture_frame bool nat  \<comment> \<open>the pointer is not null; rotation\<close>

datatype 'y encode_input = Yuv 'y | Texture bool nat

definition frame_valid :: "frame_data \<Rightarrow> bool" where
  "frame_valid f = (case f of Pixel_frame p \<Rightarrow> pb_data p \<noteq> [] | Texture_frame t _ \<Rightarrow> t)"

text \<open>\<^verbatim>\<open>Frame::to\<close>; \<open>Yuv\<close> has the length of the destination.\<close>

definition frame_to ::
    "(yuv_call \<Rightarrow> bool) \<Rightarrow> frame_data \<Rightarrow> yuv_format \<Rightarrow> conversion
      \<Rightarrow> ((convert_error + nat encode_input) \<times> conversion) option" where
  "frame_to ok f yf s =
     (case f of
        Texture_frame t r \<Rightarrow> Some (Inr (Texture t r), s)
      | Pixel_frame p \<Rightarrow>
          (case convert_to_yuv ok p yf s of
             None \<Rightarrow> None
           | Some (Inl e, s1) \<Rightarrow> Some (Inl e, s1)
           | Some (Inr _, s1) \<Rightarrow> Some (Inr (Yuv (cv_dst s1)), s1)))"

definition input_yuv :: "'y encode_input \<Rightarrow> 'y option" where
  "input_yuv i = (case i of Yuv n \<Rightarrow> Some n | Texture _ _ \<Rightarrow> None)"

definition input_texture :: "'y encode_input \<Rightarrow> (bool \<times> nat) option" where
  "input_texture i = (case i of Yuv _ \<Rightarrow> None | Texture t r \<Rightarrow> Some (t, r))"

end
