(* ===== verification/Single.thy ===== *)
theory Single
  imports Prelude
begin

text \<open>
  The arithmetic of Rust's \<^verbatim>\<open>f32\<close> that the encoders use: sums, differences, products and
  quotients of finite numbers that are not negative, each rounded to the nearest number with a
  significand of 24 bits, ties to the even one, and \<^verbatim>\<open>round\<close>, which takes halves away from zero.
  A number is a significand \<open>m\<close> over a power of two: \<open>m / 2 ^ k\<close>. Overflow to infinity does not
  occur in the range used.
\<close>

type_synonym f32 = "int \<times> nat"

definition half_even :: "int \<Rightarrow> int \<Rightarrow> int" where
  "half_even n d =
     (let q = n div d; r = n mod d
      in if d < 2 * r \<or> 2 * r = d \<and> odd q then q + 1 else q)"

text \<open>
  The exponent that gives 24 significant bits, found by halving steps, and the number nearest to
  \<open>n / d\<close>. Quotients of \<open>2 ^ 24\<close> and more and below \<open>2 ^ (-104)\<close> do not occur.
\<close>

fun scale :: "nat list \<Rightarrow> int \<Rightarrow> int \<Rightarrow> nat \<Rightarrow> int \<times> nat" where
  "scale [] n d k = (n, k)"
| "scale (j # js) n d k =
     (let n' = n * 2 ^ j in if n' < 16777216 * d then scale js n' d (k + j) else scale js n d k)"

definition nearest :: "int \<Rightarrow> int \<Rightarrow> f32" where
  "nearest n d =
     (if n = 0 then (0, 0) else case scale [64, 32, 16, 8, 4, 2, 1] n d 0 of (n', k) \<Rightarrow> (half_even n' d, k))"

definition f32_of :: "int \<Rightarrow> f32" where
  "f32_of n = nearest n 1"

definition f32_add :: "f32 \<Rightarrow> f32 \<Rightarrow> f32" where
  "f32_add x y = nearest (fst x * 2 ^ snd y + fst y * 2 ^ snd x) (2 ^ (snd x + snd y))"

definition f32_sub :: "f32 \<Rightarrow> f32 \<Rightarrow> f32" where
  "f32_sub x y = nearest (fst x * 2 ^ snd y - fst y * 2 ^ snd x) (2 ^ (snd x + snd y))"

definition f32_mul :: "f32 \<Rightarrow> f32 \<Rightarrow> f32" where
  "f32_mul x y = nearest (fst x * fst y) (2 ^ (snd x + snd y))"

definition f32_div :: "f32 \<Rightarrow> f32 \<Rightarrow> f32" where
  "f32_div x y = nearest (fst x * 2 ^ snd y) (fst y * 2 ^ snd x)"

definition f32_round :: "f32 \<Rightarrow> int" where
  "f32_round x = (2 * fst x + 2 ^ snd x) div 2 ^ (snd x + 1)"

end
