(* ===== verification/Encoders.thy ===== *)
theory Encoders
  imports Convert Single VideoCodec Recorder
begin

unbundle bit_operations_syntax

text \<open>
  The software encoders of \<^verbatim>\<open>libs/scrap/src/common/vpxcodec.rs\<close> and \<^verbatim>\<open>aom.rs\<close>: how a quality
  becomes quantizers and a bit rate, the configurations and controls the libraries are given,
  changing the quality, encoding a picture into a message. libvpx and libaom are the record
  \<open>google_lib\<close>; a fallible call answers \<open>None\<close> or \<open>False\<close>. Products of \<^verbatim>\<open>u32\<close> wrap around, as in a
  release build; the theory \<open>EncoderProps\<close> shows when they do not.
\<close>

subsection \<open>Quality\<close>

datatype quality = Best | Balanced | Low | Custom u32

definition is_custom :: "quality \<Rightarrow> bool" where
  "is_custom q = (case q of Custom _ \<Rightarrow> True | _ \<Rightarrow> False)"

text \<open>\<^verbatim>\<open>((1.0 - t) * x as f32 + t * y as f32).round()\<close> for \<^verbatim>\<open>t = b as f32 / 200.0\<close>.\<close>

definition interpolate :: "int \<Rightarrow> int \<Rightarrow> int \<Rightarrow> int" where
  "interpolate x y b =
     (let t = f32_div (f32_of b) (f32_of 200)
      in f32_round (f32_add (f32_mul (f32_sub (f32_of 1) t) (f32_of x)) (f32_mul t (f32_of y))))"

definition vpx_calc_q_values :: "u32 \<Rightarrow> u32 \<times> u32" where
  "vpx_calc_q_values b =
     (let b = uint (min b 200) in (word_of_int (interpolate 36 0 b), word_of_int (interpolate 56 37 b)))"

definition vpx_convert_quality :: "quality \<Rightarrow> u32 \<times> u32 \<times> u32" where
  "vpx_convert_quality q = (case q of
     Best \<Rightarrow> (6, 45, 150)
   | Balanced \<Rightarrow> (12, 56, 100 * 2 div 3)
   | Low \<Rightarrow> (18, 56, 50)
   | Custom b \<Rightarrow> (case vpx_calc_q_values b of (q_min, q_max) \<Rightarrow> (q_min, q_max, b)))"

definition aom_calc_q_values :: "u32 \<Rightarrow> u32 \<times> u32" where
  "aom_calc_q_values b =
     (let b = uint (min b 200) in (word_of_int (interpolate 24 5 b), word_of_int (interpolate 45 25 b)))"

definition aom_convert_quality :: "quality \<Rightarrow> u32 \<times> u32 \<times> u32" where
  "aom_convert_quality q = (case q of
     Best \<Rightarrow> (12, 25, 100)
   | Balanced \<Rightarrow> (12, 35, 100 * 2 div 3)
   | Low \<Rightarrow> (18, 45, 50)
   | Custom b \<Rightarrow> (case aom_calc_q_values b of (q_min, q_max) \<Rightarrow> (q_min, q_max, b)))"

subsection \<open>Configurations\<close>

record google_cfg =
  g_w :: u32
  g_h :: u32
  g_timebase :: "nat \<times> nat"
  rc_undershoot_pct :: nat
  g_threads :: nat
  rc_end_usage_cbr :: bool
  kf_min_dist :: nat
  kf_max_dist :: nat
  kf_disabled :: bool
  rc_min_quantizer :: u32
  rc_max_quantizer :: u32
  rc_target_bitrate :: u32
  g_profile :: nat
  rc_dropframe_thresh :: nat
  g_error_resilient :: bool
  g_input_bit_depth :: nat
  rc_overshoot_pct :: nat
  rc_buf_sizes :: "nat \<times> nat \<times> nat"  \<comment> \<open>initial, optimal, whole\<close>
  g_usage_realtime :: bool
  g_one_pass :: bool
  g_lag_in_frames :: nat

definition DEFAULT_QP_MIN :: u32 where "DEFAULT_QP_MIN = 12"
definition DEFAULT_QP_MAX :: u32 where "DEFAULT_QP_MAX = 56"

definition quantizers_usable :: "u32 \<Rightarrow> u32 \<Rightarrow> bool" where
  "quantizers_usable q_min q_max \<longleftrightarrow> 0 < q_min \<and> q_min < q_max \<and> q_max < 64"

text \<open>The three steps that both encoders take: key frames, quantizers and bit rate.\<close>

definition with_keyframes :: "nat option \<Rightarrow> google_cfg \<Rightarrow> google_cfg" where
  "with_keyframes i c = (case i of
     Some n \<Rightarrow> c\<lparr>kf_min_dist := 0, kf_max_dist := n\<rparr> | None \<Rightarrow> c\<lparr>kf_disabled := True\<rparr>)"

definition with_quantizers :: "u32 \<Rightarrow> u32 \<Rightarrow> google_cfg \<Rightarrow> google_cfg" where
  "with_quantizers q_min q_max c =
     (if quantizers_usable q_min q_max then c\<lparr>rc_min_quantizer := q_min, rc_max_quantizer := q_max\<rparr>
      else c\<lparr>rc_min_quantizer := DEFAULT_QP_MIN, rc_max_quantizer := DEFAULT_QP_MAX\<rparr>)"

definition bitrate_for :: "u32 \<Rightarrow> u32 \<Rightarrow> u32 \<Rightarrow> u32" where
  "bitrate_for w h b = base_bitrate w h * b div 100"

definition with_bitrate :: "u32 \<Rightarrow> u32 \<Rightarrow> u32 \<Rightarrow> google_cfg \<Rightarrow> google_cfg" where
  "with_bitrate w h b c =
     c\<lparr>rc_target_bitrate := (if 0 < bitrate_for w h b then bitrate_for w h b else base_bitrate w h)\<rparr>"

text \<open>Both \<^verbatim>\<open>set_quality\<close> functions: what is not usable leaves the configuration as it is.\<close>

definition requality :: "u32 \<times> u32 \<times> u32 \<Rightarrow> u32 \<Rightarrow> u32 \<Rightarrow> google_cfg \<Rightarrow> google_cfg" where
  "requality q w h c =
     (case q of (q_min, q_max, b) \<Rightarrow>
        let c1 = (if quantizers_usable q_min q_max
                  then c\<lparr>rc_min_quantizer := q_min, rc_max_quantizer := q_max\<rparr> else c)
        in if 0 < bitrate_for w h b then c1\<lparr>rc_target_bitrate := bitrate_for w h b\<rparr> else c1)"

record encoder_config =
  ec_width :: u32
  ec_height :: u32
  ec_quality :: quality
  ec_keyframe_interval :: "nat option"

definition vpx_cfg :: "nat \<Rightarrow> vpx_codec_id \<Rightarrow> bool \<Rightarrow> encoder_config \<Rightarrow> google_cfg \<Rightarrow> google_cfg" where
  "vpx_cfg threads codec i444 cfg c =
     (case vpx_convert_quality (ec_quality cfg) of (q_min, q_max, b) \<Rightarrow>
        let c1 = c\<lparr>g_w := ec_width cfg, g_h := ec_height cfg, g_timebase := (1, 1000),
                   rc_undershoot_pct := 95, rc_dropframe_thresh := 25, g_threads := threads,
                   g_error_resilient := True, rc_end_usage_cbr := True\<rparr>;
            c2 = with_quantizers q_min q_max (with_keyframes (ec_keyframe_interval cfg) c1)
        in (with_bitrate (ec_width cfg) (ec_height cfg) b c2)
             \<lparr>g_profile := (if i444 \<and> codec = Vpx_VP9 then 1 else 0)\<rparr>)"

definition aom_cfg :: "nat \<Rightarrow> bool \<Rightarrow> encoder_config \<Rightarrow> google_cfg \<Rightarrow> google_cfg" where
  "aom_cfg threads i444 cfg c =
     (case aom_convert_quality (ec_quality cfg) of (q_min, q_max, b) \<Rightarrow>
        let c1 = c\<lparr>g_w := ec_width cfg, g_h := ec_height cfg, g_threads := threads,
                   g_timebase := (1, 1000), g_input_bit_depth := 8\<rparr>;
            c2 = with_quantizers q_min q_max (with_keyframes (ec_keyframe_interval cfg) c1)
        in (with_bitrate (ec_width cfg) (ec_height cfg) b c2)
             \<lparr>rc_undershoot_pct := 50, rc_overshoot_pct := 50, rc_buf_sizes := (600, 600, 1000),
              g_usage_realtime := True, g_error_resilient := False, rc_end_usage_cbr := True,
              g_one_pass := True, g_lag_in_frames := 0, g_profile := (if i444 then 1 else 0)\<rparr>)"

subsection \<open>Controls\<close>

type_synonym control = "string \<times> int"

definition vpx_controls :: "vpx_codec_id \<Rightarrow> control list" where
  "vpx_controls codec = (case codec of
     Vpx_VP9 \<Rightarrow> [(''VP8E_SET_CPUUSED'', 7), (''VP9E_SET_ROW_MT'', 1), (''VP9E_SET_TILE_COLUMNS'', 4)]
   | Vpx_VP8 \<Rightarrow> [(''VP8E_SET_CPUUSED'', 12)])"

definition get_cpu_speed :: "u32 \<Rightarrow> u32 \<Rightarrow> int" where
  "get_cpu_speed w h =
     (if w * h \<le> 320 * 180 then 8 else if w * h \<le> 640 * 360 then 9 else 10)"

datatype superblock = Size_64x64 | Size_dynamic

definition get_super_block_size :: "u32 \<Rightarrow> u32 \<Rightarrow> nat \<Rightarrow> superblock" where
  "get_super_block_size w h threads =
     (if 4 \<le> threads \<and> 960 * 540 \<le> w * h \<and> w * h < 1920 * 1080 then Size_64x64 else Size_dynamic)"

text \<open>\<^verbatim>\<open>log2().ceil()\<close> of the number of threads. It is passed on as a floating point number.\<close>

fun log2_ceil :: "nat \<Rightarrow> nat" where
  "log2_ceil n = (if n \<le> 1 then 0 else Suc (log2_ceil ((n + 1) div 2)))"

declare log2_ceil.simps [simp del]

definition tile_control :: "google_cfg \<Rightarrow> string" where
  "tile_control c =
     (if g_threads c = 4 \<and> g_w c = 640 \<and> (g_h c = 360 \<or> g_h c = 480)
      then ''AV1E_SET_TILE_ROWS'' else ''AV1E_SET_TILE_COLUMNS'')"

subsection \<open>The libraries\<close>

datatype packet = Frame_packet bytes u32 i64 | Other_packet

record yuv_layout =
  yl_w :: nat
  yl_h :: nat
  yl_stride :: "nat list"
  yl_planes :: "nat list"  \<comment> \<open>offsets from the first\<close>

record 'c google_lib =
  iface_ok :: bool
  config_default :: "google_cfg option"
  enc_init :: "google_cfg \<Rightarrow> 'c option"
  set_control :: "control \<Rightarrow> 'c \<Rightarrow> bool \<times> 'c"
  enc_config :: "'c \<Rightarrow> google_cfg"
  config_set :: "google_cfg \<Rightarrow> 'c \<Rightarrow> bool \<times> 'c"
  enc_encode :: "bytes option \<Rightarrow> i64 \<Rightarrow> 'c \<Rightarrow> bool \<times> packet list \<times> 'c"
  img_wrap :: "bool \<Rightarrow> nat \<Rightarrow> nat \<Rightarrow> nat \<Rightarrow> yuv_layout option"
  frame_is_key :: u32
  threads64 :: nat

datatype enc_error =
  Type_mismatch | Bad_ptr | Failed_call | Not_pixelbuffer | No_valid_frame | No_format | Create_failed
| Unsupported_data_format

record 'c google_encoder =
  ge_ctx :: 'c
  ge_width :: u32
  ge_height :: u32
  ge_i444 :: bool
  ge_yuvfmt :: yuv_format

definition STRIDE_ALIGN :: nat where "STRIDE_ALIGN = 64"

text \<open>\<^verbatim>\<open>get_yuvfmt\<close> of both encoders does not look at the result: an image that could not be wrapped is
  still all zeros.\<close>

definition zeroed_layout :: yuv_layout where
  "zeroed_layout = \<lparr>yl_w = 0, yl_h = 0, yl_stride = [0, 0, 0, 0], yl_planes = [0, 0, 0, 0]\<rparr>"

definition get_yuvfmt :: "'c google_lib \<Rightarrow> u32 \<Rightarrow> u32 \<Rightarrow> bool \<Rightarrow> yuv_format" where
  "get_yuvfmt lib w h i444 =
     (let img = (case img_wrap lib i444 (unat w) (unat h) STRIDE_ALIGN of Some l \<Rightarrow> l | None \<Rightarrow> zeroed_layout)
      in \<lparr>yf_pixfmt = (if i444 then I444_fmt else I420_fmt), yf_w = yl_w img, yf_h = yl_h img,
          yf_stride = yl_stride img, yf_u = yl_planes img ! 1 - yl_planes img ! 0,
          yf_v = yl_planes img ! 2 - yl_planes img ! 0\<rparr>)"

text \<open>Calls under \<^verbatim>\<open>call_vpx!\<close> stop at the first that fails; those of \<^verbatim>\<open>call_aom_allow_err!\<close> go on.\<close>

fun controls_strict :: "('c google_lib) \<Rightarrow> control list \<Rightarrow> 'c \<Rightarrow> enc_error + 'c" where
  "controls_strict lib [] x = Inr x"
| "controls_strict lib (k # ks) x =
     (case set_control lib k x of (ok, x1) \<Rightarrow> if ok then controls_strict lib ks x1 else Inl Failed_call)"

fun controls_lenient :: "('c google_lib) \<Rightarrow> control list \<Rightarrow> 'c \<Rightarrow> 'c" where
  "controls_lenient lib [] x = x"
| "controls_lenient lib (k # ks) x = controls_lenient lib ks (snd (set_control lib k x))"

definition vpx_new ::
    "('c google_lib) \<Rightarrow> vpx_codec_id \<Rightarrow> encoder_config \<Rightarrow> bool \<Rightarrow> enc_error + 'c google_encoder" where
  "vpx_new lib codec cfg i444 =
     (if \<not> iface_ok lib then Inl Bad_ptr
      else case config_default lib of
        None \<Rightarrow> Inl Failed_call
      | Some c0 \<Rightarrow>
          (case enc_init lib (vpx_cfg (threads64 lib) codec i444 cfg c0) of
             None \<Rightarrow> Inl Failed_call
           | Some x \<Rightarrow> rbind (controls_strict lib (vpx_controls codec) x) (\<lambda>x1. Inr
               \<lparr>ge_ctx = x1, ge_width = ec_width cfg, ge_height = ec_height cfg, ge_i444 = i444,
                ge_yuvfmt = get_yuvfmt lib (ec_width cfg) (ec_height cfg) i444\<rparr>)))"

definition vpx_set_quality ::
    "('c google_lib) \<Rightarrow> quality \<Rightarrow> 'c google_encoder \<Rightarrow> (enc_error + unit) \<times> 'c google_encoder" where
  "vpx_set_quality lib q e =
     (case config_set lib (requality (vpx_convert_quality q) (ge_width e) (ge_height e) (enc_config lib (ge_ctx e))) (ge_ctx e) of
        (ok, x) \<Rightarrow> (if ok then Inr () else Inl Failed_call, e\<lparr>ge_ctx := x\<rparr>))"

definition google_bitrate :: "('c google_lib) \<Rightarrow> 'c google_encoder \<Rightarrow> u32" where
  "google_bitrate lib e = rc_target_bitrate (enc_config lib (ge_ctx e))"

text \<open>\<^verbatim>\<open>set_controls\<close> of \<^verbatim>\<open>aom.rs\<close>, in its order.\<close>

definition aom_controls :: "google_cfg \<Rightarrow> control list" where
  "aom_controls c =
     [(''AOME_SET_CPUUSED'', get_cpu_speed (g_w c) (g_h c)), (''AV1E_SET_ENABLE_CDEF'', 1),
      (''AV1E_SET_ENABLE_TPL_MODEL'', 0), (''AV1E_SET_DELTAQ_MODE'', 0), (''AV1E_SET_ENABLE_ORDER_HINT'', 0),
      (''AV1E_SET_AQ_MODE'', 3), (''AOME_SET_MAX_INTRA_BITRATE_PCT'', 300), (''AV1E_SET_COEFF_COST_UPD_FREQ'', 3),
      (''AV1E_SET_MODE_COST_UPD_FREQ'', 3), (''AV1E_SET_MV_COST_UPD_FREQ'', 3),
      (''AV1E_SET_TUNE_CONTENT=AOM_CONTENT_SCREEN'', 0), (''AV1E_SET_ENABLE_PALETTE'', 1),
      (tile_control c, int (log2_ceil (g_threads c))), (''AV1E_SET_ROW_MT'', 1), (''AV1E_SET_ENABLE_OBMC'', 0),
      (''AV1E_SET_NOISE_SENSITIVITY'', 0), (''AV1E_SET_ENABLE_WARPED_MOTION'', 0),
      (''AV1E_SET_ENABLE_GLOBAL_MOTION'', 0), (''AV1E_SET_ENABLE_REF_FRAME_MVS'', 0),
      (case get_super_block_size (g_w c) (g_h c) (g_threads c) of
         Size_64x64 \<Rightarrow> ''AV1E_SET_SUPERBLOCK_SIZE=AOM_SUPERBLOCK_SIZE_64X64''
       | Size_dynamic \<Rightarrow> ''AV1E_SET_SUPERBLOCK_SIZE=AOM_SUPERBLOCK_SIZE_DYNAMIC'', 0),
      (''AV1E_SET_ENABLE_CFL_INTRA'', 0), (''AV1E_SET_ENABLE_SMOOTH_INTRA'', 0),
      (''AV1E_SET_ENABLE_ANGLE_DELTA'', 0), (''AV1E_SET_ENABLE_FILTER_INTRA'', 0),
      (''AV1E_SET_INTRA_DEFAULT_TX_ONLY'', 1), (''AV1E_SET_DISABLE_TRELLIS_QUANT'', 1),
      (''AV1E_SET_ENABLE_DIST_WTD_COMP'', 0), (''AV1E_SET_ENABLE_DIFF_WTD_COMP'', 0),
      (''AV1E_SET_ENABLE_DUAL_FILTER'', 0), (''AV1E_SET_ENABLE_INTERINTRA_COMP'', 0),
      (''AV1E_SET_ENABLE_INTERINTRA_WEDGE'', 0), (''AV1E_SET_ENABLE_INTRA_EDGE_FILTER'', 0),
      (''AV1E_SET_ENABLE_INTRABC'', 0), (''AV1E_SET_ENABLE_MASKED_COMP'', 0),
      (''AV1E_SET_ENABLE_PAETH_INTRA'', 0), (''AV1E_SET_ENABLE_QM'', 0),
      (''AV1E_SET_ENABLE_RECT_PARTITIONS'', 0), (''AV1E_SET_ENABLE_RESTORATION'', 0),
      (''AV1E_SET_ENABLE_SMOOTH_INTERINTRA'', 0), (''AV1E_SET_ENABLE_TX64'', 0),
      (''AV1E_SET_MAX_REFERENCE_FRAMES'', 3)]"

definition aom_new ::
    "('c google_lib) \<Rightarrow> encoder_config \<Rightarrow> bool \<Rightarrow> enc_error + 'c google_encoder" where
  "aom_new lib cfg i444 =
     (if \<not> iface_ok lib then Inl Bad_ptr
      else case config_default lib of
        None \<Rightarrow> Inl Failed_call
      | Some c0 \<Rightarrow>
          (let c = aom_cfg (threads64 lib) i444 cfg c0
           in case enc_init lib c of
             None \<Rightarrow> Inl Failed_call
           | Some x \<Rightarrow> Inr
               \<lparr>ge_ctx = controls_lenient lib (aom_controls c) x, ge_width = ec_width cfg,
                ge_height = ec_height cfg, ge_i444 = i444,
                ge_yuvfmt = get_yuvfmt lib (ec_width cfg) (ec_height cfg) i444\<rparr>))"

definition aom_set_quality ::
    "('c google_lib) \<Rightarrow> quality \<Rightarrow> 'c google_encoder \<Rightarrow> (enc_error + unit) \<times> 'c google_encoder" where
  "aom_set_quality lib q e =
     (case config_set lib (requality (aom_convert_quality q) (ge_width e) (ge_height e) (enc_config lib (ge_ctx e))) (ge_ctx e) of
        (ok, x) \<Rightarrow> (if ok then Inr () else Inl Failed_call, e\<lparr>ge_ctx := x\<rparr>))"

subsection \<open>Encoding\<close>

text \<open>\<^verbatim>\<open>EncodeFrames\<close> and \<^verbatim>\<open>create_frame\<close>: the packets that are frames.\<close>

fun encoded_frames :: "u32 \<Rightarrow> packet list \<Rightarrow> picture list" where
  "encoded_frames key [] = []"
| "encoded_frames key (Other_packet # ps) = encoded_frames key ps"
| "encoded_frames key (Frame_packet d fl t # ps) =
     \<lparr>pic_data = d, pic_key = (fl AND key \<noteq> 0), pic_pts = t\<rparr> # encoded_frames key ps"

definition needed_length :: "'c google_encoder \<Rightarrow> nat" where
  "needed_length e = usize_mul (usize_mul (unat (ge_width e)) (unat (ge_height e))) (if ge_i444 e then 24 else 12) div 8"

definition google_encode ::
    "('c google_lib) \<Rightarrow> i64 \<Rightarrow> bytes \<Rightarrow> 'c google_encoder \<Rightarrow> (enc_error + picture list) \<times> 'c google_encoder" where
  "google_encode lib pts data e =
     (if length data < needed_length e then (Inl Failed_call, e)
      else if img_wrap lib (ge_i444 e) (unat (ge_width e)) (unat (ge_height e)) STRIDE_ALIGN = None then (Inl Bad_ptr, e)
      else case enc_encode lib (Some data) pts (ge_ctx e) of
        (ok, ps, x) \<Rightarrow>
          (if ok then Inr (encoded_frames (frame_is_key lib) ps) else Inl Failed_call, e\<lparr>ge_ctx := x\<rparr>))"

definition vpx_flush ::
    "('c google_lib) \<Rightarrow> 'c google_encoder \<Rightarrow> (enc_error + picture list) \<times> 'c google_encoder" where
  "vpx_flush lib e =
     (case enc_encode lib None (- 1) (ge_ctx e) of
        (ok, ps, x) \<Rightarrow>
          (if ok then Inr (encoded_frames (frame_is_key lib) ps) else Inl Failed_call, e\<lparr>ge_ctx := x\<rparr>))"

text \<open>The message is the format and the pictures, as the recorder takes it.\<close>

type_synonym video_message = "codec_format \<times> picture list"

definition vpx_encode_to_message ::
    "('c google_lib) \<Rightarrow> vpx_codec_id \<Rightarrow> bytes encode_input \<Rightarrow> i64 \<Rightarrow> 'c google_encoder
      \<Rightarrow> (enc_error + video_message) \<times> 'c google_encoder" where
  "vpx_encode_to_message lib codec input ms e =
     (case input_yuv input of
        None \<Rightarrow> (Inl Not_pixelbuffer, e)
      | Some data \<Rightarrow>
          (case google_encode lib ms data e of
             (Inl err, e1) \<Rightarrow> (Inl err, e1)
           | (Inr fs, e1) \<Rightarrow>
               (case vpx_flush lib e1 of
                  (Inl err, e2) \<Rightarrow> (Inl err, e2)
                | (Inr gs, e2) \<Rightarrow>
                    (if fs @ gs = [] then Inl No_valid_frame
                     else Inr (case codec of Vpx_VP8 \<Rightarrow> VP8 | Vpx_VP9 \<Rightarrow> VP9, fs @ gs), e2))))"

text \<open>\<^verbatim>\<open>pts\<close> is \<^verbatim>\<open>kTimeBaseDen / 1000 * ms\<close>, which is \<^verbatim>\<open>ms\<close>; there is no flush.\<close>

definition aom_encode_to_message ::
    "('c google_lib) \<Rightarrow> bytes encode_input \<Rightarrow> i64 \<Rightarrow> 'c google_encoder
      \<Rightarrow> (enc_error + video_message) \<times> 'c google_encoder" where
  "aom_encode_to_message lib input ms e =
     (case input_yuv input of
        None \<Rightarrow> (Inl Not_pixelbuffer, e)
      | Some data \<Rightarrow>
          (case google_encode lib ms data e of
             (Inl err, e1) \<Rightarrow> (Inl err, e1)
           | (Inr fs, e1) \<Rightarrow> (if fs = [] then Inl No_valid_frame else Inr (AV1, fs), e1)))"

end
