(* ===== verification/HwCodec.thy ===== *)
theory HwCodec
  imports Encoders
begin

text \<open>
  Hardware codecs in memory, \<^verbatim>\<open>libs/scrap/src/common/hwcodec.rs\<close>: the table of the machine's codecs
  (\<^verbatim>\<open>HwCodecConfig\<close>) with where it comes from on each platform, the choice of an encoder and a
  decoder, and \<^verbatim>\<open>HwRamEncoder\<close>. The crate \<^verbatim>\<open>hwcodec\<close>, JSON and the signature of the graphics card
  are the record \<open>hw_env\<close>. The contexts of codecs in video memory are opaque numbers.
\<close>

datatype platform = Windows | Macos | Linux | Android | Ios

record codec_info =
  ci_name :: string
  ci_mc_name :: "string option"
  ci_format :: data_format

record hw_config =
  signature :: u64
  ram_encode :: "codec_info list"
  ram_decode :: "codec_info list"
  vram_encode :: "nat list"
  vram_decode :: "nat list"

definition hw_config_default :: hw_config where
  "hw_config_default = \<lparr>signature = 0, ram_encode = [], ram_decode = [], vram_encode = [], vram_decode = []\<rparr>"

text \<open>\<^verbatim>\<open>MediaCodecInfo\<close> and \<^verbatim>\<open>MediaCodecInfos\<close> of \<^verbatim>\<open>android/ffi.rs\<close>.\<close>

record media_codec_info =
  mi_name :: string
  mi_is_encoder :: bool
  mi_hw :: "bool option"
  mi_mime_type :: string
  mi_nv12 :: bool
  mi_min_bitrate :: u32
  mi_max_bitrate :: u32
  mi_max_width :: nat
  mi_max_height :: nat

record media_codec_infos =
  mis_w :: nat
  mis_h :: nat
  mis_codecs :: "media_codec_info list"

record hw_env =
  hw_platform :: platform
  hw_feature_vram :: bool
  from_json :: "string \<Rightarrow> hw_config option"
  to_json :: "hw_config \<Rightarrow> string option"
  gpu_signature :: u64
  prioritized :: "codec_info list \<Rightarrow> codec_info option \<times> codec_info option"  \<comment> \<open>H264 and H265\<close>
  soft :: "codec_info option \<times> codec_info option"
  format_from_name :: "string \<Rightarrow> data_format option"
  screen_scale :: u16

text \<open>The statics \<^verbatim>\<open>CONFIG\<close> and \<^verbatim>\<open>CONFIG_SET_BY_IPC\<close>, the file \<^verbatim>\<open>_hwcodec\<close>, Android's table, and the state
  of \<^verbatim>\<open>Encoder\<close>.\<close>

record hw_state =
  hw_conf :: "hw_config option"
  set_by_ipc :: bool
  hw_file :: string
  codec_infos :: "media_codec_infos option"
  hw_codec :: codec_state

subsection \<open>The table\<close>

definition config_or_default :: "hw_config option \<Rightarrow> hw_config" where
  "config_or_default c = (case c of Some x \<Rightarrow> x | None \<Rightarrow> hw_config_default)"

definition hw_set :: "hw_env \<Rightarrow> string \<Rightarrow> hw_state \<Rightarrow> hw_state" where
  "hw_set e config s =
     (let c = config_or_default (from_json e config);
          s1 = (if hw_platform e = Windows \<or> hw_platform e = Macos
                then s\<lparr>hw_file := (case to_json e c of Some j \<Rightarrow> j | None \<Rightarrow> '''')\<rparr> else s)
      in s1\<lparr>hw_conf := Some c, set_by_ipc := True\<rparr>)"

text \<open>On Android: for each format the first hardware encoder that is as large as the screen, or the largest.\<close>

definition get_mime_type :: "data_format \<Rightarrow> string" where
  "get_mime_type f = (case f of
     DF_VP8 \<Rightarrow> ''video/x-vnd.on2.vp8'' | DF_VP9 \<Rightarrow> ''video/x-vnd.on2.vp9'' | DF_AV1 \<Rightarrow> ''video/av01''
   | DF_H264 \<Rightarrow> ''video/avc'' | DF_H265 \<Rightarrow> ''video/hevc'')"

definition candidates :: "media_codec_infos \<Rightarrow> data_format \<Rightarrow> media_codec_info list" where
  "candidates info f = filter (\<lambda>c. mi_is_encoder c \<and> mi_mime_type c = get_mime_type f \<and> mi_nv12 c \<and> mi_hw c = Some True)
     (mis_codecs info)"

fun max_area :: "media_codec_info list \<Rightarrow> nat \<Rightarrow> string option \<Rightarrow> string option" where
  "max_area [] a best = best"
| "max_area (c # cs) a best =
     (if a < mi_max_width c * mi_max_height c then max_area cs (mi_max_width c * mi_max_height c) (Some (mi_name c))
      else max_area cs a best)"

definition best_codec :: "media_codec_infos \<Rightarrow> data_format \<Rightarrow> string option" where
  "best_codec info f =
     (let wh = max (mis_w info) (mis_h info); cs = candidates info f
      in case find (\<lambda>c. wh \<le> mi_max_width c \<and> wh \<le> mi_max_height c) cs of
           Some c \<Rightarrow> Some (mi_name c)
         | None \<Rightarrow> max_area cs 0 None)"

definition android_encoders :: "media_codec_infos option \<Rightarrow> codec_info list" where
  "android_encoders i =
     (case i of None \<Rightarrow> []
      | Some info \<Rightarrow> concat (map (\<lambda>(prefix, f). case best_codec info f of
            None \<Rightarrow> []
          | Some b \<Rightarrow> [\<lparr>ci_name = prefix @ ''_mediacodec'', ci_mc_name = Some b, ci_format = f\<rparr>])
          [(''h264'', DF_H264), (''hevc'', DF_H265)]))"

definition hw_get :: "hw_env \<Rightarrow> hw_state \<Rightarrow> hw_config \<times> hw_state" where
  "hw_get e s =
     (case hw_platform e of
        Android \<Rightarrow> (hw_config_default\<lparr>ram_encode := android_encoders (codec_infos s)\<rparr>, s)
      | Linux \<Rightarrow> (config_or_default (hw_conf s), s)
      | Ios \<Rightarrow> (hw_config_default, s)
      | _ \<Rightarrow>
          (case hw_conf s of
             Some c \<Rightarrow> (c, s)
           | None \<Rightarrow>
               (let c = config_or_default (from_json e (hw_file s))
                in if signature c = gpu_signature e then (c, s\<lparr>hw_conf := Some c\<rparr>) else (hw_config_default, s))))"

definition get_set_value :: "hw_state \<Rightarrow> hw_config option" where
  "get_set_value s = (if set_by_ipc s then hw_conf s else None)"

definition already_set :: "hw_state \<Rightarrow> bool" where
  "already_set s = set_by_ipc s"

definition clear_config :: "bool \<Rightarrow> bool \<Rightarrow> bool \<Rightarrow> hw_config \<Rightarrow> hw_config" where
  "clear_config has_vram vram encode_side c =
     (if vram
      then if \<not> has_vram then c
           else if encode_side then c\<lparr>vram_encode := []\<rparr> else c\<lparr>vram_decode := []\<rparr>
      else if encode_side then c\<lparr>ram_encode := []\<rparr> else c\<lparr>ram_decode := []\<rparr>)"

text \<open>The check of \<^verbatim>\<open>Encoder\<close> runs with what the machine can do after the clearing.\<close>

definition hw_clear :: "hw_env \<Rightarrow> (hw_state \<Rightarrow> codec_env) \<Rightarrow> bool \<Rightarrow> bool \<Rightarrow> hw_state \<Rightarrow> hw_state" where
  "hw_clear e machine vram encode_side s =
     (let s1 = (if hw_platform e = Android then s\<lparr>codec_infos := None\<rparr>
                else s\<lparr>hw_conf := map_option (clear_config (hw_feature_vram e) vram encode_side) (hw_conf s)\<rparr>)
      in s1\<lparr>hw_codec := encoder_update (machine s1) Upd_check (hw_codec s1)\<rparr>)"

subsection \<open>Choosing a codec\<close>

definition of_format :: "codec_format \<Rightarrow> codec_info option \<times> codec_info option \<Rightarrow> codec_info option" where
  "of_format f p = (if f = H264 then fst p else if f = H265 then snd p else None)"

definition encoder_try_get :: "hw_env \<Rightarrow> codec_format \<Rightarrow> hw_state \<Rightarrow> codec_info option \<times> hw_state" where
  "encoder_try_get e f s = (case hw_get e s of (c, s1) \<Rightarrow> (of_format f (prioritized e (ram_encode c)), s1))"

definition decoder_try_get :: "hw_env \<Rightarrow> bool \<Rightarrow> codec_format \<Rightarrow> hw_state \<Rightarrow> codec_info option \<times> hw_state" where
  "decoder_try_get e enabled f s =
     (let i = of_format f (soft e)
      in if enabled
         then case hw_get e s of (c, s1) \<Rightarrow>
                (case of_format f (prioritized e (ram_decode c)) of Some v \<Rightarrow> Some v | None \<Rightarrow> i, s1)
         else (i, s))"

text \<open>What \<^verbatim>\<open>Encoder\<close> asks of the machine: the name of the hardware encoder of a format.\<close>

definition machine_of :: "hw_env \<Rightarrow> codec_env \<Rightarrow> hw_state \<Rightarrow> codec_env" where
  "machine_of e base s = base\<lparr>hwram_encoder := (\<lambda>f. map_option ci_name (fst (encoder_try_get e f s)))\<rparr>"

definition hw_decoder_new ::
    "hw_env \<Rightarrow> codec_env \<Rightarrow> bool \<Rightarrow> (codec_info \<Rightarrow> 'd option) \<Rightarrow> codec_format \<Rightarrow> hw_state
      \<Rightarrow> (enc_error + 'd \<times> codec_info) \<times> hw_state" where
  "hw_decoder_new e base enabled mk f s =
     (case decoder_try_get e enabled f s of
        (None, s1) \<Rightarrow> (Inl No_format, s1)
      | (Some i, s1) \<Rightarrow>
          (case mk i of
             Some d \<Rightarrow> (Inr (d, i), s1)
           | None \<Rightarrow> (Inl Create_failed, hw_clear e (machine_of e base) False False s1)))"

subsection \<open>\<^verbatim>\<open>HwRamEncoder\<close>\<close>

record hw_ram_config =
  hc_name :: string
  hc_mc_name :: "string option"
  hc_width :: nat
  hc_height :: nat
  hc_quality :: quality
  hc_keyframe_interval :: "nat option"

datatype rate_control = RC_CBR | RC_VBR

record encode_context =
  cx_name :: string
  cx_mc_name :: "string option"
  cx_width :: nat
  cx_height :: nat
  cx_kbs :: u32
  cx_fps :: nat
  cx_gop :: i32
  cx_rc :: rate_control
  cx_threads :: nat

record hw_frame =
  hf_data :: bytes
  hf_key :: i32
  hf_pts :: i64

record 'c hw_lib =
  hw_enc_new :: "encode_context \<Rightarrow> 'c option"
  hw_enc_set_bitrate :: "u32 \<Rightarrow> 'c \<Rightarrow> 'c"
  hw_enc_encode :: "bytes \<Rightarrow> i64 \<Rightarrow> 'c \<Rightarrow> hw_frame list option \<times> 'c"
  hw_enc_linesize :: "'c \<Rightarrow> nat list"
  hw_enc_offset :: "'c \<Rightarrow> nat list"
  hw_threads16 :: nat

record 'c hw_encoder =
  he_ctx :: 'c
  he_format :: data_format
  he_nv12 :: bool
  he_bitrate :: u32
  he_config :: hw_ram_config

definition rate_control_of :: "hw_env \<Rightarrow> string \<Rightarrow> rate_control" where
  "rate_control_of e name = (if hw_platform e = Android \<and> contains name ''mediacodec'' then RC_VBR else RC_CBR)"

definition hw_convert_quality :: "string \<Rightarrow> quality \<Rightarrow> u32" where
  "hw_convert_quality name q =
     (case q of Best \<Rightarrow> 150 | Balanced \<Rightarrow> 100 | Low \<Rightarrow> 50 | Custom b \<Rightarrow> b)
     * (if contains name ''mediacodec'' then 5 else 1)"

definition check_bitrate_range :: "hw_env \<Rightarrow> media_codec_infos option \<Rightarrow> string \<Rightarrow> string option \<Rightarrow> u32 \<Rightarrow> u32" where
  "check_bitrate_range e infos name mc bitrate =
     (if hw_platform e = Android \<and> contains name ''mediacodec''
      then case infos of
             None \<Rightarrow> bitrate
           | Some i \<Rightarrow>
               (case find (\<lambda>c. Some (mi_name c) = mc \<and> mi_is_encoder c) (mis_codecs i) of
                  None \<Rightarrow> bitrate
                | Some c \<Rightarrow>
                    if mi_min_bitrate c < mi_max_bitrate c
                    then if mi_max_bitrate c < bitrate then mi_max_bitrate c
                         else if bitrate < mi_min_bitrate c then mi_min_bitrate c else bitrate
                    else bitrate)
      else bitrate)"

text \<open>\<^verbatim>\<open>fix_quality\<close> of \<^verbatim>\<open>common/android.rs\<close>, where captured screens are scaled down, and \<^verbatim>\<open>base_bitrate\<close>.\<close>

definition fix_quality :: "u16 \<Rightarrow> u16" where
  "fix_quality sc = (if sc \<le> 0 then 1 else sc * sc)"

definition hw_base_bitrate :: "hw_env \<Rightarrow> nat \<Rightarrow> nat \<Rightarrow> u32" where
  "hw_base_bitrate e w h =
     base_bitrate (of_nat w) (of_nat h) * (if hw_platform e = Android then ucast (fix_quality (screen_scale e)) else 1)"

definition hw_bitrate :: "hw_env \<Rightarrow> string \<Rightarrow> nat \<Rightarrow> nat \<Rightarrow> quality \<Rightarrow> u32" where
  "hw_bitrate e name w h q = hw_base_bitrate e w h * hw_convert_quality name q div 100"

definition hw_encoder_new ::
    "hw_env \<Rightarrow> ('c hw_lib) \<Rightarrow> hw_ram_config \<Rightarrow> hw_state \<Rightarrow> enc_error + 'c hw_encoder" where
  "hw_encoder_new e lib cfg s =
     (let b0 = hw_bitrate e (hc_name cfg) (hc_width cfg) (hc_height cfg) (hc_quality cfg);
          b1 = (if b0 = 0 then hw_base_bitrate e (hc_width cfg) (hc_height cfg) else b0);
          b2 = check_bitrate_range e (codec_infos s) (hc_name cfg) (hc_mc_name cfg) b1;
          ctx = \<lparr>cx_name = hc_name cfg, cx_mc_name = hc_mc_name cfg, cx_width = hc_width cfg,
                 cx_height = hc_height cfg, cx_kbs = b2, cx_fps = 30,
                 cx_gop = (case hc_keyframe_interval cfg of Some n \<Rightarrow> of_nat n | None \<Rightarrow> 0x7FFFFFFF),
                 cx_rc = rate_control_of e (hc_name cfg), cx_threads = hw_threads16 lib\<rparr>
      in case format_from_name e (hc_name cfg) of
           None \<Rightarrow> Inl No_format
         | Some f \<Rightarrow>
             (case hw_enc_new lib ctx of
                None \<Rightarrow> Inl Create_failed
              | Some x \<Rightarrow> Inr \<lparr>he_ctx = x, he_format = f, he_nv12 = True, he_bitrate = b2, he_config = cfg\<rparr>))"

definition hw_set_quality ::
    "hw_env \<Rightarrow> ('c hw_lib) \<Rightarrow> quality \<Rightarrow> hw_state \<Rightarrow> 'c hw_encoder \<Rightarrow> 'c hw_encoder" where
  "hw_set_quality e lib q s he =
     (let cfg = he_config he; b = hw_bitrate e (hc_name cfg) (hc_width cfg) (hc_height cfg) q;
          b1 = check_bitrate_range e (codec_infos s) (hc_name cfg) (hc_mc_name cfg) b;
          he1 = (if 0 < b then he\<lparr>he_ctx := hw_enc_set_bitrate lib b1 (he_ctx he), he_bitrate := b1\<rparr> else he)
      in he1\<lparr>he_config := cfg\<lparr>hc_quality := q\<rparr>\<rparr>)"

definition hw_yuvfmt :: "('c hw_lib) \<Rightarrow> 'c hw_encoder \<Rightarrow> yuv_format" where
  "hw_yuvfmt lib he =
     \<lparr>yf_pixfmt = (if he_nv12 he then NV12 else I420_fmt), yf_w = hc_width (he_config he), yf_h = hc_height (he_config he),
      yf_stride = hw_enc_linesize lib (he_ctx he), yf_u = hw_enc_offset lib (he_ctx he) ! 0,
      yf_v = (if he_nv12 he then 0 else hw_enc_offset lib (he_ctx he) ! 1)\<rparr>"

definition hw_support_abr :: "'c hw_encoder \<Rightarrow> bool" where
  "hw_support_abr he \<longleftrightarrow> \<not> contains (hc_name (he_config he)) ''qsv'' \<and> \<not> contains (hc_name (he_config he)) ''vaapi''"

definition hw_support_changing_quality :: "'c hw_encoder \<Rightarrow> bool" where
  "hw_support_changing_quality he \<longleftrightarrow> \<not> contains (hc_name (he_config he)) ''vaapi''"

definition hw_latency_free :: "'c hw_encoder \<Rightarrow> bool" where
  "hw_latency_free he \<longleftrightarrow> \<not> contains (hc_name (he_config he)) ''mediacodec'' \<and> \<not> contains (hc_name (he_config he)) ''videotoolbox''"

text \<open>\<^verbatim>\<open>encode\<close> turns an error of the library into no frames, which is an error of the message.\<close>

definition hw_encode_to_message ::
    "('c hw_lib) \<Rightarrow> bytes encode_input \<Rightarrow> i64 \<Rightarrow> 'c hw_encoder \<Rightarrow> (enc_error + video_message) \<times> 'c hw_encoder" where
  "hw_encode_to_message lib input ms he =
     (case input_yuv input of
        None \<Rightarrow> (Inl Not_pixelbuffer, he)
      | Some data \<Rightarrow>
          (case hw_enc_encode lib data ms (he_ctx he) of
             (r, x) \<Rightarrow>
               (let fs = map (\<lambda>f. \<lparr>pic_data = hf_data f, pic_key = (hf_key f = 1), pic_pts = hf_pts f\<rparr>)
                           (case r of Some v \<Rightarrow> v | None \<Rightarrow> [])
                in (if fs = [] then Inl No_valid_frame
                    else case he_format he of
                           DF_H264 \<Rightarrow> Inr (H264, fs) | DF_H265 \<Rightarrow> Inr (H265, fs)
                         | _ \<Rightarrow> Inl Unsupported_data_format,
                    he\<lparr>he_ctx := x\<rparr>))))"

text \<open>\<^verbatim>\<open>disable\<close>: the hardware encoders are taken off the table.\<close>

definition hw_disable :: "hw_env \<Rightarrow> codec_env \<Rightarrow> hw_state \<Rightarrow> hw_state" where
  "hw_disable e base s = hw_clear e (machine_of e base) False True s"

end
