(* ===== verification/ConvertProps.thy ===== *)
theory ConvertProps
  imports Convert
begin

text \<open>
  Memory safety of the conversion: with the destination layouts that the encoders ask for, every
  call of libyuv stays within its source, scratch and destination buffers, and no slice panics.
\<close>

subsection \<open>What libyuv touches\<close>

definition half :: "nat \<Rightarrow> nat" where
  "half n = (n + 1) div 2"

text \<open>The end of \<open>rows\<close> rows of \<open>n\<close> bytes from an offset.\<close>

definition extent :: "nat \<Rightarrow> nat \<Rightarrow> nat \<Rightarrow> nat \<Rightarrow> nat" where
  "extent off st n rows = (if n = 0 \<or> rows = 0 then 0 else off + (rows - 1) * st + n)"

text \<open>Bytes per row and number of rows, by libyuv's documentation.\<close>

definition src_rows :: "yuv_fn \<Rightarrow> nat \<Rightarrow> nat \<Rightarrow> nat \<times> nat" where
  "src_rows g w h = (if g = RGB565ToI420 \<or> g = RGB565ToARGB then (2 * w, h) else (4 * w, h))"

definition dst_rows :: "yuv_fn \<Rightarrow> nat \<Rightarrow> nat \<Rightarrow> (nat \<times> nat) list" where
  "dst_rows g w h = (case g of
     ARGBToI420 \<Rightarrow> [(w, h), (half w, half h), (half w, half h)]
   | ABGRToI420 \<Rightarrow> [(w, h), (half w, half h), (half w, half h)]
   | RGB565ToI420 \<Rightarrow> [(w, h), (half w, half h), (half w, half h)]
   | ARGBToNV12 \<Rightarrow> [(w, h), (2 * half w, half h)]
   | ABGRToNV12 \<Rightarrow> [(w, h), (2 * half w, half h)]
   | ARGBToI444 \<Rightarrow> [(w, h), (w, h), (w, h)]
   | RGB565ToARGB \<Rightarrow> [(4 * w, h)]
   | ABGRToARGB \<Rightarrow> [(4 * w, h)])"

definition plane_end :: "plane \<Rightarrow> nat \<times> nat \<Rightarrow> nat" where
  "plane_end p r = extent (pl_offset p) (pl_stride p) (fst r) (snd r)"

definition buffer_length :: "pixel_buffer \<Rightarrow> conversion \<Rightarrow> buffer \<Rightarrow> nat" where
  "buffer_length p s b = (case b of Src \<Rightarrow> length (pb_data p) | Mid \<Rightarrow> cv_mid s | Dst \<Rightarrow> cv_dst s)"

definition in_bounds :: "pixel_buffer \<Rightarrow> conversion \<Rightarrow> yuv_call \<Rightarrow> bool" where
  "in_bounds p s c \<longleftrightarrow>
     plane_end (yc_src c) (src_rows (yc_fn c) (yc_width c) (yc_height c)) \<le> buffer_length p s (pl_buffer (yc_src c)) \<and>
     length (yc_dst c) = length (dst_rows (yc_fn c) (yc_width c) (yc_height c)) \<and>
     list_all2 (\<lambda>q r. plane_end q r \<le> buffer_length p s (pl_buffer q))
       (yc_dst c) (dst_rows (yc_fn c) (yc_width c) (yc_height c))"

text \<open>
  The layouts: the planes follow each other without gaps and a row of each fits its stride. In I420
  the second chroma plane begins after half the rows, rounded down: for odd heights it begins in
  the last row of the first. Strides are positive numbers of the type \<^verbatim>\<open>c_int\<close>, and libvpx and libaom have
  at most \<open>2 ^ 27\<close> rows.
\<close>

definition layout_ok :: "yuv_format \<Rightarrow> bool" where
  "layout_ok f \<longleftrightarrow>
     (let w = yf_w f; h = yf_h f; st = yf_stride f
      in h \<le> 2 ^ 27 \<and> list_all (\<lambda>x. x < 2 ^ 31) st \<and>
        (case yf_pixfmt f of
           I420_fmt \<Rightarrow> 2 \<le> length st \<and> w \<le> st ! 0 \<and> half w \<le> st ! 1 \<and> 2 * st ! 1 \<le> st ! 0 \<and>
                   yf_u f = st ! 0 * h \<and> yf_v f = yf_u f + st ! 1 * (h div 2)
         | NV12 \<Rightarrow> 2 \<le> length st \<and> w \<le> st ! 0 \<and> 2 * half w \<le> st ! 1 \<and> even (st ! 1) \<and> yf_u f = st ! 0 * h
         | I444_fmt \<Rightarrow> 3 \<le> length st \<and> w \<le> st ! 0 \<and> w \<le> st ! 1 \<and> w \<le> st ! 2 \<and>
                   yf_u f = st ! 0 * h \<and> yf_v f = yf_u f + st ! 1 * h
         | _ \<Rightarrow> False))"

subsection \<open>Arithmetic\<close>

lemma extent_le:
  assumes "n \<le> st" and "rows \<le> R"
  shows "extent off st n rows \<le> off + R * st"
proof (cases "n = 0 \<or> rows = 0")
  case False
  then have "(rows - 1) * st + st = rows * st" by (cases rows) auto
  moreover have "rows * st \<le> R * st" using assms(2) by simp
  ultimately have "(rows - 1) * st + n \<le> R * st" using assms(1) by linarith
  with False show ?thesis by (simp add: extent_def)
qed (simp add: extent_def)

lemma half_mono: "a \<le> b \<Longrightarrow> half a \<le> half b"
  by (simp add: half_def div_le_mono)

lemma half_even: "even n \<Longrightarrow> half n = n div 2"
  by (auto simp: half_def)

text \<open>Products and sums that do not wrap around.\<close>

lemma usize_mul_exact: "a * b < 2 ^ 64 \<Longrightarrow> usize_mul a b = a * b"
  by (simp add: usize_mul_def)

lemma usize_mul_room:
  assumes "a \<le> 2 ^ 28" and "b \<le> 2 ^ 34"
  shows "usize_mul a b = a * b" and "\<not> too_long (a * b)" and "a * b \<le> 2 ^ 62"
proof -
  have "a * b \<le> 2 ^ 28 * 2 ^ 34" using assms by (rule mult_le_mono)
  then show "a * b \<le> 2 ^ 62" by simp
  then show "usize_mul a b = a * b" "\<not> too_long (a * b)" by (simp_all add: usize_mul_def too_long_def)
qed

lemma usize_add_exact: "a + b < 2 ^ 64 \<Longrightarrow> usize_add a b = a + b"
  by (simp add: usize_add_def)

lemma align64_eq:
  assumes "n < 2 ^ 32"
  shows "align64 n = (n + 63) div 64 * 64"
proof -
  have "(n + 63) div 64 * 64 \<le> n + 63" by (rule div_times_less_eq_dividend)
  also have "\<dots> < 2 ^ 64" using assms by simp
  finally have "(n + 63) div 64 * 64 < 2 ^ 64" .
  then have "usize_mul ((n + 63) div 64) 64 = (n + 63) div 64 * 64" by (rule usize_mul_exact)
  moreover have "usize_add n 63 = n + 63" using assms by (intro usize_add_exact) simp
  ultimately show ?thesis by (simp only: align64_def)
qed

lemma align64_bounds:
  assumes "n < 2 ^ 32"
  shows "n \<le> align64 n" and "align64 n \<le> n + 63" and "even (align64 n)"
proof -
  have "(n + 63) div 64 * 64 + (n + 63) mod 64 = n + 63" by (rule div_mult_mod_eq)
  moreover have "(n + 63) mod 64 < 64" by simp
  ultimately show "n \<le> align64 n" "align64 n \<le> n + 63" unfolding align64_eq [OF assms] by linarith+
  show "even (align64 n)" unfolding align64_eq [OF assms] by simp
qed

lemmas align64_ge = align64_bounds(1) and align64_le = align64_bounds(2)

lemma twice_half_align:
  assumes "n < 2 ^ 32"
  shows "2 * half n \<le> align64 n"
proof -
  obtain k where "align64 n = 2 * k" using align64_bounds(3) [OF assms] by (elim evenE)
  then show ?thesis using align64_ge [OF assms] by (simp add: half_def)
qed

text \<open>What a layout bounds, and the length of the destination it asks for.\<close>

lemma layout_bounds:
  assumes "layout_ok f"
  shows "yf_h f \<le> 2 ^ 27" and "i < length (yf_stride f) \<Longrightarrow> yf_stride f ! i < 2 ^ 31"
  using assms by (simp_all add: layout_ok_def Let_def list_all_length)

definition dst_len :: "yuv_format \<Rightarrow> nat" where
  "dst_len f = (let st = yf_stride f; h = yf_h f in case yf_pixfmt f of
     I420_fmt \<Rightarrow> h * st ! 0 * 2
   | NV12 \<Rightarrow> align64 h * (align64 (st ! 0) + align64 (st ! 1 div 2))
   | _ \<Rightarrow> align64 h * (align64 (st ! 0) + align64 (st ! 1) + align64 (st ! 2)))"

lemma dst_len_i420:
  assumes "layout_ok f" and "yf_pixfmt f = I420_fmt"
  shows "usize_mul (usize_mul (yf_h f) (yf_stride f ! 0)) 2 = dst_len f" and "\<not> too_long (dst_len f)"
    and "2 \<le> length (yf_stride f)"
proof -
  show len: "2 \<le> length (yf_stride f)" using assms by (simp add: layout_ok_def Let_def)
  have st: "yf_stride f ! 0 < 2 ^ 31" by (rule layout_bounds(2) [OF assms(1)]) (use len in linarith)
  have h: "yf_h f \<le> 2 ^ 28" using layout_bounds(1) [OF assms(1)] by simp
  have 1: "usize_mul (yf_h f) (yf_stride f ! 0) = yf_h f * yf_stride f ! 0"
    using usize_mul_room(1) [OF h, of "yf_stride f ! 0"] st by simp
  have "2 * yf_stride f ! 0 \<le> 2 ^ 34" using st by simp
  note 2 = usize_mul_room [OF h this]
  have e: "yf_h f * (2 * yf_stride f ! 0) = yf_h f * yf_stride f ! 0 * 2" by simp
  have d: "dst_len f = yf_h f * yf_stride f ! 0 * 2" using assms(2) by (simp add: dst_len_def Let_def)
  have "yf_h f * yf_stride f ! 0 * 2 < 2 ^ 64" using 2(3) unfolding e by simp
  then show "usize_mul (usize_mul (yf_h f) (yf_stride f ! 0)) 2 = dst_len f"
    unfolding 1 d by (rule usize_mul_exact)
  show "\<not> too_long (dst_len f)" using 2(2) unfolding e d .
qed

lemma aligned_product:
  assumes "h \<le> 2 ^ 27" and "b \<le> 3 * (2 ^ 31 + 63)"
  shows "usize_mul (align64 h) b = align64 h * b" and "\<not> too_long (align64 h * b)"
proof -
  have "align64 h \<le> h + 63" using assms(1) by (intro align64_le) simp
  then have "align64 h \<le> 2 ^ 28" using assms(1) by simp
  moreover have "b \<le> 2 ^ 34" using assms(2) by simp
  ultimately show "usize_mul (align64 h) b = align64 h * b" "\<not> too_long (align64 h * b)"
    by (simp_all only: usize_mul_room not_False_eq_True)
qed

lemma align64_stride: "x < 2 ^ 31 \<Longrightarrow> align64 x \<le> 2 ^ 31 + 63"
  using align64_le [of x] by simp

lemma dst_len_nv12:
  assumes "layout_ok f" and "yf_pixfmt f = NV12"
  shows "usize_mul (align64 (yf_h f)) (usize_add (align64 (yf_stride f ! 0)) (align64 (yf_stride f ! 1 div 2))) = dst_len f"
    and "\<not> too_long (dst_len f)" and "2 \<le> length (yf_stride f)"
proof -
  show len: "2 \<le> length (yf_stride f)" using assms by (simp add: layout_ok_def Let_def)
  have "yf_stride f ! 0 < 2 ^ 31" "yf_stride f ! 1 < 2 ^ 31"
    by (rule layout_bounds(2) [OF assms(1)]; use len in linarith)+
  then have "align64 (yf_stride f ! 0) \<le> 2 ^ 31 + 63" "align64 (yf_stride f ! 1 div 2) \<le> 2 ^ 31 + 63"
    by (intro align64_stride; linarith)+
  then have b: "align64 (yf_stride f ! 0) + align64 (yf_stride f ! 1 div 2) \<le> 3 * (2 ^ 31 + 63)" by simp
  then have "usize_add (align64 (yf_stride f ! 0)) (align64 (yf_stride f ! 1 div 2)) =
      align64 (yf_stride f ! 0) + align64 (yf_stride f ! 1 div 2)" by (intro usize_add_exact) simp
  then show "usize_mul (align64 (yf_h f)) (usize_add (align64 (yf_stride f ! 0)) (align64 (yf_stride f ! 1 div 2))) = dst_len f"
    "\<not> too_long (dst_len f)"
    using aligned_product [OF layout_bounds(1) [OF assms(1)] b] assms(2) by (simp_all add: dst_len_def Let_def)
qed

lemma dst_len_i444:
  assumes "layout_ok f" and "yf_pixfmt f = I444_fmt"
  shows "usize_mul (align64 (yf_h f)) (usize_add (usize_add (align64 (yf_stride f ! 0)) (align64 (yf_stride f ! 1)))
      (align64 (yf_stride f ! 2))) = dst_len f"
    and "\<not> too_long (dst_len f)" and "3 \<le> length (yf_stride f)"
proof -
  let ?a = "align64 (yf_stride f ! 0)" let ?b = "align64 (yf_stride f ! 1)" let ?c = "align64 (yf_stride f ! 2)"
  show len: "3 \<le> length (yf_stride f)" using assms by (simp add: layout_ok_def Let_def)
  have "?a \<le> 2 ^ 31 + 63" "?b \<le> 2 ^ 31 + 63" "?c \<le> 2 ^ 31 + 63"
    by (intro align64_stride layout_bounds(2) [OF assms(1)]; use len in linarith)+
  then have b: "?a + ?b + ?c \<le> 3 * (2 ^ 31 + 63)" by simp
  then have "usize_add ?a ?b = ?a + ?b" by (intro usize_add_exact) simp
  then have "usize_add (usize_add ?a ?b) ?c = ?a + ?b + ?c" using b by (simp add: usize_add_exact)
  then show "usize_mul (align64 (yf_h f)) (usize_add (usize_add ?a ?b) ?c) = dst_len f" "\<not> too_long (dst_len f)"
    using aligned_product [OF layout_bounds(1) [OF assms(1)] b] assms(2) by (simp_all add: dst_len_def Let_def)
qed

subsection \<open>Planes\<close>

text \<open>What the checks of the source establish.\<close>

definition source_ok :: "pixel_buffer \<Rightarrow> yuv_format \<Rightarrow> bool" where
  "source_ok p f \<longleftrightarrow> packed (pb_pixfmt p) \<and> pb_stride p \<noteq> [] \<and> pb_width p \<le> yf_w f \<and> pb_height p \<le> yf_h f \<and>
     bytes_per_pixel (pb_pixfmt p) * pb_width p \<le> pb_stride p ! 0 \<and>
     pb_stride p ! 0 * pb_height p \<le> length (pb_data p)"

lemma layout_width: "layout_ok f \<Longrightarrow> yf_w f < 2 ^ 31"
proof -
  assume lay: "layout_ok f"
  then have "yf_w f \<le> yf_stride f ! 0" "0 < length (yf_stride f)"
    by (auto simp: layout_ok_def Let_def split: pixfmt.splits)
  then show "yf_w f < 2 ^ 31" using layout_bounds(2) [OF lay, of 0] by linarith
qed

lemma bytes_per_pixel_le: "bytes_per_pixel x \<le> 4"
  by (cases x) (simp_all add: bytes_per_pixel_def bpp_def)

lemma source_checked:
  assumes "checks_source p f = None" and "\<not> src_panics p f" and "packed (pb_pixfmt p)"
    and "layout_ok f" and "pb_stride p ! 0 < 2 ^ 31"
  shows "source_ok p f"
proof -
  have dims: "pb_width p \<le> yf_w f" "pb_height p \<le> yf_h f" using assms(1) by (auto simp: checks_source_def split: if_splits)
  have "pb_width p * bytes_per_pixel (pb_pixfmt p) \<le> 2 ^ 31 * 4"
    using dims(1) layout_width [OF assms(4)] by (intro mult_le_mono bytes_per_pixel_le) simp
  then have 1: "usize_mul (pb_width p) (bytes_per_pixel (pb_pixfmt p)) = pb_width p * bytes_per_pixel (pb_pixfmt p)"
    by (intro usize_mul_exact) simp
  have "pb_height p \<le> 2 ^ 28" using dims(2) layout_bounds(1) [OF assms(4)] by simp
  from usize_mul_room(1) [OF this, of "pb_stride p ! 0"] assms(5)
  have 2: "usize_mul (pb_stride p ! 0) (pb_height p) = pb_stride p ! 0 * pb_height p"
    by (simp add: usize_mul_def mult.commute)
  show ?thesis using assms(1-3) 1 2
    by (auto simp: source_ok_def checks_source_def src_panics_def mult.commute split: if_splits)
qed

text \<open>The scratch buffer of the 16-bit format.\<close>

lemma mid_exact:
  assumes "layout_ok f" and "w \<le> yf_w f" and "h \<le> yf_h f"
  shows "usize_mul w 4 = w * 4" and "usize_mul (w * 4) h = w * 4 * h" and "\<not> too_long (w * 4 * h)"
proof -
  have w: "w * 4 \<le> 2 ^ 34" using assms(2) layout_width [OF assms(1)] by simp
  have h: "h \<le> 2 ^ 28" using assms(3) layout_bounds(1) [OF assms(1)] by simp
  show "usize_mul w 4 = w * 4" using w by (intro usize_mul_exact) simp
  show "usize_mul (w * 4) h = w * 4 * h" "\<not> too_long (w * 4 * h)"
    using usize_mul_room [OF h w] by (simp_all add: usize_mul_def mult.commute [of h])
qed

lemma src_end:
  assumes "source_ok p f" and "src_rows g (pb_width p) (pb_height p) = (bytes_per_pixel (pb_pixfmt p) * pb_width p, pb_height p)"
  shows "plane_end (plane_at Src 0 (pb_stride p ! 0)) (src_rows g (pb_width p) (pb_height p)) \<le> length (pb_data p)"
proof -
  have "extent 0 (pb_stride p ! 0) (bytes_per_pixel (pb_pixfmt p) * pb_width p) (pb_height p) \<le> 0 + pb_height p * pb_stride p ! 0"
    using assms(1) by (intro extent_le) (simp_all add: source_ok_def)
  also have "\<dots> \<le> length (pb_data p)" using assms(1) by (simp add: source_ok_def mult.commute)
  finally show ?thesis by (simp add: plane_end_def plane_at_def assms(2))
qed

lemma plane_end_le:
  assumes "n \<le> st" and "rows \<le> R" and "off + R * st \<le> len"
  shows "plane_end (plane_at b off st) (n, rows) \<le> len"
  using order_trans [OF extent_le [OF assms(1,2)] assms(3)] by (simp add: plane_end_def plane_at_def)

lemma i420_planes:
  assumes "layout_ok f" and "yf_pixfmt f = I420_fmt" and "w \<le> yf_w f" and "h \<le> yf_h f"
    and len: "len = yf_h f * yf_stride f ! 0 * 2"
  shows "plane_end (plane_at Dst 0 (yf_stride f ! 0)) (w, h) \<le> len"
    and "plane_end (plane_at Dst (yf_u f) (yf_stride f ! 1)) (half w, half h) \<le> len"
    and "plane_end (plane_at Dst (yf_v f) (yf_stride f ! 1)) (half w, half h) \<le> len"
    and "yf_u f \<le> len" and "yf_v f \<le> len"
proof -
  let ?y = "yf_stride f ! 0" let ?c = "yf_stride f ! 1" let ?H = "yf_h f"
  define k where "k = ?H div 2"
  have l: "w \<le> ?y" "half w \<le> ?c" "2 * ?c \<le> ?y" "yf_u f = ?H * ?y" "yf_v f = ?H * ?y + k * ?c"
    using assms(1-3) half_mono [OF assms(3)] by (auto simp: layout_ok_def Let_def k_def mult.commute)
  have rows: "h \<le> ?H" "half h \<le> half ?H" using assms(4) by (simp_all add: half_mono)
  have "k + half ?H = ?H" by (simp add: k_def half_def)
  then have sum: "k * ?c + half ?H * ?c = ?H * ?c" by (simp flip: distrib_right)
  have "2 * (?H * ?c) \<le> ?H * ?y" using mult_le_mono2 [OF l(3), of ?H] by (simp add: ac_simps)
  note bounds = this sum len l(4,5)
  show "plane_end (plane_at Dst 0 ?y) (w, h) \<le> len"
    by (rule plane_end_le [OF l(1) rows(1)]) (use bounds in linarith)
  show "plane_end (plane_at Dst (yf_u f) ?c) (half w, half h) \<le> len"
    by (rule plane_end_le [OF l(2) rows(2)]) (use bounds in linarith)
  show "plane_end (plane_at Dst (yf_v f) ?c) (half w, half h) \<le> len"
    by (rule plane_end_le [OF l(2) rows(2)]) (use bounds in linarith)
  show "yf_u f \<le> len" "yf_v f \<le> len" using bounds by linarith+
qed

lemma nv12_planes:
  assumes lay: "layout_ok f" and "yf_pixfmt f = NV12" and "w \<le> yf_w f" and "h \<le> yf_h f"
    and len: "len = align64 (yf_h f) * (align64 (yf_stride f ! 0) + align64 (yf_stride f ! 1 div 2))"
  shows "plane_end (plane_at Dst 0 (yf_stride f ! 0)) (w, h) \<le> len"
    and "plane_end (plane_at Dst (yf_u f) (yf_stride f ! 1)) (2 * half w, half h) \<le> len"
    and "yf_u f \<le> len"
proof -
  let ?y = "yf_stride f ! 0" let ?H = "yf_h f"
  obtain c where c: "yf_stride f ! 1 = 2 * c" using assms(1,2) by (auto simp: layout_ok_def Let_def elim: evenE)
  have "w \<le> ?y" "2 * half (yf_w f) \<le> 2 * c" and u: "yf_u f = ?y * ?H"
    using assms(1-3) by (auto simp: layout_ok_def Let_def simp flip: c)
  then have l: "w \<le> ?y" "2 * half w \<le> 2 * c" "yf_u f = ?y * ?H"
    using half_mono [OF assms(3)] by simp_all
  have rows: "half h \<le> half ?H" by (rule half_mono [OF assms(4)])
  have n: "2 \<le> length (yf_stride f)" using assms(1,2) by (simp add: layout_ok_def Let_def)
  have "?y < 2 ^ 31" "yf_stride f ! 1 < 2 ^ 31" by (rule layout_bounds(2) [OF lay]; use n in linarith)+
  then have small: "?H < 2 ^ 32" "?y < 2 ^ 32" "c < 2 ^ 32" using layout_bounds(1) [OF lay] c by simp_all
  have y: "?H * ?y \<le> align64 ?H * align64 ?y" by (intro mult_le_mono align64_ge small)
  have "half ?H * (2 * c) = (2 * half ?H) * c" by simp
  also have "\<dots> \<le> align64 ?H * align64 c" by (intro mult_le_mono align64_ge twice_half_align small)
  finally have uv: "half ?H * (2 * c) \<le> align64 ?H * align64 c" .
  have len': "len = align64 ?H * align64 ?y + align64 ?H * align64 c" unfolding len c by (simp add: distrib_left)
  show "plane_end (plane_at Dst 0 ?y) (w, h) \<le> len"
    by (rule plane_end_le [OF l(1) assms(4)]) (use y in \<open>simp add: len'\<close>)
  show "plane_end (plane_at Dst (yf_u f) (yf_stride f ! 1)) (2 * half w, half h) \<le> len"
    unfolding c by (rule plane_end_le [OF l(2) rows]) (use y uv in \<open>simp add: len' l(3) mult.commute [of ?y]\<close>)
  show "yf_u f \<le> len" using y by (simp add: len' l(3) mult.commute [of ?y])
qed

lemma i444_planes:
  assumes lay: "layout_ok f" and "yf_pixfmt f = I444_fmt" and "w \<le> yf_w f" and "h \<le> yf_h f"
    and len: "len = align64 (yf_h f) * (align64 (yf_stride f ! 0) + align64 (yf_stride f ! 1) + align64 (yf_stride f ! 2))"
  shows "plane_end (plane_at Dst 0 (yf_stride f ! 0)) (w, h) \<le> len"
    and "plane_end (plane_at Dst (yf_u f) (yf_stride f ! 1)) (w, h) \<le> len"
    and "plane_end (plane_at Dst (yf_v f) (yf_stride f ! 2)) (w, h) \<le> len"
    and "yf_u f \<le> len" and "yf_v f \<le> len"
proof -
  let ?a = "yf_stride f ! 0" let ?b = "yf_stride f ! 1" let ?c = "yf_stride f ! 2" let ?H = "yf_h f"
  have l: "w \<le> ?a" "w \<le> ?b" "w \<le> ?c" "yf_u f = ?H * ?a" "yf_v f = ?H * ?a + ?H * ?b"
    using assms(1-3) by (auto simp: layout_ok_def Let_def mult.commute)
  have n: "3 \<le> length (yf_stride f)" using assms(1,2) by (simp add: layout_ok_def Let_def)
  have "?a < 2 ^ 31" "?b < 2 ^ 31" "?c < 2 ^ 31" by (rule layout_bounds(2) [OF lay]; use n in linarith)+
  moreover have m: "?H * x \<le> align64 ?H * align64 x" if "x < 2 ^ 31" for x
    using that layout_bounds(1) [OF lay] by (intro mult_le_mono align64_ge) simp_all
  ultimately have le: "?H * ?a \<le> align64 ?H * align64 ?a" "?H * ?b \<le> align64 ?H * align64 ?b"
    "?H * ?c \<le> align64 ?H * align64 ?c" by blast+
  have len': "len = align64 ?H * align64 ?a + align64 ?H * align64 ?b + align64 ?H * align64 ?c"
    by (simp add: len distrib_left)
  show "plane_end (plane_at Dst 0 ?a) (w, h) \<le> len"
    by (rule plane_end_le [OF l(1) assms(4)]) (use le in \<open>simp add: len'\<close>)
  show "plane_end (plane_at Dst (yf_u f) ?b) (w, h) \<le> len"
    by (rule plane_end_le [OF l(2) assms(4)]) (use le in \<open>simp add: len' l\<close>)
  show "plane_end (plane_at Dst (yf_v f) ?c) (w, h) \<le> len"
    by (rule plane_end_le [OF l(3) assms(4)]) (use le in \<open>simp add: len' l\<close>)
  show "yf_u f \<le> len" "yf_v f \<le> len" using le by (simp_all add: len' l)
qed

subsection \<open>The calls\<close>

definition safe_result :: "pixel_buffer \<Rightarrow> convert_result \<Rightarrow> bool" where
  "safe_result p r = (case r of None \<Rightarrow> False | Some (_, s) \<Rightarrow> list_all (in_bounds p s) (cv_calls s))"

lemma call_yuv_simps [simp]:
  "cv_dst (snd (call_yuv ok c s)) = cv_dst s" "cv_mid (snd (call_yuv ok c s)) = cv_mid s"
  "cv_calls (snd (call_yuv ok c s)) = cv_calls s @ [c]"
  by (simp_all add: call_yuv_def)

lemma in_bounds_state:
  "in_bounds p s c \<Longrightarrow> cv_dst s' = cv_dst s \<Longrightarrow> cv_mid s' = cv_mid s \<Longrightarrow> in_bounds p s' c"
  by (auto simp: in_bounds_def buffer_length_def elim!: list_all2_mono split: buffer.splits)

text \<open>One call, and one call after a conversion to ARGB.\<close>

lemma safe_call:
  assumes "cv_calls s = []" and "in_bounds p s c"
  shows "safe_result p (Some (call_yuv ok c s))"
  using assms in_bounds_state [OF assms(2)] by (simp add: safe_result_def case_prod_beta)

lemma safe_two_calls:
  assumes "cv_calls s = []" and "in_bounds p (s\<lparr>cv_mid := n\<rparr>) c1" and "in_bounds p (s\<lparr>cv_mid := n\<rparr>) c2"
  shows "safe_result p (Some (case call_yuv ok c1 (s\<lparr>cv_mid := n\<rparr>) of
     (Inl e, s2) \<Rightarrow> (Inl e, s2) | (Inr _, s2) \<Rightarrow> call_yuv ok c2 s2))"
  using assms in_bounds_state [OF assms(2)] in_bounds_state [OF assms(3)]
  by (auto simp: safe_result_def call_yuv_def)

lemma packed_cases:
  assumes "packed x"
  obtains "x = BGRA" | "x = RGBA" | "x = RGB565LE"
  using assms by (auto simp: packed_def)

lemma bytes_per_pixel_packed [simp]:
  "bytes_per_pixel BGRA = 4" "bytes_per_pixel RGBA = 4" "bytes_per_pixel RGB565LE = 2"
  by (simp_all add: bytes_per_pixel_def bpp_def)

lemma plane_at_simps [simp]:
  "pl_buffer (plane_at b off st) = b" "pl_offset (plane_at b off st) = off" "pl_stride (plane_at b off st) = st"
  by (simp_all add: plane_at_def)

text \<open>The scratch buffer of the 16-bit format has exactly its rows.\<close>

lemma mid_end: "plane_end (plane_at Mid 0 (w * 4)) (4 * w, h) \<le> w * 4 * h"
  by (rule plane_end_le [of _ _ _ h]) simp_all

lemmas src_end4 = src_end [of _ _ ARGBToI420, unfolded src_rows_def, simplified]
lemmas src_end2 = src_end [of _ _ RGB565ToI420, unfolded src_rows_def, simplified]

lemma i420_safe:
  assumes src: "source_ok p f" and lay: "layout_ok f" "yf_pixfmt f = I420_fmt" and s: "cv_calls s = []"
  shows "safe_result p (convert_i420 ok p f s)"
proof -
  note pl = i420_planes [OF lay _ _ refl, of "pb_width p" "pb_height p"]
  have dims: "pb_width p \<le> yf_w f" "pb_height p \<le> yf_h f" "packed (pb_pixfmt p)" using src by (simp_all add: source_ok_def)
  note d = dst_len_i420 [OF lay]
  have len: "yf_h f * yf_stride f ! 0 * 2 = dst_len f" using lay(2) by (simp add: dst_len_def Let_def)
  have eq: "convert_i420 ok p f s = Some (call_yuv ok
      \<lparr>yc_fn = (case pb_pixfmt p of BGRA \<Rightarrow> ARGBToI420 | RGBA \<Rightarrow> ABGRToI420 | _ \<Rightarrow> RGB565ToI420),
       yc_src = plane_at Src 0 (pb_stride p ! 0),
       yc_dst = [plane_at Dst 0 (yf_stride f ! 0), plane_at Dst (yf_u f) (yf_stride f ! 1), plane_at Dst (yf_v f) (yf_stride f ! 1)],
       yc_width = pb_width p, yc_height = pb_height p\<rparr> (s\<lparr>cv_dst := dst_len f\<rparr>))"
    using pl(4,5) d dims by (simp add: convert_i420_def Let_def len)
  show ?thesis unfolding eq
    by (rule safe_call) (use s dims(3) in \<open>auto simp: in_bounds_def buffer_length_def dst_rows_def src_rows_def
        pl [OF dims(1,2), unfolded len] simp del: One_nat_def elim!: packed_cases intro!: src_end4 [OF src] src_end2 [OF src]\<close>)
qed

lemma nv12_safe:
  assumes src: "source_ok p f" and lay: "layout_ok f" "yf_pixfmt f = NV12" and s: "cv_calls s = []"
  shows "safe_result p (convert_nv12 ok p f s)"
proof -
  have len: "align64 (yf_h f) * (align64 (yf_stride f ! 0) + align64 (yf_stride f ! 1 div 2)) = dst_len f"
    using lay(2) by (simp add: dst_len_def Let_def)
  note pl = nv12_planes [OF lay _ _ len [symmetric], of "pb_width p" "pb_height p"] and d = dst_len_nv12 [OF lay]
  have dims: "pb_width p \<le> yf_w f" "pb_height p \<le> yf_h f" "packed (pb_pixfmt p)" using src by (simp_all add: source_ok_def)
  note mid = mid_exact [OF lay(1) dims(1,2)]
  note bounds = in_bounds_def buffer_length_def dst_rows_def src_rows_def pl [OF dims(1,2)]
  show ?thesis
  proof (cases "pb_pixfmt p = RGB565LE")
    case True
    show ?thesis
      using pl(3) d dims True s unfolding convert_nv12_def Let_def to_argb_def
      by (simp add: mid del: One_nat_def, intro safe_two_calls)
        (auto simp: bounds mid(1) mid_end simp del: One_nat_def intro!: src_end2 [OF src])
  next
    case False
    with dims(3) have "pb_pixfmt p = BGRA \<or> pb_pixfmt p = RGBA" by (auto elim: packed_cases)
    then show ?thesis
      using pl(3) d dims s unfolding convert_nv12_def Let_def
      by (elim disjE; simp del: One_nat_def; intro safe_call)
        (auto simp: bounds simp del: One_nat_def intro!: src_end4 [OF src])
  qed
qed

lemma i444_safe:
  assumes src: "source_ok p f" and lay: "layout_ok f" "yf_pixfmt f = I444_fmt" and s: "cv_calls s = []"
  shows "safe_result p (convert_i444 ok p f s)"
proof -
  have len: "align64 (yf_h f) * (align64 (yf_stride f ! 0) + align64 (yf_stride f ! 1) + align64 (yf_stride f ! 2)) = dst_len f"
    using lay(2) by (simp add: dst_len_def Let_def)
  note pl = i444_planes [OF lay _ _ len [symmetric], of "pb_width p" "pb_height p"] and d = dst_len_i444 [OF lay]
  have dims: "pb_width p \<le> yf_w f" "pb_height p \<le> yf_h f" "packed (pb_pixfmt p)" using src by (simp_all add: source_ok_def)
  note mid = mid_exact [OF lay(1) dims(1,2)]
  note bounds = in_bounds_def buffer_length_def dst_rows_def src_rows_def pl [OF dims(1,2)]
  show ?thesis using dims(3)
  proof (cases rule: packed_cases)
    case 1
    then show ?thesis
      using pl(4,5) d dims s unfolding convert_i444_def Let_def
      by (simp del: One_nat_def, intro safe_call)
        (auto simp: bounds simp del: One_nat_def intro!: src_end4 [OF src])
  next
    case 2
    have m: "plane_end (plane_at Mid 0 (pb_stride p ! 0)) (4 * pb_width p, pb_height p) \<le> length (pb_data p)"
      using src_end4 [OF src] 2 by (simp add: plane_end_def)
    show ?thesis
      using pl(4,5) d dims 2 s unfolding convert_i444_def Let_def to_argb_def
      by (simp del: One_nat_def, intro safe_two_calls)
        (auto simp: bounds m simp del: One_nat_def intro!: src_end4 [OF src])
  next
    case 3
    show ?thesis
      using pl(4,5) d dims 3 s unfolding convert_i444_def Let_def to_argb_def
      by (simp add: mid del: One_nat_def, intro safe_two_calls)
        (auto simp: bounds mid(1) mid_end simp del: One_nat_def intro!: src_end2 [OF src])
  qed
qed

lemma convert_safe:
  assumes "layout_ok f" and "pb_stride p \<noteq> []" and "cv_calls s = []" and "pb_stride p ! 0 < 2 ^ 31"
  shows "safe_result p (convert_to_yuv ok p f s)"
proof (cases "checks_source p f = None \<and> packed (pb_pixfmt p)")
  case True
  have "\<not> src_panics p f" using assms(2) by (simp add: src_panics_def)
  with True have src: "source_ok p f" using assms(1,4) by (simp add: source_checked)
  have "yf_pixfmt f = I420_fmt \<or> yf_pixfmt f = NV12 \<or> yf_pixfmt f = I444_fmt"
    using assms(1) by (auto simp: layout_ok_def Let_def split: pixfmt.splits)
  with True show ?thesis
    using \<open>\<not> src_panics p f\<close> i420_safe [OF src assms(1) _ assms(3)] nv12_safe [OF src assms(1) _ assms(3)]
      i444_safe [OF src assms(1) _ assms(3)]
    by (auto simp: convert_to_yuv_def)
next
  case False
  then show ?thesis using assms(2,3)
    by (cases "checks_source p f") (auto simp: convert_to_yuv_def src_panics_def safe_result_def)
qed

text \<open>Without a bound on the stride of the source the conversion does not panic either, and the length of
  the destination is still that of the layout.\<close>

lemma call_yuv_dst: "call_yuv ok c s = (r, s') \<Longrightarrow> cv_dst s' = cv_dst s"
  by (auto simp: call_yuv_def)

lemma convert_dst:
  assumes "convert_to_yuv ok p f s = Some (Inr u, s')" and "layout_ok f"
  shows "cv_dst s' = dst_len f"
  using assms(1) dst_len_i420(1) [OF assms(2)] dst_len_nv12(1) [OF assms(2)] dst_len_i444(1) [OF assms(2)]
  by (auto simp: convert_to_yuv_def convert_i420_def convert_nv12_def convert_i444_def to_argb_def Let_def
      simp del: One_nat_def dest!: call_yuv_dst split: if_splits option.splits pixfmt.splits prod.splits sum.splits)

lemma convert_returns:
  assumes lay: "layout_ok f" and "pb_stride p \<noteq> []"
  shows "convert_to_yuv ok p f s \<noteq> None"
proof (cases "checks_source p f = None \<and> packed (pb_pixfmt p)")
  case True
  then have dims: "pb_width p \<le> yf_w f" "pb_height p \<le> yf_h f" by (auto simp: checks_source_def split: if_splits)
  note mid = mid_exact [OF lay dims]
  have fmt: "yf_pixfmt f = I420_fmt \<or> yf_pixfmt f = NV12 \<or> yf_pixfmt f = I444_fmt"
    using lay by (auto simp: layout_ok_def Let_def split: pixfmt.splits)
  have "convert_i420 ok p f s \<noteq> None" if "yf_pixfmt f = I420_fmt"
    using i420_planes(4,5) [OF lay that dims refl] dst_len_i420 [OF lay that] that
    by (simp add: convert_i420_def Let_def dst_len_def)
  moreover have "convert_nv12 ok p f s \<noteq> None" if "yf_pixfmt f = NV12"
    using nv12_planes(3) [OF lay that dims refl] dst_len_nv12 [OF lay that] that
    by (simp add: convert_nv12_def Let_def dst_len_def mid split: pixfmt.split)
  moreover have "convert_i444 ok p f s \<noteq> None" if "yf_pixfmt f = I444_fmt"
    using i444_planes(4,5) [OF lay that dims refl] dst_len_i444 [OF lay that] that
    by (simp add: convert_i444_def Let_def dst_len_def mid split: pixfmt.split)
  ultimately show ?thesis using fmt True assms(2) by (auto simp: convert_to_yuv_def src_panics_def)
next
  case False
  then show ?thesis using assms(2) by (cases "checks_source p f") (auto simp: convert_to_yuv_def src_panics_def)
qed

subsection \<open>Properties\<close>

text \<open>C20. Converting a captured picture is memory safe: for every source whose stride fits the \<^verbatim>\<open>c_int\<close> it
  is passed as, whatever its sizes and the length of its data, and every destination of one of
  the layouts the encoders ask for, no slice or allocation panics and each call of libyuv reads and
  writes within the source, the scratch buffer and the destination, whose lengths are computed before.\<close>

theorem conversion_is_memory_safe:
  assumes "layout_ok f" and "pb_stride p \<noteq> []" and "cv_calls s = []" and "pb_stride p ! 0 < 2 ^ 31"
  shows "safe_result p (convert_to_yuv ok p f s)"
  using assms by (rule convert_safe)

definition demo_yuv :: yuv_format where
  "demo_yuv = \<lparr>yf_pixfmt = I420_fmt, yf_w = 4, yf_h = 2, yf_stride = [64, 32, 32, 0], yf_u = 128, yf_v = 160\<rparr>"

definition demo_capture :: pixel_buffer where
  "demo_capture = \<lparr>pb_data = replicate 24 0, pb_width = 3, pb_height = 2, pb_stride = [12], pb_pixfmt = BGRA\<rparr>"

lemma demo_layout: "layout_ok demo_yuv"
  by (simp add: layout_ok_def demo_yuv_def half_def Let_def)

theorem conversion_is_memory_safe_witness:
  "safe_result demo_capture (convert_to_yuv (\<lambda>_. True) demo_capture demo_yuv \<lparr>cv_dst = 0, cv_mid = 0, cv_calls = []\<rparr>)"
  by (rule conversion_is_memory_safe [OF demo_layout]) (simp_all add: demo_capture_def)

text \<open>With it one call is made, for the whole picture.\<close>

lemma demo_conversion:
  "map_option (\<lambda>(r, s). (r, cv_dst s, map yc_fn (cv_calls s)))
     (convert_to_yuv (\<lambda>_. True) demo_capture demo_yuv \<lparr>cv_dst = 0, cv_mid = 0, cv_calls = []\<rparr>)
   = Some (Inr (), 256, [ARGBToI420])"
  by (simp add: convert_to_yuv_def src_panics_def checks_source_def packed_def demo_capture_def demo_yuv_def
      convert_i420_def call_yuv_def Let_def usize_mul_def too_long_def)

text \<open>The bound on the stride is needed: the check of the length multiplies without looking at the overflow,
  so that a stride of \<open>2 ^ 63\<close> passes it for two rows and no data, and a row is read from nothing.\<close>

lemma wrapped_length_check:
  assumes "p = \<lparr>pb_data = [], pb_width = 1, pb_height = 2, pb_stride = [2 ^ 63], pb_pixfmt = BGRA\<rparr>"
  shows "checks_source p demo_yuv = None"
    and "\<not> safe_result p (convert_to_yuv ok p demo_yuv \<lparr>cv_dst = 0, cv_mid = 0, cv_calls = []\<rparr>)"
  using assms
  by (simp_all add: checks_source_def demo_yuv_def packed_def bytes_per_pixel_def bpp_def usize_mul_def convert_to_yuv_def
      src_panics_def convert_i420_def too_long_def Let_def safe_result_def call_yuv_def in_bounds_def plane_end_def
      plane_at_def extent_def src_rows_def buffer_length_def)

end
