(* ===== verification/SingleProps.thy ===== *)
theory SingleProps
  imports Single Complex_Main
begin

text \<open>
  The rounding error of the arithmetic of \<^verbatim>\<open>f32\<close> in \<open>Single\<close>: on numbers up to 64 each
  operation is within \<open>2 ^ (-18)\<close> of the exact result.
\<close>

definition val :: "f32 \<Rightarrow> real" where
  "val x = real_of_int (fst x) / 2 ^ snd x"

fun halves :: "nat \<Rightarrow> nat list" where
  "halves 0 = []"
| "halves (Suc i) = 2 ^ i # halves i"

lemma halves_7: "[64, 32, 16, 8, 4, 2, 1] = halves 7"
  by (simp add: eval_nat_numeral)

lemma scale_shift: "scale js n d k = (n', k') \<Longrightarrow> k \<le> k' \<and> n' = n * 2 ^ (k' - k)"
proof (induction js arbitrary: n k)
  case (Cons j js)
  show ?case
  proof (cases "n * 2 ^ j < 16777216 * d")
    case True
    then have "k + j \<le> k' \<and> n' = n * 2 ^ j * 2 ^ (k' - (k + j))" using Cons by (simp add: Let_def)
    then show ?thesis by (auto simp: power_add [symmetric] mult.assoc)
  next
    case False
    then show ?thesis using Cons by (simp add: Let_def)
  qed
qed simp

lemma scale_large:
  assumes "scale (halves i) n d k = (n', k')" and "n * 2 ^ m < 16777216 * d" and "m < 2 ^ i" and "0 \<le> n"
  shows "k + m \<le> k'"
  using assms
proof (induction i arbitrary: n k m)
  case (Suc i)
  show ?case
  proof (cases "n * 2 ^ 2 ^ i < 16777216 * d")
    case True
    then have s: "scale (halves i) (n * 2 ^ 2 ^ i) d (k + 2 ^ i) = (n', k')" using Suc.prems(1) by (simp add: Let_def)
    show ?thesis
    proof (cases "2 ^ i \<le> m")
      case le: True
      then have "(2::int) ^ m = 2 ^ 2 ^ i * 2 ^ (m - 2 ^ i)" by (simp add: power_add [symmetric])
      then have "n * 2 ^ 2 ^ i * 2 ^ (m - 2 ^ i) < 16777216 * d" using Suc.prems(2) by (simp add: mult.assoc)
      then have "k + 2 ^ i + (m - 2 ^ i) \<le> k'" using Suc.IH [OF s] Suc.prems(3,4) by simp
      then show ?thesis using le by simp
    next
      case False
      then show ?thesis using scale_shift [OF s] by simp
    qed
  next
    case False
    have "m < 2 ^ i"
    proof (rule ccontr)
      assume "\<not> m < 2 ^ i"
      then have "n * 2 ^ 2 ^ i \<le> n * 2 ^ m" using Suc.prems(4) by (intro mult_left_mono power_increasing) auto
      then show False using False Suc.prems(2) by linarith
    qed
    then show ?thesis using False Suc by (simp add: Let_def)
  qed
qed simp

lemma half_even_near:
  assumes "0 < d"
  shows "\<bar>2 * (half_even n d * d) - 2 * n\<bar> \<le> d"
proof -
  have n: "n div d * d + n mod d = n" and r: "0 \<le> n mod d" "n mod d < d" using assms by simp_all
  show ?thesis
  proof (cases "d < 2 * (n mod d) \<or> 2 * (n mod d) = d \<and> odd (n div d)")
    case True
    then have "half_even n d * d = n div d * d + d" by (simp add: half_even_def distrib_right)
    then show ?thesis using n r True by linarith
  next
    case False
    then have "half_even n d * d = n div d * d" by (auto simp: half_even_def Let_def)
    then show ?thesis using n r False by linarith
  qed
qed

lemma half_even_le:
  assumes "0 < d" and "n \<le> c * d"
  shows "half_even n d \<le> c"
proof -
  have n: "n div d * d + n mod d = n" and r: "0 \<le> n mod d" "n mod d < d" using assms(1) by simp_all
  have "n div d \<le> c" using zdiv_mono1 [OF assms(2,1)] assms(1) by simp
  then show ?thesis
  proof (cases "n div d = c")
    case True
    then have "n mod d = 0" using n r assms(2) by simp
    then show ?thesis using True assms(1) by (simp add: half_even_def)
  qed (auto simp: half_even_def Let_def)
qed

lemma half_even_nonneg: "0 < d \<Longrightarrow> 0 \<le> n \<Longrightarrow> 0 \<le> half_even n d"
  by (auto simp: half_even_def Let_def pos_imp_zdiv_nonneg_iff add_nonneg_nonneg)

lemma nearest_cases:
  assumes "0 \<le> n" and "0 < d" and "n \<le> 64 * d"
  obtains k where "17 \<le> k" and "val (nearest n d) = real_of_int (half_even (n * 2 ^ k) d) / 2 ^ k"
proof (cases "n = 0")
  case True
  then show ?thesis using that [of 17] assms(2) by (simp add: nearest_def val_def half_even_def Let_def)
next
  case False
  obtain n' k where s: "scale [64, 32, 16, 8, 4, 2, 1] n d 0 = (n', k)" by fastforce
  have "n * 2 ^ 17 < 16777216 * d" using assms by simp
  then have "17 \<le> k" using scale_large [of 7 n d 0 n' k 17] s assms(1) by (simp add: halves_7 [symmetric])
  moreover have "n' = n * 2 ^ k" using scale_shift [OF s] by simp
  ultimately show ?thesis using that [of k] s False by (simp add: nearest_def val_def)
qed

lemma nearest_bounds:
  assumes "0 \<le> n" and "0 < d" and "n \<le> 64 * d"
  shows "\<bar>val (nearest n d) - n / d\<bar> \<le> 1 / 2 ^ 18" and "0 \<le> val (nearest n d)"
    and "n \<le> d \<Longrightarrow> val (nearest n d) \<le> 1"
proof -
  obtain k where k: "17 \<le> k" and v: "val (nearest n d) = real_of_int (half_even (n * 2 ^ k) d) / 2 ^ k"
    using nearest_cases [OF assms] .
  let ?m = "half_even (n * 2 ^ k) d"
  have "\<bar>2 * (?m * d) - 2 * (n * 2 ^ k)\<bar> \<le> d" by (rule half_even_near [OF assms(2)])
  then have "real_of_int \<bar>2 * (?m * d) - 2 * (n * 2 ^ k)\<bar> \<le> real_of_int d" by (simp only: of_int_le_iff)
  then have "\<bar>2 * (real_of_int ?m * d) - 2 * (n * 2 ^ k)\<bar> \<le> real_of_int d" by simp
  then have m: "\<bar>real_of_int ?m * d - n * 2 ^ k\<bar> \<le> d / 2" by linarith
  have "real_of_int ?m / 2 ^ k - n / d = (real_of_int ?m * d - n * 2 ^ k) / (d * 2 ^ k)"
    using assms(2) by (simp add: diff_frac_eq mult.commute)
  then have "\<bar>real_of_int ?m / 2 ^ k - n / d\<bar> = \<bar>real_of_int ?m * d - n * 2 ^ k\<bar> / (d * 2 ^ k)"
    using assms(2) by simp
  also have "\<dots> \<le> (d / 2) / (d * 2 ^ k)" using m assms(2) by (intro divide_right_mono) auto
  also have "\<dots> = 1 / 2 ^ Suc k" using assms(2) by simp
  also have "\<dots> \<le> 1 / 2 ^ 18" using k by (intro divide_left_mono power_increasing) auto
  finally show "\<bar>val (nearest n d) - n / d\<bar> \<le> 1 / 2 ^ 18" by (simp add: v)
  show "0 \<le> val (nearest n d)" using half_even_nonneg [of d "n * 2 ^ k"] assms by (simp add: v)
  show "val (nearest n d) \<le> 1" if "n \<le> d"
    using half_even_le [of d "n * 2 ^ k" "2 ^ k"] assms(2) that by (simp add: v mult.commute)
qed


lemma half_even_one: "half_even n 1 = n"
  by (simp add: half_even_def)

lemma f32_of_exact: "val (f32_of n) = n"
proof (cases "n = 0")
  case False
  obtain n' k where s: "scale [64, 32, 16, 8, 4, 2, 1] n 1 0 = (n', k)" by fastforce
  then have "n' = n * 2 ^ k" using scale_shift [OF s] by simp
  then show ?thesis using s False by (simp add: f32_of_def nearest_def val_def half_even_one)
qed (simp add: f32_of_def nearest_def val_def)

text \<open>Each operation is \<open>nearest\<close> on the exact result.\<close>

lemma quotient_vals:
  "real_of_int (fst x * 2 ^ snd y + fst y * 2 ^ snd x) / real_of_int (2 ^ (snd x + snd y)) = val x + val y"
  "real_of_int (fst x * 2 ^ snd y - fst y * 2 ^ snd x) / real_of_int (2 ^ (snd x + snd y)) = val x - val y"
  "real_of_int (fst x * fst y) / real_of_int (2 ^ (snd x + snd y)) = val x * val y"
  "real_of_int (fst x * 2 ^ snd y) / real_of_int (fst y * 2 ^ snd x) = val x / val y"
  by (simp_all add: val_def power_add add_frac_eq diff_frac_eq mult.commute)

lemma nearest_val:
  assumes "0 < d" and "real_of_int n / real_of_int d = v" and "0 \<le> v" and "v \<le> 64"
  shows "\<bar>val (nearest n d) - v\<bar> \<le> 1 / 2 ^ 18 \<and> 0 \<le> val (nearest n d) \<and> (v \<le> 1 \<longrightarrow> val (nearest n d) \<le> 1)"
proof -
  have n: "real_of_int n = v * real_of_int d" using assms(1,2) by (auto simp: field_simps)
  then have "0 \<le> real_of_int n" "real_of_int n \<le> real_of_int (64 * d)" using assms(1,3,4) by simp_all
  then have b: "0 \<le> n" "n \<le> 64 * d" by linarith+
  have "n \<le> d" if "v \<le> 1"
  proof -
    have "real_of_int n \<le> real_of_int d" using n that assms(1,3) by (simp add: mult_le_cancel_right1)
    then show ?thesis by simp
  qed
  then show ?thesis using nearest_bounds [OF b(1) assms(1) b(2)] assms(2) by simp
qed

lemma f32_op_bounds:
  "0 \<le> val x + val y \<Longrightarrow> val x + val y \<le> 64 \<Longrightarrow> \<bar>val (f32_add x y) - (val x + val y)\<bar> \<le> 1 / 2 ^ 18 \<and> 0 \<le> val (f32_add x y)"
  "0 \<le> val x - val y \<Longrightarrow> val x - val y \<le> 64 \<Longrightarrow> \<bar>val (f32_sub x y) - (val x - val y)\<bar> \<le> 1 / 2 ^ 18 \<and> 0 \<le> val (f32_sub x y)"
  "0 \<le> val x * val y \<Longrightarrow> val x * val y \<le> 64 \<Longrightarrow> \<bar>val (f32_mul x y) - val x * val y\<bar> \<le> 1 / 2 ^ 18 \<and> 0 \<le> val (f32_mul x y)"
  unfolding f32_add_def f32_sub_def f32_mul_def by (simp_all only: nearest_val [OF _ quotient_vals(1)]
      nearest_val [OF _ quotient_vals(2)] nearest_val [OF _ quotient_vals(3)] zero_less_power zero_less_numeral simp_thms)

lemma f32_div_bounds:
  assumes "0 < val y" and "0 \<le> val x / val y" and "val x / val y \<le> 1"
  shows "\<bar>val (f32_div x y) - val x / val y\<bar> \<le> 1 / 2 ^ 18 \<and> 0 \<le> val (f32_div x y) \<and> val (f32_div x y) \<le> 1"
proof -
  have "0 < fst y" using assms(1) by (simp add: val_def zero_less_divide_iff)
  then have "0 < fst y * 2 ^ snd x" by simp
  from nearest_val [OF this quotient_vals(4)] show ?thesis using assms by (simp add: f32_div_def)
qed

lemma f32_round_floor: "f32_round x = \<lfloor>val x + 1 / 2\<rfloor>"
proof -
  have "val x + 1 / 2 = real_of_int (2 * fst x + 2 ^ snd x) / real_of_int (2 ^ (snd x + 1))"
    by (simp add: val_def field_simps)
  then show ?thesis unfolding f32_round_def by (simp only: floor_divide_of_int_eq)
qed

end
