(* ===== verification/EncoderProps.thy ===== *)
theory EncoderProps
  imports HwCodec ConvertProps VideoProps SingleProps
begin

unbundle bit_operations_syntax

text \<open>
  Properties of the encoders: they stay usable under every change of quality, the bit rate is the
  one asked for, the rounding of the quantizers, pictures converted for an encoder fit it, and a
  hardware encoder that has been disabled is not chosen again.
\<close>

subsection \<open>The interface\<close>

text \<open>What the users of \<^verbatim>\<open>EncoderApi\<close> rely on: a good encoder stays good and has a bit rate.\<close>

locale encoder_api =
  fixes set_q :: "quality \<Rightarrow> 's \<Rightarrow> 's"
    and work :: "bytes encode_input \<Rightarrow> i64 \<Rightarrow> 's \<Rightarrow> 's"
    and rate :: "'s \<Rightarrow> u32"
    and good :: "'s \<Rightarrow> bool"
  assumes set_q_good: "good s \<Longrightarrow> good (set_q q s)"
    and work_good: "good s \<Longrightarrow> good (work i ms s)"
    and rate_pos: "good s \<Longrightarrow> 0 < rate s"

datatype enc_op = Set_quality quality | Encode "bytes encode_input" i64

fun run_ops ::
    "(quality \<Rightarrow> 's \<Rightarrow> 's) \<Rightarrow> (bytes encode_input \<Rightarrow> i64 \<Rightarrow> 's \<Rightarrow> 's) \<Rightarrow> enc_op list \<Rightarrow> 's \<Rightarrow> 's" where
  "run_ops sq wk [] s = s"
| "run_ops sq wk (Set_quality q # ops) s = run_ops sq wk ops (sq q s)"
| "run_ops sq wk (Encode i ms # ops) s = run_ops sq wk ops (wk i ms s)"

context encoder_api
begin

lemma run_good: "good s \<Longrightarrow> good (run_ops set_q work ops s)"
proof (induction ops arbitrary: s)
  case Nil
  then show ?case by simp
next
  case (Cons p ops)
  then show ?case by (cases p) (simp_all add: set_q_good work_good)
qed

lemma run_rate: "good s \<Longrightarrow> 0 < rate (run_ops set_q work ops s)"
  by (rule rate_pos [OF run_good])

end

subsection \<open>The software encoders\<close>

text \<open>The documented behaviour of libvpx and libaom that the encoders rely on.\<close>

definition google_laws :: "'c google_lib \<Rightarrow> bool" where
  "google_laws lib \<longleftrightarrow>
     (\<forall>c x. enc_init lib c = Some x \<longrightarrow> enc_config lib x = c) \<and>
     (\<forall>k x. enc_config lib (snd (set_control lib k x)) = enc_config lib x) \<and>
     (\<forall>c x. enc_config lib (snd (config_set lib c x)) = (if fst (config_set lib c x) then c else enc_config lib x)) \<and>
     (\<forall>d t x. enc_config lib (snd (snd (enc_encode lib d t x))) = enc_config lib x)"

definition cfg_ok :: "google_cfg \<Rightarrow> bool" where
  "cfg_ok c \<longleftrightarrow> quantizers_usable (rc_min_quantizer c) (rc_max_quantizer c) \<and> 0 < rc_target_bitrate c"

definition google_good :: "'c google_lib \<Rightarrow> 'c google_encoder \<Rightarrow> bool" where
  "google_good lib e \<longleftrightarrow> google_laws lib \<and> cfg_ok (enc_config lib (ge_ctx e))"

lemma default_quantizers_usable: "quantizers_usable DEFAULT_QP_MIN DEFAULT_QP_MAX"
  by (simp add: quantizers_usable_def DEFAULT_QP_MIN_def DEFAULT_QP_MAX_def)

lemma base_bitrate_pos: "0 < base_bitrate w h"
  by (simp add: base_bitrate_def Let_def word_gt_0)

lemma requality_ok: "cfg_ok c \<Longrightarrow> cfg_ok (requality q w h c)"
  by (cases q) (simp add: cfg_ok_def requality_def Let_def)

lemma new_cfg_ok:
  "cfg_ok (with_bitrate w h b (with_quantizers q_min q_max c))"
  using default_quantizers_usable base_bitrate_pos by (simp add: cfg_ok_def with_bitrate_def with_quantizers_def)

lemma vpx_cfg_ok: "cfg_ok (vpx_cfg threads codec i444 cfg c)"
  using new_cfg_ok by (simp add: vpx_cfg_def Let_def cfg_ok_def split: prod.split)

lemma aom_cfg_ok: "cfg_ok (aom_cfg threads i444 cfg c)"
  using new_cfg_ok by (simp add: aom_cfg_def Let_def cfg_ok_def split: prod.split)

lemma google_lawsD:
  assumes "google_laws lib"
  shows "enc_init lib c = Some x \<Longrightarrow> enc_config lib x = c"
    and "enc_config lib (snd (set_control lib k x)) = enc_config lib x"
    and "enc_config lib (snd (config_set lib c x)) = (if fst (config_set lib c x) then c else enc_config lib x)"
    and "enc_config lib (snd (snd (enc_encode lib d t x))) = enc_config lib x"
  using assms unfolding google_laws_def by blast+

lemma controls_config:
  assumes "google_laws lib"
  shows "controls_strict lib ks x = Inr x1 \<Longrightarrow> enc_config lib x1 = enc_config lib x"
    and "enc_config lib (controls_lenient lib ks x) = enc_config lib x"
proof -
  note k = google_lawsD(2) [OF assms]
  show "controls_strict lib ks x = Inr x1 \<Longrightarrow> enc_config lib x1 = enc_config lib x"
  proof (induction ks arbitrary: x)
    case (Cons c ks)
    then show ?case using k [of c x] by (auto split: prod.splits if_splits)
  qed simp
  show "enc_config lib (controls_lenient lib ks x) = enc_config lib x"
    by (induction ks arbitrary: x) (simp_all add: k)
qed

lemma vpx_new_good:
  assumes "google_laws lib" and "vpx_new lib codec cfg i444 = Inr e"
  shows "google_good lib e"
  using assms controls_config(1) [OF assms(1)] google_lawsD(1) [OF assms(1)]
  by (auto simp: vpx_new_def rbind_Inr_iff google_good_def vpx_cfg_ok split: if_splits option.splits)

lemma aom_new_good:
  assumes "google_laws lib" and "aom_new lib cfg i444 = Inr e"
  shows "google_good lib e"
  using assms controls_config(2) [OF assms(1)] google_lawsD(1) [OF assms(1)]
  by (auto simp: aom_new_def google_good_def aom_cfg_ok Let_def split: if_splits option.splits)

lemma google_encode_good:
  assumes "google_good lib e"
  shows "google_good lib (snd (google_encode lib ms data e))"
  using assms google_lawsD(4) [of lib "Some data" ms "ge_ctx e"]
  by (auto simp: google_encode_def google_good_def split: prod.splits)

lemma vpx_flush_good:
  assumes "google_good lib e"
  shows "google_good lib (snd (vpx_flush lib e))"
  using assms google_lawsD(4) [of lib None "- 1" "ge_ctx e"]
  by (auto simp: vpx_flush_def google_good_def split: prod.splits)

lemma vpx_work_good:
  assumes "google_good lib e"
  shows "google_good lib (snd (vpx_encode_to_message lib codec i ms e))"
proof (cases "input_yuv i")
  case None
  then show ?thesis using assms by (simp add: vpx_encode_to_message_def)
next
  case (Some data)
  note one = google_encode_good [OF assms, of ms data]
  show ?thesis using Some one vpx_flush_good [OF one]
    by (auto simp: vpx_encode_to_message_def split: prod.splits sum.splits)
qed

lemma aom_work_good:
  assumes "google_good lib e"
  shows "google_good lib (snd (aom_encode_to_message lib i ms e))"
proof (cases "input_yuv i")
  case None
  then show ?thesis using assms by (simp add: aom_encode_to_message_def)
next
  case (Some data)
  show ?thesis using Some google_encode_good [OF assms, of ms data]
    by (auto simp: aom_encode_to_message_def split: prod.splits sum.splits)
qed

lemma config_set_good:
  assumes "google_good lib e" and "cfg_ok c"
  shows "google_good lib (e\<lparr>ge_ctx := snd (config_set lib c (ge_ctx e))\<rparr>)"
  using assms google_lawsD(3) [of lib c "ge_ctx e"] by (simp add: google_good_def)

lemma set_quality_good:
  assumes "google_good lib e"
  shows "google_good lib (snd (vpx_set_quality lib q e))" and "google_good lib (snd (aom_set_quality lib q e))"
proof -
  have ok: "cfg_ok (enc_config lib (ge_ctx e))"
    using assms by (simp add: google_good_def)
  show "google_good lib (snd (vpx_set_quality lib q e))" "google_good lib (snd (aom_set_quality lib q e))"
    using config_set_good [OF assms requality_ok [OF ok]]
    by (simp_all add: vpx_set_quality_def aom_set_quality_def split_beta)
qed

lemma google_rate_pos: "google_good lib e \<Longrightarrow> 0 < google_bitrate lib e"
  by (simp add: google_good_def cfg_ok_def google_bitrate_def)

interpretation vpx: encoder_api "\<lambda>q e. snd (vpx_set_quality lib q e)" "\<lambda>i ms e. snd (vpx_encode_to_message lib codec i ms e)"
    "google_bitrate lib" "google_good lib" for lib :: "'c google_lib" and codec
  by unfold_locales (simp_all add: set_quality_good vpx_work_good google_rate_pos)

interpretation aom: encoder_api "\<lambda>q e. snd (aom_set_quality lib q e)" "\<lambda>i ms e. snd (aom_encode_to_message lib i ms e)"
    "google_bitrate lib" "google_good lib" for lib :: "'c google_lib"
  by unfold_locales (simp_all add: set_quality_good aom_work_good google_rate_pos)

subsection \<open>The hardware encoder\<close>

definition hw_good :: "'c hw_encoder \<Rightarrow> bool" where
  "hw_good he \<longleftrightarrow> 0 < he_bitrate he"

lemma check_bitrate_range_pos:
  assumes "0 < b"
  shows "0 < check_bitrate_range e infos name mc b"
proof -
  have "0 < y" if "x < y" for x y :: u32
    using that by (rule le_less_trans [OF word_zero_le])
  then show ?thesis
    using assms by (auto simp: check_bitrate_range_def split: option.splits)
qed

lemma hw_set_quality_good: "hw_good he \<Longrightarrow> hw_good (hw_set_quality e lib q s he)"
  by (simp add: hw_good_def hw_set_quality_def Let_def check_bitrate_range_pos)

lemma hw_work_good: "hw_good he \<Longrightarrow> hw_good (snd (hw_encode_to_message lib i ms he))"
  by (auto simp: hw_good_def hw_encode_to_message_def Let_def split: option.splits prod.splits)

interpretation hw: encoder_api "\<lambda>q he. hw_set_quality e lib q s he" "\<lambda>i ms he. snd (hw_encode_to_message lib i ms he)"
    he_bitrate hw_good for e lib s
  by unfold_locales (simp_all add: hw_set_quality_good hw_work_good, simp add: hw_good_def)

lemma hw_new_good:
  assumes "hw_encoder_new e lib cfg s = Inr he" and "hw_platform e \<noteq> Android"
  shows "hw_good he"
proof -
  have "0 < (if b = 0 then hw_base_bitrate e w h else b)" for b w h
    using base_bitrate_pos [of "of_nat w" "of_nat h"] assms(2) by (simp add: hw_base_bitrate_def word_gt_0)
  then show ?thesis
    using assms by (auto simp: hw_encoder_new_def hw_good_def Let_def check_bitrate_range_pos
        simp del: word_neq_0_conv split: option.splits)
qed


subsection \<open>The quantizers\<close>

text \<open>
  The rounding of \<^verbatim>\<open>f32\<close> does not show: on the range of qualities the interpolation is the nearest
  integer to the exact value, halves up. Away from halves this follows from the error bound, the
  halves are evaluated.
\<close>

lemma interpolate_near:
  assumes "0 \<le> b" "b \<le> 200" and "0 \<le> x" "x \<le> 56" and "0 \<le> y" "y \<le> 56"
  shows "\<exists>r. interpolate x y b = \<lfloor>r + 1 / 2\<rfloor> \<and> \<bar>r - real_of_int (x * (200 - b) + y * b) / 200\<bar> < 1 / 400"
proof -
  define t where "t = f32_div (f32_of b) (f32_of 200)"
  define s where "s = f32_sub (f32_of 1) t"
  define p where "p = f32_mul s (f32_of x)"
  define q where "q = f32_mul t (f32_of y)"
  let ?e = "1 / 2 ^ 18 :: real"
  have b: "0 \<le> real_of_int b" "real_of_int b \<le> 200" and x: "0 \<le> real_of_int x" "real_of_int x \<le> 56"
    and y: "0 \<le> real_of_int y" "real_of_int y \<le> 56" using assms by simp_all
  have t: "\<bar>val t - b / 200\<bar> \<le> ?e" "0 \<le> val t" "val t \<le> 1"
    using f32_div_bounds [of "f32_of 200" "f32_of b"] b by (simp_all add: t_def f32_of_exact)
  have s: "\<bar>val s - (1 - val t)\<bar> \<le> ?e" "0 \<le> val s"
    using f32_op_bounds(2) [of "f32_of 1" t] t by (simp_all add: s_def f32_of_exact)
  have s1: "\<bar>val s - (1 - b / 200)\<bar> \<le> 2 * ?e" using s t by linarith
  have mult: "\<bar>u * v - w * v\<bar> \<le> c * 56" if "\<bar>u - w\<bar> \<le> c" "0 \<le> v" "v \<le> 56" for u w v c :: real
  proof -
    have "\<bar>u * v - w * v\<bar> = \<bar>u - w\<bar> * v" using that(2) by (simp add: left_diff_distrib [symmetric] abs_mult)
    also have "\<dots> \<le> c * 56" using that by (intro mult_mono) auto
    finally show ?thesis .
  qed
  have sx: "0 \<le> val s * x" "val s * x \<le> 63"
  proof -
    have "val s \<le> 1 + 1 / 2 ^ 18" using s t by linarith
    then have "val s \<le> 9 / 8" by simp
    then have "val s * x \<le> 9 / 8 * 56" using x s(2) by (intro mult_mono) auto
    then show "val s * x \<le> 63" by simp
  qed (use x s in simp)
  have ty: "0 \<le> val t * y" "val t * y \<le> 56"
    using mult_mono [of "val t" 1 "real_of_int y" 56] t y by simp_all
  have p: "\<bar>val p - val s * x\<bar> \<le> ?e" "0 \<le> val p"
    using f32_op_bounds(3) [of s "f32_of x"] sx by (simp_all add: p_def f32_of_exact)
  have q: "\<bar>val q - val t * y\<bar> \<le> ?e" "0 \<le> val q"
    using f32_op_bounds(3) [of t "f32_of y"] ty by (simp_all add: q_def f32_of_exact)
  define v where "v = real_of_int (x * (200 - b) + y * b) / 200"
  have v: "v = (1 - b / 200) * x + b / 200 * y" by (simp add: v_def field_simps)
  have pq: "\<bar>val p + val q - v\<bar> \<le> 2 * ?e + (2 * ?e) * 56 + ?e * 56"
    using p(1) q(1) mult [OF s1 x] mult [OF t(1) y] unfolding v by linarith
  have "v \<le> 56"
  proof -
    have "x * (200 - b) + y * b \<le> 56 * (200 - b) + 56 * b" using assms by (intro add_mono mult_right_mono) auto
    then have "real_of_int (x * (200 - b) + y * b) \<le> real_of_int (56 * 200)" by (simp only: of_int_le_iff) simp
    then show ?thesis by (simp add: v_def)
  qed
  then have "val p + val q \<le> 56 + (2 * ?e + (2 * ?e) * 56 + ?e * 56)" using pq by linarith
  then have "val p + val q \<le> 64" by simp
  then have "\<bar>val (f32_add p q) - (val p + val q)\<bar> \<le> ?e" using f32_op_bounds(1) [of p q] p q by simp
  then have "\<bar>val (f32_add p q) - v\<bar> \<le> ?e + (2 * ?e + (2 * ?e) * 56 + ?e * 56)" using pq by linarith
  also have "\<dots> < 1 / 400" by simp
  finally have "\<bar>val (f32_add p q) - v\<bar> < 1 / 400" .
  moreover have "interpolate x y b = \<lfloor>val (f32_add p q) + 1 / 2\<rfloor>"
    by (simp add: interpolate_def Let_def f32_round_floor p_def q_def s_def t_def)
  ultimately show ?thesis unfolding v_def by blast
qed

definition exact_interpolation :: "int \<Rightarrow> int \<Rightarrow> int \<Rightarrow> int" where
  "exact_interpolation x y b = (x * (200 - b) + y * b + 100) div 200"

lemma interpolate_exact:
  assumes "0 \<le> b" "b \<le> 200" and "0 \<le> x" "x \<le> 56" and "0 \<le> y" "y \<le> 56"
    and tie: "(x * (200 - b) + y * b + 100) mod 200 \<noteq> 0"
  shows "interpolate x y b = exact_interpolation x y b"
proof -
  define n where "n = x * (200 - b) + y * b"
  obtain r where r: "interpolate x y b = \<lfloor>r + 1 / 2\<rfloor>" "\<bar>r - real_of_int n / 200\<bar> < 1 / 400"
    using interpolate_near [OF assms(1-6)] unfolding n_def by blast
  define k m where "k = (n + 100) div 200" and "m = (n + 100) mod 200"
  have m: "1 \<le> m" "m \<le> 199" and n: "n + 100 = k * 200 + m"
    using tie by (simp_all add: k_def m_def n_def order_less_le pos_mod_sign int_one_le_iff_zero_less)
  have "real_of_int n + 100 = real_of_int k * 200 + m" using n by linarith
  then have "real_of_int k \<le> r + 1 / 2" "r + 1 / 2 < real_of_int k + 1" using r(2) m by linarith+
  then have "\<lfloor>r + 1 / 2\<rfloor> = k" by (simp add: floor_eq_iff)
  then show ?thesis using r(1) by (simp add: k_def exact_interpolation_def n_def)
qed

lemma tie_36:
  assumes "0 \<le> b" "b \<le> 200" "(36 * (200 - b) + 100) mod 200 = (0::int)"
  shows "b = 25 \<or> b = 75 \<or> b = 125 \<or> b = 175"
proof -
  have "list_all (\<lambda>b. (36 * (200 - b) + 100) mod 200 = (0::int) \<longrightarrow> b \<in> {25, 75, 125, 175}) [0..200]" by code_simp
  then show ?thesis using assms by (simp add: list_all_iff)
qed

lemma tie_24:
  assumes "0 \<le> b" "b \<le> 200" "(24 * (200 - b) + 5 * b + 100) mod 200 = (0::int)"
  shows "b = 100"
proof -
  have "list_all (\<lambda>b. (24 * (200 - b) + 5 * b + 100) mod 200 = (0::int) \<longrightarrow> b = 100) [0..200]" by code_simp
  then show ?thesis using assms by (simp add: list_all_iff)
qed

lemma tie_56:
  assumes "0 \<le> b" "b \<le> 200" "(56 * (200 - b) + 37 * b + 100) mod 200 = (0::int)"
  shows "b = 100"
proof -
  have "list_all (\<lambda>b. (56 * (200 - b) + 37 * b + 100) mod 200 = (0::int) \<longrightarrow> b = 100) [0..200]" by code_simp
  then show ?thesis using assms by (simp add: list_all_iff)
qed

lemma ties_36:  "interpolate 36 0 25 = 32" "interpolate 36 0 75 = 23" "interpolate 36 0 125 = 14" "interpolate 36 0 175 = 5"
  by code_simp+

lemma ties: "interpolate 56 37 100 = 47"  "interpolate 24 5 100 = 15"
  by code_simp+

lemma interpolate_36:
  assumes "0 \<le> b" "b \<le> 200"
  shows "interpolate 36 0 b = exact_interpolation 36 0 b"
proof (cases "(36 * (200 - b) + 0 * b + 100) mod 200 = 0")
  case True
  then have "b = 25 \<or> b = 75 \<or> b = 125 \<or> b = 175" using tie_36 assms by simp
  then show ?thesis by (elim disjE) (simp_all add: ties_36 exact_interpolation_def)
next
  case False
  then show ?thesis using interpolate_exact [of b 36 0] assms by simp
qed

lemma interpolate_56:
  assumes "0 \<le> b" "b \<le> 200"
  shows "interpolate 56 37 b = exact_interpolation 56 37 b"
proof (cases "(56 * (200 - b) + 37 * b + 100) mod 200 = 0")
  case True
  then have "b = 100" using tie_56 assms by simp
  then show ?thesis by (simp add: ties exact_interpolation_def)
next
  case False
  then show ?thesis using interpolate_exact [of b 56 37] assms by simp
qed

lemma interpolate_24:
  assumes "0 \<le> b" "b \<le> 200"
  shows "interpolate 24 5 b = exact_interpolation 24 5 b"
proof (cases "(24 * (200 - b) + 5 * b + 100) mod 200 = 0")
  case True
  then have "b = 100" using tie_24 assms by simp
  then show ?thesis by (simp add: ties exact_interpolation_def)
next
  case False
  then show ?thesis using interpolate_exact [of b 24 5] assms by simp
qed

lemma quantizers_usable_int:
  assumes "0 \<le> x" "x < 64" "0 \<le> y" "y < 64"
  shows "quantizers_usable (word_of_int x) (word_of_int y) \<longleftrightarrow> 0 < x \<and> x < y"
  using assms by (simp add: quantizers_usable_def word_less_alt uint_word_of_int)

lemma vpx_q_values:
  assumes "b = uint (min w 200)"
  shows "vpx_calc_q_values w = (word_of_int ((36 * (200 - b) + 100) div 200), word_of_int ((56 * (200 - b) + 37 * b + 100) div 200))"
proof -
  have "uint (min w 200) \<le> 200" by (simp add: min_def word_le_def)
  then show ?thesis using assms interpolate_36 [of b] interpolate_56 [of b]
    by (simp add: vpx_calc_q_values_def exact_interpolation_def Let_def)
qed

lemma vpx_q_usable:
  assumes "b = uint (min w 200)"
  shows "quantizers_usable (fst (vpx_calc_q_values w)) (snd (vpx_calc_q_values w)) \<longleftrightarrow> b < 198"
proof -
  have b: "0 \<le> b" "b \<le> 200" using assms by (simp_all add: min_def word_le_def)
  define x y where "x = (36 * (200 - b) + 100) div 200" and "y = (56 * (200 - b) + 37 * b + 100) div 200"
  have "0 \<le> x" "x < 64" "0 \<le> y" "y < 64" using b by (simp_all add: x_def y_def)
  moreover have "0 < x \<longleftrightarrow> b < 198" unfolding x_def by (subst pos_imp_zdiv_pos_iff) auto
  moreover have "x + 1 \<le> y"
  proof -
    have "x + 1 = (36 * (200 - b) + 100 + 200) div 200" unfolding x_def by (subst div_add_self2) auto
    also have "\<dots> \<le> y" unfolding y_def using b by (intro zdiv_mono1) auto
    finally show ?thesis .
  qed
  ultimately show ?thesis
    using quantizers_usable_int [of x y] unfolding vpx_q_values [OF assms] x_def [symmetric] y_def [symmetric] by simp
qed

text \<open>A custom quality of VP8 and VP9 up to 197 percent sets the quantizers between which it
  interpolates, rounded to the nearest integer in spite of the single precision; from 198 percent
  on, the best qualities that can be asked for, the lower quantizer comes out as 0, which the code
  does not take for usable, so that the encoder starts with the default quantizers 12 and 56.\<close>

theorem custom_quality_quantizers:
  "let c = vpx_cfg threads codec i444 (cfg\<lparr>ec_quality := Custom b\<rparr>) c0
   in if b < 198
      then rc_min_quantizer c = word_of_int ((36 * (200 - uint b) + 100) div 200) \<and>
           rc_max_quantizer c = word_of_int ((56 * (200 - uint b) + 37 * uint b + 100) div 200)
      else rc_min_quantizer c = 12 \<and> rc_max_quantizer c = 56"
proof (cases "b < 198")
  case True
  then have b: "uint b < 198" "min b 200 = b" by (simp_all add: word_less_alt min_def word_le_def)
  then show ?thesis using True vpx_q_usable [of "uint b" b] vpx_q_values [of "uint b" b]
    by (simp add: vpx_cfg_def Let_def vpx_convert_quality_def with_bitrate_def with_quantizers_def)
next
  case False
  then have "\<not> uint (min b 200) < 198" by (simp add: word_less_alt min_def)
  then have "\<not> quantizers_usable (fst (vpx_calc_q_values b)) (snd (vpx_calc_q_values b))"
    using vpx_q_usable [OF refl, of b] by blast
  then show ?thesis using False
    by (simp add: vpx_cfg_def Let_def vpx_convert_quality_def with_bitrate_def with_quantizers_def split_beta
        DEFAULT_QP_MIN_def DEFAULT_QP_MAX_def)
qed


subsection \<open>The bit rate\<close>

lemma base_bitrate_exact:
  assumes "unat w * unat h < 2 ^ 32"
  shows "unat (base_bitrate w h) = (let n = unat w * unat h div 1000 in if n = 0 then 2073 else n)"
proof -
  have "unat (w * h) = unat w * unat h" using assms by (simp add: unat_mult_lem [THEN iffD1])
  moreover have n: "unat w * unat h div 1000 < 2 ^ 32" using assms by simp
  moreover have "(word_of_nat (unat w * unat h div 1000) :: u32) = 0 \<longleftrightarrow> unat w * unat h div 1000 = 0"
    using n by (subst unat_eq_zero [symmetric]) (simp add: unat_of_nat)
  ultimately show ?thesis using n by (simp add: base_bitrate_def Let_def unat_of_nat)
qed

text \<open>The bit rate asked for is the one computed without bounds: for pictures of up to \<open>2 ^ 28\<close>
  pixels (16384 by 16384) and ratios of up to 4095 percent the products of the unsigned 32-bit
  numbers do not wrap around, and the rate is the exact one, never 0 for a ratio that is not below
  100 percent.\<close>

theorem bitrate_does_not_wrap:
  assumes "unat w * unat h \<le> 2 ^ 28" and "b \<le> 4095"
  shows "unat (bitrate_for w h b) = (let n = unat w * unat h div 1000; base = (if n = 0 then 2073 else n) in base * unat b div 100) \<and>
         (100 \<le> b \<longrightarrow> 0 < bitrate_for w h b)"
proof -
  define base where "base = unat (base_bitrate w h)"
  have base: "base = (let n = unat w * unat h div 1000 in if n = 0 then 2073 else n)"
    using assms(1) by (simp add: base_def base_bitrate_exact)
  have "unat w * unat h div 1000 \<le> 2 ^ 28 div 1000" using assms(1) by (rule div_le_mono)
  then have "base \<le> 268435" by (simp add: base Let_def)
  moreover have b: "unat b \<le> 4095" using assms(2) by (simp add: word_le_nat_alt)
  ultimately have "base * unat b \<le> 268435 * 4095" by (rule mult_le_mono)
  then have rate: "unat (bitrate_for w h b) = base * unat b div 100"
    by (simp add: bitrate_for_def unat_div unat_mult_lem [THEN iffD1] base_def)
  have "1 \<le> base" using base_bitrate_pos [of w h] by (simp add: base_def word_less_nat_alt)
  have "0 < bitrate_for w h b" if "100 \<le> b"
  proof -
    have "100 \<le> unat b" using that by (simp add: word_le_nat_alt)
    with \<open>1 \<le> base\<close> have "1 * 100 \<le> base * unat b" by (rule mult_le_mono)
    then show ?thesis using rate by (simp add: word_less_nat_alt div_greater_zero_iff)
  qed
  then show ?thesis using rate base by (simp add: Let_def)
qed

theorem bitrate_does_not_wrap_witness:
  "unat (bitrate_for 1920 1080 67) = 1388"
  using bitrate_does_not_wrap [of 1920 1080 67] by simp

subsection \<open>A configured encoder stays so\<close>

text \<open>C14. A software encoder stays well configured: from its creation on, through any sequence of
  changes of quality and of pictures, failing ones included, libvpx and libaom work with quantizers
  in range, the lower one below the upper, and with a bit rate above 0, whatever qualities,
  however extreme, were asked for.\<close>

theorem encoder_stays_configured:
  assumes "google_laws lib" and "vpx_new lib codec cfg i444 = Inr e"
    and "google_laws lib2" and "aom_new lib2 cfg2 i444' = Inr e2"
  shows "(let e' = run_ops (\<lambda>q e. snd (vpx_set_quality lib q e)) (\<lambda>i ms e. snd (vpx_encode_to_message lib codec i ms e)) ops e;
              c = enc_config lib (ge_ctx e')
          in quantizers_usable (rc_min_quantizer c) (rc_max_quantizer c) \<and> 0 < google_bitrate lib e') \<and>
         (let e' = run_ops (\<lambda>q e. snd (aom_set_quality lib2 q e)) (\<lambda>i ms e. snd (aom_encode_to_message lib2 i ms e)) ops e2;
              c = enc_config lib2 (ge_ctx e')
          in quantizers_usable (rc_min_quantizer c) (rc_max_quantizer c) \<and> 0 < google_bitrate lib2 e')"
  using vpx.run_good [OF vpx_new_good [OF assms(1,2)]] vpx.run_rate [OF vpx_new_good [OF assms(1,2)]]
    aom.run_good [OF aom_new_good [OF assms(3,4)]] aom.run_rate [OF aom_new_good [OF assms(3,4)]]
  by (simp_all add: google_good_def cfg_ok_def)

text \<open>A library that keeps its configuration, refuses bit rates above 100000 and sizes of more than 16 bits.\<close>

definition demo_cfg :: google_cfg where
  "demo_cfg = \<lparr>g_w = 0, g_h = 0, g_timebase = (1, 30), rc_undershoot_pct = 0, g_threads = 0, rc_end_usage_cbr = False,
     kf_min_dist = 0, kf_max_dist = 0, kf_disabled = False, rc_min_quantizer = 0, rc_max_quantizer = 63,
     rc_target_bitrate = 256, g_profile = 0, rc_dropframe_thresh = 0, g_error_resilient = False, g_input_bit_depth = 0,
     rc_overshoot_pct = 0, rc_buf_sizes = (0, 0, 0), g_usage_realtime = False, g_one_pass = False, g_lag_in_frames = 0\<rparr>"

definition demo_google :: "google_cfg google_lib" where
  "demo_google = \<lparr>iface_ok = True, config_default = Some demo_cfg, enc_init = (\<lambda>c. if unat (g_w c) < 2 ^ 16 \<and> unat (g_h c) < 2 ^ 16 then Some c else None), set_control = (\<lambda>k x. (True, x)),
     enc_config = (\<lambda>x. x), config_set = (\<lambda>c x. if 100000 < rc_target_bitrate c then (False, x) else (True, c)),
     enc_encode = (\<lambda>d t x. (True, [], x)),
     img_wrap = (\<lambda>i w h a. let y = (w + 63) div 64 * 64; c = (if i then y else y div 2)
        in if w < 2 ^ 16 \<and> h < 2 ^ 16
           then Some \<lparr>yl_w = w, yl_h = h, yl_stride = [y, c, c, 0], yl_planes = [0, y * h, y * h + c * (if i then h else h div 2), 0]\<rparr>
           else None),
     frame_is_key = 1, threads64 = 4\<rparr>"

definition demo_encoder_config :: encoder_config where
  "demo_encoder_config = \<lparr>ec_width = 3, ec_height = 2, ec_quality = Balanced, ec_keyframe_interval = None\<rparr>"

lemma demo_google_laws: "google_laws demo_google"
  by (simp add: google_laws_def demo_google_def split: if_splits)

definition demo_vpx :: "google_cfg google_encoder" where
  "demo_vpx = \<lparr>ge_ctx = vpx_cfg 4 Vpx_VP9 False demo_encoder_config demo_cfg, ge_width = 3, ge_height = 2, ge_i444 = False,
     ge_yuvfmt = get_yuvfmt demo_google 3 2 False\<rparr>"

definition demo_aom :: "google_cfg google_encoder" where
  "demo_aom = \<lparr>ge_ctx = aom_cfg 4 False demo_encoder_config demo_cfg, ge_width = 3, ge_height = 2, ge_i444 = False,
     ge_yuvfmt = get_yuvfmt demo_google 3 2 False\<rparr>"

lemma config_sizes:
  "g_w (with_quantizers a b c) = g_w c" "g_h (with_quantizers a b c) = g_h c"
  "g_w (with_keyframes k c) = g_w c" "g_h (with_keyframes k c) = g_h c"
  "g_w (with_bitrate w h b c) = g_w c" "g_h (with_bitrate w h b c) = g_h c"
  by (simp_all add: with_quantizers_def with_keyframes_def with_bitrate_def Let_def split: option.split)

lemma vpx_cfg_size: "g_w (vpx_cfg n codec i cfg c) = ec_width cfg" "g_h (vpx_cfg n codec i cfg c) = ec_height cfg"
  by (simp_all add: vpx_cfg_def config_sizes Let_def split: prod.split)

lemma aom_cfg_size: "g_w (aom_cfg n i cfg c) = ec_width cfg" "g_h (aom_cfg n i cfg c) = ec_height cfg"
  by (simp_all add: aom_cfg_def config_sizes Let_def split: prod.split)

lemma demo_lenient: "controls_lenient demo_google ks x = x"
  by (induction ks) (simp_all add: demo_google_def)

lemma demo_new:
  "vpx_new demo_google Vpx_VP9 demo_encoder_config False = Inr demo_vpx"
  "aom_new demo_google demo_encoder_config False = Inr demo_aom"
proof -
  have sel: "iface_ok demo_google" "config_default demo_google = Some demo_cfg"
    "unat (g_w c) < 2 ^ 16 \<Longrightarrow> unat (g_h c) < 2 ^ 16 \<Longrightarrow> enc_init demo_google c = Some c"
    "set_control demo_google k x = (True, x)" "threads64 demo_google = 4" for k x c
    by (simp_all add: demo_google_def)
  have dim: "ec_width demo_encoder_config = 3" "ec_height demo_encoder_config = 2" by (simp_all add: demo_encoder_config_def)
  show "vpx_new demo_google Vpx_VP9 demo_encoder_config False = Inr demo_vpx"
    by (simp add: vpx_new_def sel vpx_cfg_size vpx_controls_def rbind_def dim demo_vpx_def)
  show "aom_new demo_google demo_encoder_config False = Inr demo_aom"
    by (simp add: aom_new_def sel aom_cfg_size demo_lenient dim demo_aom_def Let_def)
qed

theorem encoder_stays_configured_witness:
  "let e' = run_ops (\<lambda>q e. snd (vpx_set_quality demo_google q e)) (\<lambda>i ms e. snd (vpx_encode_to_message demo_google Vpx_VP9 i ms e))
              [Set_quality (Custom 0), Encode (Yuv []) 0, Set_quality (Custom 4000)] demo_vpx
   in 0 < google_bitrate demo_google e'"
  using encoder_stays_configured [OF demo_google_laws demo_new(1) demo_google_laws demo_new(2),
      of "[Set_quality (Custom 0), Encode (Yuv []) 0, Set_quality (Custom 4000)]"]
  by (simp only: Let_def)


subsection \<open>From the capture to the encoder\<close>

text \<open>libvpx and libaom refuse to make an encoder for sizes of more than 16 bits. Images of sizes below can be
  wrapped, with the layout that their headers describe.\<close>

definition img_laws :: "'c google_lib \<Rightarrow> bool" where
  "img_laws lib \<longleftrightarrow>
     (\<forall>c x. enc_init lib c = Some x \<longrightarrow> unat (g_w c) < 2 ^ 16 \<and> unat (g_h c) < 2 ^ 16) \<and>
     (\<forall>i w h. w < 2 ^ 16 \<and> h < 2 ^ 16 \<longrightarrow> (case img_wrap lib i w h STRIDE_ALIGN of
        None \<Rightarrow> False
      | Some l \<Rightarrow>
          (let st = yl_stride l; pl = yl_planes l
           in w \<le> yl_w l \<and> h \<le> yl_h l \<and> yl_h l \<le> 2 ^ 27 \<and> 3 \<le> length st \<and> list_all (\<lambda>x. x < 2 ^ 31) st \<and> yl_w l \<le> st ! 0 \<and>
              (if i then yl_w l \<le> st ! 1 \<and> yl_w l \<le> st ! 2 else half (yl_w l) \<le> st ! 1 \<and> 2 * st ! 1 \<le> st ! 0) \<and>
              pl ! 1 = pl ! 0 + st ! 0 * yl_h l \<and> pl ! 2 = pl ! 1 + st ! 1 * (if i then yl_h l else yl_h l div 2))))"

lemma img_lawsD:
  assumes "img_laws lib" and "f = get_yuvfmt lib w h i" and "unat w < 2 ^ 16" and "unat h < 2 ^ 16"
  shows "layout_ok f" and "unat w \<le> yf_w f" and "unat h \<le> yf_h f" and "unat w \<le> yf_stride f ! 0"
    and "yf_pixfmt f = (if i then I444_fmt else I420_fmt)"
proof -
  note law = assms(1) [unfolded img_laws_def, THEN conjunct2, rule_format, of "unat w" "unat h" i, OF conjI [OF assms(3,4)]]
  obtain l where l: "img_wrap lib i (unat w) (unat h) STRIDE_ALIGN = Some l" using law by (auto split: option.splits)
  note law = law [unfolded l option.case Let_def]
  have f: "f = \<lparr>yf_pixfmt = (if i then I444_fmt else I420_fmt), yf_w = yl_w l, yf_h = yl_h l, yf_stride = yl_stride l,
      yf_u = yl_planes l ! 1 - yl_planes l ! 0, yf_v = yl_planes l ! 2 - yl_planes l ! 0\<rparr>"
    using assms(2) by (simp add: get_yuvfmt_def l Let_def)
  show "layout_ok f" using law by (cases i) (simp_all add: f layout_ok_def del: One_nat_def)
  show "unat w \<le> yf_w f" "unat h \<le> yf_h f" "unat w \<le> yf_stride f ! 0"
    "yf_pixfmt f = (if i then I444_fmt else I420_fmt)"
    using law by (simp_all add: f)
qed

text \<open>Where the image ends that the encoder reads.\<close>

definition image_end :: "yuv_format \<Rightarrow> nat" where
  "image_end f = (if yf_pixfmt f = I444_fmt then yf_v f + yf_stride f ! 2 * yf_h f
                  else yf_v f + yf_stride f ! 1 * half (yf_h f))"

lemma image_fits:
  assumes "layout_ok f" and "yf_pixfmt f = I420_fmt \<or> yf_pixfmt f = I444_fmt"
  shows "image_end f \<le> dst_len f"
  using assms(2)
proof
  assume i420: "yf_pixfmt f = I420_fmt"
  define k where "k = yf_h f div 2"
  have l: "2 * yf_stride f ! 1 \<le> yf_stride f ! 0" "yf_v f = yf_h f * yf_stride f ! 0 + k * yf_stride f ! 1"
    using assms(1) i420 by (simp_all add: layout_ok_def Let_def k_def mult.commute)
  have "k + half (yf_h f) = yf_h f" by (simp add: k_def half_def)
  then have "k * yf_stride f ! 1 + half (yf_h f) * yf_stride f ! 1 = yf_h f * yf_stride f ! 1" by (simp flip: distrib_right)
  moreover have "yf_h f * (2 * yf_stride f ! 1) \<le> yf_h f * yf_stride f ! 0" using l(1) by (rule mult_le_mono2)
  moreover have "image_end f = yf_v f + half (yf_h f) * yf_stride f ! 1" "dst_len f = 2 * (yf_h f * yf_stride f ! 0)"
    using i420 by (simp_all add: image_end_def dst_len_def Let_def mult.commute)
  ultimately show ?thesis using l(2) by linarith
next
  assume i444: "yf_pixfmt f = I444_fmt"
  have m: "yf_h f * yf_stride f ! k \<le> align64 (yf_h f) * align64 (yf_stride f ! k)" if "k < 3" for k
    using layout_bounds(1) [OF assms(1)] layout_bounds(2) [OF assms(1), of k] dst_len_i444(3) [OF assms(1) i444] that
    by (intro mult_le_mono align64_ge) simp_all
  have "yf_v f = yf_h f * yf_stride f ! 0 + yf_h f * yf_stride f ! 1"
    using assms(1) i444 by (simp add: layout_ok_def Let_def mult.commute)
  moreover have "image_end f = yf_v f + yf_h f * yf_stride f ! 2" using i444 by (simp add: image_end_def mult.commute)
  moreover have "dst_len f = align64 (yf_h f) * align64 (yf_stride f ! 0) + align64 (yf_h f) * align64 (yf_stride f ! 1)
      + align64 (yf_h f) * align64 (yf_stride f ! 2)" using i444 by (simp add: dst_len_def Let_def distrib_left)
  ultimately show ?thesis using m [of 0] m [of 1] m [of 2] by simp
qed

lemma needed_fits:
  assumes "img_laws lib" and "ge_yuvfmt e = get_yuvfmt lib (ge_width e) (ge_height e) (ge_i444 e)"
    and "unat (ge_width e) < 2 ^ 16" and "unat (ge_height e) < 2 ^ 16"
  shows "needed_length e \<le> dst_len (ge_yuvfmt e)"
proof -
  let ?f = "ge_yuvfmt e" let ?w = "unat (ge_width e)" let ?h = "unat (ge_height e)"
  note l = img_lawsD [OF assms]
  have wh: "?w * ?h \<le> yf_h ?f * yf_stride ?f ! 0" using mult_le_mono [OF l(3,4)] by (simp add: mult.commute)
  have le: "needed_length e \<le> ?w * ?h * (if ge_i444 e then 24 else 12) div 8"
    unfolding needed_length_def usize_mul_def
    by (intro div_le_mono order_trans [OF mod_less_eq_dividend] mult_le_mono mod_less_eq_dividend) simp
  show ?thesis
  proof (cases "ge_i444 e")
    case False
    define a where "a = ?w * ?h"
    have "needed_length e \<le> a * 12 div 8" using False le by (simp add: a_def)
    also have "\<dots> \<le> a * 2" by linarith
    also have "\<dots> \<le> dst_len ?f" using wh False l(5) by (simp add: dst_len_def Let_def a_def)
    finally show ?thesis .
  next
    case True
    have st: "?w \<le> yf_stride ?f ! 0" "?w \<le> yf_stride ?f ! 1" "?w \<le> yf_stride ?f ! 2"
      using l(1,2,5) True by (simp_all add: layout_ok_def Let_def)
    have i444: "yf_pixfmt ?f = I444_fmt" using l(5) True by simp
    have m: "?h * ?w \<le> align64 (yf_h ?f) * align64 (yf_stride ?f ! k)" if "?w \<le> yf_stride ?f ! k" "k < 3" for k
      using that layout_bounds(1) [OF l(1)] layout_bounds(2) [OF l(1), of k] dst_len_i444(3) [OF l(1) i444]
      by (intro mult_le_mono order_trans [OF l(3) align64_ge] order_trans [OF that(1) align64_ge]) simp_all
    have "needed_length e \<le> 3 * (?h * ?w)" using True le by (simp add: mult.commute)
    moreover have "dst_len ?f = align64 (yf_h ?f) * align64 (yf_stride ?f ! 0) + align64 (yf_h ?f) * align64 (yf_stride ?f ! 1)
        + align64 (yf_h ?f) * align64 (yf_stride ?f ! 2)" using i444 by (simp add: dst_len_def Let_def distrib_left)
    ultimately show ?thesis using m [OF st(1)] m [OF st(2)] m [OF st(3)] by simp
  qed
qed

lemma new_yuvfmt:
  assumes "img_laws lib" and "vpx_new lib codec cfg i444 = Inr e \<or> aom_new lib cfg i444 = Inr e"
  shows "ge_yuvfmt e = get_yuvfmt lib (ge_width e) (ge_height e) (ge_i444 e)"
    and "unat (ge_width e) < 2 ^ 16" and "unat (ge_height e) < 2 ^ 16"
proof -
  note law = assms(1) [unfolded img_laws_def, THEN conjunct1, rule_format]
  show "ge_yuvfmt e = get_yuvfmt lib (ge_width e) (ge_height e) (ge_i444 e)"
    using assms(2) by (auto simp: vpx_new_def aom_new_def rbind_Inr_iff Let_def split: if_splits option.splits)
  show "unat (ge_width e) < 2 ^ 16" "unat (ge_height e) < 2 ^ 16"
    using assms(2)
    by (auto simp: vpx_new_def aom_new_def rbind_Inr_iff Let_def vpx_cfg_size aom_cfg_size dest!: law
        split: if_splits option.splits)
qed

text \<open>C10. A captured picture fits the encoder it is converted for: whatever the sizes and strides
  the capture claims, converting it for an encoder that was just created does not panic, and if it
  succeeds the result is long enough for the length check of \<^verbatim>\<open>encode\<close> and contains all rows of the
  image that the library is told to read, padding of the strides included.\<close>

theorem converted_picture_fits_encoder:
  assumes "img_laws lib" and "vpx_new lib codec cfg i444 = Inr e \<or> aom_new lib cfg i444 = Inr e"
    and "pb_stride p \<noteq> []"
  shows "case frame_to ok (Pixel_frame p) (ge_yuvfmt e) \<lparr>cv_dst = 0, cv_mid = 0, cv_calls = []\<rparr> of
           None \<Rightarrow> False
         | Some (Inl _, _) \<Rightarrow> True
         | Some (Inr i, _) \<Rightarrow> (case input_yuv i of
               None \<Rightarrow> False
             | Some n \<Rightarrow> needed_length e \<le> n \<and> image_end (ge_yuvfmt e) \<le> n)"
proof -
  let ?s = "\<lparr>cv_dst = 0, cv_mid = 0, cv_calls = []\<rparr>" let ?f = "ge_yuvfmt e"
  note f = new_yuvfmt [OF assms(1,2)]
  note l = img_lawsD [OF assms(1) f]
  have fits: "needed_length e \<le> dst_len ?f" "image_end ?f \<le> dst_len ?f"
    using needed_fits [OF assms(1) f] image_fits [OF l(1)] l(5) by simp_all
  have "convert_to_yuv ok p ?f ?s \<noteq> None" by (rule convert_returns [OF l(1) assms(3)])
  then obtain r s' where r: "convert_to_yuv ok p ?f ?s = Some (r, s')" by fastforce
  show ?thesis
  proof (cases r)
    case (Inl err)
    then show ?thesis using r by (simp add: frame_to_def)
  next
    case (Inr u)
    then have "cv_dst s' = dst_len ?f" using r convert_dst [OF _ l(1)] by blast
    then show ?thesis using r Inr fits by (simp add: frame_to_def input_yuv_def)
  qed
qed

lemma demo_img_laws: "img_laws demo_google"
  by (auto simp: img_laws_def demo_google_def Let_def half_def STRIDE_ALIGN_def split: if_splits)

theorem converted_picture_fits_encoder_witness:
  "map_option (input_yuv \<circ> projr \<circ> fst) (frame_to (\<lambda>_. True) (Pixel_frame demo_capture) (ge_yuvfmt demo_vpx)
     \<lparr>cv_dst = 0, cv_mid = 0, cv_calls = []\<rparr>) = Some (Some 256) \<and> needed_length demo_vpx \<le> 256"
  using converted_picture_fits_encoder [OF demo_img_laws disjI1 [OF demo_new(1)], of demo_capture "\<lambda>_. True"]
  by (simp add: frame_to_def convert_to_yuv_def src_panics_def checks_source_def packed_def demo_capture_def demo_vpx_def
      get_yuvfmt_def demo_google_def STRIDE_ALIGN_def convert_i420_def call_yuv_def input_yuv_def usize_mul_def too_long_def Let_def)


subsection \<open>Disabling the hardware\<close>

text \<open>Without an encoder in the table only one in video memory makes H264 or H265 the format.\<close>

definition only_vram :: "codec_env \<Rightarrow> codec_format \<Rightarrow> bool" where
  "only_vram e f \<longleftrightarrow> f \<in> {H264, H265} \<longrightarrow> feature_vram e \<and> enable_vram_option e True \<and> 0 < vram_encoders e f"

lemma no_hardware:
  assumes "hwram_encoder me H264 = None" and "hwram_encoder me H265 = None"
  shows "only_vram me (chosen_format me m)"
  using chosen_format_useable [of me m] assms
  by (auto simp: only_vram_def format_useable_def h264_useable_def h265_useable_def h26x_encoding_def vram_encoding_def
      hw_encoding_def split: if_splits)

lemma cleared_table:
  assumes "hw_platform e \<in> {Windows, Macos} \<longrightarrow> hw_conf s \<noteq> None"
  shows "ram_encode (fst (hw_get e (hw_clear e machine False True s))) = []"
  using assms by (cases "hw_platform e"; cases "hw_conf s")
    (simp_all add: hw_clear_def hw_get_def clear_config_def config_or_default_def hw_config_default_def android_encoders_def Let_def)

lemma no_encoder_found:
  assumes "ram_encode (fst (hw_get e s)) = []" and "prioritized e [] = (None, None)"
  shows "hwram_encoder (machine_of e base s) f = None"
  using assms by (simp add: machine_of_def encoder_try_get_def split_beta of_format_def)

text \<open>The updates of the negotiation after the hardware has been disabled, each with the machine as it
  is then.\<close>

definition renegotiate :: "hw_env \<Rightarrow> codec_env \<Rightarrow> encoding_update list \<Rightarrow> hw_state \<Rightarrow> hw_state" where
  "renegotiate e base us s = s\<lparr>hw_codec := foldl (\<lambda>c u. encoder_update (machine_of e base s) u c) (hw_codec s) us\<rparr>"

lemma clear_same_table:
  "hw_get e (s\<lparr>hw_codec := c\<rparr>) = (fst (hw_get e s), (snd (hw_get e s))\<lparr>hw_codec := c\<rparr>)"
  by (cases "hw_platform e") (auto simp: hw_get_def Let_def split: option.splits)

lemma updates_choose:
  assumes "only_vram me (encode_format c)" and "hwram_encoder me H264 = None" and "hwram_encoder me H265 = None"
  shows "only_vram me (encode_format (foldl (\<lambda>c u. encoder_update me u c) c us))"
  using assms(1)
proof (induction us arbitrary: c)
  case (Cons u us)
  then show ?case using no_hardware [OF assms(2,3)] by (simp add: encoder_update_def Let_def)
qed simp

lemma machine_of_codec: "machine_of e base (s\<lparr>hw_codec := c\<rparr>) = machine_of e base s"
  by (simp add: machine_of_def encoder_try_get_def clear_same_table split_beta)

lemma disabled_state: "\<exists>c. hw_codec (hw_disable e base s) = encoder_update (machine_of e base (hw_disable e base s)) Upd_check c"
  by (auto simp: hw_disable_def hw_clear_def Let_def machine_of_codec)

text \<open>Finding an encoder in the table of Windows and macOS loads the table.\<close>

lemma found_table_loaded:
  assumes "prioritized e [] = (None, None)" and "hw_platform e \<in> {Windows, Macos}"
    and "encoder_try_get e f s = (Some i, s')"
  shows "hw_conf s' \<noteq> None"
  using assms by (auto simp: encoder_try_get_def hw_get_def hw_config_default_def of_format_def Let_def
      split: option.splits if_splits prod.splits)

lemma machine_of_vram:
  "only_vram (machine_of e base s) f \<longleftrightarrow> only_vram base f"
  by (simp add: only_vram_def machine_of_def enable_vram_option_def enable_directx_capture_def)

text \<open>C31. A hardware encoder of the table that was disabled is not used again: once its failure has taken
  the encoders off the table, neither the check made at once nor any later negotiation with the
  peers picks H264 or H265 because of the table; they are only picked where encoders in video memory
  are built in, enabled and there for the format. On Windows and macOS the table has to be
  loaded, as it is once an encoder was found in it.\<close>

theorem disabled_hardware_is_not_chosen:
  assumes "prioritized e [] = (None, None)" and "hw_platform e \<in> {Windows, Macos} \<longrightarrow> hw_conf s \<noteq> None"
  shows "case encode_format (hw_codec (renegotiate e base us (hw_disable e base s))) of
       H264 \<Rightarrow> feature_vram base \<and> enable_vram_option base True \<and> 0 < vram_encoders base H264
     | H265 \<Rightarrow> feature_vram base \<and> enable_vram_option base True \<and> 0 < vram_encoders base H265
     | _ \<Rightarrow> True"
proof -
  let ?s = "hw_disable e base s"
  have table: "ram_encode (fst (hw_get e ?s)) = []"
    unfolding hw_disable_def by (rule cleared_table [OF assms(2)])
  have none: "hwram_encoder (machine_of e base ?s) f = None" for f
    by (rule no_encoder_found [OF table assms(1)])
  obtain c where "hw_codec ?s = encoder_update (machine_of e base ?s) Upd_check c"
    using disabled_state by blast
  then have "only_vram (machine_of e base ?s) (encode_format (hw_codec ?s))"
    using no_hardware [OF none none] by (simp add: encoder_update_def Let_def)
  from updates_choose [OF this none none, of us]
  have "only_vram base (encode_format (hw_codec (renegotiate e base us ?s)))"
    by (simp add: renegotiate_def machine_of_vram)
  then show ?thesis by (cases "encode_format (hw_codec (renegotiate e base us ?s))") (simp_all add: only_vram_def)
qed

definition demo_hw_env :: hw_env where
  "demo_hw_env = \<lparr>hw_platform = Linux, hw_feature_vram = False, from_json = (\<lambda>_. None), to_json = (\<lambda>_. None),
     gpu_signature = 0, prioritized = (\<lambda>cs. (find (\<lambda>c. ci_format c = DF_H264) cs, find (\<lambda>c. ci_format c = DF_H265) cs)),
     soft = (None, None), format_from_name = (\<lambda>_. Some DF_H264), screen_scale = 0\<rparr>"

definition demo_hw_state :: hw_state where
  "demo_hw_state = \<lparr>hw_conf = Some (hw_config_default\<lparr>ram_encode := [\<lparr>ci_name = ''h264_vaapi'', ci_mc_name = None, ci_format = DF_H264\<rparr>]\<rparr>),
     set_by_ipc = True, hw_file = '''', codec_infos = None, hw_codec = codec_init\<rparr>"

definition demo_base :: codec_env where
  "demo_base = plain_env\<lparr>feature_hwcodec := True, get_option := (\<lambda>_. ''Y'')\<rparr>"

definition demo_peer :: encoding_update where
  "demo_peer = Upd_update 1 ((wants Auto)\<lparr>ability_h264 := 1\<rparr>)"

lemma demo_hw_table:
  "fst (encoder_try_get demo_hw_env H264 demo_hw_state) = Some \<lparr>ci_name = ''h264_vaapi'', ci_mc_name = None, ci_format = DF_H264\<rparr>"
  by (simp add: encoder_try_get_def hw_get_def demo_hw_env_def demo_hw_state_def hw_config_default_def config_or_default_def of_format_def)

text \<open>Before, the same peer makes it the format.\<close>

lemma demo_hw_chosen:
  "encode_format (encoder_update (machine_of demo_hw_env demo_base demo_hw_state) demo_peer codec_init) = H264"
  using demo_hw_table
  by (simp add: encoder_update_def demo_peer_def apply_update_def codec_init_def chosen_format_def useable_preferences_def
      wants_def most_frequent_Nil enum_value_or_auto_def auto_codec_def h264_useable_def h265_useable_def h26x_encoding_def
      hw_encoding_def vram_encoding_def all_support_def machine_of_def demo_base_def plain_env_def enable_hwcodec_option_def
      OPTION_ENABLE_HWCODEC_def default_decoding_def option2bool_def Let_def)

theorem disabled_hardware_is_not_chosen_witness:
  "encode_format (hw_codec (renegotiate demo_hw_env demo_base [demo_peer] (hw_disable demo_hw_env demo_base demo_hw_state))) \<noteq> H264"
  using disabled_hardware_is_not_chosen [of demo_hw_env demo_hw_state demo_base "[demo_peer]"]
  by (auto simp: demo_hw_env_def demo_base_def plain_env_def)

end
