(* ===== verification/Capture.thy ===== *)
theory Capture
  imports Convert
begin

text \<open>
  Capturing pictures of the screen: the pixel buffers of \<^verbatim>\<open>common/x11.rs\<close>, \<^verbatim>\<open>dxgi.rs\<close> and
  \<^verbatim>\<open>android.rs\<close>, the recorder of \<^verbatim>\<open>wayland/pipewire.rs\<close> with its cropping, the frame slot of
  \<^verbatim>\<open>quartz.rs\<close>, and the hand-over from Java of \<^verbatim>\<open>android/ffi.rs\<close>. What the display systems deliver is
  an argument: samples, mapped memory, answers. Sizes and offsets are natural numbers; widths and
  heights of video samples are positive 32-bit numbers by GStreamer's caps.
\<close>

datatype capture_error =
  Would_block | Timed_out | Conn_reset | Invalid_data | Permission_denied | Conn_refused | Interrupted_error
| Conn_aborted | Invalid_input | Not_found | Addr_not_available | Other_error

text \<open>\<^verbatim>\<open>PixelBuffer::new\<close>: the stride is computed from the length; a height of 0 is a division by zero.\<close>

definition pixel_buffer_new :: "bytes \<Rightarrow> pixfmt \<Rightarrow> nat \<Rightarrow> nat \<Rightarrow> pixel_buffer option" where
  "pixel_buffer_new d x w h =
     (if h = 0 then None
      else Some \<lparr>pb_data = d, pb_width = w, pb_height = h, pb_stride = [length d div h], pb_pixfmt = x\<rparr>)"

text \<open>A picture or an error; \<open>None\<close> is a panic.\<close>

type_synonym capture_result = "(capture_error + pixel_buffer) option"

definition deliver :: "bytes \<Rightarrow> pixfmt \<Rightarrow> nat \<Rightarrow> nat \<Rightarrow> capture_result" where
  "deliver d x w h = map_option Inr (pixel_buffer_new d x w h)"

subsection \<open>X11\<close>

text \<open>The segment of shared memory is as large as the display; \<open>img\<close> is what the server puts there.\<close>

record x11_capturer =
  xc_pixfmt :: pixfmt
  xc_w :: u16
  xc_h :: u16
  xc_saved :: bytes

definition x11_size :: "x11_capturer \<Rightarrow> nat" where
  "x11_size c = unat (xc_w c) * unat (xc_h c) * bytes_per_pixel (xc_pixfmt c)"

definition x11_frame :: "(nat \<Rightarrow> bytes) \<Rightarrow> x11_capturer \<Rightarrow> capture_result \<times> x11_capturer" where
  "x11_frame img c =
     (case would_block_if_equal (xc_saved c) (img (x11_size c)) of
        None \<Rightarrow> (Some (Inl Would_block), c)
      | Some sv \<Rightarrow>
          (deliver (img (x11_size c)) (xc_pixfmt c) (unat (xc_w c)) (unat (xc_h c)), c\<lparr>xc_saved := sv\<rparr>))"

subsection \<open>PipeWire\<close>

type_synonym crop_rect = "nat \<times> nat \<times> nat \<times> nat"

text \<open>A sample of the sink: \<open>None\<close> where GStreamer has no caps, no format, or no buffer to map.\<close>

record pw_sample =
  sm_size :: "(nat \<times> nat) option"
  sm_format :: "string option"
  sm_buffer :: "bytes option"
  sm_crop :: "crop_rect option"

record pw_recorder =
  pw_buffer :: "bytes option"
  pw_cropped :: bytes
  pw_fmt :: string
  pw_is_cropped :: bool
  pw_width :: nat
  pw_height :: nat
  pw_saved :: bytes

definition pw_new :: pw_recorder where
  "pw_new = \<lparr>pw_buffer = None, pw_cropped = [], pw_fmt = '''', pw_is_cropped = False, pw_width = 0, pw_height = 0, pw_saved = []\<rparr>"

datatype pixel_provider = Prov_RGB nat nat bytes | RGB0 nat nat bytes | BGR0 nat nat bytes | BGR0S nat nat nat bytes | Prov_none

definition provider_size :: "pixel_provider \<Rightarrow> nat \<times> nat" where
  "provider_size p = (case p of
     Prov_RGB w h _ \<Rightarrow> (w, h) | RGB0 w h _ \<Rightarrow> (w, h) | BGR0 w h _ \<Rightarrow> (w, h) | BGR0S w h _ _ \<Rightarrow> (w, h) | Prov_none \<Rightarrow> (0, 0))"

text \<open>The loop that copies the rows of the cropped region; a row that is not in the buffer panics.\<close>

fun crop_rows :: "nat \<Rightarrow> nat \<Rightarrow> nat \<Rightarrow> bytes \<Rightarrow> nat list \<Rightarrow> bytes option" where
  "crop_rows w x wc data [] = Some []"
| "crop_rows w x wc data (y # ys) =
     (let i = 4 * (w * y + x)
      in if length data < i + 4 * wc then None
         else map_option (\<lambda>rest. take (4 * wc) (drop i data) @ rest) (crop_rows w x wc data ys))"

definition crop_image :: "nat \<Rightarrow> crop_rect \<Rightarrow> bytes \<Rightarrow> bytes option" where
  "crop_image w c data = (case c of (x, y, wc, hc) \<Rightarrow> crop_rows w x wc data [y..<y + hc])"

text \<open>The end of \<^verbatim>\<open>capture\<close>: the buffer that is held, in the format of the last sample.\<close>

definition pw_present :: "pw_recorder \<Rightarrow> capture_error + pixel_provider" where
  "pw_present r =
     (case pw_buffer r of
        None \<Rightarrow> Inl Other_error
      | Some b \<Rightarrow>
          (let buf = (if pw_is_cropped r then pw_cropped r else b)
           in if pw_fmt r = ''BGRx'' then Inr (BGR0 (pw_width r) (pw_height r) buf)
              else if pw_fmt r = ''RGBx'' then Inr (RGB0 (pw_width r) (pw_height r) buf)
              else Inl Other_error))"

text \<open>\<open>None\<close> is a panic.\<close>

definition pw_hold :: "nat \<Rightarrow> nat \<Rightarrow> crop_rect option \<Rightarrow> bytes \<Rightarrow> pw_recorder \<Rightarrow> pw_recorder option" where
  "pw_hold w h crop buf r =
     (if length buf \<noteq> w * h * 4 then Some r
      else case crop of
        None \<Rightarrow> Some (r\<lparr>pw_width := w, pw_height := h, pw_is_cropped := False, pw_buffer := Some buf\<rparr>)
      | Some c \<Rightarrow>
          map_option (\<lambda>d. r\<lparr>pw_cropped := d, pw_width := fst (snd (snd c)), pw_height := snd (snd (snd c)),
                            pw_is_cropped := True, pw_buffer := Some buf\<rparr>)
            (crop_image w c buf))"

definition pw_capture :: "pw_sample option \<Rightarrow> pw_recorder \<Rightarrow> ((capture_error + pixel_provider) \<times> pw_recorder) option" where
  "pw_capture sample r =
     (case sample of
        None \<Rightarrow> Some (Inr Prov_none, r)
      | Some m \<Rightarrow>
          (case sm_size m of
             None \<Rightarrow> Some (Inl Other_error, r)
           | Some (w, h) \<Rightarrow>
               (case sm_format m of
                  None \<Rightarrow> Some (Inl Other_error, r)
                | Some f \<Rightarrow>
                    (let r1 = r\<lparr>pw_fmt := f\<rparr>;
                         crop = (if sm_crop m = Some (0, 0, w, h) then None else sm_crop m)
                     in case sm_buffer m of
                          None \<Rightarrow> Some (Inl Other_error, r1)
                        | Some buf \<Rightarrow>
                            (case would_block_if_equal (pw_saved r1) buf of
                               None \<Rightarrow> Some (Inr Prov_none, r1)
                             | Some sv \<Rightarrow>
                                 map_option (\<lambda>r2. (pw_present r2, r2)) (pw_hold w h crop buf (r1\<lparr>pw_saved := sv\<rparr>)))))))"

text \<open>The capturer of \<^verbatim>\<open>common/wayland.rs\<close>; errors go through \<^verbatim>\<open>map_err\<close>.\<close>

definition wayland_frame :: "pw_sample option \<Rightarrow> pw_recorder \<Rightarrow> capture_result \<times> pw_recorder" where
  "wayland_frame sample r =
     (case pw_capture sample r of
        None \<Rightarrow> (None, r)
      | Some (Inl e, r1) \<Rightarrow> (Some (Inl e), r1)
      | Some (Inr p, r1) \<Rightarrow>
          (case p of
             BGR0 w h d \<Rightarrow> deliver d BGRA w h
           | RGB0 w h d \<Rightarrow> deliver d RGBA w h
           | Prov_none \<Rightarrow> Some (Inl Would_block)
           | _ \<Rightarrow> Some (Inl Other_error), r1))"

subsection \<open>Quartz\<close>

text \<open>The slot that the callback of the system fills; \<open>qf_plane\<close> is the memory of the surface's plane.\<close>

record quartz_surface =
  qf_inner :: bytes
  qf_row :: nat
  qf_plane :: "nat \<Rightarrow> bytes"

record quartz_capturer =
  qc_slot :: "quartz_surface option"
  qc_saved :: bytes
  qc_w :: nat
  qc_h :: nat

datatype lock_answer = Locked | Lock_busy | Lock_poisoned

definition quartz_callback :: "quartz_surface \<Rightarrow> quartz_capturer \<Rightarrow> quartz_capturer" where
  "quartz_callback f c = c\<lparr>qc_slot := Some f\<rparr>"

definition quartz_frame :: "lock_answer \<Rightarrow> quartz_capturer \<Rightarrow> (capture_error + pixel_buffer) \<times> quartz_capturer" where
  "quartz_frame l c =
     (case l of
        Lock_busy \<Rightarrow> (Inl Would_block, c)
      | Lock_poisoned \<Rightarrow> (Inl Other_error, c)
      | Locked \<Rightarrow>
          (case qc_slot c of
             None \<Rightarrow> (Inl Would_block, c)
           | Some f \<Rightarrow>
               (let c1 = c\<lparr>qc_slot := None\<rparr>
                in case would_block_if_equal (qc_saved c1) (qf_inner f) of
                     None \<Rightarrow> (Inl Would_block, c1)
                   | Some sv \<Rightarrow>
                       (Inr \<lparr>pb_data = qf_plane f (qf_row f * qc_h c1), pb_width = qc_w c1, pb_height = qc_h c1,
                             pb_stride = [qf_row f], pb_pixfmt = BGRA\<rparr>, c1\<lparr>qc_saved := sv\<rparr>))))"

subsection \<open>Android\<close>

text \<open>Java hands over the address and the length of a buffer; address 0 is the null pointer. Times
  are in nanoseconds.\<close>

record frame_raw =
  fr_ptr :: nat
  fr_len :: nat
  fr_last_update :: nat
  fr_timeout :: nat
  fr_enable :: bool

definition MAX_VIDEO_FRAME_TIMEOUT :: nat where "MAX_VIDEO_FRAME_TIMEOUT = 100 * 10 ^ 6"
definition MAX_AUDIO_FRAME_TIMEOUT :: nat where "MAX_AUDIO_FRAME_TIMEOUT = 1000 * 10 ^ 6"

definition raw_new :: "nat \<Rightarrow> nat \<Rightarrow> frame_raw" where
  "raw_new timeout now = \<lparr>fr_ptr = 0, fr_len = 0, fr_last_update = now, fr_timeout = timeout, fr_enable = False\<rparr>"

definition raw_set_enable :: "bool \<Rightarrow> frame_raw \<Rightarrow> frame_raw" where
  "raw_set_enable v r = r\<lparr>fr_enable := v, fr_ptr := 0, fr_len := 0\<rparr>"

definition raw_update :: "nat \<Rightarrow> nat \<Rightarrow> nat \<Rightarrow> frame_raw \<Rightarrow> frame_raw" where
  "raw_update now p n r =
     (if fr_enable r then r\<lparr>fr_len := n, fr_ptr := p, fr_last_update := now\<rparr> else r)"

definition raw_release :: "frame_raw \<Rightarrow> frame_raw" where
  "raw_release r = r\<lparr>fr_len := 0, fr_ptr := 0\<rparr>"

text \<open>\<open>mem\<close> reads memory. The buffers \<open>dst\<close> and \<open>last\<close> belong to the caller; the result says whether
  there is a picture.\<close>

definition raw_take ::
    "(nat \<Rightarrow> nat \<Rightarrow> bytes) \<Rightarrow> nat \<Rightarrow> bytes \<times> bytes \<Rightarrow> frame_raw \<Rightarrow> bool \<times> (bytes \<times> bytes) \<times> frame_raw" where
  "raw_take mem now bufs r =
     (if \<not> fr_enable r \<or> fr_ptr r = 0 \<or> fr_len r = 0 \<or> fr_timeout r < now - fr_last_update r
      then (False, bufs, r)
      else
        (let slice = mem (fr_ptr r) (fr_len r); r1 = raw_release r; (dst, old) = bufs
         in if length old = length slice
            then (case would_block_if_equal old slice of
                    None \<Rightarrow> (False, bufs, r1)
                  | Some old1 \<Rightarrow> (True, (slice, old1), r1))
            else (True, (slice, old), r1)))"

record android_capturer =
  ac_w :: u16
  ac_h :: u16
  ac_rgba :: bytes
  ac_saved :: bytes

definition android_frame ::
    "(nat \<Rightarrow> nat \<Rightarrow> bytes) \<Rightarrow> nat \<Rightarrow> android_capturer \<times> frame_raw \<Rightarrow> capture_result \<times> android_capturer \<times> frame_raw" where
  "android_frame mem now s =
     (case s of (c, r) \<Rightarrow>
        (case raw_take mem now (ac_rgba c, ac_saved c) r of
           (taken, (dst, old), r1) \<Rightarrow>
             (let c1 = c\<lparr>ac_rgba := dst, ac_saved := old\<rparr>
              in (if taken then deliver dst RGBA (unat (ac_w c)) (unat (ac_h c)) else Some (Inl Would_block), c1, r1))))"

end
