(* ===== verification/CaptureProps.thy ===== *)
theory CaptureProps
  imports Capture ConvertProps
begin

text \<open>
  Properties of the capture: the cropped region of a PipeWire sample is exact, every picture that
  the recorder yields is whole, so that no conversion fails on it, and on Android the comparison
  that should drop repeated pictures never takes place.
\<close>

subsection \<open>Cropping\<close>

lemma crop_rows_concat:
  assumes "list_all (\<lambda>y. 4 * (w * y + x) + 4 * wc \<le> length data) ys"
  shows "crop_rows w x wc data ys = Some (concat (map (\<lambda>y. take (4 * wc) (drop (4 * (w * y + x)) data)) ys))"
  using assms by (induction ys) (simp_all add: Let_def not_less)

lemma nth_concat_rows:
  assumes "\<And>y. y \<in> set ys \<Longrightarrow> length (f y) = n" and "i < length ys" and "j < n"
  shows "concat (map f ys) ! (n * i + j) = f (ys ! i) ! j"
  using assms
proof (induction ys arbitrary: i)
  case (Cons y ys)
  have y: "length (f y) = n" using Cons.prems(1) by simp
  show ?case
  proof (cases i)
    case 0
    then show ?thesis using y Cons.prems(3) by (simp add: nth_append)
  next
    case (Suc k)
    then have "n * i + j = n + (n * k + j)" by simp
    moreover have "concat (map f ys) ! (n * k + j) = f (ys ! k) ! j"
      using Cons.IH [of k] Cons.prems Suc by simp
    ultimately show ?thesis using y Suc by (simp add: nth_append)
  qed
qed simp

lemma length_concat_rows:
  assumes "\<And>y. y \<in> set ys \<Longrightarrow> length (f y) = n"
  shows "length (concat (map f ys)) = n * length ys"
  using assms by (induction ys) auto

definition inside :: "crop_rect \<Rightarrow> nat \<Rightarrow> nat \<Rightarrow> bool" where
  "inside c w h = (case c of (x, y, wc, hc) \<Rightarrow> x + wc \<le> w \<and> y + hc \<le> h)"

lemma row_in_buffer:
  fixes w h x y wc :: nat
  assumes "x + wc \<le> w" and "y < h"
  shows "4 * (w * y + x) + 4 * wc \<le> w * h * 4"
proof -
  have "w * y + w \<le> w * h" using mult_le_mono2 [of "Suc y" h w] assms(2) by simp
  then show ?thesis using assms(1) by simp
qed

lemma crop_image_rows:
  assumes "inside (x, y, wc, hc) w h" and "length data = w * h * 4"
  shows "crop_image w (x, y, wc, hc) data = Some (concat (map (\<lambda>y. take (4 * wc) (drop (4 * (w * y + x)) data)) [y..<y + hc]))"
proof -
  have "list_all (\<lambda>y. 4 * (w * y + x) + 4 * wc \<le> length data) [y..<y + hc]"
    using assms row_in_buffer [of x wc w _ h] by (auto simp: list_all_iff inside_def)
  then show ?thesis by (simp add: crop_image_def crop_rows_concat)
qed

lemma crop_row_length:
  assumes "inside (x, y, wc, hc) w h" and "length data = w * h * 4" and "r \<in> set [y..<y + hc]"
  shows "length (take (4 * wc) (drop (4 * (w * r + x)) data)) = 4 * wc"
proof -
  have "4 * (w * r + x) + 4 * wc \<le> length data"
    using assms row_in_buffer [of x wc w r h] by (auto simp: inside_def)
  then show ?thesis by simp
qed

lemma crop_image_length:
  assumes "inside (x, y, wc, hc) w h" and "length data = w * h * 4"
  shows "\<exists>d. crop_image w (x, y, wc, hc) data = Some d \<and> length d = wc * hc * 4"
  using length_concat_rows [of "[y..<y + hc]", OF crop_row_length [OF assms]] crop_image_rows [OF assms]
  by simp

text \<open>Cropping is exact: for a rectangle within the picture no row is out of the buffer, the result
  has exactly the bytes of the rectangle, and every one of them is the byte of the picture at the
  same place.\<close>

theorem cropped_region_is_exact:
  assumes "x + wc \<le> w" and "y + hc \<le> h" and "length data = w * h * 4"
  shows "\<exists>d. crop_image w (x, y, wc, hc) data = Some d \<and> length d = wc * hc * 4 \<and>
           (\<forall>i < hc. \<forall>j < 4 * wc. d ! (4 * wc * i + j) = data ! (4 * (w * (y + i) + x) + j))"
proof -
  have ins: "inside (x, y, wc, hc) w h" using assms(1,2) by (simp add: inside_def)
  note len = crop_row_length [OF ins assms(3)]
  let ?d = "concat (map (\<lambda>y. take (4 * wc) (drop (4 * (w * y + x)) data)) [y..<y + hc])"
  have "?d ! (4 * wc * i + j) = data ! (4 * (w * (y + i) + x) + j)" if "i < hc" "j < 4 * wc" for i j
  proof -
    have "4 * (w * (y + i) + x) + 4 * wc \<le> length data"
      using assms row_in_buffer [of x wc w "y + i" h] that(1) by simp
    moreover have "?d ! (4 * wc * i + j) = take (4 * wc) (drop (4 * (w * ([y..<y + hc] ! i) + x)) data) ! j"
      using that len by (intro nth_concat_rows) auto
    ultimately show ?thesis using that by simp
  qed
  then show ?thesis using crop_image_rows [OF ins assms(3)] crop_image_length [OF ins assms(3)] by auto
qed

theorem cropped_region_is_exact_witness:
  "crop_image 2 (1, 0, 1, 2) (map of_nat [0..<16]) = Some [4, 5, 6, 7, 12, 13, 14, 15]"
proof -
  have "\<exists>d. crop_image 2 (1, 0, 1, 2) (map of_nat [0..<16]) = Some d \<and> length d = 1 * 2 * 4"
    using cropped_region_is_exact [of 1 1 2 0 2 2 "map of_nat [0..<16]"] by auto
  then show ?thesis by (auto simp: crop_image_def upt_rec numeral_eq_Suc)
qed

subsection \<open>Whole pictures\<close>

text \<open>A picture without gaps between its rows.\<close>

definition whole :: "pixel_buffer \<Rightarrow> bool" where
  "whole p \<longleftrightarrow> length (pb_data p) = pb_width p * pb_height p * 4 \<and> pb_stride p = [4 * pb_width p] \<and>
     (pb_pixfmt p = BGRA \<or> pb_pixfmt p = RGBA)"

definition sample_ok :: "pw_sample \<Rightarrow> bool" where
  "sample_ok m \<longleftrightarrow>
     (case sm_size m of None \<Rightarrow> True | Some (w, h) \<Rightarrow>
        0 < h \<and> (case sm_crop m of None \<Rightarrow> True | Some c \<Rightarrow> inside c w h \<and> 0 < snd (snd (snd c))))"

definition held_length :: "pw_recorder \<Rightarrow> nat" where
  "held_length r = (case pw_buffer r of None \<Rightarrow> 0 | Some b \<Rightarrow> length (if pw_is_cropped r then pw_cropped r else b))"

lemma held_length_update:
  "held_length (r\<lparr>pw_fmt := f\<rparr>) = held_length r" "held_length (r\<lparr>pw_fmt := f, pw_saved := sv\<rparr>) = held_length r"
  by (cases "pw_buffer r", simp_all add: held_length_def)+

definition pw_inv :: "pw_recorder \<Rightarrow> bool" where
  "pw_inv r \<longleftrightarrow> pw_buffer r = None \<or> 0 < pw_height r \<and> held_length r = pw_width r * pw_height r * 4"

fun wayland_run :: "pw_sample option list \<Rightarrow> pw_recorder \<Rightarrow> capture_result list" where
  "wayland_run [] r = []"
| "wayland_run (s # ss) r =
     (case wayland_frame s r of (None, _) \<Rightarrow> [None] | (Some x, r1) \<Rightarrow> Some x # wayland_run ss r1)"

definition whole_result :: "capture_result \<Rightarrow> bool" where
  "whole_result x = (case x of None \<Rightarrow> False | Some (Inl _) \<Rightarrow> True | Some (Inr p) \<Rightarrow> whole p)"

lemma pw_hold_inv:
  assumes "pw_inv r" and "0 < h" and "case crop of None \<Rightarrow> True | Some c \<Rightarrow> inside c w h \<and> 0 < snd (snd (snd c))"
  shows "\<exists>r1. pw_hold w h crop buf r = Some r1 \<and> pw_inv r1"
proof (cases "length buf = w * h * 4")
  case False
  then show ?thesis using assms(1) by (simp add: pw_hold_def)
next
  case len: True
  show ?thesis
  proof (cases crop)
    case None
    then show ?thesis using len assms(2) by (simp add: pw_hold_def pw_inv_def held_length_def)
  next
    case (Some c)
    obtain x y wc hc where c: "c = (x, y, wc, hc)" by (cases c)
    then obtain d where "crop_image w c buf = Some d" "length d = wc * hc * 4"
      using crop_image_length [of x y wc hc w h buf] assms(3) Some len by auto
    then show ?thesis using len assms(3) Some c by (simp add: pw_hold_def pw_inv_def held_length_def)
  qed
qed

lemma deliver_whole:
  assumes "length d = w * h * 4" and "0 < h" and "x = BGRA \<or> x = RGBA"
  shows "whole_result (deliver d x w h)"
proof -
  have "w * h * 4 div h = 4 * w" using assms(2) by (metis mult.commute mult.left_commute nonzero_mult_div_cancel_left less_numeral_extra(3))
  then show ?thesis using assms by (simp add: deliver_def pixel_buffer_new_def whole_result_def whole_def)
qed

lemma present_whole:
  assumes "pw_inv r"
  shows "case pw_present r of
      Inl e \<Rightarrow> True
    | Inr p \<Rightarrow> (\<exists>w h d. (p = BGR0 w h d \<or> p = RGB0 w h d) \<and> length d = w * h * 4 \<and> 0 < h)"
  using assms by (auto simp: pw_present_def pw_inv_def held_length_def Let_def split: option.splits)

definition provided :: "capture_error + pixel_provider \<Rightarrow> bool" where
  "provided r \<longleftrightarrow> (case r of Inl e \<Rightarrow> True | Inr q \<Rightarrow> q = Prov_none \<or>
     (\<exists>w h d. (q = BGR0 w h d \<or> q = RGB0 w h d) \<and> length d = w * h * 4 \<and> 0 < h))"

lemma provided_simps: "provided (Inl e)" "provided (Inr Prov_none)"
  by (simp_all add: provided_def)

lemma pw_capture_inv:
  assumes "pw_inv r" and "case s of None \<Rightarrow> True | Some m \<Rightarrow> sample_ok m"
  shows "\<exists>q r1. pw_capture s r = Some (q, r1) \<and> provided q \<and> pw_inv r1"
proof (cases s)
  case None
  then show ?thesis using assms(1) by (simp add: pw_capture_def provided_simps)
next
  case s: (Some m)
  have inv_fmt: "pw_inv (r\<lparr>pw_fmt := f\<rparr>)" "pw_inv (r\<lparr>pw_fmt := f, pw_saved := sv\<rparr>)" for f sv
    using assms(1) by (simp_all add: pw_inv_def held_length_update)
  show ?thesis
  proof (cases "sm_size m")
    case None
    then show ?thesis using assms(1) s by (simp add: pw_capture_def provided_simps)
  next
    case (Some wh)
    obtain w h where size: "sm_size m = Some (w, h)" using Some by (cases wh) simp
    show ?thesis
    proof (cases "sm_format m")
      case None
      then show ?thesis using assms(1) s size by (simp add: pw_capture_def provided_simps)
    next
      case fmt: (Some f)
      show ?thesis
      proof (cases "sm_buffer m")
        case None
        then show ?thesis using inv_fmt(1) s size fmt by (simp add: pw_capture_def provided_simps)
      next
        case buf: (Some buf)
        show ?thesis
        proof (cases "would_block_if_equal (pw_saved r) buf")
          case None
          then show ?thesis using inv_fmt(1) s size fmt buf by (simp add: pw_capture_def provided_simps Let_def)
        next
          case sv: (Some sv)
          let ?crop = "if sm_crop m = Some (0, 0, w, h) then None else sm_crop m"
          have "0 < h" "case ?crop of None \<Rightarrow> True | Some c \<Rightarrow> inside c w h \<and> 0 < snd (snd (snd c))"
            using assms(2) s size by (auto simp: sample_ok_def split: option.splits)
          then obtain r2 where r2: "pw_hold w h ?crop buf (r\<lparr>pw_fmt := f, pw_saved := sv\<rparr>) = Some r2" "pw_inv r2"
            using pw_hold_inv [OF inv_fmt(2)] by blast
          then have "pw_capture s r = Some (pw_present r2, r2)"
            using s size fmt buf sv by (simp add: pw_capture_def Let_def)
          moreover have "provided (pw_present r2)"
            using present_whole [OF r2(2)] by (auto simp: provided_def split: sum.splits)
          ultimately show ?thesis using r2(2) by blast
        qed
      qed
    qed
  qed
qed

lemma wayland_frame_whole:
  assumes "pw_inv r" and "case s of None \<Rightarrow> True | Some m \<Rightarrow> sample_ok m" and "wayland_frame s r = (x, r1)"
  shows "whole_result x \<and> pw_inv r1"
proof -
  obtain q r2 where q: "pw_capture s r = Some (q, r2)" "provided q" "pw_inv r2"
    using pw_capture_inv [OF assms(1,2)] by blast
  then show ?thesis using assms(3) deliver_whole
    by (cases q) (auto simp: wayland_frame_def whole_result_def provided_def)
qed

lemma wayland_run_whole:
  assumes "pw_inv r" and "list_all (\<lambda>s. case s of None \<Rightarrow> True | Some m \<Rightarrow> sample_ok m) ss"
  shows "list_all whole_result (wayland_run ss r)"
  using assms
proof (induction ss arbitrary: r)
  case (Cons s ss)
  obtain x r1 where f: "wayland_frame s r = (x, r1)" by (cases "wayland_frame s r")
  have w: "whole_result x" "pw_inv r1" using wayland_frame_whole [OF Cons.prems(1) _ f] Cons.prems(2) by simp_all
  then show ?case using Cons f by (cases x) (simp_all add: whole_result_def)
qed simp

lemma whole_converts:
  assumes "whole p"
  shows "checks_source p f = None \<or> checks_source p f = Some Src_larger" and "\<not> src_panics p f"
  using assms
  by (auto simp: whole_def checks_source_def src_panics_def bytes_per_pixel_def bpp_def usize_mul_def not_less
      mult.commute mult.left_commute intro!: mod_less_eq_dividend)

text \<open>C24. The pictures of a Wayland session can be converted: from a new recorder on and whatever
  samples come, without caps, without a buffer, repeated, of the wrong length or cropped within the
  picture, capturing does not panic, and every picture that is delivered is whole, so that
  \<^verbatim>\<open>convert_to_yuv\<close> rejects none but those larger than the destination.\<close>

theorem wayland_pictures_convert:
  assumes "list_all (\<lambda>s. case s of None \<Rightarrow> True | Some m \<Rightarrow> sample_ok m) ss"
  shows "list_all (\<lambda>x. case x of
      None \<Rightarrow> False
    | Some (Inl _) \<Rightarrow> True
    | Some (Inr p) \<Rightarrow> length (pb_data p) = pb_width p * pb_height p * 4 \<and> \<not> src_panics p f \<and>
        checks_source p f \<in> {None, Some Src_larger}) (wayland_run ss pw_new)"
proof -
  have "pw_inv pw_new" by (simp add: pw_inv_def pw_new_def)
  from wayland_run_whole [OF this assms] show ?thesis
    using whole_converts by (fastforce simp: list_all_iff whole_result_def whole_def split: option.splits sum.splits)
qed


definition demo_sample :: "nat \<Rightarrow> string \<Rightarrow> bytes \<Rightarrow> crop_rect option \<Rightarrow> pw_sample" where
  "demo_sample w f d c = \<lparr>sm_size = Some (w, 1), sm_format = Some f, sm_buffer = Some d, sm_crop = c\<rparr>"

definition demo_picture :: "bytes \<Rightarrow> pixfmt \<Rightarrow> pixel_buffer" where
  "demo_picture d x = \<lparr>pb_data = d, pb_width = 1, pb_height = 1, pb_stride = [4], pb_pixfmt = x\<rparr>"

lemma demo_cropped_run:
  "wayland_run [None, Some (demo_sample 2 ''BGRx'' [1, 2, 3, 4, 5, 6, 7, 8] (Some (1, 0, 1, 1)))] pw_new =
     [Some (Inl Would_block), Some (Inr (demo_picture [5, 6, 7, 8] BGRA))]"
  by (simp add: demo_sample_def demo_picture_def wayland_frame_def pw_capture_def pw_new_def would_block_if_equal_def
      pw_hold_def crop_image_def pw_present_def deliver_def pixel_buffer_new_def numeral_eq_Suc)

theorem wayland_pictures_convert_witness:
  "checks_source (demo_picture [5, 6, 7, 8] BGRA) demo_yuv \<in> {None, Some Src_larger}"
proof -
  let ?ss = "[None, Some (demo_sample 2 ''BGRx'' [1, 2, 3, 4, 5, 6, 7, 8] (Some (1, 0, 1, 1)))]"
  have "list_all (\<lambda>s. case s of None \<Rightarrow> True | Some m \<Rightarrow> sample_ok m) ?ss"
    by (simp add: sample_ok_def demo_sample_def inside_def)
  from wayland_pictures_convert [OF this, of demo_yuv] show ?thesis
    unfolding demo_cropped_run by simp
qed

text \<open>A sample that is dropped for its length has already changed the format: the picture that is
  held is delivered again, with its colours exchanged.\<close>

lemma dropped_sample_relabels:
  "wayland_run [Some (demo_sample 1 ''BGRx'' [1, 2, 3, 4] None), Some (demo_sample 1 ''RGBx'' [9] None)] pw_new =
     [Some (Inr (demo_picture [1, 2, 3, 4] BGRA)), Some (Inr (demo_picture [1, 2, 3, 4] RGBA))]"
  by (simp add: demo_sample_def demo_picture_def wayland_frame_def pw_capture_def pw_new_def would_block_if_equal_def
      pw_hold_def pw_present_def deliver_def pixel_buffer_new_def)

subsection \<open>Repeated pictures\<close>

text \<open>X11: a picture that is the same as the one before is not delivered again.\<close>

lemma x11_repeats_block:
  assumes "x11_frame img c = (x, c1)"
  shows "fst (x11_frame img c1) = Some (Inl Would_block)"
  using assms by (auto simp: x11_frame_def would_block_if_equal_def x11_size_def split: if_splits)

text \<open>Android: what Java and the video service do to the hand-over and to the capturer.\<close>

datatype android_op = Op_update nat nat nat | Op_enable bool | Op_frame nat

fun android_run ::
    "(nat \<Rightarrow> nat \<Rightarrow> bytes) \<Rightarrow> android_op list \<Rightarrow> android_capturer \<times> frame_raw \<Rightarrow> capture_result list \<times> android_capturer \<times> frame_raw" where
  "android_run mem [] s = ([], s)"
| "android_run mem (Op_update now p n # ops) s = android_run mem ops (fst s, raw_update now p n (snd s))"
| "android_run mem (Op_enable b # ops) s = android_run mem ops (fst s, raw_set_enable b (snd s))"
| "android_run mem (Op_frame now # ops) s =
     (case android_frame mem now s of
        (None, s1) \<Rightarrow> ([None], s1)
      | (Some x, s1) \<Rightarrow> (case android_run mem ops s1 of (xs, s2) \<Rightarrow> (Some x # xs, s2)))"

lemma take_never_saves:
  assumes "raw_take mem now (dst, []) r = (taken, (dst1, old1), r1)"
  shows "old1 = []"
  using assms by (auto simp: raw_take_def would_block_if_equal_def Let_def split: if_splits)

lemma frame_never_saves:
  assumes "android_frame mem now (c, r) = (x, c1, r1)" and "ac_saved c = []"
  shows "ac_saved c1 = []"
  using assms take_never_saves by (auto simp: android_frame_def Let_def split: prod.splits)

lemma run_never_saves:
  assumes "android_run mem ops (c, r) = (xs, c1, r1)" and "ac_saved c = []"
  shows "ac_saved c1 = []"
  using assms
proof (induction ops arbitrary: c r xs)
  case (Cons p ops)
  show ?case
  proof (cases p)
    case (Op_frame now)
    obtain x c2 r2 where f: "android_frame mem now (c, r) = (x, c2, r2)" by (cases "android_frame mem now (c, r)")
    have "ac_saved c2 = []" using frame_never_saves [OF f Cons.prems(2)] .
    then show ?thesis using Cons.IH Cons.prems(1) Op_frame f by (cases x) (auto split: prod.splits)
  qed (use Cons in auto)
qed simp

definition android_new :: "u16 \<Rightarrow> u16 \<Rightarrow> android_capturer" where
  "android_new w h = \<lparr>ac_w = w, ac_h = h, ac_rgba = [], ac_saved = []\<rparr>"

text \<open>On Android repeated pictures are never dropped: the copy of the last picture stays empty,
  whatever Java hands over and whenever the service captures, since the comparison that would fill it
  is only made for a copy of the same length.\<close>

theorem android_repeats_are_delivered:
  "ac_saved (fst (snd (android_run mem ops (android_new w h, raw_new timeout now)))) = []"
  using run_never_saves [of mem ops "android_new w h" "raw_new timeout now"]
  by (cases "android_run mem ops (android_new w h, raw_new timeout now)") (auto simp: android_new_def)

text \<open>The same picture twice.\<close>

lemma demo_android_repeats:
  "fst (android_run (\<lambda>p n. [7, 7, 7, 7]) [Op_enable True, Op_update 0 5 4, Op_frame 1, Op_update 2 9 4, Op_frame 3]
     (android_new 1 1, raw_new MAX_VIDEO_FRAME_TIMEOUT 0)) =
   [Some (Inr (demo_picture [7, 7, 7, 7] RGBA)), Some (Inr (demo_picture [7, 7, 7, 7] RGBA))]"
  by (simp add: android_new_def raw_new_def raw_set_enable_def raw_update_def android_frame_def raw_take_def raw_release_def
      MAX_VIDEO_FRAME_TIMEOUT_def deliver_def pixel_buffer_new_def demo_picture_def Let_def)

text \<open>A picture is taken at most once and only while it is fresh.\<close>

lemma taken_once:
  assumes "raw_take mem now bufs r = (True, bufs1, r1)"
  shows "fr_enable r" and "now - fr_last_update r \<le> fr_timeout r" and "fst bufs1 = mem (fr_ptr r) (fr_len r)"
    and "\<not> fst (raw_take mem now1 bufs2 r1)"
  using assms
  by (auto simp: raw_take_def raw_release_def would_block_if_equal_def Let_def split: if_splits prod.splits)

end
