(* ===== verification/Displays.thy ===== *)
theory Displays
  imports Capture
begin

text \<open>
  The displays of a machine and the Windows capturer: \<^verbatim>\<open>dxgi/mod.rs\<close> with the enumeration of
  adapters and outputs, the fallback to GDI and the choice of the buffer; \<^verbatim>\<open>common/dxgi.rs\<close> with the
  order of the displays; the monitors of \<^verbatim>\<open>x11/iter.rs\<close>, \<^verbatim>\<open>common/x11.rs\<close> and \<^verbatim>\<open>common/linux.rs\<close>. The
  answers of Windows and of the X server are arguments; differences of coordinates wrap, as in a release build.
\<close>

subsection \<open>Results of Windows\<close>

datatype hresult =
  S_OK | DXGI_ERROR_ACCESS_LOST | DXGI_ERROR_WAIT_TIMEOUT | DXGI_ERROR_INVALID_CALL | E_ACCESSDENIED
| DXGI_ERROR_UNSUPPORTED | DXGI_ERROR_NOT_CURRENTLY_AVAILABLE | DXGI_ERROR_SESSION_DISCONNECTED | E_INVALIDARG | H_other i32

definition wrap_hresult :: "hresult \<Rightarrow> capture_error + unit" where
  "wrap_hresult x = (case x of
     S_OK \<Rightarrow> Inr ()
   | DXGI_ERROR_ACCESS_LOST \<Rightarrow> Inl Conn_reset
   | DXGI_ERROR_WAIT_TIMEOUT \<Rightarrow> Inl Timed_out
   | DXGI_ERROR_INVALID_CALL \<Rightarrow> Inl Invalid_data
   | E_ACCESSDENIED \<Rightarrow> Inl Permission_denied
   | DXGI_ERROR_UNSUPPORTED \<Rightarrow> Inl Conn_refused
   | DXGI_ERROR_NOT_CURRENTLY_AVAILABLE \<Rightarrow> Inl Interrupted_error
   | DXGI_ERROR_SESSION_DISCONNECTED \<Rightarrow> Inl Conn_aborted
   | E_INVALIDARG \<Rightarrow> Inl Invalid_input
   | H_other _ \<Rightarrow> Inl Other_error)"

subsection \<open>Displays\<close>

datatype rotation = Rotation_unspecified | Rotation_identity | Rotation_90 | Rotation_180 | Rotation_270 | Rotation_unknown

record dx_display =
  dd_name :: "u16 list"
  dd_left :: i32
  dd_top :: i32
  dd_right :: i32
  dd_bottom :: i32
  dd_attached :: bool
  dd_rotation :: rotation
  dd_gdi :: bool

definition dd_width :: "dx_display \<Rightarrow> i32" where "dd_width d = dd_right d - dd_left d"
definition dd_height :: "dx_display \<Rightarrow> i32" where "dd_height d = dd_bottom d - dd_top d"
definition dd_origin :: "dx_display \<Rightarrow> i32 \<times> i32" where "dd_origin d = (dd_left d, dd_top d)"
definition dd_is_primary :: "dx_display \<Rightarrow> bool" where "dd_is_primary d \<longleftrightarrow> dd_origin d = (0, 0)"

definition dd_wide_name :: "dx_display \<Rightarrow> u16 list" where
  "dd_wide_name d = takeWhile (\<lambda>x. x \<noteq> 0) (dd_name d)"

text \<open>A device of \<^verbatim>\<open>EnumDisplayDevicesW\<close> with its current settings: position and size.\<close>

record gdi_device =
  gd_name :: "u16 list"
  gd_active :: bool
  gd_mirroring :: bool
  gd_settings :: "(i32 \<times> i32 \<times> u32 \<times> u32) option"

fun get_from_gdi :: "gdi_device list \<Rightarrow> dx_display list" where
  "get_from_gdi [] = []"
| "get_from_gdi (d # ds) =
     (if \<not> gd_active d \<or> gd_mirroring d then get_from_gdi ds
      else case gd_settings d of
        None \<Rightarrow> get_from_gdi ds
      | Some (x, y, w, h) \<Rightarrow>
          \<lparr>dd_name = gd_name d, dd_left = x, dd_top = y, dd_right = x + w, dd_bottom = y + h, dd_attached = True,
           dd_rotation = Rotation_unspecified, dd_gdi = True\<rparr> # get_from_gdi ds)"

text \<open>The adapters with their outputs; \<open>None\<close> is an output without the interface \<^verbatim>\<open>IDXGIOutput1\<close>. The
  iterator holds the adapter by its index.\<close>

type_synonym adapters = "dx_display option list list"

record displays_iter =
  it_adapter :: "nat option"
  it_nadapter :: nat
  it_ndisplay :: nat

definition enum_adapter :: "adapters \<Rightarrow> nat \<Rightarrow> nat option" where
  "enum_adapter ads n = (if n < length ads then Some n else None)"

definition displays_new :: "adapters \<Rightarrow> displays_iter" where
  "displays_new ads = \<lparr>it_adapter = enum_adapter ads 0, it_nadapter = 0, it_ndisplay = 0\<rparr>"

definition read_and_invalidate :: "adapters \<Rightarrow> displays_iter \<Rightarrow> dx_display option option \<times> displays_iter" where
  "read_and_invalidate ads it =
     (case it_adapter it of
        None \<Rightarrow> (Some None, it)
      | Some a \<Rightarrow>
          (if length (ads ! a) \<le> it_ndisplay it then (None, it\<lparr>it_adapter := None\<rparr>)
           else
             (let it1 = it\<lparr>it_ndisplay := it_ndisplay it + 1\<rparr>
              in case ads ! a ! it_ndisplay it of
                   None \<Rightarrow> (None, it1\<lparr>it_adapter := None\<rparr>)
                 | Some d \<Rightarrow> (Some (Some d), it1))))"

definition next_display :: "adapters \<Rightarrow> displays_iter \<Rightarrow> dx_display option \<times> displays_iter" where
  "next_display ads it =
     (case read_and_invalidate ads it of
        (Some res, it1) \<Rightarrow> (res, it1)
      | (None, it1) \<Rightarrow>
          (let n = it_nadapter it1 + 1;
               it2 = \<lparr>it_adapter = enum_adapter ads n, it_nadapter = n, it_ndisplay = 0\<rparr>
           in case read_and_invalidate ads it2 of
                (Some res, it3) \<Rightarrow> (res, it3)
              | (None, it3) \<Rightarrow> (None, it3)))"

text \<open>\<^verbatim>\<open>collect\<close>, with fuel: \<open>None\<close> if it is not enough.\<close>

fun collect_displays :: "nat \<Rightarrow> adapters \<Rightarrow> displays_iter \<Rightarrow> dx_display list option" where
  "collect_displays 0 ads it = None"
| "collect_displays (Suc k) ads it =
     (case next_display ads it of
        (None, _) \<Rightarrow> Some []
      | (Some d, it1) \<Rightarrow> map_option ((#) d) (collect_displays k ads it1))"

text \<open>\<^verbatim>\<open>Display::all\<close>: the displays of DXGI in the order of those of GDI. \<open>lossy\<close> is the conversion of
  UTF-16; the result \<open>None\<close> is the panic of \<^verbatim>\<open>remove\<close>.\<close>

fun position :: "('a \<Rightarrow> bool) \<Rightarrow> 'a list \<Rightarrow> nat option" where
  "position P [] = None"
| "position P (x # xs) = (if P x then Some 0 else map_option Suc (position P xs))"

fun reorder :: "(dx_display \<Rightarrow> string) \<Rightarrow> string list \<Rightarrow> dx_display list \<Rightarrow> dx_display list option" where
  "reorder nm [] ds = Some []"
| "reorder nm (n # ns) ds =
     (let pos = (case position (\<lambda>d. nm d = n) ds of Some p \<Rightarrow> p | None \<Rightarrow> 0)
      in if length ds \<le> pos then None
         else map_option ((#) (ds ! pos)) (reorder nm ns (take pos ds @ drop (Suc pos) ds)))"

definition dd_display_name :: "(u16 list \<Rightarrow> string) \<Rightarrow> dx_display \<Rightarrow> string" where
  "dd_display_name lossy d = lossy (dd_wide_name d)"

definition displays_all ::
    "(u16 list \<Rightarrow> string) \<Rightarrow> dx_display list \<Rightarrow> dx_display list option \<Rightarrow> dx_display list option" where
  "displays_all lossy gdi dxgi =
     (let dx = (case dxgi of Some ds \<Rightarrow> ds | None \<Rightarrow> []); nm = dd_display_name lossy
      in if dx = [] then Some gdi
         else if length dx \<noteq> length gdi then Some dx
         else if \<not> list_all (\<lambda>n. n \<in> set (map nm dx)) (map nm gdi) then Some dx
         else reorder nm (map nm gdi) dx)"

subsection \<open>The capturer\<close>

text \<open>The parts of \<^verbatim>\<open>Capturer\<close> that decide what it does: whether there is a GDI capturer and a
  duplication, and the buffers.\<close>

record dx_capturer =
  dc_display :: dx_display
  dc_gdi :: bool
  dc_duplication :: bool
  dc_width :: nat
  dc_height :: nat
  dc_gdi_buffer :: bytes
  dc_saved :: bytes
  dc_rotated :: bytes
  dc_output_texture :: bool

text \<open>The answers of Windows during \<^verbatim>\<open>new\<close>.\<close>

record dx_setup =
  create_device :: hresult
  get_desc :: hresult
  duplicate_output :: hresult
  create_gdi_ok :: bool

definition dx_new :: "dx_setup \<Rightarrow> dx_display \<Rightarrow> capture_error + dx_capturer" where
  "dx_new w d =
     (let res = (if dd_gdi d then wrap_hresult (H_other 1)
                 else case wrap_hresult (create_device w) of Inl e \<Rightarrow> Inl e | Inr _ \<Rightarrow> wrap_hresult (get_desc w));
          mk = (\<lambda>gdi dup. Inr \<lparr>dc_display = d, dc_gdi = gdi, dc_duplication = dup, dc_width = unat (scast (dd_width d) :: usize),
                  dc_height = unat (scast (dd_height d) :: usize), dc_gdi_buffer = [], dc_saved = [], dc_rotated = [], dc_output_texture = False\<rparr>)
      in case res of
           Inl e \<Rightarrow> if create_gdi_ok w then mk True False else Inl e
         | Inr _ \<Rightarrow>
             (case wrap_hresult (duplicate_output w) of
                Inr _ \<Rightarrow> mk False True
              | Inl e \<Rightarrow> if create_gdi_ok w then mk True False else Inl e))"

definition dx_set_gdi :: "bool \<Rightarrow> dx_capturer \<Rightarrow> bool \<times> dx_capturer" where
  "dx_set_gdi ok c = (ok, c\<lparr>dc_gdi := ok\<rparr>)"

definition dx_cancel_gdi :: "dx_capturer \<Rightarrow> dx_capturer" where
  "dx_cancel_gdi c = c\<lparr>dc_gdi_buffer := [], dc_gdi := False\<rparr>"

definition dx_set_output_texture :: "bool \<Rightarrow> dx_capturer \<Rightarrow> dx_capturer" where
  "dx_set_output_texture t c = c\<lparr>dc_output_texture := t\<rparr>"

text \<open>The answers during a capture: GDI's picture; the acquired frame with whether it was presented;
  the mapped memory with its pitch; libyuv's rotation, given the memory, the pitch, the stride and the
  sizes; the texture with the rotation that is left.\<close>

record dx_world =
  gdi_picture :: "bytes option"
  acquire :: hresult
  presented :: bool
  map_surface :: "capture_error + (nat \<Rightarrow> bytes) \<times> nat"
  argb_rotate :: "(nat \<Rightarrow> bytes) \<Rightarrow> nat \<Rightarrow> nat \<Rightarrow> nat \<Rightarrow> nat \<Rightarrow> rotation \<Rightarrow> bytes \<Rightarrow> bytes"
  accumulated :: bool
  dx_texture :: "bool \<times> nat"

text \<open>\<open>None\<close> is the use of a null pointer: \<^verbatim>\<open>unmap\<close> does not ask whether there is a duplication.\<close>

definition load_frame :: "dx_world \<Rightarrow> capture_error + (nat \<Rightarrow> bytes) \<times> nat" where
  "load_frame w =
     (case wrap_hresult (acquire w) of
        Inl e \<Rightarrow> Inl e
      | Inr _ \<Rightarrow> if presented w then map_surface w else Inl Would_block)"

definition get_pixelbuffer :: "dx_world \<Rightarrow> dx_capturer \<Rightarrow> ((capture_error + bytes) \<times> dx_capturer) option" where
  "get_pixelbuffer w c =
     (if dc_gdi c
      then case gdi_picture w of
             None \<Rightarrow> Some (Inl Other_error, c)
           | Some b \<Rightarrow>
               (let c1 = c\<lparr>dc_gdi_buffer := b\<rparr>
                in case would_block_if_equal (dc_saved c1) b of
                     None \<Rightarrow> Some (Inl Would_block, c1)
                   | Some sv \<Rightarrow> Some (Inr b, c1\<lparr>dc_saved := sv\<rparr>))
      else if \<not> dc_duplication c then None
      else Some (case load_frame w of
             Inl e \<Rightarrow> (Inl e, c)
           | Inr (mem, pitch) \<Rightarrow>
               (let rot = dd_rotation (dc_display c)
                in case rot of
                     Rotation_unknown \<Rightarrow> (Inl Other_error, c)
                   | Rotation_identity \<Rightarrow> (Inr (mem (pitch * dc_height c)), c)
                   | Rotation_unspecified \<Rightarrow> (Inr (mem (pitch * dc_height c)), c)
                   | _ \<Rightarrow>
                       (let sizes = (if rot = Rotation_180 then (dc_width c, dc_height c) else (dc_height c, dc_width c));
                            b = argb_rotate w mem pitch (4 * dc_width c) (fst sizes) (snd sizes) rot
                                  (resize (dc_width c * dc_height c * 4) (dc_rotated c))
                        in (Inr b, c\<lparr>dc_rotated := b\<rparr>)))))"

definition get_texture :: "dx_world \<Rightarrow> dx_capturer \<Rightarrow> capture_error + bool \<times> nat" where
  "get_texture w c =
     (if \<not> dc_duplication c then Inl Addr_not_available
      else case wrap_hresult (acquire w) of
        Inl e \<Rightarrow> Inl e
      | Inr _ \<Rightarrow> if \<not> accumulated w \<or> \<not> presented w then Inl Would_block else Inr (dx_texture w))"

definition dx_frame :: "dx_world \<Rightarrow> dx_capturer \<Rightarrow> ((capture_error + frame_data) \<times> dx_capturer) option" where
  "dx_frame w c =
     (if dc_output_texture c
      then Some (case get_texture w c of Inl e \<Rightarrow> Inl e | Inr (t, r) \<Rightarrow> Inr (Texture_frame t r), c)
      else case get_pixelbuffer w c of
        None \<Rightarrow> None
      | Some (Inl e, c1) \<Rightarrow> Some (Inl e, c1)
      | Some (Inr d, c1) \<Rightarrow>
          map_option (\<lambda>p. (Inr (Pixel_frame p), c1)) (pixel_buffer_new d BGRA (dc_width c1) (dc_height c1)))"

text \<open>\<^verbatim>\<open>frame\<close> of \<^verbatim>\<open>common/dxgi.rs\<close>: a time-out counts as nothing to see.\<close>

definition windows_frame :: "dx_world \<Rightarrow> dx_capturer \<Rightarrow> ((capture_error + frame_data) \<times> dx_capturer) option" where
  "windows_frame w c =
     (case dx_frame w c of
        Some (Inl Timed_out, c1) \<Rightarrow> Some (Inl Would_block, c1)
      | r \<Rightarrow> r)"

subsection \<open>X11 and Linux\<close>

record x11_display =
  xd_default :: bool
  xd_x :: i16
  xd_y :: i16
  xd_w :: u16
  xd_h :: u16
  xd_name :: string
  xd_depth :: "nat option"

definition x11_pixfmt :: "nat option \<Rightarrow> pixfmt" where
  "x11_pixfmt depth =
     (case (case depth of None \<Rightarrow> None | Some n \<Rightarrow> if n = 16 then Some RGB565LE else if n = 32 then Some BGRA else None) of
        Some x \<Rightarrow> x | None \<Rightarrow> BGRA)"

text \<open>The iterator: the monitors of the current screen, and the screens that follow.\<close>

type_synonym display_iter = "x11_display list option \<times> x11_display list list"

definition next_screen :: "x11_display list list \<Rightarrow> display_iter" where
  "next_screen outer = (case outer of [] \<Rightarrow> (None, []) | s # ss \<Rightarrow> (Some s, ss))"

function x11_next :: "display_iter \<Rightarrow> x11_display option \<times> display_iter" where
  "x11_next (inner, outer) =
     (case inner of
        None \<Rightarrow> (None, (inner, outer))
      | Some (d # ds) \<Rightarrow> (Some d, (Some ds, outer))
      | Some [] \<Rightarrow> x11_next (next_screen outer))"
  by pat_completeness auto

termination
  by (relation "measure (\<lambda>(inner, outer). length outer + (case inner of None \<Rightarrow> 0 | Some _ \<Rightarrow> 1))")
    (auto simp: next_screen_def split: list.splits)

declare x11_next.simps [simp del]

definition iter_size :: "display_iter \<Rightarrow> nat" where
  "iter_size it = (case fst it of None \<Rightarrow> 0 | Some ds \<Rightarrow> length ds) + sum_list (map length (snd it))"

lemma x11_next_size: "x11_next it = (Some d, it1) \<Longrightarrow> iter_size it1 < iter_size it"
proof (induction it rule: x11_next.induct)
  case (1 inner outer)
  show ?case
  proof (cases inner)
    case None
    then show ?thesis using 1 by (simp add: x11_next.simps)
  next
    case (Some ds)
    show ?thesis
    proof (cases ds)
      case Nil
      then have "x11_next (next_screen outer) = (Some d, it1)" using 1(2) Some by (simp add: x11_next.simps [of "Some []"])
      then have "iter_size it1 < iter_size (next_screen outer)" using 1(1) Some Nil by simp
      then show ?thesis using Some Nil by (cases outer) (simp_all add: iter_size_def next_screen_def)
    next
      case (Cons e es)
      then show ?thesis using 1(2) Some by (auto simp: x11_next.simps iter_size_def)
    qed
  qed
qed

text \<open>\<^verbatim>\<open>Server::displays\<close>, collected.\<close>

function x11_collect :: "display_iter \<Rightarrow> x11_display list" where
  "x11_collect it = (case x11_next it of (None, _) \<Rightarrow> [] | (Some d, it1) \<Rightarrow> d # x11_collect it1)"
  by auto

termination
  by (relation "measure iter_size") (auto dest: x11_next_size [OF sym])

declare x11_collect.simps [simp del]

definition x11_displays :: "x11_display list list \<Rightarrow> x11_display list" where
  "x11_displays screens = x11_collect (next_screen screens)"

text \<open>\<^verbatim>\<open>primary\<close>: the first default display, or the first of all.\<close>

definition x11_primary :: "x11_display list \<Rightarrow> capture_error + x11_display" where
  "x11_primary ds =
     (case ds of
        [] \<Rightarrow> Inl Not_found
      | d # rest \<Rightarrow>
          Inr (if xd_default d then d else case find xd_default rest of Some b \<Rightarrow> b | None \<Rightarrow> d))"

datatype 'w linux_display = X11 x11_display | Wayland 'w

definition linux_primary ::
    "bool \<Rightarrow> (capture_error + x11_display list) \<Rightarrow> (capture_error + 'w list) \<Rightarrow> capture_error + 'w linux_display" where
  "linux_primary is_x11 xs ws =
     (if is_x11
      then rbind xs (\<lambda>ds. rbind (x11_primary ds) (\<lambda>d. Inr (X11 d)))
      else rbind ws (\<lambda>ds. case ds of [] \<Rightarrow> Inl Not_found | d # _ \<Rightarrow> Inr (Wayland d)))"

definition linux_all ::
    "bool \<Rightarrow> (capture_error + x11_display list) \<Rightarrow> (capture_error + 'w list) \<Rightarrow> capture_error + 'w linux_display list" where
  "linux_all is_x11 xs ws =
     (if is_x11 then rbind xs (\<lambda>ds. Inr (map X11 ds)) else rbind ws (\<lambda>ds. Inr (map Wayland ds)))"

end
