(* ===== verification/DisplaysProps.thy ===== *)
theory DisplaysProps
  imports Displays "HOL-Library.Multiset"
begin

text \<open>
  Properties of the displays: which outputs the enumeration of DXGI finds, that ordering the displays
  loses none, that a capturer which fell back to GDI is safe as long as GDI is kept, and that the
  iterator of X11 goes through all screens.
\<close>

subsection \<open>The enumeration\<close>

text \<open>The outputs of an adapter up to the first without the interface.\<close>

definition usable_outputs :: "dx_display option list \<Rightarrow> dx_display list" where
  "usable_outputs a = map the (takeWhile (\<lambda>x. x \<noteq> None) a)"

definition from_adapter :: "adapters \<Rightarrow> nat \<Rightarrow> dx_display list" where
  "from_adapter ads n = concat (takeWhile (\<lambda>x. x \<noteq> []) (map usable_outputs (drop n ads)))"

definition at_output :: "adapters \<Rightarrow> nat \<Rightarrow> nat \<Rightarrow> displays_iter" where
  "at_output ads n k = \<lparr>it_adapter = enum_adapter ads n, it_nadapter = n, it_ndisplay = k\<rparr>"

lemma from_adapter_step:
  "n < length ads \<Longrightarrow> usable_outputs (ads ! n) \<noteq> [] \<Longrightarrow>
     from_adapter ads n = usable_outputs (ads ! n) @ from_adapter ads (Suc n)"
  "n < length ads \<Longrightarrow> usable_outputs (ads ! n) = [] \<Longrightarrow> from_adapter ads n = []"
  "length ads \<le> n \<Longrightarrow> from_adapter ads n = []"
  by (simp_all add: from_adapter_def Cons_nth_drop_Suc [symmetric])

lemma usable_nth:
  assumes "k < length (usable_outputs a)"
  shows "k < length a" and "a ! k = Some (usable_outputs a ! k)"
proof -
  have k: "k < length (takeWhile (\<lambda>x. x \<noteq> None) a)" using assms by (simp add: usable_outputs_def)
  then show "k < length a" by (rule less_le_trans [OF _ length_takeWhile_le])
  have "takeWhile (\<lambda>x. x \<noteq> None) a ! k = a ! k" using k by (rule takeWhile_nth)
  moreover have "a ! k \<noteq> None" using set_takeWhileD [OF nth_mem [OF k]] calculation by simp
  ultimately show "a ! k = Some (usable_outputs a ! k)" using k by (simp add: usable_outputs_def)
qed

lemma usable_end:
  assumes "length (usable_outputs a) < length a"
  shows "a ! length (usable_outputs a) = None"
  using nth_length_takeWhile [of "\<lambda>x. x \<noteq> None" a] assms by (simp add: usable_outputs_def)

lemma read_output:
  assumes "n < length ads" and "k < length (usable_outputs (ads ! n))"
  shows "read_and_invalidate ads (at_output ads n k) = (Some (Some (usable_outputs (ads ! n) ! k)), at_output ads n (Suc k))"
  using usable_nth [OF assms(2)] assms(1) by (simp add: read_and_invalidate_def at_output_def enum_adapter_def)

lemma read_end:
  assumes "n < length ads" and "k = length (usable_outputs (ads ! n))"
  obtains it where "read_and_invalidate ads (at_output ads n k) = (None, it)" and "it_nadapter it = n"
  using usable_end [of "ads ! n"] assms
  by (cases "k < length (ads ! n)") (auto simp: read_and_invalidate_def at_output_def enum_adapter_def)

lemma read_none: "length ads \<le> n \<Longrightarrow> read_and_invalidate ads (at_output ads n k) = (Some None, at_output ads n k)"
  by (simp add: read_and_invalidate_def at_output_def enum_adapter_def)

lemma collect_from:
  assumes "n < length ads" and "k \<le> length (usable_outputs (ads ! n))"
    and "length (drop k (usable_outputs (ads ! n)) @ from_adapter ads (Suc n)) < m"
  shows "collect_displays m ads (at_output ads n k) = Some (drop k (usable_outputs (ads ! n)) @ from_adapter ads (Suc n))"
  using assms
proof (induction m arbitrary: n k)
  case (Suc m)
  let ?u = "usable_outputs (ads ! n)"
  show ?case
  proof (cases "k < length ?u")
    case True
    then have "collect_displays m ads (at_output ads n (Suc k)) = Some (drop (Suc k) ?u @ from_adapter ads (Suc n))"
      using Suc.prems by (intro Suc.IH) auto
    then show ?thesis
      using read_output [OF Suc.prems(1) True] True by (simp add: next_display_def Cons_nth_drop_Suc [symmetric])
  next
    case False
    then have k: "k = length ?u" using Suc.prems(2) by simp
    obtain it where it: "read_and_invalidate ads (at_output ads n k) = (None, it)" "it_nadapter it = n"
      using read_end [OF Suc.prems(1) k] .
    have nxt: "next_display ads (at_output ads n k) =
        (case read_and_invalidate ads (at_output ads (Suc n) 0) of (Some res, it3) \<Rightarrow> (res, it3) | (None, it3) \<Rightarrow> (None, it3))"
      using it by (simp add: next_display_def at_output_def Let_def)
    show ?thesis
    proof (cases "Suc n < length ads")
      case False
      then show ?thesis using nxt read_none [of ads "Suc n" 0] k by (simp add: from_adapter_step(3))
    next
      case n1: True
      let ?v = "usable_outputs (ads ! Suc n)"
      show ?thesis
      proof (cases "?v = []")
        case True
        then obtain it2 where "read_and_invalidate ads (at_output ads (Suc n) 0) = (None, it2)"
          using read_end [OF n1, of 0] by auto
        then show ?thesis using nxt k from_adapter_step(2) [OF n1 True] by simp
      next
        case v: False
        then obtain d ds where d: "?v = d # ds" by (cases ?v) auto
        have "collect_displays m ads (at_output ads (Suc n) 1) = Some (drop 1 ?v @ from_adapter ads (Suc (Suc n)))"
          using Suc.prems(3) k d from_adapter_step(1) [OF n1 v] by (intro Suc.IH [OF n1]) simp_all
        then show ?thesis
          using nxt k d read_output [OF n1, of 0] from_adapter_step(1) [OF n1 v] by simp
      qed
    qed
  qed
qed simp

text \<open>The enumeration of displays ends and finds the outputs of the first adapter and of those
  after it up to the first that has none: an adapter without outputs, such as a second graphics card
  to which no screen is attached, hides the displays of all later adapters.\<close>

theorem enumeration_stops_at_empty_adapter:
  "collect_displays (Suc (length (concat ads))) ads (displays_new ads) =
     Some (case ads of [] \<Rightarrow> [] | a # rest \<Rightarrow>
             usable_outputs a @ concat (takeWhile (\<lambda>x. x \<noteq> []) (map usable_outputs rest)))"
proof (cases ads)
  case Nil
  then show ?thesis by (simp add: displays_new_def next_display_def read_and_invalidate_def enum_adapter_def)
next
  case (Cons a rest)
  have u: "length (usable_outputs b) \<le> length b" for b
    by (simp add: usable_outputs_def length_takeWhile_le)
  have t: "length (concat (takeWhile (\<lambda>x. x \<noteq> []) (map usable_outputs bs))) \<le> length (concat bs)" for bs
    using u by (induction bs) (auto simp: add_le_mono)
  have "displays_new ads = at_output ads 0 0" by (simp add: displays_new_def at_output_def)
  moreover have "from_adapter ads (Suc 0) = concat (takeWhile (\<lambda>x. x \<noteq> []) (map usable_outputs rest))"
    using Cons by (simp add: from_adapter_def)
  ultimately show ?thesis
    using collect_from [of 0 ads 0 "Suc (length (concat ads))"] add_le_mono [OF u [of a] t [of rest]] Cons by simp
qed

subsection \<open>The order of the displays\<close>

lemma position_Some: "position P xs = Some i \<Longrightarrow> i < length xs \<and> P (xs ! i)"
  by (induction xs arbitrary: i) (auto split: if_splits)

lemma position_None: "position P xs = None \<longleftrightarrow> (\<forall>x \<in> set xs. \<not> P x)"
  by (induction xs) auto

lemma mset_remove_nth: "i < length xs \<Longrightarrow> add_mset (xs ! i) (mset (take i xs @ drop (Suc i) xs)) = mset xs"
  by (metis append_take_drop_id Cons_nth_drop_Suc mset.simps(2) mset_append union_mset_add_mset_right)


lemma reorder_perm:
  assumes "length ns = length ds"
  shows "\<exists>rs. reorder nm ns ds = Some rs \<and> mset rs = mset ds"
  using assms
proof (induction ns arbitrary: ds)
  case (Cons n ns)
  define pos where "pos = (case position (\<lambda>d. nm d = n) ds of Some p \<Rightarrow> p | None \<Rightarrow> 0)"
  have pos: "pos < length ds"
    using Cons.prems position_Some [of "\<lambda>d. nm d = n" ds] by (auto simp: pos_def split: option.splits)
  let ?ds = "take pos ds @ drop (Suc pos) ds"
  have "length ns = length ?ds" using Cons.prems pos by simp
  then obtain rs where "reorder nm ns ?ds = Some rs" "mset rs = mset ?ds" using Cons.IH by blast
  then show ?case using pos mset_remove_nth [OF pos] by (simp add: Let_def pos_def [symmetric])
qed simp

lemma reorder_names:
  assumes "distinct ns" and "set ns \<subseteq> nm ` set ds" and "reorder nm ns ds = Some rs"
  shows "map nm rs = ns"
  using assms
proof (induction ns arbitrary: ds rs)
  case (Cons n ns)
  have "\<exists>d \<in> set ds. nm d = n" using Cons.prems(2) by auto
  then have "position (\<lambda>d. nm d = n) ds \<noteq> None" by (simp add: position_None)
  then obtain p where p: "position (\<lambda>d. nm d = n) ds = Some p" by auto
  let ?ds = "take p ds @ drop (Suc p) ds"
  have pd: "p < length ds" "nm (ds ! p) = n" using position_Some [OF p] by simp_all
  obtain rs1 where rs: "rs = ds ! p # rs1" "reorder nm ns ?ds = Some rs1"
    using Cons.prems(3) p pd by (auto simp: Let_def)
  have "set ds = insert (ds ! p) (set ?ds)" using mset_remove_nth [OF pd(1), THEN arg_cong [of _ _ set_mset]] by simp
  then have "set ns \<subseteq> nm ` set ?ds" using Cons.prems(1,2) pd(2) by auto
  then show ?case using Cons.IH [of ?ds rs1] Cons.prems(1) rs pd by simp
qed simp

text \<open>Putting the displays of DXGI into the order of those of GDI never panics and loses or repeats
  no display: the result has the displays of DXGI, or those of GDI if there are none; and if both
  interfaces name the same displays, without repetition, it has the names in GDI's order.\<close>

theorem ordered_displays_complete:
  "\<exists>ds. displays_all lossy gdi dxgi = Some ds \<and>
     (let dx = (case dxgi of Some ds \<Rightarrow> ds | None \<Rightarrow> []); nm = dd_display_name lossy
      in mset ds = (if dx = [] then mset gdi else mset dx) \<and>
         (if distinct (map nm gdi) \<and> length dx = length gdi \<and> set (map nm gdi) = set (map nm dx)
          then map nm ds = map nm gdi else True))"
proof -
  let ?dx = "case dxgi of Some ds \<Rightarrow> ds | None \<Rightarrow> []" let ?nm = "dd_display_name lossy"
  show ?thesis
  proof (cases "?dx \<noteq> [] \<and> length ?dx = length gdi \<and> list_all (\<lambda>n. n \<in> set (map ?nm ?dx)) (map ?nm gdi)")
    case True
    then have all: "displays_all lossy gdi dxgi = reorder ?nm (map ?nm gdi) ?dx"
      unfolding displays_all_def Let_def by simp
    obtain ds where ds: "reorder ?nm (map ?nm gdi) ?dx = Some ds" "mset ds = mset ?dx"
      using reorder_perm [of "map ?nm gdi" ?dx ?nm] True by auto
    have "map ?nm ds = map ?nm gdi" if "distinct (map ?nm gdi)"
      using reorder_names [OF that _ ds(1)] True by (auto simp: list_all_iff)
    then show ?thesis using all ds True by (simp add: Let_def)
  next
    case False
    have "displays_all lossy gdi dxgi = Some (if ?dx = [] then gdi else ?dx)"
      using False unfolding displays_all_def Let_def by (simp only: split: if_splits) blast
    moreover have "\<not> (distinct (map ?nm gdi) \<and> length ?dx = length gdi \<and> set (map ?nm gdi) = set (map ?nm ?dx)) \<or> ?dx = []"
      using False by (auto simp: list_all_iff)
    ultimately show ?thesis by (cases "?dx = []") (auto simp: Let_def)
  qed
qed

subsection \<open>The fallback to GDI\<close>

datatype dx_op = Dx_frame dx_world | Dx_set_gdi bool | Dx_cancel_gdi | Dx_output_texture bool

fun dx_run :: "dx_op list \<Rightarrow> dx_capturer \<Rightarrow> bool" where
  "dx_run [] c = True"
| "dx_run (Dx_frame w # ops) c = (case windows_frame w c of None \<Rightarrow> False | Some (_, c1) \<Rightarrow> dx_run ops c1)"
| "dx_run (Dx_set_gdi ok # ops) c = dx_run ops (snd (dx_set_gdi ok c))"
| "dx_run (Dx_cancel_gdi # ops) c = dx_run ops (dx_cancel_gdi c)"
| "dx_run (Dx_output_texture t # ops) c = dx_run ops (dx_set_output_texture t c)"

definition keeps_gdi :: "dx_op \<Rightarrow> bool" where
  "keeps_gdi p = (case p of Dx_set_gdi ok \<Rightarrow> ok | Dx_cancel_gdi \<Rightarrow> False | _ \<Rightarrow> True)"

definition dx_safe :: "dx_capturer \<Rightarrow> bool" where
  "dx_safe c \<longleftrightarrow> (dc_gdi c \<or> dc_duplication c) \<and> 0 < dc_height c"

lemma widened_nonzero:
  fixes x :: i32
  assumes "0 < unat x"
  shows "0 < unat (scast x :: usize)"
proof -
  have "sint (scast x :: usize) = sint x" by (rule sint_up_scast) (simp add: is_up.rep_eq)
  then have "(scast x :: usize) \<noteq> 0" using assms by (metis sint_0 signed_0 signed_word_eqI unat_0 less_irrefl)
  then show ?thesis by (simp add: unat_gt_0)
qed

lemma dx_new_safe:
  assumes "dx_new w d = Inr c" and "0 < unat (dd_height d)"
  shows "dx_safe c"
  using assms(1) widened_nonzero [OF assms(2)]
  by (auto simp: dx_new_def dx_safe_def Let_def simp del: unat_gt_0 split: sum.splits if_splits)

lemma get_pixelbuffer_keeps:
  assumes "get_pixelbuffer w c = Some (r, c1)"
  shows "dc_gdi c1 = dc_gdi c \<and> dc_duplication c1 = dc_duplication c \<and> dc_height c1 = dc_height c"
proof (cases "dc_gdi c")
  case True
  then show ?thesis using assms by (auto simp: get_pixelbuffer_def Let_def split: option.splits)
next
  case False
  then show ?thesis using assms
    by (cases "load_frame w"; cases "dd_rotation (dc_display c)") (auto simp: get_pixelbuffer_def Let_def split: if_splits)
qed

lemma get_pixelbuffer_safe:
  assumes "dx_safe c"
  obtains r c1 where "get_pixelbuffer w c = Some (r, c1)" and "dx_safe c1"
proof -
  have "get_pixelbuffer w c \<noteq> None"
    using assms by (auto simp: get_pixelbuffer_def dx_safe_def Let_def split: option.splits)
  then obtain r c1 where g: "get_pixelbuffer w c = Some (r, c1)" by fastforce
  show ?thesis using that [OF g] get_pixelbuffer_keeps [OF g] assms by (simp add: dx_safe_def)
qed

lemma windows_frame_safe:
  assumes "dx_safe c"
  obtains r c1 where "windows_frame w c = Some (r, c1)" and "dx_safe c1"
proof -
  have "\<exists>r c1. dx_frame w c = Some (r, c1) \<and> dx_safe c1"
  proof (cases "dc_output_texture c")
    case True
    then show ?thesis using assms by (simp add: dx_frame_def)
  next
    case False
    obtain r c1 where g: "get_pixelbuffer w c = Some (r, c1)" "dx_safe c1" using get_pixelbuffer_safe [OF assms] .
    then show ?thesis using False
      by (cases r) (auto simp: dx_frame_def pixel_buffer_new_def dx_safe_def)
  qed
  then obtain r c1 where f: "dx_frame w c = Some (r, c1)" "dx_safe c1" by blast
  then have "windows_frame w c = Some (case r of Inl Timed_out \<Rightarrow> Inl Would_block | _ \<Rightarrow> r, c1)"
    by (auto simp: windows_frame_def split: sum.splits capture_error.splits)
  then show ?thesis using that f(2) by blast
qed

text \<open>C30. A capturer that Windows let be made, of a display with a height, never uses a null pointer,
  whether it duplicates the output or fell back to GDI, as long as GDI is not given up: whatever
  Windows answers during captures, with textures or pixels.\<close>

theorem kept_fallback_is_safe:
  assumes "dx_new w d = Inr c" and "0 < unat (dd_height d)" and "list_all keeps_gdi ops"
  shows "dx_run ops c"
  using dx_new_safe [OF assms(1,2)] assms(3)
proof (induction ops arbitrary: c)
  case (Cons p ops)
  show ?case
  proof (cases p)
    case (Dx_frame w)
    obtain r c1 where "windows_frame w c = Some (r, c1)" "dx_safe c1" using windows_frame_safe [OF Cons.prems(1)] .
    then show ?thesis using Cons Dx_frame by simp
  next
    case (Dx_set_gdi ok)
    then show ?thesis using Cons by (simp add: keeps_gdi_def dx_set_gdi_def dx_safe_def)
  next
    case Dx_cancel_gdi
    then show ?thesis using Cons by (simp add: keeps_gdi_def)
  next
    case (Dx_output_texture t)
    then show ?thesis using Cons by (simp add: dx_set_output_texture_def dx_safe_def)
  qed
qed simp

definition demo_display :: dx_display where
  "demo_display = \<lparr>dd_name = [65, 0], dd_left = 0, dd_top = 0, dd_right = 1, dd_bottom = 1, dd_attached = True,
     dd_rotation = Rotation_identity, dd_gdi = False\<rparr>"

definition demo_setup :: dx_setup where
  "demo_setup = \<lparr>create_device = S_OK, get_desc = S_OK, duplicate_output = E_ACCESSDENIED, create_gdi_ok = True\<rparr>"

definition demo_world :: dx_world where
  "demo_world = \<lparr>gdi_picture = Some [1, 2, 3, 4], acquire = S_OK, presented = True, map_surface = Inr (\<lambda>n. replicate n 0, 4),
     argb_rotate = (\<lambda>_ _ _ _ _ _ b. b), accumulated = True, dx_texture = (True, 0)\<rparr>"

definition demo_capturer :: dx_capturer where
  "demo_capturer = \<lparr>dc_display = demo_display, dc_gdi = True, dc_duplication = False, dc_width = 1, dc_height = 1,
     dc_gdi_buffer = [], dc_saved = [], dc_rotated = [], dc_output_texture = False\<rparr>"

lemma demo_dx_new: "dx_new demo_setup demo_display = Inr demo_capturer"
  by (simp add: dx_new_def demo_setup_def demo_display_def demo_capturer_def wrap_hresult_def dd_width_def dd_height_def)

theorem kept_fallback_is_safe_witness:
  "dx_run [Dx_frame demo_world, Dx_set_gdi True, Dx_frame demo_world] demo_capturer"
  by (rule kept_fallback_is_safe [OF demo_dx_new]) (simp_all add: demo_display_def dd_height_def keeps_gdi_def)

text \<open>Giving up the fallback makes the next capture use the duplication that was never made.\<close>

lemma cancelled_fallback_crashes: "\<not> dx_run [Dx_frame demo_world, Dx_cancel_gdi, Dx_frame demo_world] demo_capturer"
  by (simp add: windows_frame_def dx_frame_def get_pixelbuffer_def demo_capturer_def demo_world_def would_block_if_equal_def
      pixel_buffer_new_def dx_cancel_gdi_def)

subsection \<open>X11\<close>

lemma x11_collect_inner: "x11_collect (Some ds, outer) = ds @ x11_collect (next_screen outer)"
proof (induction ds)
  case Nil
  have "x11_next (Some [], outer) = x11_next (next_screen outer)" by (simp add: x11_next.simps [of "Some []"])
  then show ?case by (simp add: x11_collect.simps [of "(Some [], outer)"] x11_collect.simps [of "next_screen outer"])
next
  case (Cons d ds)
  have "x11_next (Some (d # ds), outer) = (Some d, (Some ds, outer))" by (simp add: x11_next.simps [of "Some (d # ds)"])
  then show ?case using Cons by (simp add: x11_collect.simps [of "(Some (d # ds), outer)"])
qed

text \<open>The iterator goes through the monitors of all screens, also after one without monitors.\<close>

lemma x11_displays_concat: "x11_displays screens = concat screens"
proof (induction screens)
  case Nil
  then show ?case by (simp add: x11_displays_def next_screen_def x11_collect.simps [of "(None, [])"] x11_next.simps [of None])
next
  case (Cons s ss)
  then show ?case by (simp add: x11_displays_def next_screen_def [of "s # ss"] x11_collect_inner)
qed

end
