(* ===== verification/Portal.thy ===== *)
theory Portal
  imports Prelude
begin

text \<open>
  The screen-cast session of \<^verbatim>\<open>wayland/pipewire.rs\<close>: reading the streams out of a response, the
  exchange with the desktop portal that \<^verbatim>\<open>request_remote_desktop\<close> drives, and the session that
  \<^verbatim>\<open>get_capturables\<close> keeps. D-Bus values are accessed through the record \<open>ref_arg\<close>, the interface of
  the crate \<^verbatim>\<open>dbus\<close>; the portal's responses and the results of calls are events.
\<close>

subsection \<open>Streams of a response\<close>

record 'a ref_arg =
  as_iter :: "'a \<Rightarrow> 'a list option"
  as_u64 :: "'a \<Rightarrow> u64 option"
  as_i64 :: "'a \<Rightarrow> i64 option"
  as_str :: "'a \<Rightarrow> string option"

record pw_stream =
  ps_path :: u64
  ps_source_type :: u64
  ps_position :: "i32 \<times> i32"
  ps_size :: "usize \<times> usize"

text \<open>The pairs of a dictionary come as a flat sequence: keys at even places, values at odd ones. Keys
  that are not strings are dropped before the two are put together.\<close>

fun evens :: "'a list \<Rightarrow> 'a list" where
  "evens [] = []" | "evens [x] = [x]" | "evens (x # _ # xs) = x # evens xs"

fun odds :: "'a list \<Rightarrow> 'a list" where
  "odds [] = []" | "odds [x] = []" | "odds (_ # y # xs) = y # odds xs"

definition attributes :: "'a ref_arg \<Rightarrow> 'a list \<Rightarrow> (string \<times> 'a) list" where
  "attributes R xs = zip (List.map_filter (as_str R) (evens xs)) (odds xs)"

text \<open>Collecting into a map keeps the last value of a key.\<close>

definition attribute :: "'a ref_arg \<Rightarrow> 'a list \<Rightarrow> string \<Rightarrow> 'a option" where
  "attribute R xs k = map_of (rev (attributes R xs)) k"

text \<open>The first element that is a sequence, with its numbers.\<close>

definition first_numbers :: "'a ref_arg \<Rightarrow> 'a list \<Rightarrow> i64 list option" where
  "first_numbers R xs =
     (case List.map_filter (as_iter R) xs of
        [] \<Rightarrow> None
      | ys # _ \<Rightarrow> Some (map (\<lambda>x. case as_i64 R x of Some n \<Rightarrow> n | None \<Rightarrow> 0) ys))"

definition two_numbers :: "'a ref_arg \<Rightarrow> 'a list \<Rightarrow> (i64 \<times> i64) \<Rightarrow> i64 \<times> i64" where
  "two_numbers R xs d =
     (case first_numbers R xs of Some [x, y] \<Rightarrow> (x, y) | _ \<Rightarrow> d)"

text \<open>\<^verbatim>\<open>as\<close> casts: 64 bits to \<^verbatim>\<open>usize\<close> keeps them, to \<^verbatim>\<open>i32\<close> cuts them off.\<close>

definition stream_info :: "'a ref_arg \<Rightarrow> 'a \<Rightarrow> pw_stream option" where
  "stream_info R stream =
     (case as_iter R stream of
        Some (p # d # _) \<Rightarrow>
          (case as_u64 R p of
             None \<Rightarrow> None
           | Some path \<Rightarrow>
               (case as_iter R d of
                  None \<Rightarrow> None
                | Some flat \<Rightarrow>
                    (case (case attribute R flat ''source_type'' of None \<Rightarrow> Some 0 | Some v \<Rightarrow> as_u64 R v) of
                       None \<Rightarrow> None
                     | Some st \<Rightarrow>
                         (case Option.bind (attribute R flat ''size'') (as_iter R) of
                            None \<Rightarrow> None
                          | Some sizes \<Rightarrow>
                              (let size = two_numbers R sizes (0, 0);
                                   info = (\<lambda>pos. \<lparr>ps_path = path, ps_source_type = st,
                                     ps_position = (ucast (fst pos), ucast (snd pos)), ps_size = size\<rparr>)
                               in case attribute R flat ''position'' of
                                    None \<Rightarrow> Some (info (0, 0))
                                  | Some pos \<Rightarrow> map_option (\<lambda>ps. info (two_numbers R ps (0, 0))) (as_iter R pos))))))
      | _ \<Rightarrow> None)"

definition streams_from_response :: "'a ref_arg \<Rightarrow> (string \<Rightarrow> 'a option) \<Rightarrow> pw_stream list" where
  "streams_from_response R results =
     (case Option.bind (results ''streams'') (as_iter R) of
        Some (s # _) \<Rightarrow> (case as_iter R s of Some ss \<Rightarrow> List.map_filter (stream_info R) ss | None \<Rightarrow> [])
      | _ \<Rightarrow> [])"

subsection \<open>The exchange with the portal\<close>

datatype stage = Create_session | Select_devices | Select_sources | Start_session

text \<open>A response signal: its stage, code and results, whether the service process runs then, whether
  the call that its handler makes succeeds and can be watched, and whether the remote can be opened.\<close>

record 'a portal_event =
  ev_stage :: stage
  ev_code :: nat
  ev_results :: "string \<Rightarrow> 'a option"
  ev_server :: bool
  ev_call_ok :: bool
  ev_remote :: "nat option"

datatype portal_call =
  Call_create bool | Call_select_sources "string option" bool | Call_select_devices | Call_start bool | Call_open_remote

record portal_state =
  po_watched :: "stage list"
  po_session :: "string option"
  po_streams :: "pw_stream list"
  po_fd :: "nat option"
  po_failure :: bool
  po_token :: string
  po_calls :: "portal_call list"

definition RESTORE_TOKEN :: string where "RESTORE_TOKEN = ''restore_token''"

text \<open>A handler's call of the portal, and the watch for the response to it.\<close>

definition call_portal :: "portal_call \<Rightarrow> stage \<Rightarrow> bool \<Rightarrow> portal_state \<Rightarrow> bool \<times> portal_state" where
  "call_portal c next_stage ok s =
     (let s1 = s\<lparr>po_calls := po_calls s @ [c]\<rparr>
      in if ok then (True, s1\<lparr>po_watched := next_stage # po_watched s1\<rparr>) else (False, s1))"

definition on_create_session_response :: "'a ref_arg \<Rightarrow> bool \<Rightarrow> 'a portal_event \<Rightarrow> portal_state \<Rightarrow> bool \<times> portal_state" where
  "on_create_session_response R restore ev s =
     (case Option.bind (ev_results ev ''session_handle'') (as_str R) of
        None \<Rightarrow> (False, s)
      | Some ses \<Rightarrow>
          (let s1 = s\<lparr>po_session := Some ses\<rparr>
           in if ev_server ev
              then call_portal (Call_select_sources (if restore \<and> po_token s1 \<noteq> '''' then Some (po_token s1) else None) restore)
                     Select_sources (ev_call_ok ev) s1
              else call_portal Call_select_devices Select_devices (ev_call_ok ev) s1))"

definition on_select_devices_response :: "'a portal_event \<Rightarrow> portal_state \<Rightarrow> bool \<times> portal_state" where
  "on_select_devices_response ev s = call_portal (Call_select_sources None False) Select_sources (ev_call_ok ev) s"

definition on_select_sources_response :: "'a portal_event \<Rightarrow> portal_state \<Rightarrow> bool \<times> portal_state" where
  "on_select_sources_response ev s = call_portal (Call_start (ev_server ev)) Start_session (ev_call_ok ev) s"

definition on_start_response :: "'a ref_arg \<Rightarrow> bool \<Rightarrow> 'a portal_event \<Rightarrow> portal_state \<Rightarrow> bool \<times> portal_state" where
  "on_start_response R restore ev s =
     (let token = (if ev_server ev \<and> restore then Option.bind (ev_results ev RESTORE_TOKEN) (as_str R) else None);
          s1 = (case token of Some t \<Rightarrow> s\<lparr>po_token := t\<rparr> | None \<Rightarrow> s);
          s2 = s1\<lparr>po_streams := po_streams s1 @ streams_from_response R (ev_results ev), po_calls := po_calls s1 @ [Call_open_remote]\<rparr>
      in case ev_remote ev of
           None \<Rightarrow> (False, s2)
         | Some fd \<Rightarrow> (True, s2\<lparr>po_fd := Some fd\<rparr>))"

text \<open>\<^verbatim>\<open>handle_response\<close>: a code other than 0, or an error of the handler, is a failure. Signals that
  nothing watches for are ignored.\<close>

definition handle_response :: "'a ref_arg \<Rightarrow> bool \<Rightarrow> 'a portal_event \<Rightarrow> portal_state \<Rightarrow> portal_state" where
  "handle_response R restore ev s =
     (if ev_stage ev \<notin> set (po_watched s) then s
      else if ev_code ev \<noteq> 0 then s\<lparr>po_failure := True\<rparr>
      else
        (let (ok, s1) = (case ev_stage ev of
             Create_session \<Rightarrow> on_create_session_response R restore ev s
           | Select_devices \<Rightarrow> on_select_devices_response ev s
           | Select_sources \<Rightarrow> on_select_sources_response ev s
           | Start_session \<Rightarrow> on_start_response R restore ev s)
         in if ok then s1 else s1\<lparr>po_failure := True\<rparr>))"

text \<open>The waiting loop: each pass of at most 100 milliseconds brings nothing, a signal, or an error of
  the connection.\<close>

datatype 'a pass = Pass_nothing | Pass_signal "'a portal_event" | Pass_error

fun wait_portal :: "'a ref_arg \<Rightarrow> bool \<Rightarrow> 'a pass list \<Rightarrow> portal_state \<Rightarrow> bool \<times> portal_state" where
  "wait_portal R restore [] s = (True, s)"
| "wait_portal R restore (p # ps) s =
     (case p of
        Pass_error \<Rightarrow> (False, s)
      | _ \<Rightarrow>
          (let s1 = (case p of Pass_signal ev \<Rightarrow> handle_response R restore ev s | _ \<Rightarrow> s)
           in if po_fd s1 \<noteq> None \<or> po_failure s1 then (True, s1) else wait_portal R restore ps s1))"

record rdp_session =
  rs_fd :: nat
  rs_streams :: "pw_stream list"
  rs_session :: string
  rs_restore :: bool
  rs_resolution :: "(usize \<times> usize) option"

text \<open>\<open>version\<close> is the answer of the portal; the stored token and the first call's result are given.\<close>

definition request_remote_desktop ::
    "'a ref_arg \<Rightarrow> nat option \<Rightarrow> bool \<Rightarrow> bool \<Rightarrow> string \<Rightarrow> 'a pass list \<Rightarrow> rdp_session option \<times> portal_state" where
  "request_remote_desktop R version server create_ok token passes =
     (let restore = (case version of Some v \<Rightarrow> 4 \<le> v | None \<Rightarrow> False);
          s0 = \<lparr>po_watched = [], po_session = None, po_streams = [], po_fd = None, po_failure = False, po_token = token,
                po_calls = [Call_create server]\<rparr>
      in if \<not> create_ok then (None, s0)
         else case wait_portal R restore (take 1800 passes) (s0\<lparr>po_watched := [Create_session]\<rparr>) of
           (False, s) \<Rightarrow> (None, s)
         | (True, s) \<Rightarrow>
             (case (po_fd s, po_session s) of
                (Some fd, Some ses) \<Rightarrow>
                  (if po_streams s = [] then None
                   else Some \<lparr>rs_fd = fd, rs_streams = po_streams s, rs_session = ses, rs_restore = restore, rs_resolution = None\<rparr>, s)
              | _ \<Rightarrow> (None, s)))"

subsection \<open>The session that is held\<close>

text \<open>\<open>res\<close> is the resolution a test recording finds, if any.\<close>

record capturable =
  ca_path :: u64
  ca_source_type :: u64
  ca_position :: "i32 \<times> i32"
  ca_size :: "usize \<times> usize"

definition capturable_new :: "(pw_stream \<Rightarrow> (usize \<times> usize) option) \<Rightarrow> pw_stream \<Rightarrow> capturable" where
  "capturable_new res st =
     \<lparr>ca_path = ps_path st, ca_source_type = ps_source_type st, ca_position = ps_position st,
      ca_size = (case res st of Some sz \<Rightarrow> sz | None \<Rightarrow> ps_size st)\<rparr>"

definition get_capturables ::
    "(pw_stream \<Rightarrow> (usize \<times> usize) option) \<Rightarrow> rdp_session option \<Rightarrow> rdp_session option \<Rightarrow> capturable list option \<times> rdp_session option" where
  "get_capturables res request held =
     (case (case held of Some r \<Rightarrow> Some r | None \<Rightarrow> request) of
        None \<Rightarrow> (None, None)
      | Some r \<Rightarrow>
          (let cs = map (capturable_new res) (rs_streams r)
           in (Some cs, Some (r\<lparr>rs_resolution := (if cs = [] then rs_resolution r else Some (ca_size (last cs)))\<rparr>))))"

definition close_session :: "rdp_session option \<Rightarrow> rdp_session option" where "close_session r = None"

definition is_rdp_session_hold :: "rdp_session option \<Rightarrow> bool" where "is_rdp_session_hold r \<longleftrightarrow> r \<noteq> None"

definition try_close_session :: "bool \<Rightarrow> rdp_session option \<Rightarrow> rdp_session option" where
  "try_close_session server r =
     (case r of Some x \<Rightarrow> if server \<and> rs_restore x then None else r | None \<Rightarrow> None)"

end
