(* ===== verification/PortalProps.thy ===== *)
theory PortalProps
  imports Portal "HOL-Library.Sublist"
begin

text \<open>
  A screen-cast session only comes about through all the steps of the portal, in order and each of
  them granted; the session that is held is asked for once.
\<close>

subsection \<open>The order of the grants\<close>

text \<open>The responses with code 0, each as its stage; of the creation of a session it also matters whether
  the service process runs then, because without it the devices are asked for first.\<close>

definition step_of :: "'a portal_event \<Rightarrow> stage \<times> bool" where
  "step_of ev = (ev_stage ev, ev_stage ev = Create_session \<and> ev_server ev)"

definition granted :: "'a pass list \<Rightarrow> (stage \<times> bool) list" where
  "granted ps = List.map_filter (\<lambda>p. case p of Pass_signal ev \<Rightarrow> if ev_code ev = 0 then Some (step_of ev) else None | _ \<Rightarrow> None) ps"

text \<open>The two ways to the selection of sources, and what must have been granted, in order, before a
  response of a stage is waited for.\<close>

definition sources_asked :: "(stage \<times> bool) list \<Rightarrow> bool" where
  "sources_asked g \<longleftrightarrow> subseq [(Create_session, True)] g \<or>
     subseq [(Create_session, False), (Select_devices, False)] g"

definition sources_granted :: "(stage \<times> bool) list \<Rightarrow> bool" where
  "sources_granted g \<longleftrightarrow> subseq [(Create_session, True), (Select_sources, False)] g \<or>
     subseq [(Create_session, False), (Select_devices, False), (Select_sources, False)] g"

definition asked :: "stage \<Rightarrow> (stage \<times> bool) list \<Rightarrow> bool" where
  "asked st g = (case st of
     Create_session \<Rightarrow> True
   | Select_devices \<Rightarrow> subseq [(Create_session, False)] g
   | Select_sources \<Rightarrow> sources_asked g
   | Start_session \<Rightarrow> sources_granted g)"

lemma granted_append: "granted (ps @ qs) = granted ps @ granted qs"
  by (simp add: granted_def map_filter_def)

lemma granted_signal: "ev_code ev = 0 \<Longrightarrow> granted [Pass_signal ev] = [step_of ev]"
  by (simp add: granted_def map_filter_def)

definition portal_inv :: "'a pass list \<Rightarrow> portal_state \<Rightarrow> bool" where
  "portal_inv ps s \<longleftrightarrow> po_fd s = None \<and> (\<forall>st \<in> set (po_watched s). asked st (granted ps))"

definition start_grant :: "'a pass list \<Rightarrow> 'a portal_event \<Rightarrow> nat \<Rightarrow> bool" where
  "start_grant ps ev fd \<longleftrightarrow> ev_stage ev = Start_session \<and> ev_code ev = 0 \<and> ev_remote ev = Some fd \<and>
     sources_granted (granted ps)"

lemma subseq_more: "subseq xs ys \<Longrightarrow> subseq xs (ys @ zs)"
  by (rule list_emb_prefix)

lemma subseq_next: "subseq xs ys \<Longrightarrow> subseq (xs @ [z]) (ys @ [z])"
  by (intro list_emb_append_mono) auto

lemma asked_more: "asked st g \<Longrightarrow> asked st (g @ h)"
  by (cases st) (auto simp: asked_def sources_asked_def sources_granted_def subseq_more)

text \<open>A grant that was waited for allows to ask for what comes next.\<close>

lemma asked_next:
  "st = Create_session \<Longrightarrow> asked (if srv then Select_sources else Select_devices) (g @ [(Create_session, srv)])"
  "asked Select_devices g \<Longrightarrow> asked Select_sources (g @ [(Select_devices, False)])"
  "asked Select_sources g \<Longrightarrow> asked Start_session (g @ [(Select_sources, False)])"
  using subseq_next [of "[]" g] subseq_next [of "[(Create_session, False)]" g]
    subseq_next [of "[(Create_session, True)]" g] subseq_next [of "[(Create_session, False), (Select_devices, False)]" g]
  by (auto simp: asked_def sources_asked_def sources_granted_def)

lemma portal_inv_more: "portal_inv ps s \<Longrightarrow> portal_inv (ps @ qs) s"
  by (auto simp: portal_inv_def granted_append asked_more)

lemma portal_inv_failure: "portal_inv ps s \<Longrightarrow> portal_inv ps (s\<lparr>po_failure := b\<rparr>)"
  by (simp add: portal_inv_def)

lemma portal_inv_fields:
  "portal_inv ps (s\<lparr>po_session := x\<rparr>) = portal_inv ps s" "portal_inv ps (s\<lparr>po_calls := c\<rparr>) = portal_inv ps s"
  by (simp_all add: portal_inv_def)

lemma call_portal_inv:
  assumes "portal_inv ps s" and "call_portal c st ok s = (b, s1)" and "asked st (granted ps)"
  shows "portal_inv ps s1"
  using assms by (auto simp: call_portal_def portal_inv_def Let_def split: if_splits)

lemma on_create_inv:
  assumes "portal_inv ps s" and "asked (if ev_server ev then Select_sources else Select_devices) (granted ps)"
    and "on_create_session_response R restore ev s = (b, s1)"
  shows "portal_inv ps s1"
proof (cases "Option.bind (ev_results ev ''session_handle'') (as_str R)")
  case None
  then show ?thesis using assms by (simp add: on_create_session_response_def)
next
  case (Some ses)
  have i: "portal_inv ps (s\<lparr>po_session := Some ses\<rparr>)" using assms(1) by (simp add: portal_inv_fields)
  show ?thesis using Some assms(2,3)
    by (auto simp: on_create_session_response_def Let_def intro: call_portal_inv [OF i] split: if_splits)
qed

lemma handle_response_inv:
  assumes "portal_inv ps s" and "handle_response R restore ev s = s1"
  shows "portal_inv (ps @ [Pass_signal ev]) s1 \<or> (\<exists>fd. po_fd s1 = Some fd \<and> start_grant ps ev fd)"
proof (cases "ev_stage ev \<in> set (po_watched s) \<and> ev_code ev = 0")
  case False
  then have "s1 = s \<or> s1 = s\<lparr>po_failure := True\<rparr>" using assms(2) by (auto simp: handle_response_def split: if_splits)
  then show ?thesis using portal_inv_more [OF assms(1)] portal_inv_failure by auto
next
  case True
  let ?ps = "ps @ [Pass_signal ev]"
  have i: "portal_inv ?ps s" using portal_inv_more [OF assms(1)] .
  have g: "granted ?ps = granted ps @ [step_of ev]" using True by (simp add: granted_append granted_signal)
  have old: "asked (ev_stage ev) (granted ps)" using assms(1) True by (auto simp: portal_inv_def)
  show ?thesis
  proof (cases "ev_stage ev")
    case Create_session
    obtain b s2 where c: "on_create_session_response R restore ev s = (b, s2)" by fastforce
    have "asked (if ev_server ev then Select_sources else Select_devices) (granted ?ps)"
      using asked_next(1) [OF Create_session, of "ev_server ev"] g Create_session by (simp add: step_of_def)
    then have "portal_inv ?ps s2" using on_create_inv [OF i _ c] by simp
    then show ?thesis using assms(2) True Create_session c portal_inv_failure by (auto simp: handle_response_def)
  next
    case Select_devices
    obtain b s2 where c: "on_select_devices_response ev s = (b, s2)" by fastforce
    have "asked Select_sources (granted ?ps)" using asked_next(2) old g Select_devices by (simp add: step_of_def)
    then have "portal_inv ?ps s2" using call_portal_inv [OF i c [unfolded on_select_devices_response_def]] by simp
    then show ?thesis using assms(2) True Select_devices c portal_inv_failure by (auto simp: handle_response_def)
  next
    case Select_sources
    obtain b s2 where c: "on_select_sources_response ev s = (b, s2)" by fastforce
    have "asked Start_session (granted ?ps)" using asked_next(3) old g Select_sources by (simp add: step_of_def)
    then have "portal_inv ?ps s2" using call_portal_inv [OF i c [unfolded on_select_sources_response_def]] by simp
    then show ?thesis using assms(2) True Select_sources c portal_inv_failure by (auto simp: handle_response_def)
  next
    case Start_session
    have grant: "sources_granted (granted ps)" using old Start_session by (simp add: asked_def)
    obtain b s2 where c: "on_start_response R restore ev s = (b, s2)" by fastforce
    show ?thesis
    proof (cases "ev_remote ev")
      case None
      then have "portal_inv ?ps s2" using c i by (auto simp: on_start_response_def portal_inv_def Let_def split: option.splits)
      then show ?thesis using assms(2) True Start_session c portal_inv_failure by (auto simp: handle_response_def)
    next
      case (Some fd)
      then have "b \<and> po_fd s2 = Some fd" using c by (auto simp: on_start_response_def Let_def)
      then show ?thesis using assms(2) True Start_session c Some grant by (auto simp: handle_response_def start_grant_def)
    qed
  qed
qed

lemma wait_portal_grants:
  assumes "portal_inv earlier s" and "wait_portal R restore ps s = (ok, s1)" and "po_fd s1 = Some fd"
  shows "\<exists>pre ev. prefix (pre @ [Pass_signal ev]) ps \<and> start_grant (earlier @ pre) ev fd"
  using assms
proof (induction ps arbitrary: earlier s)
  case Nil
  then show ?case by (simp add: portal_inv_def)
next
  case (Cons p ps)
  show ?case
  proof (cases p)
    case Pass_nothing
    have "po_fd s = None" using Cons.prems(1) by (simp add: portal_inv_def)
    then have "\<not> po_failure s"
      using Cons.prems(2,3) Pass_nothing by (auto simp: Let_def split: if_splits)
    then obtain pre ev where "prefix (pre @ [Pass_signal ev]) ps" "start_grant ((earlier @ [p]) @ pre) ev fd"
      using Cons.IH [OF portal_inv_more [OF Cons.prems(1), of "[p]"]] Cons.prems(2,3) Pass_nothing \<open>po_fd s = None\<close>
      by (auto simp: Let_def)
    then show ?thesis by (intro exI [of _ "p # pre"] exI [of _ ev]) simp
  next
    case Pass_error
    then show ?thesis using Cons.prems by (auto simp: portal_inv_def)
  next
    case (Pass_signal ev)
    let ?s = "handle_response R restore ev s"
    consider "portal_inv (earlier @ [p]) ?s" | fd' where "po_fd ?s = Some fd'" "start_grant earlier ev fd'"
      using handle_response_inv [OF Cons.prems(1) refl, where R = R and restore = restore and ev = ev] Pass_signal by blast
    then show ?thesis
    proof cases
      case 1
      then have "po_fd ?s = None" by (simp add: portal_inv_def)
      then have "\<not> po_failure ?s" using Cons.prems(2,3) Pass_signal by (auto simp: Let_def split: if_splits)
      then obtain pre ev' where "prefix (pre @ [Pass_signal ev']) ps" "start_grant ((earlier @ [p]) @ pre) ev' fd"
        using Cons.IH [OF 1] Cons.prems(2,3) Pass_signal \<open>po_fd ?s = None\<close> by (auto simp: Let_def)
      then show ?thesis by (intro exI [of _ "p # pre"] exI [of _ ev']) simp
    next
      case 2
      then have "fd' = fd" using Cons.prems(2,3) Pass_signal by (auto simp: Let_def)
      then show ?thesis using 2 Pass_signal by (intro exI [of _ "[]"] exI [of _ ev]) simp
    qed
  qed
qed

text \<open>C22. The screen is shared only with the user's consent: a session is only obtained when, within the
  1800 passes of waiting, the portal granted every step in its order, whatever other signals come,
  refusals and repetitions included. The steps are the creation, the selection of devices unless the
  service process ran when the creation was answered, the selection of sources, and the start; the remote that the
  last of them opened is the one of the session, and there is a stream.\<close>

theorem session_needs_every_grant:
  "case fst (request_remote_desktop R version server create_ok token passes) of
     None \<Rightarrow> True
   | Some r \<Rightarrow> \<exists>pre ev. prefix (pre @ [Pass_signal ev]) (take 1800 passes) \<and>
       (subseq [(Create_session, True), (Select_sources, False)] (granted pre) \<or>
        subseq [(Create_session, False), (Select_devices, False), (Select_sources, False)] (granted pre)) \<and>
       ev_stage ev = Start_session \<and> ev_code ev = 0 \<and> ev_remote ev = Some (rs_fd r) \<and> rs_streams r \<noteq> []"
proof (cases "fst (request_remote_desktop R version server create_ok token passes)")
  case (Some r)
  define s0 where "s0 = \<lparr>po_watched = [Create_session], po_session = None, po_streams = [], po_fd = None, po_failure = False,
      po_token = token, po_calls = [Call_create server]\<rparr>"
  define restore where "restore = (case version of Some v \<Rightarrow> 4 \<le> v | None \<Rightarrow> False)"
  obtain ok s where w: "wait_portal R restore (take 1800 passes) s0 = (ok, s)" by fastforce
  have r: "po_fd s = Some (rs_fd r)" "po_streams s = rs_streams r" "rs_streams r \<noteq> []"
    using Some w unfolding request_remote_desktop_def s0_def restore_def [symmetric]
    by (auto simp: Let_def split: if_splits bool.splits option.splits)
  have "portal_inv [] s0" by (simp add: portal_inv_def s0_def asked_def)
  from wait_portal_grants [OF this w r(1)] show ?thesis
    using Some r(3) by (auto simp: start_grant_def sources_granted_def)
qed simp

subsection \<open>The held session\<close>

text \<open>A session that is held is not asked for again.\<close>

lemma held_session_reused: "get_capturables res request (Some r) = get_capturables res request' (Some r)"
  by (simp add: get_capturables_def)

text \<open>A run of all steps, with values that are texts, numbers and sequences.\<close>

datatype demo_arg = D_text string | D_num u64 | D_seq "demo_arg list"

definition demo_ref :: "demo_arg ref_arg" where
  "demo_ref = \<lparr>as_iter = (\<lambda>x. case x of D_seq xs \<Rightarrow> Some xs | _ \<Rightarrow> None), as_u64 = (\<lambda>x. case x of D_num n \<Rightarrow> Some n | _ \<Rightarrow> None),
     as_i64 = (\<lambda>x. case x of D_num n \<Rightarrow> Some n | _ \<Rightarrow> None), as_str = (\<lambda>x. case x of D_text t \<Rightarrow> Some t | _ \<Rightarrow> None)\<rparr>"

definition demo_event :: "stage \<Rightarrow> (string \<Rightarrow> demo_arg option) \<Rightarrow> demo_arg pass" where
  "demo_event st results = Pass_signal \<lparr>ev_stage = st, ev_code = 0, ev_results = results, ev_server = True, ev_call_ok = True, ev_remote = Some 5\<rparr>"

definition demo_passes :: "demo_arg pass list" where
  "demo_passes = [demo_event Create_session [''session_handle'' \<mapsto> D_text ''s''], Pass_nothing,
     demo_event Select_sources (\<lambda>_. None),
     demo_event Start_session [''streams'' \<mapsto> D_seq [D_seq [D_seq [D_num 42,
       D_seq [D_text ''size'', D_seq [D_seq [D_num 800, D_num 600]]]]]]]]"

lemma demo_session:
  "map_option (\<lambda>r. (rs_fd r, map ps_path (rs_streams r), map ps_size (rs_streams r)))
     (fst (request_remote_desktop demo_ref (Some 4) True True '''' demo_passes)) = Some (5, [42], [(800, 600)])"
  by (simp add: request_remote_desktop_def demo_passes_def demo_event_def handle_response_def on_create_session_response_def
      on_select_sources_response_def on_start_response_def call_portal_def demo_ref_def streams_from_response_def stream_info_def
      attribute_def attributes_def two_numbers_def first_numbers_def map_filter_def RESTORE_TOKEN_def)

text \<open>A stream without a size is passed over; if it is the only one, there is no session.\<close>

lemma stream_without_size: "stream_info demo_ref (D_seq [D_num 42, D_seq [D_text ''source_type'', D_num 1]]) = None"
  by (simp add: stream_info_def demo_ref_def attribute_def attributes_def map_filter_def)

end
