(* ===== verification/LinuxSession.thy ===== *)
theory LinuxSession
  imports VideoCodec Sockets Hosts
begin

text \<open>
  The helpers of \<^verbatim>\<open>libs/hbb_common/src/platform/linux.rs\<close>: which display server and which session
  the machine has, found by calling \<^verbatim>\<open>loginctl\<close> and reading its lines. The environment and the
  output of commands are arguments; output is ASCII text.
\<close>

subsection \<open>Text\<close>

text \<open>\<^verbatim>\<open>str::lines\<close>: pieces between line feeds, without a last empty one, and without a carriage return
  at their end.\<close>

definition drop_cr :: "string \<Rightarrow> string" where
  "drop_cr l = (if l \<noteq> [] \<and> last l = char_of (13 :: nat) then butlast l else l)"

definition str_lines :: "string \<Rightarrow> string list" where
  "str_lines s =
     (let ps = split_char (char_of (10 :: nat)) s
      in map drop_cr (if last ps = [] then butlast ps else ps))"

definition split_whitespace :: "string \<Rightarrow> string list" where
  "split_whitespace s = filter (\<lambda>w. w \<noteq> []) (split_char CHR '' '' (map (\<lambda>c. if is_space c then CHR '' '' else c) s))"

definition trim_end :: "(char \<Rightarrow> bool) \<Rightarrow> string \<Rightarrow> string" where
  "trim_end P s = rev (dropWhile P (rev s))"

definition trim_both :: "(char \<Rightarrow> bool) \<Rightarrow> string \<Rightarrow> string" where
  "trim_both P s = trim_end P (dropWhile P s)"

text \<open>\<^verbatim>\<open>words.nth(i).unwrap_or("")\<close>.\<close>

definition word_at :: "string \<Rightarrow> nat \<Rightarrow> string" where
  "word_at line i = (let ws = split_whitespace line in if i < length ws then ws ! i else '''')"

subsection \<open>Commands\<close>

text \<open>\<open>le_var\<close> is \<^verbatim>\<open>std::env::var\<close>; \<open>le_spawn\<close> runs a program with its arguments and gives what it
  writes, or \<open>None\<close> if it cannot be started. The exit status is never looked at.\<close>

record linux_env =
  le_var :: "string \<Rightarrow> string option"
  le_spawn :: "string \<Rightarrow> string list \<Rightarrow> string option"

definition run_cmds :: "linux_env \<Rightarrow> string \<Rightarrow> string option" where
  "run_cmds e cmds = le_spawn e ''sh'' [''-c'', cmds]"

definition run_cmds_trim_newline :: "linux_env \<Rightarrow> string \<Rightarrow> string option" where
  "run_cmds_trim_newline e cmds =
     map_option (\<lambda>out. if out \<noteq> [] \<and> last out = char_of (10 :: nat) then butlast out else out)
       (le_spawn e ''sh'' [''-c'', cmds])"

definition run_loginctl :: "linux_env \<Rightarrow> string list option \<Rightarrow> string option" where
  "run_loginctl e args =
     (let direct = le_spawn e ''loginctl'' (case args of Some a \<Rightarrow> a | None \<Rightarrow> [])
      in if le_var e ''FLATPAK_ID'' \<noteq> None
         then
           (let l_args = (case args of Some a \<Rightarrow> ''loginctl '' @ join_with '' '' a | None \<Rightarrow> ''loginctl'')
            in case le_spawn e ''flatpak-spawn'' [''--host'', l_args] of
                 Some out \<Rightarrow> Some out
               | None \<Rightarrow> direct)
         else direct)"

record distro =
  distro_name :: string
  distro_version_id :: string

definition trimmed :: "string option \<Rightarrow> string" where
  "trimmed out = trim_both (\<lambda>c. c = CHR 0x22) (trim_both is_space (case out of Some s \<Rightarrow> s | None \<Rightarrow> ''''))"

definition distro_new :: "linux_env \<Rightarrow> distro" where
  "distro_new e =
     (let awk = (\<lambda>f. ''awk -F'' @ [CHR 0x27] @ ''='' @ [CHR 0x27] @ '' '' @ [CHR 0x27] @ ''/^'' @ f
                   @ ''=/ {print $2}'' @ [CHR 0x27] @ '' /etc/os-release'')
      in \<lparr>distro_name = trimmed (run_cmds e (awk ''NAME'')),
          distro_version_id = trimmed (run_cmds e (awk ''VERSION_ID''))\<rparr>)"

subsection \<open>Sessions\<close>

definition is_kde :: "linux_env \<Rightarrow> bool" where
  "is_kde e = (case le_var e ''XDG_CURRENT_DESKTOP'' of Some env \<Rightarrow> env = ''KDE'' | None \<Rightarrow> False)"

definition is_gdm_user :: "string \<Rightarrow> bool" where "is_gdm_user u \<longleftrightarrow> u = ''gdm''"

definition is_active :: "linux_env \<Rightarrow> string \<Rightarrow> bool" where
  "is_active e sid =
     (case run_loginctl e (Some [''show-session'', ''-p'', ''State'', sid]) of
        Some out \<Rightarrow> contains out ''active''
      | None \<Rightarrow> False)"

definition is_active_and_seat0 :: "linux_env \<Rightarrow> string \<Rightarrow> bool" where
  "is_active_and_seat0 e sid =
     (case run_loginctl e (Some [''show-session'', sid]) of
        Some out \<Rightarrow> contains out ''State=active'' \<and> contains out ''Seat=seat0''
      | None \<Rightarrow> False)"

definition get_display_server_of_session :: "linux_env \<Rightarrow> string \<Rightarrow> string" where
  "get_display_server_of_session e session =
     (let ds = (case run_loginctl e (Some [''show-session'', ''-p'', ''Type'', session]) of
                  Some out \<Rightarrow> trim_end is_space (replace_str out ''Type='' '''')
                | None \<Rightarrow> '''')
      in if ds = '''' \<or> ds = ''tty''
         then (case le_var e ''XDG_SESSION_TYPE'' of
                 Some t \<Rightarrow> if t \<noteq> '''' then to_lower t else to_lower ''x11''
               | None \<Rightarrow> to_lower ''x11'')
         else to_lower ds)"

definition line_values :: "nat list \<Rightarrow> string \<Rightarrow> string list" where
  "line_values indices line = map (word_at line) indices"

definition ignore_loginctl_line :: "string \<Rightarrow> bool" where
  "ignore_loginctl_line line \<longleftrightarrow> contains line ''sessions'' \<or> length (split_char CHR '' '' line) < 4"

text \<open>The two loops over the lines; \<open>None\<close> when one ends without a return.\<close>

fun seat0_loop :: "linux_env \<Rightarrow> bool \<Rightarrow> nat list \<Rightarrow> string list \<Rightarrow> string list option" where
  "seat0_loop e ig indices [] = None"
| "seat0_loop e ig indices (line # ls) =
     (if ignore_loginctl_line line then seat0_loop e ig indices ls
      else if contains line ''seat0''
      then (case split_whitespace line of
              [] \<Rightarrow> seat0_loop e ig indices ls
            | sid # _ \<Rightarrow>
                (if is_active e sid
                 then (if ig \<and> is_gdm_user (word_at line 2) \<and> get_display_server_of_session e sid = ''wayland''
                       then seat0_loop e ig indices ls
                       else Some (line_values indices line))
                 else seat0_loop e ig indices ls))
      else seat0_loop e ig indices ls)"

fun any_seat_loop :: "linux_env \<Rightarrow> bool \<Rightarrow> nat list \<Rightarrow> string list \<Rightarrow> string list option" where
  "any_seat_loop e ig indices [] = None"
| "any_seat_loop e ig indices (line # ls) =
     (if ignore_loginctl_line line then any_seat_loop e ig indices ls
      else case split_whitespace line of
             [] \<Rightarrow> any_seat_loop e ig indices ls
           | sid # _ \<Rightarrow>
               (if is_active e sid
                then (let d = get_display_server_of_session e sid
                      in if ig \<and> is_gdm_user (word_at line 2) \<and> d = ''wayland'' then any_seat_loop e ig indices ls
                         else if d = ''tty'' then any_seat_loop e ig indices ls
                         else Some (line_values indices line))
                else any_seat_loop e ig indices ls))"

definition values_of_seat0 :: "linux_env \<Rightarrow> nat list \<Rightarrow> bool \<Rightarrow> string list" where
  "values_of_seat0 e indices ig =
     (case run_loginctl e None of
        None \<Rightarrow> line_values indices ''''
      | Some out \<Rightarrow>
          (case seat0_loop e ig indices (str_lines out) of
             Some vs \<Rightarrow> vs
           | None \<Rightarrow>
               (case any_seat_loop e ig indices (str_lines out) of
                  Some vs \<Rightarrow> vs
                | None \<Rightarrow> line_values indices '''')))"

definition get_values_of_seat0 :: "linux_env \<Rightarrow> nat list \<Rightarrow> string list" where
  "get_values_of_seat0 e indices = values_of_seat0 e indices True"

definition get_values_of_seat0_with_gdm_wayland :: "linux_env \<Rightarrow> nat list \<Rightarrow> string list" where
  "get_values_of_seat0_with_gdm_wayland e indices = values_of_seat0 e indices False"

definition INVALID_SESSION :: string where "INVALID_SESSION = ''4294967295''"

text \<open>The session whose type decides: of seat 0, of the environment, or of the process.\<close>

definition own_session :: "linux_env \<Rightarrow> string" where
  "own_session e =
     (let s0 = get_values_of_seat0 e [0] ! 0
      in if s0 \<noteq> '''' then s0
         else
           (let s1 = (case le_var e ''XDG_SESSION_ID'' of Some sid \<Rightarrow> sid | None \<Rightarrow> s0)
            in if s1 \<noteq> '''' then s1
               else
                 (let s2 = (case run_cmds e ''cat /proc/self/sessionid'' of Some s \<Rightarrow> s | None \<Rightarrow> '''')
                  in if s2 = INVALID_SESSION then '''' else s2)))"

definition get_display_server :: "linux_env \<Rightarrow> string" where
  "get_display_server e =
     (case le_var e ''RUSTDESK_FORCED_DISPLAY_SERVER'' of
        Some forced \<Rightarrow> forced
      | None \<Rightarrow>
          (if run_loginctl e None = None then ''x11''
           else if own_session e = ''''
           then (case le_var e ''XDG_SESSION_TYPE'' of Some t \<Rightarrow> t | None \<Rightarrow> ''x11'')
           else get_display_server_of_session e (own_session e)))"

definition is_desktop_wayland :: "linux_env \<Rightarrow> bool" where
  "is_desktop_wayland e \<longleftrightarrow> get_display_server e = ''wayland''"

definition is_x11_or_headless :: "linux_env \<Rightarrow> bool" where
  "is_x11_or_headless e \<longleftrightarrow> \<not> is_desktop_wayland e"

text \<open>The command of a message box; the table of commands is a hash map, so that the order in which they
  are tried is an argument. The result says whether one could be started.\<close>

definition message_commands :: "string \<Rightarrow> string \<Rightarrow> bool \<Rightarrow> (string \<times> string list) list" where
  "message_commands title msg forever =
     [(''notify-send'', [title, msg]),
      (''zenity'', [''--info'', ''--timeout'', if forever then ''0'' else ''3'', ''--title'', title, ''--text'', msg]),
      (''kdialog'', [''--title'', title, ''--msgbox'', msg]),
      (''xmessage'', [''-center'', ''-timeout'', if forever then ''0'' else ''3'', title, msg])]"

text \<open>The commands that are started, up to the first that can be.\<close>

fun try_commands :: "linux_env \<Rightarrow> (string \<times> string list) list \<Rightarrow> (string \<times> string list) option" where
  "try_commands e [] = None"
| "try_commands e ((k, v) # cs) = (if le_spawn e k v \<noteq> None then Some (k, v) else try_commands e cs)"

definition system_message ::
    "((string \<times> string list) list \<Rightarrow> (string \<times> string list) list) \<Rightarrow> linux_env \<Rightarrow> string \<Rightarrow> string \<Rightarrow> bool
      \<Rightarrow> (string \<times> string list) option" where
  "system_message order e title msg forever = try_commands e (order (message_commands title msg forever))"

end
