(* ===== verification/LinuxProps.thy ===== *)
theory LinuxProps
  imports LinuxSession
begin

text \<open>
  What the helpers for Linux find: the session they choose among the lines of \<^verbatim>\<open>loginctl\<close> as the first
  line with a property, the type of a session, and what a Flatpak sandbox makes of it.
\<close>

subsection \<open>The chosen session\<close>

text \<open>A greeter of GDM that runs on Wayland.\<close>

definition wayland_greeter :: "linux_env \<Rightarrow> string \<Rightarrow> bool" where
  "wayland_greeter e line \<longleftrightarrow>
     is_gdm_user (word_at line 2) \<and> get_display_server_of_session e (word_at line 0) = ''wayland''"

text \<open>A line of an active session, not of the greeter where that is to be ignored.\<close>

definition live_session :: "linux_env \<Rightarrow> bool \<Rightarrow> string \<Rightarrow> bool" where
  "live_session e ig line \<longleftrightarrow>
     \<not> ignore_loginctl_line line \<and> split_whitespace line \<noteq> [] \<and> is_active e (word_at line 0) \<and>
     \<not> (ig \<and> wayland_greeter e line)"

definition on_seat0 :: "string \<Rightarrow> bool" where "on_seat0 line \<longleftrightarrow> contains line ''seat0''"

text \<open>What makes the second loop pass over a line. The type that \<^verbatim>\<open>loginctl\<close> gives for a text session,
  \<^verbatim>\<open>tty\<close>, does not: such a session, and one without a type, counts as what the environment of this process says.\<close>

definition loginctl_type :: "linux_env \<Rightarrow> string \<Rightarrow> string" where
  "loginctl_type e sid =
     (case run_loginctl e (Some [''show-session'', ''-p'', ''Type'', sid]) of
        Some out \<Rightarrow> trim_end is_space (replace_str out ''Type='' '''')
      | None \<Rightarrow> '''')"

definition taken_for_terminal :: "linux_env \<Rightarrow> string \<Rightarrow> bool" where
  "taken_for_terminal e line \<longleftrightarrow>
     (let t = loginctl_type e (word_at line 0)
      in if t = '''' \<or> t = ''tty'' then (\<exists>x. le_var e ''XDG_SESSION_TYPE'' = Some x \<and> to_lower x = ''tty'')
         else to_lower t = ''tty'')"

lemma taken_for_terminal_iff:
  "get_display_server_of_session e (word_at line 0) = ''tty'' \<longleftrightarrow> taken_for_terminal e line"
proof -
  have x11: "to_lower ''x11'' = ''x11''" "to_lower '''' = ''''" by (simp_all add: to_lower_def)
  show ?thesis
    by (cases "le_var e ''XDG_SESSION_TYPE''"; cases "loginctl_type e (word_at line 0) \<in> {'''', ''tty''}")
      (auto simp: get_display_server_of_session_def taken_for_terminal_def loginctl_type_def [symmetric] Let_def x11)
qed

lemma word_at_first: "split_whitespace line = sid # ws \<Longrightarrow> word_at line 0 = sid"
  by (simp add: word_at_def)

lemma seat0_loop_step:
  "seat0_loop e ig indices (line # ls) =
     (if live_session e ig line \<and> on_seat0 line then Some (line_values indices line) else seat0_loop e ig indices ls)"
  by (cases "split_whitespace line") (auto simp: live_session_def on_seat0_def wayland_greeter_def word_at_first)

lemma any_seat_loop_step:
  "any_seat_loop e ig indices (line # ls) =
     (if live_session e ig line \<and> \<not> taken_for_terminal e line then Some (line_values indices line) else any_seat_loop e ig indices ls)"
  by (cases "split_whitespace line") (auto simp: live_session_def taken_for_terminal_iff [symmetric] wayland_greeter_def word_at_first Let_def)

lemma seat0_loop_find:
  "seat0_loop e ig indices ls =
     map_option (line_values indices) (find (\<lambda>l. live_session e ig l \<and> on_seat0 l) ls)"
  by (induction ls) (simp_all add: seat0_loop_step del: seat0_loop.simps(2))

lemma any_seat_loop_find:
  "any_seat_loop e ig indices ls =
     map_option (line_values indices) (find (\<lambda>l. live_session e ig l \<and> \<not> taken_for_terminal e l) ls)"
  by (induction ls) (simp_all add: any_seat_loop_step del: any_seat_loop.simps(2))

text \<open>C23. The session of the seat: it is the first line of an active session of seat 0 that is not a
  Wayland greeter where that is to be ignored, else the first such line on any seat that is not taken
  for a terminal, and a text session is only taken for one if this process's own
  \<^verbatim>\<open>XDG_SESSION_TYPE\<close> is \<^verbatim>\<open>tty\<close>. Without such a line, and when the list of sessions cannot be had, every
  value is empty. The result has a value for every index that is asked for.\<close>

theorem seat_session_is_first_live:
  "values_of_seat0 e indices ig =
     line_values indices
       (case run_loginctl e None of
          None \<Rightarrow> ''''
        | Some out \<Rightarrow>
            (case find (\<lambda>l. live_session e ig l \<and> on_seat0 l) (str_lines out) of
               Some l \<Rightarrow> l
             | None \<Rightarrow>
                 (case find (\<lambda>l. live_session e ig l \<and> \<not> taken_for_terminal e l) (str_lines out) of
                    Some l \<Rightarrow> l
                  | None \<Rightarrow> '''')))
   \<and> length (values_of_seat0 e indices ig) = length indices"
proof -
  have len: "length (line_values indices l) = length indices" for l by (simp add: line_values_def)
  show ?thesis
    by (simp add: values_of_seat0_def seat0_loop_find any_seat_loop_find len split: option.split)
qed

subsection \<open>The type of a session\<close>

lemma to_lower_Nil: "to_lower s = '''' \<longleftrightarrow> s = ''''"
  by (simp add: to_lower_def)

text \<open>A session is never reported without a type; as a terminal only if the environment says so, so that
  the check for terminals rests on the environment of the process alone.\<close>

lemma session_type:
  "get_display_server_of_session e sid \<noteq> ''''"
  "get_display_server_of_session e sid = ''tty'' \<Longrightarrow> le_var e ''XDG_SESSION_TYPE'' \<noteq> None \<or>
     (\<exists>ds. ds \<noteq> ''tty'' \<and> to_lower ds = ''tty'')"
proof -
  have x11: "to_lower ''x11'' = ''x11''" by (simp add: to_lower_def)
  show "get_display_server_of_session e sid \<noteq> ''''"
    by (auto simp: get_display_server_of_session_def Let_def to_lower_Nil x11 split: option.split)
  assume "get_display_server_of_session e sid = ''tty''"
  then show "le_var e ''XDG_SESSION_TYPE'' \<noteq> None \<or> (\<exists>ds. ds \<noteq> ''tty'' \<and> to_lower ds = ''tty'')"
    by (auto simp: get_display_server_of_session_def Let_def x11 split: if_splits option.splits)
qed

text \<open>A setting of the environment forces the display server.\<close>

lemma forced_display_server:
  "le_var e ''RUSTDESK_FORCED_DISPLAY_SERVER'' = Some d \<Longrightarrow> get_display_server e = d"
  by (simp add: get_display_server_def)

subsection \<open>In a Flatpak sandbox\<close>

text \<open>\<^verbatim>\<open>flatpak-spawn\<close> gets the whole command line as the name of one program. As no program has such
  a name, the call starts and writes nothing: no session is ever active.\<close>

lemma flatpak_sees_no_session:
  assumes "le_var e ''FLATPAK_ID'' \<noteq> None"
    and "\<And>line. line \<noteq> ''loginctl'' \<Longrightarrow> le_spawn e ''flatpak-spawn'' [''--host'', line] = Some ''''"
  shows "\<not> is_active e sid" and "values_of_seat0 e indices ig = line_values indices ''''"
proof -
  have n: "run_loginctl e (Some a) = Some ''''" for a using assms by (auto simp: run_loginctl_def Let_def)
  show a: "\<not> is_active e sid" for sid by (simp add: is_active_def n)
  have "find (\<lambda>l. live_session e ig l \<and> P l) ls = None" for P ls
    by (auto simp: find_None_iff live_session_def a)
  then show "values_of_seat0 e indices ig = line_values indices ''''"
    by (simp add: values_of_seat0_def seat0_loop_find any_seat_loop_find split: option.split)
qed

subsection \<open>An example\<close>

text \<open>Two users and the greeter, of which the first user's session is closing.\<close>

definition demo_table :: string where
  "demo_table = ''SESSION UID USER SEAT TTY'' @ [char_of (10 :: nat)] @ ''c1 120 gdm seat0 tty1'' @ [char_of (10 :: nat)]
     @ ''2 1000 ann seat0 tty2'' @ [char_of (10 :: nat)] @ ''5 1001 bob seat0 tty3'' @ [char_of (10 :: nat)]
     @ ''3 sessions listed.'' @ [char_of (10 :: nat)]"

definition demo_linux :: linux_env where
  "demo_linux = \<lparr>le_var = (\<lambda>_. None),
     le_spawn = (\<lambda>p args. if p \<noteq> ''loginctl'' then None
       else if args = [] then Some demo_table
       else if args = [''show-session'', ''-p'', ''State'', ''2''] then Some ''State=closing''
       else if args ! 2 = ''State'' then Some ''State=active''
       else if args = [''show-session'', ''-p'', ''Type'', ''5''] then Some ''Type=x11''
       else Some ''Type=wayland'')\<rparr>"

lemma demo_seat: "get_values_of_seat0 demo_linux [0, 2] = [''5'', ''bob'']"
  by code_simp

lemma demo_seat_with_greeter: "get_values_of_seat0_with_gdm_wayland demo_linux [0, 2] = [''c1'', ''gdm'']"
  by code_simp

end
