(* ===== verification/Paths.thy ===== *)
theory Paths
  imports LinuxSession PeerConfigs
begin

text \<open>
  The places of the files of \<^verbatim>\<open>libs/hbb_common/src/config.rs\<close>, Unix build: the configuration directory
  with the correction for services that run with the home of root, the home directory, the
  logs, the socket for other processes and the icons. What the crates \<^verbatim>\<open>directories_next\<close> and
  \<^verbatim>\<open>dirs_next\<close> answer is an argument.
\<close>

record path_env =
  pe_app :: string
  pe_config_dir :: "string option"
  pe_home :: "string option"
  pe_cwd :: "string option"
  pe_temp :: string
  pe_can_create :: "string \<Rightarrow> bool"
  pe_linux :: linux_env

subsection \<open>\<^verbatim>\<open>patch\<close>\<close>

definition patch_windows :: "string \<Rightarrow> string" where
  "patch_windows p = replace_str p (''system32'' @ [char_of (92 :: nat)] @ ''config'' @ [char_of (92 :: nat)] @ ''systemprofile'')
     (''ServiceProfiles'' @ [char_of (92 :: nat)] @ ''LocalService'')"

definition patch_macos :: "string \<Rightarrow> string" where
  "patch_macos p = replace_str p ''Application Support'' ''Preferences''"

definition passwd_command :: "string \<Rightarrow> string" where
  "passwd_command user =
     ''getent passwd '' @ [CHR 0x27] @ user @ [CHR 0x27] @ '' | awk -F'' @ [CHR 0x27] @ '':'' @ [CHR 0x27] @ '' ''
       @ [CHR 0x27] @ ''{print $6}'' @ [CHR 0x27]"

definition patch_linux :: "linux_env \<Rightarrow> string \<Rightarrow> string" where
  "patch_linux e p =
     (if p = ''/root''
      then (case run_cmds_trim_newline e ''whoami'' of
              Some user \<Rightarrow>
                (if user \<noteq> ''root''
                 then (case run_cmds_trim_newline e (passwd_command user) of
                         Some out \<Rightarrow> out
                       | None \<Rightarrow> ''/home/'' @ user)
                 else p)
            | None \<Rightarrow> p)
      else p)"

subsection \<open>Places\<close>

definition config_path :: "path_env \<Rightarrow> string \<Rightarrow> string" where
  "config_path e p = (case pe_config_dir e of Some d \<Rightarrow> path_join (patch_linux (pe_linux e) d) p | None \<Rightarrow> '''')"

definition config_file :: "path_env \<Rightarrow> string \<Rightarrow> string" where
  "config_file e suffix = with_toml (config_path e (pe_app e @ suffix))"

definition get_home :: "path_env \<Rightarrow> string" where
  "get_home e =
     (case pe_home e of
        Some p \<Rightarrow> patch_linux (pe_linux e) p
      | None \<Rightarrow> (case pe_cwd e of Some p \<Rightarrow> p | None \<Rightarrow> pe_temp e))"

definition linux_log_path :: "path_env \<Rightarrow> string" where
  "linux_log_path e = path_join (get_home e) (''.local/share/logs/'' @ pe_app e)"

text \<open>Where neither Linux nor macOS nor Android decides.\<close>

definition other_log_path :: "path_env \<Rightarrow> string" where
  "other_log_path e = (case path_parent (config_path e '''') of Some p \<Rightarrow> path_join p ''log'' | None \<Rightarrow> '''')"

definition ipc_dir :: "path_env \<Rightarrow> string" where "ipc_dir e = ''/tmp/'' @ pe_app e"

definition ipc_path :: "path_env \<Rightarrow> string \<Rightarrow> string" where
  "ipc_path e postfix = path_join (ipc_dir e) (''ipc'' @ postfix)"

definition ipc_path_windows :: "path_env \<Rightarrow> string \<Rightarrow> string" where
  "ipc_path_windows e postfix =
     (let b = [char_of (92 :: nat)]
      in b @ b @ ''.'' @ b @ ''pipe'' @ b @ pe_app e @ b @ ''query'' @ postfix)"

definition icon_path :: "path_env \<Rightarrow> string" where
  "icon_path e = (let p = config_path e ''icons'' in if pe_can_create e p then p else pe_temp e)"

definition ab_path :: "path_env \<Rightarrow> string" where "ab_path e = config_path e (pe_app e @ ''_ab'')"
definition group_path :: "path_env \<Rightarrow> string" where "group_path e = config_path e (pe_app e @ ''_group'')"

subsection \<open>No two stores share a file\<close>

text \<open>An ordinary name of a file, of one component.\<close>

definition file_name :: "string \<Rightarrow> bool" where
  "file_name n \<longleftrightarrow> n \<notin> {'''', ''.'', ''..''} \<and> CHR ''/'' \<notin> set n"

lemma not_absolute: "file_name n \<Longrightarrow> \<not> starts_with n ''/''"
  by (cases n) (auto simp: file_name_def starts_with_def)

lemma rev_name:
  assumes "file_name n"
  shows "trim_rev (rev n @ x) = rev n @ x"
proof -
  obtain c r where n: "rev n = c # r" using assms by (cases "rev n") (auto simp: file_name_def)
  have c: "c \<noteq> CHR ''/''" using assms n unfolding file_name_def by (metis list.set_intros(1) set_rev)
  have "r \<noteq> [] \<and> hd r \<noteq> CHR ''/''" if "c = CHR ''.''"
  proof -
    have "r \<noteq> []" using n assms that unfolding file_name_def by (metis insertCI rev_rev_ident rev_singleton_conv)
    moreover have "hd r \<noteq> CHR ''/''" using assms n \<open>r \<noteq> []\<close> unfolding file_name_def
      by (metis list.set_intros(2) list.set_sel(1) set_rev)
    ultimately show ?thesis by blast
  qed
  then show ?thesis using c by (cases r) (auto simp: n)
qed

lemma last_component:
  assumes "file_name n"
  shows "last (split_char CHR ''/'' (d @ CHR ''/'' # n)) = n" and "last (split_char CHR ''/'' n) = n"
proof -
  have n: "split_char CHR ''/'' n = [n]" using assms split_char_none by (simp add: file_name_def)
  then show "last (split_char CHR ''/'' n) = n" by simp
  have "1 < length (split_char CHR ''/'' (d @ CHR ''/'' # n)) \<and> last (split_char CHR ''/'' (d @ CHR ''/'' # n)) = n"
    by (induction d) (auto simp: n split: list.splits)
  then show "last (split_char CHR ''/'' (d @ CHR ''/'' # n)) = n" by blast
qed

lemma path_join_ends: "file_name n \<Longrightarrow> path_join d n = n \<or> (\<exists>p. path_join d n = p @ CHR ''/'' # n)"
  by (auto simp: path_join_def not_absolute) (metis append_butlast_last_id append_Cons append_Nil append_assoc)

lemma with_toml_join:
  assumes "file_name n"
  shows "with_toml (path_join d n) = path_join d n @ ''.toml''"
proof -
  have n: "n \<noteq> '''' \<and> n \<noteq> ''..''" using assms by (simp add: file_name_def)
  from path_join_ends [OF assms, of d] consider "path_join d n = n" | p where "path_join d n = p @ CHR ''/'' # n" by blast
  then show ?thesis
  proof cases
    case 1
    then show ?thesis using rev_name [OF assms, of "[]"] last_component(2) [OF assms] n by (simp add: with_toml_def Let_def)
  next
    case 2
    then show ?thesis using rev_name [OF assms, of "CHR ''/'' # rev p"] last_component(1) [OF assms, of p] n
      by (simp add: with_toml_def Let_def)
  qed
qed

lemma path_join_more: "file_name n \<Longrightarrow> path_join d n @ x = path_join d (n @ x)"
  by (cases n) (auto simp: path_join_def starts_with_def file_name_def)

lemma path_join_starts: "file_name n \<Longrightarrow> starts_with (path_join d n) d"
  by (cases n) (auto simp: path_join_def starts_with_def file_name_def)

text \<open>The suffixes under which \<^verbatim>\<open>Config\<close>, \<^verbatim>\<open>Config2\<close>, \<^verbatim>\<open>LocalConfig\<close>, \<^verbatim>\<open>UserDefaultConfig\<close>, \<^verbatim>\<open>LanPeers\<close> and the
  table of hardware codecs are stored.\<close>

definition store_suffixes :: "string list" where
  "store_suffixes = ['''', ''2'', ''_local'', ''_default'', ''_lan_peers'', ''_hwcodec'']"

definition store_paths :: "path_env \<Rightarrow> string list" where
  "store_paths e = ab_path e # group_path e # map (config_file e) store_suffixes"

lemma name_with_suffix:
  assumes "CHR ''/'' \<notin> set a" and "a \<notin> {'''', ''.'', ''..''}" and "CHR ''/'' \<notin> set s" and "s \<noteq> ''.''"
  shows "file_name (a @ s)"
  using assms by (auto simp: file_name_def append_eq_Cons_conv)

lemma suffix_names:
  "list_all (\<lambda>s. CHR ''/'' \<notin> set s \<and> s \<noteq> ''.'')
     ([''_ab'', ''_group''] @ store_suffixes @ map (\<lambda>s. s @ ''.toml'') store_suffixes)"
  by (simp add: store_suffixes_def)

lemma distinct_suffixes: "distinct ([''_ab'', ''_group''] @ map (\<lambda>s. s @ ''.toml'') store_suffixes)"
  by (simp add: store_suffixes_def)

text \<open>No two stores of the program share a file: with a configuration directory and an application
  name that is an ordinary file name, the address book, the groups and the six stores in TOML have
  eight different paths, all of them in that directory.\<close>

theorem stores_have_their_own_files:
  assumes "pe_config_dir e = Some d" and "CHR ''/'' \<notin> set (pe_app e)" and "pe_app e \<notin> {'''', ''.'', ''..''}"
  shows "distinct (store_paths e) \<and>
    list_all (\<lambda>p. starts_with p (patch_linux (pe_linux e) d)) (store_paths e)"
proof -
  let ?d = "patch_linux (pe_linux e) d" and ?a = "pe_app e"
  let ?ends = "[''_ab'', ''_group''] @ map (\<lambda>s. s @ ''.toml'') store_suffixes"
  have name: "file_name (?a @ s)" if "s \<in> set ([''_ab'', ''_group''] @ store_suffixes @ map (\<lambda>s. s @ ''.toml'') store_suffixes)" for s
    using name_with_suffix [OF assms(2,3), of s] suffix_names that unfolding list_all_iff by blast
  have toml: "config_file e s = path_join ?d (?a @ s @ ''.toml'')" if "s \<in> set store_suffixes" for s
    using with_toml_join [OF name, of s ?d] path_join_more [OF name, of s ?d "''.toml''"] that
    by (simp add: config_file_def config_path_def assms(1))
  have paths: "store_paths e = map (\<lambda>s. path_join ?d (?a @ s)) ?ends"
    by (simp add: store_paths_def ab_path_def group_path_def config_path_def assms(1) toml)
  have inj: "inj_on (\<lambda>s. path_join ?d (?a @ s)) (set ?ends)"
  proof (rule inj_onI)
    fix s t
    assume "s \<in> set ?ends" and "t \<in> set ?ends" and eq: "path_join ?d (?a @ s) = path_join ?d (?a @ t)"
    then have "file_name (?a @ s)" and "file_name (?a @ t)" using name by auto
    then have "?a @ s = ?a @ t" using path_join_inj [OF eq] not_absolute by blast
    then show "s = t" by simp
  qed
  have "distinct (store_paths e)" unfolding paths distinct_map using distinct_suffixes inj by blast
  moreover have "starts_with p ?d" if p: "p \<in> set (store_paths e)" for p
  proof -
    obtain s where "s \<in> set ?ends" and "p = path_join ?d (?a @ s)" using p unfolding paths set_map by blast
    then show ?thesis using path_join_starts [OF name, of s ?d] by auto
  qed
  ultimately show ?thesis by (simp add: list_all_iff)
qed

definition demo_paths :: path_env where
  "demo_paths = \<lparr>pe_app = ''RustDesk'', pe_config_dir = Some ''/home/u/.config/rustdesk'', pe_home = Some ''/root'', pe_cwd = None,
     pe_temp = ''/tmp'', pe_can_create = (\<lambda>_. True),
     pe_linux = \<lparr>le_var = (\<lambda>_. None), le_spawn = (\<lambda>p args. if p = ''sh'' \<and> args ! 1 = ''whoami'' then Some (''u'' @ [char_of (10 :: nat)]) else None)\<rparr>\<rparr>"

theorem stores_have_their_own_files_witness:
  "distinct (store_paths demo_paths) \<and>
   list_all (\<lambda>p. starts_with p (patch_linux (pe_linux demo_paths) ''/home/u/.config/rustdesk'')) (store_paths demo_paths)"
  by (rule stores_have_their_own_files) (simp_all add: demo_paths_def)

text \<open>A service that keeps the home of root but runs as another user gets that user's home; without an
  entry in the table of users a directory below \<^verbatim>\<open>/home\<close>.\<close>

lemma service_home:
  "run_cmds_trim_newline e ''whoami'' = Some user \<Longrightarrow> user \<noteq> ''root'' \<Longrightarrow>
   patch_linux e ''/root'' = (case run_cmds_trim_newline e (passwd_command user) of Some out \<Rightarrow> out | None \<Rightarrow> ''/home/'' @ user)"
  by (simp add: patch_linux_def)

lemma demo_home: "get_home demo_paths = ''/home/u''"
  by code_simp

text \<open>The correction sees the home directory only: the configuration directory below it is left as it is.\<close>

lemma config_dir_is_not_patched: "patch_linux e (''/root/'' @ p) = ''/root/'' @ p"
  by (simp add: patch_linux_def)

end
