(* ===== verification/Vram.thy ===== *)
theory Vram
  imports HwCodec "HOL-Library.AList"
begin

text \<open>
  Codecs in video memory, \<^verbatim>\<open>libs/scrap/src/common/vram.rs\<close>: which contexts of the table of
  \<^verbatim>\<open>HwCodecConfig\<close> may be used for an adapter, \<^verbatim>\<open>VRamEncoder\<close> with its watch for a stuck encoder, and
  \<^verbatim>\<open>VRamDecoder\<close>. The table holds contexts of the crate \<^verbatim>\<open>hwcodec\<close> as numbers; \<open>vram_view\<close> shows
  what they contain. \<^verbatim>\<open>Display::all\<close> is an argument: the adapters of the displays.
\<close>

datatype driver = FFMPEG | MFX | Other_driver

record vram_context =
  vx_driver :: driver
  vx_luid :: i64
  vx_format :: data_format

type_synonym vram_view = "nat \<Rightarrow> vram_context"

record adapter_device =
  ad_device :: nat
  ad_vendor :: u32
  ad_luid :: i64

text \<open>The statics \<^verbatim>\<open>ENOCDE_NOT_USE\<close> and \<^verbatim>\<open>FALLBACK_GDI_DISPLAYS\<close>.\<close>

record vram_switches =
  encode_not_use :: "(nat \<times> bool) list"
  fallback_gdi_displays :: "nat list"

definition set_not_use :: "nat \<Rightarrow> bool \<Rightarrow> vram_switches \<Rightarrow> vram_switches" where
  "set_not_use d b w = w\<lparr>encode_not_use := AList.update d b (encode_not_use w)\<rparr>"

definition set_fallback_gdi :: "nat \<Rightarrow> bool \<Rightarrow> vram_switches \<Rightarrow> vram_switches" where
  "set_fallback_gdi d b w =
     w\<lparr>fallback_gdi_displays := (if b then List.insert d (fallback_gdi_displays w)
                                 else filter (\<lambda>x. x \<noteq> d) (fallback_gdi_displays w))\<rparr>"

subsection \<open>Choosing a context\<close>

definition vram_format :: "codec_format \<Rightarrow> data_format option" where
  "vram_format f = (if f = H264 then Some DF_H264 else if f = H265 then Some DF_H265 else None)"

text \<open>\<open>displays\<close>: the adapter of each display, where the displays can be listed.\<close>

definition vram_available ::
    "hw_env \<Rightarrow> vram_view \<Rightarrow> i64 option list option \<Rightarrow> vram_switches \<Rightarrow> codec_format \<Rightarrow> hw_state \<Rightarrow> nat list \<times> hw_state" where
  "vram_available e view displays w f s =
     (if fallback_gdi_displays w \<noteq> [] \<or> list_ex snd (encode_not_use w) then ([], s)
      else case vram_format f of
        None \<Rightarrow> ([], s)
      | Some df \<Rightarrow>
          (case hw_get e s of
             (c, s1) \<Rightarrow>
               (let v = filter (\<lambda>x. vx_format (view x) = df) (vram_encode c)
                in case encoder_try_get e f s1 of
                     (Some _, s2) \<Rightarrow> (v, s2)
                   | (None, s2) \<Rightarrow>
                       (case displays of
                          None \<Rightarrow> ([], s2)
                        | Some luids \<Rightarrow>
                            if luids = [] then ([], s2)
                            else if list_all (\<lambda>luid. list_ex (\<lambda>x. Some (vx_luid (view x)) = luid) v) luids then (v, s2)
                            else ([], s2)))))"

text \<open>FFmpeg is preferred.\<close>

definition prefer_ffmpeg :: "vram_view \<Rightarrow> nat list \<Rightarrow> nat option" where
  "prefer_ffmpeg view v =
     (case v of
        [] \<Rightarrow> None
      | x # _ \<Rightarrow> (case find (\<lambda>c. vx_driver (view c) = FFMPEG) v of Some c \<Rightarrow> Some c | None \<Rightarrow> Some x))"

definition vram_encoder_try_get ::
    "hw_env \<Rightarrow> vram_view \<Rightarrow> i64 option list option \<Rightarrow> vram_switches \<Rightarrow> adapter_device \<Rightarrow> codec_format \<Rightarrow> hw_state
      \<Rightarrow> nat option \<times> hw_state" where
  "vram_encoder_try_get e view displays w dev f s =
     (case vram_available e view displays w f s of
        (v, s1) \<Rightarrow> (prefer_ffmpeg view (filter (\<lambda>x. vx_luid (view x) = ad_luid dev) v), s1))"

definition vram_decoders_available :: "hw_env \<Rightarrow> vram_view \<Rightarrow> codec_format \<Rightarrow> i64 option \<Rightarrow> hw_state \<Rightarrow> nat list \<times> hw_state" where
  "vram_decoders_available e view f luid s =
     (let l = (case luid of Some x \<Rightarrow> x | None \<Rightarrow> 0)
      in case vram_format f of
           None \<Rightarrow> ([], s)
         | Some df \<Rightarrow>
             (case hw_get e s of
                (c, s1) \<Rightarrow> (filter (\<lambda>x. vx_format (view x) = df \<and> vx_luid (view x) = l \<and> l \<noteq> 0) (HwCodec.vram_decode c), s1)))"

definition vram_decoder_try_get :: "hw_env \<Rightarrow> vram_view \<Rightarrow> codec_format \<Rightarrow> i64 option \<Rightarrow> hw_state \<Rightarrow> nat option \<times> hw_state" where
  "vram_decoder_try_get e view f luid s =
     (case vram_decoders_available e view f luid s of (v, s1) \<Rightarrow> (prefer_ffmpeg view v, s1))"

definition possible_available_without_check :: "hw_env \<Rightarrow> vram_view \<Rightarrow> bool \<Rightarrow> hw_state \<Rightarrow> (bool \<times> bool) \<times> hw_state" where
  "possible_available_without_check e view enabled s =
     (if \<not> enabled then ((False, False), s)
      else case hw_get e s of
        (c, s1) \<Rightarrow> ((list_ex (\<lambda>d. vx_format (view d) = DF_H264) (HwCodec.vram_decode c),
                     list_ex (\<lambda>d. vx_format (view d) = DF_H265) (HwCodec.vram_decode c)), s1))"

definition vram_decoder_new ::
    "hw_env \<Rightarrow> codec_env \<Rightarrow> vram_view \<Rightarrow> (nat \<Rightarrow> 'd option) \<Rightarrow> codec_format \<Rightarrow> i64 option \<Rightarrow> hw_state \<Rightarrow> (enc_error + 'd) \<times> hw_state" where
  "vram_decoder_new e base view mk f luid s =
     (case vram_decoder_try_get e view f luid s of
        (None, s1) \<Rightarrow> (Inl No_format, s1)
      | (Some x, s1) \<Rightarrow>
          (case mk x of
             Some d \<Rightarrow> (Inr d, s1)
           | None \<Rightarrow> (Inl Create_failed, hw_clear e (machine_of e base) True False s1)))"

subsection \<open>\<^verbatim>\<open>VRamEncoder\<close>\<close>

record vram_config =
  vc_device :: adapter_device
  vc_width :: nat
  vc_height :: nat
  vc_quality :: quality
  vc_feature :: vram_context
  vc_keyframe_interval :: "nat option"

record dynamic_context =
  dy_device :: "nat option"
  dy_width :: nat
  dy_height :: nat
  dy_kbitrate :: u32
  dy_framerate :: nat
  dy_gop :: i32

record 'c vram_lib =
  vl_new :: "vram_context \<Rightarrow> dynamic_context \<Rightarrow> 'c option"
  vl_set_bitrate :: "u32 \<Rightarrow> 'c \<Rightarrow> bool \<times> 'c"
  vl_encode :: "bool \<Rightarrow> i64 \<Rightarrow> 'c \<Rightarrow> hw_frame list option \<times> 'c"
  vl_max_gop :: nat
  vl_intel :: u32

record 'c vram_encoder =
  ve_ctx :: 'c
  ve_format :: data_format
  ve_dynamic :: dynamic_context
  ve_bitrate :: u32
  ve_last_frame_len :: nat
  ve_same_bad_len_counter :: nat
  ve_config :: vram_config

text \<open>The errors of \<^verbatim>\<open>encode_to_message\<close>; \<open>Need_switch\<close> is \<^verbatim>\<open>ENCODE_NEED_SWITCH\<close>.\<close>

datatype vram_error = Not_texture | Rotated_texture | Need_switch | No_valid_picture | Other_data_format

definition vram_convert_quality :: "quality \<Rightarrow> vram_context \<Rightarrow> u32" where
  "vram_convert_quality q f =
     (let mfx264 = (vx_driver f = MFX \<and> vx_format f = DF_H264)
      in case q of
           Best \<Rightarrow> if mfx264 then 200 else 150
         | Balanced \<Rightarrow> if mfx264 then 150 else 100
         | Low \<Rightarrow> if mfx264 then 75 else 50
         | Custom b \<Rightarrow> b)"

definition vram_encoder_new :: "'c vram_lib \<Rightarrow> vram_config \<Rightarrow> enc_error + 'c vram_encoder" where
  "vram_encoder_new lib cfg =
     (let base = base_bitrate (of_nat (vc_width cfg)) (of_nat (vc_height cfg));
          b = base * vram_convert_quality (vc_quality cfg) (vc_feature cfg) div 100;
          bitrate = (if b \<le> 0 then base else b);
          d = \<lparr>dy_device = Some (ad_device (vc_device cfg)), dy_width = vc_width cfg, dy_height = vc_height cfg,
               dy_kbitrate = bitrate, dy_framerate = 30,
               dy_gop = of_nat (case vc_keyframe_interval cfg of Some n \<Rightarrow> n | None \<Rightarrow> vl_max_gop lib)\<rparr>
      in case vl_new lib (vc_feature cfg) d of
           None \<Rightarrow> Inl Create_failed
         | Some x \<Rightarrow> Inr \<lparr>ve_ctx = x, ve_format = vx_format (vc_feature cfg), ve_dynamic = d, ve_bitrate = bitrate,
                          ve_last_frame_len = 0, ve_same_bad_len_counter = 0, ve_config = cfg\<rparr>)"

definition MIN_BAD_LEN :: nat where "MIN_BAD_LEN = 100"
definition MAX_BAD_COUNTER :: nat where "MAX_BAD_COUNTER = 30"

text \<open>An error of the library is no frames. The watch counts pictures as short as the one before.\<close>

definition vram_encode_to_message ::
    "'c vram_lib \<Rightarrow> bytes encode_input \<Rightarrow> i64 \<Rightarrow> 'c vram_encoder \<Rightarrow> (vram_error + video_message) \<times> 'c vram_encoder" where
  "vram_encode_to_message lib input ms ve =
     (case input_texture input of
        None \<Rightarrow> (Inl Not_texture, ve)
      | Some (t, rotation) \<Rightarrow>
          (if rotation \<noteq> 0 then (Inl Rotated_texture, ve)
           else
             (case vl_encode lib t ms (ve_ctx ve) of
                (r, x) \<Rightarrow>
                  (let ve1 = ve\<lparr>ve_ctx := x\<rparr>;
                       fs = map (\<lambda>f. \<lparr>pic_data = hf_data f, pic_key = (hf_key f = 1), pic_pts = hf_pts f\<rparr>)
                              (case r of Some v \<Rightarrow> v | None \<Rightarrow> [])
                   in case fs of
                        [] \<Rightarrow> (Inl No_valid_picture, ve1)
                      | p # _ \<Rightarrow>
                          (let n = length (pic_data p);
                               bad = (n < MIN_BAD_LEN \<and> n = ve_last_frame_len ve1);
                               ve2 = ve1\<lparr>ve_same_bad_len_counter := (if bad then ve_same_bad_len_counter ve1 + 1 else 0)\<rparr>
                           in if bad \<and> MAX_BAD_COUNTER \<le> ve_same_bad_len_counter ve2 then (Inl Need_switch, ve2)
                              else
                                (case ve_format ve2 of
                                   DF_H264 \<Rightarrow> Inr (H264, fs)
                                 | DF_H265 \<Rightarrow> Inr (H265, fs)
                                 | _ \<Rightarrow> Inl Other_data_format,
                                 ve2\<lparr>ve_last_frame_len := n\<rparr>))))))"

definition vram_set_quality :: "'c vram_lib \<Rightarrow> quality \<Rightarrow> 'c vram_encoder \<Rightarrow> 'c vram_encoder" where
  "vram_set_quality lib q ve =
     (let d = ve_dynamic ve;
          b = base_bitrate (of_nat (dy_width d)) (of_nat (dy_height d)) * vram_convert_quality q (vc_feature (ve_config ve)) div 100
      in if 0 < b
         then (case vl_set_bitrate lib b (ve_ctx ve) of
                 (ok, x) \<Rightarrow> if ok then ve\<lparr>ve_ctx := x, ve_bitrate := b\<rparr> else ve\<lparr>ve_ctx := x\<rparr>)
         else ve)"

definition vram_support_abr :: "'c vram_lib \<Rightarrow> 'c vram_encoder \<Rightarrow> bool" where
  "vram_support_abr lib ve \<longleftrightarrow> ad_vendor (vc_device (ve_config ve)) \<noteq> vl_intel lib"

definition vram_disable :: "hw_env \<Rightarrow> codec_env \<Rightarrow> hw_state \<Rightarrow> hw_state" where
  "vram_disable e base s = hw_clear e (machine_of e base) True True s"

text \<open>The format that a texture is encoded from; it is not used.\<close>

definition vram_yuvfmt :: "'c vram_encoder \<Rightarrow> yuv_format" where
  "vram_yuvfmt ve = \<lparr>yf_pixfmt = BGRA, yf_w = dy_width (ve_dynamic ve), yf_h = dy_height (ve_dynamic ve),
     yf_stride = [], yf_u = 0, yf_v = 0\<rparr>"

end
