(* ===== verification/VramProps.thy ===== *)
theory VramProps
  imports Vram EncoderProps
begin

text \<open>
  Codecs in video memory: when an encoder counts as stuck, which encoders may be chosen while
  displays are captured in different ways, and that the bit rate stays positive.
\<close>

subsection \<open>The stuck encoder\<close>

text \<open>The length of the first picture of a call that yields pictures.\<close>

definition vram_len :: "'c vram_lib \<Rightarrow> bytes encode_input \<Rightarrow> i64 \<Rightarrow> 'c vram_encoder \<Rightarrow> nat option" where
  "vram_len lib i ms ve =
     (case input_texture i of
        None \<Rightarrow> None
      | Some (t, r) \<Rightarrow>
          (if r \<noteq> 0 then None
           else case fst (vl_encode lib t ms (ve_ctx ve)) of
             Some (f # _) \<Rightarrow> Some (length (hf_data f))
           | _ \<Rightarrow> None))"

text \<open>A run of calls: the encoder after it, and the lengths that it met, the newest first.\<close>

fun vram_run :: "'c vram_lib \<Rightarrow> (bytes encode_input \<times> i64) list \<Rightarrow> nat list \<times> 'c vram_encoder \<Rightarrow> nat list \<times> 'c vram_encoder" where
  "vram_run lib [] hv = hv"
| "vram_run lib ((i, ms) # ops) (h, ve) =
     vram_run lib ops
       ((case vram_len lib i ms ve of Some n \<Rightarrow> n # h | None \<Rightarrow> h), snd (vram_encode_to_message lib i ms ve))"

text \<open>How often the newest length was met just before, if it is a bad one.\<close>

fun repeats :: "nat list \<Rightarrow> nat" where
  "repeats [] = 0"
| "repeats (n # xs) = (if n < 100 then length (takeWhile ((=) n) xs) else 0)"

text \<open>A new encoder begins as if a picture without bytes had been made.\<close>

definition watch_inv :: "nat list \<Rightarrow> 'c vram_encoder \<Rightarrow> bool" where
  "watch_inv h ve \<longleftrightarrow> ve_last_frame_len ve = hd (h @ [0]) \<and> ve_same_bad_len_counter ve = repeats (h @ [0])"

lemma repeats_step:
  "xs \<noteq> [] \<Longrightarrow> repeats (n # xs) = (if n < 100 \<and> n = hd xs then repeats xs + 1 else 0)"
  by (cases xs) auto

lemma watch_step:
  assumes "watch_inv h ve"
  shows "watch_inv (case vram_len lib i ms ve of Some n \<Rightarrow> n # h | None \<Rightarrow> h) (snd (vram_encode_to_message lib i ms ve))"
    and "fst (vram_encode_to_message lib i ms ve) = Inl Need_switch \<longleftrightarrow>
           (case vram_len lib i ms ve of None \<Rightarrow> False | Some n \<Rightarrow> 30 \<le> repeats (n # h @ [0]))"
proof -
  have step: "repeats (n # h @ [0]) = (if n < 100 \<and> n = ve_last_frame_len ve then ve_same_bad_len_counter ve + 1 else 0)" for n
    using repeats_step [of "h @ [0]" n] assms by (simp add: watch_inv_def)
  have "watch_inv (case vram_len lib i ms ve of Some n \<Rightarrow> n # h | None \<Rightarrow> h) (snd (vram_encode_to_message lib i ms ve)) \<and>
      (fst (vram_encode_to_message lib i ms ve) = Inl Need_switch \<longleftrightarrow>
           (case vram_len lib i ms ve of None \<Rightarrow> False | Some n \<Rightarrow> 30 \<le> repeats (n # h @ [0])))"
  proof (cases "input_texture i")
    case None
    then show ?thesis using assms by (simp add: vram_len_def vram_encode_to_message_def)
  next
    case (Some tr)
    obtain t r where tr: "tr = (t, r)" by (cases tr)
    obtain v x where l: "vl_encode lib t ms (ve_ctx ve) = (v, x)" by (cases "vl_encode lib t ms (ve_ctx ve)")
    note eq = Some tr l vram_len_def vram_encode_to_message_def Let_def MIN_BAD_LEN_def MAX_BAD_COUNTER_def
    consider "r \<noteq> 0" | "r = 0" "v = None \<or> v = Some []" | f fs where "r = 0" "v = Some (f # fs)"
      by (metis list.exhaust option.exhaust)
    then show ?thesis
    proof cases
      case 1
      then show ?thesis using assms by (simp add: eq)
    next
      case 2
      then show ?thesis using assms by (auto simp: eq watch_inv_def)
    next
      case 3
      define n where "n = length (hf_data f)"
      have len: "vram_len lib i ms ve = Some n" using 3 by (simp add: eq n_def)
      have res: "fst (vram_encode_to_message lib i ms ve) = Inl Need_switch \<longleftrightarrow>
          n < 100 \<and> n = ve_last_frame_len ve \<and> 30 \<le> ve_same_bad_len_counter ve + 1"
        using 3 by (auto simp: eq n_def split: data_format.split)
      have st: "ve_last_frame_len (snd (vram_encode_to_message lib i ms ve)) = n \<and>
          ve_same_bad_len_counter (snd (vram_encode_to_message lib i ms ve)) = repeats (n # h @ [0])"
        using 3 by (simp add: eq step n_def del: repeats.simps)
      show ?thesis using res st step [of n] by (auto simp: len watch_inv_def simp del: repeats.simps)
    qed
  qed
  then show "watch_inv (case vram_len lib i ms ve of Some n \<Rightarrow> n # h | None \<Rightarrow> h) (snd (vram_encode_to_message lib i ms ve))"
    and "fst (vram_encode_to_message lib i ms ve) = Inl Need_switch \<longleftrightarrow>
           (case vram_len lib i ms ve of None \<Rightarrow> False | Some n \<Rightarrow> 30 \<le> repeats (n # h @ [0]))" by blast+
qed

lemma watch_run: "watch_inv h ve \<Longrightarrow> watch_inv (fst (vram_run lib ops (h, ve))) (snd (vram_run lib ops (h, ve)))"
  by (induction ops arbitrary: h ve) (auto simp: watch_step(1))

lemma repeats_iff: "30 \<le> repeats (n # xs) \<longleftrightarrow> n < 100 \<and> take 30 xs = replicate 30 n"
proof -
  have "k \<le> length (takeWhile ((=) n) xs) \<longleftrightarrow> take k xs = replicate k n" for k
  proof (induction xs arbitrary: k)
    case Nil
    then show ?case by (cases k) auto
  next
    case (Cons y ys)
    then show ?case by (cases k) auto
  qed
  then show ?thesis by simp
qed

text \<open>C15. The watch for a stuck encoder reacts exactly when it should: a new encoder asks to be replaced
  on a picture if and only if that picture has fewer than 100 bytes and exactly the length of the 30
  pictures before it. Calls that yield no picture neither count nor interrupt the series; before the
  first picture it is as if an empty one had been made.\<close>

theorem stuck_encoder_is_replaced:
  assumes "vram_encoder_new lib cfg = Inr ve0" and "vram_run lib ops ([], ve0) = (h, ve)"
  shows "fst (vram_encode_to_message lib i ms ve) = Inl Need_switch \<longleftrightarrow>
    (case vram_len lib i ms ve of None \<Rightarrow> False | Some n \<Rightarrow> n < 100 \<and> take 30 (h @ [0]) = replicate 30 n)"
proof -
  have "watch_inv [] ve0"
    using assms(1) by (auto simp: vram_encoder_new_def watch_inv_def Let_def split: option.splits)
  from watch_run [OF this, of lib ops] have "watch_inv h ve" by (simp add: assms(2))
  from watch_step(2) [OF this] show ?thesis by (simp only: repeats_iff)
qed

subsection \<open>Which encoders may be used\<close>

lemma prefer_ffmpeg_in: "prefer_ffmpeg view v = Some x \<Longrightarrow> x \<in> set v"
proof -
  assume p: "prefer_ffmpeg view v = Some x"
  then obtain y ys where v: "v = y # ys" by (cases v) (simp_all add: prefer_ffmpeg_def)
  show "x \<in> set v"
  proof (cases "find (\<lambda>c. vx_driver (view c) = FFMPEG) v")
    case None
    then show ?thesis using p unfolding prefer_ffmpeg_def v by simp
  next
    case (Some c)
    then have "c \<in> set v" by (metis find_Some_iff nth_mem)
    then show ?thesis using p Some unfolding prefer_ffmpeg_def v by simp
  qed
qed

lemma available_props:
  assumes "vram_available e view displays w f s = (v, s1)" and "x \<in> set v"
  shows "fallback_gdi_displays w = []" and "list_all (\<lambda>p. \<not> snd p) (encode_not_use w)"
    and "Some (vx_format (view x)) = vram_format f"
    and "case displays of
           Some luids \<Rightarrow> list_all (\<lambda>l. list_ex (\<lambda>y. Some (vx_luid (view y)) = l \<and> vx_format (view y) = vx_format (view x)) v) luids \<or>
                         fst (encoder_try_get e f (snd (hw_get e s))) \<noteq> None
         | None \<Rightarrow> fst (encoder_try_get e f (snd (hw_get e s))) \<noteq> None"
proof -
  have n: "\<not> (fallback_gdi_displays w \<noteq> [] \<or> list_ex snd (encode_not_use w))"
  proof
    assume "fallback_gdi_displays w \<noteq> [] \<or> list_ex snd (encode_not_use w)"
    then have "v = []" using assms(1) unfolding vram_available_def by (simp only: if_True prod.inject)
    then show False using assms(2) by simp
  qed
  then show "fallback_gdi_displays w = []" and "list_all (\<lambda>p. \<not> snd p) (encode_not_use w)"
    by (auto simp: list_all_iff list_ex_iff)
  obtain df where df: "vram_format f = Some df" using assms n by (cases "vram_format f") (auto simp: vram_available_def)
  obtain c s0 where c: "hw_get e s = (c, s0)" by (cases "hw_get e s")
  obtain i s2 where i: "encoder_try_get e f s0 = (i, s2)" by (cases "encoder_try_get e f s0")
  define u where "u = filter (\<lambda>x. vx_format (view x) = df) (vram_encode c)"
  have v: "v = u" and ok: "i = None \<longrightarrow> (\<exists>luids. displays = Some luids \<and>
      list_all (\<lambda>l. list_ex (\<lambda>x. Some (vx_luid (view x)) = l) u) luids)"
    using assms n by (auto simp: vram_available_def df c i u_def Let_def split: option.splits if_splits)
  have fmt: "vx_format (view y) = df" if "y \<in> set v" for y using that by (auto simp: v u_def)
  show "Some (vx_format (view x)) = vram_format f" using fmt [OF assms(2)] by (simp add: df)
  show "case displays of
           Some luids \<Rightarrow> list_all (\<lambda>l. list_ex (\<lambda>y. Some (vx_luid (view y)) = l \<and> vx_format (view y) = vx_format (view x)) v) luids \<or>
                         fst (encoder_try_get e f (snd (hw_get e s))) \<noteq> None
         | None \<Rightarrow> fst (encoder_try_get e f (snd (hw_get e s))) \<noteq> None"
    using ok fmt assms(2) by (cases i) (auto simp: c i v list_all_iff list_ex_iff split: option.splits)
qed

text \<open>An encoder in video memory is only chosen where it can be used: it is for the asked format and
  the adapter of the captured display, no display is captured through GDI or has switched such
  encoders off, and either there is a hardware encoder in memory to fall back on or the adapter of
  every display has an encoder of that format.\<close>

theorem vram_encoder_is_supported:
  "case vram_encoder_try_get e view displays w dev f s of
     (None, _) \<Rightarrow> True
   | (Some x, _) \<Rightarrow>
       Some (vx_format (view x)) = vram_format f \<and> vx_luid (view x) = ad_luid dev \<and>
       fallback_gdi_displays w = [] \<and> list_all (\<lambda>p. \<not> snd p) (encode_not_use w) \<and>
       (fst (encoder_try_get e f (snd (hw_get e s))) \<noteq> None \<or>
        (case displays of
           None \<Rightarrow> False
         | Some luids \<Rightarrow>
             list_all (\<lambda>l. list_ex (\<lambda>y. Some (vx_luid (view y)) = l \<and> vx_format (view y) = vx_format (view x))
                             (fst (vram_available e view displays w f s))) luids))"
proof -
  obtain v s1 where v: "vram_available e view displays w f s = (v, s1)" by (cases "vram_available e view displays w f s")
  show ?thesis
  proof (cases "prefer_ffmpeg view (filter (\<lambda>x. vx_luid (view x) = ad_luid dev) v)")
    case None
    then show ?thesis by (simp add: vram_encoder_try_get_def v)
  next
    case (Some x)
    from prefer_ffmpeg_in [OF this] have x: "x \<in> set v" "vx_luid (view x) = ad_luid dev" by auto
    note p = available_props [OF v x(1)]
    have get: "vram_encoder_try_get e view displays w dev f s = (Some x, s1)" by (simp add: vram_encoder_try_get_def v Some)
    show ?thesis unfolding get v fst_conv prod.case option.case
      using p x(2) by (cases displays) (auto simp: list_all_iff)
  qed
qed

text \<open>One display that falls back to GDI switches the encoders off for all of them; taking it back
  brings them back.\<close>

lemma gdi_switches_all_off:
  "vram_encoder_try_get e view displays (set_fallback_gdi d True w) dev f s = (None, s)"
proof -
  have "List.insert d xs \<noteq> []" for xs by (cases xs) (simp_all add: List.insert_def)
  then show ?thesis by (simp add: vram_encoder_try_get_def vram_available_def set_fallback_gdi_def prefer_ffmpeg_def)
qed

lemma gdi_taken_back:
  "d \<notin> set (fallback_gdi_displays w) \<Longrightarrow> set_fallback_gdi d False (set_fallback_gdi d True w) = w"
  by (cases w) (auto simp: set_fallback_gdi_def filter_id_conv)

subsection \<open>The bit rate\<close>

definition vram_good :: "'c vram_encoder \<Rightarrow> bool" where "vram_good ve \<longleftrightarrow> 0 < ve_bitrate ve"

lemma vram_set_quality_good: "vram_good ve \<Longrightarrow> vram_good (vram_set_quality lib q ve)"
  by (simp add: vram_good_def vram_set_quality_def Let_def split: prod.split)

lemma vram_work_good: "vram_good ve \<Longrightarrow> vram_good (snd (vram_encode_to_message lib i ms ve))"
  by (auto simp: vram_good_def vram_encode_to_message_def Let_def split: option.splits prod.splits list.splits)

interpretation vram: encoder_api "vram_set_quality lib" "\<lambda>i ms ve. snd (vram_encode_to_message lib i ms ve)"
    ve_bitrate vram_good for lib
  by unfold_locales (simp_all add: vram_set_quality_good vram_work_good, simp add: vram_good_def)

lemma vram_new_good: "vram_encoder_new lib cfg = Inr ve \<Longrightarrow> vram_good ve"
  using base_bitrate_pos
  by (auto simp: vram_encoder_new_def vram_good_def Let_def word_gt_0 split: option.splits if_splits)

text \<open>No changes of quality and no pictures bring the bit rate of a new encoder to 0.\<close>

lemma vram_bitrate_positive:
  "vram_encoder_new lib cfg = Inr ve \<Longrightarrow>
   0 < ve_bitrate (run_ops (vram_set_quality lib) (\<lambda>i ms ve. snd (vram_encode_to_message lib i ms ve)) ops ve)"
  by (rule vram.run_rate [OF vram_new_good])

subsection \<open>An example\<close>

text \<open>An encoder that gives pictures of 40 bytes for ever.\<close>

definition demo_vram_lib :: "unit vram_lib" where
  "demo_vram_lib = \<lparr>vl_new = (\<lambda>_ _. Some ()), vl_set_bitrate = (\<lambda>_ x. (True, x)),
     vl_encode = (\<lambda>_ _ x. (Some [\<lparr>hf_data = replicate 40 0, hf_key = 0, hf_pts = 0\<rparr>], x)), vl_max_gop = 100, vl_intel = 0x8086\<rparr>"

definition demo_vram_config :: vram_config where
  "demo_vram_config = \<lparr>vc_device = \<lparr>ad_device = 1, ad_vendor = 0x1002, ad_luid = 7\<rparr>, vc_width = 640, vc_height = 480,
     vc_quality = Balanced, vc_feature = \<lparr>vx_driver = FFMPEG, vx_luid = 7, vx_format = DF_H264\<rparr>, vc_keyframe_interval = None\<rparr>"

lemma demo_vram_new: "\<exists>ve. vram_encoder_new demo_vram_lib demo_vram_config = Inr ve"
  by (simp add: vram_encoder_new_def demo_vram_lib_def Let_def)

definition demo_vram :: "unit vram_encoder" where
  "demo_vram = (case vram_encoder_new demo_vram_lib demo_vram_config of Inr ve \<Rightarrow> ve)"

lemma demo_vram_eq: "vram_encoder_new demo_vram_lib demo_vram_config = Inr demo_vram"
  using demo_vram_new by (auto simp: demo_vram_def)

lemma demo_vram_len: "vram_len demo_vram_lib (Texture True 0) 0 ve = Some 40"
  by (simp add: vram_len_def input_texture_def demo_vram_lib_def)

lemma demo_vram_run: "fst (vram_run demo_vram_lib (replicate k (Texture True 0, 0)) (h, ve)) = replicate k 40 @ h"
  by (induction k arbitrary: h ve) (simp_all add: demo_vram_len replicate_append_same)

theorem stuck_encoder_is_replaced_witness:
  "fst (vram_encode_to_message demo_vram_lib (Texture True 0) 0
     (snd (vram_run demo_vram_lib (replicate 30 (Texture True 0, 0)) ([], demo_vram)))) = Inl Need_switch"
  using stuck_encoder_is_replaced [OF demo_vram_eq surjective_pairing,
      where ops = "replicate 30 (Texture True 0, 0)" and i = "Texture True 0" and ms = 0]
  by (simp only: demo_vram_len demo_vram_run) simp

end
