(* ===== verification/DecodedImage.thy ===== *)
theory DecodedImage
  imports ConvertProps
begin

text \<open>
  From a picture that a hardware codec decoded to the picture that is shown: \<^verbatim>\<open>HwRamDecoderImage\<close> of
  \<^verbatim>\<open>libs/scrap/src/common/hwcodec.rs\<close> and the decoder of \<^verbatim>\<open>mediacodec.rs\<close>. As in \<open>Convert\<close>, the model has
  the calls of libyuv with their planes; what FFmpeg and Android deliver is an argument.
\<close>

datatype av_pixfmt = AV_NV12 | AV_YUV420P

datatype dec_fn = NV12ToI420 | I420ToARGB | I420ToABGR | NV12ToARGB | NV12ToABGR

datatype dec_buffer = In nat | I420_scratch | Out

text \<open>A plane: buffer, offset and stride.\<close>

record dec_call =
  dk_fn :: dec_fn
  dk_src :: "(dec_buffer \<times> nat \<times> nat) list"
  dk_dst :: "(dec_buffer \<times> nat \<times> nat) list"
  dk_width :: nat
  dk_height :: nat

datatype dec_error = No_layout | Unsupported_format | Dec_call_failed | Input_too_large | Codec_error

text \<open>The picture of FFmpeg: the lengths of its planes and their strides.\<close>

record hw_image =
  hi_width :: nat
  hi_height :: nat
  hi_pixfmt :: av_pixfmt
  hi_planes :: "nat list"
  hi_linesize :: "nat list"

text \<open>\<^verbatim>\<open>ffmpeg_linesize_offset_length\<close>: strides, offsets and length of an I420 picture.\<close>

type_synonym i420_layout = "nat \<Rightarrow> nat \<Rightarrow> (nat list \<times> nat list \<times> nat) option"

text \<open>The result, the target, the length of the scratch buffer and the calls; \<open>None\<close> is a panic.\<close>

type_synonym dec_result = "((dec_error + unit) \<times> image_rgb \<times> nat \<times> dec_call list) option"

definition to_fmt_row :: "image_rgb \<Rightarrow> usize" where
  "to_fmt_row rgb = (rgb_w rgb * 4 + align rgb - 1) AND NOT (align rgb - 1)"

definition prepare_rgb :: "hw_image \<Rightarrow> image_rgb \<Rightarrow> image_rgb" where
  "prepare_rgb hi rgb =
     (let rgb1 = rgb\<lparr>rgb_w := of_nat (hi_width hi), rgb_h := of_nat (hi_height hi)\<rparr>
      in rgb1\<lparr>raw := resize (unat (rgb_h rgb1 * to_fmt_row rgb1)) (raw rgb1)\<rparr>)"

definition argb_of :: "'f \<Rightarrow> 'f \<Rightarrow> image_format \<Rightarrow> 'f option" where
  "argb_of a b f = (case f of ARGB \<Rightarrow> Some a | ABGR \<Rightarrow> Some b | _ \<Rightarrow> None)"

definition one_call :: "(dec_call \<Rightarrow> bool) \<Rightarrow> dec_call \<Rightarrow> image_rgb \<Rightarrow> nat \<Rightarrow> dec_call list \<Rightarrow> dec_result" where
  "one_call ok c rgb n cs = Some (if ok c then Inr () else Inl Dec_call_failed, rgb, n, cs @ [c])"

definition to_fmt ::
    "bool \<Rightarrow> i420_layout \<Rightarrow> (dec_call \<Rightarrow> bool) \<Rightarrow> hw_image \<Rightarrow> image_rgb \<Rightarrow> nat \<Rightarrow> dec_result" where
  "to_fmt windows layout ok hi rgb0 n =
     (let rgb = prepare_rgb hi rgb0; w = hi_width hi; h = hi_height hi;
          row = unat (to_fmt_row rgb); ls = hi_linesize hi;
          source = (\<lambda>k. map (\<lambda>i. (In i, 0, ls ! i)) [0..<k]);
          present = (\<lambda>k. k \<le> length (hi_planes hi) \<and> k \<le> length ls);
          to_rgb = (\<lambda>f src. \<lparr>dk_fn = f, dk_src = src, dk_dst = [(Out, 0, row)], dk_width = w, dk_height = h\<rparr>)
      in case hi_pixfmt hi of
           AV_NV12 \<Rightarrow>
             (if windows
              then case layout w h of
                     None \<Rightarrow> Some (Inl No_layout, rgb, n, [])
                   | Some (ls1, off, len) \<Rightarrow>
                       (if length off < 2 \<or> length ls1 < 3 \<or> \<not> present 2 then None
                        else
                          (let scratch = [(I420_scratch, 0, ls1 ! 0), (I420_scratch, off ! 0, ls1 ! 1), (I420_scratch, off ! 1, ls1 ! 2)];
                               c1 = \<lparr>dk_fn = NV12ToI420, dk_src = source 2, dk_dst = scratch, dk_width = w, dk_height = h\<rparr>
                           in if \<not> ok c1 then Some (Inl Dec_call_failed, rgb, len, [c1])
                              else case argb_of I420ToARGB I420ToABGR (fmt rgb) of
                                None \<Rightarrow> Some (Inl Unsupported_format, rgb, len, [c1])
                              | Some f \<Rightarrow> one_call ok (to_rgb f scratch) rgb len [c1]))
              else case argb_of NV12ToARGB NV12ToABGR (fmt rgb) of
                     None \<Rightarrow> Some (Inl Unsupported_format, rgb, n, [])
                   | Some f \<Rightarrow> if \<not> present 2 then None else one_call ok (to_rgb f (source 2)) rgb n [])
         | AV_YUV420P \<Rightarrow>
             (case argb_of I420ToARGB I420ToABGR (fmt rgb) of
                None \<Rightarrow> Some (Inl Unsupported_format, rgb, n, [])
              | Some f \<Rightarrow> if \<not> present 3 then None else one_call ok (to_rgb f (source 3)) rgb n []))"

subsection \<open>Android\<close>

text \<open>The answers of a \<^verbatim>\<open>MediaCodec\<close> during one \<^verbatim>\<open>decode\<close>: the size of the input buffer, if there is one;
  whether the input is taken; the output buffer's length with width, height and stride where the
  format has them. An outer \<open>None\<close> is an error of the codec.\<close>

record media_world =
  mw_input :: "nat option option"
  mw_queue_ok :: bool
  mw_output :: "(nat \<times> (nat \<times> nat \<times> nat) option) option option"
  mw_release_ok :: bool

text \<open>The second arm for \<^verbatim>\<open>ARGB\<close>, with \<^verbatim>\<open>I420ToABGR\<close>, is never taken. The result says whether there is a
  picture; width and height of the target are not set. The codes of libyuv are not looked at.\<close>

definition media_decode :: "media_world \<Rightarrow> nat \<Rightarrow> image_rgb \<Rightarrow> (dec_error + bool) \<times> image_rgb \<times> dec_call list" where
  "media_decode mw len rgb =
     (let rest =
        (case mw_output mw of
           None \<Rightarrow> (Inl Codec_error, rgb, [])
         | Some None \<Rightarrow> (Inr False, rgb, [])
         | Some (Some (n, None)) \<Rightarrow> (Inl Codec_error, rgb, [])
         | Some (Some (n, Some (w, h, st))) \<Rightarrow>
             (let rgb1 = rgb\<lparr>raw := resize (h * w * 4) (raw rgb)\<rparr>
              in case fmt rgb1 of
                   ARGB \<Rightarrow>
                     (if mw_release_ok mw then Inr True else Inl Codec_error, rgb1,
                      [\<lparr>dk_fn = I420ToARGB, dk_src = [(In 0, 0, st), (In 0, n * 2 div 3, st div 2), (In 0, n * 5 div 6, st div 2)],
                        dk_dst = [(Out, 0, w * 4)], dk_width = w, dk_height = h\<rparr>])
                 | _ \<Rightarrow> (Inl Unsupported_format, rgb1, [])))
      in case mw_input mw of
           None \<Rightarrow> (Inl Codec_error, rgb, [])
         | Some None \<Rightarrow> rest
         | Some (Some room) \<Rightarrow>
             (if room < len then (Inl Input_too_large, rgb, [])
              else if \<not> mw_queue_ok mw then (Inl Codec_error, rgb, [])
              else rest))"

subsection \<open>What libyuv touches\<close>

definition dec_src_rows :: "dec_fn \<Rightarrow> nat \<Rightarrow> nat \<Rightarrow> (nat \<times> nat) list" where
  "dec_src_rows f w h =
     (if f = I420ToARGB \<or> f = I420ToABGR then [(w, h), (half w, half h), (half w, half h)]
      else [(w, h), (2 * half w, half h)])"

definition dec_dst_rows :: "dec_fn \<Rightarrow> nat \<Rightarrow> nat \<Rightarrow> (nat \<times> nat) list" where
  "dec_dst_rows f w h = (if f = NV12ToI420 then [(w, h), (half w, half h), (half w, half h)] else [(4 * w, h)])"

text \<open>The lengths of the buffers are given.\<close>

definition plane_in :: "(dec_buffer \<Rightarrow> nat) \<Rightarrow> dec_buffer \<times> nat \<times> nat \<Rightarrow> nat \<times> nat \<Rightarrow> bool" where
  "plane_in len p r = (case (p, r) of ((b, off, st), (n, rows)) \<Rightarrow> extent off st n rows \<le> len b)"

definition dec_in_bounds :: "(dec_buffer \<Rightarrow> nat) \<Rightarrow> dec_call \<Rightarrow> bool" where
  "dec_in_bounds len c \<longleftrightarrow>
     list_all2 (plane_in len) (dk_src c) (dec_src_rows (dk_fn c) (dk_width c) (dk_height c)) \<and>
     list_all2 (plane_in len) (dk_dst c) (dec_dst_rows (dk_fn c) (dk_width c) (dk_height c))"

definition dec_lengths :: "nat list \<Rightarrow> nat \<Rightarrow> nat \<Rightarrow> dec_buffer \<Rightarrow> nat" where
  "dec_lengths ins scratch out b = (case b of In i \<Rightarrow> (if i < length ins then ins ! i else 0) | I420_scratch \<Rightarrow> scratch | Out \<Rightarrow> out)"

lemma plane_inI: "n \<le> st \<Longrightarrow> rows \<le> R \<Longrightarrow> off + R * st \<le> len b \<Longrightarrow> plane_in len (b, off, st) (n, rows)"
  using extent_le [of n st rows R off] by (simp add: plane_in_def)

subsection \<open>Decoded pictures are converted safely\<close>

text \<open>What FFmpeg documents of a picture and of a layout.\<close>

definition hw_image_ok :: "hw_image \<Rightarrow> bool" where
  "hw_image_ok hi \<longleftrightarrow>
     (let w = hi_width hi; h = hi_height hi; p = hi_planes hi; l = hi_linesize hi
      in case hi_pixfmt hi of
           AV_NV12 \<Rightarrow> 2 \<le> length p \<and> 2 \<le> length l \<and> w \<le> l ! 0 \<and> 2 * half w \<le> l ! 1 \<and>
                      h * l ! 0 \<le> p ! 0 \<and> half h * l ! 1 \<le> p ! 1
         | AV_YUV420P \<Rightarrow> 3 \<le> length p \<and> 3 \<le> length l \<and> w \<le> l ! 0 \<and> half w \<le> l ! 1 \<and> half w \<le> l ! 2 \<and>
                      h * l ! 0 \<le> p ! 0 \<and> half h * l ! 1 \<le> p ! 1 \<and> half h * l ! 2 \<le> p ! 2)"

definition i420_fits :: "nat \<Rightarrow> nat \<Rightarrow> (nat list \<times> nat list \<times> nat) option \<Rightarrow> bool" where
  "i420_fits w h r =
     (case r of None \<Rightarrow> True
      | Some (l, off, len) \<Rightarrow> length l = 3 \<and> length off = 2 \<and> w \<le> l ! 0 \<and> half w \<le> l ! 1 \<and> half w \<le> l ! 2 \<and>
          h * l ! 0 \<le> len \<and> off ! 0 + half h * l ! 1 \<le> len \<and> off ! 1 + half h * l ! 2 \<le> len)"

definition safe_dec :: "hw_image \<Rightarrow> dec_result \<Rightarrow> bool" where
  "safe_dec hi r =
     (case r of None \<Rightarrow> False
      | Some (_, rgb, n, cs) \<Rightarrow> list_all (dec_in_bounds (dec_lengths (hi_planes hi) n (length (raw rgb)))) cs)"

lemma upt_2_3: "[0..<2] = [0, 1]" "[0..<3] = [0, 1, 2]"
  by (simp_all add: upt_rec)

lemma prepared_room:
  assumes "align rgb = 2 ^ k" and "k < 64" and "hi_width hi < 2 ^ 31" and "hi_height hi < 2 ^ 31"
    and "hi_height hi * (hi_width hi * 4 + 2 ^ k) < 2 ^ 64" and "hi_width hi * 4 + 2 ^ k < 2 ^ 64"
  shows "4 * hi_width hi \<le> unat (to_fmt_row (prepare_rgb hi rgb))"
    and "length (raw (prepare_rgb hi rgb)) = hi_height hi * unat (to_fmt_row (prepare_rgb hi rgb))"
proof -
  let ?w = "of_nat (hi_width hi) :: usize" and ?h = "of_nat (hi_height hi) :: usize"
  have small: "(2 :: nat) ^ 31 < 2 ^ 64" by simp
  have w: "unat ?w = hi_width hi" and h: "unat ?h = hi_height hi"
    using order.strict_trans [OF assms(3) small] order.strict_trans [OF assms(4) small] by (simp_all add: unat_of_nat)
  have row: "to_fmt_row (prepare_rgb hi rgb) = get_bytes_per_row ?w ARGB (align rgb)"
    by (simp add: to_fmt_row_def prepare_rgb_def get_bytes_per_row_def pixel_bytes_def Let_def)
  have p: "unat (pixel_bytes ARGB) = 4" by (simp add: unat_pixel_bytes)
  have "unat ?w * unat (pixel_bytes ARGB) + 2 ^ k < 2 ^ 64" using assms(6) by (simp add: w p)
  note bounds = bytes_per_row_bounds [OF assms(1,2) this, unfolded w p]
  show "4 * hi_width hi \<le> unat (to_fmt_row (prepare_rgb hi rgb))" using bounds(1) by (simp add: row mult.commute)
  have "hi_height hi * unat (get_bytes_per_row ?w ARGB (align rgb)) \<le> hi_height hi * (hi_width hi * 4 + 2 ^ k)"
    using bounds(2) by (intro mult_le_mono2) simp
  then have "hi_height hi * unat (get_bytes_per_row ?w ARGB (align rgb)) < 2 ^ 64"
    using assms(5) by (rule le_less_trans)
  then have "unat (?h * get_bytes_per_row ?w ARGB (align rgb)) = hi_height hi * unat (get_bytes_per_row ?w ARGB (align rgb))"
    by (simp add: unat_word_ariths(2) h)
  moreover have "length (raw (prepare_rgb hi rgb)) = unat (?h * to_fmt_row (prepare_rgb hi rgb))"
    by (simp add: prepare_rgb_def Let_def to_fmt_row_def)
  ultimately show "length (raw (prepare_rgb hi rgb)) = hi_height hi * unat (to_fmt_row (prepare_rgb hi rgb))"
    by (simp add: row)
qed

lemma one_call_safe:
  assumes "list_all (dec_in_bounds (dec_lengths (hi_planes hi) n (length (raw rgb)))) (cs @ [c])"
  shows "safe_dec hi (one_call ok c rgb n cs)"
  using assms by (simp add: safe_dec_def one_call_def)

lemma argb_fns:
  "argb_of a b f = Some g \<Longrightarrow> g = a \<or> g = b"
  by (cases f) (auto simp: argb_of_def)

lemma out_plane:
  assumes "4 * w \<le> row" and "h * row \<le> len Out"
  shows "plane_in len (Out, 0, row) (4 * w, h)"
  using plane_inI [of "4 * w" row h h 0 len Out] assms by simp

text \<open>C17. Showing a decoded picture is memory safe: for a picture laid out as FFmpeg documents it, a target
  whose alignment is a power of two, and sizes up to 65536, the conversion does not panic and no call
  of libyuv leaves the planes of the picture, the scratch buffer or the target, on Windows with
  its detour through I420 as elsewhere; a target format without a routine is an error.\<close>

theorem decoded_picture_is_memory_safe:
  assumes "hw_image_ok hi" and "i420_fits (hi_width hi) (hi_height hi) (layout (hi_width hi) (hi_height hi))"
    and "align rgb = 2 ^ k" and "k \<le> 16" and "hi_width hi \<le> 65536" and "hi_height hi \<le> 65536"
  shows "safe_dec hi (to_fmt windows layout ok hi rgb n)"
proof -
  let ?w = "hi_width hi" and ?h = "hi_height hi" and ?rgb = "prepare_rgb hi rgb" and ?p = "hi_planes hi" and ?l = "hi_linesize hi"
  have pw: "(2 :: nat) ^ k \<le> 65536" using power_increasing [OF assms(4), of "2 :: nat"] by simp
  have "?h * (?w * 4 + 2 ^ k) \<le> 65536 * (65536 * 4 + 65536)"
    using assms(5,6) pw by (intro mult_le_mono) linarith+
  then have "?h * (?w * 4 + 2 ^ k) < 2 ^ 64" and "?w * 4 + 2 ^ k < 2 ^ 64" using assms(5) pw by simp_all
  note room = prepared_room [OF assms(3) _ _ _ this]
  have row: "4 * ?w \<le> unat (to_fmt_row ?rgb)" and out: "length (raw ?rgb) = ?h * unat (to_fmt_row ?rgb)"
    using room assms(4-6) by simp_all
  have dst: "plane_in (dec_lengths ?p m (length (raw ?rgb))) (Out, 0, unat (to_fmt_row ?rgb)) (4 * ?w, ?h)" for m
    by (rule out_plane [OF row]) (simp add: out dec_lengths_def)
  have plane: "plane_in (dec_lengths ?p m (length (raw ?rgb))) (In i, 0, ?l ! i) (a, b)"
    if "i < length ?p" "a \<le> ?l ! i" "b * ?l ! i \<le> ?p ! i" for i a b m
    by (rule plane_inI [of _ _ _ b]) (use that in \<open>simp_all add: dec_lengths_def\<close>)
  note bounds = dec_in_bounds_def dec_src_rows_def dec_dst_rows_def dst
  show ?thesis
  proof (cases "hi_pixfmt hi")
    case AV_YUV420P
    have ok': "3 \<le> length ?p" "3 \<le> length ?l" and src: "plane_in (dec_lengths ?p m (length (raw ?rgb))) (In 0, 0, ?l ! 0) (?w, ?h)"
      "plane_in (dec_lengths ?p m (length (raw ?rgb))) (In 1, 0, ?l ! 1) (half ?w, half ?h)"
      "plane_in (dec_lengths ?p m (length (raw ?rgb))) (In 2, 0, ?l ! 2) (half ?w, half ?h)" for m
      using assms(1) AV_YUV420P by (auto simp: hw_image_ok_def Let_def intro!: plane)
    show ?thesis
    proof (cases "argb_of I420ToARGB I420ToABGR (fmt ?rgb)")
      case None
      then show ?thesis using AV_YUV420P by (simp add: to_fmt_def Let_def safe_dec_def)
    next
      case (Some f)
      show ?thesis using AV_YUV420P Some ok' src argb_fns [OF Some]
        by (auto simp: to_fmt_def Let_def upt_2_3 bounds simp del: One_nat_def intro!: one_call_safe)
    qed
  next
    case AV_NV12
    have ok': "2 \<le> length ?p" "2 \<le> length ?l" and src: "plane_in (dec_lengths ?p m (length (raw ?rgb))) (In 0, 0, ?l ! 0) (?w, ?h)"
      "plane_in (dec_lengths ?p m (length (raw ?rgb))) (In 1, 0, ?l ! 1) (2 * half ?w, half ?h)" for m
      using assms(1) AV_NV12 by (auto simp: hw_image_ok_def Let_def intro!: plane)
    show ?thesis
    proof (cases windows)
      case False
      show ?thesis
      proof (cases "argb_of NV12ToARGB NV12ToABGR (fmt ?rgb)")
        case None
        then show ?thesis using AV_NV12 False by (simp add: to_fmt_def Let_def safe_dec_def)
      next
        case (Some f)
        show ?thesis using AV_NV12 False Some ok' src argb_fns [OF Some]
          by (auto simp: to_fmt_def Let_def upt_2_3 bounds simp del: One_nat_def intro!: one_call_safe)
      qed
    next
      case True
      show ?thesis
      proof (cases "layout ?w ?h")
        case None
        then show ?thesis using AV_NV12 True by (simp add: to_fmt_def Let_def safe_dec_def)
      next
        case (Some r)
        obtain ls off len where r: "r = (ls, off, len)" by (cases r)
        have fits: "length ls = 3" "length off = 2" "?w \<le> ls ! 0" "half ?w \<le> ls ! 1" "half ?w \<le> ls ! 2"
            "?h * ls ! 0 \<le> len" "off ! 0 + half ?h * ls ! 1 \<le> len" "off ! 1 + half ?h * ls ! 2 \<le> len"
          using assms(2) Some by (simp_all add: r i420_fits_def)
        have scratch: "plane_in (dec_lengths ?p len (length (raw ?rgb))) (I420_scratch, 0, ls ! 0) (?w, ?h)"
          "plane_in (dec_lengths ?p len (length (raw ?rgb))) (I420_scratch, off ! 0, ls ! 1) (half ?w, half ?h)"
          "plane_in (dec_lengths ?p len (length (raw ?rgb))) (I420_scratch, off ! 1, ls ! 2) (half ?w, half ?h)"
          using fits by (auto simp: dec_lengths_def intro!: plane_inI)
        show ?thesis
        proof (cases "argb_of I420ToARGB I420ToABGR (fmt ?rgb)")
          case None
          show ?thesis using AV_NV12 True Some ok' fits(1,2) None
            by (auto simp: to_fmt_def Let_def r upt_2_3 safe_dec_def bounds src scratch simp del: One_nat_def)
        next
          case (Some f)
          show ?thesis using AV_NV12 True \<open>layout ?w ?h = Some r\<close> ok' fits(1,2) Some argb_fns [OF Some]
            by (auto simp: to_fmt_def Let_def r upt_2_3 one_call_def safe_dec_def bounds src scratch simp del: One_nat_def)
        qed
      qed
    qed
  qed
qed

definition demo_hw_image :: hw_image where
  "demo_hw_image = \<lparr>hi_width = 5, hi_height = 3, hi_pixfmt = AV_NV12, hi_planes = [24, 16], hi_linesize = [8, 8]\<rparr>"

theorem decoded_picture_is_memory_safe_witness:
  "safe_dec demo_hw_image (to_fmt True (\<lambda>w h. Some ([8, 4, 4], [24, 32], 40)) (\<lambda>_. True) demo_hw_image (image_rgb_new ABGR 64) 0)"
  by (rule decoded_picture_is_memory_safe [where k = 6])
    (simp_all add: demo_hw_image_def hw_image_ok_def i420_fits_def half_def image_rgb_new_def Let_def)

text \<open>On Android the pictures of a codec whose buffer holds the three planes of a picture of even height
  and stride are read within that buffer.\<close>

lemma media_picture_in_bounds:
  assumes "mw_output mw = Some (Some (n, Some (w, h, st)))" and "w \<le> st" and "even st" and "even h" and "3 * (st * h) \<le> 2 * n"
    and "media_decode mw len rgb = (r, rgb1, cs)"
  shows "list_all (dec_in_bounds (\<lambda>b. if b = Out then length (raw rgb1) else n)) cs"
proof -
  obtain a b where ab: "h = 2 * a" "st = 2 * b" using assms(3,4) by (auto elim!: evenE)
  define ab' where "ab' = a * b"
  have size: "6 * ab' \<le> n" using assms(5) by (simp add: ab ab'_def)
  have hw: "half w \<le> st div 2" using half_mono [OF assms(2)] assms(3) by (simp add: half_even)
  have hh: "half h = a" by (simp add: ab half_def)
  let ?len = "\<lambda>b. if b = Out then length (raw rgb1) else n"
  have q: "3 * (n * 2 div 3) \<le> 2 * n" "6 * (n * 5 div 6) \<le> 5 * n" by simp_all
  have y: "plane_in ?len (In 0, 0, st) (w, h)"
    by (rule plane_inI [of _ _ _ h]) (use assms(2) size in \<open>simp_all add: ab ab'_def\<close>)
  have u: "plane_in ?len (In 0, n * 2 div 3, st div 2) (half w, half h)"
    by (rule plane_inI [of _ _ _ a]) (use hw hh size q in \<open>simp_all add: ab ab'_def\<close>)
  have v: "plane_in ?len (In 0, n * 5 div 6, st div 2) (half w, half h)"
    by (rule plane_inI [of _ _ _ a]) (use hw hh size q in \<open>simp_all add: ab ab'_def\<close>)
  have out: "plane_in ?len (Out, 0, w * 4) (4 * w, h)" if "length (raw rgb1) = h * w * 4"
    by (rule plane_inI [of _ _ _ h]) (use that in simp_all)
  show ?thesis
    using assms(1,6) y u v out
    by (auto simp: media_decode_def Let_def dec_in_bounds_def dec_src_rows_def dec_dst_rows_def
        split: option.splits if_splits image_format.splits)
qed

text \<open>A target in ABGR is refused, although a routine for it stands in the code.\<close>

lemma media_abgr_is_refused:
  "fmt rgb = ABGR \<Longrightarrow> fst (media_decode mw len rgb) \<noteq> Inr True"
  by (auto simp: media_decode_def Let_def split: option.splits)

end
