(* ===== verification/Platform.thy ===== *)
theory Platform
  imports LinuxSession Settings "HOL-Library.Sublist"
begin

text \<open>
  Platform helpers that keep state: the processor monitor of \<^verbatim>\<open>platform/windows.rs\<close>, a window over the
  samples of the last passes, and the handler of \<^verbatim>\<open>platform/mod.rs\<close> that runs when the process
  crashes and switches off what seems to have crashed it. The mean of floating-point samples is
  an argument.
\<close>

subsection \<open>The processor monitor\<close>

text \<open>\<open>cm_shared\<close> is \<^verbatim>\<open>CPU_USAGE_ONE_MINUTE\<close> with the time in seconds.\<close>

record 'f cpu_monitor =
  cm_queue :: "'f list"
  cm_valid :: "bool list"
  cm_shared :: "('f \<times> nat) option"

definition monitor_new :: "'f cpu_monitor" where
  "monitor_new = \<lparr>cm_queue = [], cm_valid = [], cm_shared = None\<rparr>"

definition pop_full :: "'a list \<Rightarrow> 'a list" where
  "pop_full xs = (if length xs = 31 then tl xs else xs)"

text \<open>One pass: publish, then wait for a sample; \<open>None\<close> is one that is missing or invalid.\<close>

definition monitor_pass :: "('f list \<Rightarrow> 'f) \<Rightarrow> nat \<times> 'f option \<Rightarrow> 'f cpu_monitor \<Rightarrow> 'f cpu_monitor" where
  "monitor_pass avg p m =
     (case p of (t, sample) \<Rightarrow>
       (let q = pop_full (cm_queue m); v = pop_full (cm_valid m);
            shared = (if 0 < length q \<and> length q div 2 < length (filter (\<lambda>b. b) v) then Some (avg q, t) else None)
        in case sample of
             None \<Rightarrow> \<lparr>cm_queue = q, cm_valid = v @ [False], cm_shared = shared\<rparr>
           | Some x \<Rightarrow> \<lparr>cm_queue = q @ [x], cm_valid = v @ [True], cm_shared = shared\<rparr>))"

fun monitor_run :: "('f list \<Rightarrow> 'f) \<Rightarrow> (nat \<times> 'f option) list \<Rightarrow> 'f cpu_monitor \<Rightarrow> 'f cpu_monitor" where
  "monitor_run avg [] m = m"
| "monitor_run avg (p # ps) m = monitor_run avg ps (monitor_pass avg p m)"

definition cpu_uage_one_minute :: "nat \<Rightarrow> ('f \<times> nat) option \<Rightarrow> 'f option" where
  "cpu_uage_one_minute t shared = (case shared of Some (v, t0) \<Rightarrow> if t - t0 < 30 then Some v else None | None \<Rightarrow> None)"

definition sync_cpu_usage :: "nat \<Rightarrow> 'f option \<Rightarrow> ('f \<times> nat) option" where
  "sync_cpu_usage t v = map_option (\<lambda>x. (x, t)) v"

text \<open>The valid samples of a run.\<close>

definition samples_of :: "(nat \<times> 'f option) list \<Rightarrow> 'f list" where
  "samples_of ps = List.map_filter snd ps"

definition monitor_inv :: "'f list \<Rightarrow> 'f cpu_monitor \<Rightarrow> bool" where
  "monitor_inv xs m \<longleftrightarrow> suffix (cm_queue m) xs \<and> length (cm_queue m) \<le> 31 \<and> length (cm_valid m) \<le> 31 \<and>
     (length (cm_queue m) < 30 \<longrightarrow> cm_queue m = xs)"

lemma pop_full_suffix: "suffix (pop_full xs) xs" and pop_full_length: "length xs \<le> 31 \<Longrightarrow> length (pop_full xs) \<le> 30"
  by (auto simp: pop_full_def suffix_tl)

lemma monitor_pass_inv:
  assumes "monitor_inv xs m"
  shows "monitor_inv (xs @ samples_of [p]) (monitor_pass avg p m)"
proof -
  obtain t s where p: "p = (t, s)" by (cases p)
  have q: "suffix (pop_full (cm_queue m)) xs" "length (pop_full (cm_queue m)) \<le> 30" "length (pop_full (cm_valid m)) \<le> 30"
    using assms suffix_order.trans [OF pop_full_suffix] by (auto simp: monitor_inv_def pop_full_length)
  have full: "pop_full (cm_queue m) = xs" if "length (pop_full (cm_queue m)) < 30"
    using assms that by (auto simp: monitor_inv_def pop_full_def split: if_splits)
  show ?thesis
    using q full by (cases s) (auto simp: p monitor_pass_def Let_def monitor_inv_def samples_of_def List.map_filter_def suffix_def)
qed

lemma samples_of_append: "samples_of (ps @ qs) = samples_of ps @ samples_of qs"
  by (simp add: samples_of_def List.map_filter_def)

lemma monitor_run_inv: "monitor_inv xs m \<Longrightarrow> monitor_inv (xs @ samples_of ps) (monitor_run avg ps m)"
proof (induction ps arbitrary: xs m)
  case Nil
  then show ?case by (simp add: samples_of_def List.map_filter_def)
next
  case (Cons p ps)
  show ?case using Cons.IH [OF monitor_pass_inv [OF Cons.prems, of p avg]] samples_of_append [of "[p]" ps] by simp
qed

text \<open>The window of the processor monitor is bounded and exact: after any samples it holds the latest
  ones, all of them up to 29 and 30 or 31 afterwards, however many measurements failed in between;
  what is published is the mean of such a window, and readers see it for less than 30 seconds.\<close>

theorem cpu_window_is_bounded:
  "let m = monitor_run avg ps monitor_new in
     suffix (cm_queue m) (samples_of ps) \<and> length (cm_queue m) \<le> 31 \<and> length (cm_valid m) \<le> 31 \<and>
     (if length (samples_of ps) < 30 then cm_queue m = samples_of ps else 30 \<le> length (cm_queue m)) \<and>
     (case cpu_uage_one_minute t (cm_shared (monitor_pass avg (t0, s) m)) of
        None \<Rightarrow> True
      | Some v \<Rightarrow> v = avg (pop_full (cm_queue m)) \<and> pop_full (cm_queue m) \<noteq> [] \<and> t < t0 + 30)"
proof -
  define m where "m = monitor_run avg ps (monitor_new :: 'a cpu_monitor)"
  have "monitor_inv [] (monitor_new :: 'a cpu_monitor)" by (simp add: monitor_inv_def monitor_new_def)
  from monitor_run_inv [OF this, of ps avg] have inv: "monitor_inv (samples_of ps) m" by (simp add: m_def)
  then have "length (cm_queue m) \<le> length (samples_of ps)" by (simp add: monitor_inv_def suffix_length_le)
  then have len: "if length (samples_of ps) < 30 then cm_queue m = samples_of ps else 30 \<le> length (cm_queue m)"
    using inv by (auto simp: monitor_inv_def not_less)
  have "case cpu_uage_one_minute t (cm_shared (monitor_pass avg (t0, s) m)) of
        None \<Rightarrow> True
      | Some v \<Rightarrow> v = avg (pop_full (cm_queue m)) \<and> pop_full (cm_queue m) \<noteq> [] \<and> t < t0 + 30"
    by (cases s) (auto simp: cpu_uage_one_minute_def monitor_pass_def Let_def)
  then show ?thesis using inv len unfolding m_def [symmetric] Let_def by (simp add: monitor_inv_def)
qed

text \<open>With every other measurement failing the window reaches back two minutes, not the latest one:
  60 passes of two seconds leave the samples of the first passes in it.\<close>

lemma window_spans_two_minutes:
  "cm_queue (monitor_run (\<lambda>_. 0) (map (\<lambda>i. (2 * i, if even i then Some i else None)) [0..<58]) monitor_new) ! 0 = 0"
  by (simp add: monitor_run.simps monitor_pass_def monitor_new_def pop_full_def upt_conv_Cons Let_def)

subsection \<open>The crash handler\<close>

definition mentions :: "string list \<Rightarrow> string list \<Rightarrow> string list \<Rightarrow> bool" where
  "mentions stack exact folded \<longleftrightarrow>
     list_ex (\<lambda>s. list_ex (contains s) exact \<or> list_ex (contains (to_lower s)) folded) stack"

definition software_render_suspect :: "string list \<Rightarrow> bool" where
  "software_render_suspect stack = mentions stack [''nouveau_pushbuf_kick'', ''gdk_window_end_draw_frame'', ''glGetString''] [''nvidia'']"

definition hwcodec_suspect :: "string list \<Rightarrow> bool" where
  "hwcodec_suspect stack = mentions stack [''cuProfilerStop''] [''nvidia'', ''amf'', ''mfx'']"

text \<open>The settings after the handler, and the message it shows, if any; then the callback runs and the
  process ends.\<close>

definition breakdown_handler :: "crypto \<Rightarrow> string list \<Rightarrow> app \<Rightarrow> app \<times> string option" where
  "breakdown_handler cr stack a =
     (let (a1, info1) = (if software_render_suspect stack
            then (config_set_option cr ''allow-always-software-render'' ''Y'' a, ''Always use software rendering will be set.'')
            else (a, ''''));
          (a2, info2) = (if hwcodec_suspect stack
            then (config_set_option cr ''enable-hwcodec'' ''N'' a1, ''Perhaps hwcodec causing the crash, disable it first'')
            else (a1, info1))
      in (a2, if info2 = '''' then None else Some info2))"

lemma innocent_stack_changes_nothing:
  "\<not> software_render_suspect stack \<Longrightarrow> \<not> hwcodec_suspect stack \<Longrightarrow> breakdown_handler cr stack a = (a, None)"
  by (simp add: breakdown_handler_def)

text \<open>A driver of NVIDIA in the stack switches both off; the message names the second only.\<close>

lemma contains_self: "contains s s"
  by (cases s) (auto simp: starts_with_def)

lemma nvidia_switches_both_off:
  "''libnvidia'' \<in> set stack \<Longrightarrow>
   breakdown_handler cr stack a =
     (config_set_option cr ''enable-hwcodec'' ''N'' (config_set_option cr ''allow-always-software-render'' ''Y'' a),
      Some ''Perhaps hwcodec causing the crash, disable it first'')"
proof -
  assume s: "''libnvidia'' \<in> set stack"
  have n: "contains (to_lower ''libnvidia'') ''nvidia''"
    by (simp add: to_lower_def starts_with_def)
  have "software_render_suspect stack" "hwcodec_suspect stack"
    using s n by (auto simp: software_render_suspect_def hwcodec_suspect_def mentions_def list_ex_iff intro!: bexI [of _ "''libnvidia''"])
  then show ?thesis by (simp add: breakdown_handler_def)
qed

end
