(* ===== verification/Handles.thy ===== *)
theory Handles
  imports Displays "HOL-Library.Multiset"
begin

text \<open>
  What the capturers of \<^verbatim>\<open>libs/scrap/src\<close> take from the system and give back: \<^verbatim>\<open>dxgi/gdi.rs\<close> with its
  device contexts and its bitmap, \<^verbatim>\<open>dxgi/mag.rs\<close> with the magnification library and its windows,
  \<^verbatim>\<open>x11/server.rs\<close> and \<^verbatim>\<open>x11/capturer.rs\<close> with the connection and the shared memory. The system is
  a ledger: the answers of its calls are an argument, the resources that are open are counted, and so
  is every attempt to close one that is not open. Calls that close a resource succeed.
\<close>

subsection \<open>The ledger\<close>

datatype resource =
  Screen_dc | Memory_dc | Bitmap | Dll | Magnifier_runtime | Window
| Connection | Xcb_reply | Xcb_error | Segment | Mapping | Attachment

type_synonym handle = "resource \<times> nat"

text \<open>\<open>os_answer n\<close> says whether the \<open>n\<close>-th call succeeds; a handle carries the number of its call.\<close>

record os =
  os_answer :: "nat \<Rightarrow> bool"
  os_calls :: nat
  os_open :: "handle multiset"
  os_faults :: nat

definition ask :: "os \<Rightarrow> bool \<times> os" where
  "ask s = (os_answer s (os_calls s), s\<lparr>os_calls := os_calls s + 1\<rparr>)"

text \<open>A call that always yields a resource, and one that may fail.\<close>

definition open_handle :: "resource \<Rightarrow> os \<Rightarrow> handle \<times> os" where
  "open_handle r s = ((r, os_calls s), s\<lparr>os_calls := os_calls s + 1, os_open := add_mset (r, os_calls s) (os_open s)\<rparr>)"

definition grant :: "resource \<Rightarrow> os \<Rightarrow> handle option \<times> os" where
  "grant r s =
     (if os_answer s (os_calls s) then (case open_handle r s of (h, s1) \<Rightarrow> (Some h, s1))
      else (None, s\<lparr>os_calls := os_calls s + 1\<rparr>))"

definition give_back :: "handle \<Rightarrow> os \<Rightarrow> os" where
  "give_back h s =
     (if h \<in># os_open s then s\<lparr>os_open := os_open s - {#h#}\<rparr> else s\<lparr>os_faults := os_faults s + 1\<rparr>)"

definition give_back_opt :: "handle option \<Rightarrow> os \<Rightarrow> os" where
  "give_back_opt h s = (case h of Some x \<Rightarrow> give_back x s | None \<Rightarrow> s)"

subsection \<open>GDI\<close>

datatype gdi_error = Empty_name | No_screen_dc | No_memory_dc | No_bitmap | Not_selected | Blit_failed | No_bits

record gdi_capturer =
  gc_screen_dc :: handle
  gc_dc :: handle
  gc_bmp :: handle
  gc_width :: i32
  gc_height :: i32

definition gdi_new :: "u16 list \<Rightarrow> i32 \<Rightarrow> i32 \<Rightarrow> os \<Rightarrow> (gdi_error + gdi_capturer) \<times> os" where
  "gdi_new name w h s =
     (if name = [] then (Inl Empty_name, s)
      else case grant Screen_dc s of
        (None, s1) \<Rightarrow> (Inl No_screen_dc, s1)
      | (Some screen_dc, s1) \<Rightarrow>
          (case grant Memory_dc s1 of
             (None, s2) \<Rightarrow> (Inl No_memory_dc, give_back screen_dc s2)
           | (Some dc, s2) \<Rightarrow>
               (case grant Bitmap s2 of
                  (None, s3) \<Rightarrow> (Inl No_bitmap, give_back dc (give_back screen_dc s3))
                | (Some bmp, s3) \<Rightarrow>
                    (case ask s3 of
                       (ok, s4) \<Rightarrow>
                         if ok
                         then (Inr \<lparr>gc_screen_dc = screen_dc, gc_dc = dc, gc_bmp = bmp, gc_width = w, gc_height = h\<rparr>, s4)
                         else (Inl Not_selected, give_back bmp (give_back dc (give_back screen_dc s4)))))))"

definition gdi_drop :: "gdi_capturer \<Rightarrow> os \<Rightarrow> os" where
  "gdi_drop c s = give_back (gc_bmp c) (give_back (gc_dc c) (give_back (gc_screen_dc c) s))"

definition create_gdi :: "dx_display \<Rightarrow> os \<Rightarrow> gdi_capturer option \<times> os" where
  "create_gdi d s =
     (case gdi_new (dd_wide_name d) (dd_width d) (dd_height d) s of
        (Inr c, s1) \<Rightarrow> (Some c, s1)
      | (Inl _, s1) \<Rightarrow> (None, s1))"

text \<open>The picture: \<open>bits\<close> is what \<^verbatim>\<open>GetDIBits\<close> writes into a buffer of the given size, \<open>mirror\<close> and
  \<open>rot180\<close> are libyuv's routines on pictures of a width and a height. The arithmetic of \<^verbatim>\<open>i32\<close>
  wraps. \<open>None\<close> is a panic: a size that is negative, or 0.\<close>

definition PIXEL_WIDTH :: i32 where "PIXEL_WIDTH = 4"

definition gdi_size :: "gdi_capturer \<Rightarrow> usize" where
  "gdi_size c = scast (gc_width c * PIXEL_WIDTH * gc_height c)"

definition gdi_frame ::
    "bool \<Rightarrow> (nat \<Rightarrow> bytes option) \<Rightarrow> (nat \<Rightarrow> nat \<Rightarrow> bytes \<Rightarrow> bytes) \<Rightarrow> (nat \<Rightarrow> nat \<Rightarrow> bytes \<Rightarrow> bytes)
      \<Rightarrow> gdi_capturer \<Rightarrow> bytes \<Rightarrow> ((gdi_error + unit) \<times> bytes) option" where
  "gdi_frame blit bits mirror rot180 c data =
     (if \<not> blit then Some (Inl Blit_failed, data)
      else
        (let size = unat (gdi_size c); w = nat (sint (gc_width c)); h = nat (sint (gc_height c))
         in if size = 0 \<or> 2 ^ 63 \<le> size then None
            else case bits size of
              None \<Rightarrow> Some (Inl No_bits, resize size data)
            | Some b \<Rightarrow> Some (Inr (), rot180 w h (mirror w h b))))"

text \<open>Falling back to GDI (\<open>True\<close>) and leaving it: the new value is made before the old one is dropped.\<close>

definition drop_opt :: "('c \<Rightarrow> os \<Rightarrow> os) \<Rightarrow> 'c option \<Rightarrow> os \<Rightarrow> os" where
  "drop_opt destroy c s = (case c of Some x \<Rightarrow> destroy x s | None \<Rightarrow> s)"

fun replace_run ::
    "(os \<Rightarrow> 'c option \<times> os) \<Rightarrow> ('c \<Rightarrow> os \<Rightarrow> os) \<Rightarrow> bool list \<Rightarrow> 'c option \<times> os \<Rightarrow> 'c option \<times> os" where
  "replace_run create destroy [] cs = cs"
| "replace_run create destroy (b # bs) (c, s) =
     replace_run create destroy bs
       (if b then (case create s of (c1, s1) \<Rightarrow> (c1, drop_opt destroy c s1)) else (None, drop_opt destroy c s))"

subsection \<open>The magnifier\<close>

datatype mag_error =
  Outside_screen | No_library | No_function | Init_failed | No_module | No_class | No_host_window
| No_magnifier_window | No_callback | Nul_in_name | Filter_failed | Position_failed | Source_failed | No_data

text \<open>\<open>mi_runtime\<close> is there when \<^verbatim>\<open>init_succeeded\<close>.\<close>

record mag_interface =
  mi_runtime :: "handle option"
  mi_lib :: "handle option"

definition mag_uninit :: "mag_interface \<Rightarrow> os \<Rightarrow> mag_interface \<times> os" where
  "mag_uninit mi s =
     (case mi_runtime mi of
        None \<Rightarrow> (mi, s)
      | Some r \<Rightarrow> (\<lparr>mi_runtime = None, mi_lib = None\<rparr>, give_back_opt (mi_lib mi) (give_back r s)))"

fun load_funcs :: "nat \<Rightarrow> os \<Rightarrow> bool \<times> os" where
  "load_funcs 0 s = (True, s)"
| "load_funcs (Suc n) s = (case ask s of (ok, s1) \<Rightarrow> if ok then load_funcs n s1 else (False, s1))"

text \<open>On an error the value that has been built so far is dropped.\<close>

definition mag_interface_new :: "os \<Rightarrow> (mag_error + mag_interface) \<times> os" where
  "mag_interface_new s =
     (case grant Dll s of
        (None, s1) \<Rightarrow> (Inl No_library, snd (mag_uninit \<lparr>mi_runtime = None, mi_lib = None\<rparr> s1))
      | (Some lib, s1) \<Rightarrow>
          (case load_funcs 5 s1 of
             (ok, s2) \<Rightarrow>
               if \<not> ok then (Inl No_function, snd (mag_uninit \<lparr>mi_runtime = None, mi_lib = Some lib\<rparr> s2))
               else
                 (case grant Magnifier_runtime s2 of
                    (None, s3) \<Rightarrow> (Inl Init_failed, snd (mag_uninit \<lparr>mi_runtime = None, mi_lib = Some lib\<rparr> s3))
                  | (Some r, s3) \<Rightarrow> (Inr \<lparr>mi_runtime = Some r, mi_lib = Some lib\<rparr>, s3))))"

definition mag_is_supported :: "os \<Rightarrow> bool \<times> os" where
  "mag_is_supported s =
     (case mag_interface_new s of
        (Inr mi, s1) \<Rightarrow> (True, snd (mag_uninit mi s1))
      | (Inl _, s1) \<Rightarrow> (False, s1))"

record mag_rect =
  mr_left :: i32
  mr_top :: i32
  mr_right :: i32
  mr_bottom :: i32

record mag_capturer =
  mc_interface :: mag_interface
  mc_host :: "handle option"
  mc_magnifier :: "handle option"
  mc_rect :: mag_rect
  mc_width :: usize
  mc_height :: usize

definition destroy_windows :: "mag_capturer \<Rightarrow> os \<Rightarrow> mag_capturer \<times> os" where
  "destroy_windows c s =
     (c\<lparr>mc_magnifier := None, mc_host := None\<rparr>, give_back_opt (mc_host c) (give_back_opt (mc_magnifier c) s))"

text \<open>The value's own \<^verbatim>\<open>drop\<close>, and then that of its interface.\<close>

definition mag_drop :: "mag_capturer \<Rightarrow> os \<Rightarrow> os" where
  "mag_drop c s =
     (case destroy_windows c s of
        (c1, s1) \<Rightarrow> (case mag_uninit (mc_interface c1) s1 of (mi, s2) \<Rightarrow> snd (mag_uninit mi s2)))"

text \<open>The virtual screen, of \<^verbatim>\<open>GetSystemMetrics\<close>. Arithmetic wraps.\<close>

record virtual_screen =
  vs_x :: i32
  vs_y :: i32
  vs_w :: i32
  vs_h :: i32

definition new_in_screen :: "virtual_screen \<Rightarrow> i32 \<times> i32 \<Rightarrow> usize \<Rightarrow> usize \<Rightarrow> bool" where
  "new_in_screen v origin w h \<longleftrightarrow>
     vs_x v \<le>s fst origin \<and> vs_y v \<le>s snd origin \<and> w \<le> scast (vs_w v) \<and> h \<le> scast (vs_h v)"

definition frame_in_screen :: "virtual_screen \<Rightarrow> mag_rect \<Rightarrow> bool" where
  "frame_in_screen v r \<longleftrightarrow>
     vs_x v \<le>s mr_left r \<and> vs_y v \<le>s mr_top r \<and> mr_right r \<le>s vs_x v + vs_w v \<and> mr_bottom r \<le>s vs_y v + vs_h v"

definition mag_rect_of :: "i32 \<times> i32 \<Rightarrow> usize \<Rightarrow> usize \<Rightarrow> mag_rect" where
  "mag_rect_of origin w h =
     \<lparr>mr_left = fst origin, mr_top = snd origin, mr_right = fst origin + ucast w, mr_bottom = snd origin + ucast h\<rparr>"

text \<open>Registering the class of windows; that it exists is no error.\<close>

definition register_class :: "os \<Rightarrow> bool \<times> os" where
  "register_class s = (case ask s of (ok, s1) \<Rightarrow> if ok then (True, s1) else ask s1)"

definition mag_new :: "virtual_screen \<Rightarrow> i32 \<times> i32 \<Rightarrow> usize \<Rightarrow> usize \<Rightarrow> os \<Rightarrow> (mag_error + mag_capturer) \<times> os" where
  "mag_new v origin w h s =
     (if \<not> new_in_screen v origin w h then (Inl Outside_screen, s)
      else case mag_interface_new s of
        (Inl e, s1) \<Rightarrow> (Inl e, s1)
      | (Inr mi, s1) \<Rightarrow>
          (let c = \<lparr>mc_interface = mi, mc_host = None, mc_magnifier = None, mc_rect = mag_rect_of origin w h,
                    mc_width = w, mc_height = h\<rparr>
           in case ask s1 of
                (ok2, s2) \<Rightarrow>
                  if \<not> ok2 then (Inl No_module, mag_drop c s2)
                  else case register_class s2 of
                    (ok3, s3) \<Rightarrow>
                      if \<not> ok3 then (Inl No_class, mag_drop c s3)
                      else case grant Window s3 of
                        (None, s4) \<Rightarrow> (Inl No_host_window, mag_drop c s4)
                      | (Some host, s4) \<Rightarrow>
                          (case grant Window s4 of
                             (None, s5) \<Rightarrow> (Inl No_magnifier_window, mag_drop (c\<lparr>mc_host := Some host\<rparr>) s5)
                           | (Some m, s5) \<Rightarrow>
                               (let c1 = c\<lparr>mc_host := Some host, mc_magnifier := Some m\<rparr>
                                in case ask s5 of
                                     (ok6, s6) \<Rightarrow> if ok6 then (Inr c1, s6) else (Inl No_callback, mag_drop c1 s6)))))"

text \<open>Leaving a window out: its class and name become C strings. \<open>None\<close> is the panic of a class name
  with a NUL.\<close>

definition has_nul :: "string \<Rightarrow> bool" where "has_nul s \<longleftrightarrow> char_of (0 :: nat) \<in> set s"

definition mag_exclude :: "string \<Rightarrow> string \<Rightarrow> os \<Rightarrow> ((mag_error + bool) \<times> os) option" where
  "mag_exclude cls name s =
     (if has_nul name then Some (Inl Nul_in_name, s)
      else if has_nul cls then None
      else case ask s of
        (found, s1) \<Rightarrow>
          if \<not> found then Some (Inr False, s1)
          else case ask s1 of (ok, s2) \<Rightarrow> Some (if ok then Inr True else Inl Filter_failed, s2))"

definition get_rect :: "mag_capturer \<Rightarrow> (i32 \<times> i32) \<times> usize \<times> usize" where
  "get_rect c = ((mr_left (mc_rect c), mr_top (mc_rect c)), mc_width c, mc_height c)"

text \<open>\<^verbatim>\<open>MAG_BUFFER\<close>, and a call of \<^verbatim>\<open>on_gag_image_scaling_callback\<close>: whether the format is the
  expected one, and the picture. An empty picture panics, which ends the process: \<open>None\<close>.\<close>

type_synonym mag_buffer = "bool \<times> bytes"

type_synonym scaling_call = "bool \<times> bytes"

definition mag_buffer_new :: mag_buffer where "mag_buffer_new = (False, [])"

definition mag_clear :: "mag_buffer \<Rightarrow> mag_buffer" where "mag_clear b = (False, [])"

definition on_scaling :: "scaling_call \<Rightarrow> mag_buffer \<Rightarrow> mag_buffer option" where
  "on_scaling c b =
     (let b1 = mag_clear b
      in if \<not> fst c then Some b1
         else if snd c = [] then None
         else Some (True, snd c))"

fun scaling_run :: "scaling_call list \<Rightarrow> mag_buffer \<Rightarrow> mag_buffer option" where
  "scaling_run [] b = Some b"
| "scaling_run (c # cs) b = (case on_scaling c b of None \<Rightarrow> None | Some b1 \<Rightarrow> scaling_run cs b1)"

text \<open>\<open>calls\<close>: the calls of the callback while \<^verbatim>\<open>MagSetWindowSource\<close> runs. \<open>None\<close> is a panic.\<close>

definition mag_frame ::
    "virtual_screen \<Rightarrow> bool \<Rightarrow> scaling_call list \<Rightarrow> bool \<Rightarrow> mag_capturer \<Rightarrow> mag_buffer \<Rightarrow> bytes
      \<Rightarrow> ((mag_error + unit) \<times> bytes \<times> mag_buffer) option" where
  "mag_frame v positioned calls sourced c b data =
     (let b1 = mag_clear b
      in if \<not> frame_in_screen v (mc_rect c) then Some (Inl Outside_screen, data, b1)
         else if \<not> positioned then Some (Inl Position_failed, data, b1)
         else case scaling_run calls b1 of
           None \<Rightarrow> None
         | Some b2 \<Rightarrow>
             (if \<not> sourced then Some (Inl Source_failed, data, b2)
              else if \<not> fst b2 then Some (Inl No_data, data, b2)
              else if snd b2 = [] then None
              else Some (Inr (), snd b2, b2)))"

text \<open>\<^verbatim>\<open>CapturerMag\<close> of \<^verbatim>\<open>common/dxgi.rs\<close>: the buffer of the capturer as a picture.\<close>

definition mag_capture ::
    "virtual_screen \<Rightarrow> bool \<Rightarrow> scaling_call list \<Rightarrow> bool \<Rightarrow> mag_capturer \<Rightarrow> mag_buffer \<Rightarrow> bytes
      \<Rightarrow> ((mag_error + pixel_buffer) \<times> bytes \<times> mag_buffer) option" where
  "mag_capture v positioned calls sourced c b data =
     (case mag_frame v positioned calls sourced c b data of
        None \<Rightarrow> None
      | Some (Inl e, d, b1) \<Rightarrow> Some (Inl e, d, b1)
      | Some (Inr _, d, b1) \<Rightarrow>
          map_option (\<lambda>p. (Inr p, d, b1)) (pixel_buffer_new d BGRA (unat (mc_width c)) (unat (mc_height c))))"

subsection \<open>X11\<close>

datatype x11_error = X_generic | X_unsupported_extension | X_insufficient_memory | X_request_too_long | X_parse_error | X_invalid_screen

definition x11_error_of :: "int \<Rightarrow> x11_error" where
  "x11_error_of x =
     (if x = 2 then X_unsupported_extension else if x = 3 then X_insufficient_memory
      else if x = 4 then X_request_too_long else if x = 5 then X_parse_error
      else if x = 6 then X_invalid_screen else X_generic)"

text \<open>\<^verbatim>\<open>xcb_connect\<close> always yields a connection, whose error code may not be 0.\<close>

definition server_connect :: "int \<Rightarrow> os \<Rightarrow> (x11_error + handle) \<times> os" where
  "server_connect code s =
     (case open_handle Connection s of
        (c, s1) \<Rightarrow> if code \<noteq> 0 then (Inl (x11_error_of code), give_back c s1) else (Inr c, s1))"

definition server_drop :: "handle \<Rightarrow> os \<Rightarrow> os" where "server_drop c s = give_back c s"

text \<open>The reply and the error of the query are allocated by xcb, where there is one.\<close>

definition check_x11_shm_available :: "bool \<Rightarrow> bool \<Rightarrow> os \<Rightarrow> (x11_error + unit) \<times> os" where
  "check_x11_shm_available reply err s =
     (let (r, s1) = (if reply then (case open_handle Xcb_reply s of (h, t) \<Rightarrow> (Some h, t)) else (None, s));
          (e, s2) = (if err then (case open_handle Xcb_error s1 of (h, t) \<Rightarrow> (Some h, t)) else (None, s1))
      in case r of
           None \<Rightarrow> (Inl X_unsupported_extension, s2)
         | Some rh \<Rightarrow>
             (let s3 = give_back rh s2
              in case e of None \<Rightarrow> (Inr (), s3) | Some eh \<Rightarrow> (Inl X_generic, give_back eh s3)))"

record shm_capturer =
  sc_segment :: handle
  sc_mapping :: handle
  sc_attachment :: handle

definition shm_new :: "os \<Rightarrow> shm_capturer option \<times> os" where
  "shm_new s =
     (case grant Segment s of
        (None, s1) \<Rightarrow> (None, s1)
      | (Some seg, s1) \<Rightarrow>
          (case grant Mapping s1 of
             (None, s2) \<Rightarrow> (None, s2)
           | (Some m, s2) \<Rightarrow>
               (case open_handle Attachment s2 of
                  (a, s3) \<Rightarrow> (Some \<lparr>sc_segment = seg, sc_mapping = m, sc_attachment = a\<rparr>, s3))))"

definition shm_drop :: "shm_capturer \<Rightarrow> os \<Rightarrow> os" where
  "shm_drop c s = give_back (sc_segment c) (give_back (sc_mapping c) (give_back (sc_attachment c) s))"

end
