(* ===== verification/HandleProps.thy ===== *)
theory HandleProps
  imports Handles
begin

text \<open>
  The capturers and the ledger of the system: what they open they give back, once, on every path;
  where that fails, which resource stays open. The picture of the magnifier is the one of the same
  call, and that of GDI stands upright.
\<close>

subsection \<open>Values that own resources\<close>

definition books :: "os \<Rightarrow> handle multiset \<times> nat" where
  "books s = (os_open s, os_faults s)"

definition held :: "('c \<Rightarrow> handle multiset) \<Rightarrow> 'c option \<Rightarrow> handle multiset" where
  "held owned c = (case c of Some x \<Rightarrow> owned x | None \<Rightarrow> {#})"

lemma books_iff: "books s = (m, n) \<longleftrightarrow> os_open s = m \<and> os_faults s = n"
  by (simp add: books_def)

lemma books_ask: "ask s = (ok, s1) \<Longrightarrow> os_open s1 = os_open s" "ask s = (ok, s1) \<Longrightarrow> os_faults s1 = os_faults s"
  by (auto simp: ask_def)

lemma books_open_handle:
  "open_handle r s = (h, s1) \<Longrightarrow> os_open s1 = add_mset h (os_open s)"
  "open_handle r s = (h, s1) \<Longrightarrow> os_faults s1 = os_faults s"
  by (auto simp: open_handle_def)

lemma books_grant:
  "grant r s = (Some h, s1) \<Longrightarrow> os_open s1 = add_mset h (os_open s)"
  "grant r s = (None, s1) \<Longrightarrow> os_open s1 = os_open s"
  "grant r s = (x, s1) \<Longrightarrow> os_faults s1 = os_faults s"
  by (auto simp: grant_def open_handle_def split: if_splits)

lemma books_give_back [simp]:
  "h \<in># os_open s \<Longrightarrow> os_open (give_back h s) = os_open s - {#h#}"
  "h \<in># os_open s \<Longrightarrow> os_faults (give_back h s) = os_faults s"
  by (simp_all add: give_back_def)

lemma books_give_back_all:
  "mset hs \<subseteq># os_open s \<Longrightarrow> books (fold give_back hs s) = (os_open s - mset hs, os_faults s)"
proof (induction hs arbitrary: s)
  case Nil
  then show ?case by (simp add: books_def)
next
  case (Cons h hs)
  have h: "h \<in># os_open s" using Cons.prems by (auto simp: insert_subset_eq_iff)
  have "mset hs \<subseteq># os_open (give_back h s)" using Cons.prems h
    by (simp add: insert_subset_eq_iff)
  from Cons.IH [OF this] show ?case using h by simp
qed

text \<open>The contract: making one that succeeds opens what the value owns, and destroying gives that back.
  What fails may leave something behind, or nothing.\<close>

locale leaky_owner =
  fixes create :: "os \<Rightarrow> 'c option \<times> os" and destroy :: "'c \<Rightarrow> os \<Rightarrow> os" and owned :: "'c \<Rightarrow> handle multiset"
  assumes creates: "create s = (Some c, s1) \<Longrightarrow> books s1 = (os_open s + owned c, os_faults s)"
    and leaves: "create s = (None, s1) \<Longrightarrow> os_open s \<subseteq># os_open s1 \<and> os_faults s1 = os_faults s"
    and destroys: "owned c \<subseteq># os_open s \<Longrightarrow> books (destroy c s) = (os_open s - owned c, os_faults s)"
begin

lemma drop_opt_books:
  "held owned c \<subseteq># os_open s \<Longrightarrow> books (drop_opt destroy c s) = (os_open s - held owned c, os_faults s)"
  using destroys by (cases c) (simp_all add: drop_opt_def held_def books_def)

lemma create_books:
  assumes "create s = (c, s1)"
  shows "os_open s + held owned c \<subseteq># os_open s1" and "os_faults s1 = os_faults s"
  using creates leaves assms by (cases c; force simp: held_def books_def)+

lemma run_keeps:
  assumes "base + held owned c \<subseteq># os_open s" and "replace_run create destroy bs (c, s) = (c1, s1)"
  shows "base + held owned c1 \<subseteq># os_open s1 \<and> os_faults s1 = os_faults s"
  using assms
proof (induction bs arbitrary: c s)
  case Nil
  then show ?case by simp
next
  case (Cons b bs)
  obtain c2 s2 where n: "create s = (c2, s2)" by (cases "create s")
  define t where "t = (if b then s2 else s)"
  define d where "d = (if b then c2 else None)"
  have t: "base + held owned c + held owned d \<subseteq># os_open t" "os_faults t = os_faults s"
  proof -
    have "base + held owned c + held owned c2 \<subseteq># os_open s + held owned c2" using Cons.prems(1) by simp
    also have "\<dots> \<subseteq># os_open s2" by (rule create_books(1) [OF n])
    finally have "base + held owned c + held owned c2 \<subseteq># os_open s2" .
    then show "base + held owned c + held owned d \<subseteq># os_open t" using Cons.prems(1) by (auto simp: t_def d_def held_def)
    show "os_faults t = os_faults s" using create_books(2) [OF n] by (simp add: t_def)
  qed
  then obtain r where r: "os_open t = base + held owned c + held owned d + r" by (auto simp: subset_mset.le_iff_add)
  then have "held owned c \<subseteq># os_open t" by (simp add: ac_simps)
  from drop_opt_books [OF this] have dr: "os_open (drop_opt destroy c t) = os_open t - held owned c"
      "os_faults (drop_opt destroy c t) = os_faults s" by (simp_all add: books_def t(2))
  have "os_open t - held owned c = base + held owned d + r" by (simp add: r ac_simps)
  then have "base + held owned d \<subseteq># os_open (drop_opt destroy c t)" by (simp add: dr)
  moreover have "replace_run create destroy bs (d, drop_opt destroy c t) = (c1, s1)"
    using Cons.prems(2) n by (cases b) (simp_all add: d_def t_def)
  ultimately show ?case using Cons.IH [of d "drop_opt destroy c t"] dr(2) by simp
qed

end

locale owner =
  fixes create :: "os \<Rightarrow> 'c option \<times> os" and destroy :: "'c \<Rightarrow> os \<Rightarrow> os" and owned :: "'c \<Rightarrow> handle multiset"
  assumes create_some: "create s = (Some c, s1) \<Longrightarrow> books s1 = (os_open s + owned c, os_faults s)"
    and create_none: "create s = (None, s1) \<Longrightarrow> books s1 = books s"
    and destroy: "owned c \<subseteq># os_open s \<Longrightarrow> books (destroy c s) = (os_open s - owned c, os_faults s)"

sublocale owner \<subseteq> leaky_owner
proof
  fix s c s1
  assume "create s = (None, s1)"
  then show "os_open s \<subseteq># os_open s1 \<and> os_faults s1 = os_faults s"
    using create_none by (fastforce simp: books_def)
qed (fact create_some destroy)+

context owner
begin

lemma run_exact:
  assumes "os_open s = base + held owned c" and "replace_run create destroy bs (c, s) = (c1, s1)"
  shows "books s1 = (base + held owned c1, os_faults s)"
  using assms
proof (induction bs arbitrary: c s)
  case Nil
  then show ?case by (simp add: books_def)
next
  case (Cons b bs)
  obtain c2 s2 where n: "create s = (c2, s2)" by (cases "create s")
  have new: "books s2 = (os_open s + held owned c2, os_faults s)"
    using create_some create_none n by (cases c2) (auto simp: held_def books_def)
  have drop_new: "books (drop_opt destroy c s2) = (base + held owned c2, os_faults s)"
    using drop_opt_books [of c s2] new Cons.prems(1) by (simp add: books_def ac_simps)
  have drop_old: "books (drop_opt destroy c s) = (base, os_faults s)"
    using drop_opt_books [of c s] Cons.prems(1) by (simp add: books_def)
  show ?case
  proof (cases b)
    case True
    have "os_open (drop_opt destroy c s2) = base + held owned c2" "os_faults (drop_opt destroy c s2) = os_faults s"
      using drop_new by (simp_all add: books_def)
    then show ?thesis using Cons.IH [of "drop_opt destroy c s2" c2] Cons.prems(2) n True by simp
  next
    case False
    have "os_open (drop_opt destroy c s) = base + held owned None" "os_faults (drop_opt destroy c s) = os_faults s"
      using drop_old by (simp_all add: books_def held_def)
    then show ?thesis using Cons.IH [of "drop_opt destroy c s" None] Cons.prems(2) False by simp
  qed
qed

lemma run_and_drop:
  assumes "replace_run create destroy bs (None, s) = (c1, s1)"
  shows "books s1 = (os_open s + held owned c1, os_faults s)" and "books (drop_opt destroy c1 s1) = books s"
proof -
  show b: "books s1 = (os_open s + held owned c1, os_faults s)"
    using run_exact [OF _ assms, of "os_open s"] by (simp add: held_def)
  show "books (drop_opt destroy c1 s1) = books s"
    using drop_opt_books [of c1 s1] b by (simp add: books_def)
qed

end

subsection \<open>GDI\<close>

definition gdi_owned :: "gdi_capturer \<Rightarrow> handle multiset" where
  "gdi_owned c = {#gc_screen_dc c, gc_dc c, gc_bmp c#}"

lemma gdi_drop_fold: "gdi_drop c s = fold give_back [gc_screen_dc c, gc_dc c, gc_bmp c] s"
  by (simp add: gdi_drop_def)

lemma gdi_new_books:
  "case gdi_new name w h s of
     (Inr c, s1) \<Rightarrow> books s1 = (os_open s + gdi_owned c, os_faults s)
   | (Inl _, s1) \<Rightarrow> books s1 = books s"
  by (simp add: gdi_new_def grant_def open_handle_def ask_def give_back_def books_def gdi_owned_def)

interpretation gdi: owner "create_gdi d" gdi_drop gdi_owned for d :: dx_display
proof
  fix s c s1
  show "create_gdi d s = (Some c, s1) \<Longrightarrow> books s1 = (os_open s + gdi_owned c, os_faults s)"
    using gdi_new_books [where name = "dd_wide_name d" and w = "dd_width d" and h = "dd_height d" and s = s]
    by (auto simp: create_gdi_def split: prod.splits sum.splits)
  show "create_gdi d s = (None, s1) \<Longrightarrow> books s1 = books s"
    using gdi_new_books [where name = "dd_wide_name d" and w = "dd_width d" and h = "dd_height d" and s = s]
    by (auto simp: create_gdi_def split: prod.splits sum.splits)
  show "gdi_owned c \<subseteq># os_open s \<Longrightarrow> books (gdi_drop c s) = (os_open s - gdi_owned c, os_faults s)"
    using books_give_back_all [of "[gc_screen_dc c, gc_dc c, gc_bmp c]" s]
    by (simp only: gdi_drop_fold gdi_owned_def mset.simps)
qed

text \<open>C18. Falling back to GDI and leaving it, in any order and whatever Windows answers, keeps the books:
  besides what was open before, exactly the two device contexts and the bitmap of the current GDI
  capturer are open, none if there is none; when the capturer is dropped everything is as before, and
  nothing is ever closed twice.\<close>

theorem gdi_fallback_keeps_books:
  "case replace_run (create_gdi d) gdi_drop bs (None, s) of
     (c, s1) \<Rightarrow> books s1 = (os_open s + held gdi_owned c, os_faults s) \<and> books (drop_opt gdi_drop c s1) = books s"
  using gdi.run_and_drop by (auto split: prod.splits)

text \<open>Pixels of a picture with 4 bytes per pixel.\<close>

definition pixel_at :: "nat \<Rightarrow> bytes \<Rightarrow> nat \<Rightarrow> nat \<Rightarrow> bytes" where
  "pixel_at w p x y = take 4 (drop (4 * (y * w + x)) p)"

text \<open>What libyuv documents of \<^verbatim>\<open>ARGBMirror\<close> and of \<^verbatim>\<open>ARGBRotate\<close> by half a turn.\<close>

definition moves_pixels :: "(nat \<Rightarrow> nat \<Rightarrow> nat \<times> nat) \<Rightarrow> nat \<Rightarrow> nat \<Rightarrow> (bytes \<Rightarrow> bytes) \<Rightarrow> bool" where
  "moves_pixels src w h f \<longleftrightarrow>
     (\<forall>p. length p = 4 * w * h \<longrightarrow> length (f p) = 4 * w * h \<and>
        (\<forall>x<w. \<forall>y<h. pixel_at w (f p) x y = (case src x y of (x1, y1) \<Rightarrow> pixel_at w p x1 y1)))"

text \<open>GDI hands the rows over from the bottom; the mirror and half a turn put them upright, so the picture
  that is delivered has the size of the display and its first row is the last one of GDI.\<close>

lemma gdi_picture_is_upright:
  assumes wh: "gc_width c = word_of_nat w" "gc_height c = word_of_nat h" "0 < w" "0 < h" "w * 4 * h < 2 ^ 31"
    and bits: "bits (w * 4 * h) = Some b" "length b = 4 * w * h"
    and mirror: "moves_pixels (\<lambda>x y. (w - 1 - x, y)) w h (mirror w h)"
    and turn: "moves_pixels (\<lambda>x y. (w - 1 - x, h - 1 - y)) w h (turn w h)"
  shows "\<exists>d. gdi_frame True bits mirror turn c data = Some (Inr (), d) \<and> length d = 4 * w * h \<and>
    (\<forall>x<w. \<forall>y<h. pixel_at w d x y = pixel_at w b x (h - 1 - y))"
proof -
  have small: "w < 2 ^ 31" "h < 2 ^ 31" "w * 4 < 2 ^ 31"
  proof -
    have "w \<le> w * h" "h \<le> w * h" using wh(3,4) by simp_all
    moreover have "w * 4 * h = 4 * (w * h)" by simp
    ultimately show "w < 2 ^ 31" "h < 2 ^ 31" "w * 4 < 2 ^ 31" using wh(5) by linarith+
  qed
  have pos: "sint (word_of_nat n :: i32) = int n" if "n < 2 ^ 31" for n :: nat
    using that by (simp add: signed_of_nat signed_take_bit_int_eq_self)
  have unat_small: "unat (word_of_nat n :: usize) = n" if "n < 2 ^ 31" for n :: nat
    using that by (simp add: unat_of_nat take_bit_nat_eq_self)
  have "gdi_size c = scast (word_of_nat (w * 4 * h) :: i32)" by (simp add: gdi_size_def PIXEL_WIDTH_def wh)
  also have "\<dots> = word_of_nat (w * 4 * h)"
    using pos [OF wh(5)] by (simp add: scast_eq)
  finally have size: "unat (gdi_size c) = w * 4 * h" by (simp only: unat_small [OF wh(5)])
  have dim: "nat (sint (gc_width c)) = w" "nat (sint (gc_height c)) = h" using pos small by (simp_all add: wh)
  define m where "m = mirror w h b"
  have m: "length m = 4 * w * h" and mp: "\<And>x y. x < w \<Longrightarrow> y < h \<Longrightarrow> pixel_at w m x y = pixel_at w b (w - 1 - x) y"
    using mirror bits(2) by (simp_all add: moves_pixels_def m_def)
  have d: "length (turn w h m) = 4 * w * h"
    and dp: "\<And>x y. x < w \<Longrightarrow> y < h \<Longrightarrow> pixel_at w (turn w h m) x y = pixel_at w m (w - 1 - x) (h - 1 - y)"
    using turn m by (simp_all add: moves_pixels_def)
  have "gdi_frame True bits mirror turn c data = Some (Inr (), turn w h m)"
    using wh(3-5) bits(1) by (simp add: gdi_frame_def size dim Let_def m_def)
  moreover have "pixel_at w (turn w h m) x y = pixel_at w b x (h - 1 - y)" if "x < w" "y < h" for x y
    using dp [OF that] mp [of "w - 1 - x" "h - 1 - y"] that by simp
  ultimately show ?thesis using d by blast
qed

subsection \<open>The magnifier\<close>

definition opt_handle :: "handle option \<Rightarrow> handle multiset" where
  "opt_handle h = (case h of Some x \<Rightarrow> {#x#} | None \<Rightarrow> {#})"

definition interface_owned :: "mag_interface \<Rightarrow> handle multiset" where
  "interface_owned mi = (case mi_runtime mi of Some r \<Rightarrow> add_mset r (opt_handle (mi_lib mi)) | None \<Rightarrow> {#})"

definition mag_owned :: "mag_capturer \<Rightarrow> handle multiset" where
  "mag_owned c = opt_handle (mc_magnifier c) + opt_handle (mc_host c) + interface_owned (mc_interface c)"

definition opt_list :: "'a option \<Rightarrow> 'a list" where
  "opt_list x = (case x of Some y \<Rightarrow> [y] | None \<Rightarrow> [])"

lemma mag_uninit_fold:
  "snd (mag_uninit mi s) = fold give_back (case mi_runtime mi of Some r \<Rightarrow> r # opt_list (mi_lib mi) | None \<Rightarrow> []) s"
  by (cases "mi_lib mi") (simp_all add: mag_uninit_def give_back_opt_def opt_list_def split: option.splits)

lemma mag_uninit_again: "mi_runtime (fst (mag_uninit mi s)) = None"
  by (simp add: mag_uninit_def split: option.splits)

lemma mag_drop_fold:
  "mag_drop c s = fold give_back (opt_list (mc_magnifier c) @ opt_list (mc_host c) @
     (case mi_runtime (mc_interface c) of Some r \<Rightarrow> r # opt_list (mi_lib (mc_interface c)) | None \<Rightarrow> [])) s"
proof -
  have "snd (mag_uninit (fst (mag_uninit mi t)) u) = u" for mi t u
    using mag_uninit_again [of mi t] by (simp add: mag_uninit_fold)
  then show ?thesis
    by (simp add: mag_drop_def destroy_windows_def case_prod_beta mag_uninit_fold give_back_opt_def opt_list_def
        split: option.splits)
qed

lemma mag_drop_books:
  "mag_owned c \<subseteq># os_open s \<Longrightarrow> books (mag_drop c s) = (os_open s - mag_owned c, os_faults s)"
proof -
  let ?hs = "opt_list (mc_magnifier c) @ opt_list (mc_host c) @
     (case mi_runtime (mc_interface c) of Some r \<Rightarrow> r # opt_list (mi_lib (mc_interface c)) | None \<Rightarrow> [])"
  have "mset ?hs = mag_owned c"
    by (simp add: mag_owned_def opt_list_def opt_handle_def interface_owned_def split: option.splits)
  then show "mag_owned c \<subseteq># os_open s \<Longrightarrow> ?thesis" using books_give_back_all [of ?hs s] by (simp only: mag_drop_fold)
qed

lemma load_funcs_books:
  "load_funcs n s = (ok, s1) \<Longrightarrow> books s1 = books s"
  by (induction n arbitrary: s) (auto simp: ask_def books_def split: if_splits)

text \<open>The handle of the library, and whether it stays behind after an error.\<close>

definition library_left :: "mag_error \<Rightarrow> os \<Rightarrow> handle multiset" where
  "library_left e s = (if e = No_function \<or> e = Init_failed then {#(Dll, os_calls s)#} else {#})"

lemma mag_interface_new_books:
  "case mag_interface_new s of
     (Inr mi, s1) \<Rightarrow> books s1 = (os_open s + interface_owned mi, os_faults s)
   | (Inl e, s1) \<Rightarrow> books s1 = (os_open s + library_left e s, os_faults s)"
proof (cases "os_answer s (os_calls s)")
  case False
  then show ?thesis by (simp add: mag_interface_new_def grant_def mag_uninit_def library_left_def books_def)
next
  case True
  define s1 where "s1 = s\<lparr>os_calls := os_calls s + 1, os_open := add_mset (Dll, os_calls s) (os_open s)\<rparr>"
  have dll: "grant Dll s = (Some (Dll, os_calls s), s1)" using True by (simp add: grant_def open_handle_def s1_def)
  have b1: "books s1 = (add_mset (Dll, os_calls s) (os_open s), os_faults s)" by (simp add: s1_def books_def)
  obtain ok s2 where l: "load_funcs 5 s1 = (ok, s2)" by (cases "load_funcs 5 s1")
  from load_funcs_books [OF l] b1 have b2: "os_open s2 = add_mset (Dll, os_calls s) (os_open s)" "os_faults s2 = os_faults s"
    by (simp_all add: books_def)
  obtain r s3 where g: "grant Magnifier_runtime s2 = (r, s3)" by (cases "grant Magnifier_runtime s2")
  show ?thesis
  proof (cases r)
    case None
    then have "os_open s3 = os_open s2" "os_faults s3 = os_faults s2" using books_grant(2,3) g by auto
    then show ?thesis using b2 by (simp add: mag_interface_new_def dll l g None mag_uninit_def library_left_def books_def)
  next
    case (Some h)
    then have "os_open s3 = add_mset h (os_open s2)" "os_faults s3 = os_faults s2" using books_grant(1,3) g by auto
    then show ?thesis using b2
      by (simp add: mag_interface_new_def dll l g Some mag_uninit_def library_left_def books_def interface_owned_def opt_handle_def)
  qed
qed

text \<open>Asking whether the magnifier is supported leaves nothing open but the library, in the same cases.\<close>

lemma mag_is_supported_books:
  "case mag_is_supported s of
     (True, s1) \<Rightarrow> books s1 = books s
   | (False, s1) \<Rightarrow> books s1 = books s \<or> books s1 = (add_mset (Dll, os_calls s) (os_open s), os_faults s)"
proof -
  obtain r s1 where n: "mag_interface_new s = (r, s1)" by (cases "mag_interface_new s")
  show ?thesis
  proof (cases r)
    case (Inl e)
    then show ?thesis using mag_interface_new_books [of s] n by (auto simp: mag_is_supported_def books_def library_left_def)
  next
    case (Inr mi)
    have b: "books s1 = (os_open s + interface_owned mi, os_faults s)" using mag_interface_new_books [of s] n Inr by simp
    let ?hs = "case mi_runtime mi of Some r \<Rightarrow> r # opt_list (mi_lib mi) | None \<Rightarrow> []"
    have "mset ?hs = interface_owned mi" by (simp add: opt_list_def opt_handle_def interface_owned_def split: option.splits)
    then have "books (snd (mag_uninit mi s1)) = books s"
      using books_give_back_all [of ?hs s1] b by (simp add: mag_uninit_fold books_def)
    then show ?thesis using n Inr by (simp add: mag_is_supported_def)
  qed
qed

text \<open>The part of the construction after the interface: on each error the value is dropped as it is then.\<close>

lemma mag_new_after_interface:
  assumes screen: "new_in_screen v origin w h" and n: "mag_interface_new s = (Inr mi, s1)"
  shows "case mag_new v origin w h s of
     (Inr c, s2) \<Rightarrow> books s2 = (os_open s + mag_owned c, os_faults s) \<and> books (mag_drop c s2) = books s
   | (Inl e, s2) \<Rightarrow> books s2 = (os_open s + library_left e s, os_faults s)"
proof -
  have s1: "os_open s1 = os_open s + interface_owned mi" "os_faults s1 = os_faults s"
    using mag_interface_new_books [of s] n by (simp_all add: books_def)
  let ?c = "\<lparr>mc_interface = mi, mc_host = None, mc_magnifier = None, mc_rect = mag_rect_of origin w h, mc_width = w, mc_height = h\<rparr>"
  have undone: "books (mag_drop c t) = books s" if "os_open t = os_open s + mag_owned c" "os_faults t = os_faults s" for c t
    using mag_drop_books [of c t] that by (simp add: books_def)
  obtain ok2 s2 where q2: "ask s1 = (ok2, s2)" by (cases "ask s1")
  obtain ok3 s3 where q3: "register_class s2 = (ok3, s3)" by (cases "register_class s2")
  obtain x4 s4 where q4: "grant Window s3 = (x4, s4)" by (cases "grant Window s3")
  obtain x5 s5 where q5: "grant Window s4 = (x5, s5)" by (cases "grant Window s4")
  obtain ok6 s6 where q6: "ask s5 = (ok6, s6)" by (cases "ask s5")
  have b2: "os_open s2 = os_open s1" "os_faults s2 = os_faults s1" using books_ask q2 by auto
  have b3: "os_open s3 = os_open s2" "os_faults s3 = os_faults s2"
    using q3 by (auto simp: register_class_def ask_def split: if_splits)
  have b4: "os_open s4 = opt_handle x4 + os_open s3" "os_faults s4 = os_faults s3"
    using q4 books_grant by (cases x4; force simp: opt_handle_def)+
  have b5: "os_open s5 = opt_handle x5 + os_open s4" "os_faults s5 = os_faults s4"
    using q5 books_grant by (cases x5; force simp: opt_handle_def)+
  have b6: "os_open s6 = os_open s5" "os_faults s6 = os_faults s5" using books_ask q6 by auto
  note eqs = s1 b2 b3 b4 b5 b6
  have fail: "books (mag_drop (?c\<lparr>mc_host := x, mc_magnifier := y\<rparr>) t) = books s"
    if "os_open t = opt_handle x + opt_handle y + os_open s1" "os_faults t = os_faults s" for x y t
    by (rule undone) (use that in \<open>simp_all add: mag_owned_def s1 ac_simps\<close>)
  show ?thesis
  proof (cases "ok2 \<and> ok3")
    case False
    then show ?thesis using fail [of s2 None None] fail [of s3 None None] eqs
      by (auto simp: mag_new_def screen n Let_def q2 q3 library_left_def opt_handle_def books_def)
  next
    case ok: True
    show ?thesis
    proof (cases x4)
      case None
      then show ?thesis using ok fail [of s4 None None] eqs
        by (auto simp: mag_new_def screen n Let_def q2 q3 q4 library_left_def opt_handle_def books_def)
    next
      case (Some host)
      note host = Some
      show ?thesis
      proof (cases x5)
        case None
        then show ?thesis using ok host fail [of s5 "Some host" None] eqs
          by (auto simp: mag_new_def screen n Let_def q2 q3 q4 q5 library_left_def opt_handle_def books_def)
      next
        case (Some m)
        let ?c1 = "?c\<lparr>mc_host := Some host, mc_magnifier := Some m\<rparr>"
        have open6: "os_open s6 = opt_handle (Some host) + opt_handle (Some m) + os_open s1" "os_faults s6 = os_faults s"
          using eqs host Some by (simp_all add: opt_handle_def)
        have new: "mag_new v origin w h s = (if ok6 then (Inr ?c1, s6) else (Inl No_callback, mag_drop ?c1 s6))"
          using ok host Some by (simp add: mag_new_def screen n Let_def q2 q3 q4 q5 q6)
        have drop: "books (mag_drop ?c1 s6) = books s" by (rule fail [OF open6])
        have owned: "books s6 = (os_open s + mag_owned ?c1, os_faults s)"
          using open6 by (simp add: books_def mag_owned_def s1 ac_simps)
        show ?thesis using drop owned by (cases ok6) (simp_all add: new library_left_def books_def)
      qed
    qed
  qed
qed

lemma mag_new_books:
  "case mag_new v origin w h s of
     (Inr c, s1) \<Rightarrow> books s1 = (os_open s + mag_owned c, os_faults s) \<and> books (mag_drop c s1) = books s
   | (Inl e, s1) \<Rightarrow> books s1 = (os_open s + library_left e s, os_faults s)"
proof (cases "new_in_screen v origin w h")
  case False
  then show ?thesis by (simp add: mag_new_def library_left_def books_def)
next
  case True
  obtain r s1 where n: "mag_interface_new s = (r, s1)" by (cases "mag_interface_new s")
  show ?thesis
  proof (cases r)
    case (Inl e)
    then show ?thesis using True n mag_interface_new_books [of s] by (simp add: mag_new_def)
  next
    case (Inr mi)
    then show ?thesis using mag_new_after_interface [OF True] n by simp
  qed
qed

text \<open>A capturer over the magnifier keeps the books: made and dropped, it leaves everything as it was,
  and closes nothing twice although its interface is shut down by two destructors; when it cannot be
  made, at whichever of its calls, everything that was opened is closed again, with one exception: the
  library stays loaded if one of its functions is missing or its initialisation fails. Asking whether the
  magnifier is supported makes and drops such an interface, with the same exception.\<close>

theorem magnifier_keeps_books:
  "(case mag_new v origin w h s of
      (Inr c, s1) \<Rightarrow> books s1 = (os_open s + mag_owned c, os_faults s) \<and> books (mag_drop c s1) = books s
    | (Inl e, s1) \<Rightarrow> books s1 = (os_open s + library_left e s, os_faults s)) \<and>
   (case mag_is_supported s of
      (b, s1) \<Rightarrow> books s1 = books s \<or> (\<not> b \<and> books s1 = (add_mset (Dll, os_calls s) (os_open s), os_faults s)))"
  using mag_new_books mag_is_supported_books [of s] by (auto split: prod.splits bool.splits)

definition mag_create :: "virtual_screen \<Rightarrow> i32 \<times> i32 \<Rightarrow> usize \<Rightarrow> usize \<Rightarrow> os \<Rightarrow> mag_capturer option \<times> os" where
  "mag_create v origin w h s = (case mag_new v origin w h s of (Inr c, s1) \<Rightarrow> (Some c, s1) | (Inl _, s1) \<Rightarrow> (None, s1))"

text \<open>A loop that tries the magnifier again after an error loses a library each time at most.\<close>

interpretation mag: leaky_owner "mag_create v origin w h" mag_drop mag_owned for v origin w h
proof
  fix s c s1
  note b = mag_new_books [where v = v and origin = origin and w = w and h = h and s = s]
  show "mag_create v origin w h s = (Some c, s1) \<Longrightarrow> books s1 = (os_open s + mag_owned c, os_faults s)"
    using b by (auto simp: mag_create_def split: prod.splits sum.splits)
  show "mag_create v origin w h s = (None, s1) \<Longrightarrow> os_open s \<subseteq># os_open s1 \<and> os_faults s1 = os_faults s"
    using b by (auto simp: mag_create_def books_def split: prod.splits sum.splits)
  show "mag_owned c \<subseteq># os_open s \<Longrightarrow> books (mag_drop c s) = (os_open s - mag_owned c, os_faults s)"
    by (rule mag_drop_books)
qed

lemma magnifier_run: 
  "case replace_run (mag_create v origin w h) mag_drop bs (None, s) of
     (c, s1) \<Rightarrow> os_open s + held mag_owned c \<subseteq># os_open s1 \<and> os_faults s1 = os_faults s"
  using mag.run_keeps [of "os_open s" None s] by (auto simp: held_def split: prod.splits)

text \<open>A missing function of the library: each attempt loads it once more.\<close>

lemma library_stays_loaded:
  "os_open (snd (mag_is_supported \<lparr>os_answer = (\<lambda>n. n = 0), os_calls = 0, os_open = {#}, os_faults = 0\<rparr>)) = {#(Dll, 0)#}"
  by (simp add: mag_is_supported_def mag_interface_new_def grant_def open_handle_def ask_def mag_uninit_def numeral_eq_Suc)

subsection \<open>The picture of the magnifier\<close>

lemma scaling_run_iff:
  "scaling_run calls b = Some b1 \<longleftrightarrow>
     (\<forall>c \<in> set calls. fst c \<longrightarrow> snd c \<noteq> []) \<and>
     b1 = (if calls = [] then b else if fst (last calls) then (True, snd (last calls)) else (False, []))"
  by (induction calls arbitrary: b) (auto simp: on_scaling_def mag_clear_def Let_def)

text \<open>C21. The picture of the magnifier is never an old one: whatever earlier callbacks left in the shared
  buffer, a frame succeeds exactly when the rectangle lies in the virtual screen, Windows accepts both
  calls, and the last callback during this very call delivered a picture in the expected format, and
  then the data are that picture; the call panics exactly when it gets so far and a callback brings an empty picture
  in that format.\<close>

theorem magnifier_frame_is_fresh:
  "(mag_frame v positioned calls sourced c b data = Some (Inr u, d, b1) \<longleftrightarrow>
      frame_in_screen v (mc_rect c) \<and> positioned \<and> sourced \<and> calls \<noteq> [] \<and>
      (True, []) \<notin> set calls \<and> fst (last calls) \<and> d = snd (last calls) \<and> b1 = (True, d))
   \<and> (mag_frame v positioned calls sourced c b data = None \<longleftrightarrow>
      frame_in_screen v (mc_rect c) \<and> positioned \<and> (True, []) \<in> set calls)"
proof -
  have bad: "(\<forall>c \<in> set calls. fst c \<longrightarrow> snd c \<noteq> []) \<longleftrightarrow> (True, []) \<notin> set calls" by force
  show ?thesis
  proof (cases "(True, []) \<in> set calls")
    case True
    then have "scaling_run calls (mag_clear b) = None"
      using scaling_run_iff [of calls "mag_clear b"] bad by (cases "scaling_run calls (mag_clear b)") auto
    then show ?thesis using True by (simp add: mag_frame_def Let_def)
  next
    case False
    define b2 where "b2 = (if calls = [] then mag_clear b else if fst (last calls) then (True, snd (last calls)) else (False, []))"
    have run: "scaling_run calls (mag_clear b) = Some b2" using False bad by (simp add: scaling_run_iff b2_def)
    have full: "snd b2 \<noteq> []" if "fst b2"
      using that False last_in_set [of calls] by (cases "last calls") (auto simp: b2_def mag_clear_def split: if_splits)
    show ?thesis
    proof (cases "fst b2")
      case True
      then have l: "calls \<noteq> []" "fst (last calls)" "b2 = (True, snd (last calls))"
        by (auto simp: b2_def mag_clear_def split: if_splits)
      show ?thesis using False full [OF True] l by (auto simp: mag_frame_def Let_def run)
    next
      case nf: False
      then have "calls = [] \<or> \<not> fst (last calls)" by (auto simp: b2_def split: if_splits)
      then show ?thesis using False nf by (auto simp: mag_frame_def Let_def run)
    qed
  qed
qed

text \<open>The constructor compares the sizes only: a rectangle that reaches beyond the right edge of the screen
  is accepted, and then no frame can succeed.\<close>

lemma magnifier_beyond_the_edge:
  "new_in_screen \<lparr>vs_x = 0, vs_y = 0, vs_w = 1920, vs_h = 1080\<rparr> (1, 0) 1920 1080 \<and>
   \<not> frame_in_screen \<lparr>vs_x = 0, vs_y = 0, vs_w = 1920, vs_h = 1080\<rparr> (mag_rect_of (1, 0) 1920 1080)"
  by code_simp

text \<open>Leaving out a window: a NUL in its name is an error, one in its class a panic.\<close>

lemma exclude_panics_iff: "mag_exclude cls name s = None \<longleftrightarrow> \<not> has_nul name \<and> has_nul cls"
  by (simp add: mag_exclude_def split: prod.split)

subsection \<open>X11\<close>

definition shm_owned :: "shm_capturer \<Rightarrow> handle multiset" where
  "shm_owned c = {#sc_attachment c, sc_mapping c, sc_segment c#}"

interpretation shm: leaky_owner shm_new shm_drop shm_owned
proof
  fix s c s1
  show "shm_new s = (Some c, s1) \<Longrightarrow> books s1 = (os_open s + shm_owned c, os_faults s)"
    by (auto simp: shm_new_def grant_def open_handle_def books_def shm_owned_def split: if_splits)
  show "shm_new s = (None, s1) \<Longrightarrow> os_open s \<subseteq># os_open s1 \<and> os_faults s1 = os_faults s"
    by (auto simp: shm_new_def grant_def open_handle_def split: if_splits)
  show "shm_owned c \<subseteq># os_open s \<Longrightarrow> books (shm_drop c s) = (os_open s - shm_owned c, os_faults s)"
    using books_give_back_all [of "[sc_attachment c, sc_mapping c, sc_segment c]" s]
    by (simp add: shm_drop_def shm_owned_def)
qed

text \<open>The shared memory of the capturer of X11: made and dropped, everything is closed once; when it
  cannot be made nothing stays open, unless the segment was created and could not be mapped: then the
  segment is left behind in the system.\<close>

theorem shared_memory_is_returned:
  "case shm_new s of
     (Some c, s1) \<Rightarrow> books s1 = (os_open s + shm_owned c, os_faults s) \<and> books (shm_drop c s1) = books s
   | (None, s1) \<Rightarrow>
       books s1 = (os_open s + (if os_answer s (os_calls s) then {#(Segment, os_calls s)#} else {#}), os_faults s)"
proof (cases "fst (shm_new s)")
  case None
  then show ?thesis by (auto simp: shm_new_def grant_def open_handle_def books_def)
next
  case (Some c)
  then obtain s1 where n: "shm_new s = (Some c, s1)" by (cases "shm_new s") simp
  have b: "books s1 = (os_open s + shm_owned c, os_faults s)" by (rule shm.creates [OF n])
  then show ?thesis using shm.destroys [of c s1] by (simp add: n books_def)
qed

text \<open>A connection that reports an error is closed, and one query of the extension for shared memory
  leaves the error of xcb allocated exactly when there is no reply.\<close>

lemma server_connect_books:
  "case server_connect code s of
     (Inr c, s1) \<Rightarrow> code = 0 \<and> books (server_drop c s1) = books s
   | (Inl e, s1) \<Rightarrow> code \<noteq> 0 \<and> books s1 = books s"
  by (simp add: server_connect_def open_handle_def give_back_def server_drop_def books_def)

lemma shm_query_books:
  "case check_x11_shm_available reply err s of
     (r, s1) \<Rightarrow> (r = Inr () \<longleftrightarrow> reply \<and> \<not> err) \<and> os_faults s1 = os_faults s \<and>
       os_open s1 = os_open s + (if \<not> reply \<and> err then {#(Xcb_error, os_calls s)#} else {#})"
  by (simp add: check_x11_shm_available_def open_handle_def give_back_def Let_def add_mset_commute)

end
