(* ===== verification/Duplication.thy ===== *)
theory Duplication
  imports Displays Vram
begin

text \<open>
  The duplication of a display by \<^verbatim>\<open>dxgi/mod.rs\<close>, below what \<open>Displays\<close> models: in which order the
  interface is called, how a rotated display is turned by the video processor, and the identity of
  the adapter. The answers of Direct3D are arguments: a pointer is there or not, a call succeeds or not.
\<close>

subsection \<open>Frames and mappings\<close>

text \<open>The calls on the duplication and on the surface, with whether they succeed.\<close>

datatype dup_event =
  Release_frame | Unmap_desktop | Unmap_surface | Acquire_frame bool | Map_desktop bool | Map_surface bool

text \<open>The parts of \<^verbatim>\<open>Capturer\<close> that decide on them: \<^verbatim>\<open>fastlane\<close>, and whether \<^verbatim>\<open>surface\<close> is not null.\<close>

record dup_capturer =
  du_fastlane :: bool
  du_surface :: bool

text \<open>The answers during one capture.\<close>

record dup_world =
  dw_acquire :: hresult
  dw_presented :: bool
  dw_accumulated :: bool
  dw_create_texture :: hresult
  dw_query_surface :: bool
  dw_map :: hresult

definition unmap_events :: "dup_capturer \<Rightarrow> dup_event list" where
  "unmap_events c =
     Release_frame # (if du_fastlane c then [Unmap_desktop] else if du_surface c then [Unmap_surface] else [])"

text \<open>The copy of a frame in system memory; \<open>None\<close> is the use of a surface that is null.\<close>

definition ohgodwhat :: "dup_world \<Rightarrow> capture_error + bool" where
  "ohgodwhat w = (case wrap_hresult (dw_create_texture w) of Inl e \<Rightarrow> Inl e | Inr _ \<Rightarrow> Inr (dw_query_surface w))"

definition load_events :: "dup_world \<Rightarrow> dup_capturer \<Rightarrow> ((capture_error + unit) \<times> dup_event list \<times> dup_capturer) option" where
  "load_events w c =
     (case wrap_hresult (dw_acquire w) of
        Inl e \<Rightarrow> Some (Inl e, [Acquire_frame False], c)
      | Inr _ \<Rightarrow>
          (if \<not> dw_presented w then Some (Inl Would_block, [Acquire_frame True], c)
           else
             (let mapped = (case wrap_hresult (dw_map w) of Inl e \<Rightarrow> Inl e | Inr _ \<Rightarrow> Inr ()); ok = (mapped = Inr ())
              in if du_fastlane c then Some (mapped, [Acquire_frame True, Map_desktop ok], c)
                 else case ohgodwhat w of
                   Inl e \<Rightarrow> Some (Inl e, [Acquire_frame True], c)
                 | Inr s \<Rightarrow>
                     (if s then Some (mapped, [Acquire_frame True, Map_surface ok], c\<lparr>du_surface := True\<rparr>) else None))))"

text \<open>\<^verbatim>\<open>get_pixelbuffer\<close> without GDI, and \<^verbatim>\<open>get_texture\<close>.\<close>

definition pixel_events :: "dup_world \<Rightarrow> dup_capturer \<Rightarrow> ((capture_error + unit) \<times> dup_event list \<times> dup_capturer) option" where
  "pixel_events w c = map_option (\<lambda>(r, es, c1). (r, unmap_events c @ es, c1)) (load_events w c)"

definition texture_events :: "dup_world \<Rightarrow> dup_capturer \<Rightarrow> ((capture_error + unit) \<times> dup_event list \<times> dup_capturer) option" where
  "texture_events w c =
     Some (case wrap_hresult (dw_acquire w) of
       Inl e \<Rightarrow> (Inl e, [Release_frame, Acquire_frame False], c)
     | Inr _ \<Rightarrow>
         (if \<not> dw_accumulated w \<or> \<not> dw_presented w then Inl Would_block else Inr (), [Release_frame, Acquire_frame True], c))"

text \<open>A run of captures, each for a texture (\<open>True\<close>) or for pixels, and the destructor after it.\<close>

fun dup_run :: "(bool \<times> dup_world) list \<Rightarrow> dup_capturer \<Rightarrow> (dup_event list \<times> dup_capturer) option" where
  "dup_run [] c = Some ([], c)"
| "dup_run ((t, w) # ws) c =
     (case (if t then texture_events w c else pixel_events w c) of
        None \<Rightarrow> None
      | Some (_, es, c1) \<Rightarrow> map_option (\<lambda>(es1, c2). (es @ es1, c2)) (dup_run ws c1))"

definition dup_life :: "(bool \<times> dup_world) list \<Rightarrow> dup_capturer \<Rightarrow> dup_event list option" where
  "dup_life ws c = map_option (\<lambda>(es, c1). es @ unmap_events c1) (dup_run ws c)"

subsection \<open>Turning a rotated display\<close>

text \<open>\<^verbatim>\<open>Rotate\<close>: which of its pointers are not null; \<open>ro_created\<close> is the flag beside the texture.\<close>

record rotator =
  ro_context :: bool
  ro_device :: bool
  ro_enum :: bool
  ro_processor :: bool
  ro_texture :: bool
  ro_created :: bool

record video_answers =
  va_context :: bool
  va_device :: bool
  va_enum :: bool
  va_caps :: bool
  va_can_rotate :: bool
  va_processor :: bool

definition rotation_angle :: "rotation \<Rightarrow> nat" where
  "rotation_angle r = (case r of Rotation_90 \<Rightarrow> 90 | Rotation_180 \<Rightarrow> 180 | Rotation_270 \<Rightarrow> 270 | _ \<Rightarrow> 0)"

definition create_rotations :: "video_answers \<Rightarrow> bool \<Rightarrow> bool \<Rightarrow> rotation \<Rightarrow> rotator" where
  "create_rotations a device context r =
     (let wanted = (r = Rotation_90 \<or> r = Rotation_180 \<or> r = Rotation_270);
          ctx = (wanted \<and> device \<and> context \<and> va_context a);
          dev = (ctx \<and> va_device a);
          en = (dev \<and> va_enum a);
          pr = (en \<and> va_caps a \<and> va_can_rotate a \<and> va_processor a)
      in \<lparr>ro_context = ctx, ro_device = dev, ro_enum = en, ro_processor = pr, ro_texture = False, ro_created = False\<rparr>)"

text \<open>The sizes that the video processor is told: of the captured texture and of the display.\<close>

definition processor_sizes :: "rotation \<Rightarrow> 'a \<times> 'a \<Rightarrow> ('a \<times> 'a) \<times> ('a \<times> 'a)" where
  "processor_sizes r wh =
     ((if r = Rotation_90 \<or> r = Rotation_270 then (snd wh, fst wh) else wh), wh)"

text \<open>The answers during \<^verbatim>\<open>get_texture\<close>: the captured texture with its size, if there is one.\<close>

record texture_answers =
  ta_texture :: "(u32 \<times> u32) option"
  ta_create :: bool
  ta_input_view :: bool
  ta_output_view :: bool

datatype final_texture = Null_texture | Captured_texture | Rotated_version

definition rotate_texture :: "rotation \<Rightarrow> nat \<Rightarrow> nat \<Rightarrow> texture_answers \<Rightarrow> rotator \<Rightarrow> (final_texture \<times> nat) \<times> rotator" where
  "rotate_texture r width height a ro =
     (let angle = rotation_angle r
      in case ta_texture a of
           None \<Rightarrow> ((Null_texture, angle), ro)
         | Some (w, h) \<Rightarrow>
             (if angle \<noteq> 0 \<and> ro_context ro \<and> ro_device ro \<and> ro_enum ro \<and> ro_processor ro
              then
                (let (w1, h1) = (if angle = 90 \<or> angle = 270 then (h, w) else (w, h));
                     ro1 = (if ro_created ro then ro else ro\<lparr>ro_created := True, ro_texture := ta_create a\<rparr>)
                 in if ro_texture ro1 \<and> w1 = of_nat width \<and> h1 = of_nat height \<and> ta_input_view a \<and> ta_output_view a
                    then ((Rotated_version, 0), ro1)
                    else ((Captured_texture, angle), ro1))
              else ((Captured_texture, angle), ro)))"

text \<open>A frame as a texture, with the rotation: the part before is \<open>get_texture\<close>.\<close>

definition texture_frame ::
    "dx_world \<Rightarrow> texture_answers \<Rightarrow> dx_capturer \<Rightarrow> rotator \<Rightarrow> (capture_error + final_texture \<times> nat) \<times> rotator" where
  "texture_frame w a c ro =
     (case get_texture w c of
        Inl e \<Rightarrow> (Inl e, ro)
      | Inr _ \<Rightarrow>
          (case rotate_texture (dd_rotation (dc_display c)) (dc_width c) (dc_height c) a ro of
             (t, ro1) \<Rightarrow> (Inr t, ro1)))"

fun texture_run :: "(dx_world \<times> texture_answers) list \<Rightarrow> dx_capturer \<Rightarrow> rotator \<Rightarrow> rotator" where
  "texture_run [] c ro = ro"
| "texture_run ((w, a) # fs) c ro = texture_run fs c (snd (texture_frame w a c ro))"

text \<open>The frame as the encoder's input.\<close>

definition texture_input :: "final_texture \<times> nat \<Rightarrow> bytes encode_input" where
  "texture_input t = Texture (fst t \<noteq> Null_texture) (snd t)"

subsection \<open>The adapter\<close>

definition adapter_luid :: "i32 \<Rightarrow> u32 \<Rightarrow> i64" where
  "adapter_luid high low = push_bit 32 (scast high) OR ucast low"

text \<open>\<^verbatim>\<open>Capturer::device\<close>; the luid of \<^verbatim>\<open>Display::adapter_luid\<close> is computed alike, where there is an adapter.\<close>

definition dx_device :: "nat \<Rightarrow> u32 \<Rightarrow> i32 \<Rightarrow> u32 \<Rightarrow> adapter_device" where
  "dx_device device vendor high low = \<lparr>ad_device = device, ad_vendor = vendor, ad_luid = adapter_luid high low\<rparr>"

definition display_luid :: "(i32 \<times> u32) option \<Rightarrow> i64 option" where
  "display_luid desc = (case desc of Some (high, low) \<Rightarrow> Some (adapter_luid high low) | None \<Rightarrow> None)"

end
