(* ===== verification/DuplicationProps.thy ===== *)
theory DuplicationProps
  imports Duplication VramProps
begin

text \<open>
  The duplication is used as Windows asks for; on a rotated display an encoder in video memory works
  exactly when the video processor could be set up; the number of an adapter identifies it.
\<close>

subsection \<open>The protocol of the duplication\<close>















subsection \<open>Rotated displays\<close>

definition can_turn :: "video_answers \<Rightarrow> bool \<Rightarrow> bool \<Rightarrow> bool" where
  "can_turn a device context \<longleftrightarrow>
     device \<and> context \<and> va_context a \<and> va_device a \<and> va_enum a \<and> va_caps a \<and> va_can_rotate a \<and> va_processor a"

definition ready :: "rotator \<Rightarrow> bool" where
  "ready ro \<longleftrightarrow> ro_context ro \<and> ro_device ro \<and> ro_enum ro \<and> ro_processor ro"

text \<open>The frames that get as far as the texture, and whether the first of them could make the rotated one.\<close>

definition attempts :: "dx_capturer \<Rightarrow> (dx_world \<times> texture_answers) list \<Rightarrow> (dx_world \<times> texture_answers) list" where
  "attempts c fs = filter (\<lambda>(w, a). \<not> (\<exists>e. get_texture w c = Inl e) \<and> ta_texture a \<noteq> None) fs"

definition first_created :: "dx_capturer \<Rightarrow> (dx_world \<times> texture_answers) list \<Rightarrow> bool" where
  "first_created c fs = (case attempts c fs of [] \<Rightarrow> False | (w, a) # _ \<Rightarrow> ta_create a)"

definition fits :: "dx_capturer \<Rightarrow> texture_answers \<Rightarrow> bool" where
  "fits c a = (case ta_texture a of
     None \<Rightarrow> False
   | Some wh \<Rightarrow>
       fst (processor_sizes (dd_rotation (dc_display c)) wh) = (of_nat (dc_width c), of_nat (dc_height c)))"

lemma angle_pos: "rotation_angle r \<noteq> 0 \<longleftrightarrow> r = Rotation_90 \<or> r = Rotation_180 \<or> r = Rotation_270"
  by (cases r) (simp_all add: rotation_angle_def)

lemma quarter_turn: "rotation_angle r = 90 \<or> rotation_angle r = 270 \<longleftrightarrow> r = Rotation_90 \<or> r = Rotation_270"
  by (cases r) (simp_all add: rotation_angle_def)

lemma create_rotations_ready:
  "ready (create_rotations a device context r) \<longleftrightarrow> rotation_angle r \<noteq> 0 \<and> can_turn a device context"
  "ro_created (create_rotations a device context r) = False" "ro_texture (create_rotations a device context r) = False"
  by (cases r; auto simp: create_rotations_def ready_def can_turn_def rotation_angle_def Let_def)+

text \<open>The three ways through \<open>rotate_texture\<close>.\<close>

lemma rotate_texture_null: "ta_texture a = None \<Longrightarrow> rotate_texture r width height a ro = ((Null_texture, rotation_angle r), ro)"
  by (simp add: rotate_texture_def)

lemma rotate_texture_as_is:
  "\<not> (ready ro \<and> rotation_angle r \<noteq> 0) \<Longrightarrow> ta_texture a = Some wh \<Longrightarrow>
   rotate_texture r width height a ro = ((Captured_texture, rotation_angle r), ro)"
  by (cases wh) (auto simp: rotate_texture_def ready_def)

definition turned :: "texture_answers \<Rightarrow> rotator \<Rightarrow> rotator" where
  "turned a ro = (if ro_created ro then ro else ro\<lparr>ro_created := True, ro_texture := ta_create a\<rparr>)"

lemma rotate_texture_turns:
  assumes "ready ro" and "rotation_angle r \<noteq> 0" and "ta_texture a = Some wh"
  shows "rotate_texture r width height a ro =
    (if ro_texture (turned a ro) \<and> fst (processor_sizes r wh) = (of_nat width, of_nat height) \<and> ta_input_view a \<and> ta_output_view a
     then ((Rotated_version, 0), turned a ro) else ((Captured_texture, rotation_angle r), turned a ro))"
proof -
  obtain w h where wh: "wh = (w, h)" by (cases wh)
  show ?thesis
  proof (cases "rotation_angle r = 90 \<or> rotation_angle r = 270")
    case True
    then have "r = Rotation_90 \<or> r = Rotation_270" using quarter_turn by blast
    then show ?thesis using assms True
      by (auto simp only: rotate_texture_def Let_def wh option.case prod.case ready_def turned_def processor_sizes_def
          fst_conv snd_conv if_True if_False prod.inject conj_assoc split: if_splits)
  next
    case False
    then have "\<not> (r = Rotation_90 \<or> r = Rotation_270)" using quarter_turn by blast
    then show ?thesis using assms False
      by (auto simp only: rotate_texture_def Let_def wh option.case prod.case ready_def turned_def processor_sizes_def
          fst_conv snd_conv if_True if_False prod.inject conj_assoc split: if_splits)
  qed
qed

text \<open>The texture for the rotated picture is made, or not, at the first attempt.\<close>

definition turn_inv :: "dx_capturer \<Rightarrow> (dx_world \<times> texture_answers) list \<Rightarrow> rotator \<Rightarrow> bool" where
  "turn_inv c fs ro \<longleftrightarrow> ro_created ro = (attempts c fs \<noteq> []) \<and> ro_texture ro = first_created c fs"

lemma attempts_snoc:
  "attempts c (fs @ [(w, a)]) =
     attempts c fs @ (if \<not> (\<exists>e. get_texture w c = Inl e) \<and> ta_texture a \<noteq> None then [(w, a)] else [])"
  by (simp add: attempts_def)

lemma rotate_texture_ready: "ready (snd (rotate_texture r width height a ro)) = ready ro"
proof (cases "ta_texture a")
  case None
  then show ?thesis by (simp add: rotate_texture_null)
next
  case (Some wh)
  have "ready (turned a ro) = ready ro" by (simp add: turned_def ready_def)
  then show ?thesis
    by (cases "ready ro \<and> rotation_angle r \<noteq> 0")
      (simp_all add: rotate_texture_turns [OF _ _ Some] rotate_texture_as_is [OF _ Some])
qed

lemma texture_frame_snd:
  "snd (texture_frame w a c ro) =
     (if \<exists>e. get_texture w c = Inl e then ro
      else snd (rotate_texture (dd_rotation (dc_display c)) (dc_width c) (dc_height c) a ro))"
  by (cases "get_texture w c") (simp_all add: texture_frame_def case_prod_beta)

lemma texture_frame_ready: "ready (snd (texture_frame w a c ro)) = ready ro"
  by (simp add: texture_frame_snd rotate_texture_ready)

lemma texture_frame_inv:
  assumes "ready ro" and "rotation_angle (dd_rotation (dc_display c)) \<noteq> 0" and "turn_inv c fs ro"
  shows "turn_inv c (fs @ [(w, a)]) (snd (texture_frame w a c ro))"
proof (cases "get_texture w c")
  case (Inl e)
  then show ?thesis using assms(3) by (simp add: texture_frame_def turn_inv_def first_created_def attempts_snoc)
next
  case (Inr p)
  show ?thesis
  proof (cases "ta_texture a")
    case None
    then show ?thesis using assms(3) Inr
      by (simp add: texture_frame_snd rotate_texture_null turn_inv_def first_created_def attempts_snoc)
  next
    case (Some wh)
    have at: "attempts c (fs @ [(w, a)]) = attempts c fs @ [(w, a)]" using Inr Some by (simp add: attempts_snoc)
    have ro1: "snd (texture_frame w a c ro) = turned a ro"
      using Inr by (simp add: texture_frame_snd rotate_texture_turns [OF assms(1,2) Some])
    have "first_created c (fs @ [(w, a)]) = (if attempts c fs = [] then ta_create a else first_created c fs)"
      by (auto simp: first_created_def at split: list.split)
    then show ?thesis using assms(3) unfolding turn_inv_def ro1 at turned_def by (cases "attempts c fs") auto
  qed
qed

lemma texture_run_inv:
  "ready ro \<Longrightarrow> rotation_angle (dd_rotation (dc_display c)) \<noteq> 0 \<Longrightarrow> turn_inv c fs0 ro \<Longrightarrow>
     ready (texture_run fs c ro) \<and> turn_inv c (fs0 @ fs) (texture_run fs c ro)"
proof (induction fs arbitrary: ro fs0)
  case Nil
  then show ?case by simp
next
  case (Cons f fs)
  obtain w a where f: "f = (w, a)" by (cases f)
  have r: "ready (snd (texture_frame w a c ro))" using Cons.prems(1) texture_frame_ready by simp
  from Cons.IH [OF r Cons.prems(2) texture_frame_inv [OF Cons.prems]] show ?case by (simp add: f)
qed

lemma texture_run_unready: "\<not> ready ro \<Longrightarrow> \<not> ready (texture_run fs c ro)"
  by (induction fs c ro rule: texture_run.induct) (simp_all add: texture_frame_ready)

lemma rotated_iff:
  "fst (vram_encode_to_message lib (texture_input t) ms ve) = Inl Rotated_texture \<longleftrightarrow> snd t \<noteq> 0"
proof (cases "snd t = 0")
  case False
  then show ?thesis by (simp add: texture_input_def vram_encode_to_message_def input_texture_def)
next
  case True
  obtain r x where e: "vl_encode lib (fst t \<noteq> Null_texture) ms (ve_ctx ve) = (r, x)"
    by (cases "vl_encode lib (fst t \<noteq> Null_texture) ms (ve_ctx ve)")
  show ?thesis
    using True
    by (simp add: texture_input_def vram_encode_to_message_def input_texture_def e Let_def
        split: list.split data_format.split)
qed

lemma turned_back_iff:
  assumes "get_texture w c = Inr p" and ro: "ro = texture_run fs c (create_rotations va device context (dd_rotation (dc_display c)))"
    and t: "rotate_texture (dd_rotation (dc_display c)) (dc_width c) (dc_height c) a ro = (t, ro1)"
  shows "snd t \<noteq> 0 \<longleftrightarrow> rotation_angle (dd_rotation (dc_display c)) \<noteq> 0 \<and>
    \<not> (can_turn va device context \<and> fits c a \<and> ta_input_view a \<and> ta_output_view a \<and> first_created c (fs @ [(w, a)]))"
proof (cases "rotation_angle (dd_rotation (dc_display c)) \<noteq> 0 \<and> can_turn va device context")
  case False
  then have "\<not> ready (create_rotations va device context (dd_rotation (dc_display c)))" by (simp add: create_rotations_ready)
  then have "\<not> ready ro" unfolding ro by (rule texture_run_unready)
  then have "snd t = rotation_angle (dd_rotation (dc_display c))"
    using t by (cases "ta_texture a") (auto simp: rotate_texture_null rotate_texture_as_is)
  then show ?thesis using False by auto
next
  case True
  then have r: "ready (create_rotations va device context (dd_rotation (dc_display c)))"
    and angle: "rotation_angle (dd_rotation (dc_display c)) \<noteq> 0"
    by (simp_all add: create_rotations_ready)
  have "turn_inv c [] (create_rotations va device context (dd_rotation (dc_display c)))"
    by (simp add: turn_inv_def create_rotations_ready attempts_def first_created_def)
  from texture_run_inv [OF r angle this, of fs] have inv: "ready ro" "turn_inv c fs ro" by (simp_all add: ro)
  show ?thesis
  proof (cases "ta_texture a")
    case None
    then show ?thesis using t True by (auto simp: rotate_texture_null fits_def)
  next
    case (Some wh)
    have "snd (texture_frame w a c ro) = turned a ro"
      by (simp add: texture_frame_snd assms(1) rotate_texture_turns [OF inv(1) angle Some])
    then have "turn_inv c (fs @ [(w, a)]) (turned a ro)" using texture_frame_inv [OF inv(1) angle inv(2), of w a] by simp
    then have made: "ro_texture (turned a ro) = first_created c (fs @ [(w, a)])" by (simp add: turn_inv_def)
    show ?thesis using t True angle
      by (auto simp: rotate_texture_turns [OF inv(1) angle Some] made fits_def Some split: if_splits)
  qed
qed

text \<open>C13. Encoding in video memory on a rotated display: a frame that the duplication delivers is refused as
  rotated exactly if the display is turned and its picture could not be turned back, which takes a
  video processor that can rotate, a captured texture of the display's size on its side, both views,
  and that the texture for the result was made at the very first attempt. A failure there is final:
  no later frame tries again.\<close>

theorem rotated_display_is_encoded:
  "case texture_frame w a c (texture_run fs c (create_rotations va device context (dd_rotation (dc_display c)))) of
     (Inl e, _) \<Rightarrow> get_texture w c = Inl e
   | (Inr t, _) \<Rightarrow>
       (fst (vram_encode_to_message lib (texture_input t) ms ve) = Inl Rotated_texture \<longleftrightarrow>
         rotation_angle (dd_rotation (dc_display c)) \<noteq> 0 \<and>
         \<not> (can_turn va device context \<and> fits c a \<and> ta_input_view a \<and> ta_output_view a \<and>
            first_created c (fs @ [(w, a)])))"
proof (cases "get_texture w c")
  case (Inl e)
  then show ?thesis by (simp add: texture_frame_def)
next
  case (Inr p)
  define ro where "ro = texture_run fs c (create_rotations va device context (dd_rotation (dc_display c)))"
  obtain t ro1 where t: "rotate_texture (dd_rotation (dc_display c)) (dc_width c) (dc_height c) a ro = (t, ro1)"
    by (cases "rotate_texture (dd_rotation (dc_display c)) (dc_width c) (dc_height c) a ro")
  have frame: "texture_frame w a c ro = (Inr t, ro1)" using Inr by (simp add: texture_frame_def t)
  show ?thesis unfolding ro_def [symmetric] frame
    using turned_back_iff [OF Inr ro_def t] by (simp add: rotated_iff)
qed

text \<open>So one failed texture makes every later frame of a turned display one that cannot be encoded.\<close>

lemma failed_texture_is_final:
  assumes "rotation_angle (dd_rotation (dc_display c)) \<noteq> 0" and "attempts c fs \<noteq> []" and "\<not> first_created c fs"
    and f: "texture_frame w a c (texture_run fs c (create_rotations va device context (dd_rotation (dc_display c)))) = (Inr t, ro1)"
  shows "fst (vram_encode_to_message lib (texture_input t) ms ve) = Inl Rotated_texture"
proof -
  have no: "\<not> first_created c (fs @ [(w, a)])"
    using assms(2,3) by (cases "attempts c fs") (auto simp: first_created_def attempts_snoc)
  obtain p where p: "get_texture w c = Inr p" using f by (cases "get_texture w c") (simp_all add: texture_frame_def)
  have t: "rotate_texture (dd_rotation (dc_display c)) (dc_width c) (dc_height c) a
      (texture_run fs c (create_rotations va device context (dd_rotation (dc_display c)))) = (t, ro1)"
    using f by (auto simp: texture_frame_def p split: prod.splits)
  show ?thesis using turned_back_iff [OF p refl t] no assms(1) by (simp add: rotated_iff)
qed

subsection \<open>Adapters\<close>

lemma adapter_luid_parts:
  "ucast (adapter_luid high low) = low" "ucast (drop_bit 32 (adapter_luid high low)) = high"
  by (rule bit_word_eqI; auto simp: adapter_luid_def bit_simps dest: bit_imp_le_length)+

text \<open>The number of an adapter identifies it.\<close>

lemma adapter_luid_inj: "adapter_luid h l = adapter_luid h1 l1 \<longleftrightarrow> h = h1 \<and> l = l1"
  by (metis adapter_luid_parts)

end
