(* ===== verification/OptionKeys.thy ===== *)
theory OptionKeys
  imports PeerFields VideoCodec "HOL-Library.Multiset"
begin

text \<open>
  The names of the options, module \<^verbatim>\<open>keys\<close> of \<^verbatim>\<open>libs/hbb_common/src/config.rs\<close>, with the four tables that
  say which of them a custom client may set in which layer, and how the names meet the fields of
  \<^verbatim>\<open>PeerConfig\<close>. Three of the names are in \<open>VideoCodec\<close>, which uses them.
\<close>

subsection \<open>Names\<close>

definition OPTION_VIEW_ONLY :: string where "OPTION_VIEW_ONLY = ''view_only''"
definition OPTION_SHOW_MONITORS_TOOLBAR :: string where "OPTION_SHOW_MONITORS_TOOLBAR = ''show_monitors_toolbar''"
definition OPTION_COLLAPSE_TOOLBAR :: string where "OPTION_COLLAPSE_TOOLBAR = ''collapse_toolbar''"
definition OPTION_SHOW_REMOTE_CURSOR :: string where "OPTION_SHOW_REMOTE_CURSOR = ''show_remote_cursor''"
definition OPTION_FOLLOW_REMOTE_CURSOR :: string where "OPTION_FOLLOW_REMOTE_CURSOR = ''follow_remote_cursor''"
definition OPTION_FOLLOW_REMOTE_WINDOW :: string where "OPTION_FOLLOW_REMOTE_WINDOW = ''follow_remote_window''"
definition OPTION_ZOOM_CURSOR :: string where "OPTION_ZOOM_CURSOR = ''zoom-cursor''"
definition OPTION_SHOW_QUALITY_MONITOR :: string where "OPTION_SHOW_QUALITY_MONITOR = ''show_quality_monitor''"
definition OPTION_DISABLE_AUDIO :: string where "OPTION_DISABLE_AUDIO = ''disable_audio''"
definition OPTION_ENABLE_FILE_COPY_PASTE :: string where "OPTION_ENABLE_FILE_COPY_PASTE = ''enable-file-copy-paste''"
definition OPTION_DISABLE_CLIPBOARD :: string where "OPTION_DISABLE_CLIPBOARD = ''disable_clipboard''"
definition OPTION_LOCK_AFTER_SESSION_END :: string where "OPTION_LOCK_AFTER_SESSION_END = ''lock_after_session_end''"
definition OPTION_PRIVACY_MODE :: string where "OPTION_PRIVACY_MODE = ''privacy_mode''"
definition OPTION_TOUCH_MODE :: string where "OPTION_TOUCH_MODE = ''touch-mode''"
definition OPTION_I444 :: string where "OPTION_I444 = ''i444''"
definition OPTION_REVERSE_MOUSE_WHEEL :: string where "OPTION_REVERSE_MOUSE_WHEEL = ''reverse_mouse_wheel''"
definition OPTION_SWAP_LEFT_RIGHT_MOUSE :: string where "OPTION_SWAP_LEFT_RIGHT_MOUSE = ''swap-left-right-mouse''"
definition OPTION_DISPLAYS_AS_INDIVIDUAL_WINDOWS :: string where
  "OPTION_DISPLAYS_AS_INDIVIDUAL_WINDOWS = ''displays_as_individual_windows''"
definition OPTION_USE_ALL_MY_DISPLAYS_FOR_THE_REMOTE_SESSION :: string where
  "OPTION_USE_ALL_MY_DISPLAYS_FOR_THE_REMOTE_SESSION = ''use_all_my_displays_for_the_remote_session''"
definition OPTION_VIEW_STYLE :: string where "OPTION_VIEW_STYLE = ''view_style''"
definition OPTION_SCROLL_STYLE :: string where "OPTION_SCROLL_STYLE = ''scroll_style''"
definition OPTION_IMAGE_QUALITY :: string where "OPTION_IMAGE_QUALITY = ''image_quality''"
definition OPTION_CUSTOM_IMAGE_QUALITY :: string where "OPTION_CUSTOM_IMAGE_QUALITY = ''custom_image_quality''"
definition OPTION_CUSTOM_FPS :: string where "OPTION_CUSTOM_FPS = ''custom-fps''"
definition OPTION_CODEC_PREFERENCE :: string where "OPTION_CODEC_PREFERENCE = ''codec-preference''"
definition OPTION_SYNC_INIT_CLIPBOARD :: string where "OPTION_SYNC_INIT_CLIPBOARD = ''sync-init-clipboard''"
definition OPTION_THEME :: string where "OPTION_THEME = ''theme''"
definition OPTION_LANGUAGE :: string where "OPTION_LANGUAGE = ''lang''"
definition OPTION_REMOTE_MENUBAR_DRAG_LEFT :: string where
  "OPTION_REMOTE_MENUBAR_DRAG_LEFT = ''remote-menubar-drag-left''"
definition OPTION_REMOTE_MENUBAR_DRAG_RIGHT :: string where
  "OPTION_REMOTE_MENUBAR_DRAG_RIGHT = ''remote-menubar-drag-right''"
definition OPTION_HIDE_AB_TAGS_PANEL :: string where "OPTION_HIDE_AB_TAGS_PANEL = ''hideAbTagsPanel''"
definition OPTION_ENABLE_CONFIRM_CLOSING_TABS :: string where
  "OPTION_ENABLE_CONFIRM_CLOSING_TABS = ''enable-confirm-closing-tabs''"
definition OPTION_ENABLE_OPEN_NEW_CONNECTIONS_IN_TABS :: string where
  "OPTION_ENABLE_OPEN_NEW_CONNECTIONS_IN_TABS = ''enable-open-new-connections-in-tabs''"
definition OPTION_TEXTURE_RENDER :: string where "OPTION_TEXTURE_RENDER = ''use-texture-render''"
definition OPTION_ENABLE_CHECK_UPDATE :: string where "OPTION_ENABLE_CHECK_UPDATE = ''enable-check-update''"
definition OPTION_SYNC_AB_WITH_RECENT_SESSIONS :: string where
  "OPTION_SYNC_AB_WITH_RECENT_SESSIONS = ''sync-ab-with-recent-sessions''"
definition OPTION_SYNC_AB_TAGS :: string where "OPTION_SYNC_AB_TAGS = ''sync-ab-tags''"
definition OPTION_FILTER_AB_BY_INTERSECTION :: string where
  "OPTION_FILTER_AB_BY_INTERSECTION = ''filter-ab-by-intersection''"
definition OPTION_ACCESS_MODE :: string where "OPTION_ACCESS_MODE = ''access-mode''"
definition OPTION_ENABLE_KEYBOARD :: string where "OPTION_ENABLE_KEYBOARD = ''enable-keyboard''"
definition OPTION_ENABLE_CLIPBOARD :: string where "OPTION_ENABLE_CLIPBOARD = ''enable-clipboard''"
definition OPTION_ENABLE_FILE_TRANSFER :: string where "OPTION_ENABLE_FILE_TRANSFER = ''enable-file-transfer''"
definition OPTION_ENABLE_AUDIO :: string where "OPTION_ENABLE_AUDIO = ''enable-audio''"
definition OPTION_ENABLE_TUNNEL :: string where "OPTION_ENABLE_TUNNEL = ''enable-tunnel''"
definition OPTION_ENABLE_REMOTE_RESTART :: string where "OPTION_ENABLE_REMOTE_RESTART = ''enable-remote-restart''"
definition OPTION_ENABLE_RECORD_SESSION :: string where "OPTION_ENABLE_RECORD_SESSION = ''enable-record-session''"
definition OPTION_ENABLE_BLOCK_INPUT :: string where "OPTION_ENABLE_BLOCK_INPUT = ''enable-block-input''"
definition OPTION_ALLOW_REMOTE_CONFIG_MODIFICATION :: string where
  "OPTION_ALLOW_REMOTE_CONFIG_MODIFICATION = ''allow-remote-config-modification''"
definition OPTION_ENABLE_LAN_DISCOVERY :: string where "OPTION_ENABLE_LAN_DISCOVERY = ''enable-lan-discovery''"
definition OPTION_DIRECT_SERVER :: string where "OPTION_DIRECT_SERVER = ''direct-server''"
definition OPTION_DIRECT_ACCESS_PORT :: string where "OPTION_DIRECT_ACCESS_PORT = ''direct-access-port''"
definition OPTION_WHITELIST :: string where "OPTION_WHITELIST = ''whitelist''"
definition OPTION_ALLOW_AUTO_DISCONNECT :: string where "OPTION_ALLOW_AUTO_DISCONNECT = ''allow-auto-disconnect''"
definition OPTION_AUTO_DISCONNECT_TIMEOUT :: string where
  "OPTION_AUTO_DISCONNECT_TIMEOUT = ''auto-disconnect-timeout''"
definition OPTION_ALLOW_ONLY_CONN_WINDOW_OPEN :: string where
  "OPTION_ALLOW_ONLY_CONN_WINDOW_OPEN = ''allow-only-conn-window-open''"
definition OPTION_ALLOW_AUTO_RECORD_INCOMING :: string where
  "OPTION_ALLOW_AUTO_RECORD_INCOMING = ''allow-auto-record-incoming''"
definition OPTION_ALLOW_AUTO_RECORD_OUTGOING :: string where
  "OPTION_ALLOW_AUTO_RECORD_OUTGOING = ''allow-auto-record-outgoing''"
definition OPTION_VIDEO_SAVE_DIRECTORY :: string where "OPTION_VIDEO_SAVE_DIRECTORY = ''video-save-directory''"
definition OPTION_ENABLE_ABR :: string where "OPTION_ENABLE_ABR = ''enable-abr''"
definition OPTION_ALLOW_REMOVE_WALLPAPER :: string where "OPTION_ALLOW_REMOVE_WALLPAPER = ''allow-remove-wallpaper''"
definition OPTION_ALLOW_ALWAYS_SOFTWARE_RENDER :: string where
  "OPTION_ALLOW_ALWAYS_SOFTWARE_RENDER = ''allow-always-software-render''"
definition OPTION_ALLOW_LINUX_HEADLESS :: string where "OPTION_ALLOW_LINUX_HEADLESS = ''allow-linux-headless''"
definition OPTION_APPROVE_MODE :: string where "OPTION_APPROVE_MODE = ''approve-mode''"
definition OPTION_VERIFICATION_METHOD :: string where "OPTION_VERIFICATION_METHOD = ''verification-method''"
definition OPTION_CUSTOM_RENDEZVOUS_SERVER :: string where
  "OPTION_CUSTOM_RENDEZVOUS_SERVER = ''custom-rendezvous-server''"
definition OPTION_API_SERVER :: string where "OPTION_API_SERVER = ''api-server''"
definition OPTION_KEY :: string where "OPTION_KEY = ''key''"
definition OPTION_PRESET_ADDRESS_BOOK_NAME :: string where
  "OPTION_PRESET_ADDRESS_BOOK_NAME = ''preset-address-book-name''"
definition OPTION_PRESET_ADDRESS_BOOK_TAG :: string where
  "OPTION_PRESET_ADDRESS_BOOK_TAG = ''preset-address-book-tag''"
definition OPTION_ENABLE_ANDROID_SOFTWARE_ENCODING_HALF_SCALE :: string where
  "OPTION_ENABLE_ANDROID_SOFTWARE_ENCODING_HALF_SCALE = ''enable-android-software-encoding-half-scale''"
definition OPTION_ENABLE_TRUSTED_DEVICES :: string where "OPTION_ENABLE_TRUSTED_DEVICES = ''enable-trusted-devices''"
definition OPTION_DISPLAY_NAME :: string where "OPTION_DISPLAY_NAME = ''display-name''"
definition OPTION_DISABLE_UDP :: string where "OPTION_DISABLE_UDP = ''disable-udp''"
definition OPTION_PRESET_USERNAME :: string where "OPTION_PRESET_USERNAME = ''preset-user-name''"
definition OPTION_PRESET_STRATEGY_NAME :: string where "OPTION_PRESET_STRATEGY_NAME = ''preset-strategy-name''"
definition OPTION_REMOVE_PRESET_PASSWORD_WARNING :: string where
  "OPTION_REMOVE_PRESET_PASSWORD_WARNING = ''remove-preset-password-warning''"
definition OPTION_HIDE_SECURITY_SETTINGS :: string where "OPTION_HIDE_SECURITY_SETTINGS = ''hide-security-settings''"
definition OPTION_HIDE_NETWORK_SETTINGS :: string where "OPTION_HIDE_NETWORK_SETTINGS = ''hide-network-settings''"
definition OPTION_HIDE_SERVER_SETTINGS :: string where "OPTION_HIDE_SERVER_SETTINGS = ''hide-server-settings''"
definition OPTION_HIDE_PROXY_SETTINGS :: string where "OPTION_HIDE_PROXY_SETTINGS = ''hide-proxy-settings''"
definition OPTION_HIDE_USERNAME_ON_CARD :: string where "OPTION_HIDE_USERNAME_ON_CARD = ''hide-username-on-card''"
definition OPTION_HIDE_HELP_CARDS :: string where "OPTION_HIDE_HELP_CARDS = ''hide-help-cards''"
definition OPTION_DEFAULT_CONNECT_PASSWORD :: string where
  "OPTION_DEFAULT_CONNECT_PASSWORD = ''default-connect-password''"
definition OPTION_HIDE_TRAY :: string where "OPTION_HIDE_TRAY = ''hide-tray''"
definition OPTION_ONE_WAY_CLIPBOARD_REDIRECTION :: string where
  "OPTION_ONE_WAY_CLIPBOARD_REDIRECTION = ''one-way-clipboard-redirection''"
definition OPTION_ALLOW_LOGON_SCREEN_PASSWORD :: string where
  "OPTION_ALLOW_LOGON_SCREEN_PASSWORD = ''allow-logon-screen-password''"
definition OPTION_ONE_WAY_FILE_TRANSFER :: string where "OPTION_ONE_WAY_FILE_TRANSFER = ''one-way-file-transfer''"
definition OPTION_FLUTTER_REMOTE_MENUBAR_STATE :: string where
  "OPTION_FLUTTER_REMOTE_MENUBAR_STATE = ''remoteMenubarState''"
definition OPTION_FLUTTER_PEER_SORTING :: string where "OPTION_FLUTTER_PEER_SORTING = ''peer-sorting''"
definition OPTION_FLUTTER_PEER_TAB_INDEX :: string where "OPTION_FLUTTER_PEER_TAB_INDEX = ''peer-tab-index''"
definition OPTION_FLUTTER_PEER_TAB_ORDER :: string where "OPTION_FLUTTER_PEER_TAB_ORDER = ''peer-tab-order''"
definition OPTION_FLUTTER_PEER_TAB_VISIBLE :: string where "OPTION_FLUTTER_PEER_TAB_VISIBLE = ''peer-tab-visible''"
definition OPTION_FLUTTER_PEER_CARD_UI_TYLE :: string where "OPTION_FLUTTER_PEER_CARD_UI_TYLE = ''peer-card-ui-type''"
definition OPTION_FLUTTER_CURRENT_AB_NAME :: string where "OPTION_FLUTTER_CURRENT_AB_NAME = ''current-ab-name''"
definition OPTION_ALLOW_REMOTE_CM_MODIFICATION :: string where
  "OPTION_ALLOW_REMOTE_CM_MODIFICATION = ''allow-remote-cm-modification''"
definition OPTION_DISABLE_FLOATING_WINDOW :: string where
  "OPTION_DISABLE_FLOATING_WINDOW = ''disable-floating-window''"
definition OPTION_FLOATING_WINDOW_SIZE :: string where "OPTION_FLOATING_WINDOW_SIZE = ''floating-window-size''"
definition OPTION_FLOATING_WINDOW_UNTOUCHABLE :: string where
  "OPTION_FLOATING_WINDOW_UNTOUCHABLE = ''floating-window-untouchable''"
definition OPTION_FLOATING_WINDOW_TRANSPARENCY :: string where
  "OPTION_FLOATING_WINDOW_TRANSPARENCY = ''floating-window-transparency''"
definition OPTION_FLOATING_WINDOW_SVG :: string where "OPTION_FLOATING_WINDOW_SVG = ''floating-window-svg''"
definition OPTION_KEEP_SCREEN_ON :: string where "OPTION_KEEP_SCREEN_ON = ''keep-screen-on''"
definition OPTION_DISABLE_GROUP_PANEL :: string where "OPTION_DISABLE_GROUP_PANEL = ''disable-group-panel''"
definition OPTION_PRE_ELEVATE_SERVICE :: string where "OPTION_PRE_ELEVATE_SERVICE = ''pre-elevate-service''"
definition OPTION_PROXY_URL :: string where "OPTION_PROXY_URL = ''proxy-url''"
definition OPTION_PROXY_USERNAME :: string where "OPTION_PROXY_USERNAME = ''proxy-username''"
definition OPTION_PROXY_PASSWORD :: string where "OPTION_PROXY_PASSWORD = ''proxy-password''"

subsection \<open>Tables\<close>

definition KEYS_DISPLAY_SETTINGS :: "string list" where
  "KEYS_DISPLAY_SETTINGS = [
    OPTION_VIEW_ONLY, OPTION_SHOW_MONITORS_TOOLBAR, OPTION_COLLAPSE_TOOLBAR, OPTION_SHOW_REMOTE_CURSOR,
    OPTION_FOLLOW_REMOTE_CURSOR, OPTION_FOLLOW_REMOTE_WINDOW, OPTION_ZOOM_CURSOR, OPTION_SHOW_QUALITY_MONITOR,
    OPTION_DISABLE_AUDIO, OPTION_ENABLE_FILE_COPY_PASTE, OPTION_DISABLE_CLIPBOARD, OPTION_LOCK_AFTER_SESSION_END,
    OPTION_PRIVACY_MODE, OPTION_TOUCH_MODE, OPTION_I444, OPTION_REVERSE_MOUSE_WHEEL,
    OPTION_SWAP_LEFT_RIGHT_MOUSE, OPTION_DISPLAYS_AS_INDIVIDUAL_WINDOWS,
    OPTION_USE_ALL_MY_DISPLAYS_FOR_THE_REMOTE_SESSION, OPTION_VIEW_STYLE, OPTION_SCROLL_STYLE,
    OPTION_IMAGE_QUALITY, OPTION_CUSTOM_IMAGE_QUALITY, OPTION_CUSTOM_FPS, OPTION_CODEC_PREFERENCE,
    OPTION_SYNC_INIT_CLIPBOARD]"

definition KEYS_LOCAL_SETTINGS :: "string list" where
  "KEYS_LOCAL_SETTINGS = [
    OPTION_THEME, OPTION_LANGUAGE, OPTION_ENABLE_CONFIRM_CLOSING_TABS,
    OPTION_ENABLE_OPEN_NEW_CONNECTIONS_IN_TABS, OPTION_TEXTURE_RENDER, OPTION_SYNC_AB_WITH_RECENT_SESSIONS,
    OPTION_SYNC_AB_TAGS, OPTION_FILTER_AB_BY_INTERSECTION, OPTION_REMOTE_MENUBAR_DRAG_LEFT,
    OPTION_REMOTE_MENUBAR_DRAG_RIGHT, OPTION_HIDE_AB_TAGS_PANEL, OPTION_FLUTTER_REMOTE_MENUBAR_STATE,
    OPTION_FLUTTER_PEER_SORTING, OPTION_FLUTTER_PEER_TAB_INDEX, OPTION_FLUTTER_PEER_TAB_ORDER,
    OPTION_FLUTTER_PEER_TAB_VISIBLE, OPTION_FLUTTER_PEER_CARD_UI_TYLE, OPTION_FLUTTER_CURRENT_AB_NAME,
    OPTION_DISABLE_FLOATING_WINDOW, OPTION_FLOATING_WINDOW_SIZE, OPTION_FLOATING_WINDOW_UNTOUCHABLE,
    OPTION_FLOATING_WINDOW_TRANSPARENCY, OPTION_FLOATING_WINDOW_SVG, OPTION_KEEP_SCREEN_ON,
    OPTION_DISABLE_GROUP_PANEL, OPTION_PRE_ELEVATE_SERVICE, OPTION_ALLOW_REMOTE_CM_MODIFICATION,
    OPTION_ALLOW_AUTO_RECORD_OUTGOING, OPTION_VIDEO_SAVE_DIRECTORY]"

definition KEYS_SETTINGS :: "string list" where
  "KEYS_SETTINGS = [
    OPTION_ACCESS_MODE, OPTION_ENABLE_KEYBOARD, OPTION_ENABLE_CLIPBOARD, OPTION_ENABLE_FILE_TRANSFER,
    OPTION_ENABLE_AUDIO, OPTION_ENABLE_TUNNEL, OPTION_ENABLE_REMOTE_RESTART, OPTION_ENABLE_RECORD_SESSION,
    OPTION_ENABLE_BLOCK_INPUT, OPTION_ALLOW_REMOTE_CONFIG_MODIFICATION, OPTION_ENABLE_LAN_DISCOVERY,
    OPTION_DIRECT_SERVER, OPTION_DIRECT_ACCESS_PORT, OPTION_WHITELIST, OPTION_ALLOW_AUTO_DISCONNECT,
    OPTION_AUTO_DISCONNECT_TIMEOUT, OPTION_ALLOW_ONLY_CONN_WINDOW_OPEN, OPTION_ALLOW_AUTO_RECORD_INCOMING,
    OPTION_ENABLE_ABR, OPTION_ALLOW_REMOVE_WALLPAPER, OPTION_ALLOW_ALWAYS_SOFTWARE_RENDER,
    OPTION_ALLOW_LINUX_HEADLESS, OPTION_ENABLE_HWCODEC, OPTION_APPROVE_MODE, OPTION_VERIFICATION_METHOD,
    OPTION_PROXY_URL, OPTION_PROXY_USERNAME, OPTION_PROXY_PASSWORD, OPTION_CUSTOM_RENDEZVOUS_SERVER,
    OPTION_API_SERVER, OPTION_KEY, OPTION_PRESET_ADDRESS_BOOK_NAME, OPTION_PRESET_ADDRESS_BOOK_TAG,
    OPTION_ENABLE_DIRECTX_CAPTURE, OPTION_ENABLE_ANDROID_SOFTWARE_ENCODING_HALF_SCALE,
    OPTION_ENABLE_TRUSTED_DEVICES]"

definition KEYS_BUILDIN_SETTINGS :: "string list" where
  "KEYS_BUILDIN_SETTINGS = [
    OPTION_DISPLAY_NAME, OPTION_DISABLE_UDP, OPTION_PRESET_USERNAME, OPTION_PRESET_STRATEGY_NAME,
    OPTION_REMOVE_PRESET_PASSWORD_WARNING, OPTION_HIDE_SECURITY_SETTINGS, OPTION_HIDE_NETWORK_SETTINGS,
    OPTION_HIDE_SERVER_SETTINGS, OPTION_HIDE_PROXY_SETTINGS, OPTION_HIDE_USERNAME_ON_CARD,
    OPTION_HIDE_HELP_CARDS, OPTION_DEFAULT_CONNECT_PASSWORD, OPTION_HIDE_TRAY,
    OPTION_ONE_WAY_CLIPBOARD_REDIRECTION, OPTION_ALLOW_LOGON_SCREEN_PASSWORD, OPTION_ONE_WAY_FILE_TRANSFER]"

lemmas key_names =
  OPTION_VIEW_ONLY_def OPTION_SHOW_MONITORS_TOOLBAR_def OPTION_COLLAPSE_TOOLBAR_def
  OPTION_SHOW_REMOTE_CURSOR_def OPTION_FOLLOW_REMOTE_CURSOR_def OPTION_FOLLOW_REMOTE_WINDOW_def
  OPTION_ZOOM_CURSOR_def OPTION_SHOW_QUALITY_MONITOR_def OPTION_DISABLE_AUDIO_def
  OPTION_ENABLE_FILE_COPY_PASTE_def OPTION_DISABLE_CLIPBOARD_def OPTION_LOCK_AFTER_SESSION_END_def
  OPTION_PRIVACY_MODE_def OPTION_TOUCH_MODE_def OPTION_I444_def OPTION_REVERSE_MOUSE_WHEEL_def
  OPTION_SWAP_LEFT_RIGHT_MOUSE_def OPTION_DISPLAYS_AS_INDIVIDUAL_WINDOWS_def
  OPTION_USE_ALL_MY_DISPLAYS_FOR_THE_REMOTE_SESSION_def OPTION_VIEW_STYLE_def OPTION_SCROLL_STYLE_def
  OPTION_IMAGE_QUALITY_def OPTION_CUSTOM_IMAGE_QUALITY_def OPTION_CUSTOM_FPS_def OPTION_CODEC_PREFERENCE_def
  OPTION_SYNC_INIT_CLIPBOARD_def OPTION_THEME_def OPTION_LANGUAGE_def OPTION_REMOTE_MENUBAR_DRAG_LEFT_def
  OPTION_REMOTE_MENUBAR_DRAG_RIGHT_def OPTION_HIDE_AB_TAGS_PANEL_def OPTION_ENABLE_CONFIRM_CLOSING_TABS_def
  OPTION_ENABLE_OPEN_NEW_CONNECTIONS_IN_TABS_def OPTION_TEXTURE_RENDER_def OPTION_ENABLE_CHECK_UPDATE_def
  OPTION_SYNC_AB_WITH_RECENT_SESSIONS_def OPTION_SYNC_AB_TAGS_def OPTION_FILTER_AB_BY_INTERSECTION_def
  OPTION_ACCESS_MODE_def OPTION_ENABLE_KEYBOARD_def OPTION_ENABLE_CLIPBOARD_def OPTION_ENABLE_FILE_TRANSFER_def
  OPTION_ENABLE_AUDIO_def OPTION_ENABLE_TUNNEL_def OPTION_ENABLE_REMOTE_RESTART_def
  OPTION_ENABLE_RECORD_SESSION_def OPTION_ENABLE_BLOCK_INPUT_def OPTION_ALLOW_REMOTE_CONFIG_MODIFICATION_def
  OPTION_ENABLE_LAN_DISCOVERY_def OPTION_DIRECT_SERVER_def OPTION_DIRECT_ACCESS_PORT_def OPTION_WHITELIST_def
  OPTION_ALLOW_AUTO_DISCONNECT_def OPTION_AUTO_DISCONNECT_TIMEOUT_def OPTION_ALLOW_ONLY_CONN_WINDOW_OPEN_def
  OPTION_ALLOW_AUTO_RECORD_INCOMING_def OPTION_ALLOW_AUTO_RECORD_OUTGOING_def OPTION_VIDEO_SAVE_DIRECTORY_def
  OPTION_ENABLE_ABR_def OPTION_ALLOW_REMOVE_WALLPAPER_def OPTION_ALLOW_ALWAYS_SOFTWARE_RENDER_def
  OPTION_ALLOW_LINUX_HEADLESS_def OPTION_ENABLE_HWCODEC_def OPTION_APPROVE_MODE_def
  OPTION_VERIFICATION_METHOD_def OPTION_CUSTOM_RENDEZVOUS_SERVER_def OPTION_API_SERVER_def OPTION_KEY_def
  OPTION_PRESET_ADDRESS_BOOK_NAME_def OPTION_PRESET_ADDRESS_BOOK_TAG_def OPTION_ENABLE_DIRECTX_CAPTURE_def
  OPTION_ENABLE_ANDROID_SOFTWARE_ENCODING_HALF_SCALE_def OPTION_ENABLE_TRUSTED_DEVICES_def OPTION_AV1_TEST_def
  OPTION_DISPLAY_NAME_def OPTION_DISABLE_UDP_def OPTION_PRESET_USERNAME_def OPTION_PRESET_STRATEGY_NAME_def
  OPTION_REMOVE_PRESET_PASSWORD_WARNING_def OPTION_HIDE_SECURITY_SETTINGS_def OPTION_HIDE_NETWORK_SETTINGS_def
  OPTION_HIDE_SERVER_SETTINGS_def OPTION_HIDE_PROXY_SETTINGS_def OPTION_HIDE_USERNAME_ON_CARD_def
  OPTION_HIDE_HELP_CARDS_def OPTION_DEFAULT_CONNECT_PASSWORD_def OPTION_HIDE_TRAY_def
  OPTION_ONE_WAY_CLIPBOARD_REDIRECTION_def OPTION_ALLOW_LOGON_SCREEN_PASSWORD_def
  OPTION_ONE_WAY_FILE_TRANSFER_def OPTION_FLUTTER_REMOTE_MENUBAR_STATE_def OPTION_FLUTTER_PEER_SORTING_def
  OPTION_FLUTTER_PEER_TAB_INDEX_def OPTION_FLUTTER_PEER_TAB_ORDER_def OPTION_FLUTTER_PEER_TAB_VISIBLE_def
  OPTION_FLUTTER_PEER_CARD_UI_TYLE_def OPTION_FLUTTER_CURRENT_AB_NAME_def
  OPTION_ALLOW_REMOTE_CM_MODIFICATION_def OPTION_DISABLE_FLOATING_WINDOW_def OPTION_FLOATING_WINDOW_SIZE_def
  OPTION_FLOATING_WINDOW_UNTOUCHABLE_def OPTION_FLOATING_WINDOW_TRANSPARENCY_def OPTION_FLOATING_WINDOW_SVG_def
  OPTION_KEEP_SCREEN_ON_def OPTION_DISABLE_GROUP_PANEL_def OPTION_PRE_ELEVATE_SERVICE_def OPTION_PROXY_URL_def
  OPTION_PROXY_USERNAME_def OPTION_PROXY_PASSWORD_def

lemmas key_tables = KEYS_DISPLAY_SETTINGS_def KEYS_LOCAL_SETTINGS_def KEYS_SETTINGS_def KEYS_BUILDIN_SETTINGS_def

text \<open>All names, in the order of the source.\<close>

definition all_keys :: "string list" where
  "all_keys = [
    OPTION_VIEW_ONLY, OPTION_SHOW_MONITORS_TOOLBAR, OPTION_COLLAPSE_TOOLBAR, OPTION_SHOW_REMOTE_CURSOR,
    OPTION_FOLLOW_REMOTE_CURSOR, OPTION_FOLLOW_REMOTE_WINDOW, OPTION_ZOOM_CURSOR, OPTION_SHOW_QUALITY_MONITOR,
    OPTION_DISABLE_AUDIO, OPTION_ENABLE_FILE_COPY_PASTE, OPTION_DISABLE_CLIPBOARD,
    OPTION_LOCK_AFTER_SESSION_END, OPTION_PRIVACY_MODE, OPTION_TOUCH_MODE, OPTION_I444,
    OPTION_REVERSE_MOUSE_WHEEL, OPTION_SWAP_LEFT_RIGHT_MOUSE, OPTION_DISPLAYS_AS_INDIVIDUAL_WINDOWS,
    OPTION_USE_ALL_MY_DISPLAYS_FOR_THE_REMOTE_SESSION, OPTION_VIEW_STYLE, OPTION_SCROLL_STYLE,
    OPTION_IMAGE_QUALITY, OPTION_CUSTOM_IMAGE_QUALITY, OPTION_CUSTOM_FPS, OPTION_CODEC_PREFERENCE,
    OPTION_SYNC_INIT_CLIPBOARD, OPTION_THEME, OPTION_LANGUAGE, OPTION_REMOTE_MENUBAR_DRAG_LEFT,
    OPTION_REMOTE_MENUBAR_DRAG_RIGHT, OPTION_HIDE_AB_TAGS_PANEL, OPTION_ENABLE_CONFIRM_CLOSING_TABS,
    OPTION_ENABLE_OPEN_NEW_CONNECTIONS_IN_TABS, OPTION_TEXTURE_RENDER, OPTION_ENABLE_CHECK_UPDATE,
    OPTION_SYNC_AB_WITH_RECENT_SESSIONS, OPTION_SYNC_AB_TAGS, OPTION_FILTER_AB_BY_INTERSECTION,
    OPTION_ACCESS_MODE, OPTION_ENABLE_KEYBOARD, OPTION_ENABLE_CLIPBOARD, OPTION_ENABLE_FILE_TRANSFER,
    OPTION_ENABLE_AUDIO, OPTION_ENABLE_TUNNEL, OPTION_ENABLE_REMOTE_RESTART, OPTION_ENABLE_RECORD_SESSION,
    OPTION_ENABLE_BLOCK_INPUT, OPTION_ALLOW_REMOTE_CONFIG_MODIFICATION, OPTION_ENABLE_LAN_DISCOVERY,
    OPTION_DIRECT_SERVER, OPTION_DIRECT_ACCESS_PORT, OPTION_WHITELIST, OPTION_ALLOW_AUTO_DISCONNECT,
    OPTION_AUTO_DISCONNECT_TIMEOUT, OPTION_ALLOW_ONLY_CONN_WINDOW_OPEN, OPTION_ALLOW_AUTO_RECORD_INCOMING,
    OPTION_ALLOW_AUTO_RECORD_OUTGOING, OPTION_VIDEO_SAVE_DIRECTORY, OPTION_ENABLE_ABR,
    OPTION_ALLOW_REMOVE_WALLPAPER, OPTION_ALLOW_ALWAYS_SOFTWARE_RENDER, OPTION_ALLOW_LINUX_HEADLESS,
    OPTION_ENABLE_HWCODEC, OPTION_APPROVE_MODE, OPTION_VERIFICATION_METHOD, OPTION_CUSTOM_RENDEZVOUS_SERVER,
    OPTION_API_SERVER, OPTION_KEY, OPTION_PRESET_ADDRESS_BOOK_NAME, OPTION_PRESET_ADDRESS_BOOK_TAG,
    OPTION_ENABLE_DIRECTX_CAPTURE, OPTION_ENABLE_ANDROID_SOFTWARE_ENCODING_HALF_SCALE,
    OPTION_ENABLE_TRUSTED_DEVICES, OPTION_AV1_TEST, OPTION_DISPLAY_NAME, OPTION_DISABLE_UDP,
    OPTION_PRESET_USERNAME, OPTION_PRESET_STRATEGY_NAME, OPTION_REMOVE_PRESET_PASSWORD_WARNING,
    OPTION_HIDE_SECURITY_SETTINGS, OPTION_HIDE_NETWORK_SETTINGS, OPTION_HIDE_SERVER_SETTINGS,
    OPTION_HIDE_PROXY_SETTINGS, OPTION_HIDE_USERNAME_ON_CARD, OPTION_HIDE_HELP_CARDS,
    OPTION_DEFAULT_CONNECT_PASSWORD, OPTION_HIDE_TRAY, OPTION_ONE_WAY_CLIPBOARD_REDIRECTION,
    OPTION_ALLOW_LOGON_SCREEN_PASSWORD, OPTION_ONE_WAY_FILE_TRANSFER, OPTION_FLUTTER_REMOTE_MENUBAR_STATE,
    OPTION_FLUTTER_PEER_SORTING, OPTION_FLUTTER_PEER_TAB_INDEX, OPTION_FLUTTER_PEER_TAB_ORDER,
    OPTION_FLUTTER_PEER_TAB_VISIBLE, OPTION_FLUTTER_PEER_CARD_UI_TYLE, OPTION_FLUTTER_CURRENT_AB_NAME,
    OPTION_ALLOW_REMOTE_CM_MODIFICATION, OPTION_DISABLE_FLOATING_WINDOW, OPTION_FLOATING_WINDOW_SIZE,
    OPTION_FLOATING_WINDOW_UNTOUCHABLE, OPTION_FLOATING_WINDOW_TRANSPARENCY, OPTION_FLOATING_WINDOW_SVG,
    OPTION_KEEP_SCREEN_ON, OPTION_DISABLE_GROUP_PANEL, OPTION_PRE_ELEVATE_SERVICE, OPTION_PROXY_URL,
    OPTION_PROXY_USERNAME, OPTION_PROXY_PASSWORD]"


subsection \<open>The tables\<close>

lemma all_keys_distinct: "distinct all_keys"
  by code_simp

lemma tables_in_order:
  "mset (KEYS_DISPLAY_SETTINGS @ KEYS_LOCAL_SETTINGS @ KEYS_SETTINGS @ KEYS_BUILDIN_SETTINGS) +
   {#OPTION_ENABLE_CHECK_UPDATE, OPTION_AV1_TEST#} = mset all_keys"
  unfolding key_tables all_keys_def by (simp add: ac_simps del: mset_append)

text \<open>A custom client can set every option in one layer at most: no name stands twice in the four tables
  of display, local, ordinary and built-in settings, and together they have every name there is but
  two, the check for updates and the verdict of the AV1 test, which a custom client cannot set.\<close>

theorem settings_tables_partition:
  "distinct (KEYS_DISPLAY_SETTINGS @ KEYS_LOCAL_SETTINGS @ KEYS_SETTINGS @ KEYS_BUILDIN_SETTINGS) \<and>
   set (KEYS_DISPLAY_SETTINGS @ KEYS_LOCAL_SETTINGS @ KEYS_SETTINGS @ KEYS_BUILDIN_SETTINGS) =
     set all_keys - {OPTION_ENABLE_CHECK_UPDATE, OPTION_AV1_TEST}"
proof -
  let ?t = "KEYS_DISPLAY_SETTINGS @ KEYS_LOCAL_SETTINGS @ KEYS_SETTINGS @ KEYS_BUILDIN_SETTINGS"
  let ?r = "[OPTION_ENABLE_CHECK_UPDATE, OPTION_AV1_TEST]"
  have m: "mset (?t @ ?r) = mset all_keys" using tables_in_order by simp
  have "distinct (?t @ ?r)" using all_keys_distinct mset_eq_imp_distinct_iff [OF m] by blast
  moreover have "set (?t @ ?r) = set all_keys" by (rule mset_eq_setD [OF m])
  ultimately show ?thesis by auto
qed

subsection \<open>The defaults of a peer\<close>

text \<open>The names that \<^verbatim>\<open>PeerConfig\<close> reads its defaults from: its switches (\<^verbatim>\<open>serde_field_bool!\<close>) and its
  texts (\<^verbatim>\<open>serde_field_string!\<close>).\<close>

definition peer_flag_keys :: "string list" where
  "peer_flag_keys = [''show_remote_cursor'', ''follow_remote_cursor'', ''follow_remote_window'', ''show_quality_monitor'',
     ''disable_audio'', ''enable-file-copy-paste'', ''disable_clipboard'', ''lock_after_session_end'', ''privacy_mode'',
     ''allow_swap_key'', ''view_only'', ''sync-init-clipboard'']"

definition peer_text_keys :: "string list" where
  "peer_text_keys = [OPTION_VIEW_STYLE, OPTION_SCROLL_STYLE, OPTION_IMAGE_QUALITY, OPTION_REVERSE_MOUSE_WHEEL,
     OPTION_DISPLAYS_AS_INDIVIDUAL_WINDOWS, OPTION_USE_ALL_MY_DISPLAYS_FOR_THE_REMOTE_SESSION]"

definition peer_default_keys :: "string list" where
  "peer_default_keys = peer_flag_keys @ peer_text_keys @ default_option_keys @ [OPTION_CUSTOM_IMAGE_QUALITY]"

text \<open>A new peer, and one that is read from a file, depend on the user's defaults by these names only, and
  all of them are display settings, except that of the swapped keys, which is in no table.\<close>

lemma peer_defaults_from_display_settings:
  "peer_default rd q = peer_default (\<lambda>k. if k \<in> set peer_default_keys then rd k else '''') q"
  "set peer_default_keys - {''allow_swap_key''} \<subseteq> set KEYS_DISPLAY_SETTINGS"
  "''allow_swap_key'' \<notin> set all_keys"
proof -
  let ?rd = "\<lambda>k. if k \<in> set peer_default_keys then rd k else ''''"
  have r: "?rd k = rd k" if "k \<in> set peer_default_keys" for k using that by simp
  have "default_options ?rd = default_options rd"
    by (simp add: default_options_def default_option_keys_def peer_default_keys_def)
  then show "peer_default rd q = peer_default ?rd q"
    by (simp add: peer_default_def default_flag_def default_custom_image_quality_def peer_default_keys_def
        peer_flag_keys_def peer_text_keys_def OPTION_VIEW_STYLE_def OPTION_SCROLL_STYLE_def OPTION_IMAGE_QUALITY_def
        OPTION_REVERSE_MOUSE_WHEEL_def OPTION_DISPLAYS_AS_INDIVIDUAL_WINDOWS_def
        OPTION_USE_ALL_MY_DISPLAYS_FOR_THE_REMOTE_SESSION_def OPTION_CUSTOM_IMAGE_QUALITY_def)
  have "list_all (\<lambda>k. k = ''allow_swap_key'' \<or> k \<in> set KEYS_DISPLAY_SETTINGS) peer_default_keys" by code_simp
  then show "set peer_default_keys - {''allow_swap_key''} \<subseteq> set KEYS_DISPLAY_SETTINGS"
    by (auto simp: list_all_iff)
  show "''allow_swap_key'' \<notin> set all_keys" by code_simp
qed

end
