(* ===== verification/Probes.thy ===== *)
theory Probes
  imports Encoders Settings LinuxSession ConfigStore
begin

text \<open>
  What runs once beside the program: the speed test of AV1 in \<^verbatim>\<open>common/codec.rs\<close>, the process that looks
  for hardware codecs in \<^verbatim>\<open>common/hwcodec.rs\<close>; and the small functions of \<^verbatim>\<open>libs/hbb_common/src/lib.rs\<close>
  on times, on the identity of the machine and on the version for the build. Clocks, random numbers
  and processes are arguments.
\<close>

subsection \<open>The speed test of AV1\<close>

definition AV1_WIDTH :: nat where "AV1_WIDTH = 1920"
definition AV1_HEIGHT :: nat where "AV1_HEIGHT = 1080"
definition AV1_FRAMES :: nat where "AV1_FRAMES = 10"
definition AV1_BLOCK :: nat where "AV1_BLOCK = 300"
definition AV1_STEP :: nat where "AV1_STEP = 50"

text \<open>Where the pixel \<open>(x, y)\<close> of the block is in the \<open>i\<close>-th picture.\<close>

definition block_index :: "nat \<Rightarrow> nat \<Rightarrow> nat \<Rightarrow> nat" where
  "block_index i y x =
     (let x0 = i * AV1_STEP mod (AV1_WIDTH - AV1_BLOCK); y0 = i * AV1_STEP mod (AV1_HEIGHT - AV1_BLOCK)
      in ((y0 + y) * AV1_WIDTH + x0 + x) * 4)"

definition write_pixel :: "nat \<Rightarrow> u8 \<Rightarrow> bytes \<Rightarrow> bytes" where
  "write_pixel n v b = (if n + 3 < length b then b[n := v, n + 1 := v, n + 2 := v, n + 3 := 255] else b)"

definition fake_picture :: "(nat \<Rightarrow> nat \<Rightarrow> u8) \<Rightarrow> nat \<Rightarrow> bytes" where
  "fake_picture value i =
     fold (\<lambda>(y, x). write_pixel (block_index i y x) (value y x))
       (List.product [0..<AV1_BLOCK] [0..<AV1_BLOCK]) (replicate (AV1_WIDTH * AV1_HEIGHT * 4) 0)"

text \<open>A round of the test: the picture was converted, it was encoded, and the time in nanoseconds.\<close>

record av1_round =
  ar_data :: bool
  ar_encoded :: bool
  ar_nanos :: nat

fun av1_loop :: "nat \<Rightarrow> av1_round list \<Rightarrow> nat \<times> nat \<Rightarrow> (nat \<times> nat) option" where
  "av1_loop i [] t = Some t"
| "av1_loop i (r # rs) (key_time, rest) =
     (if \<not> ar_data r then None
      else if \<not> ar_encoded r \<and> i = 0 then None
      else av1_loop (i + 1) rs (if i = 0 then (ar_nanos r, rest) else (key_time, rest + ar_nanos r)))"

definition av1_verdict :: "bool \<Rightarrow> (nat \<Rightarrow> av1_round) \<Rightarrow> bool" where
  "av1_verdict created rounds \<longleftrightarrow>
     created \<and>
     (case av1_loop 0 (map rounds [0..<AV1_FRAMES]) (0, 0) of
        None \<Rightarrow> False
      | Some (key_time, rest) \<Rightarrow> key_time < 90 * 10 ^ 6 \<and> rest div (AV1_FRAMES - 1) < 30 * 10 ^ 6)"

text \<open>The whole test, whose thread has ended; \<open>once\<close> says that this process has started it before.\<close>

definition test_av1 :: "crypto \<Rightarrow> codec_env \<Rightarrow> bool \<Rightarrow> bool \<times> app \<Rightarrow> bool \<times> app" where
  "test_av1 cr e verdict s =
     (case s of (once, a) \<Rightarrow>
       (if disable_av1 e \<or> config_get_option a OPTION_AV1_TEST \<noteq> '''' \<or> once then (once, a)
        else (True, config_set_option cr OPTION_AV1_TEST (if verdict then ''Y'' else ''N'') a)))"

subsection \<open>The process that looks for hardware codecs\<close>

datatype probe_event = Spawn | Sleep_ms nat | Try_wait | Kill | Wait

text \<open>The loop waits a second and asks, up to 30 times; \<open>exited n\<close>: the child is seen to have ended at the
  \<open>n\<close>-th question.\<close>

fun wait_loop :: "nat \<Rightarrow> nat \<Rightarrow> (nat \<Rightarrow> bool) \<Rightarrow> probe_event list" where
  "wait_loop 0 n exited = []"
| "wait_loop (Suc k) n exited = Sleep_ms 1000 # Try_wait # (if exited n then [] else wait_loop k (n + 1) exited)"

text \<open>\<open>last_try\<close>: the answer after the child has been killed, \<open>None\<close> for an error.\<close>

definition check_process :: "bool \<Rightarrow> bool \<Rightarrow> (nat \<Rightarrow> bool) \<Rightarrow> bool option \<Rightarrow> probe_event list" where
  "check_process exe_found spawned exited last_try =
     (if \<not> exe_found then []
      else if \<not> spawned then [Spawn]
      else Spawn # wait_loop 30 0 exited @ [Kill, Sleep_ms 30, Try_wait] @ (if last_try = Some False then [Wait] else []))"

definition start_check_process ::
    "bool \<Rightarrow> bool \<Rightarrow> bool \<Rightarrow> bool \<Rightarrow> bool \<Rightarrow> (nat \<Rightarrow> bool) \<Rightarrow> bool option \<Rightarrow> bool \<times> probe_event list" where
  "start_check_process enabled already once exe_found spawned exited last_try =
     (if \<not> enabled \<or> already \<or> once then (once, [])
      else (True, check_process exe_found spawned exited last_try))"

subsection \<open>Times, the machine and the version\<close>

text \<open>The metadata of a path, if it can be read, has a time or none; times count from the epoch.\<close>

definition time_or_epoch :: "int option option \<Rightarrow> int" where
  "time_or_epoch m = (case m of Some (Some t) \<Rightarrow> t | _ \<Rightarrow> 0)"

definition get_exe_time :: "(int option option \<times> int option option) option \<Rightarrow> int" where
  "get_exe_time exe =
     (case exe of
        None \<Rightarrow> 0
      | Some (modified, created) \<Rightarrow>
          (let m = time_or_epoch modified; c = time_or_epoch created in if c < m then m else c))"

definition get_uuid :: "bytes option \<Rightarrow> bytes \<times> bytes \<Rightarrow> app \<Rightarrow> bytes \<times> app" where
  "get_uuid machine gen a =
     (case machine of
        Some i \<Rightarrow> (i, a)
      | None \<Rightarrow> (case get_key_pair gen a of (kp, _, a1) \<Rightarrow> (snd kp, a1)))"

text \<open>Milliseconds since the epoch, 0 before it.\<close>

definition get_time :: "int \<Rightarrow> i64" where
  "get_time ms = (if ms < 0 then 0 else of_int ms)"

text \<open>The line of a build file that has the version, and the file that is written.\<close>

fun version_line :: "string list \<Rightarrow> string option" where
  "version_line [] = None"
| "version_line (l # ls) =
     (let ab = map (trim_both is_space) (split_char CHR ''='' l)
      in case ab of
           [a, b] \<Rightarrow> if a = ''version'' then Some b else version_line ls
         | _ \<Rightarrow> version_line ls)"

definition gen_version :: "string \<Rightarrow> string \<Rightarrow> string" where
  "gen_version cargo_toml build_date =
     (case version_line (str_lines cargo_toml) of
        Some v \<Rightarrow> ''pub const VERSION: &str = '' @ v @ '';'' @ [char_of (10 :: nat)]
      | None \<Rightarrow> '''')
     @ ''#[allow(dead_code)]'' @ [char_of (10 :: nat)] @ ''pub const BUILD_DATE: &str = '' @ [CHR 0x22] @ build_date
     @ [CHR 0x22] @ '';'' @ [char_of (10 :: nat)]"

subsection \<open>What they promise\<close>

text \<open>The block of the test always lies in the picture, so each of its pixels is written, within 32 bits.\<close>

lemma block_inside:
  assumes "y < AV1_BLOCK" and "x < AV1_BLOCK"
  shows "block_index i y x + 3 < AV1_WIDTH * AV1_HEIGHT * 4" and "block_index i y x < 2 ^ 32"
proof -
  define x0 where "x0 = i * 50 mod 1620"
  define y0 where "y0 = i * 50 mod 780"
  have xy: "x0 + x < 1920" "y0 + y \<le> 1079"
    using assms mod_less_divisor [of 1620 "i * 50"] mod_less_divisor [of 780 "i * 50"]
    by (simp_all add: x0_def y0_def AV1_BLOCK_def)
  have b: "block_index i y x = ((y0 + y) * 1920 + (x0 + x)) * 4"
    by (simp add: block_index_def Let_def x0_def y0_def AV1_WIDTH_def AV1_HEIGHT_def AV1_BLOCK_def AV1_STEP_def)
  have "(y0 + y) * 1920 \<le> 1079 * 1920" using xy(2) by simp
  then have "(y0 + y) * 1920 + (x0 + x) < 1080 * 1920" using xy(1) by linarith
  then show "block_index i y x + 3 < AV1_WIDTH * AV1_HEIGHT * 4" and "block_index i y x < 2 ^ 32"
    by (simp_all add: b AV1_WIDTH_def AV1_HEIGHT_def)
qed

lemma fake_picture_length: "length (fake_picture value i) = AV1_WIDTH * AV1_HEIGHT * 4"
proof -
  have "length (fold (\<lambda>(y, x). write_pixel (f y x) (g y x)) ps b) = length b"
    for f :: "nat \<Rightarrow> nat \<Rightarrow> nat" and g ps b
    by (induction ps arbitrary: b) (auto simp: write_pixel_def)
  then show ?thesis unfolding fake_picture_def by (simp only: length_replicate)
qed

lemma av1_loop_later:
  "0 < i \<Longrightarrow> av1_loop i rs (k, t) = (if list_all ar_data rs then Some (k, t + sum_list (map ar_nanos rs)) else None)"
  by (induction rs arbitrary: i t) auto

text \<open>The verdict of the AV1 test: the codec is declared fast enough exactly if an encoder could be made,
  all ten pictures were converted, the first one was encoded in less than 90 ms, and the other nine
  took less than 30 ms on average, whether or not encoding them succeeded.\<close>

theorem av1_verdict_iff:
  "av1_verdict created rounds \<longleftrightarrow>
     created \<and> list_all (\<lambda>i. ar_data (rounds i)) [0..<10] \<and> ar_encoded (rounds 0) \<and> ar_nanos (rounds 0) < 90 * 10 ^ 6 \<and>
     sum_list (map (\<lambda>i. ar_nanos (rounds i)) [1..<10]) div 9 < 30 * 10 ^ 6"
proof -
  define later where "later = map rounds [1..<10]"
  have u: "[0..<10] = 0 # [1..<10 :: nat]" by (simp add: upt_conv_Cons)
  have r: "map rounds [0..<AV1_FRAMES] = rounds 0 # later" by (simp only: AV1_FRAMES_def u list.map later_def)
  have s: "sum_list (map (\<lambda>i. ar_nanos (rounds i)) [1..<10]) = sum_list (map ar_nanos later)"
    by (simp only: later_def map_map comp_def)
  have d: "list_all (\<lambda>i. ar_data (rounds i)) [0..<10] \<longleftrightarrow> ar_data (rounds 0) \<and> list_all ar_data later"
    by (simp add: u later_def list.pred_map comp_def del: upt_rec_numeral)
  have loop: "av1_loop 0 (rounds 0 # later) (0, 0) =
      (if ar_data (rounds 0) \<and> ar_encoded (rounds 0) \<and> list_all ar_data later
       then Some (ar_nanos (rounds 0), sum_list (map ar_nanos later)) else None)"
    by (simp add: av1_loop_later)
  show ?thesis unfolding av1_verdict_def r s d loop by (simp add: AV1_FRAMES_def) blast
qed

text \<open>Failing to encode any picture but the first counts as encoding it in no time.\<close>

lemma failed_pictures_count_as_fast:
  "av1_verdict True (\<lambda>i. \<lparr>ar_data = True, ar_encoded = (i = 0), ar_nanos = 1\<rparr>)"
  by (simp add: av1_verdict_def AV1_FRAMES_def upt_conv_Cons)

text \<open>Once there is a verdict the test is not run again, in this process or a later one.\<close>

lemma test_av1_once:
  "config_get_option a OPTION_AV1_TEST \<noteq> '''' \<Longrightarrow> test_av1 cr e v (once, a) = (once, a)"
  "test_av1 cr e v (True, a) = (True, a)"
  by (simp_all add: test_av1_def)

text \<open>The child is given 30 seconds at most, and is always killed and asked for at the end.\<close>

lemma wait_loop_bound:
  "sum_list (map (\<lambda>e. case e of Sleep_ms n \<Rightarrow> n | _ \<Rightarrow> 0) (wait_loop k n exited)) \<le> 1000 * k"
  "set (wait_loop k n exited) \<subseteq> {Sleep_ms 1000, Try_wait}"
  by (induction k arbitrary: n) auto

lemma check_process_ends:
  "sum_list (map (\<lambda>e. case e of Sleep_ms n \<Rightarrow> n | _ \<Rightarrow> 0) (check_process True True exited last_try)) \<le> 30030"
  "count_list (check_process True True exited last_try) Kill = 1"
proof -
  have "count_list (wait_loop k n exited) Kill = 0" for k n
    using wait_loop_bound(2) [of k n exited] by (auto simp: count_list_0_iff)
  then show "count_list (check_process True True exited last_try) Kill = 1" by (simp add: check_process_def)
  show "sum_list (map (\<lambda>e. case e of Sleep_ms n \<Rightarrow> n | _ \<Rightarrow> 0) (check_process True True exited last_try)) \<le> 30030"
    using wait_loop_bound(1) [of 30 0 exited] by (simp add: check_process_def)
qed

text \<open>The first line of the form \<^verbatim>\<open>version = ...\<close> decides; a value with an equals sign is passed over.\<close>

lemma demo_version:
  "gen_version (''[package]'' @ [char_of (10 :: nat)] @ ''name = 1'' @ [char_of (10 :: nat)] @ ''version = 2'') ''d''
   = ''pub const VERSION: &str = 2;'' @ [char_of (10 :: nat)] @ gen_version '''' ''d''"
  by code_simp

end
