(* ===== verification/Spec2Isabelle.thy ===== *)
theory Spec2Isabelle
  imports ServerProps AddrMangle ConfigStore JobProps FsTree VideoProps HostProps ProxyProps PeerProps Books RecorderProps
    ServerLiveness TcpProps EncoderProps CaptureProps DisplaysProps PortalProps
    LinuxProps Paths VramProps DecodedImage Platform HandleProps DuplicationProps OptionKeys Probes
begin

text \<open>
  Controller Server: a verification development of the repository's Rust code.

  The program turns packets from the network into reports of virtual gamepads on a Windows bus
  driver. It is a Tauri application (\<^verbatim>\<open>src-tauri/src\<close>) that brings two libraries along:
  \<^verbatim>\<open>libs/hbb_common\<close> (configuration, framing, encryption, proxies, file transfer) and
  \<^verbatim>\<open>libs/scrap\<close> (screen capture, video codecs, recording). Paths below are relative to
  \<^verbatim>\<open>src/src-tauri\<close>.

  \<^bold>\<open>How the model reads.\<close> A struct is a \<^verbatim>\<open>record\<close> with the fields of the source, an enum a
  \<^verbatim>\<open>datatype\<close>, a machine integer a word, a global lock a field of an explicit state, an
  \<^verbatim>\<open>async\<close> function a function on that state. \<^verbatim>\<open>Result\<close> is a sum (\<open>Inl\<close> the error), \<^verbatim>\<open>Option\<close>
  an option, and where a function can panic its result is one more option (\<open>None\<close> the panic) or a
  pair with a flag. Where a build with overflow checks differs from a release build the argument
  \<open>checks\<close> tells them apart; elsewhere words wrap as in a release build. Clocks, random numbers and
  the answers of the operating system are arguments.

  \<^bold>\<open>Foundations.\<close>
  \<^item> \<open>Prelude\<close>: names of integer types, little-endian bytes, results, list lemmas, the collections
    \<open>le_simps\<close>, \<open>slot_simps\<close>, \<open>opt_simps\<close>.
  \<^item> \<open>Utf8\<close>, \<open>Text\<close>, \<open>Net\<close>, \<open>Rx\<close>: Rust's strings, parsing of numbers, socket addresses,
    regular expressions by derivatives with their language.
  \<^item> \<open>Single\<close>, \<open>SingleProps\<close>: the arithmetic of \<^verbatim>\<open>f32\<close> on numbers that are not negative, and
    its rounding error.

  \<^bold>\<open>The controller server.\<close>
  \<^item> \<open>PadTypes\<close> (\<^verbatim>\<open>src/types.rs\<close>): constants, control codes, the gamepad report and its bytes.
  \<^item> \<open>VBusDriver\<close> (\<^verbatim>\<open>src/vbus/driver.rs\<close>): the trait \<^verbatim>\<open>ControllerDevice\<close> as a record of operations,
    its contract as the locale \<open>controller_device\<close>, and the bus driver as the interpretation \<open>vb\<close>.
  \<^item> \<open>ControllerServer\<close> (\<^verbatim>\<open>src/handler/server.rs\<close>, \<^verbatim>\<open>src/handler/mod.rs\<close>): slots, client list,
    the packet handler \<open>handle_datagram\<close>, the auto-disconnect task, start and stop.
  \<^item> \<open>ServerInvariants\<close>, \<open>ServerRun\<close>, \<open>ServerSessions\<close>, \<open>ServerProps\<close>, \<open>ServerLiveness\<close>: the
    invariant, the runs of the server as a step relation, the abstract table of sessions, that the
    receive loop refines it, who owns a session, and when a silent client loses its slots.
  \<^item> \<open>TcpPad\<close>, \<open>TcpProps\<close> (\<^verbatim>\<open>src/handler/client.rs\<close>, \<^verbatim>\<open>src/old.rs\<close>): the TCP controller that
    the UDP server replaced. No module names these files, so they are not compiled.

  \<^bold>\<open>Transport\<close> (\<^verbatim>\<open>libs/hbb_common/src\<close>).
  \<^item> \<open>BytesCodec\<close> (\<^verbatim>\<open>bytes_codec.rs\<close>): the framing. The locales \<open>frame_codec\<close> and \<open>framed_pair\<close> are
    what a framed stream relies on: reading does not depend on how the bytes are cut into chunks.
  \<^item> \<open>SecretStream\<close>, \<open>Sockets\<close> (\<^verbatim>\<open>tcp.rs\<close>, \<^verbatim>\<open>udp.rs\<close>): the encrypted stream with its nonces and
    its handshake; creating, binding and connecting sockets.
  \<^item> \<open>AddrMangle\<close>, \<open>Hosts\<close>, \<open>HostProps\<close> (\<^verbatim>\<open>lib.rs\<close>, \<^verbatim>\<open>socket_client.rs\<close>): mangled addresses,
    host and port strings, validators, version numbers.
  \<^item> \<open>Proxy\<close>, \<open>ProxyProps\<close>, \<open>SocketClient\<close> (\<^verbatim>\<open>proxy.rs\<close>, \<^verbatim>\<open>socket_client.rs\<close>): proxy URLs, the
    CONNECT exchange, SOCKS, and which way a connection takes.

  \<^bold>\<open>Configuration\<close> (\<^verbatim>\<open>libs/hbb_common/src/config.rs\<close>, \<^verbatim>\<open>password_security.rs\<close>).
  \<^item> \<open>ConfigState\<close>, \<open>ConfigStore\<close>, \<open>Settings\<close>, \<open>OptionKeys\<close>: the structs and their files, identity,
    keys and trusted devices, the layers of options (locale \<open>settings_layer\<close>, interpretations
    \<open>conf\<close>, \<open>loc\<close>, \<open>dflt\<close>), and the names of the options.
  \<^item> \<open>Passwords\<close>: passwords and secrets at rest.
  \<^item> \<open>Toml\<close>, \<open>PeerFields\<close>, \<open>PeerConfigs\<close>, \<open>PeerProps\<close>: how serde maps values to structs (locale
    \<open>toml_codec\<close> with one interpretation per type), and the configuration of each peer.
  \<^item> \<open>Books\<close>, \<open>Paths\<close>, \<open>Probes\<close>: address book, group, LAN peers (also \<^verbatim>\<open>compress.rs\<close> and
    \<^verbatim>\<open>keyboard.rs\<close>); where the files are; times, machine identity and the version file (\<^verbatim>\<open>lib.rs\<close>).

  \<^bold>\<open>File transfer\<close> (\<^verbatim>\<open>libs/hbb_common/src/fs.rs\<close>).
  \<^item> \<open>FileStore\<close>: a file system with inodes and open handles, so that renaming a file that is being
    written behaves as it does.
  \<^item> \<open>FileJobs\<close>, \<open>JobFlow\<close>, \<open>JobReceive\<close>, \<open>JobProps\<close>: \<^verbatim>\<open>TransferJob\<close>, \<^verbatim>\<open>handle_read_jobs\<close>, what both
    sides do together, and that a transfer delivers and ends.
  \<^item> \<open>FsTree\<close>: listings and the removal of empty directories.

  \<^bold>\<open>Video\<close> (\<^verbatim>\<open>libs/scrap/src/common\<close>).
  \<^item> \<open>ScrapCommon\<close>, \<open>Convert\<close>, \<open>ConvertProps\<close>, \<open>DecodedImage\<close> (\<^verbatim>\<open>mod.rs\<close>, \<^verbatim>\<open>convert.rs\<close>, the pictures
    of \<^verbatim>\<open>hwcodec.rs\<close> and \<^verbatim>\<open>mediacodec.rs\<close>): conversions as the list of libyuv's calls, with the
    buffers and strides each is given.
  \<^item> \<open>VideoCodec\<close>, \<open>VideoProps\<close> (\<^verbatim>\<open>codec.rs\<close>): the negotiation of the codec and the decoders.
  \<^item> \<open>Encoders\<close>, \<open>HwCodec\<close>, \<open>Vram\<close>, \<open>EncoderProps\<close>, \<open>VramProps\<close> (\<^verbatim>\<open>vpxcodec.rs\<close>, \<^verbatim>\<open>aom.rs\<close>,
    \<^verbatim>\<open>hwcodec.rs\<close>, \<^verbatim>\<open>vram.rs\<close>): four encoders with one contract, the locale \<open>encoder_api\<close>, interpreted
    as \<open>vpx\<close>, \<open>aom\<close>, \<open>hw\<close> and \<open>vram\<close>.
  \<^item> \<open>Recorder\<close>, \<open>RecorderProps\<close> (\<^verbatim>\<open>record.rs\<close>): recording to files.
  \<^item> \<open>Probes\<close>: the speed test of AV1 and the process that looks for hardware codecs.

  \<^bold>\<open>Capture\<close> (\<^verbatim>\<open>libs/scrap/src\<close>).
  \<^item> \<open>Capture\<close>, \<open>CaptureProps\<close>: pixel buffers, the PipeWire recorder and its cropping, Android.
  \<^item> \<open>Displays\<close>, \<open>DisplaysProps\<close>: enumerating displays, the fallback of DXGI to GDI, X11's screens.
  \<^item> \<open>Duplication\<close>, \<open>DuplicationProps\<close> (\<^verbatim>\<open>dxgi/mod.rs\<close>): acquiring, mapping and releasing frames,
    and turning rotated displays in video memory.
  \<^item> \<open>Handles\<close>, \<open>HandleProps\<close> (\<^verbatim>\<open>dxgi/gdi.rs\<close>, \<^verbatim>\<open>dxgi/mag.rs\<close>, \<^verbatim>\<open>x11\<close>): what the capturers open and
    close, on a ledger of the system's resources. The locales \<open>leaky_owner\<close> and \<open>owner\<close> say that a
    value owns its resources, without and with the guarantee that a failed constructor keeps
    nothing; the interpretations are \<open>gdi\<close>, \<open>mag\<close> and \<open>shm\<close>.
  \<^item> \<open>Portal\<close>, \<open>PortalProps\<close> (\<^verbatim>\<open>wayland/pipewire.rs\<close>): the screen-cast session of the portal.

  \<^bold>\<open>Platform\<close> (\<^verbatim>\<open>libs/hbb_common/src/platform\<close>): \<open>LinuxSession\<close>, \<open>LinuxProps\<close> (sessions and seats
  from the output of \<^verbatim>\<open>loginctl\<close>) and \<open>Platform\<close> (the processor monitor, the crash handler).

  \<^bold>\<open>How the parts meet.\<close> The server drives the device through \<open>controller_device\<close>. A proxied
  connection hands the bytes behind the header to the framed stream (\<open>proxied_stream_delivers\<close>), an
  encrypted one seals what the framing carries (\<open>secured_delivery\<close>). Peer configurations take their
  defaults from \<open>Settings\<close> and their secrets from \<open>Passwords\<close>. A captured picture goes through
  \<open>Convert\<close> into the encoder (\<open>converted_picture_fits_encoder\<close>), a Wayland sample through
  cropping into the conversion (\<open>wayland_pictures_convert\<close>). A disabled hardware encoder is left
  out of the negotiation (\<open>disabled_hardware_is_not_chosen\<close>).
\<close>

text \<open>
  \<^bold>\<open>What is assumed of code that is not here.\<close> Each assumption is a parameter or a named hypothesis,
  and every property that has one also has a concrete instance of it.
  \<^item> Windows: the record \<open>winapi\<close>, without laws. The answers of DXGI, Direct3D, GDI, the X server
    and the desktop portal are arguments or events. A call that closes a handle succeeds.
  \<^item> sodiumoxide: \<open>secretbox_laws\<close> and \<open>crypto_laws\<close>: what is sealed under a key and a nonce opens
    under them.
  \<^item> zstd: a decoder that inverts its encoder, where a property needs it.
  \<^item> libvpx and libaom: \<open>google_laws\<close> (a configuration that is accepted is in force, other calls keep it) and \<open>img_laws\<close> (sizes of
    more than 16 bits are refused, the layout of a wrapped image). libyuv: the bytes a call reads and writes, given strides and size;
    \<open>moves_pixels\<close> for what the rotations do. FFmpeg's pictures: \<open>hw_image_ok\<close>.
  \<^item> url, base64, httparse, TLS and tokio-socks: the record \<open>proxy_env\<close>. D-Bus values: the
    interface of the crate dbus. Files of confy hold values, not text.
  \<^item> Features, options and platform: the records \<open>codec_env\<close>, \<open>hw_env\<close>, \<open>linux_env\<close>; the answers of
    the muxers: \<open>rec_env\<close>.

  \<^bold>\<open>Bounds and fuel.\<close> Reading a framed stream (\<open>drain\<close>) has fuel of one more than the buffered bytes;
  each frame takes at least one of them, and \<open>drain_fuel\<close> shows that more fuel gives the same.
  Collecting the displays of DXGI has fuel and is \<open>None\<close> if it does not suffice. The portal waits for at
  most 1800 passes and the process that looks for codecs for 30, as the source says. All other loops
  end by a measure: the bytes or characters left, the files and bytes left to read, the screens left.

  \<^bold>\<open>Not modelled.\<close>
  \<^item> Concurrency within a handler: handlers are atomic, and a run is a sequence of them. In particular
    \<^verbatim>\<open>stop\<close> finds the tasks of the server waiting. A second start under a changed address is left out.
  \<^item> Start-up and the user interface: \<^verbatim>\<open>src/main.rs\<close>, the window and the registration of commands in
    \<^verbatim>\<open>src/lib.rs\<close>, build scripts: calls without state of their own. Logging and printing.
  \<^item> Foreign-function declarations and the thin wrappers around them: \<^verbatim>\<open>quartz/ffi.rs\<close>,
    \<^verbatim>\<open>x11/ffi.rs\<close>, the iterators over decoded frames, the Java side of \<^verbatim>\<open>android/ffi.rs\<close>, the
    GStreamer pipeline, and the generated bindings of the portal (\<^verbatim>\<open>wayland/*_portal.rs\<close>): their meaning
    is the foreign code's.
  \<^item> Text of files: TOML (confy) and JSON (serde_json). The JSON log line of a transfer and the
    listing of Windows drives in \<^verbatim>\<open>fs.rs\<close>. The raw allocation of \<^verbatim>\<open>mem.rs\<close>.
  \<^item> The macOS alert and the raw version calls of \<^verbatim>\<open>platform\<close>; time-outs of the async runtime.
  \<^item> The driver functions of \<^verbatim>\<open>src/old.rs\<close> that repeat \<^verbatim>\<open>vbus/driver.rs\<close>.
\<close>

end
